(* ===== verification/Prelude.thy ===== *)
theory Prelude
  imports Main "HOL-Library.Word" "HOL-Library.Sublist" "HOL-Library.List_Lexorder"
begin

text \<open>
  Shared vocabulary of the development: the integer types the code uses at their
  width, the generic lemmas on words, lists and maps that several components share,
  and the collections of rewrite rules their proofs draw on.
\<close>

unbundle bit_operations_syntax

type_synonym u8 = "8 word"
type_synonym u16 = "16 word"

named_theorems byte_simps \<open>rules that evaluate bits of bytes and 16-bit registers\<close>
named_theorems fold_simps \<open>rules that unfold loops written as folds\<close>

section \<open>Words\<close>

lemma push_bit_xor_word [byte_simps]:
  fixes a b :: "'a::len word"
  shows "push_bit n (a XOR b) = push_bit n a XOR push_bit n b"
  by (rule bit_eqI) (auto simp: bit_simps)

lemma xor_left_cancel_word [simp]:
  fixes a b c :: "'a::len word"
  shows "a XOR b = a XOR c \<longleftrightarrow> b = c"
  by (metis xor.assoc xor_self_eq xor.left_neutral)

lemma xor_eq_0_word [simp]:
  fixes a b :: "'a::len word"
  shows "a XOR b = 0 \<longleftrightarrow> a = b"
  by (metis xor_left_cancel_word xor_self_eq)

lemma u16_eqI:
  fixes a b :: u16
  assumes "\<And>n. n < 16 \<Longrightarrow> bit a n = bit b n"
  shows "a = b"
  using assms by (intro bit_word_eqI) simp

lemma bit_u16_ge [simp]: "16 \<le> n \<Longrightarrow> \<not> bit (a :: u16) n"
  using bit_imp_le_length [of a n] by auto

lemma bit_u8_ge [simp]: "8 \<le> n \<Longrightarrow> \<not> bit (a :: u8) n"
  using bit_imp_le_length [of a n] by auto

lemma unat_u8_less [simp]: "unat (w :: u8) < 256"
  using unsigned_less [of w, where 'a = nat] by simp

lemma unat_u16_less [simp]: "unat (w :: u16) < 65536"
  using unsigned_less [of w, where 'a = nat] by simp

lemma unat_ucast_u8_u16 [simp]: "unat (ucast (w :: u8) :: u16) = unat w"
proof -
  have "unat w < 2 ^ 16" using unat_u8_less [of w] by (rule order.strict_trans) simp
  then show ?thesis by (simp add: unsigned_ucast_eq take_bit_nat_eq_self)
qed

lemma of_nat_unat_u8 [simp]: "(of_nat (unat (w :: u8)) :: u16) = ucast w"
  by (metis of_nat_unat unat_ucast_u8_u16 ucast_id)

lemma bit_ucast_u8_u16 [byte_simps]: "bit (ucast (b :: u8) :: u16) n = bit b n"
  by (cases "n < 8") (simp_all add: bit_ucast_iff)

lemma bit_push_bit_u16 [byte_simps]:
  "bit (push_bit k (a :: u16)) n \<longleftrightarrow> k \<le> n \<and> n < 16 \<and> bit a (n - k)"
  by (auto simp: bit_simps)

lemma bit_double_u16 [byte_simps]:
  "bit ((a :: u16) * 2) n \<longleftrightarrow> 0 < n \<and> n < 16 \<and> bit a (n - 1)"
proof -
  have "a * 2 = push_bit 1 a" by (simp add: push_bit_eq_mult)
  then show ?thesis by (auto simp only: bit_push_bit_u16)
qed

section \<open>Lists\<close>

lemma foldl_map [fold_simps]: "foldl f a (map g xs) = foldl (\<lambda>s x. f s (g x)) a xs"
  by (induction xs arbitrary: a) simp_all

lemma foldl_upt_Suc [fold_simps]:
  "foldl f a [0..<Suc n] = f (foldl f a [0..<n]) n"
  by simp

lemma length_ge_2_snoc:
  assumes "2 \<le> length xs"
  obtains m a b where "xs = m @ [a, b]"
proof (cases xs rule: rev_cases)
  case (snoc ys b)
  with assms show ?thesis
    using that by (cases ys rule: rev_cases) auto
qed (use assms in simp)

lemma foldl_invariant:
  assumes "P a" "\<And>s x. P s \<Longrightarrow> x \<in> set xs \<Longrightarrow> P (f s x)"
  shows "P (foldl f a xs)"
  using assms by (induction xs arbitrary: a) auto

lemma foldl_length_list_update [simp]:
  "length (foldl (\<lambda>t i. t[i := f i]) t is) = length t"
  by (induction "is" arbitrary: t) simp_all

lemma foldl_list_update_upt:
  "n \<le> length t \<Longrightarrow>
   foldl (\<lambda>t i. t[i := f i]) t [0..<n] = map f [0..<n] @ drop n t"
proof (induction n)
  case (Suc n)
  then have "drop n t = t ! n # drop (Suc n) t"
    by (simp add: Cons_nth_drop_Suc)
  with Suc show ?case by (simp add: list_update_append)
qed simp

end
