(* ===== verification/Crc16.thy ===== *)
theory Crc16
  imports Prelude
begin

text \<open>
  The CRC of the base class \<open>Communication::Client\<close> (\<open>src/src/com_client.cpp\<close>):
  the lookup table \<open>s_crctable\<close> built once by \<open>mk_crctable\<close>, the
  table-driven \<open>CRC\<close> and the frame test \<open>check_CRC\<close>.
  A reference definition, the bit-serial shift register, gives the algebra:
  the table-driven loop equals it, the CRC is linear, a frame with its CRC
  appended always passes, and every burst of at most 16 bits and every odd number
  of flipped bits is detected.
\<close>

section \<open>The lookup table\<close>

text \<open>
  The inner loop of \<open>mk_crctable\<close>: \<open>for(int i = 8; i > 0; i--)\<close> on the two
  16-bit variables \<open>d\<close> and \<open>accum\<close>.
\<close>

fun mk_crctable_bits :: "u16 \<Rightarrow> nat \<Rightarrow> u16 \<Rightarrow> u16 \<Rightarrow> u16" where
  "mk_crctable_bits genpoly 0 d accum = accum"
| "mk_crctable_bits genpoly (Suc i) d accum =
     mk_crctable_bits genpoly i (push_bit 1 d)
       (if (d XOR accum) AND 0x8000 \<noteq> 0 then push_bit 1 accum XOR genpoly
        else push_bit 1 accum)"

text \<open>The outer loop: \<open>for(uint16_t data = 0; data < 256; data++)\<close> fills the static array.\<close>

definition mk_crctable_fill :: "u16 \<Rightarrow> u16 list \<Rightarrow> u16 list" where
  "mk_crctable_fill genpoly tbl =
     foldl (\<lambda>t data. t[data := mk_crctable_bits genpoly 8 (push_bit 8 (of_nat data)) 0])
       tbl [0..<256]"

text \<open>
  The function-local \<open>static bool once\<close> runs the lambda on the first call only, so a
  later call keeps the table of the first polynomial. The log line is chosen by the
  value of \<open>once\<close>, which the lambda always returns as true.
\<close>

record crc_static =
  s_crctable :: "u16 list"
  once :: "bool option"

definition crc_static0 :: crc_static where
  "crc_static0 = \<lparr>s_crctable = replicate 256 0, once = None\<rparr>"

datatype crctable_log = CRC_table_created | CRC_table_already_created

definition mk_crctable :: "u16 \<Rightarrow> crc_static \<Rightarrow> crctable_log \<times> crc_static" where
  "mk_crctable genpoly st =
     (let st' = (case once st of
          None \<Rightarrow> st\<lparr>s_crctable := mk_crctable_fill genpoly (s_crctable st), once := Some True\<rparr>
        | Some _ \<Rightarrow> st)
      in (if once st' = Some True then CRC_table_created else CRC_table_already_created, st'))"

definition default_genpoly :: u16 where
  "default_genpoly = 0x1021"

definition crctable :: "u16 list" where
  "crctable = s_crctable (snd (mk_crctable default_genpoly crc_static0))"

section \<open>CRC and check_CRC\<close>

definition crc_step :: "u16 list \<Rightarrow> u16 \<Rightarrow> u8 \<Rightarrow> u16" where
  "crc_step tbl acc b = push_bit 8 acc XOR tbl ! unat (drop_bit 8 acc XOR ucast b)"

definition swap16 :: "u16 \<Rightarrow> u16" where
  "swap16 a = drop_bit 8 a OR push_bit 8 a"

text \<open>
  \<open>CRC(buf, n)\<close> reads the first \<open>n\<close> bytes (none when \<open>n\<close> is not
  positive); a read past the buffer is \<open>None\<close>.
\<close>

definition CRC :: "u16 list \<Rightarrow> u8 list \<Rightarrow> int \<Rightarrow> u16 option" where
  "CRC tbl buf n =
     (if nat n \<le> length buf
      then Some (swap16 (foldl (crc_step tbl) 0 (take (nat n) buf))) else None)"

text \<open>
  The cast \<open>*(uint16_t *)(buffer + size - 2)\<close> reads two bytes in the byte order of
  the host, which is a parameter here.
\<close>

datatype endian = Little | Big

fun load16 :: "endian \<Rightarrow> u8 \<Rightarrow> u8 \<Rightarrow> u16" where
  "load16 Little b0 b1 = ucast b0 OR push_bit 8 (ucast b1)"
| "load16 Big b0 b1 = push_bit 8 (ucast b0) OR ucast b1"

fun store16 :: "endian \<Rightarrow> u16 \<Rightarrow> u8 list" where
  "store16 Little w = [ucast w, ucast (drop_bit 8 w)]"
| "store16 Big w = [ucast (drop_bit 8 w), ucast w]"

text \<open>\<open>None\<close>: the size reaches outside the buffer, where the behaviour is undefined.\<close>

definition check_CRC :: "endian \<Rightarrow> u16 list \<Rightarrow> u8 list \<Rightarrow> int \<Rightarrow> bool option" where
  "check_CRC en tbl buf sz =
     (if sz < 2 \<or> int (length buf) < sz then None
      else case CRC tbl buf (sz - 2) of
          None \<Rightarrow> None
        | Some c \<Rightarrow> Some (c = load16 en (buf ! nat (sz - 2)) (buf ! nat (sz - 1))))"

section \<open>The reference: a bit-serial shift register\<close>

text \<open>
  Division of the message by \<open>x^16 + g\<close> over the two-element field, one message bit
  at a time, most significant bit first.
\<close>

definition crc_shift :: "u16 \<Rightarrow> u16 \<Rightarrow> u16" where
  "crc_shift g r = push_bit 1 r XOR (if bit r 15 then g else 0)"

definition crc_bit :: "u16 \<Rightarrow> u16 \<Rightarrow> bool \<Rightarrow> u16" where
  "crc_bit g r b = push_bit 1 r XOR (if bit r 15 \<noteq> b then g else 0)"

definition byte_bits :: "u8 \<Rightarrow> bool list" where
  "byte_bits b = map (\<lambda>k. bit b (7 - k)) [0..<8]"

definition msg_bits :: "u8 list \<Rightarrow> bool list" where
  "msg_bits buf = concat (map byte_bits buf)"

definition crc_serial :: "u16 \<Rightarrow> u16 \<Rightarrow> bool list \<Rightarrow> u16" where
  "crc_serial g r bs = foldl (crc_bit g) r bs"

section \<open>The shift register is linear and invertible\<close>

lemma bit_crc_shift [byte_simps]:
  "bit (crc_shift g r) n \<longleftrightarrow> n < 16 \<and> ((0 < n \<and> bit r (n - 1)) \<noteq> (bit r 15 \<and> bit g n))"
  by (cases "n < 16") (auto simp: crc_shift_def byte_simps bit_simps)

lemma crc_shift_xor: "crc_shift g (x XOR y) = crc_shift g x XOR crc_shift g y"
  by (rule u16_eqI) (auto simp: bit_crc_shift bit_simps)

lemma crc_shift_0 [simp]: "crc_shift g 0 = 0"
  by (simp add: crc_shift_def)

lemma crc_shift_pow_xor:
  "(crc_shift g ^^ k) (x XOR y) = (crc_shift g ^^ k) x XOR (crc_shift g ^^ k) y"
  by (induction k) (simp_all add: crc_shift_xor)

lemma crc_shift_no_carry:
  "\<not> bit r 15 \<Longrightarrow> crc_shift g r = push_bit 1 r"
  by (simp add: crc_shift_def)

text \<open>While the top bits are zero, \<open>k\<close> steps are a plain shift.\<close>

lemma crc_shift_pow_low:
  assumes "\<And>n. 8 \<le> n \<Longrightarrow> \<not> bit x n" "k \<le> 8"
  shows "(crc_shift g ^^ k) x = push_bit k x"
  using assms(2)
proof (induction k)
  case (Suc k)
  then have "\<not> bit (push_bit k x) 15"
    using assms(1) [of "15 - k"] by (simp add: byte_simps)
  with Suc show ?case
    by (simp add: crc_shift_no_carry push_bit_push_bit)
qed simp

lemma bit_top_mask: "bit (if b then 0x8000 else 0 :: u16) n \<longleftrightarrow> b \<and> n = 15"
proof -
  have "(0x8000 :: u16) = push_bit 15 1" by simp
  then have "bit (0x8000 :: u16) n \<longleftrightarrow> n = 15"
    by (simp only: bit_push_bit_u16) (auto simp: bit_1_iff)
  then show ?thesis by simp
qed

lemma crc_bit_eq_shift: "crc_bit g r b = crc_shift g (r XOR (if b then 0x8000 else 0))"
proof (rule u16_eqI)
  fix n :: nat
  assume "n < 16"
  then have n: "n - 1 \<noteq> 15" by simp
  show "bit (crc_bit g r b) n
      = bit (crc_shift g (r XOR (if b then 0x8000 else 0))) n"
    unfolding crc_bit_def bit_crc_shift bit_xor_iff bit_top_mask
    using n \<open>n < 16\<close> by (auto simp: byte_simps)
qed

section \<open>The table holds the remainders of the bytes\<close>

lemma top_bit_test: "(w :: u16) AND 0x8000 \<noteq> 0 \<longleftrightarrow> bit w 15"
proof -
  have "(0x8000 :: u16) = push_bit 15 1" by simp
  then show ?thesis by (metis and_exp_eq_0_iff_not_bit push_bit_of_1)
qed

lemma mk_crctable_bits_shift:
  "push_bit i d XOR mk_crctable_bits g i d a = (crc_shift g ^^ i) (d XOR a)"
proof (induction i arbitrary: d a)
  case (Suc i)
  let ?a' = "if (d XOR a) AND 0x8000 \<noteq> 0 then push_bit 1 a XOR g else push_bit 1 a"
  have *: "push_bit 1 d XOR ?a' = crc_shift g (d XOR a)"
    by (simp add: top_bit_test crc_shift_def push_bit_xor_word xor.assoc)
  have "push_bit (Suc i) d XOR mk_crctable_bits g (Suc i) d a
      = push_bit i (push_bit 1 d) XOR mk_crctable_bits g i (push_bit 1 d) ?a'"
    by (simp add: push_bit_push_bit)
  also have "\<dots> = (crc_shift g ^^ i) (push_bit 1 d XOR ?a')"
    by (rule Suc.IH)
  finally show ?case
    by (simp only: * funpow_Suc_right o_apply)
qed simp

lemma mk_crctable_bits_byte:
  "mk_crctable_bits g 8 (push_bit 8 d) 0 = (crc_shift g ^^ 8) (push_bit 8 d)"
proof -
  have "push_bit 8 (push_bit 8 d) = 0"
    by (rule u16_eqI) (simp add: byte_simps)
  with mk_crctable_bits_shift [of 8 "push_bit 8 d" g 0] show ?thesis by simp
qed

lemma mk_crctable_fill_eq:
  "length t = 256 \<Longrightarrow>
   mk_crctable_fill g t = map (\<lambda>i. (crc_shift g ^^ 8) (push_bit 8 (of_nat i))) [0..<256]"
  unfolding mk_crctable_fill_def
  by (subst foldl_list_update_upt) (simp_all add: mk_crctable_bits_byte)

definition table_for :: "u16 \<Rightarrow> u16 list \<Rightarrow> bool" where
  "table_for g tbl \<longleftrightarrow>
     length tbl = 256 \<and> (\<forall>i<256. tbl ! i = (crc_shift g ^^ 8) (push_bit 8 (of_nat i)))"

lemma table_for_fill: "length t = 256 \<Longrightarrow> table_for g (mk_crctable_fill g t)"
  by (simp add: table_for_def mk_crctable_fill_eq)

lemma table_for_crctable: "table_for default_genpoly crctable"
  by (simp add: crctable_def mk_crctable_def crc_static0_def table_for_fill)

lemma table_for_nth:
  "table_for g tbl \<Longrightarrow> tbl ! unat (ucast (w :: u8) :: u16) = (crc_shift g ^^ 8) (push_bit 8 (ucast w))"
proof -
  assume t: "table_for g tbl"
  then show ?thesis by (simp add: table_for_def)
qed

section \<open>The table-driven loop is the shift register\<close>

lemma crc_step_table:
  assumes "table_for g tbl"
  shows "crc_step tbl acc b = (crc_shift g ^^ 8) (acc XOR push_bit 8 (ucast b))"
proof -
  define hi :: u8 where "hi = ucast (drop_bit 8 acc)"
  define lo :: u16 where "lo = acc AND 0xFF"
  have bit_lo: "bit lo n \<longleftrightarrow> n < 8 \<and> bit acc n" for n
  proof -
    have mask: "(0xFF :: u16) = mask 8" by (simp add: mask_eq_exp_minus_1)
    show ?thesis unfolding lo_def mask by (auto simp: bit_and_iff bit_mask_iff)
  qed
  have idx: "drop_bit 8 acc XOR ucast b = (ucast (hi XOR b) :: u16)"
    by (rule u16_eqI)
      (auto simp: hi_def bit_simps dest: bit_u16_ge [THEN notE, rotated] intro: ccontr)
  have split: "acc XOR push_bit 8 (ucast b) = push_bit 8 (ucast (hi XOR b)) XOR lo"
    by (rule u16_eqI) (auto simp: bit_lo hi_def bit_simps)
  have shift: "push_bit 8 acc = push_bit 8 lo"
    by (rule u16_eqI) (auto simp: bit_lo bit_simps)
  have "(crc_shift g ^^ 8) lo = push_bit 8 lo"
    by (rule crc_shift_pow_low) (simp_all add: bit_lo)
  then show ?thesis
    unfolding crc_step_def idx table_for_nth [OF assms] split crc_shift_pow_xor shift
    by (simp add: xor.commute)
qed

lemma crc_bit_shift_xor:
  "bit m 15 = b \<Longrightarrow> crc_bit g (r XOR m) b = crc_shift g r XOR push_bit 1 m"
  unfolding crc_bit_def crc_shift_def push_bit_xor_word bit_xor_iff
  by (auto simp: xor.assoc xor.commute xor.left_commute simp del: push_bit_Suc)

lemma crc_serial_byte:
  "crc_serial g r (byte_bits b) = (crc_shift g ^^ 8) (r XOR push_bit 8 (ucast b))"
proof -
  let ?B = "push_bit 8 (ucast b) :: u16"
  have "k \<le> 8 \<Longrightarrow> foldl (\<lambda>r k. crc_bit g r (bit b (7 - k))) r [0..<k]
      = (crc_shift g ^^ k) (r XOR ?B) XOR push_bit k ?B" for k
  proof (induction k)
    case (Suc k)
    have "bit (push_bit k ?B) 15 \<longleftrightarrow> bit b (7 - k)"
      using Suc.prems by (simp add: byte_simps push_bit_push_bit)
    with Suc show ?case
      by (simp add: crc_bit_shift_xor push_bit_push_bit del: push_bit_Suc)
  qed (simp add: xor.assoc)
  from this [of 8] have "crc_serial g r (byte_bits b)
      = (crc_shift g ^^ 8) (r XOR ?B) XOR push_bit 8 ?B"
    by (simp add: crc_serial_def byte_bits_def foldl_map)
  moreover have "push_bit 8 ?B = 0"
    by (rule u16_eqI) (simp add: byte_simps)
  ultimately show ?thesis by simp
qed

lemma crc_serial_append: "crc_serial g r (xs @ ys) = crc_serial g (crc_serial g r xs) ys"
  by (simp add: crc_serial_def)

lemma msg_bits_simps [simp]:
  "msg_bits [] = []" "msg_bits (b # bs) = byte_bits b @ msg_bits bs"
  "msg_bits (xs @ ys) = msg_bits xs @ msg_bits ys"
  by (simp_all add: msg_bits_def)

lemma crc_serial_Nil [simp]: "crc_serial g r [] = r"
  by (simp add: crc_serial_def)

lemma crc_loop_serial:
  "table_for g tbl \<Longrightarrow> foldl (crc_step tbl) acc buf = crc_serial g acc (msg_bits buf)"
  by (induction buf arbitrary: acc)
    (simp_all add: crc_step_table crc_serial_append crc_serial_byte)

section \<open>Linearity, and no loss of information\<close>

lemma crc_bit_linear:
  "crc_bit g (r XOR s) (a \<noteq> b) = crc_bit g r a XOR crc_bit g s b"
  unfolding crc_bit_def push_bit_xor_word bit_xor_iff
  by (cases a; cases b; cases "bit r 15"; cases "bit s 15")
    (simp_all add: xor.assoc xor.commute xor.left_commute del: push_bit_Suc)

lemma crc_serial_linear:
  "length xs = length ys \<Longrightarrow>
   crc_serial g (r XOR s) (map2 (\<noteq>) xs ys) = crc_serial g r xs XOR crc_serial g s ys"
proof (induction xs ys arbitrary: r s rule: list_induct2)
  case (Cons x xs y ys)
  have "crc_serial g (r XOR s) (map2 (\<noteq>) (x # xs) (y # ys))
      = crc_serial g (crc_bit g r x XOR crc_bit g s y) (map2 (\<noteq>) xs ys)"
    by (simp only: crc_serial_def list.map zip_Cons_Cons prod.case foldl_Cons crc_bit_linear)
  with Cons.IH show ?case by (simp add: crc_serial_def)
qed simp

lemma crc_serial_zeros: "crc_serial g r (replicate n False) = (crc_shift g ^^ n) r"
proof (induction n arbitrary: r)
  case (Suc n)
  have "crc_serial g r (replicate (Suc n) False) = crc_serial g (crc_shift g r) (replicate n False)"
    by (simp add: crc_serial_def crc_bit_eq_shift)
  with Suc show ?case by (simp only: funpow_Suc_right o_apply)
qed simp

lemma crc_shift_eq_0:
  assumes "bit g 0"
  shows "crc_shift g r = 0 \<longleftrightarrow> r = 0"
proof
  assume 0: "crc_shift g r = 0"
  then have "\<not> bit (crc_shift g r) 0" by simp
  with assms have top: "\<not> bit r 15" by (simp add: bit_crc_shift)
  show "r = 0"
  proof (rule u16_eqI)
    fix n :: nat
    assume "n < 16"
    have "\<not> bit (crc_shift g r) (Suc n)" using 0 by simp
    then have "n < 15 \<Longrightarrow> \<not> bit r n" using top by (simp add: bit_crc_shift)
    with top \<open>n < 16\<close> show "bit r n = bit 0 n"
      by (cases "n = 15") auto
  qed
qed simp

lemma crc_shift_pow_eq_0: "bit g 0 \<Longrightarrow> (crc_shift g ^^ n) r = 0 \<longleftrightarrow> r = 0"
  by (induction n) (simp_all add: crc_shift_eq_0)

text \<open>Up to sixteen message bits act on the register as one word aligned at its top.\<close>

fun pack_top :: "bool list \<Rightarrow> u16" where
  "pack_top [] = 0"
| "pack_top (b # bs) = drop_bit 1 (pack_top bs) XOR (if b then 0x8000 else 0)"

lemma bit_pack_top:
  "length bs \<le> 16 \<Longrightarrow>
   bit (pack_top bs) n \<longleftrightarrow> n < 16 \<and> 15 - n < length bs \<and> bs ! (15 - n)"
proof (induction bs arbitrary: n)
  case (Cons b bs)
  have 16: "n < 16 \<Longrightarrow> n \<noteq> 15 \<Longrightarrow> 15 - n = Suc (15 - Suc n)" by simp
  have "bit (pack_top (b # bs)) n \<longleftrightarrow> (bit (pack_top bs) (Suc n) \<noteq> (b \<and> n = 15))"
    unfolding pack_top.simps bit_xor_iff bit_top_mask by (simp add: bit_drop_bit_eq)
  with Cons 16 show ?case
    by (cases "n < 16"; cases "n = 15") auto
qed simp

lemma crc_serial_pack:
  "length bs \<le> 16 \<Longrightarrow> crc_serial g r bs = (crc_shift g ^^ length bs) (r XOR pack_top bs)"
proof (induction bs arbitrary: r)
  case (Cons b bs)
  let ?t = "if b then 0x8000 else 0 :: u16"
  have low: "\<not> bit (drop_bit 1 (pack_top bs)) 15"
    by (simp add: bit_drop_bit_eq)
  have "\<not> bit (pack_top bs) 0" using Cons.prems by (simp add: bit_pack_top)
  then have "push_bit 1 (drop_bit 1 (pack_top bs)) = pack_top bs"
    by (intro u16_eqI, case_tac n) (auto simp: byte_simps bit_drop_bit_eq)
  then have shift: "crc_shift g (drop_bit 1 (pack_top bs)) = pack_top bs"
    by (simp only: crc_shift_no_carry [OF low])
  have "crc_serial g r (b # bs) = crc_serial g (crc_shift g (r XOR ?t)) bs"
    by (simp only: crc_serial_def foldl_Cons crc_bit_eq_shift)
  also have "\<dots> = (crc_shift g ^^ length bs) (crc_shift g (r XOR ?t) XOR pack_top bs)"
    using Cons by simp
  also have "crc_shift g (r XOR ?t) XOR pack_top bs = crc_shift g (r XOR pack_top (b # bs))"
    unfolding pack_top.simps crc_shift_xor shift by (simp only: xor.assoc xor.commute xor.left_commute)
  finally show ?case by (simp only: list.size(4) add_Suc_right add_0_right funpow_Suc_right o_apply)
qed simp

lemma crc_serial_short_nonzero:
  assumes "bit g 0" "length bs \<le> 16" "True \<in> set bs"
  shows "crc_serial g 0 bs \<noteq> 0"
proof -
  from assms(3) obtain i where i: "i < length bs" "bs ! i" by (auto simp: in_set_conv_nth)
  with assms(2) have "bit (pack_top bs) (15 - i)" by (simp add: bit_pack_top)
  then have "pack_top bs \<noteq> 0" by auto
  with assms show ?thesis by (simp add: crc_serial_pack crc_shift_pow_eq_0)
qed

section \<open>Frames\<close>

lemma swap16_eq_iff: "swap16 a = ucast (b0 :: u8) OR push_bit 8 (ucast (b1 :: u8))
    \<longleftrightarrow> a = push_bit 8 (ucast b0) XOR ucast b1"
proof -
  have "push_bit 8 (ucast b0) XOR ucast b1 = swap16 (ucast b0 OR push_bit 8 (ucast b1))"
    unfolding swap16_def by (rule u16_eqI) (auto simp: bit_simps byte_simps)
  moreover have "swap16 (swap16 a) = a" for a
    unfolding swap16_def by (rule u16_eqI, case_tac "n < 8") (auto simp: bit_simps byte_simps)
  ultimately show ?thesis by metis
qed

lemma crc_serial_two_bytes:
  "crc_serial g r (msg_bits [b0, b1])
     = (crc_shift g ^^ 16) (r XOR (push_bit 8 (ucast b0) XOR ucast b1))"
proof -
  have "(crc_shift g ^^ 8) (ucast b1) = push_bit 8 (ucast b1)"
    by (rule crc_shift_pow_low) (simp_all add: byte_simps)
  then have "crc_serial g r (msg_bits [b0, b1])
      = (crc_shift g ^^ 8) ((crc_shift g ^^ 8) ((r XOR push_bit 8 (ucast b0)) XOR ucast b1))"
    by (simp add: crc_serial_append crc_serial_byte crc_shift_pow_xor)
  also have "\<dots> = (crc_shift g ^^ (8 + 8)) ((r XOR push_bit 8 (ucast b0)) XOR ucast b1)"
    by (simp only: funpow_add o_apply)
  finally show ?thesis by (simp add: xor.assoc)
qed

text \<open>
  On a little-endian host a frame passes exactly when the register is zero after the
  whole frame: it is a codeword of the cyclic code.
\<close>

lemma check_CRC_codeword:
  assumes "table_for g tbl" "bit g 0" "2 \<le> length buf"
  shows "check_CRC Little tbl buf (int (length buf)) = Some (crc_serial g 0 (msg_bits buf) = 0)"
proof -
  from assms(3) obtain m b0 b1 where buf: "buf = m @ [b0, b1]"
    by (rule length_ge_2_snoc)
  have idx: "nat (int (length m) + 1) = Suc (length m)" by simp
  have "check_CRC Little tbl buf (int (length buf))
      = Some (swap16 (foldl (crc_step tbl) 0 m) = load16 Little b0 b1)"
    by (simp add: check_CRC_def CRC_def buf idx nth_append)
  also have "\<dots> = Some (crc_serial g 0 (msg_bits m) = push_bit 8 (ucast b0) XOR ucast b1)"
    by (simp only: load16.simps swap16_eq_iff crc_loop_serial [OF assms(1)])
  also have "\<dots> = Some (crc_serial g 0 (msg_bits buf) = 0)"
    by (simp only: buf msg_bits_simps(3) crc_serial_append crc_serial_two_bytes
        crc_shift_pow_eq_0 [OF assms(2)] xor_eq_0_word)
  finally show ?thesis .
qed

lemma msg_bits_xor:
  "length xs = length ys \<Longrightarrow>
   msg_bits (map2 (XOR) xs ys) = map2 (\<noteq>) (msg_bits xs) (msg_bits ys)"
proof (induction xs ys rule: list_induct2)
  case (Cons x xs y ys)
  have "byte_bits (x XOR y) = map2 (\<noteq>) (byte_bits x) (byte_bits y)"
    by (simp add: byte_bits_def bit_xor_iff map2_map_map)
  moreover have "length (byte_bits x) = length (byte_bits y)" by (simp add: byte_bits_def)
  ultimately show ?case using Cons by (simp add: zip_append)
qed simp

lemma crc_frame_xor:
  assumes "length e = length buf"
  shows "crc_serial g 0 (msg_bits (map2 (XOR) buf e))
       = crc_serial g 0 (msg_bits buf) XOR crc_serial g 0 (msg_bits e)"
proof -
  have len: "length (msg_bits xs) = 8 * length xs" for xs
    by (induction xs) (simp_all add: byte_bits_def)
  have "crc_serial g (0 XOR 0) (map2 (\<noteq>) (msg_bits buf) (msg_bits e))
      = crc_serial g 0 (msg_bits buf) XOR crc_serial g 0 (msg_bits e)"
    by (rule crc_serial_linear) (simp add: len assms)
  then show ?thesis by (simp add: msg_bits_xor assms)
qed

section \<open>Error patterns\<close>

definition trim_zeros :: "bool list \<Rightarrow> bool list" where
  "trim_zeros bs = rev (dropWhile Not (rev (dropWhile Not bs)))"

definition burst_length :: "u8 list \<Rightarrow> nat" where
  "burst_length e = length (trim_zeros (msg_bits e))"

definition odd_weight :: "bool list \<Rightarrow> bool" where
  "odd_weight bs = foldr (\<noteq>) bs False"

lemma takeWhile_Not: "takeWhile Not bs = replicate (length (takeWhile Not bs)) False"
  by (induction bs) auto

lemma trim_zeros_split:
  obtains a c where "bs = replicate a False @ trim_zeros bs @ replicate c False"
proof -
  let ?t = "dropWhile Not bs"
  have "bs = replicate (length (takeWhile Not bs)) False @ ?t"
    by (metis takeWhile_Not takeWhile_dropWhile_id)
  moreover have "rev ?t = replicate (length (takeWhile Not (rev ?t))) False @ dropWhile Not (rev ?t)"
    by (metis takeWhile_Not takeWhile_dropWhile_id)
  then have "?t = trim_zeros bs @ replicate (length (takeWhile Not (rev ?t))) False"
    unfolding trim_zeros_def by (metis rev_append rev_replicate rev_rev_ident)
  ultimately show ?thesis using that by metis
qed

lemma trim_zeros_nonempty: "trim_zeros bs \<noteq> [] \<Longrightarrow> True \<in> set (trim_zeros bs)"
proof -
  assume "trim_zeros bs \<noteq> []"
  then have "dropWhile Not (rev (dropWhile Not bs)) \<noteq> []" by (simp add: trim_zeros_def)
  then have "hd (dropWhile Not (rev (dropWhile Not bs)))"
    using hd_dropWhile [of Not "rev (dropWhile Not bs)"] by simp
  with \<open>dropWhile Not (rev (dropWhile Not bs)) \<noteq> []\<close> show ?thesis
    unfolding trim_zeros_def by (metis (full_types) hd_in_set set_rev)
qed

lemma crc_burst_nonzero:
  assumes "bit g 0" "0 < burst_length e" "burst_length e \<le> 16"
  shows "crc_serial g 0 (msg_bits e) \<noteq> 0"
proof -
  obtain a c where e: "msg_bits e = replicate a False @ trim_zeros (msg_bits e) @ replicate c False"
    by (rule trim_zeros_split)
  have zero: "(crc_shift g ^^ n) 0 = 0" for n
    by (simp add: crc_shift_pow_eq_0 assms)
  have "crc_serial g 0 (trim_zeros (msg_bits e)) \<noteq> 0"
    using assms by (intro crc_serial_short_nonzero trim_zeros_nonempty)
      (auto simp: burst_length_def)
  then show ?thesis
    by (subst e) (simp add: crc_serial_append crc_serial_zeros zero crc_shift_pow_eq_0 assms)
qed

fun par :: "nat \<Rightarrow> (nat \<Rightarrow> bool) \<Rightarrow> bool" where
  "par 0 f = False"
| "par (Suc n) f = (par n f \<noteq> f n)"

lemma par_xor: "par n (\<lambda>i. f i \<noteq> h i) = (par n f \<noteq> par n h)"
  by (induction n) auto

lemma par_shift: "par (Suc n) f = (f 0 \<noteq> par n (\<lambda>i. f (Suc i)))"
  by (induction n) auto

lemma par_False [simp]: "par n (\<lambda>i. False) = False"
  by (induction n) auto

lemma par_bot [simp]: "par n bot = False"
  by (induction n) auto

lemma par_push: "par 16 (bit (push_bit 1 r)) = (par 16 (bit r) \<noteq> bit (r :: u16) 15)"
proof -
  have "par 16 (bit (push_bit 1 r)) = par (Suc 15) (bit (push_bit 1 r))" by simp
  also have "\<dots> = par 15 (\<lambda>i. bit (push_bit 1 r) (Suc i))"
    by (simp only: par_shift) (simp add: byte_simps)
  also have "\<dots> = par 15 (bit r)"
  proof -
    have "n \<le> 15 \<Longrightarrow> par n (\<lambda>i. bit (push_bit 1 r) (Suc i)) = par n (bit r)" for n
      by (induction n) (auto simp: byte_simps)
    then show ?thesis by blast
  qed
  also have "par 16 (bit r) = (par 15 (bit r) \<noteq> bit r 15)"
    by (simp add: numeral_eq_Suc)
  then have "par 15 (bit r) = (par 16 (bit r) \<noteq> bit r 15)" by auto
  finally show ?thesis .
qed

text \<open>The polynomial has an even number of terms, so the register's parity is the message's.\<close>

lemma crc_serial_parity:
  assumes "par 16 (bit g)"
  shows "par 16 (bit (crc_serial g r bs)) = (par 16 (bit r) \<noteq> odd_weight bs)"
proof (induction bs arbitrary: r)
  case (Cons b bs)
  have "bit (crc_bit g r b) = (\<lambda>i. bit (push_bit 1 r) i \<noteq> (bit r 15 \<noteq> b \<and> bit g i))"
    by (rule ext) (auto simp: crc_bit_def bit_xor_iff simp del: push_bit_Suc)
  then have "par 16 (bit (crc_bit g r b))
      = (par 16 (bit (push_bit 1 r)) \<noteq> par 16 (\<lambda>i. (bit r 15 \<noteq> b) \<and> bit g i))"
    by (simp only: par_xor)
  moreover have "par 16 (\<lambda>i. c \<and> bit g i) = c" for c
    using assms by (cases c) simp_all
  ultimately have "par 16 (bit (crc_bit g r b))
      = ((par 16 (bit r) \<noteq> bit r 15) \<noteq> (bit r 15 \<noteq> b))"
    by (simp only: par_push)
  then have "par 16 (bit (crc_bit g r b)) = (par 16 (bit r) \<noteq> b)" by argo
  with Cons show ?case by (auto simp: crc_serial_def odd_weight_def)
qed (simp add: odd_weight_def)

section \<open>Properties\<close>

lemma default_genpoly_facts [simp]:
  "bit default_genpoly 0" "par 16 (bit default_genpoly)"
  by (simp_all add: default_genpoly_def numeral_eq_Suc)

lemma check_CRC_crctable:
  "2 \<le> length buf \<Longrightarrow> check_CRC Little crctable buf (int (length buf))
     = Some (crc_serial default_genpoly 0 (msg_bits buf) = 0)"
  by (rule check_CRC_codeword) (simp_all add: table_for_crctable)

lemma check_CRC_xor:
  assumes "2 \<le> length buf" "length e = length buf"
    and "check_CRC Little crctable buf (int (length buf)) = Some True"
  shows "check_CRC Little crctable (map2 (XOR) buf e) (int (length buf))
       = Some (crc_serial default_genpoly 0 (msg_bits e) = 0)"
proof -
  let ?v = "map2 (XOR) buf e"
  have len: "length ?v = length buf" using assms by simp
  have "crc_serial default_genpoly 0 (msg_bits buf) = 0"
    using assms check_CRC_crctable by simp
  with crc_frame_xor [OF assms(2)] have
    "crc_serial default_genpoly 0 (msg_bits ?v) = crc_serial default_genpoly 0 (msg_bits e)"
    by simp
  with check_CRC_crctable [of ?v] assms(1) show ?thesis by (simp only: len)
qed

text \<open>
  C1: the table-driven \<open>CRC\<close> with the table \<open>mk_crctable\<close> builds returns, for every
  buffer and length, the byte-swapped remainder the bit-serial shift register with
  polynomial \<open>0x1021\<close> computes; a length past the buffer is the only undefined case.
\<close>

theorem CRC_is_bit_serial_remainder:
  "CRC crctable buf n =
     (if nat n \<le> length buf
      then Some (swap16 (crc_serial 0x1021 0 (msg_bits (take (nat n) buf)))) else None)"
  using crc_loop_serial [OF table_for_crctable] by (simp add: CRC_def default_genpoly_def)

lemma check_CRC_appended:
  assumes "CRC crctable buf (int (length buf)) = Some c"
  shows "check_CRC en crctable (buf @ store16 en c @ rest) (int (length buf) + 2) = Some True"
proof -
  have idx: "nat (1 + int (length buf)) = Suc (length buf)" by simp
  have rt: "load16 en (store16 en c ! 0) (store16 en c ! 1) = c" for c
    by (cases en; rule u16_eqI, case_tac "n < 8") (auto simp: bit_simps byte_simps)
  have "length (store16 en c) = 2" for c by (cases en) simp_all
  with rt show ?thesis
    using assms by (auto simp: CRC_def check_CRC_def idx nth_append)
qed

lemma CRC_total: "n \<le> length buf \<Longrightarrow> \<exists>c. CRC tbl buf (int n) = Some c"
  by (simp add: CRC_def)

text \<open>
  round trip of the sender and the receiver on hosts of the same byte order:
  the CRC of any message, stored behind it as \<open>writeS\<close> does with \<open>add_crc\<close>, makes
  \<open>check_CRC\<close> accept the frame, whatever follows it in the buffer.
\<close>

theorem check_CRC_accepts_appended_CRC:
  "\<exists>c. CRC crctable buf (int (length buf)) = Some c \<and>
     check_CRC en crctable (buf @ store16 en c @ rest) (int (length buf) + 2) = Some True"
  using CRC_total [of "length buf" buf crctable] check_CRC_appended by blast

text \<open>
  C33: on a little-endian host every burst error is caught: if a frame passes and the bits
  flipped in transit lie within sixteen consecutive bits, at any bit offset, the corrupted
  frame is rejected.
\<close>

theorem check_CRC_detects_bursts:
  assumes "2 \<le> length buf" "length e = length buf"
    and "check_CRC Little crctable buf (int (length buf)) = Some True"
    and "0 < burst_length e" "burst_length e \<le> 16"
  shows "check_CRC Little crctable (map2 (XOR) buf e) (int (length buf)) = Some False"
  using check_CRC_xor [OF assms(1-3)] crc_burst_nonzero [OF _ assms(4,5)] by simp

lemma frame_A_accepted: "check_CRC Little crctable [0x41, 0x58, 0xE5] 3 = Some True"
proof -
  have "crc_serial default_genpoly 0 (msg_bits [0x41, 0x58, 0xE5]) = 0" by code_simp
  with check_CRC_crctable [of "[0x41, 0x58, 0xE5]"] show ?thesis by simp
qed

theorem check_CRC_detects_bursts_witness:
  "check_CRC Little crctable (map2 (XOR) [0x41, 0x58, 0xE5] [0x01, 0xC0, 0x00]) 3 = Some False"
proof -
  have "burst_length [0x01, 0xC0, 0x00] = 3" by code_simp
  then show ?thesis
    using check_CRC_detects_bursts [of "[0x41, 0x58, 0xE5]" "[0x01, 0xC0, 0x00]"]
      frame_A_accepted by simp
qed

text \<open>
  on a little-endian host every error that flips an odd number of bits of an accepted
  frame is rejected.
\<close>

theorem check_CRC_detects_odd_errors:
  assumes "2 \<le> length buf" "length e = length buf"
    and "check_CRC Little crctable buf (int (length buf)) = Some True"
    and "odd_weight (msg_bits e)"
  shows "check_CRC Little crctable (map2 (XOR) buf e) (int (length buf)) = Some False"
proof -
  have "par 16 (bit (crc_serial default_genpoly 0 (msg_bits e)))"
    using assms(4) by (simp add: crc_serial_parity)
  then have "crc_serial default_genpoly 0 (msg_bits e) \<noteq> 0" by auto
  with check_CRC_xor [OF assms(1-3)] show ?thesis by simp
qed

theorem check_CRC_detects_odd_errors_witness:
  "check_CRC Little crctable (map2 (XOR) [0x41, 0x58, 0xE5] [0x80, 0x01, 0x01]) 3 = Some False"
proof -
  have "odd_weight (msg_bits [0x80, 0x01, 0x01])" by code_simp
  then show ?thesis
    using check_CRC_detects_odd_errors [of "[0x41, 0x58, 0xE5]" "[0x80, 0x01, 0x01]"]
      frame_A_accepted by simp
qed

text \<open>
  the first call of \<open>mk_crctable\<close> fixes the table for good: every later call, with
  any polynomial, leaves it unchanged, and every call reports the table as created, never
  as already created.
\<close>

theorem mk_crctable_once:
  "snd (mk_crctable g2 (snd (mk_crctable g1 crc_static0))) = snd (mk_crctable g1 crc_static0) \<and>
   length (s_crctable (snd (mk_crctable g1 crc_static0))) = 256 \<and>
   fst (mk_crctable g1 crc_static0) = CRC_table_created \<and>
   fst (mk_crctable g2 (snd (mk_crctable g1 crc_static0))) = CRC_table_created"
  by (simp add: mk_crctable_def crc_static0_def mk_crctable_fill_def)

end
