(* ===== verification/Transport.thy ===== *)
theory Transport
  imports Crc16
begin

text \<open>
  Reading and writing a connection (\<open>readS\<close> and \<open>writeS\<close> of \<open>src/tcp_client.cpp\<close>,
  \<open>src/serial_client.cpp\<close> and \<open>src/udp_client.cpp\<close>, the Linux branches). The operating
  system is a tape of outcomes: bytes that arrive, or a call that fails.
\<close>

section \<open>The operating system\<close>

text \<open>
  A call of \<open>recv\<close>, \<open>read\<close> or \<open>recvfrom\<close> with room for \<open>len\<close> bytes gives the bytes it
  stored (none at the end of a stream or at a time-out) or fails with \<open>-1\<close>. A stream
  keeps what did not fit for the next call, a datagram loses it. After the tape the peer
  has closed: every call gives no bytes.
\<close>

datatype rx_event = Chunk "u8 list" | Fail

type_synonym rx = "rx_event list"

type_synonym recv_call = "nat \<Rightarrow> rx \<Rightarrow> u8 list option \<times> rx"

fun stream_recv :: recv_call where
  "stream_recv len [] = (Some [], [])"
| "stream_recv len (Fail # t) = (None, t)"
| "stream_recv len (Chunk bs # t) =
     (if length bs \<le> len then (Some bs, t) else (Some (take len bs), Chunk (drop len bs) # t))"

fun dgram_recv :: recv_call where
  "dgram_recv len [] = (Some [], [])"
| "dgram_recv len (Fail # t) = (None, t)"
| "dgram_recv len (Chunk bs # t) = (Some (take len bs), t)"

section \<open>Reading\<close>

text \<open>
  What a read does: it returns, with the number and the buffer, or it writes or reads
  outside the buffer, where the behaviour is undefined.
\<close>

datatype fault = OutOfBounds

definition write_at :: "u8 list \<Rightarrow> int \<Rightarrow> u8 list \<Rightarrow> (fault + u8 list)" where
  "write_at buf n bs =
     (if bs = [] then Inr buf
      else if n < 0 \<or> int (length buf) < n + int (length bs) then Inl OutOfBounds
      else Inr (take (nat n) buf @ bs @ drop (nat n + length bs) buf))"

text \<open>
  \<open>while ((size_t)n != size) n += recv(fd, buffer + n, size - n, 0)\<close>: a failing call takes
  one away from the count. A loop that does not end is \<open>None\<close>.
\<close>

partial_function (option) read_loop ::
  "recv_call \<Rightarrow> nat \<Rightarrow> int \<Rightarrow> u8 list \<Rightarrow> rx \<Rightarrow> ((fault + int \<times> u8 list) \<times> rx) option" where
  "read_loop recv sz n buf t =
     (if n = int sz then Some (Inr (n, buf), t)
      else case recv (nat (int sz - n)) t of
             (None, t) \<Rightarrow> read_loop recv sz (n - 1) buf t
           | (Some bs, t) \<Rightarrow>
               (case write_at buf n bs of
                  Inl e \<Rightarrow> Some (Inl e, t)
                | Inr buf \<Rightarrow> read_loop recv sz (n + int (length bs)) buf t))"

declare read_loop.simps [code]

text \<open>The first call, and the loop when \<open>read_until\<close> asks for all the bytes.\<close>

definition read_bytes ::
  "recv_call \<Rightarrow> nat \<Rightarrow> bool \<Rightarrow> u8 list \<Rightarrow> rx \<Rightarrow> ((fault + int \<times> u8 list) \<times> rx) option" where
  "read_bytes recv sz read_until buf t =
     (case recv sz t of
        (None, t) \<Rightarrow>
          if read_until then read_loop recv sz (-1) buf t else Some (Inr (-1, buf), t)
      | (Some bs, t) \<Rightarrow>
          (case write_at buf 0 bs of
             Inl e \<Rightarrow> Some (Inl e, t)
           | Inr buf \<Rightarrow>
               if read_until then read_loop recv sz (int (length bs)) buf t
               else Some (Inr (int (length bs), buf), t)))"

text \<open>The conversion of the count to the \<open>int\<close> that is returned.\<close>

definition to_int :: "int \<Rightarrow> int" where
  "to_int n = signed_take_bit 31 n"

text \<open>\<open>has_crc\<close>: \<open>check_CRC(buffer, size) ? n : -1\<close>, on the whole buffer.\<close>

definition finish_read ::
  "endian \<Rightarrow> nat \<Rightarrow> bool \<Rightarrow> (fault + int \<times> u8 list) \<times> rx \<Rightarrow> (fault + int \<times> u8 list) \<times> rx" where
  "finish_read en sz has_crc r =
     (case r of
        (Inl e, t) \<Rightarrow> (Inl e, t)
      | (Inr (n, buf), t) \<Rightarrow>
          if has_crc then
            (case check_CRC en crctable buf (to_int (int sz)) of
               None \<Rightarrow> (Inl OutOfBounds, t)
             | Some ok \<Rightarrow> (Inr (if ok then to_int n else -1, buf), t))
          else (Inr (to_int n, buf), t))"

text \<open>The state of a client object that these functions use.\<close>

record client =
  m_fd :: int
  m_is_connected :: bool

definition TCP_readS ::
  "endian \<Rightarrow> client \<Rightarrow> u8 list \<Rightarrow> nat \<Rightarrow> bool \<Rightarrow> bool \<Rightarrow> rx \<Rightarrow> ((fault + int \<times> u8 list) \<times> rx) option" where
  "TCP_readS en c buf sz has_crc read_until t =
     (if m_is_connected c
      then map_option (finish_read en sz has_crc) (read_bytes stream_recv sz read_until buf t)
      else Some (Inr (-1, buf), t))"

definition Serial_readS ::
  "endian \<Rightarrow> client \<Rightarrow> u8 list \<Rightarrow> nat \<Rightarrow> bool \<Rightarrow> bool \<Rightarrow> rx \<Rightarrow> ((fault + int \<times> u8 list) \<times> rx) option" where
  "Serial_readS en c buf sz has_crc read_until t =
     (if m_is_connected c
      then map_option (finish_read en sz has_crc) (read_bytes stream_recv sz read_until buf t)
      else Some (Inr (-1, buf), t))"

definition UDP_readS ::
  "endian \<Rightarrow> client \<Rightarrow> u8 list \<Rightarrow> nat \<Rightarrow> bool \<Rightarrow> bool \<Rightarrow> rx \<Rightarrow> ((fault + int \<times> u8 list) \<times> rx) option" where
  "UDP_readS en c buf sz has_crc read_until t =
     map_option (finish_read en sz has_crc) (read_bytes dgram_recv sz read_until buf t)"

section \<open>Writing\<close>

text \<open>
  A write gives the value it returns, the caller's buffer and the bytes handed to the
  system, of which the system takes \<open>accept\<close> (or fails with \<open>-1\<close>).
\<close>

type_synonym send_call = "u8 list \<Rightarrow> int"

definition send_prefix :: "u8 list \<Rightarrow> nat \<Rightarrow> (fault + u8 list)" where
  "send_prefix buf len = (if len \<le> length buf then Inr (take len buf) else Inl OutOfBounds)"

definition append_CRC :: "endian \<Rightarrow> u8 list \<Rightarrow> nat \<Rightarrow> (fault + u8 list)" where
  "append_CRC en buf sz =
     (case CRC crctable buf (to_int (int sz)) of
        None \<Rightarrow> Inl OutOfBounds
      | Some c \<Rightarrow> write_at buf (int sz) (store16 en c))"

definition stream_writeS ::
  "endian \<Rightarrow> send_call \<Rightarrow> client \<Rightarrow> u8 list \<Rightarrow> nat \<Rightarrow> bool \<Rightarrow> (fault + int \<times> u8 list \<times> u8 list)" where
  "stream_writeS en send c buf sz add_crc =
     (if \<not> m_is_connected c then Inr (-1, buf, [])
      else case (if add_crc then append_CRC en buf sz else Inr buf) of
             Inl e \<Rightarrow> Inl e
           | Inr buf \<Rightarrow>
               (case send_prefix buf (sz + (if add_crc then 2 else 0)) of
                  Inl e \<Rightarrow> Inl e
                | Inr out \<Rightarrow> Inr (to_int (send out), buf, out)))"

definition TCP_writeS ::
  "endian \<Rightarrow> send_call \<Rightarrow> client \<Rightarrow> u8 list \<Rightarrow> nat \<Rightarrow> bool \<Rightarrow> (fault + int \<times> u8 list \<times> u8 list)" where
  "TCP_writeS en send c buf sz add_crc = stream_writeS en send c buf sz add_crc"

definition Serial_writeS ::
  "endian \<Rightarrow> send_call \<Rightarrow> client \<Rightarrow> u8 list \<Rightarrow> nat \<Rightarrow> bool \<Rightarrow> (fault + int \<times> u8 list \<times> u8 list)" where
  "Serial_writeS en send c buf sz add_crc = stream_writeS en send c buf sz add_crc"

text \<open>The datagram client sends two more bytes of the buffer, without a CRC in them.\<close>

definition UDP_writeS ::
  "send_call \<Rightarrow> u8 list \<Rightarrow> nat \<Rightarrow> bool \<Rightarrow> (fault + int \<times> u8 list \<times> u8 list)" where
  "UDP_writeS send buf sz add_crc =
     (case send_prefix buf (sz + (if add_crc then 2 else 0)) of
        Inl e \<Rightarrow> Inl e
      | Inr out \<Rightarrow> Inr (to_int (send out), buf, out))"


section \<open>What a tape carries\<close>

fun bytes_of :: "rx \<Rightarrow> u8 list" where
  "bytes_of [] = []"
| "bytes_of (Chunk bs # t) = bs @ bytes_of t"
| "bytes_of (Fail # t) = bytes_of t"

definition no_fail :: "rx \<Rightarrow> bool" where
  "no_fail t \<longleftrightarrow> Fail \<notin> set t"

definition tape_size :: "rx \<Rightarrow> nat" where
  "tape_size t = length t + length (bytes_of t)"

lemma no_fail_simps [simp]:
  "no_fail []" "no_fail (Chunk bs # t) = no_fail t" "\<not> no_fail (Fail # t)"
  by (simp_all add: no_fail_def)

lemma stream_recv_carries:
  assumes "no_fail t" "0 < len"
  obtains bs t' where "stream_recv len t = (Some bs, t')" "bytes_of t = bs @ bytes_of t'"
    "length bs \<le> len" "no_fail t'" "t \<noteq> [] \<Longrightarrow> tape_size t' < tape_size t"
proof (cases t)
  case Nil
  then show ?thesis using that [of "[]" "[]"] by simp
next
  case (Cons e ta)
  then obtain bs where t: "t = Chunk bs # ta" using assms(1) by (cases e) simp_all
  show ?thesis
  proof (cases "length bs \<le> len")
    case True
    then show ?thesis using that [of bs ta] t assms(1) by (simp add: tape_size_def)
  next
    case False
    then show ?thesis
      using that [of "take len bs" "Chunk (drop len bs) # ta"] t assms by (simp add: tape_size_def)
  qed
qed

lemma write_at_fits:
  assumes "n + length bs \<le> length buf"
  shows "write_at buf (int n) bs = Inr (take n buf @ bs @ drop (n + length bs) buf)"
  using assms by (simp add: write_at_def)

lemma read_loop_done: "read_loop recv sz (int sz) buf t = Some (Inr (int sz, buf), t)"
  by (subst read_loop.simps) simp

lemma read_loop_step:
  assumes "n < sz" "stream_recv (sz - n) t = (Some bs, t')" "length bs \<le> sz - n" "sz \<le> length buf"
  shows "read_loop stream_recv sz (int n) buf t =
     read_loop stream_recv sz (int (n + length bs)) (take n buf @ bs @ drop (n + length bs) buf) t'"
proof -
  have "nat (int sz - int n) = sz - n" by simp
  moreover have "n + length bs \<le> length buf" using assms by simp
  ultimately show ?thesis
    using assms write_at_fits [of n bs buf] by (subst read_loop.simps) simp
qed

text \<open>A stream that carries enough bytes fills the buffer, however it is cut.\<close>

lemma read_loop_fills:
  "no_fail t \<Longrightarrow> n \<le> sz \<Longrightarrow> sz \<le> length buf \<Longrightarrow> sz - n \<le> length (bytes_of t) \<Longrightarrow>
   \<exists>t'. read_loop stream_recv sz (int n) buf t
       = Some (Inr (int sz, take n buf @ take (sz - n) (bytes_of t) @ drop sz buf), t') \<and>
     bytes_of t' = drop (sz - n) (bytes_of t) \<and> no_fail t'"
proof (induction "tape_size t" arbitrary: n buf t rule: less_induct)
  case less
  show ?case
  proof (cases "n = sz")
    case True
    then show ?thesis using less.prems by (simp add: read_loop_done)
  next
    case False
    then have n: "n < sz" using less.prems(2) by simp
    obtain bs t' where call: "stream_recv (sz - n) t = (Some bs, t')" "bytes_of t = bs @ bytes_of t'"
      "length bs \<le> sz - n" "no_fail t'" "t \<noteq> [] \<Longrightarrow> tape_size t' < tape_size t"
      using stream_recv_carries [OF less.prems(1), of "sz - n"] n by auto
    have "t \<noteq> []" using less.prems(4) n by auto
    let ?m = "n + length bs" and ?buf = "take n buf @ bs @ drop (n + length bs) buf"
    have "\<exists>t''. read_loop stream_recv sz (int ?m) ?buf t'
       = Some (Inr (int sz, take ?m ?buf @ take (sz - ?m) (bytes_of t') @ drop sz ?buf), t'') \<and>
     bytes_of t'' = drop (sz - ?m) (bytes_of t') \<and> no_fail t''"
      using less.prems call \<open>t \<noteq> []\<close> n by (intro less.hyps) simp_all
    moreover have "take ?m ?buf @ take (sz - ?m) (bytes_of t') @ drop sz ?buf
        = take n buf @ take (sz - n) (bytes_of t) @ drop sz buf"
      using call less.prems n by simp
    moreover have "drop (sz - ?m) (bytes_of t') = drop (sz - n) (bytes_of t)"
      using call by simp
    ultimately show ?thesis
      using read_loop_step [OF n call(1,3) less.prems(3)] by auto
  qed
qed


text \<open>And a loop that returns has got all its bytes from the stream.\<close>

lemma read_loop_needs:
  assumes returns: "read_loop stream_recv sz n buf t = Some r"
    and "no_fail t" "0 \<le> n" "n \<le> int sz" "sz \<le> length buf"
  shows "int sz - n \<le> int (length (bytes_of t))"
proof -
  let ?P = "\<lambda>recv sz n buf t (r :: (fault + int \<times> u8 list) \<times> rx). recv = stream_recv \<longrightarrow> no_fail t \<longrightarrow>
    0 \<le> n \<longrightarrow> n \<le> int sz \<longrightarrow> sz \<le> length buf \<longrightarrow> int sz - n \<le> int (length (bytes_of t))"
  have "?P stream_recv sz n buf t r"
  proof (rule read_loop.raw_induct [where P = ?P, OF _ returns], intro impI, goal_cases)
    case (1 loop recv sz n buf t r)
    show ?case
    proof (cases "n = int sz")
      case False
      define k where "k = nat n"
      have k: "n = int k" "k < sz" using 1 False by (simp_all add: k_def)
      obtain bs t' where call: "stream_recv (sz - k) t = (Some bs, t')" "bytes_of t = bs @ bytes_of t'"
        "length bs \<le> sz - k" "no_fail t'"
        using stream_recv_carries [OF \<open>no_fail t\<close>, of "sz - k"] k by (metis zero_less_diff)
      have fit: "k + length bs \<le> length buf" using call(3) k 1 by simp
      have len: "nat (int sz - int k) = sz - k" by simp
      have "loop recv sz (int k + int (length bs)) (take k buf @ bs @ drop (k + length bs) buf) t' = Some r"
        using 1(2) \<open>recv = stream_recv\<close> False call write_at_fits [OF fit] unfolding k(1) by (simp add: len)
      from 1(1) [OF this] have "int sz - (int k + int (length bs)) \<le> int (length (bytes_of t'))"
        using 1(3-) call k fit by simp
      then show ?thesis using call(2) k by simp
    qed simp
  qed
  then show ?thesis using assms by simp
qed

section \<open>Whole reads\<close>

lemma to_int_small: "n < 2 ^ 31 \<Longrightarrow> to_int (int n) = int n"
proof -
  assume "n < 2 ^ 31"
  then have "int n < 2 ^ 31" by simp
  then show ?thesis unfolding to_int_def by (intro signed_take_bit_int_eq_self) simp_all
qed

lemma to_int_minus_one: "to_int (- 1) = - 1"
  by (simp add: to_int_def)

lemma read_bytes_first:
  assumes "no_fail t" "0 < sz" "sz \<le> length buf"
  shows "read_bytes stream_recv sz True buf t = read_loop stream_recv sz 0 buf t"
proof -
  obtain bs t' where call: "stream_recv sz t = (Some bs, t')" "length bs \<le> sz"
    using stream_recv_carries [OF assms(1,2)] by metis
  moreover have "write_at buf 0 bs = Inr (take 0 buf @ bs @ drop (0 + length bs) buf)"
    using write_at_fits [of 0 bs buf] call assms(3) by simp
  ultimately show ?thesis
    using read_loop_step [of 0 sz t bs t' buf] assms by (simp add: read_bytes_def)
qed

lemma read_bytes_zero: "read_bytes stream_recv 0 True buf [] = Some (Inr (0, buf), [])"
  using read_loop_done [of stream_recv 0 buf "[]"] by (simp add: read_bytes_def write_at_def)

lemma read_bytes_fills:
  assumes "no_fail t" "0 < sz" "sz \<le> length buf" "sz \<le> length (bytes_of t)"
  shows "\<exists>t'. read_bytes stream_recv sz True buf t
      = Some (Inr (int sz, take sz (bytes_of t) @ drop sz buf), t') \<and>
    bytes_of t' = drop sz (bytes_of t) \<and> no_fail t'"
  using read_loop_fills [OF assms(1) _ assms(3), of 0] assms read_bytes_first [OF assms(1-3)] by simp

lemma read_bytes_returns:
  assumes "no_fail t" "0 < sz" "sz \<le> length buf"
  shows "read_bytes stream_recv sz True buf t \<noteq> None \<longleftrightarrow> sz \<le> length (bytes_of t)"
proof
  assume "read_bytes stream_recv sz True buf t \<noteq> None"
  then obtain r where "read_loop stream_recv sz 0 buf t = Some r"
    using read_bytes_first [OF assms] by auto
  from read_loop_needs [OF this assms(1)] assms show "sz \<le> length (bytes_of t)" by simp
next
  assume "sz \<le> length (bytes_of t)"
  from read_bytes_fills [OF assms this] show "read_bytes stream_recv sz True buf t \<noteq> None" by auto
qed

section \<open>Properties\<close>

text \<open>
  C3: Reading a given number of bytes from a connected stream whose calls do not fail
  returns exactly when the stream carries that many; then the buffer starts with them, in
  order and however the stream was cut into pieces, the rest of the buffer is as it was,
  and the next read continues behind them. When the stream ends before, the loop never
  returns.
\<close>

theorem TCP_readS_complete:
  assumes "m_is_connected c" "no_fail t" "0 < sz" "sz \<le> length buf" "sz < 2 ^ 31"
  shows "(TCP_readS en c buf sz False True t \<noteq> None \<longleftrightarrow> sz \<le> length (bytes_of t)) \<and>
    (sz \<le> length (bytes_of t) \<longrightarrow>
      (\<exists>t'. TCP_readS en c buf sz False True t
          = Some (Inr (int sz, take sz (bytes_of t) @ drop sz buf), t') \<and>
        bytes_of t' = drop sz (bytes_of t) \<and> no_fail t'))"
  using read_bytes_returns [OF assms(2-4)] read_bytes_fills [OF assms(2-4)] assms(1) to_int_small [OF assms(5)]
  by (auto simp: TCP_readS_def finish_read_def)

theorem TCP_readS_complete_witness:
  "TCP_readS Little \<lparr>m_fd = 3, m_is_connected = True\<rparr> [0, 0, 0, 9] 3 False True [Chunk [1], Chunk [], Chunk [2, 3, 4]] \<noteq> None \<and>
   TCP_readS Little \<lparr>m_fd = 3, m_is_connected = True\<rparr> [0, 0, 0, 9] 3 False True [Chunk [1], Chunk [2]] = None"
  using TCP_readS_complete [of "\<lparr>m_fd = 3, m_is_connected = True\<rparr>" "[Chunk [1], Chunk [], Chunk [2, 3, 4]]" 3 "[0, 0, 0, 9]" Little]
    TCP_readS_complete [of "\<lparr>m_fd = 3, m_is_connected = True\<rparr>" "[Chunk [1], Chunk [2]]" 3 "[0, 0, 0, 9]" Little]
  by (simp del: not_None_eq)

text \<open>
  C10: A failing call in the middle of such a read takes one off the count, so the next
  bytes overwrite the last byte that had arrived: the read reports success with that byte
  lost and one byte too many taken from the stream. When the very first call fails, the
  bytes that arrive next are written in front of the buffer.
\<close>

theorem failed_recv_corrupts_read:
  assumes "m_is_connected c" "xs \<noteq> []" "ys \<noteq> []" "length xs + length ys = Suc sz" "length xs < sz"
    and "length buf = sz" "sz < 2 ^ 31"
  shows "TCP_readS en c buf sz False True (Chunk xs # Fail # Chunk ys # t)
      = Some (Inr (int sz, butlast xs @ ys), t) \<and>
    TCP_readS en c buf sz False True (Fail # Chunk xs # t) = Some (Inl OutOfBounds, t)"
proof -
  let ?x = "length xs"
  have x: "0 < ?x" "?x \<le> sz" using assms(2,5) by simp_all
  have first: "write_at buf 0 xs = Inr (xs @ drop ?x buf)"
    using write_at_fits [of 0 xs buf] assms(5,6) by simp
  have fail: "read_loop stream_recv sz (int ?x) b (Fail # Chunk ys # t)
      = read_loop stream_recv sz (int (?x - 1)) b (Chunk ys # t)" for b
    using x assms(5) by (subst read_loop.simps) (simp add: Suc_le_eq of_nat_diff)
  have last: "read_loop stream_recv sz (int (?x - 1)) b (Chunk ys # t)
      = read_loop stream_recv sz (int (?x - 1 + length ys)) (take (?x - 1) b @ ys @ drop (?x - 1 + length ys) b) t"
    if "length b = sz" for b
    using x assms(4,5) that by (intro read_loop_step) (simp_all add: Suc_le_eq)
  have sum: "?x - 1 + length ys = sz" using assms(4) x by (cases xs) simp_all
  have "read_bytes stream_recv sz True buf (Chunk xs # Fail # Chunk ys # t)
      = Some (Inr (int sz, butlast xs @ ys), t)"
  proof -
    let ?b = "xs @ drop ?x buf"
    have b: "length ?b = sz" using assms(6) x by simp
    have "take (?x - 1) ?b @ ys @ drop sz ?b = butlast xs @ ys"
      using b by (simp add: butlast_conv_take)
    then have "read_loop stream_recv sz (int ?x) ?b (Fail # Chunk ys # t) = Some (Inr (int sz, butlast xs @ ys), t)"
      using fail [of ?b] last [OF b] unfolding sum by (simp only: read_loop_done)
    then show ?thesis using first x by (simp add: read_bytes_def)
  qed
  moreover have "read_bytes stream_recv sz True buf (Fail # Chunk xs # t) = Some (Inl OutOfBounds, t)"
    using assms(2,5) x by (simp add: read_bytes_def read_loop.simps [of _ _ "-1"] write_at_def nat_add_distrib)
  ultimately show ?thesis
    using assms(1) to_int_small [OF assms(7)] by (simp add: TCP_readS_def finish_read_def)
qed

theorem failed_recv_corrupts_read_witness:
  "TCP_readS Little \<lparr>m_fd = 3, m_is_connected = True\<rparr> [0, 0, 0, 0] 4 False True
     [Chunk [1, 2], Fail, Chunk [3, 4, 5]] = Some (Inr (4, [1, 3, 4, 5]), [])"
  using failed_recv_corrupts_read [of "\<lparr>m_fd = 3, m_is_connected = True\<rparr>" "[1, 2]" "[3, 4, 5]" 4 "[0, 0, 0, 0]" Little "[]"]
  by simp


section \<open>Frames with a CRC\<close>

text \<open>
  The interface of a link that carries frames in a byte stream: \<open>put\<close> gives the bytes of
  a frame, \<open>get\<close> takes a frame of known length from what arrives, and a tape \<open>carries\<close>
  bytes. The provider promises that a frame comes out as it was put in, and that what
  follows it is still there.
\<close>

locale framed_link =
  fixes put :: "'m \<Rightarrow> 'b list option"
    and get :: "nat \<Rightarrow> 't \<Rightarrow> ('m \<times> 't) option"
    and size_of :: "'m \<Rightarrow> nat"
    and carries :: "'t \<Rightarrow> 'b list \<Rightarrow> bool"
  assumes get_put: "put m = Some w \<Longrightarrow> carries t (w @ rest) \<Longrightarrow>
    \<exists>t'. get (size_of m) t = Some (m, t') \<and> carries t' rest"
begin

fun put_all :: "'m list \<Rightarrow> 'b list option" where
  "put_all [] = Some []"
| "put_all (m # ms) =
     (case put m of None \<Rightarrow> None | Some w \<Rightarrow> (case put_all ms of None \<Rightarrow> None | Some ws \<Rightarrow> Some (w @ ws)))"

fun get_all :: "nat list \<Rightarrow> 't \<Rightarrow> ('m list \<times> 't) option" where
  "get_all [] t = Some ([], t)"
| "get_all (k # ks) t =
     (case get k t of None \<Rightarrow> None
      | Some (m, t) \<Rightarrow> (case get_all ks t of None \<Rightarrow> None | Some (ms, t) \<Rightarrow> Some (m # ms, t)))"

lemma get_put_all:
  "put_all ms = Some w \<Longrightarrow> carries t (w @ rest) \<Longrightarrow>
     \<exists>t'. get_all (map size_of ms) t = Some (ms, t') \<and> carries t' rest"
proof (induction ms arbitrary: w t)
  case (Cons m ms)
  then obtain u v where w: "put m = Some u" "put_all ms = Some v" "w = u @ v"
    by (auto split: option.splits)
  then obtain t1 where t1: "get (size_of m) t = Some (m, t1)" "carries t1 (v @ rest)"
    using get_put [OF w(1), of t "v @ rest"] Cons.prems(2) by auto
  from Cons.IH [OF w(2) t1(2)] t1 show ?case by auto
qed simp

end

definition rx_carries :: "rx \<Rightarrow> u8 list \<Rightarrow> bool" where
  "rx_carries t bs \<longleftrightarrow> no_fail t \<and> bytes_of t = bs"

text \<open>
  A frame sent by \<open>writeS\<close> with \<open>add_crc\<close> from a buffer that has two more bytes, over a
  system that takes all the bytes, and received by \<open>readS\<close> with \<open>has_crc\<close>.
\<close>

definition connected :: client where
  "connected = \<lparr>m_fd = 3, m_is_connected = True\<rparr>"

definition frame_of ::
  "(client \<Rightarrow> u8 list \<Rightarrow> nat \<Rightarrow> bool \<Rightarrow> (fault + int \<times> u8 list \<times> u8 list)) \<Rightarrow> u8 list \<Rightarrow> u8 list option" where
  "frame_of writeS d =
     (case writeS connected (d @ [0, 0]) (length d) True of
        Inr (n, _, out) \<Rightarrow> if n = int (length out) then Some out else None
      | Inl _ \<Rightarrow> None)"

definition take_frame ::
  "(client \<Rightarrow> u8 list \<Rightarrow> nat \<Rightarrow> bool \<Rightarrow> bool \<Rightarrow> rx \<Rightarrow> ((fault + int \<times> u8 list) \<times> rx) option) \<Rightarrow>
     nat \<Rightarrow> rx \<Rightarrow> (u8 list \<times> rx) option" where
  "take_frame readS k t =
     (case readS connected (replicate (k + 2) 0) (k + 2) True True t of
        Some (Inr (n, buf), t) \<Rightarrow> if n = int (k + 2) then Some (take k buf, t) else None
      | _ \<Rightarrow> None)"

definition send_all :: send_call where
  "send_all out = int (length out)"

definition TCP_frame :: "endian \<Rightarrow> u8 list \<Rightarrow> u8 list option" where
  "TCP_frame en = frame_of (TCP_writeS en send_all)"

definition TCP_take :: "endian \<Rightarrow> nat \<Rightarrow> rx \<Rightarrow> (u8 list \<times> rx) option" where
  "TCP_take en = take_frame (TCP_readS en)"

definition Serial_frame :: "endian \<Rightarrow> u8 list \<Rightarrow> u8 list option" where
  "Serial_frame en = frame_of (Serial_writeS en send_all)"

definition Serial_take :: "endian \<Rightarrow> nat \<Rightarrow> rx \<Rightarrow> (u8 list \<times> rx) option" where
  "Serial_take en = take_frame (Serial_readS en)"

lemma length_store16 [simp]: "length (store16 en c) = 2"
  by (cases en) simp_all

lemma frame_eq:
  assumes "length d + 2 < 2 ^ 31"
  obtains c where "CRC crctable d (int (length d)) = Some c"
    "TCP_frame en d = Some (d @ store16 en c)" "Serial_frame en d = Some (d @ store16 en c)"
proof -
  obtain c where c: "CRC crctable d (int (length d)) = Some c"
    using CRC_total [of "length d" d] by auto
  then have c': "CRC crctable (d @ [0, 0]) (int (length d)) = Some c"
    by (simp add: CRC_def)
  have small: "to_int (int (length d)) = int (length d)" "to_int (int (length d + 2)) = int (length d + 2)"
    using assms to_int_small [of "length d"] to_int_small [of "length d + 2"] by simp_all
  have "append_CRC en (d @ [0, 0]) (length d) = Inr (d @ store16 en c)"
    using c' small write_at_fits [of "length d" "store16 en c" "d @ [0, 0]"] by (simp add: append_CRC_def)
  then have "stream_writeS en send_all connected (d @ [0, 0]) (length d) True
      = Inr (int (length d + 2), d @ store16 en c, d @ store16 en c)"
    using small by (simp add: stream_writeS_def connected_def send_prefix_def send_all_def)
  then show ?thesis
    using that [OF c] by (simp add: TCP_frame_def Serial_frame_def frame_of_def TCP_writeS_def Serial_writeS_def)
qed

lemma to_int_less: "to_int n < 2 ^ 31"
  using signed_take_bit_int_less_exp [of 31 n] by (simp add: to_int_def)

lemma frame_small:
  assumes "TCP_frame en d = Some w \<or> Serial_frame en d = Some w"
  shows "length d + 2 < 2 ^ 31"
proof -
  obtain n b out where "stream_writeS en send_all connected (d @ [0, 0]) (length d) True = Inr (n, b, out)"
    "n = int (length out)"
    using assms by (auto simp: TCP_frame_def Serial_frame_def frame_of_def TCP_writeS_def Serial_writeS_def
      split: sum.splits if_splits)
  moreover from this(1) have "length out = length d + 2 \<and> n = to_int (int (length out))"
    by (auto simp: stream_writeS_def connected_def send_prefix_def send_all_def split: sum.splits if_splits)
  ultimately have "int (length d + 2) < 2 ^ 31" using to_int_less by metis
  then show ?thesis by simp
qed

lemma take_eq:
  assumes "CRC crctable d (int (length d)) = Some c" "length d + 2 < 2 ^ 31"
    and "rx_carries t ((d @ store16 en c) @ rest)"
  shows "\<exists>t'. TCP_take en (length d) t = Some (d, t') \<and> Serial_take en (length d) t = Some (d, t') \<and>
    rx_carries t' rest"
proof -
  let ?k = "length d + 2"
  have t: "no_fail t" "bytes_of t = d @ store16 en c @ rest" using assms(3) by (simp_all add: rx_carries_def)
  obtain t' where t': "read_bytes stream_recv ?k True (replicate ?k 0) t
      = Some (Inr (int ?k, take ?k (bytes_of t) @ drop ?k (replicate ?k 0)), t')"
    "bytes_of t' = drop ?k (bytes_of t)" "no_fail t'"
    using read_bytes_fills [OF t(1), of ?k "replicate ?k 0"] t(2) by auto
  have buf: "take ?k (bytes_of t) @ drop ?k (replicate ?k 0) = d @ store16 en c @ []"
    by (simp add: t(2))
  have small: "to_int (int ?k) = int ?k" using assms(2) by (rule to_int_small)
  have ok: "check_CRC en crctable (d @ store16 en c @ []) (int (length d) + 2) = Some True"
    using assms(1) by (rule check_CRC_appended)
  have "finish_read en ?k True (Inr (int ?k, d @ store16 en c @ []), t')
      = (Inr (int ?k, d @ store16 en c), t')"
    using ok small by (simp add: finish_read_def add.commute)
  then show ?thesis
    using t' t(2) unfolding buf
    by (intro exI [of _ t'])
       (simp add: TCP_take_def Serial_take_def take_frame_def TCP_readS_def Serial_readS_def connected_def
         rx_carries_def)
qed

lemma link_law:
  "TCP_frame en d = Some w \<Longrightarrow> rx_carries t (w @ rest) \<Longrightarrow>
     \<exists>t'. TCP_take en (length d) t = Some (d, t') \<and> rx_carries t' rest"
  "Serial_frame en d = Some w \<Longrightarrow> rx_carries t (w @ rest) \<Longrightarrow>
     \<exists>t'. Serial_take en (length d) t = Some (d, t') \<and> rx_carries t' rest"
  using frame_small [of en d w] frame_eq [of d en] take_eq [of d _ t en rest] by (metis option.inject)+

interpretation tcp_link: framed_link "TCP_frame en" "TCP_take en" length rx_carries for en
  by unfold_locales (rule link_law(1))

interpretation serial_link: framed_link "Serial_frame en" "Serial_take en" length rx_carries for en
  by unfold_locales (rule link_law(2))


section \<open>Properties of frames\<close>

text \<open>
  C2: A sequence of messages, each sent as a frame with a CRC, and read back with the CRC
  checked, arrives complete and in order over TCP and over the serial line, however the
  system cuts the stream into pieces, and whatever follows is left for the next read.
\<close>

theorem frames_arrive_in_order:
  assumes "tcp_link.put_all en ds = Some w" "rx_carries t (w @ rest)"
  shows "\<exists>t'. tcp_link.get_all en (map length ds) t = Some (ds, t') \<and> rx_carries t' rest"
  using assms by (rule tcp_link.get_put_all)

theorem frames_arrive_in_order_witness:
  "\<exists>w t'. tcp_link.put_all Little [[1, 2], [3]] = Some w \<and>
     tcp_link.get_all Little (map length [[1 :: u8, 2], [3]]) [Chunk (take 3 w), Chunk [], Chunk (drop 3 w)] = Some ([[1, 2], [3]], t')"
proof -
  obtain c where c: "TCP_frame Little [1, 2] = Some ([1, 2] @ store16 Little c)"
    by (rule frame_eq [of "[1, 2]" Little]) simp_all
  obtain d where d: "TCP_frame Little [3] = Some ([3] @ store16 Little d)"
    by (rule frame_eq [of "[3]" Little]) simp_all
  let ?w = "[1, 2] @ store16 Little c @ [3] @ store16 Little d"
  have w: "tcp_link.put_all Little [[1, 2], [3]] = Some ?w" using c d by simp
  have "rx_carries [Chunk (take 3 ?w), Chunk [], Chunk (drop 3 ?w)] (?w @ [])"
    by (simp add: rx_carries_def)
  from frames_arrive_in_order [OF w this] w show ?thesis by blast
qed

text \<open>
  The datagram client does not store a CRC: asked for one, it leaves the buffer as
  it is and sends the two bytes behind the message, so the receiver accepts the frame
  exactly when those two bytes happen to be the CRC.
\<close>

theorem UDP_add_crc_sends_no_CRC:
  assumes "length d + 2 < 2 ^ 31" "CRC crctable d (int (length d)) = Some k"
  shows "UDP_writeS send_all (d @ [a, b]) (length d) True = Inr (int (length d + 2), d @ [a, b], d @ [a, b]) \<and>
    UDP_readS en c (replicate (length d + 2) 0) (length d + 2) True True [Chunk (d @ [a, b])]
      = Some (Inr (if k = load16 en a b then int (length d + 2) else -1, d @ [a, b]), [])"
proof -
  let ?k = "length d + 2" and ?f = "d @ [a, b]"
  have small: "to_int (int ?k) = int ?k" using assms(1) by (rule to_int_small)
  have wr: "write_at (replicate ?k 0) 0 ?f = Inr ?f"
    using write_at_fits [of 0 ?f "replicate ?k 0"] by simp
  have "read_bytes dgram_recv ?k True (replicate ?k 0) [Chunk ?f] = Some (Inr (int ?k, ?f), [])"
    using wr read_loop_done [of dgram_recv ?k ?f "[]"] by (simp add: read_bytes_def)
  moreover have "check_CRC en crctable ?f (int ?k) = Some (k = load16 en a b)"
    using assms(2) by (simp add: check_CRC_def CRC_def nth_append nat_add_distrib)
  ultimately show ?thesis
    using small by (simp add: UDP_readS_def finish_read_def UDP_writeS_def send_prefix_def send_all_def)
qed

theorem UDP_add_crc_sends_no_CRC_witness:
  "UDP_readS Little connected [0, 0] 2 True True [Chunk [1, 0]] = Some (Inr (-1, [1, 0]), [])"
proof -
  have "CRC crctable [] (int (length ([] :: u8 list))) = Some 0" by (simp add: CRC_def swap16_def)
  moreover have "length ([] :: u8 list) + 2 < 2 ^ 31" by simp
  ultimately show ?thesis
    using UDP_add_crc_sends_no_CRC [of "[]" 0 1 0 Little connected] by (simp add: numeral_2_eq_2)
qed

text \<open>
  Without the connected flag nothing is read or written over TCP or the serial line,
  whatever the arguments; the datagram client has no such guard.
\<close>

theorem unconnected_client_does_nothing:
  assumes "\<not> m_is_connected c"
  shows "TCP_readS en c buf sz has_crc read_until t = Some (Inr (-1, buf), t) \<and>
    Serial_readS en c buf sz has_crc read_until t = Some (Inr (-1, buf), t) \<and>
    TCP_writeS en send c buf sz add_crc = Inr (-1, buf, []) \<and>
    Serial_writeS en send c buf sz add_crc = Inr (-1, buf, []) \<and>
    UDP_readS en c buf sz has_crc read_until t = UDP_readS en (c\<lparr>m_is_connected := True\<rparr>) buf sz has_crc read_until t"
  using assms by (simp add: TCP_readS_def Serial_readS_def TCP_writeS_def Serial_writeS_def stream_writeS_def UDP_readS_def)

theorem unconnected_client_does_nothing_witness:
  "TCP_readS Big \<lparr>m_fd = 3, m_is_connected = False\<rparr> [0] 1 False True [Chunk [7]] = Some (Inr (-1, [0]), [Chunk [7]])"
  using unconnected_client_does_nothing [of "\<lparr>m_fd = 3, m_is_connected = False\<rparr>"] by simp

end
