(* ===== verification/ServerLifecycle.thy ===== *)
theory ServerLifecycle
  imports Main
begin

text \<open>
  The contract of \<open>Server\<close> (\<open>include/com_client.hpp\<close>) that its two servers share: what the
  running flag says after calls of \<open>start\<close> and \<open>stop\<close>, whatever becomes of the sockets.
\<close>

datatype 'env request = Start 'env | Stop

locale server_lifecycle =
  fixes start :: "'env \<Rightarrow> 's \<Rightarrow> 'e option \<times> 's"
    and stop :: "'s \<Rightarrow> 's"
    and running :: "'s \<Rightarrow> bool"
    and already_running :: 'e
  assumes start_refused: "running st \<Longrightarrow> start env st = (Some already_running, st)"
    and start_marks: "\<not> running st \<Longrightarrow> running (snd (start env st))"
    and stop_idle: "\<not> running st \<Longrightarrow> stop st = st"
    and stop_clears: "\<not> running (stop st)"
begin

lemma running_start: "running (snd (start env st))"
  by (cases "running st") (simp_all add: start_refused start_marks)

lemma start_start: "start env' (snd (start env st)) = (Some already_running, snd (start env st))"
  using running_start by (rule start_refused)

lemma stop_stop: "stop (stop st) = stop st"
  using stop_clears by (rule stop_idle)

definition request :: "'env request \<Rightarrow> 's \<Rightarrow> 's" where
  "request r st = (case r of Start env \<Rightarrow> snd (start env st) | Stop \<Rightarrow> stop st)"

text \<open>The flag is that of the last call, failed or not.\<close>

lemma running_requests:
  "running (fold request (rs @ [r]) st) \<longleftrightarrow> r \<noteq> Stop"
  by (cases r) (simp_all add: request_def running_start stop_clears)

end

end
