(* ===== verification/TcpServer.thy ===== *)
theory TcpServer
  imports Transport ServerLifecycle
begin

text \<open>
  The TCP server (\<open>TCPServer\<close> of \<open>include/tcp_client.hpp\<close> with \<open>Server\<close> of
  \<open>include/com_client.hpp\<close>): starting and stopping, the accept thread, one handler thread
  per client that fills the client's FIFO, and the calls of the program that empty it. The
  threads take turns: a step is what one of them does between two points at which another
  can come in, and a call of \<open>read_byte\<close> or \<open>stop\<close> is a sequence of such steps.
\<close>

section \<open>State\<close>

text \<open>
  A new handler looks at the running flag, then receives until its socket ends; it closes the
  socket and only then removes it from the containers.
\<close>

datatype handler = Checking | Receiving | Closing

text \<open>
  Where a call of \<open>stop\<close> stands: it joins the threads of the clients, of which the given ones
  are still ahead of its iterator, then the accept thread.
\<close>

datatype stop_phase = NotStopping | JoiningHandlers "int set" | JoiningAccept

text \<open>
  Where a call of \<open>read_byte\<close> stands: before it takes the size of the FIFO, in the loop that
  waits for more, before the minimum of the two sizes, and before the copy of so many bytes.
\<close>

datatype read_point = AtSize | InWait | AtMin | AtCopy nat

record read_call =
  r_socket :: int
  r_size :: nat
  r_blocking :: bool
  r_erase :: bool
  r_point :: read_point

text \<open>
  The server object: \<open>m_threads\<close> holds the threads that were not joined (finished or
  not), \<open>handlers\<close> the ones that still run. \<open>open_fds\<close> are the descriptors the process
  holds. \<open>received\<close> and \<open>consumed\<close> record, for the current connection of each socket,
  every byte that was appended to its FIFO and every byte that left it. \<open>readers\<close> are the
  calls of \<open>read_byte\<close> under way, by the thread of the program that makes them, and \<open>returned\<close>
  is what the last call of each gave. \<open>terminated\<close> is the state after \<open>std::terminate\<close>, and
  \<open>overrun\<close> records that a copy went past the end of a FIFO, after which the behaviour is
  undefined.
\<close>

record tcp_server =
  s_fd :: int
  m_is_running :: bool
  accepting :: bool
  m_clients :: "int set"
  m_fifos :: "int \<Rightarrow> u8 list option"
  m_threads :: "int set"
  handlers :: "int \<Rightarrow> handler option"
  open_fds :: "int set"
  received :: "int \<Rightarrow> u8 list"
  consumed :: "int \<Rightarrow> u8 list"
  stop_at :: stop_phase
  readers :: "nat \<Rightarrow> read_call option"
  returned :: "nat \<Rightarrow> (int \<times> u8 list) option"
  overrun :: bool
  terminated :: bool

definition new_server :: tcp_server where
  "new_server = \<lparr>s_fd = -1, m_is_running = False, accepting = False, m_clients = {},
     m_fifos = (\<lambda>_. None), m_threads = {}, handlers = (\<lambda>_. None), open_fds = {},
     received = (\<lambda>_. []), consumed = (\<lambda>_. []), stop_at = NotStopping,
     readers = (\<lambda>_. None), returned = (\<lambda>_. None), overrun = False, terminated = False\<rparr>"

section \<open>Starting and stopping\<close>

text \<open>What the calls of \<open>listen_for_connections\<close> give.\<close>

record listen_env =
  socket_fd :: int
  reuse_ok :: bool
  nodelay_ok :: bool
  quickack_ok :: bool
  bind_ok :: bool
  listen_ok :: bool

datatype server_error = AlreadyRunning | SocketInvalid | OptionFailed | NoDelayFailed | QuickAckFailed
  | BindFailed | ListenFailed

definition closesocket :: "int \<Rightarrow> tcp_server \<Rightarrow> tcp_server" where
  "closesocket fd st = st\<lparr>open_fds := open_fds st - {fd}\<rparr>"

definition listen_for_connections :: "listen_env \<Rightarrow> tcp_server \<Rightarrow> server_error option \<times> tcp_server" where
  "listen_for_connections env st =
     (let fd = socket_fd env; st = st\<lparr>s_fd := fd\<rparr> in
      if fd = -1 then (Some SocketInvalid, st)
      else let st = st\<lparr>open_fds := insert fd (open_fds st)\<rparr> in
        if \<not> reuse_ok env then (Some OptionFailed, closesocket fd st)
        else if \<not> nodelay_ok env then (Some NoDelayFailed, st)
        else if \<not> quickack_ok env then (Some QuickAckFailed, st)
        else if \<not> bind_ok env then (Some BindFailed, closesocket fd st)
        else if \<not> listen_ok env then (Some ListenFailed, closesocket fd st)
        else (None, st\<lparr>accepting := True\<rparr>))"

definition start :: "listen_env \<Rightarrow> tcp_server \<Rightarrow> server_error option \<times> tcp_server" where
  "start env st =
     (if m_is_running st then (Some AlreadyRunning, st)
      else listen_for_connections env (st\<lparr>m_is_running := True\<rparr>))"

definition Server_stop :: "tcp_server \<Rightarrow> tcp_server" where
  "Server_stop st =
     (if \<not> m_is_running st then st
      else let st = st\<lparr>m_is_running := False\<rparr> in (closesocket (s_fd st) st)\<lparr>s_fd := -1\<rparr>)"

text \<open>
  \<open>TCPServer::stop\<close> in parts: it clears the flag; it goes over the threads of the clients and
  joins each, one after the other, as that thread ends; when the accept thread has ended
  too, it is joined and \<open>Server::stop\<close> is called. The order of the map is left open. A thread
  that is inserted during the loop may be met by the iterator or not.
\<close>

definition stopping :: "tcp_server \<Rightarrow> bool" where
  "stopping st \<longleftrightarrow> stop_at st \<noteq> NotStopping"

definition TCPServer_stop_begin :: "tcp_server \<Rightarrow> tcp_server" where
  "TCPServer_stop_begin st =
     (if \<not> m_is_running st then st
      else st\<lparr>m_is_running := False, stop_at := JoiningHandlers (m_threads st)\<rparr>)"

definition TCPServer_stop_join :: "int \<Rightarrow> int set \<Rightarrow> tcp_server \<Rightarrow> tcp_server" where
  "TCPServer_stop_join s ahead st =
     st\<lparr>m_threads := m_threads st - {s}, stop_at := JoiningHandlers (ahead - {s})\<rparr>"

definition TCPServer_stop_meets :: "int \<Rightarrow> int set \<Rightarrow> tcp_server \<Rightarrow> tcp_server" where
  "TCPServer_stop_meets s ahead st = st\<lparr>stop_at := JoiningHandlers (insert s ahead)\<rparr>"

definition TCPServer_stop_joined :: "tcp_server \<Rightarrow> tcp_server" where
  "TCPServer_stop_joined st = st\<lparr>stop_at := JoiningAccept\<rparr>"

definition TCPServer_stop_end :: "tcp_server \<Rightarrow> tcp_server" where
  "TCPServer_stop_end st = Server_stop (st\<lparr>stop_at := NotStopping\<rparr>)"

text \<open>
  The destructor, after its call of \<open>stop\<close>: destroying a thread that was not joined
  terminates the process.
\<close>

definition destroy_members :: "tcp_server \<Rightarrow> tcp_server" where
  "destroy_members st = (if m_threads st \<noteq> {} then st\<lparr>terminated := True\<rparr> else st)"

section \<open>The threads\<close>

text \<open>A new connection: the containers, and the thread of the client.\<close>

definition accept_client :: "int \<Rightarrow> tcp_server \<Rightarrow> tcp_server" where
  "accept_client s st =
     (let st = st\<lparr>open_fds := insert s (open_fds st), m_clients := insert s (m_clients st),
            m_fifos := (m_fifos st)(s := Some []),
            received := (received st)(s := []), consumed := (consumed st)(s := [])\<rparr>
      in if s \<in> m_threads st then st\<lparr>terminated := True\<rparr>
         else st\<lparr>m_threads := insert s (m_threads st), handlers := (handlers st)(s := Some Checking)\<rparr>)"

definition accept_end :: "tcp_server \<Rightarrow> tcp_server" where
  "accept_end st = st\<lparr>accepting := False\<rparr>"

text \<open>
  One turn of the loop of the accept thread: a connection, no connection yet, or an error;
  then the flag is looked at again.
\<close>

datatype accept_outcome = Connection int | NoConnection | AcceptFailed

definition accept_turn :: "accept_outcome \<Rightarrow> tcp_server \<Rightarrow> tcp_server" where
  "accept_turn r st =
     (case r of
        Connection s \<Rightarrow>
          let st = accept_client s st in
          if terminated st \<or> m_is_running st then st else accept_end st
      | NoConnection \<Rightarrow> if m_is_running st then st else accept_end st
      | AcceptFailed \<Rightarrow> accept_end st)"

text \<open>\<open>m_fifos[s]\<close> creates an empty FIFO when there is none.\<close>

definition fifo :: "tcp_server \<Rightarrow> int \<Rightarrow> u8 list" where
  "fifo st s = (case m_fifos st s of Some q \<Rightarrow> q | None \<Rightarrow> [])"

definition handler_bytes :: "int \<Rightarrow> u8 list \<Rightarrow> tcp_server \<Rightarrow> tcp_server" where
  "handler_bytes s bs st = st\<lparr>m_fifos := (m_fifos st)(s := Some (fifo st s @ bs)),
     received := (received st)(s := received st s @ bs)\<rparr>"

definition handler_close :: "int \<Rightarrow> tcp_server \<Rightarrow> tcp_server" where
  "handler_close s st = (closesocket s st)\<lparr>handlers := (handlers st)(s := Some Closing)\<rparr>"

definition handler_erase :: "int \<Rightarrow> tcp_server \<Rightarrow> tcp_server" where
  "handler_erase s st = st\<lparr>m_clients := m_clients st - {s}, m_fifos := (m_fifos st)(s := None),
     handlers := (handlers st)(s := None)\<rparr>"

text \<open>
  The first look of a new thread at the flag.
\<close>

definition handler_check :: "int \<Rightarrow> tcp_server \<Rightarrow> tcp_server" where
  "handler_check s st =
     (if m_is_running st then st\<lparr>handlers := (handlers st)(s := Some Receiving)\<rparr> else handler_close s st)"

text \<open>
  One turn of the loop, from the return of \<open>recv\<close> on: bytes, the end of the stream, or an
  error. After bytes the flag is looked at again.
\<close>

datatype recv_outcome = Bytes "u8 list" | Ended | WouldBlock

definition handle_client :: "int \<Rightarrow> recv_outcome \<Rightarrow> tcp_server \<Rightarrow> tcp_server" where
  "handle_client s r st =
     (case r of
        Bytes bs \<Rightarrow>
          let st = handler_bytes s bs st in if m_is_running st then st else handler_close s st
      | Ended \<Rightarrow> handler_close s st
      | WouldBlock \<Rightarrow> if m_is_running st then st else handler_close s st)"

section \<open>The calls of the program\<close>

definition to_int8 :: "nat \<Rightarrow> int" where
  "to_int8 n = signed_take_bit 7 (int n)"

text \<open>Every use of \<open>m_fifos[i]\<close> creates the entry when there is none.\<close>

definition touch_fifo :: "int \<Rightarrow> tcp_server \<Rightarrow> tcp_server" where
  "touch_fifo i st = st\<lparr>m_fifos := (m_fifos st)(i := Some (fifo st i))\<rparr>"

definition read_return :: "nat \<Rightarrow> int \<times> u8 list \<Rightarrow> tcp_server \<Rightarrow> tcp_server" where
  "read_return t v st = st\<lparr>readers := (readers st)(t := None), returned := (returned st)(t := Some v)\<rparr>"

definition read_goto :: "nat \<Rightarrow> read_call \<Rightarrow> read_point \<Rightarrow> tcp_server \<Rightarrow> tcp_server" where
  "read_goto t c p st = st\<lparr>readers := (readers st)(t := Some (c\<lparr>r_point := p\<rparr>))\<rparr>"

text \<open>
  \<open>read_byte\<close>, called by the thread \<open>t\<close> of the program: the client is looked up once. The size
  of the FIFO is taken under the lock; a blocking call with too few bytes waits in a loop that
  looks at the size alone, each time under the lock. The minimum is taken outside the lock, and
  the copy and the erasure are under the lock again, with that minimum.
\<close>

definition read_check :: "nat \<Rightarrow> int \<Rightarrow> nat \<Rightarrow> bool \<Rightarrow> bool \<Rightarrow> tcp_server \<Rightarrow> tcp_server" where
  "read_check t i sz blocking erase st =
     (if i \<notin> m_clients st then read_return t (-1, []) st
      else read_goto t \<lparr>r_socket = i, r_size = sz, r_blocking = blocking, r_erase = erase, r_point = AtSize\<rparr> AtSize st)"

definition read_size :: "nat \<Rightarrow> read_call \<Rightarrow> tcp_server \<Rightarrow> tcp_server" where
  "read_size t c st =
     (let n_available = length (fifo st (r_socket c)) in
      read_goto t c (if r_blocking c \<and> n_available < r_size c then InWait else AtMin)
        (touch_fifo (r_socket c) st))"

definition read_wait :: "nat \<Rightarrow> read_call \<Rightarrow> tcp_server \<Rightarrow> tcp_server" where
  "read_wait t c st =
     (let n_available = length (fifo st (r_socket c)) in
      read_goto t c (if n_available > r_size c \<or> \<not> n_available < r_size c then AtMin else InWait)
        (touch_fifo (r_socket c) st))"

definition read_min :: "nat \<Rightarrow> read_call \<Rightarrow> tcp_server \<Rightarrow> tcp_server" where
  "read_min t c st =
     read_goto t c (AtCopy (min (r_size c) (length (fifo st (r_socket c))))) (touch_fifo (r_socket c) st)"

definition take_bytes :: "int \<Rightarrow> nat \<Rightarrow> bool \<Rightarrow> tcp_server \<Rightarrow> tcp_server" where
  "take_bytes i n erase st =
     (if erase then st\<lparr>m_fifos := (m_fifos st)(i := Some (drop n (fifo st i))),
        consumed := (consumed st)(i := consumed st i @ take n (fifo st i))\<rparr>
      else touch_fifo i st)"

text \<open>A copy of more bytes than the FIFO holds runs past its end.\<close>

definition read_copy :: "nat \<Rightarrow> read_call \<Rightarrow> nat \<Rightarrow> tcp_server \<Rightarrow> tcp_server" where
  "read_copy t c n st =
     (if length (fifo st (r_socket c)) < n then st\<lparr>readers := (readers st)(t := None), overrun := True\<rparr>
      else read_return t (to_int8 n, take n (fifo st (r_socket c))) (take_bytes (r_socket c) n (r_erase c) st))"

definition read_next :: "nat \<Rightarrow> read_call \<Rightarrow> tcp_server \<Rightarrow> tcp_server" where
  "read_next t c st =
     (case r_point c of
        AtSize \<Rightarrow> read_size t c st
      | InWait \<Rightarrow> read_wait t c st
      | AtMin \<Rightarrow> read_min t c st
      | AtCopy n \<Rightarrow> read_copy t c n st)"

text \<open>
  A call that does not wait and that no other thread interrupts, as one function:
  \<open>read_byte_undisturbed\<close> below shows that the steps above come to this.
\<close>

definition read_byte :: "int \<Rightarrow> nat \<Rightarrow> bool \<Rightarrow> tcp_server \<Rightarrow> (int \<times> u8 list) \<times> tcp_server" where
  "read_byte i sz erase st =
     (if i \<notin> m_clients st then ((-1, []), st)
      else let n = min sz (length (fifo st i)) in ((to_int8 n, take n (fifo st i)), take_bytes i n erase st))"

definition clear_fifo :: "int \<Rightarrow> tcp_server \<Rightarrow> tcp_server" where
  "clear_fifo i st = st\<lparr>m_fifos := (m_fifos st)(i := Some []),
     consumed := (consumed st)(i := consumed st i @ fifo st i)\<rparr>"

definition is_available :: "int \<Rightarrow> tcp_server \<Rightarrow> int" where
  "is_available i st = (if i \<notin> m_clients st then -1 else int (length (fifo st i)))"

section \<open>The steps\<close>

text \<open>
  A turn that a thread of the server can take by itself. \<open>accept\<close> does not wait; a new
  connection gets a descriptor that the process does not hold. Nothing happens after
  \<open>std::terminate\<close>.
\<close>

inductive thread_turn :: "tcp_server \<Rightarrow> tcp_server \<Rightarrow> bool" where
  accept: "accepting st \<Longrightarrow> \<forall>s. r = Connection s \<longrightarrow> s \<notin> open_fds st \<and> 0 \<le> s \<Longrightarrow> \<not> terminated st \<Longrightarrow>
    thread_turn st (accept_turn r st)"
| check: "handlers st s = Some Checking \<Longrightarrow> \<not> terminated st \<Longrightarrow> thread_turn st (handler_check s st)"
| erase: "handlers st s = Some Closing \<Longrightarrow> \<not> terminated st \<Longrightarrow> thread_turn st (handler_erase s st)"

text \<open>
  A handler that receives waits in \<open>recv\<close>, which blocks: it goes on only when its client sends
  or closes, or the connection fails. This is a step of the network, not of the server.
\<close>

inductive recv_turn :: "tcp_server \<Rightarrow> tcp_server \<Rightarrow> bool" where
  returns: "handlers st s = Some Receiving \<Longrightarrow> \<not> terminated st \<Longrightarrow> recv_turn st (handle_client s r st)"

text \<open>A step of a call of \<open>stop\<close> after its first. A thread is joined when it has ended.\<close>

inductive stop_turn :: "tcp_server \<Rightarrow> tcp_server \<Rightarrow> bool" where
  join: "stop_at st = JoiningHandlers ahead \<Longrightarrow> s \<in> ahead \<Longrightarrow> handlers st s = None \<Longrightarrow> \<not> terminated st \<Longrightarrow>
    stop_turn st (TCPServer_stop_join s ahead st)"
| meets: "stop_at st = JoiningHandlers ahead \<Longrightarrow> s \<in> m_threads st - ahead \<Longrightarrow> \<not> terminated st \<Longrightarrow>
    stop_turn st (TCPServer_stop_meets s ahead st)"
| joined: "stop_at st = JoiningHandlers {} \<Longrightarrow> \<not> terminated st \<Longrightarrow> stop_turn st (TCPServer_stop_joined st)"
| ends: "stop_at st = JoiningAccept \<Longrightarrow> \<not> accepting st \<Longrightarrow> \<not> terminated st \<Longrightarrow>
    stop_turn st (TCPServer_stop_end st)"

text \<open>A call of \<open>read_byte\<close> by a thread that has none under way, or its next step.\<close>

inductive read_turn :: "tcp_server \<Rightarrow> tcp_server \<Rightarrow> bool" where
  call: "readers st t = None \<Longrightarrow> \<not> terminated st \<Longrightarrow> read_turn st (read_check t i sz blocking erase st)"
| go: "readers st t = Some c \<Longrightarrow> \<not> terminated st \<Longrightarrow> read_turn st (read_next t c st)"

text \<open>
  A step of the whole: the threads, the network, or the program, which calls \<open>start\<close> and
  \<open>stop\<close> from one thread and reads from any number of them.
\<close>

inductive server_step :: "tcp_server \<Rightarrow> tcp_server \<Rightarrow> bool" where
  start: "socket_fd env \<notin> open_fds st \<Longrightarrow> socket_fd env \<ge> -1 \<Longrightarrow> \<not> stopping st \<Longrightarrow> \<not> terminated st \<Longrightarrow>
    server_step st (snd (start env st))"
| stop_begin: "\<not> stopping st \<Longrightarrow> \<not> terminated st \<Longrightarrow> server_step st (TCPServer_stop_begin st)"
| stop: "stop_turn st st' \<Longrightarrow> server_step st st'"
| thread: "thread_turn st st' \<Longrightarrow> server_step st st'"
| recv: "recv_turn st st' \<Longrightarrow> server_step st st'"
| read: "read_turn st st' \<Longrightarrow> server_step st st'"
| clear: "\<not> terminated st \<Longrightarrow> server_step st (clear_fifo i st)"

inductive server_reachable :: "tcp_server \<Rightarrow> bool" where
  new: "server_reachable new_server"
| step: "server_reachable st \<Longrightarrow> server_step st st' \<Longrightarrow> server_reachable st'"


section \<open>The lifecycle\<close>

interpretation tcp_life: server_lifecycle start TCPServer_stop_begin m_is_running AlreadyRunning
  by unfold_locales
    (auto simp: start_def listen_for_connections_def closesocket_def TCPServer_stop_begin_def Let_def)

section \<open>The invariant\<close>

definition fifo_ok :: "tcp_server \<Rightarrow> bool" where
  "fifo_ok st \<longleftrightarrow> (\<forall>s \<in> m_clients st. m_fifos st s \<noteq> None \<and> received st s = consumed st s @ fifo st s)"

text \<open>The threads that a call of \<open>stop\<close> has still to join, as far as it knows.\<close>

definition ahead_of_stop :: "tcp_server \<Rightarrow> int set" where
  "ahead_of_stop st = (case stop_at st of JoiningHandlers ahead \<Rightarrow> ahead | _ \<Rightarrow> {})"

definition threads_ok :: "tcp_server \<Rightarrow> bool" where
  "threads_ok st \<longleftrightarrow>
     (\<forall>s. handlers st s \<noteq> None \<longrightarrow> s \<in> m_threads st) \<and>
     (\<forall>s. handlers st s = Some Checking \<or> handlers st s = Some Receiving \<longrightarrow> s \<in> m_clients st \<and> s \<in> open_fds st) \<and>
     finite (m_threads st) \<and>
     (stopping st \<longrightarrow> \<not> m_is_running st) \<and>
     ahead_of_stop st \<subseteq> m_threads st \<and>
     (stopping st \<and> accepting st \<longrightarrow> ahead_of_stop st = m_threads st) \<and>
     (\<forall>s. handlers st s = Some Receiving \<and> \<not> m_is_running st \<longrightarrow> s \<in> ahead_of_stop st)"

definition server_inv :: "tcp_server \<Rightarrow> bool" where
  "server_inv st \<longleftrightarrow> fifo_ok st \<and> threads_ok st"

lemma fifo_ok_cong:
  "m_clients st' = m_clients st \<Longrightarrow> m_fifos st' = m_fifos st \<Longrightarrow> received st' = received st \<Longrightarrow>
   consumed st' = consumed st \<Longrightarrow> fifo_ok st \<Longrightarrow> fifo_ok st'"
  by (simp add: fifo_ok_def fifo_def)

lemma threads_ok_cong:
  "handlers st' = handlers st \<Longrightarrow> m_threads st' = m_threads st \<Longrightarrow> m_clients st' = m_clients st \<Longrightarrow>
   open_fds st' = open_fds st \<Longrightarrow> stop_at st' = stop_at st \<Longrightarrow> m_is_running st' = m_is_running st \<Longrightarrow>
   accepting st' = accepting st \<Longrightarrow> threads_ok st \<Longrightarrow> threads_ok st'"
  by (simp add: threads_ok_def stopping_def ahead_of_stop_def)

lemmas inv_defs = server_inv_def fifo_ok_def threads_ok_def fifo_def stopping_def ahead_of_stop_def

lemma start_inv:
  assumes "server_inv st" "socket_fd env \<notin> open_fds st" "\<not> stopping st"
  shows "server_inv (snd (start env st))"
proof -
  have "open_fds (snd (start env st)) \<supseteq> open_fds st" "stop_at (snd (start env st)) = stop_at st"
    "handlers (snd (start env st)) = handlers st" "m_threads (snd (start env st)) = m_threads st"
    "m_clients (snd (start env st)) = m_clients st" "m_fifos (snd (start env st)) = m_fifos st"
    "received (snd (start env st)) = received st" "consumed (snd (start env st)) = consumed st"
    using assms(2) by (auto simp: start_def listen_for_connections_def closesocket_def Let_def)
  then show ?thesis
    using assms by (auto simp: inv_defs start_def listen_for_connections_def closesocket_def Let_def split: if_splits)
qed

lemma stop_inv:
  assumes "server_inv st"
  shows "\<not> stopping st \<Longrightarrow> server_inv (TCPServer_stop_begin st)" "stop_turn st st' \<Longrightarrow> server_inv st'"
proof -
  show "\<not> stopping st \<Longrightarrow> server_inv (TCPServer_stop_begin st)"
    using assms by (auto simp: TCPServer_stop_begin_def inv_defs)
  show "server_inv st'" if "stop_turn st st'"
    using that assms by (induction rule: stop_turn.induct)
      (auto simp: TCPServer_stop_join_def TCPServer_stop_meets_def TCPServer_stop_joined_def TCPServer_stop_end_def
        Server_stop_def inv_defs split: stop_phase.splits)
qed

lemma accept_inv:
  assumes "server_inv st" "\<not> terminated st"
  shows "server_inv (accept_turn r st)"
  using assms by (auto simp: accept_turn_def accept_client_def Let_def accept_end_def inv_defs
    split: accept_outcome.split stop_phase.splits)

lemma handler_inv:
  assumes "server_inv st" "handlers st s = Some Checking \<or> handlers st s = Some Receiving"
  shows "server_inv (handler_bytes s bs st)" "server_inv (handler_close s st)" "server_inv (handler_check s st)"
  using assms by (auto simp: handler_check_def handler_bytes_def handler_close_def closesocket_def inv_defs)

lemma handle_inv:
  assumes "server_inv st" "handlers st s = Some Receiving"
  shows "server_inv (handle_client s r st)"
proof -
  have "handlers (handler_bytes s bs st) s = Some Receiving" for bs
    using assms(2) by (simp add: handler_bytes_def)
  then show ?thesis
    using handler_inv(1,2) [of st s] handler_inv(2) [of "handler_bytes s bs st" s for bs] assms
    by (auto simp: handle_client_def Let_def split: recv_outcome.split)
qed

lemma erase_inv: "server_inv st \<Longrightarrow> handlers st s = Some Closing \<Longrightarrow> server_inv (handler_erase s st)"
  by (auto simp: handler_erase_def inv_defs)

lemma read_goto_inv: "server_inv st \<Longrightarrow> server_inv (read_goto t c p st)"
  by (simp add: read_goto_def inv_defs)

lemma read_return_inv: "server_inv st \<Longrightarrow> server_inv (read_return t v st)"
  by (simp add: read_return_def inv_defs)

lemma touch_inv: "server_inv st \<Longrightarrow> server_inv (touch_fifo i st)"
  by (simp add: touch_fifo_def inv_defs)

lemma take_inv: "server_inv st \<Longrightarrow> server_inv (take_bytes i n erase st)"
  by (auto simp: take_bytes_def touch_inv) (auto simp: inv_defs)

lemma read_inv: "read_turn st st' \<Longrightarrow> server_inv st \<Longrightarrow> server_inv st'"
proof (induction rule: read_turn.induct)
  case (go st t c)
  have "server_inv (st\<lparr>readers := (readers st)(t := None), overrun := True\<rparr>)"
    using go by (simp add: inv_defs)
  then show ?case
    using go by (simp add: read_next_def read_size_def read_wait_def read_min_def read_copy_def Let_def
      read_goto_inv read_return_inv touch_inv take_inv split: read_point.split)
qed (simp add: read_check_def read_goto_inv read_return_inv)

lemma clear_inv: "server_inv st \<Longrightarrow> server_inv (clear_fifo i st)"
  by (auto simp: clear_fifo_def inv_defs)

lemma server_inv_turn: "thread_turn st st' \<Longrightarrow> server_inv st \<Longrightarrow> server_inv st'"
  by (induction rule: thread_turn.induct) (auto simp: accept_inv handler_inv erase_inv)

lemma server_inv_recv: "recv_turn st st' \<Longrightarrow> server_inv st \<Longrightarrow> server_inv st'"
  by (induction rule: recv_turn.induct) (simp add: handle_inv)

lemma server_inv_step: "server_step st st' \<Longrightarrow> server_inv st \<Longrightarrow> server_inv st'"
proof (induction rule: server_step.induct)
  case (start env st)
  then show ?case by (simp add: start_inv)
next
  case (stop_begin st)
  then show ?case by (simp add: stop_inv(1))
next
  case (clear st i)
  then show ?case by (simp add: clear_inv)
qed (erule (1) stop_inv(2) [rotated] server_inv_turn server_inv_recv read_inv)+

lemma server_inv_reachable: "server_reachable st \<Longrightarrow> server_inv st"
  by (induction rule: server_reachable.induct)
     (auto simp: server_inv_step, simp add: inv_defs new_server_def)

section \<open>Readers that nobody disturbs\<close>

text \<open>
  \<open>read_byte\<close> takes the number of bytes to copy before it locks the FIFO for the copy. It relies
  on the others not to shorten the FIFO in between: not to read from it with \<open>erase\<close>, not to
  clear it, and the handler not to remove it.
\<close>

definition undisturbed :: "tcp_server \<Rightarrow> tcp_server \<Rightarrow> bool" where
  "undisturbed st st' \<longleftrightarrow>
     (\<forall>t c n. readers st t = Some c \<and> readers st' t = Some c \<and> r_point c = AtCopy n \<longrightarrow>
        length (fifo st (r_socket c)) \<le> length (fifo st' (r_socket c)))"

inductive undisturbed_reachable :: "tcp_server \<Rightarrow> bool" where
  new: "undisturbed_reachable new_server"
| step: "undisturbed_reachable st \<Longrightarrow> server_step st st' \<Longrightarrow> undisturbed st st' \<Longrightarrow> undisturbed_reachable st'"

definition copies_ok :: "tcp_server \<Rightarrow> bool" where
  "copies_ok st \<longleftrightarrow> \<not> overrun st \<and>
     (\<forall>t c n. readers st t = Some c \<and> r_point c = AtCopy n \<longrightarrow> n \<le> length (fifo st (r_socket c)))"

lemma copies_ok_same_readers:
  "copies_ok st \<Longrightarrow> undisturbed st st' \<Longrightarrow> readers st' = readers st \<Longrightarrow> overrun st' = overrun st \<Longrightarrow> copies_ok st'"
  unfolding copies_ok_def undisturbed_def by (metis order_trans)

lemma copies_ok_one_reader:
  assumes "copies_ok st" "undisturbed st st'" "readers st' = (readers st)(t := r)" "\<not> overrun st'"
    "\<And>c n. r = Some c \<Longrightarrow> r_point c = AtCopy n \<Longrightarrow> n \<le> length (fifo st' (r_socket c))"
  shows "copies_ok st'"
proof -
  have "n \<le> length (fifo st' (r_socket c))" if "readers st' u = Some c" "r_point c = AtCopy n" for u c n
  proof (cases "u = t")
    case False
    then have "readers st u = Some c" using that(1) assms(3) by simp
    then show ?thesis using assms(1,2) that unfolding copies_ok_def undisturbed_def by (meson order_trans)
  qed (use that assms(3,5) in simp)
  then show ?thesis using assms(4) unfolding copies_ok_def by blast
qed

lemma fifo_touch [simp]: "fifo (touch_fifo i st) j = fifo st j"
  by (simp add: touch_fifo_def fifo_def)

lemma fifo_goto [simp]: "fifo (read_goto t c p st) j = fifo st j"
  by (simp add: read_goto_def fifo_def)

lemma touch_simps [simp]:
  "readers (touch_fifo i st) = readers st" "overrun (touch_fifo i st) = overrun st"
  "m_clients (touch_fifo i st) = m_clients st" "terminated (touch_fifo i st) = terminated st"
  "touch_fifo i (touch_fifo i st) = touch_fifo i st"
  by (simp_all add: touch_fifo_def fifo_def)

lemma take_bytes_simps [simp]:
  "readers (take_bytes i n erase st) = readers st" "overrun (take_bytes i n erase st) = overrun st"
  by (simp_all add: take_bytes_def)

lemma goto_simps [simp]:
  "readers (read_goto t c p st) = (readers st)(t := Some (c\<lparr>r_point := p\<rparr>))"
  "overrun (read_goto t c p st) = overrun st" "terminated (read_goto t c p st) = terminated st"
  "m_clients (read_goto t c p st) = m_clients st"
  by (simp_all add: read_goto_def)

lemma return_simps [simp]:
  "readers (read_return t v st) = (readers st)(t := None)" "overrun (read_return t v st) = overrun st"
  by (simp_all add: read_return_def)

lemma copies_ok_read:
  assumes "read_turn st st'" "copies_ok st" "undisturbed st st'"
  shows "copies_ok st'"
  using assms(1)
proof cases
  case (call t i sz blocking erase)
  show ?thesis
    by (rule copies_ok_one_reader [OF assms(2,3), of t "readers st' t"])
       (use assms(2) in \<open>auto simp: call read_check_def copies_ok_def\<close>)
next
  case (go t c)
  have "n \<le> length (fifo st (r_socket c))" if "r_point c = AtCopy n" for n
    using go assms(2) that by (auto simp: copies_ok_def)
  then show ?thesis
    by (intro copies_ok_one_reader [OF assms(2,3), of t "readers st' t"])
       (use assms(2) in \<open>auto simp: go read_next_def read_size_def read_wait_def read_min_def read_copy_def
          copies_ok_def Let_def split: read_point.split if_splits\<close>)
qed

lemma turns_keep_readers:
  "thread_turn st st' \<Longrightarrow> readers st' = readers st \<and> overrun st' = overrun st"
  "recv_turn st st' \<Longrightarrow> readers st' = readers st \<and> overrun st' = overrun st"
  "stop_turn st st' \<Longrightarrow> readers st' = readers st \<and> overrun st' = overrun st"
  by (erule thread_turn.cases recv_turn.cases stop_turn.cases;
      simp add: accept_turn_def accept_client_def accept_end_def handler_check_def handle_client_def
        handler_bytes_def handler_close_def closesocket_def handler_erase_def TCPServer_stop_join_def
        TCPServer_stop_meets_def TCPServer_stop_joined_def TCPServer_stop_end_def Server_stop_def Let_def
        split: accept_outcome.split recv_outcome.split)+

lemma copies_ok_step:
  assumes "server_step st st'" "copies_ok st" "undisturbed st st'"
  shows "copies_ok st'"
proof (cases "read_turn st st'")
  case True
  then show ?thesis using copies_ok_read assms(2,3) by blast
next
  case False
  have kept: "readers (snd (start env st)) = readers st \<and> overrun (snd (start env st)) = overrun st" for env
    by (simp add: start_def listen_for_connections_def closesocket_def Let_def)
  have "readers st' = readers st \<and> overrun st' = overrun st"
    using assms(1)
    by cases (use False in \<open>auto simp: kept turns_keep_readers TCPServer_stop_begin_def clear_fifo_def\<close>)
  then show ?thesis using copies_ok_same_readers [OF assms(2,3)] by blast
qed

lemma undisturbed_copies_ok: "undisturbed_reachable st \<Longrightarrow> copies_ok st"
  by (induction rule: undisturbed_reachable.induct)
     (auto simp: copies_ok_step, simp add: copies_ok_def new_server_def)

text \<open>A call on a connected client that no other thread interrupts: four steps, together \<open>read_byte\<close>.\<close>

lemma read_to_copy:
  assumes "readers st t = None" "i \<in> m_clients st" "\<not> terminated st" "\<not> blocking \<or> sz \<le> length (fifo st i)"
  shows "read_turn\<^sup>*\<^sup>* st (read_goto t \<lparr>r_socket = i, r_size = sz, r_blocking = blocking, r_erase = erase, r_point = AtMin\<rparr>
    (AtCopy (min sz (length (fifo st i)))) (touch_fifo i st))" (is "read_turn\<^sup>*\<^sup>* st (read_goto t ?c ?n _)")
proof -
  let ?a = "read_goto t ?c AtSize st" and ?b = "read_goto t ?c AtMin (touch_fifo i st)"
  have fold: "read_goto t (c\<lparr>r_point := p\<rparr>) q (touch_fifo i (read_goto t c p' u)) = read_goto t c q (touch_fifo i u)" for c p q p' u
    by (simp add: read_goto_def touch_fifo_def fifo_def)
  have a: "read_turn st ?a"
    using read_turn.call [OF assms(1,3), of i sz blocking erase] assms(2) by (simp add: read_check_def read_goto_def)
  have "read_turn ?a (read_next t (?c\<lparr>r_point := AtSize\<rparr>) ?a)"
    using assms(3) by (intro read_turn.go) simp_all
  moreover have "read_next t (?c\<lparr>r_point := AtSize\<rparr>) ?a = ?b"
    using assms(4) by (auto simp: read_next_def read_size_def Let_def) (simp_all add: read_goto_def touch_fifo_def fifo_def)
  moreover have "read_turn ?b (read_next t (?c\<lparr>r_point := AtMin\<rparr>) ?b)"
    using assms(3) by (intro read_turn.go) simp_all
  moreover have "read_next t (?c\<lparr>r_point := AtMin\<rparr>) ?b = read_goto t ?c ?n (touch_fifo i st)"
    by (simp add: read_next_def read_min_def) (simp add: read_goto_def touch_fifo_def fifo_def)
  ultimately show ?thesis using a by (metis converse_rtranclp_into_rtranclp rtranclp.rtrancl_refl)
qed

lemma read_byte_undisturbed:
  assumes "readers st t = None" "i \<in> m_clients st" "\<not> terminated st" "\<not> blocking \<or> sz \<le> length (fifo st i)"
  shows "\<exists>st'. read_turn\<^sup>*\<^sup>* st st' \<and> returned st' t = Some (fst (read_byte i sz erase st)) \<and>
    fifo st' = fifo (snd (read_byte i sz erase st)) \<and> consumed st' = consumed (snd (read_byte i sz erase st)) \<and>
    m_clients st' = m_clients st"
proof -
  let ?c = "\<lparr>r_socket = i, r_size = sz, r_blocking = blocking, r_erase = erase, r_point = AtMin\<rparr>"
  let ?n = "min sz (length (fifo st i))"
  let ?a = "read_goto t ?c (AtCopy ?n) (touch_fifo i st)" and ?d = "?c\<lparr>r_point := AtCopy ?n\<rparr>"
  have "read_turn ?a (read_next t ?d ?a)"
    using assms(3) by (intro read_turn.go) simp_all
  then have "read_turn\<^sup>*\<^sup>* st (read_next t ?d ?a)"
    using read_to_copy [OF assms, of erase] by (rule rtranclp.rtrancl_into_rtrancl [rotated])
  then show ?thesis
    by (rule exI [where x = "read_next t ?d ?a", OF conjI])
       (use assms(2) in \<open>auto simp: read_next_def read_copy_def read_byte_def read_return_def take_bytes_def Let_def
          read_goto_def touch_fifo_def fifo_def fun_eq_iff\<close>)
qed

section \<open>The FIFO as a queue of bytes\<close>

text \<open>
  The interface of a queue in an object that holds more: while \<open>ok\<close> holds, \<open>enq\<close> appends
  and \<open>deq n\<close> takes up to \<open>n\<close> elements from the front, and both keep \<open>ok\<close>.
\<close>

locale byte_queue =
  fixes ok :: "'q \<Rightarrow> bool"
    and content :: "'q \<Rightarrow> 'b list"
    and enq :: "'b list \<Rightarrow> 'q \<Rightarrow> 'q"
    and deq :: "nat \<Rightarrow> 'q \<Rightarrow> 'b list \<times> 'q"
  assumes content_enq: "ok q \<Longrightarrow> content (enq bs q) = content q @ bs"
    and ok_enq: "ok q \<Longrightarrow> ok (enq bs q)"
    and deq_front: "ok q \<Longrightarrow> fst (deq n q) = take n (content q)"
    and content_deq: "ok q \<Longrightarrow> content (snd (deq n q)) = drop n (content q)"
    and ok_deq: "ok q \<Longrightarrow> ok (snd (deq n q))"
begin

text \<open>A run of the producer (\<open>Inl\<close>) and the consumer (\<open>Inr\<close>); what the consumer got.\<close>

fun run :: "('b list + nat) list \<Rightarrow> 'q \<Rightarrow> 'b list \<times> 'q" where
  "run [] q = ([], q)"
| "run (Inl bs # ops) q = run ops (enq bs q)"
| "run (Inr n # ops) q = (let (out, q) = deq n q; (rest, q) = run ops q in (out @ rest, q))"

fun produced :: "('b list + nat) list \<Rightarrow> 'b list" where
  "produced [] = []"
| "produced (Inl bs # ops) = bs @ produced ops"
| "produced (Inr n # ops) = produced ops"

lemma run_conserves:
  "ok q \<Longrightarrow> fst (run ops q) @ content (snd (run ops q)) = content q @ produced ops"
proof (induction ops q rule: run.induct)
  case (2 bs ops q)
  then show ?case by (simp add: content_enq ok_enq)
next
  case (3 n ops q)
  have "fst (run ops (snd (deq n q))) @ content (snd (run ops (snd (deq n q))))
      = drop n (content q) @ produced ops"
    using "3.IH" "3.prems" ok_deq content_deq by (metis prod.collapse)
  then show ?case
    using deq_front [OF "3.prems", of n] by (simp add: split_beta Let_def)
qed simp

end

definition has_client :: "int \<Rightarrow> tcp_server \<Rightarrow> bool" where
  "has_client i st \<longleftrightarrow> i \<in> m_clients st"

definition fifo_read :: "int \<Rightarrow> nat \<Rightarrow> tcp_server \<Rightarrow> u8 list \<times> tcp_server" where
  "fifo_read i n st = (let ((_, out), st) = read_byte i n True st in (out, st))"

definition fifo_of :: "int \<Rightarrow> tcp_server \<Rightarrow> u8 list" where
  "fifo_of i st = fifo st i"

lemma take_min_length: "take (min n (length xs)) xs = take n xs" "drop (min n (length xs)) xs = drop n xs"
  by (simp_all add: min_def)

interpretation client_fifo: byte_queue "has_client i" "fifo_of i" "handler_bytes i" "fifo_read i" for i
  by unfold_locales
     (auto simp: has_client_def fifo_of_def handler_bytes_def fifo_read_def read_byte_def take_bytes_def fifo_def
       take_min_length Let_def)

section \<open>Properties\<close>

lemma fifo_invariant:
  "server_reachable st \<Longrightarrow> s \<in> m_clients st \<Longrightarrow> received st s = consumed st s @ fifo st s"
  using server_inv_reachable [of st] by (simp add: server_inv_def fifo_ok_def)

text \<open>
  C6: In every state the server reaches, whatever the order in which its threads and the
  steps of the program's calls come, with any number of threads in \<open>read_byte\<close> and unless a copy
  has run past the end of a FIFO: the bytes received from a connected client are those that left
  its FIFO followed by those in it, in order and none twice, and a call that now copies \<open>n\<close> bytes
  of them gets the next \<open>n\<close>. No copy runs past the end as long as nobody shortens a FIFO between
  the point where a call takes the number and the point where it copies.
\<close>

theorem fifo_holds_unread_bytes:
  assumes "server_reachable st" "s \<in> m_clients st"
  shows "(overrun st \<or>
     received st s = consumed st s @ fifo st s \<and>
     (\<forall>t c n. readers st t = Some c \<and> r_socket c = s \<and> r_point c = AtCopy n \<and> n \<le> length (fifo st s) \<longrightarrow>
        (\<exists>out. returned (read_next t c st) t = Some (to_int8 n, out) \<and> length out = n \<and>
           prefix (consumed st s @ out) (received st s)))) \<and>
    (undisturbed_reachable st \<longrightarrow> \<not> overrun st)"
proof -
  have inv: "received st s = consumed st s @ fifo st s" by (rule fifo_invariant [OF assms])
  have "\<exists>out. returned (read_next t c st) t = Some (to_int8 n, out) \<and> length out = n \<and>
      prefix (consumed st s @ out) (received st s)"
    if "r_socket c = s" "r_point c = AtCopy n" "n \<le> length (fifo st s)" for t c n
    by (rule exI [where x = "take n (fifo st s)"])
       (use that in \<open>simp add: inv read_next_def read_copy_def read_return_def take_is_prefix\<close>)
  moreover have "undisturbed_reachable st \<Longrightarrow> \<not> overrun st"
    using undisturbed_copies_ok by (simp add: copies_ok_def)
  ultimately show ?thesis using inv by blast
qed

text \<open>
  Two threads that read from one client can run past the end of its FIFO: both take the number
  of bytes before either copies, and the second copies what the first has erased.
\<close>

theorem two_readers_overrun_fifo:
  assumes "s \<in> m_clients st" "fifo st s \<noteq> []" "readers st t = None" "readers st u = None" "t \<noteq> u" "\<not> terminated st"
  shows "\<exists>st'. read_turn\<^sup>*\<^sup>* st st' \<and> overrun st'"
proof -
  let ?n = "length (fifo st s)"
  let ?c = "\<lparr>r_socket = s, r_size = ?n, r_blocking = False, r_erase = True, r_point = AtMin\<rparr>"
  let ?d = "?c\<lparr>r_point := AtCopy ?n\<rparr>"
  let ?a = "read_goto t ?c (AtCopy ?n) (touch_fifo s st)"
  let ?b = "read_goto u ?c (AtCopy ?n) (touch_fifo s ?a)"
  let ?e = "read_next t ?d ?b"
  have "read_turn\<^sup>*\<^sup>* st ?a"
    using read_to_copy [OF assms(3,1,6), of False ?n True] by simp
  moreover have "read_turn\<^sup>*\<^sup>* ?a ?b"
    using read_to_copy [of ?a u s False ?n True] assms by simp
  moreover have "read_turn ?b ?e" using assms(5,6) by (intro read_turn.go) simp_all
  moreover have e: "readers ?e u = Some ?d" "\<not> terminated ?e" "fifo ?e s = []"
    using assms(5,6) by (simp_all add: read_next_def read_copy_def read_return_def take_bytes_def)
      (simp add: read_goto_def touch_fifo_def fifo_def)
  moreover have "read_turn ?e (read_next u ?d ?e)" using e(1,2) by (rule read_turn.go)
  moreover have "overrun (read_next u ?d ?e)"
    using e(3) assms(2) by (simp add: read_next_def read_copy_def)
  ultimately show ?thesis by (meson rtranclp.rtrancl_into_rtrancl rtranclp_trans)
qed

text \<open>
  One reader is enough when its client disconnects at that point: the handler removes the FIFO.
\<close>

theorem disconnect_overruns_reader:
  assumes "handlers st s = Some Closing" "readers st t = Some c" "r_socket c = s" "r_point c = AtCopy n" "0 < n"
    "\<not> terminated st"
  shows "server_step st (handler_erase s st) \<and>
    server_step (handler_erase s st) (read_next t c (handler_erase s st)) \<and> overrun (read_next t c (handler_erase s st))"
proof -
  have "readers (handler_erase s st) t = Some c" "\<not> terminated (handler_erase s st)" "fifo (handler_erase s st) s = []"
    using assms(2,6) by (simp_all add: handler_erase_def fifo_def)
  then show ?thesis
    using assms by (auto intro: server_step.thread thread_turn.erase server_step.read read_turn.go)
      (simp add: read_next_def read_copy_def)
qed

text \<open>
  A call that waits for bytes does not notice that its client is gone: it goes on waiting at an
  empty FIFO that it has made itself.
\<close>

theorem waiting_reader_ignores_disconnect:
  assumes "readers st t = Some c" "r_point c = InWait" "m_fifos st (r_socket c) = None" "0 < r_size c"
  shows "readers (read_next t c st) t = Some c \<and> m_fifos (read_next t c st) (r_socket c) = Some []"
  using assms by (cases c) (simp add: read_next_def read_wait_def read_goto_def touch_fifo_def fifo_def)

text \<open>
  Bytes that the handler appends and the program reads in any order of calls come out
  as they went in: what was read, followed by what is left, is what was there and what
  arrived.
\<close>

theorem client_fifo_is_a_queue:
  assumes "i \<in> m_clients st"
  shows "fst (client_fifo.run i ops st) @ fifo (snd (client_fifo.run i ops st)) i
    = fifo st i @ client_fifo.produced ops"
  using client_fifo.run_conserves [of i st ops] assms by (simp add: has_client_def fifo_of_def)

text \<open>
  For a call that no other thread interrupts: the number that \<open>read_byte\<close> returns is the number of bytes it copied only below 128:
  from 128 to 255 bytes it is that number less 256, and negative like the value for an
  unknown client.
\<close>

theorem read_byte_counts_in_int8:
  assumes "i \<in> m_clients st" "min sz (length (fifo st i)) < 256"
  shows "snd (fst (read_byte i sz erase st)) = take sz (fifo st i) \<and>
    fst (fst (read_byte i sz erase st)) =
      (let n = int (min sz (length (fifo st i))) in if n < 128 then n else n - 256) \<and>
    fifo (snd (read_byte i sz erase st)) i = (if erase then drop sz (fifo st i) else fifo st i)"
proof -
  let ?n = "min sz (length (fifo st i))"
  have small: "to_int8 k = int k" if "k < 128" for k
    using that unfolding to_int8_def by (intro signed_take_bit_int_eq_self) simp_all
  have big: "to_int8 k = int k - 256" if "128 \<le> k" "k < 256" for k
  proof -
    have "to_int8 k = signed_take_bit 7 (int k - 256)"
      unfolding to_int8_def signed_take_bit_eq_iff_take_bit_eq
      by (simp add: take_bit_eq_mod mod_diff_eq [symmetric])
    then show ?thesis using that by (simp add: signed_take_bit_int_eq_self)
  qed
  have "to_int8 k = (if int k < 128 then int k else int k - 256)" if "k < 256" for k
    using small [of k] big [of k] that by (cases "k < 128") simp_all
  from this [OF assms(2)] show ?thesis
    using assms(1) by (simp add: read_byte_def take_bytes_def touch_fifo_def Let_def take_min_length fifo_def)
qed


text \<open>
  Stopping a server that listens ends without closing the listening socket: the
  base class finds the flag already cleared and returns, so the descriptor stays open and
  stored.
\<close>

theorem stop_leaves_listener_open:
  assumes "m_is_running st" "stop_turn\<^sup>*\<^sup>* (TCPServer_stop_begin st) st'"
  shows "open_fds st' = open_fds st \<and> s_fd st' = s_fd st"
proof -
  have "open_fds st' = open_fds st \<and> s_fd st' = s_fd st \<and> \<not> m_is_running st'"
    using assms(2)
  proof (induction rule: rtranclp_induct)
    case base
    then show ?case using assms(1) by (simp add: TCPServer_stop_begin_def)
  next
    case (step u v)
    from step(2,3) show ?case
      by cases (auto simp: TCPServer_stop_join_def TCPServer_stop_meets_def TCPServer_stop_joined_def
        TCPServer_stop_end_def Server_stop_def)
  qed
  then show ?thesis by simp
qed

text \<open>
  A start that fails throws and leaves the server marked as running, so that the next
  start throws as well; the socket stays open exactly when one of the two TCP options
  could not be set.
\<close>

theorem failed_start_blocks_next_start:
  assumes "\<not> m_is_running st" "socket_fd env \<notin> open_fds st" "fst (start env st) = Some e"
  shows "m_is_running (snd (start env st)) \<and>
    start env' (snd (start env st)) = (Some AlreadyRunning, snd (start env st)) \<and>
    (socket_fd env \<in> open_fds (snd (start env st)) \<longleftrightarrow> e = NoDelayFailed \<or> e = QuickAckFailed)"
  using assms by (auto simp: start_def listen_for_connections_def closesocket_def Let_def split: if_splits)

text \<open>
  C29: When a client has disconnected and the next connection gets its descriptor, which
  is free again, the server terminates: the finished thread of the old connection was
  never joined, and a new one is assigned over it. Every step of this is possible
  in any state with a connected client in which the server accepts.
\<close>

theorem reconnect_terminates_server:
  assumes "server_reachable st" "handlers st s = Some Receiving" "accepting st" "\<not> terminated st" "0 \<le> s"
  defines "st1 \<equiv> handle_client s Ended st" and "st2 \<equiv> handler_erase s (handle_client s Ended st)"
  shows "server_step st st1 \<and> server_step st1 st2 \<and> server_step st2 (accept_turn (Connection s) st2) \<and>
    terminated (accept_turn (Connection s) st2)"
proof -
  have t: "s \<in> m_threads st"
    using server_inv_reachable [OF assms(1)] assms(2) by (simp add: server_inv_def threads_ok_def)
  have st1: "handlers st1 s = Some Closing" "\<not> terminated st1" "accepting st1" "s \<notin> open_fds st1" "s \<in> m_threads st1"
    using assms(3,4) t by (simp_all add: st1_def handle_client_def handler_close_def closesocket_def)
  have st2: "st2 = handler_erase s st1" by (simp add: st1_def st2_def)
  have st2': "\<not> terminated st2" "accepting st2" "s \<notin> open_fds st2" "s \<in> m_threads st2"
    using st1 by (simp_all add: st2 handler_erase_def)
  have "server_step st st1" unfolding st1_def using assms(2,4) by (intro server_step.recv recv_turn.returns)
  moreover have "server_step st1 st2" unfolding st2 using st1(1,2) by (intro server_step.thread thread_turn.erase)
  moreover have "server_step st2 (accept_turn (Connection s) st2)"
    using st2'(1-3) assms(5) by (intro server_step.thread thread_turn.accept) simp_all
  moreover have "terminated (accept_turn (Connection s) st2)" using st2'(4) by (simp add: accept_turn_def accept_client_def Let_def)
  ultimately show ?thesis by blast
qed

section \<open>Stopping\<close>

text \<open>
  The server by itself, without any client doing anything; and with clients whose \<open>recv\<close> returns.
\<close>

inductive own_step :: "tcp_server \<Rightarrow> tcp_server \<Rightarrow> bool" where
  thread: "thread_turn st st' \<Longrightarrow> own_step st st'"
| stop: "stop_turn st st' \<Longrightarrow> own_step st st'"

inductive served_step :: "tcp_server \<Rightarrow> tcp_server \<Rightarrow> bool" where
  own: "own_step st st' \<Longrightarrow> served_step st st'"
| recv: "recv_turn st st' \<Longrightarrow> served_step st st'"

text \<open>
  The steps that are left once the flag is cleared: two for a thread that has not closed its
  socket, one for a thread that has; the accept thread may still take in one client; \<open>stop\<close> meets
  and joins each thread and then ends in two steps.
\<close>

definition turns_of :: "tcp_server \<Rightarrow> int \<Rightarrow> nat" where
  "turns_of st s = (case handlers st s of None \<Rightarrow> 0 | Some Closing \<Rightarrow> 1 | Some _ \<Rightarrow> 2)"

definition stop_left :: "tcp_server \<Rightarrow> nat" where
  "stop_left st =
     (case stop_at st of
        NotStopping \<Rightarrow> 0
      | JoiningAccept \<Rightarrow> 1
      | JoiningHandlers ahead \<Rightarrow> 2 + card (m_threads st) + card (m_threads st - ahead))"

definition turns_left :: "tcp_server \<Rightarrow> nat" where
  "turns_left st =
     (if terminated st then 0
      else (if accepting st then 5 else 0) + sum (turns_of st) (m_threads st) + stop_left st)"

lemma stop_left_cong: "stop_at st' = stop_at st \<Longrightarrow> m_threads st' = m_threads st \<Longrightarrow> stop_left st' = stop_left st"
  by (simp add: stop_left_def split: stop_phase.split)

lemma sum_turns_update:
  assumes "finite S" "s \<in> S" "\<And>i. i \<noteq> s \<Longrightarrow> g i = f i" "g s < f s"
  shows "sum g S < sum (f :: int \<Rightarrow> nat) S"
proof (rule sum_strict_mono_ex1 [OF assms(1)])
  show "\<forall>i\<in>S. g i \<le> f i" using assms(3,4) by (metis less_imp_le order_refl)
  show "\<exists>i\<in>S. g i < f i" using assms(2,4) by blast
qed

lemma thread_shape:
  "thread_turn st st' \<Longrightarrow> stop_at st' = stop_at st \<and> m_is_running st' = m_is_running st"
  "recv_turn st st' \<Longrightarrow> stop_at st' = stop_at st \<and> m_is_running st' = m_is_running st"
  by (erule thread_turn.cases recv_turn.cases;
      simp add: accept_turn_def accept_client_def accept_end_def handler_check_def handle_client_def
        handler_bytes_def handler_close_def closesocket_def handler_erase_def Let_def
        split: accept_outcome.split recv_outcome.split)+

lemma handler_step_uses_turns:
  assumes "finite (m_threads st)" "s \<in> m_threads st" "\<not> terminated st"
    "m_threads st' = m_threads st" "stop_at st' = stop_at st" "accepting st' = accepting st" "terminated st' = terminated st"
    "\<And>i. i \<noteq> s \<Longrightarrow> handlers st' i = handlers st i" "turns_of st' s < turns_of st s"
  shows "turns_left st' < turns_left st"
proof -
  have "sum (turns_of st') (m_threads st) < sum (turns_of st) (m_threads st)"
    using assms(1,2,8,9) by (intro sum_turns_update [where s = s]) (simp_all add: turns_of_def)
  moreover have "stop_left st' = stop_left st" using assms(5,4) by (rule stop_left_cong)
  ultimately show ?thesis using assms(3-7) by (simp add: turns_left_def)
qed

lemma handlers_use_turns:
  assumes "server_inv st" "\<not> m_is_running st" "\<not> terminated st"
  shows "handlers st s = Some Checking \<Longrightarrow> turns_left (handler_check s st) < turns_left st"
    "handlers st s = Some Receiving \<Longrightarrow> turns_left (handle_client s r st) < turns_left st"
    "handlers st s = Some Closing \<Longrightarrow> turns_left (handler_erase s st) < turns_left st"
proof -
  have s: "finite (m_threads st)" "handlers st s \<noteq> None \<Longrightarrow> s \<in> m_threads st"
    using assms(1) by (simp_all add: server_inv_def threads_ok_def)
  note shape = handler_check_def handle_client_def handler_bytes_def handler_close_def closesocket_def
    handler_erase_def turns_of_def Let_def
  show "handlers st s = Some Checking \<Longrightarrow> turns_left (handler_check s st) < turns_left st"
    using s assms(2,3) by (intro handler_step_uses_turns [of st s]) (simp_all add: shape)
  show "handlers st s = Some Receiving \<Longrightarrow> turns_left (handle_client s r st) < turns_left st"
    using s assms(2,3) by (intro handler_step_uses_turns [of st s]) (simp_all add: shape split: recv_outcome.split)
  show "handlers st s = Some Closing \<Longrightarrow> turns_left (handler_erase s st) < turns_left st"
    using s assms(2,3) by (intro handler_step_uses_turns [of st s]) (simp_all add: shape)
qed

lemma new_client_left:
  assumes "finite (m_threads st)" "s \<notin> m_threads st"
  shows "stop_left (st\<lparr>m_threads := insert s (m_threads st)\<rparr>) \<le> 2 + stop_left st"
proof (cases "stop_at st")
  case (JoiningHandlers ahead)
  have "card (insert s (m_threads st) - ahead) \<le> card (insert s (m_threads st - ahead))"
    using assms(1) by (intro card_mono) auto
  also have "\<dots> \<le> Suc (card (m_threads st - ahead))" by (simp add: card_insert_le_m1 card_insert_if assms(1))
  finally show ?thesis using assms JoiningHandlers by (simp add: stop_left_def)
qed (simp_all add: stop_left_def)

lemma accept_end_left: "accepting st \<Longrightarrow> \<not> terminated st \<Longrightarrow> turns_left (accept_end st) < turns_left st"
  using stop_left_cong [of "accept_end st" st] by (simp add: accept_end_def turns_left_def turns_of_def)

lemma accept_uses_turns:
  assumes "server_inv st" "\<not> m_is_running st" "\<not> terminated st" "accepting st"
  shows "turns_left (accept_turn r st) < turns_left st"
proof (cases "\<exists>s. r = Connection s \<and> s \<notin> m_threads st")
  case True
  then obtain s where s: "r = Connection s" "s \<notin> m_threads st" by blast
  have fin: "finite (m_threads st)" using assms(1) by (simp add: server_inv_def threads_ok_def)
  have "sum (turns_of (accept_turn r st)) (m_threads st) = sum (turns_of st) (m_threads st)"
    using s by (intro sum.cong)
      (auto simp: accept_turn_def accept_client_def accept_end_def turns_of_def Let_def)
  moreover have "stop_left (accept_turn r st) \<le> 2 + stop_left st"
    using new_client_left [OF fin s(2)] s assms(2,3) stop_left_cong [of "st\<lparr>m_threads := insert s (m_threads st)\<rparr>" "accept_turn r st"]
    by (simp add: accept_turn_def accept_client_def accept_end_def Let_def)
  ultimately show ?thesis using fin s assms(2-4)
    by (simp add: turns_left_def accept_turn_def accept_client_def accept_end_def turns_of_def Let_def)
next
  case False
  have "turns_left (accept_turn r st) = 0 \<or> accept_turn r st = accept_end st"
    using False assms(2)
    by (cases r) (simp_all add: accept_turn_def accept_client_def turns_left_def Let_def)
  then show ?thesis using accept_end_left [OF assms(4,3)] by auto
qed

lemma thread_uses_turns:
  assumes "thread_turn st st'" "server_inv st" "\<not> m_is_running st"
  shows "turns_left st' < turns_left st"
  using assms(1) by cases (simp_all add: accept_uses_turns handlers_use_turns assms(2,3))

lemma recv_uses_turns:
  assumes "recv_turn st st'" "server_inv st" "\<not> m_is_running st"
  shows "turns_left st' < turns_left st"
  using assms(1) by cases (simp add: handlers_use_turns assms(2,3))

lemma stop_uses_turns:
  assumes "stop_turn st st'" "server_inv st" "\<not> m_is_running st"
  shows "turns_left st' < turns_left st" "\<not> m_is_running st'"
proof -
  have fin: "finite (m_threads st)" "ahead_of_stop st \<subseteq> m_threads st"
    using assms(2) by (simp_all add: server_inv_def threads_ok_def)
  show "turns_left st' < turns_left st"
    using assms(1)
  proof cases
    case (join ahead s)
    have s: "s \<in> m_threads st" using fin(2) join by (auto simp: ahead_of_stop_def)
    have "sum (turns_of st') (m_threads st - {s}) \<le> sum (turns_of st) (m_threads st)"
      using fin(1) by (simp add: join TCPServer_stop_join_def turns_of_def sum_mono2)
    moreover have "card (m_threads st - {s} - (ahead - {s})) \<le> card (m_threads st - ahead)"
      using fin(1) by (intro card_mono) auto
    moreover have "card (m_threads st - {s}) < card (m_threads st)" using s fin(1) by (rule card_Diff1_less [rotated])
    ultimately show ?thesis using join by (simp add: TCPServer_stop_join_def turns_left_def stop_left_def)
  next
    case (meets ahead s)
    have "card (m_threads st - insert s ahead) < card (m_threads st - ahead)"
      using fin(1) meets by (intro psubset_card_mono) auto
    moreover have "turns_of st' = turns_of st" by (simp add: meets TCPServer_stop_meets_def turns_of_def fun_eq_iff)
    ultimately show ?thesis using meets by (simp add: TCPServer_stop_meets_def turns_left_def stop_left_def)
  qed (use assms(3) in \<open>simp_all add: TCPServer_stop_joined_def TCPServer_stop_end_def Server_stop_def turns_left_def
         stop_left_def turns_of_def\<close>)
  show "\<not> m_is_running st'"
    using assms(1,3) by cases (simp_all add: TCPServer_stop_join_def TCPServer_stop_meets_def TCPServer_stop_joined_def
      TCPServer_stop_end_def Server_stop_def)
qed

lemma served_step_uses_turns:
  assumes "served_step st st'" "server_inv st" "\<not> m_is_running st"
  shows "turns_left st' < turns_left st \<and> server_inv st' \<and> \<not> m_is_running st'"
proof -
  have "thread_turn st st' \<or> recv_turn st st' \<or> stop_turn st st'"
    using assms(1) by (auto elim!: served_step.cases own_step.cases)
  then show ?thesis
    using thread_uses_turns recv_uses_turns stop_uses_turns thread_shape server_inv_turn server_inv_recv stop_inv(2)
      assms(2,3) by metis
qed

lemma served_run:
  assumes "(served_step ^^ n) st st'" "server_inv st" "\<not> m_is_running st"
  shows "server_inv st' \<and> \<not> m_is_running st' \<and> n + turns_left st' \<le> turns_left st"
  using assms(1)
proof (induction n arbitrary: st')
  case (Suc n)
  then obtain u where u: "(served_step ^^ n) st u" "served_step u st'" by auto
  show ?case using Suc.IH [OF u(1)] served_step_uses_turns [OF u(2)] by linarith
qed (use assms in auto)

text \<open>With no step left, the call of \<open>stop\<close> waits for a handler that waits for its client.\<close>

lemma receiving_stops:
  assumes "server_inv st" "\<not> m_is_running st" "handlers st s = Some Receiving"
  shows "\<exists>ahead. stop_at st = JoiningHandlers ahead \<and> s \<in> ahead"
proof -
  have "s \<in> ahead_of_stop st" using assms by (simp add: server_inv_def threads_ok_def)
  then show ?thesis by (simp add: ahead_of_stop_def split: stop_phase.splits)
qed

lemma no_own_step:
  assumes "server_inv st" "\<nexists>st'. own_step st st'" "\<not> terminated st" "stopping st"
  shows "\<exists>s. handlers st s = Some Receiving"
proof -
  have no: "\<not> thread_turn st st'" "\<not> stop_turn st st'" for st'
    using assms(2) own_step.intros by blast+
  have acc: "\<not> accepting st" using no(1) thread_turn.accept [of st NoConnection] assms(3) by auto
  obtain ahead where ahead: "stop_at st = JoiningHandlers ahead"
    using no(2) stop_turn.ends [OF _ acc assms(3)] assms(4) by (cases "stop_at st") (auto simp: stopping_def)
  obtain s where s: "s \<in> ahead" using no(2) stop_turn.joined [OF _ assms(3)] ahead by (cases "ahead = {}") auto
  then obtain h where "handlers st s = Some h"
    using no(2) stop_turn.join [OF ahead s _ assms(3)] by (cases "handlers st s") auto
  moreover have "h \<noteq> Checking" "h \<noteq> Closing"
    using calculation no(1) thread_turn.check [OF _ assms(3)] thread_turn.erase [OF _ assms(3)] by blast+
  ultimately show ?thesis by (cases h) auto
qed

lemma receiving_stays:
  assumes "own_step st st'" "server_inv st" "\<not> m_is_running st" "handlers st s = Some Receiving"
  shows "handlers st' s = Some Receiving"
proof -
  have "s \<in> m_threads st" using assms(2,4) by (auto simp: server_inv_def threads_ok_def)
  then show ?thesis
    using assms(1,4) by (auto elim!: own_step.cases thread_turn.cases stop_turn.cases simp: accept_turn_def
      accept_client_def accept_end_def handler_check_def handler_close_def closesocket_def handler_erase_def
      TCPServer_stop_join_def TCPServer_stop_meets_def TCPServer_stop_joined_def TCPServer_stop_end_def
      Server_stop_def Let_def split: accept_outcome.splits)
qed

lemma idle_client_blocks:
  assumes "own_step\<^sup>*\<^sup>* st st'" "server_inv st" "\<not> m_is_running st" "handlers st s = Some Receiving"
  shows "server_inv st' \<and> \<not> m_is_running st' \<and> handlers st' s = Some Receiving"
  using assms(1)
proof (induction rule: rtranclp_induct)
  case (step u v)
  then show ?case using receiving_stays served_step_uses_turns [OF served_step.own] by blast
qed (use assms in simp)

text \<open>
  C30: Unless a reused descriptor terminates the process, a call of \<open>stop\<close> returns exactly when the
  \<open>recv\<close> of every client returns. In whatever order
  the threads, the network and the joins take their steps, there are at most \<open>turns_left\<close> of them.
  When the server has no step of its own left, a reused descriptor has terminated the process, or
  \<open>stop\<close> has returned, or it waits for a handler whose \<open>recv\<close> waits for its client; and as long as
  such a client is idle no steps of the server make \<open>stop\<close> return.
\<close>

theorem stop_returns:
  assumes "server_reachable st" "stopping st" "(served_step ^^ n) st st'"
  shows "n \<le> turns_left st \<and>
    ((\<nexists>st''. own_step st' st'') \<longrightarrow>
       terminated st' \<or> (stopping st' \<longleftrightarrow> (\<exists>s. handlers st' s = Some Receiving))) \<and>
    (\<forall>s st''. handlers st' s = Some Receiving \<and> own_step\<^sup>*\<^sup>* st' st'' \<longrightarrow>
       stopping st'' \<and> handlers st'' s = Some Receiving)"
proof -
  have inv: "server_inv st" by (rule server_inv_reachable [OF assms(1)])
  then have "\<not> m_is_running st" using assms(2) by (simp add: server_inv_def threads_ok_def)
  with inv have run: "server_inv st'" "\<not> m_is_running st'" "n \<le> turns_left st"
    using served_run [OF assms(3)] by auto
  have waits: "stopping u" if "server_inv u" "\<not> m_is_running u" "handlers u s = Some Receiving" for u s
    using receiving_stops [OF that] by (auto simp: stopping_def)
  show ?thesis
    using run no_own_step [OF run(1)] waits idle_client_blocks [OF _ run(1,2)] by blast
qed

text \<open>
  A client that connects while \<open>stop\<close> waits for the accept thread is not joined: \<open>stop\<close>
  returns while its thread runs, and destroying the server then terminates the process.
\<close>

theorem late_client_outlives_stop:
  assumes "server_reachable st" "stop_at st = JoiningAccept" "accepting st" "\<not> terminated st"
    "s \<notin> open_fds st" "0 \<le> s"
  defines "late \<equiv> accept_turn (Connection s) st"
  shows "thread_turn st late \<and> stop_turn late (TCPServer_stop_end late) \<and> \<not> stopping (TCPServer_stop_end late) \<and>
    handlers (TCPServer_stop_end late) s \<noteq> None \<and> terminated (destroy_members (TCPServer_stop_end late))"
proof -
  have st: "m_threads st = {}" "\<not> m_is_running st"
    using server_inv_reachable [OF assms(1)] assms(2-4)
    by (auto simp: server_inv_def threads_ok_def stopping_def ahead_of_stop_def)
  have "thread_turn st late"
    unfolding late_def using assms(3-6) by (intro thread_turn.accept) auto
  moreover have "stop_turn late (TCPServer_stop_end late)"
    using st assms(2-4) by (intro stop_turn.ends)
      (simp_all add: late_def accept_turn_def accept_client_def accept_end_def Let_def)
  ultimately show ?thesis
    using st assms(2-4) by (simp add: late_def accept_turn_def accept_client_def accept_end_def Let_def
      TCPServer_stop_end_def Server_stop_def stopping_def destroy_members_def)
qed

section \<open>The properties on a server with one client\<close>

definition all_ok :: listen_env where
  "all_ok = \<lparr>socket_fd = 3, reuse_ok = True, nodelay_ok = True, quickack_ok = True, bind_ok = True, listen_ok = True\<rparr>"

definition listening :: tcp_server where
  "listening = snd (start all_ok new_server)"

definition one_client :: tcp_server where
  "one_client = handler_check 4 (accept_client 4 listening)"

lemmas demo_defs = one_client_def listening_def all_ok_def new_server_def start_def
  listen_for_connections_def accept_client_def handler_check_def

lemma listening_reachable: "server_reachable listening"
proof -
  have "server_step new_server (snd (start all_ok new_server))"
    by (rule server_step.start) (simp_all add: all_ok_def new_server_def stopping_def)
  then show ?thesis unfolding listening_def using server_reachable.new by (rule server_reachable.step [rotated])
qed

lemma one_client_reachable: "server_reachable one_client"
proof -
  have "server_step listening (accept_client 4 listening)"
    using server_step.thread [OF thread_turn.accept [of listening "Connection 4"]]
    by (simp add: accept_turn_def demo_defs Let_def)
  then have "server_reachable (accept_client 4 listening)"
    using listening_reachable by (rule server_reachable.step [rotated])
  moreover have "server_step (accept_client 4 listening) one_client"
    unfolding one_client_def by (intro server_step.thread thread_turn.check) (simp_all add: demo_defs)
  ultimately show ?thesis by (rule server_reachable.step)
qed

lemma one_client_simps:
  "handlers one_client 4 = Some Receiving" "accepting one_client" "\<not> terminated one_client"
  "4 \<in> m_clients one_client" "m_is_running one_client" "stop_at one_client = NotStopping" "m_fifos one_client 4 = Some []"
  "readers one_client = (\<lambda>_. None)"
  by (simp_all add: demo_defs)

text \<open>Two bytes have come, and a call for one of them is about to copy it.\<close>

definition demo_call :: read_call where
  "demo_call = \<lparr>r_socket = 4, r_size = 1, r_blocking = True, r_erase = True, r_point = AtCopy 1\<rparr>"

definition two_bytes :: tcp_server where
  "two_bytes = handle_client 4 (Bytes [1, 2]) one_client"

definition reading :: tcp_server where
  "reading = read_goto 0 demo_call (AtCopy 1) (touch_fifo 4 two_bytes)"

lemma two_bytes_simps:
  "4 \<in> m_clients two_bytes" "fifo two_bytes 4 = [1, 2]" "readers two_bytes = (\<lambda>_. None)" "\<not> terminated two_bytes"
  by (simp_all add: two_bytes_def handle_client_def handler_bytes_def one_client_simps fifo_def Let_def)

lemma read_turns_reachable: "read_turn\<^sup>*\<^sup>* st st' \<Longrightarrow> server_reachable st \<Longrightarrow> server_reachable st'"
  by (induction rule: rtranclp_induct) (blast intro: server_reachable.step server_step.read)+

lemma reading_reachable: "server_reachable reading"
proof -
  have "server_step one_client two_bytes"
    unfolding two_bytes_def by (intro server_step.recv recv_turn.returns) (simp_all add: one_client_simps)
  then have "server_reachable two_bytes" using one_client_reachable by (rule server_reachable.step [rotated])
  moreover have "read_turn\<^sup>*\<^sup>* two_bytes reading"
    using read_to_copy [of two_bytes 0 4 True 1 True]
    by (simp add: two_bytes_simps reading_def demo_call_def read_goto_def)
  ultimately show ?thesis by (rule read_turns_reachable [rotated])
qed

lemma reading_simps:
  "4 \<in> m_clients reading" "fifo reading 4 = [1, 2]" "readers reading 0 = Some demo_call" "\<not> overrun reading"
  "received reading 4 = [1, 2]" "consumed reading 4 = []"
  by (simp_all add: reading_def demo_call_def two_bytes_simps)
     (simp_all add: two_bytes_def handle_client_def handler_bytes_def read_goto_def touch_fifo_def demo_defs fifo_def Let_def)

theorem fifo_holds_unread_bytes_witness:
  "returned (read_next 0 demo_call reading) 0 = Some (1, [1])"
proof -
  have "r_socket demo_call = 4" "r_point demo_call = AtCopy 1" by (simp_all add: demo_call_def)
  then obtain out where "returned (read_next 0 demo_call reading) 0 = Some (to_int8 1, out)" "length out = 1"
      "prefix (consumed reading 4 @ out) (received reading 4)"
    using fifo_holds_unread_bytes [OF reading_reachable reading_simps(1)] reading_simps(2-4) by fastforce
  then show ?thesis by (auto simp: reading_simps to_int8_def length_Suc_conv)
qed

theorem client_fifo_is_a_queue_witness:
  "fst (client_fifo.run 4 [Inl [1, 2, 3], Inr 2, Inl [4], Inr 9] one_client) @
     fifo (snd (client_fifo.run 4 [Inl [1, 2, 3], Inr 2, Inl [4], Inr 9] one_client)) 4 = [1, 2, 3, 4]"
  using client_fifo_is_a_queue [OF one_client_simps(4), of "[Inl [1, 2, 3], Inr 2, Inl [4], Inr 9]"]
  by (simp add: fifo_def one_client_simps)

theorem read_byte_counts_in_int8_witness:
  "fst (fst (read_byte 4 200 True (handler_bytes 4 (replicate 200 7) one_client))) = -56"
  using read_byte_counts_in_int8 [of 4 "handler_bytes 4 (replicate 200 7) one_client" 200 True]
  by (simp add: handler_bytes_def one_client_simps fifo_def Let_def)

theorem stop_leaves_listener_open_witness:
  "3 \<in> open_fds (TCPServer_stop_joined (TCPServer_stop_begin listening))"
proof -
  have "stop_turn (TCPServer_stop_begin listening) (TCPServer_stop_joined (TCPServer_stop_begin listening))"
    by (rule stop_turn.joined) (simp_all add: TCPServer_stop_begin_def demo_defs)
  then show ?thesis
    using stop_leaves_listener_open [of listening "TCPServer_stop_joined (TCPServer_stop_begin listening)"]
    by (simp add: demo_defs r_into_rtranclp)
qed

theorem two_readers_overrun_fifo_witness:
  "\<exists>st. read_turn\<^sup>*\<^sup>* two_bytes st \<and> overrun st"
  using two_readers_overrun_fifo [of 4 two_bytes 0 1] by (simp add: two_bytes_simps)

theorem disconnect_overruns_reader_witness:
  "overrun (read_next 0 demo_call (handler_erase 4 (handle_client 4 Ended reading)))"
proof -
  let ?st = "handle_client 4 Ended reading"
  have "handlers ?st 4 = Some Closing" "readers ?st 0 = Some demo_call" "\<not> terminated ?st"
    using reading_simps(3) two_bytes_simps(4)
    by (simp_all add: handle_client_def handler_close_def closesocket_def reading_def)
  then show ?thesis
    using disconnect_overruns_reader [of ?st 4 0 demo_call 1] by (simp add: demo_call_def)
qed

theorem waiting_reader_ignores_disconnect_witness:
  "readers (read_next 0 (demo_call\<lparr>r_point := InWait\<rparr>) (read_goto 0 demo_call InWait new_server)) 0
    = Some (demo_call\<lparr>r_point := InWait\<rparr>)"
  using waiting_reader_ignores_disconnect [of "read_goto 0 demo_call InWait new_server" 0 "demo_call\<lparr>r_point := InWait\<rparr>"]
  by (simp add: demo_call_def read_goto_def new_server_def)

theorem failed_start_blocks_next_start_witness:
  "fst (start all_ok (snd (start (all_ok\<lparr>bind_ok := False\<rparr>) new_server))) = Some AlreadyRunning"
proof -
  have "fst (start (all_ok\<lparr>bind_ok := False\<rparr>) new_server) = Some BindFailed"
    by (simp add: start_def listen_for_connections_def all_ok_def new_server_def)
  then show ?thesis
    using failed_start_blocks_next_start [of new_server "all_ok\<lparr>bind_ok := False\<rparr>" BindFailed all_ok]
    by (simp add: new_server_def)
qed

theorem reconnect_terminates_server_witness:
  "terminated (accept_turn (Connection 4) (handler_erase 4 (handle_client 4 Ended one_client)))"
  using reconnect_terminates_server [OF one_client_reachable one_client_simps(1-3)] by simp

definition stopped_client :: tcp_server where
  "stopped_client = TCPServer_stop_begin one_client"

lemma stopped_client_reachable: "server_reachable stopped_client" "stopping stopped_client"
proof -
  have "server_step one_client (TCPServer_stop_begin one_client)"
    by (rule server_step.stop_begin) (simp_all add: one_client_simps stopping_def)
  then show "server_reachable stopped_client" unfolding stopped_client_def
    using one_client_reachable by (rule server_reachable.step [rotated])
  show "stopping stopped_client"
    by (simp add: stopped_client_def TCPServer_stop_begin_def one_client_simps stopping_def)
qed

lemma stopped_client_simps:
  "handlers stopped_client = [4 \<mapsto> Receiving]" "accepting stopped_client" "\<not> terminated stopped_client"
  "\<not> m_is_running stopped_client" "m_threads stopped_client = {4}" "stop_at stopped_client = JoiningHandlers {4}"
  by (simp_all add: stopped_client_def TCPServer_stop_begin_def demo_defs)

text \<open>The client disconnects, and \<open>stop\<close> goes through.\<close>

definition all_ended :: tcp_server where
  "all_ended = handler_erase 4 (handle_client 4 Ended (accept_turn NoConnection stopped_client))"

definition stop_done :: tcp_server where
  "stop_done = TCPServer_stop_end (TCPServer_stop_joined (TCPServer_stop_join 4 {4} all_ended))"

lemma all_ended_simps:
  "handlers all_ended = Map.empty" "\<not> accepting all_ended" "\<not> terminated all_ended" "\<not> m_is_running all_ended"
  "stop_at all_ended = JoiningHandlers {4}"
  using stopped_client_simps
  by (auto simp: all_ended_def accept_turn_def accept_end_def handle_client_def handler_close_def closesocket_def
    handler_erase_def)

lemma clients_end: "(served_step ^^ 3) stopped_client all_ended"
proof -
  let ?a = "accept_turn NoConnection stopped_client"
  let ?b = "handle_client 4 Ended ?a"
  have "handlers ?a 4 = Some Receiving" "\<not> terminated ?a" "handlers ?b 4 = Some Closing" "\<not> terminated ?b"
    using stopped_client_simps
    by (simp_all add: accept_turn_def accept_end_def handle_client_def handler_close_def closesocket_def)
  then have "served_step stopped_client ?a" "served_step ?a ?b" "served_step ?b all_ended"
    unfolding all_ended_def using stopped_client_simps(2,3)
    by (auto intro: served_step.intros own_step.intros thread_turn.intros recv_turn.intros)
  then show ?thesis by (auto simp: numeral_3_eq_3)
qed

lemma joins_go_through: "(served_step ^^ 3) all_ended stop_done"
proof -
  let ?a = "TCPServer_stop_join 4 {4} all_ended"
  let ?b = "TCPServer_stop_joined ?a"
  have "served_step all_ended ?a" using all_ended_simps
    by (intro served_step.own own_step.stop stop_turn.join) simp_all
  moreover have "served_step ?a ?b" using all_ended_simps
    by (intro served_step.own own_step.stop stop_turn.joined) (simp_all add: TCPServer_stop_join_def)
  moreover have "served_step ?b stop_done" unfolding stop_done_def using all_ended_simps
    by (intro served_step.own own_step.stop stop_turn.ends) (simp_all add: TCPServer_stop_join_def TCPServer_stop_joined_def)
  ultimately show ?thesis by (auto simp: numeral_3_eq_3)
qed

lemma stop_done_simps:
  "handlers stop_done = Map.empty" "\<not> accepting stop_done" "\<not> terminated stop_done" "stop_at stop_done = NotStopping"
  using all_ended_simps by (simp_all add: stop_done_def TCPServer_stop_join_def TCPServer_stop_joined_def
    TCPServer_stop_end_def Server_stop_def)

theorem stop_returns_witness:
  "\<not> stopping stop_done \<and> 6 \<le> turns_left stopped_client \<and>
   {st. own_step\<^sup>*\<^sup>* stopped_client st} \<subseteq> {st. stopping st}"
proof -
  have run: "(served_step ^^ 6) stopped_client stop_done"
    using relpowp_trans [OF clients_end joins_go_through] by simp
  have "\<nexists>st. own_step stop_done st"
    using stop_done_simps by (auto elim!: own_step.cases thread_turn.cases stop_turn.cases)
  then have "\<not> stopping stop_done \<and> 6 \<le> turns_left stopped_client"
    using stop_returns [OF stopped_client_reachable run] stop_done_simps by simp
  moreover have "stopping st" if "own_step\<^sup>*\<^sup>* stopped_client st" for st
    using stop_returns [OF stopped_client_reachable, of 0 stopped_client] stopped_client_simps(1) that by auto
  ultimately show ?thesis by blast
qed

theorem late_client_outlives_stop_witness:
  "terminated (destroy_members (TCPServer_stop_end
     (accept_turn (Connection 4) (TCPServer_stop_joined (TCPServer_stop_begin listening)))))"
proof -
  let ?b = "TCPServer_stop_begin listening"
  let ?j = "TCPServer_stop_joined ?b"
  have "server_step listening ?b"
    by (rule server_step.stop_begin) (simp_all add: demo_defs stopping_def)
  then have b: "server_reachable ?b" using listening_reachable by (rule server_reachable.step [rotated])
  have "server_step ?b ?j"
    by (intro server_step.stop stop_turn.joined) (simp_all add: demo_defs TCPServer_stop_begin_def)
  then have "server_reachable ?j" using b by (rule server_reachable.step [rotated])
  then show ?thesis
    using late_client_outlives_stop [of ?j 4]
    by (simp add: demo_defs TCPServer_stop_begin_def TCPServer_stop_joined_def)
qed

end
