(* ===== verification/JsString.thy ===== *)
theory JsString
  imports Prelude
begin

text \<open>
  JavaScript strings and the string functions the documentation site's scripts call:
  a string is the list of its UTF-16 code units, compared unit by unit. Unicode case
  mapping outside ASCII and the parsing of numbers are data of the JavaScript engine,
  kept as the parameters of an environment.
\<close>

type_synonym jstr = "u16 list"

definition js :: "string \<Rightarrow> jstr" where
  "js s = map of_char s"

lemma unat_of_char_u16: "unat (of_char c :: u16) = of_char c"
proof -
  have "(of_char c :: u16) = of_nat (of_char c)"
    by (metis of_char_of of_nat_of_char)
  moreover have "(of_char c :: nat) < 256"
    by (metis of_char_mod_256 mod_less_divisor zero_less_numeral)
  then have "(of_char c :: nat) < 65536" by (rule order.strict_trans) simp
  ultimately show ?thesis
    by (simp add: unat_of_nat)
qed

lemma of_char_u16_inject [simp]: "(of_char c :: u16) = of_char d \<longleftrightarrow> c = d"
  by (metis unat_of_char_u16 of_char_eq_iff)

lemma js_inject [simp]: "js s = js t \<longleftrightarrow> s = t"
  unfolding js_def by (rule inj_map_eq_map) (auto intro: injI)

lemma js_simps [simp]:
  "js [] = []" "length (js s) = length s" "js s = [] \<longleftrightarrow> s = []" "[] = js s \<longleftrightarrow> s = []"
  by (auto simp: js_def)

lemma js_append: "js (s @ t) = js s @ js t"
  by (simp add: js_def)

lemma js_less_eq: "js s \<le> js t \<longleftrightarrow> map (of_char :: char \<Rightarrow> nat) s \<le> map of_char t"
proof (induction s arbitrary: t)
  case (Cons c s)
  then show ?case
    by (cases t) (auto simp: js_def word_less_nat_alt unat_of_char_u16)
qed (simp add: js_def)

section \<open>Numbers to text\<close>

text \<open>\<open>Number.prototype.toString(radix)\<close> of a natural number, lower case digits.\<close>

definition js_digit :: "nat \<Rightarrow> u16" where
  "js_digit d = of_nat (if d < 10 then 48 + d else 87 + d)"

function js_radix :: "nat \<Rightarrow> nat \<Rightarrow> jstr" where
  "js_radix b n =
     (if b < 2 \<or> n < b then [js_digit n] else js_radix b (n div b) @ [js_digit (n mod b)])"
  by pat_completeness auto
termination
  by (relation "measure snd") auto

declare js_radix.simps [simp del]

abbreviation js_hex :: "nat \<Rightarrow> jstr" where "js_hex \<equiv> js_radix 16"
abbreviation js_dec :: "nat \<Rightarrow> jstr" where "js_dec \<equiv> js_radix 10"

definition js_int :: "int \<Rightarrow> jstr" where
  "js_int i = (if i < 0 then js ''-'' @ js_dec (nat (- i)) else js_dec (nat i))"

lemma js_hex_one: "n < 16 \<Longrightarrow> js_hex n = [js_digit n]"
  by (subst js_radix.simps) simp

lemma js_hex_two: "16 \<le> n \<Longrightarrow> n < 256 \<Longrightarrow> js_hex n = [js_digit (n div 16), js_digit (n mod 16)]"
  by (subst js_radix.simps) (simp add: js_hex_one)

lemma unat_js_digit: "n < 16 \<Longrightarrow> unat (js_digit n) = (if n < 10 then 48 + n else 87 + n)"
proof -
  assume "n < 16"
  then have "(if n < 10 then 48 + n else 87 + n) < 2 ^ LENGTH(16)" by simp
  then show ?thesis unfolding js_digit_def unat_of_nat by (rule mod_less)
qed

lemma js_digit_inject:
  assumes "m < 16" "n < 16"
  shows "js_digit m = js_digit n \<longleftrightarrow> m = n"
proof
  assume "js_digit m = js_digit n"
  then have "unat (js_digit m) = unat (js_digit n)" by simp
  then show "m = n"
    unfolding unat_js_digit [OF assms(1)] unat_js_digit [OF assms(2)]
    by (simp split: if_splits)
qed simp

lemma js_dec_digits: "c \<in> set (js_dec n) \<Longrightarrow> 48 \<le> unat c \<and> unat c \<le> 57"
proof (induction "10 :: nat" n rule: js_radix.induct)
  case (1 n)
  then show ?case
    by (subst (asm) (2) js_radix.simps) (auto simp: unat_js_digit split: if_splits)
qed

definition dec_val :: "jstr \<Rightarrow> nat" where
  "dec_val s = foldl (\<lambda>a c. 10 * a + (unat c - 48)) 0 s"

lemma dec_val_dec: "dec_val (js_dec n) = n"
proof (induction "10 :: nat" n rule: js_radix.induct)
  case (1 n)
  then show ?case
    by (subst js_radix.simps) (auto simp: dec_val_def unat_js_digit)
qed

lemma js_dec_inject [simp]: "js_dec m = js_dec n \<longleftrightarrow> m = n"
  by (metis dec_val_dec)

lemma js_dec_nonempty [simp]: "js_dec n \<noteq> []"
  by (subst js_radix.simps) simp

lemma js_int_inject [simp]: "js_int i = js_int j \<longleftrightarrow> i = j"
proof -
  have "js_dec m \<noteq> js ''-'' @ js_dec n" for m n
  proof
    assume eq: "js_dec m = js ''-'' @ js_dec n"
    have "of_char (CHR ''-'') \<in> set (js_dec m)" unfolding eq by (simp add: js_def)
    from js_dec_digits [OF this] show False by simp
  qed
  from this this [symmetric] show ?thesis by (auto simp: js_int_def)
qed

section \<open>Trimming, case and substrings\<close>

text \<open>\<open>s.replace(/^ +/, "")\<close>, \<open>s.replace(/ +$/, "")\<close> and \<open>s.replace(/ +/g, "")\<close>.\<close>

definition trim_left :: "jstr \<Rightarrow> jstr" where
  "trim_left s = dropWhile (\<lambda>c. c = 32) s"

definition trim_right :: "jstr \<Rightarrow> jstr" where
  "trim_right s = rev (dropWhile (\<lambda>c. c = 32) (rev s))"

definition remove_spaces :: "jstr \<Rightarrow> jstr" where
  "remove_spaces s = filter (\<lambda>c. c \<noteq> 32) s"

text \<open>
  The engine's Unicode data: \<open>uni_lower\<close> is \<open>toLowerCase\<close> of a string that holds
  a code unit other than ASCII and white space, \<open>uni_gt_one\<close> is \<open>s > 1\<close> for a
  string of such plain code units only. Everything else is defined here.
\<close>

record jsenv =
  uni_lower :: "jstr \<Rightarrow> jstr"
  uni_gt_one :: "jstr \<Rightarrow> bool"

text \<open>ASCII and the white space of the language (a number literal has no other units).\<close>

definition plain_unit :: "u16 \<Rightarrow> bool" where
  "plain_unit c \<longleftrightarrow> c < 0x80 \<or>
     c \<in> {0xA0, 0x1680, 0x2000, 0x2001, 0x2002, 0x2003, 0x2004, 0x2005, 0x2006, 0x2007,
          0x2008, 0x2009, 0x200A, 0x2028, 0x2029, 0x202F, 0x205F, 0x3000, 0xFEFF}"

definition lower_unit :: "u16 \<Rightarrow> u16" where
  "lower_unit c = (if 65 \<le> c \<and> c \<le> 90 then c + 32 else c)"

definition js_lower :: "jsenv \<Rightarrow> jstr \<Rightarrow> jstr" where
  "js_lower env s = (if list_all plain_unit s then map lower_unit s else uni_lower env s)"

text \<open>
  \<open>s > 1\<close> on a string converts it to a number; a string with a unit no number
  literal can hold is not a number, and the comparison is false.
\<close>

definition js_gt_one :: "jsenv \<Rightarrow> jstr \<Rightarrow> bool" where
  "js_gt_one env s \<longleftrightarrow> list_all plain_unit s \<and> uni_gt_one env s"

text \<open>\<open>s.substr(i, n)\<close> and \<open>s.substring(i)\<close> for non-negative arguments.\<close>

definition js_substr :: "jstr \<Rightarrow> nat \<Rightarrow> nat \<Rightarrow> jstr" where
  "js_substr s i n = take n (drop i s)"

definition js_substring_from :: "jstr \<Rightarrow> nat \<Rightarrow> jstr" where
  "js_substring_from s i = drop i s"

text \<open>\<open>s.indexOf(t)\<close>, \<open>None\<close> standing for \<open>-1\<close>.\<close>

fun js_indexOf :: "jstr \<Rightarrow> jstr \<Rightarrow> nat option" where
  "js_indexOf [] t = (if t = [] then Some 0 else None)"
| "js_indexOf (c # s) t =
     (if prefix t (c # s) then Some 0 else map_option Suc (js_indexOf s t))"

lemma prefix_take: "prefix t s \<Longrightarrow> length t \<le> length s \<and> take (length t) s = t"
  by (auto simp: prefix_def)

lemma js_indexOf_Some:
  "js_indexOf s t = Some i \<Longrightarrow> i + length t \<le> length s \<and> take (length t) (drop i s) = t"
proof (induction s arbitrary: i)
  case (Cons c s)
  show ?case
  proof (cases "prefix t (c # s)")
    case True
    with Cons.prems prefix_take [OF True] show ?thesis by simp
  next
    case False
    with Cons.prems obtain j where "js_indexOf s t = Some j" "i = Suc j" by auto
    with Cons.IH [of j] show ?thesis by simp
  qed
qed (simp split: if_splits)

lemma js_indexOf_unit:
  "js_indexOf s [c] = Some i \<Longrightarrow> i < length s \<and> s ! i = c \<and> (\<forall>j<i. s ! j \<noteq> c)"
proof (induction s arbitrary: i)
  case (Cons a s)
  then show ?case by (cases "a = c") (auto simp: nth_Cons split: nat.splits)
qed simp

lemma js_indexOf_unit_None: "js_indexOf s [c] = None \<longleftrightarrow> c \<notin> set s"
  by (induction s) auto

section \<open>The global functions escape and unescape\<close>

definition hex_upper :: "nat \<Rightarrow> u16" where
  "hex_upper d = of_nat (if d < 10 then 48 + d else 55 + d)"

definition is_hex :: "u16 \<Rightarrow> bool" where
  "is_hex c \<longleftrightarrow> (48 \<le> c \<and> c \<le> 57) \<or> (65 \<le> c \<and> c \<le> 70) \<or> (97 \<le> c \<and> c \<le> 102)"

definition hex_val :: "u16 \<Rightarrow> nat" where
  "hex_val c = (if c \<le> 57 then unat c - 48 else if c \<le> 70 then unat c - 55 else unat c - 87)"

definition hex_num :: "jstr \<Rightarrow> nat" where
  "hex_num s = foldl (\<lambda>n c. 16 * n + hex_val c) 0 s"

definition escape_keeps :: "u16 \<Rightarrow> bool" where
  "escape_keeps c \<longleftrightarrow> (48 \<le> c \<and> c \<le> 57) \<or> (65 \<le> c \<and> c \<le> 90) \<or> (97 \<le> c \<and> c \<le> 122)
     \<or> c \<in> set (js ''@*_+-./'')"

definition escape_unit :: "u16 \<Rightarrow> jstr" where
  "escape_unit c =
     (let n = unat c in
      if escape_keeps c then [c]
      else if n < 256 then [37, hex_upper (n div 16), hex_upper (n mod 16)]
      else [37, 117, hex_upper (n div 4096), hex_upper (n div 256 mod 16),
            hex_upper (n div 16 mod 16), hex_upper (n mod 16)])"

definition js_escape :: "jstr \<Rightarrow> jstr" where
  "js_escape s = concat (map escape_unit s)"

fun js_unescape :: "jstr \<Rightarrow> jstr" where
  "js_unescape [] = []"
| "js_unescape (c # cs) =
     (if c = 37 \<and> 5 \<le> length cs \<and> hd cs = 117 \<and> list_all is_hex (take 4 (tl cs))
      then of_nat (hex_num (take 4 (tl cs))) # js_unescape (drop 5 cs)
      else if c = 37 \<and> 2 \<le> length cs \<and> list_all is_hex (take 2 cs)
      then of_nat (hex_num (take 2 cs)) # js_unescape (drop 2 cs)
      else c # js_unescape cs)"

lemma hex_upper_facts:
  assumes "d < 16"
  shows "is_hex (hex_upper d)" "hex_val (hex_upper d) = d" "hex_upper d \<noteq> 117" "hex_upper d \<noteq> 63"
proof -
  have "list_all (\<lambda>d. is_hex (hex_upper d) \<and> hex_val (hex_upper d) = d
      \<and> hex_upper d \<noteq> 117 \<and> hex_upper d \<noteq> 63) [0..<16]"
    by code_simp
  with assms show "is_hex (hex_upper d)" "hex_val (hex_upper d) = d" "hex_upper d \<noteq> 117"
    "hex_upper d \<noteq> 63"
    by (auto simp: list_all_iff)
qed

lemma escape_keeps_not_percent: "escape_keeps c \<Longrightarrow> c \<noteq> 37"
proof -
  have "\<not> escape_keeps 37" by code_simp
  then show "escape_keeps c \<Longrightarrow> c \<noteq> 37" by auto
qed

lemma unescape_escape_unit: "js_unescape (escape_unit c @ r) = c # js_unescape r"
proof -
  consider "escape_keeps c" | "\<not> escape_keeps c" "unat c < 256" | "\<not> escape_keeps c" "256 \<le> unat c"
    by linarith
  then show ?thesis
  proof cases
    case 1
    then show ?thesis by (simp add: escape_unit_def escape_keeps_not_percent)
  next
    case 2
    let ?a = "unat c div 16" and ?b = "unat c mod 16"
    from 2 have lt: "?a < 16" "?b < 16" by auto
    have "hex_num [hex_upper ?a, hex_upper ?b] = unat c"
      by (simp add: hex_num_def hex_upper_facts lt)
    with 2 lt show ?thesis by (simp add: escape_unit_def Let_def hex_upper_facts)
  next
    case 3
    let ?n = "unat c"
    let ?d = "[?n div 4096, ?n div 256 mod 16, ?n div 16 mod 16, ?n mod 16]"
    have "?n div 4096 < 16"
      using unat_u16_less [of c] by (intro less_mult_imp_div_less) simp
    then have lt: "\<forall>d \<in> set ?d. d < 16" by auto
    have "hex_num (map hex_upper ?d) = 16 * (16 * (16 * (?n div 4096) + ?n div 256 mod 16) + ?n div 16 mod 16) + ?n mod 16"
      using lt by (simp add: hex_num_def hex_upper_facts)
    also have "\<dots> = ?n"
    proof -
      have "?n div 256 = ?n div 16 div 16" "?n div 4096 = ?n div 256 div 16"
        by (simp_all flip: div_mult2_eq)
      then show ?thesis by (simp only: mult_div_mod_eq)
    qed
    finally have "hex_num (map hex_upper ?d) = ?n" .
    moreover have "list_all is_hex (map hex_upper ?d)"
      using lt by (simp add: hex_upper_facts)
    ultimately show ?thesis using 3 by (simp add: escape_unit_def Let_def)
  qed
qed

lemma unescape_escape: "js_unescape (js_escape s @ r) = s @ js_unescape r"
  by (induction s) (simp_all add: js_escape_def unescape_escape_unit)

end
