(* ===== verification/SearchId.thy ===== *)
theory SearchId
  imports JsString
begin

text \<open>
  The identifiers of the search index (\<open>search/search.js\<close>): \<open>convertToId\<close> encodes
  what the user types the way the generator encoded the names, and the results page
  shows a row when the encoded text is a prefix of the row's identifier, after
  \<open>replace(/^sr\d*_/, '')\<close>. The encoding is a prefix code, so the prefix test on
  identifiers is the prefix test on names.
\<close>

section \<open>convertToId\<close>

text \<open>The class \<open>[a-z0-9\u0080-\uFFFF]\<close>.\<close>

definition id_keeps :: "u16 \<Rightarrow> bool" where
  "id_keeps c \<longleftrightarrow> (97 \<le> c \<and> c \<le> 122) \<or> (48 \<le> c \<and> c \<le> 57) \<or> 0x80 \<le> c"

definition convertToId_unit :: "u16 \<Rightarrow> jstr" where
  "convertToId_unit c =
     (let cn = unat c in
      if id_keeps c then [c]
      else if cn < 16 then js ''_0'' @ js_hex cn
      else js ''_'' @ js_hex cn)"

definition convertToId :: "jstr \<Rightarrow> jstr" where
  "convertToId search = foldl (\<lambda>result c. result @ convertToId_unit c) [] search"

section \<open>The row test of SearchResults.Search\<close>

text \<open>\<open>rowMatchName.replace(/^sr\d*_/, '')\<close>.\<close>

definition is_digit :: "u16 \<Rightarrow> bool" where
  "is_digit c \<longleftrightarrow> 48 \<le> c \<and> c \<le> 57"

definition strip_sr :: "jstr \<Rightarrow> jstr" where
  "strip_sr s =
     (if prefix (js ''sr'') s
      then (case dropWhile is_digit (drop 2 s) of
          c # rest \<Rightarrow> if c = 95 then rest else s
        | [] \<Rightarrow> s)
      else s)"

definition row_matches :: "jsenv \<Rightarrow> jstr \<Rightarrow> jstr \<Rightarrow> bool" where
  "row_matches env search row_id =
     (let rowMatchName = strip_sr (js_lower env row_id) in
      length search \<le> length rowMatchName \<and>
      js_substr rowMatchName 0 (length search) = search)"

text \<open>What \<open>SearchResults.Search\<close> does to the text before it looks at the rows.\<close>

definition normalise_search :: "jsenv \<Rightarrow> jstr \<Rightarrow> jstr" where
  "normalise_search env search = convertToId (js_lower env (trim_right (trim_left search)))"

section \<open>The encoding is a prefix code\<close>

lemma convertToId_eq: "convertToId s = concat (map convertToId_unit s)"
proof -
  have "foldl (\<lambda>result c. result @ convertToId_unit c) r s = r @ concat (map convertToId_unit s)" for r
    by (induction s arbitrary: r) simp_all
  then show ?thesis by (simp add: convertToId_def)
qed

lemma convertToId_simps [simp]:
  "convertToId [] = []"
  "convertToId (c # s) = convertToId_unit c @ convertToId s"
  "convertToId (s @ t) = convertToId s @ convertToId t"
  by (simp_all add: convertToId_eq)

lemma convertToId_eq_Nil [simp]: "convertToId s = [] \<longleftrightarrow> s = []"
  by (cases s) (simp_all add: convertToId_unit_def Let_def js_def)

lemma not_id_keeps_less: "\<not> id_keeps c \<Longrightarrow> unat c < 128"
  by (auto simp: id_keeps_def word_le_nat_alt)

lemma id_keeps_not_underscore: "id_keeps c \<Longrightarrow> c \<noteq> 95"
proof -
  have "\<not> id_keeps 95" by code_simp
  then show "id_keeps c \<Longrightarrow> c \<noteq> 95" by auto
qed

lemma js_underscore: "js ''_'' = [95]" "js ''_0'' = [95, js_digit 0]"
  by (simp_all add: js_def js_digit_def)

lemma convertToId_unit_cases:
  "convertToId_unit c =
     (if id_keeps c then [c] else [95, js_digit (unat c div 16), js_digit (unat c mod 16)])"
proof (cases "id_keeps c")
  case False
  then have "unat c < 128" by (rule not_id_keeps_less)
  with False show ?thesis
    by (simp add: convertToId_unit_def Let_def js_underscore js_hex_one js_hex_two)
qed (simp add: convertToId_unit_def Let_def)

lemma convertToId_unit_nonempty [simp]: "convertToId_unit c \<noteq> []"
  by (simp add: convertToId_unit_cases)

lemma prefix_convertToId_unit:
  "prefix (convertToId_unit c @ x) (convertToId_unit d @ y) \<longleftrightarrow> c = d \<and> prefix x y"
proof (cases "id_keeps c \<or> id_keeps d")
  case True
  then show ?thesis
    by (auto simp: convertToId_unit_cases id_keeps_not_underscore dest: id_keeps_not_underscore)
next
  case False
  then have "unat c < 128" "unat d < 128" by (auto dest: not_id_keeps_less)
  then have lt: "unat c div 16 < 16" "unat d div 16 < 16" by auto
  have "unat c div 16 = unat d div 16 \<and> unat c mod 16 = unat d mod 16 \<longleftrightarrow> c = d"
    by (metis div_mult_mod_eq word_unat_eq_iff)
  with False lt show ?thesis
    by (auto simp: convertToId_unit_cases js_digit_inject)
qed

text \<open>How a search text can meet an identifier followed by a numeric suffix.\<close>

lemma prefix_convertToId_suffix:
  "prefix (convertToId s) (convertToId t @ u) \<longleftrightarrow>
     prefix s t \<or> (\<exists>x. s = t @ x \<and> prefix (convertToId x) u)"
proof (induction s arbitrary: t)
  case (Cons c s)
  then show ?case
    by (cases t) (auto simp: prefix_convertToId_unit)
qed simp

lemma convertToId_ascii_lower:
  assumes "\<forall>c \<in> set t. c < 0x80"
  shows "list_all plain_unit (convertToId (map lower_unit t))"
    "map lower_unit (convertToId (map lower_unit t)) = convertToId (map lower_unit t)"
proof -
  have digit: "plain_unit (js_digit d) \<and> lower_unit (js_digit d) = js_digit d" if "d < 16" for d
  proof -
    have "list_all (\<lambda>d. plain_unit (js_digit d) \<and> lower_unit (js_digit d) = js_digit d) [0..<16]"
      by code_simp
    with that show ?thesis by (auto simp: list_all_iff)
  qed
  have u: "plain_unit 95" "lower_unit 95 = 95" by code_simp+
  have keep: "lower_unit (lower_unit c) = lower_unit c" "lower_unit c < 0x80" if "c < 0x80" for c
    using that by (auto simp: lower_unit_def word_le_nat_alt word_less_nat_alt unat_word_ariths)
  have "list_all plain_unit (convertToId_unit c) \<and>
        map lower_unit (convertToId_unit c) = convertToId_unit c" if "\<exists>b. c = lower_unit b \<and> b < 0x80" for c
  proof (cases "id_keeps c")
    case True
    with that keep show ?thesis by (auto simp: convertToId_unit_cases plain_unit_def)
  next
    case False
    then have "unat c div 16 < 16" using not_id_keeps_less by fastforce
    with False digit u show ?thesis by (simp add: convertToId_unit_cases)
  qed
  with assms show "list_all plain_unit (convertToId (map lower_unit t))"
    "map lower_unit (convertToId (map lower_unit t)) = convertToId (map lower_unit t)"
    by (induction t) auto
qed

lemma strip_sr_row: "strip_sr (js ''sr_'' @ x) = x"
proof -
  have "js ''sr_'' = js ''sr'' @ [95]" "\<not> is_digit 95"
    by (simp_all add: js_def is_digit_def)
  then show ?thesis by (simp add: strip_sr_def)
qed

lemma digit_unit:
  assumes "is_digit c"
  shows "plain_unit c" "lower_unit c = c"
  using assms by (auto simp: is_digit_def plain_unit_def lower_unit_def word_less_nat_alt word_le_nat_alt)

lemma dec_is_digits: "list_all is_digit (js_dec n)"
  using js_dec_digits [of _ n] by (auto simp: list_all_iff is_digit_def word_le_nat_alt)

lemma js_lower_row_digits:
  assumes "\<forall>c \<in> set t. c < 0x80" "list_all is_digit ds"
  shows "js_lower env (js ''SR_'' @ convertToId (map lower_unit t) @ js ''_'' @ ds)
       = js ''sr_'' @ convertToId (map lower_unit t) @ js ''_'' @ ds"
proof -
  have const: "list_all plain_unit (js ''SR_'')" "list_all plain_unit (js ''_'')"
    "map lower_unit (js ''SR_'') = js ''sr_''" "map lower_unit (js ''_'') = js ''_''"
    by code_simp+
  have "list_all plain_unit ds" "map lower_unit ds = ds"
    using assms(2) digit_unit by (auto simp: list_all_iff map_idI)
  with const convertToId_ascii_lower [OF assms(1)] show ?thesis
    by (simp add: js_lower_def)
qed

lemmas js_lower_row = js_lower_row_digits [OF _ dec_is_digits]

lemma row_matches_prefix:
  "row_matches env q row_id \<longleftrightarrow> prefix q (strip_sr (js_lower env row_id))"
  by (auto simp: row_matches_def js_substr_def Let_def dest: prefix_take)
    (metis append_take_drop_id prefix_def)

section \<open>Properties\<close>

text \<open>
  \<open>convertToId\<close> is a prefix code: an encoded text is a prefix of an encoded name
  exactly when the text is a prefix of the name, so no two names share an identifier.
\<close>

theorem convertToId_prefix_code:
  "prefix (convertToId s) (convertToId t) \<longleftrightarrow> prefix s t"
  using prefix_convertToId_suffix [of s t "[]"] by (auto simp: prefix_def)

text \<open>
  the row of the \<open>k\<close>-th entry, named \<open>name\<close> (ASCII), is shown for a typed text
  exactly when the text, trimmed and lower-cased, is a prefix of the lower-cased name,
  or spells the whole name followed by characters whose escapes happen to match the
  entry's number. No row with a matching name is ever hidden.
\<close>

theorem row_shown_iff:
  assumes "\<forall>c \<in> set name. c < 0x80"
  shows "row_matches env (normalise_search env typed)
      (js ''SR_'' @ convertToId (map lower_unit name) @ js ''_'' @ js_dec k) \<longleftrightarrow>
    (let q = js_lower env (trim_right (trim_left typed)); n = map lower_unit name in
     prefix q n \<or> (\<exists>x. q = n @ x \<and> prefix (convertToId x) (js ''_'' @ js_dec k)))"
  unfolding row_matches_prefix js_lower_row [OF assms] strip_sr_row normalise_search_def Let_def
  by (rule prefix_convertToId_suffix)

definition ascii_env :: jsenv where
  "ascii_env = \<lparr>uni_lower = id, uni_gt_one = (\<lambda>_. False)\<rparr>"

theorem row_shown_iff_witness:
  "row_matches ascii_env (normalise_search ascii_env (js '' LAST_c ''))
     (js ''SR_'' @ convertToId (map lower_unit (js ''last_child'')) @ js ''_'' @ js_dec 107)"
proof -
  have ascii: "\<forall>c \<in> set (js ''last_child''). c < 0x80" by code_simp
  have "prefix (js_lower ascii_env (trim_right (trim_left (js '' LAST_c ''))))
          (map lower_unit (js ''last_child''))"
    by code_simp
  with row_shown_iff [OF ascii, of ascii_env "js '' LAST_c ''" 107] show ?thesis
    by (simp add: Let_def)
qed

end
