(* ===== verification/Dom.thy ===== *)
theory Dom
  imports JsString
begin

text \<open>
  The part of the browser's document the scripts work on: elements with an identity
  (\<open>okey\<close>), a tag, the \<open>class\<close> and \<open>id\<close> attributes, the inline
  \<open>style.display\<close>, other attributes, their text and their children; lookup by identity,
  by \<open>id\<close> and by tag in document order, the parent of an element, and updates in
  place.
\<close>

datatype js_error = TypeError | SecurityError

text \<open>
  A script's call: \<open>None\<close> when it never returns, \<open>Some (Inl e)\<close> when it throws,
  \<open>Some (Inr v)\<close> when it returns \<open>v\<close>.
\<close>

type_synonym 'a script = "(js_error + 'a) option"

definition returns :: "'a \<Rightarrow> 'a script" where
  "returns v = Some (Inr v)"

definition thrown :: "js_error + 'a \<Rightarrow> 'a script" where
  "thrown r = Some r"

definition andThen :: "'a script \<Rightarrow> ('a \<Rightarrow> 'b script) \<Rightarrow> 'b script" where
  "andThen m f =
     (case m of None \<Rightarrow> None | Some (Inl e) \<Rightarrow> Some (Inl e) | Some (Inr v) \<Rightarrow> f v)"

lemma andThen_simps [simp]:
  "andThen (returns v) f = f v" "andThen None f = None"
  "andThen (Some (Inl e)) f = Some (Inl e)" "andThen (Some (Inr v)) f = f v"
  "andThen (thrown (Inl e)) f = Some (Inl e)" "andThen (thrown (Inr v)) f = f v"
  by (simp_all add: andThen_def returns_def thrown_def)

datatype dom =
  Elem (okey: nat) (tag: jstr) (cls: jstr) (eid: jstr) (disp: jstr)
    (attrs: "(string \<times> jstr) list") (inner: jstr) (kids: "dom list")

fun nodes :: "dom \<Rightarrow> dom list" where
  "nodes (Elem k t c i d a x es) = Elem k t c i d a x es # concat (map nodes es)"

definition by_key :: "dom \<Rightarrow> nat \<Rightarrow> dom option" where
  "by_key root k = find (\<lambda>e. okey e = k) (nodes root)"

definition getElementById :: "dom \<Rightarrow> jstr \<Rightarrow> dom option" where
  "getElementById root i = find (\<lambda>e. eid e = i) (nodes root)"

definition getElementsByTagName :: "dom \<Rightarrow> jstr \<Rightarrow> dom list" where
  "getElementsByTagName root t = filter (\<lambda>e. tag e = t) (nodes root)"

definition parentNode :: "dom \<Rightarrow> nat \<Rightarrow> dom option" where
  "parentNode root k = find (\<lambda>p. list_ex (\<lambda>c. okey c = k) (kids p)) (nodes root)"

fun upd :: "nat \<Rightarrow> (dom \<Rightarrow> dom) \<Rightarrow> dom \<Rightarrow> dom" where
  "upd k f (Elem k' t c i d a x es) =
     (let e = Elem k' t c i d a x (map (upd k f) es) in if k' = k then f e else e)"

fun set_disp :: "jstr \<Rightarrow> dom \<Rightarrow> dom" where
  "set_disp d (Elem k t c i d' a x es) = Elem k t c i d a x es"

fun append_kid :: "dom \<Rightarrow> dom \<Rightarrow> dom" where
  "append_kid n (Elem k t c i d a x es) = Elem k t c i d a x (es @ [n])"

definition style_display :: "nat \<Rightarrow> jstr \<Rightarrow> dom \<Rightarrow> dom" where
  "style_display k d root = upd k (set_disp d) root"

text \<open>\<open>document.getElementById(i).style.display = d\<close>: a missing element is a type error.\<close>

definition display_by_id :: "jstr \<Rightarrow> jstr \<Rightarrow> dom \<Rightarrow> js_error + dom" where
  "display_by_id i d root =
     (case getElementById root i of
        None \<Rightarrow> Inl TypeError
      | Some e \<Rightarrow> Inr (style_display (okey e) d root))"

section \<open>The elements without their children\<close>

record view =
  v_key :: nat
  v_tag :: jstr
  v_cls :: jstr
  v_id :: jstr
  v_disp :: jstr

definition view_of :: "dom \<Rightarrow> view" where
  "view_of e = \<lparr>v_key = okey e, v_tag = tag e, v_cls = cls e, v_id = eid e, v_disp = disp e\<rparr>"

definition views :: "dom \<Rightarrow> view list" where
  "views root = map view_of (nodes root)"

definition keys_distinct :: "dom \<Rightarrow> bool" where
  "keys_distinct root \<longleftrightarrow> distinct (map okey (nodes root))"

lemma view_of_simps [simp]:
  "v_key (view_of e) = okey e" "v_tag (view_of e) = tag e" "v_cls (view_of e) = cls e"
  "v_id (view_of e) = eid e" "v_disp (view_of e) = disp e"
  by (simp_all add: view_of_def)

lemma set_disp_sel [simp]:
  "okey (set_disp d e) = okey e" "tag (set_disp d e) = tag e" "cls (set_disp d e) = cls e"
  "eid (set_disp d e) = eid e" "disp (set_disp d e) = d" "kids (set_disp d e) = kids e"
  by (cases e; simp)+

lemma nodes_unfold: "nodes e = e # concat (map nodes (kids e))"
  by (cases e) simp

lemma views_style_display:
  "views (style_display k d root)
     = map (\<lambda>v. if v_key v = k then v\<lparr>v_disp := d\<rparr> else v) (views root)"
proof (induction root)
  case (Elem k' t c i d' a x es)
  then have "concat (map (views \<circ> style_display k d) es)
      = map (\<lambda>v. if v_key v = k then v\<lparr>v_disp := d\<rparr> else v) (concat (map views es))"
    by (induction es) simp_all
  then show ?case
    by (simp add: views_def style_display_def Let_def map_concat o_def view_of_def)
qed

lemma keys_style_display [simp]: "map okey (nodes (style_display k d root)) = map okey (nodes root)"
proof -
  have "map okey (nodes r) = map v_key (views r)" for r
    by (simp add: views_def o_def)
  then show ?thesis by (simp add: views_style_display o_def if_distrib cong: if_cong)
qed

lemma keys_distinct_style_display [simp]:
  "keys_distinct (style_display k d root) = keys_distinct root"
  by (simp add: keys_distinct_def)

lemma find_map: "find P (map f xs) = map_option f (find (\<lambda>x. P (f x)) xs)"
  by (induction xs) simp_all

lemma view_getElementById:
  "map_option view_of (getElementById d i) = find (\<lambda>v. v_id v = i) (views d)"
  by (simp add: getElementById_def views_def find_map)

lemma getElementById_Some:
  "getElementById d i = Some e \<Longrightarrow> e \<in> set (nodes d) \<and> eid e = i"
  by (auto simp: getElementById_def find_Some_iff)

lemma getElementById_exists:
  "(\<exists>v \<in> set (views d). v_id v = i) \<longleftrightarrow> (\<exists>e. getElementById d i = Some e)"
proof -
  have "(\<exists>v \<in> set (views d). v_id v = i) \<longleftrightarrow> find (\<lambda>v. v_id v = i) (views d) \<noteq> None"
    by (auto simp: find_None_iff)
  then show ?thesis by (auto simp flip: view_getElementById)
qed

lemma views_inj:
  assumes "keys_distinct d" "v \<in> set (views d)" "w \<in> set (views d)" "v_key v = v_key w"
  shows "v = w"
  using assms by (auto simp: keys_distinct_def views_def distinct_map dest: inj_onD)

text \<open>Displaying an element by its \<open>id\<close> changes that element and no other.\<close>

lemma display_by_id_ok:
  assumes "keys_distinct d" "\<exists>v \<in> set (views d). v_id v = i"
  obtains d' k where "display_by_id i x d = Inr d'" "keys_distinct d'"
    "views d' = map (\<lambda>v. if v_key v = k then v\<lparr>v_disp := x\<rparr> else v) (views d)"
    "\<forall>v \<in> set (views d). v_key v = k \<longrightarrow> v_id v = i"
    "find (\<lambda>v. v_id v = i) (views d') = map_option (\<lambda>v. v\<lparr>v_disp := x\<rparr>) (find (\<lambda>v. v_id v = i) (views d))"
proof -
  from assms(2) obtain e where e: "getElementById d i = Some e"
    using getElementById_exists by blast
  let ?g = "\<lambda>v. if v_key v = okey e then v\<lparr>v_disp := x\<rparr> else v"
  have in_d: "view_of e \<in> set (views d)" "eid e = i"
    using getElementById_Some [OF e] by (auto simp: views_def)
  have fd: "find (\<lambda>v. v_id v = i) (views d) = Some (view_of e)"
    using e by (simp flip: view_getElementById)
  have "find (\<lambda>v. v_id v = i) (map ?g (views d)) = map_option ?g (find (\<lambda>v. v_id v = i) (views d))"
    by (simp add: find_map if_distrib cong: if_cong)
  moreover have "\<forall>v \<in> set (views d). v_key v = okey e \<longrightarrow> v_id v = i"
    using views_inj [OF assms(1) _ in_d(1)] in_d(2) by fastforce
  ultimately show ?thesis
    using that [of "style_display (okey e) x d" "okey e"] e assms(1) fd
    by (simp add: display_by_id_def views_style_display)
qed

lemma upd_idle: "k \<notin> set (map okey (nodes e)) \<Longrightarrow> upd k f e = e"
proof (induction e)
  case (Elem k' t c i d a x es)
  then have "map (upd k f) es = es" by (intro map_idI) auto
  with Elem.prems show ?case by (simp add: Let_def)
qed

end
