(* ===== verification/SearchResults.thy ===== *)
theory SearchResults
  imports SearchId Dom
begin

text \<open>
  The search results page (\<open>SearchResults\<close>, \<open>createResults\<close> of
  \<open>search/search.js\<close>): the rows built from \<open>searchData\<close>, the search that shows and
  hides them, the walk that finds a row's list of children, and the keyboard navigation
  between the visible entries.
\<close>

section \<open>createResults\<close>

text \<open>
  One entry of \<open>searchData\<close>: \<open>[id, [label, [href, newpage, scope], ...]]\<close>.
\<close>

record target =
  t_href :: jstr
  t_parent :: nat
  t_scope :: jstr

record entry =
  e_id :: jstr
  e_label :: jstr
  e_targets :: "target list"

definition el :: "nat \<Rightarrow> string \<Rightarrow> string \<Rightarrow> dom" where
  "el k t c = Elem k (js t) (js c) [] [] [] [] []"

fun set_id :: "jstr \<Rightarrow> dom \<Rightarrow> dom" where
  "set_id i (Elem k t c i' d a x es) = Elem k t c i d a x es"

fun set_inner :: "jstr \<Rightarrow> dom \<Rightarrow> dom" where
  "set_inner x (Elem k t c i d a x' es) = Elem k t c i d a x es"

fun setAttribute :: "string \<Rightarrow> jstr \<Rightarrow> dom \<Rightarrow> dom" where
  "setAttribute n v (Elem k t c i d a x es) =
     Elem k t c i d ((n, v) # filter (\<lambda>p. fst p \<noteq> n) a) x es"

fun set_cls :: "jstr \<Rightarrow> dom \<Rightarrow> dom" where
  "set_cls c (Elem k t c' i d a x es) = Elem k t c i d a x es"

definition setKeyActions :: "jstr \<Rightarrow> dom \<Rightarrow> dom" where
  "setKeyActions action e =
     setAttribute ''onkeyup'' action (setAttribute ''onkeypress'' action
       (setAttribute ''onkeydown'' action e))"

definition setClassAttr :: "jstr \<Rightarrow> dom \<Rightarrow> dom" where
  "setClassAttr v e = setAttribute ''className'' v (set_cls v e)"

definition item_id :: "jstr \<Rightarrow> jstr" where
  "item_id n = js ''Item'' @ n"

definition child_id :: "jstr \<Rightarrow> nat \<Rightarrow> jstr" where
  "child_id n c = js ''Item'' @ n @ js ''_c'' @ js_dec c"

definition if_target :: "nat \<Rightarrow> dom \<Rightarrow> dom" where
  "if_target p e = (if p \<noteq> 0 then setAttribute ''target'' (js ''_parent'') e else e)"

text \<open>The links of an entry with several targets; \<open>k\<close> is the next free identity.\<close>

fun create_children :: "nat \<Rightarrow> nat \<Rightarrow> nat \<Rightarrow> target list \<Rightarrow> dom list" where
  "create_children e c k [] = []"
| "create_children e c k (tg # tgs) =
     set_inner (t_scope tg)
       (if_target (t_parent tg)
         (setAttribute ''href'' (t_href tg)
           (setClassAttr (js ''SRScope'')
             (setKeyActions
               (js ''return searchResults.NavChild(event,'' @ js_dec e @ js '','' @ js_dec c @ js '')'')
               (set_id (child_id (js_dec e) c) (el k ''a'' ''''))))))
     # create_children e (Suc c) (Suc k) tgs"

definition create_link :: "nat \<Rightarrow> nat \<Rightarrow> entry \<Rightarrow> dom" where
  "create_link e k en =
     set_inner (e_label en)
       (setClassAttr (js ''SRSymbol'')
         (setKeyActions (js ''return searchResults.Nav(event,'' @ js_dec e @ js '')'')
           (set_id (item_id (js_dec e)) (el k ''a'' ''''))))"

definition create_row :: "nat \<Rightarrow> nat \<Rightarrow> entry \<Rightarrow> dom" where
  "create_row e k en =
     (let srResult = setClassAttr (js ''SRResult'') (set_id (js ''SR_'' @ e_id en) (el k ''div'' ''''));
          srEntry = setClassAttr (js ''SREntry'') (el (k + 1) ''div'' '''');
          srLink = create_link e (k + 2) en
      in append_kid
        (case e_targets en of
           [tg] \<Rightarrow>
             append_kid (set_inner (t_scope tg) (setClassAttr (js ''SRScope'') (el (k + 3) ''span'' '''')))
               (append_kid (if_target (t_parent tg) (setAttribute ''href'' (t_href tg) srLink)) srEntry)
         | tgs \<Rightarrow>
             append_kid
               (foldl (\<lambda>cs c. append_kid c cs)
                 (setClassAttr (js ''SRChildren'') (el (k + 3) ''div'' ''''))
                 (create_children e 0 (k + 4) tgs))
               (append_kid
                 (setAttribute ''href''
                   (js ''javascript:searchResults.Toggle(\"SR_'' @ e_id en @ js ''\")'') srLink)
                 srEntry))
        srResult)"

fun create_rows :: "nat \<Rightarrow> nat \<Rightarrow> entry list \<Rightarrow> dom list" where
  "create_rows e k [] = []"
| "create_rows e k (en # ens) =
     create_row e k en # create_rows (Suc e) (k + 4 + length (e_targets en)) ens"

text \<open>
  The page the generator wrote around the script (\<open>search/all_0.html\<close> and its like):
  the status lines and the empty \<open>SRResults\<close>. \<open>createResults\<close> appends the rows.
\<close>

definition status_div :: "nat \<Rightarrow> string \<Rightarrow> dom" where
  "status_div k i = set_id (js i) (el k ''div'' ''SRStatus'')"

definition createResults :: "entry list \<Rightarrow> dom \<Rightarrow> js_error + dom" where
  "createResults searchData doc =
     (case getElementById doc (js ''SRResults'') of
        None \<Rightarrow> if searchData = [] then Inr doc else Inl TypeError
      | Some results \<Rightarrow>
          Inr (foldl (\<lambda>d r. upd (okey results) (append_kid r) d) doc
                 (create_rows 0 (Suc (Max (set (map okey (nodes doc))))) searchData)))"

definition results_page0 :: dom where
  "results_page0 =
     Elem 0 (js ''body'') (js ''SRPage'') [] [] [] []
       [Elem 1 (js ''div'') [] (js ''SRIndex'') [] [] []
          [status_div 2 ''Loading'',
           set_id (js ''SRResults'') (el 3 ''div'' ''''),
           status_div 4 ''Searching'',
           status_div 5 ''NoMatches'']]"

section \<open>The state of the page\<close>

text \<open>
  The page that holds this one in a frame: whether the scripts of this page may look into it, whether
  it has a \<open>searchBox\<close> whose \<open>CloseResultsWindow\<close> returns, and whether it has the element
  \<open>MSearchField\<close>. A results page that is opened by itself is its own parent and has neither.
\<close>

datatype parent_call = CloseResultsWindow | FocusSearchField

record parent_page =
  p_readable :: bool
  p_closes :: bool
  p_has_field :: bool

definition parent_error :: "parent_page \<Rightarrow> parent_call \<Rightarrow> js_error option" where
  "parent_error p c =
     (if \<not> p_readable p then Some SecurityError
      else case c of
          CloseResultsWindow \<Rightarrow> if p_closes p then None else Some TypeError
        | FocusSearchField \<Rightarrow> if p_has_field p then None else Some TypeError)"

datatype focus = NoFocus | FocusOn nat

record results =
  doc :: dom
  query :: jstr  \<comment> \<open>\<open>window.location.search\<close>\<close>
  lastMatchCount :: nat
  lastKey :: nat
  repeatOn :: bool
  focused :: focus
  embedder :: parent_page
  parent_calls :: "parent_call list"

section \<open>SearchResults.Search\<close>

text \<open>The loop over the \<open>div\<close> elements of the page.\<close>

fun search_loop :: "jsenv \<Rightarrow> jstr \<Rightarrow> dom list \<Rightarrow> dom \<Rightarrow> nat \<Rightarrow> dom \<times> nat" where
  "search_loop env search [] d matches = (d, matches)"
| "search_loop env search (row # resultRows) d matches =
     (if cls row = js ''SRResult'' then
        if row_matches env search (eid row)
        then search_loop env search resultRows (style_display (okey row) (js ''block'') d) (Suc matches)
        else search_loop env search resultRows (style_display (okey row) (js ''none'') d) matches
      else search_loop env search resultRows d matches)"

definition Search :: "jsenv \<Rightarrow> jstr \<Rightarrow> results \<Rightarrow> js_error + (results \<times> bool)" where
  "Search env search0 st =
     (let search = (if search0 = [] then js_unescape (js_substring_from (query st) 1) else search0);
          search = normalise_search env search;
          (d, matches) = search_loop env search (getElementsByTagName (doc st) (js ''div'')) (doc st) 0
      in case display_by_id (js ''Searching'') (js ''none'') d of
           Inl err \<Rightarrow> Inl err
         | Inr d \<Rightarrow>
             (case display_by_id (js ''NoMatches'')
                     (if matches = 0 then js ''block'' else js ''none'') d of
                Inl err \<Rightarrow> Inl err
              | Inr d \<Rightarrow> Inr (st\<lparr>doc := d, lastMatchCount := matches\<rparr>, True)))"

section \<open>FindChildElement and Toggle\<close>

text \<open>
  The pointer walk of \<open>FindChildElement\<close>. The head of the first list is
  \<open>element\<close>, the rest of that list its following siblings, and the further lists the
  following siblings of its ancestors up to the row itself: \<open>firstChild\<close> pushes a list,
  \<open>nextSibling\<close> drops an element, and the inner \<open>do\<close> loop, which climbs to the
  first ancestor with a next sibling, drops the empty lists. Leaving the row ends it.
\<close>

definition is_children_div :: "dom \<Rightarrow> bool" where
  "is_children_div e \<longleftrightarrow> tag e = js ''div'' \<and> cls e = js ''SRChildren''"

definition climb :: "dom list list \<Rightarrow> dom list list" where
  "climb st = dropWhile (\<lambda>es. es = []) st"

function find_child_walk :: "dom list list \<Rightarrow> dom option" where
  "find_child_walk [] = None"
| "find_child_walk ([] # st) = find_child_walk (climb st)"
| "find_child_walk ((e # sibs) # st) =
     (if is_children_div e then Some e
      else if tag e = js ''div'' \<and> kids e \<noteq> [] then find_child_walk (kids e # sibs # st)
      else if sibs \<noteq> [] then find_child_walk (sibs # st)
      else find_child_walk (climb st))"
  by pat_completeness auto

definition stack_size :: "dom list list \<Rightarrow> nat" where
  "stack_size st = sum_list (map (\<lambda>es. Suc (2 * length (concat (map nodes es)))) st)"

lemma stack_size_climb: "stack_size (climb st) \<le> stack_size st"
  by (induction st) (auto simp: stack_size_def climb_def)

lemma nodes_kids_length: "length (nodes e) = Suc (length (concat (map nodes (kids e))))"
  by (subst nodes_unfold) simp

termination find_child_walk
proof (relation "measure stack_size")
  fix st :: "dom list list"
  show "(climb st, [] # st) \<in> measure stack_size"
    using stack_size_climb [of st] by (simp add: stack_size_def)
next
  fix e :: dom and sibs :: "dom list" and st :: "dom list list"
  show "(kids e # sibs # st, (e # sibs) # st) \<in> measure stack_size"
    by (simp add: stack_size_def nodes_kids_length)
  show "(sibs # st, (e # sibs) # st) \<in> measure stack_size"
    by (simp add: stack_size_def nodes_kids_length)
  show "(climb st, (e # sibs) # st) \<in> measure stack_size"
    using stack_size_climb [of st] by (simp add: stack_size_def)
qed simp

definition FindChildElement :: "dom \<Rightarrow> jstr \<Rightarrow> js_error + dom option" where
  "FindChildElement d i =
     (case getElementById d i of
        None \<Rightarrow> Inl TypeError
      | Some parentElement \<Rightarrow> Inr (find_child_walk [kids parentElement]))"

definition Toggle :: "jstr \<Rightarrow> results \<Rightarrow> js_error + results" where
  "Toggle i st =
     (case FindChildElement (doc st) i of
        Inl err \<Rightarrow> Inl err
      | Inr None \<Rightarrow> Inr st
      | Inr (Some e) \<Rightarrow>
          Inr (st\<lparr>doc := style_display (okey e)
                 (if disp e = js ''block'' then js ''none'' else js ''block'') (doc st)\<rparr>))"

section \<open>Keyboard navigation\<close>

text \<open>\<open>focusItem.parentNode.parentNode\<close>: the row of an entry's link.\<close>

definition row_of :: "dom \<Rightarrow> dom \<Rightarrow> js_error + dom" where
  "row_of d e =
     (case parentNode d (okey e) of
        None \<Rightarrow> Inl TypeError
      | Some p \<Rightarrow> (case parentNode d (okey p) of None \<Rightarrow> Inl TypeError | Some r \<Rightarrow> Inr r))"

partial_function (option) NavNext :: "dom \<Rightarrow> int \<Rightarrow> dom option script" where
  "NavNext d index =
     (case getElementById d (item_id (js_int index)) of
        None \<Rightarrow> returns None
      | Some focusItem \<Rightarrow>
          (case row_of d focusItem of
             Inl e \<Rightarrow> Some (Inl e)
           | Inr row \<Rightarrow>
               if disp row = js ''block'' then returns (Some focusItem)
               else NavNext d (index + 1)))"

partial_function (option) NavPrev :: "dom \<Rightarrow> int \<Rightarrow> dom option script" where
  "NavPrev d index =
     (case getElementById d (item_id (js_int index)) of
        None \<Rightarrow> returns None
      | Some focusItem \<Rightarrow>
          (case row_of d focusItem of
             Inl e \<Rightarrow> Some (Inl e)
           | Inr row \<Rightarrow>
               if disp row = js ''block'' then returns (Some focusItem)
               else NavPrev d (index - 1)))"

datatype key_event_type = KeyDown | KeyPress | KeyUp

record key_event =
  etype :: key_event_type
  keyCode :: nat

definition ProcessKeys :: "key_event \<Rightarrow> results \<Rightarrow> results \<times> bool" where
  "ProcessKeys e st =
     (case etype e of
        KeyDown \<Rightarrow>
          let st = st\<lparr>repeatOn := False, lastKey := keyCode e\<rparr> in (st, lastKey st \<noteq> 0)
      | KeyPress \<Rightarrow>
          if \<not> repeatOn st
          then (if lastKey st \<noteq> 0 then st\<lparr>repeatOn := True\<rparr> else st, False)
          else (st, lastKey st \<noteq> 0)
      | KeyUp \<Rightarrow>
          let st = st\<lparr>lastKey := 0, repeatOn := False\<rparr> in (st, lastKey st \<noteq> 0))"

text \<open>The loop \<open>while (1)\<close> of \<open>Nav\<close> that looks for the last child link of an item.\<close>

partial_function (option) last_child :: "dom \<Rightarrow> int \<Rightarrow> nat \<Rightarrow> dom \<Rightarrow> dom option" where
  "last_child d newIndex n focusItem =
     (case getElementById d (child_id (js_int newIndex) n) of
        Some tmpElem \<Rightarrow> last_child d newIndex (Suc n) tmpElem
      | None \<Rightarrow> Some focusItem)"

declare NavNext.simps [code] NavPrev.simps [code] last_child.simps [code]

definition focus_on :: "dom \<Rightarrow> results \<Rightarrow> results" where
  "focus_on e st = st\<lparr>focused := FocusOn (okey e)\<rparr>"

text \<open>Calls to the parent, one after the other; the first that fails throws.\<close>

fun call_parent :: "parent_call list \<Rightarrow> results \<Rightarrow> results script" where
  "call_parent [] st = returns st"
| "call_parent (c # cs) st =
     (case parent_error (embedder st) c of
        Some e \<Rightarrow> Some (Inl e)
      | None \<Rightarrow> call_parent cs (st\<lparr>parent_calls := parent_calls st @ [c]\<rparr>))"

definition nav_up :: "int \<Rightarrow> results \<Rightarrow> results script" where
  "nav_up itemIndex st =
     (let newIndex = itemIndex - 1; d = doc st in
      andThen (NavPrev d newIndex) (\<lambda>found.
        case found of
          None \<Rightarrow> call_parent [FocusSearchField] st
        | Some focusItem \<Rightarrow>
            andThen (thrown (row_of d focusItem)) (\<lambda>row.
            andThen (thrown (FindChildElement d (eid row))) (\<lambda>child.
              case child of
                None \<Rightarrow> returns (focus_on focusItem st)
              | Some c \<Rightarrow>
                  if disp c = js ''block''
                  then (case last_child d newIndex 0 focusItem of
                          None \<Rightarrow> None
                        | Some e \<Rightarrow> returns (focus_on e st))
                  else returns (focus_on focusItem st)))))"

definition nav_down :: "int \<Rightarrow> results \<Rightarrow> results script" where
  "nav_down itemIndex st =
     (let newIndex = itemIndex + 1; d = doc st in
      case getElementById d (item_id (js_int itemIndex)) of
        None \<Rightarrow> Some (Inl TypeError)
      | Some item \<Rightarrow>
          andThen (thrown (row_of d item)) (\<lambda>row.
          andThen (thrown (FindChildElement d (eid row))) (\<lambda>elem.
            let focusItem =
                  (case elem of
                     None \<Rightarrow> None
                   | Some e \<Rightarrow>
                       if disp e = js ''block''
                       then getElementById d (child_id (js_int itemIndex) 0) else None)
            in andThen (case focusItem of None \<Rightarrow> NavNext d newIndex | Some e \<Rightarrow> returns (Some e))
                 (\<lambda>focusItem.
                   returns (case focusItem of None \<Rightarrow> st | Some e \<Rightarrow> focus_on e st)))))"

definition nav_set_children :: "string \<Rightarrow> int \<Rightarrow> results \<Rightarrow> results script" where
  "nav_set_children value itemIndex st =
     (let d = doc st in
      case getElementById d (item_id (js_int itemIndex)) of
        None \<Rightarrow> Some (Inl TypeError)
      | Some item \<Rightarrow>
          andThen (thrown (row_of d item)) (\<lambda>row.
          andThen (thrown (FindChildElement d (eid row))) (\<lambda>elem.
            returns (case elem of
                None \<Rightarrow> st
              | Some e \<Rightarrow> st\<lparr>doc := style_display (okey e) (js value) d\<rparr>))))"

definition Nav :: "key_event \<Rightarrow> int \<Rightarrow> results \<Rightarrow> (results \<times> bool) script" where
  "Nav e itemIndex st =
     (if keyCode e = 13 then returns (st, True)
      else let (st, ok) = ProcessKeys e st in
        if \<not> ok then returns (st, False)
        else if lastKey st = 38 then andThen (nav_up itemIndex st) (\<lambda>st. returns (st, False))
        else if lastKey st = 40 then andThen (nav_down itemIndex st) (\<lambda>st. returns (st, False))
        else if lastKey st = 39
        then andThen (nav_set_children ''block'' itemIndex st) (\<lambda>st. returns (st, False))
        else if lastKey st = 37
        then andThen (nav_set_children ''none'' itemIndex st) (\<lambda>st. returns (st, False))
        else if lastKey st = 27
        then andThen (call_parent [CloseResultsWindow, FocusSearchField] st) (\<lambda>st. returns (st, False))
        else if lastKey st = 13 then returns (st, True)
        else returns (st, False))"

definition focus_id :: "jstr \<Rightarrow> results \<Rightarrow> results script" where
  "focus_id i st =
     (case getElementById (doc st) i of
        None \<Rightarrow> Some (Inl TypeError)
      | Some e \<Rightarrow> returns (focus_on e st))"

definition NavChild :: "key_event \<Rightarrow> int \<Rightarrow> nat \<Rightarrow> results \<Rightarrow> (results \<times> bool) script" where
  "NavChild e itemIndex childIndex st =
     (if keyCode e = 13 then returns (st, True)
      else let (st, ok) = ProcessKeys e st in
        if \<not> ok then returns (st, False)
        else if lastKey st = 38
        then andThen
               (if childIndex > 0
                then focus_id (child_id (js_int itemIndex) (childIndex - 1)) st
                else focus_id (item_id (js_int itemIndex)) st)
               (\<lambda>st. returns (st, False))
        else if lastKey st = 40
        then andThen
               (case getElementById (doc st) (child_id (js_int itemIndex) (childIndex + 1)) of
                  Some elem \<Rightarrow> returns (Some elem)
                | None \<Rightarrow> NavNext (doc st) (itemIndex + 1))
               (\<lambda>elem. returns (case elem of None \<Rightarrow> st | Some c \<Rightarrow> focus_on c st, False))
        else if lastKey st = 27
        then andThen (call_parent [CloseResultsWindow, FocusSearchField] st) (\<lambda>st. returns (st, False))
        else if lastKey st = 13 then returns (st, True)
        else returns (st, False))"

section \<open>The walk is a search in document order\<close>

text \<open>The elements the walk can reach: it only enters \<open>div\<close> elements.\<close>

fun descend :: "dom \<Rightarrow> dom list" where
  "descend (Elem k t c i d a x es) =
     Elem k t c i d a x es # (if t = js ''div'' then concat (map descend es) else [])"

lemma descend_unfold:
  "descend e = e # (if tag e = js ''div'' then concat (map descend (kids e)) else [])"
  by (cases e) simp

lemma concat_climb: "concat (map f (climb st)) = concat (map f st)" if "f [] = []"
  using that by (induction st) (auto simp: climb_def)

lemma find_append: "find P (xs @ ys) = (case find P xs of None \<Rightarrow> find P ys | Some x \<Rightarrow> Some x)"
  by (induction xs) simp_all

lemma find_child_walk_eq:
  "find_child_walk st
     = find is_children_div (concat (map (\<lambda>es. concat (map descend es)) st))"
proof (induction st rule: find_child_walk.induct)
  case (2 st)
  then show ?case by (simp add: concat_climb)
next
  case (3 e sibs st)
  show ?case
  proof (cases "is_children_div e")
    case False
    then consider "tag e = js ''div''" "kids e \<noteq> []" | "\<not> (tag e = js ''div'' \<and> kids e \<noteq> [])"
      by blast
    then show ?thesis
    proof cases
      case 1
      with 3 False show ?thesis by (simp add: descend_unfold [of e])
    next
      case 2
      with 3 False show ?thesis
        by (cases "sibs = []") (auto simp: descend_unfold [of e] concat_climb)
    qed
  qed (simp add: descend_unfold [of e])
qed simp

section \<open>What a search changes\<close>

definition is_row :: "view \<Rightarrow> bool" where
  "is_row v \<longleftrightarrow> v_tag v = js ''div'' \<and> v_cls v = js ''SRResult''"

definition row_keys :: "(jstr \<Rightarrow> bool) \<Rightarrow> dom list \<Rightarrow> nat set" where
  "row_keys P rows = {okey r | r. r \<in> set rows \<and> cls r = js ''SRResult'' \<and> P (eid r)}"

lemma row_keys_Cons:
  "row_keys P (r # rows) =
     (if cls r = js ''SRResult'' \<and> P (eid r) then {okey r} else {}) \<union> row_keys P rows"
  by (auto simp: row_keys_def)

lemma search_loop_views:
  assumes "distinct (map okey rows)"
  shows "views (fst (search_loop env q rows d m)) =
    map (\<lambda>v. if v_key v \<in> row_keys (row_matches env q) rows then v\<lparr>v_disp := js ''block''\<rparr>
             else if v_key v \<in> row_keys (\<lambda>i. \<not> row_matches env q i) rows
             then v\<lparr>v_disp := js ''none''\<rparr> else v) (views d)"
  using assms
proof (induction rows arbitrary: d m)
  case Nil
  then show ?case by (simp add: row_keys_def)
next
  case (Cons r rows)
  have fresh: "okey r \<notin> row_keys P rows" for P
    using Cons.prems by (auto simp: row_keys_def)
  show ?case
    using Cons fresh
    by (auto simp: row_keys_Cons views_style_display o_def intro!: map_cong)
qed

lemma search_loop_matches:
  "snd (search_loop env q rows d m)
     = m + length (filter (\<lambda>r. cls r = js ''SRResult'' \<and> row_matches env q (eid r)) rows)"
  by (induction rows arbitrary: d m) simp_all

lemma search_loop_keys [simp]:
  "map okey (nodes (fst (search_loop env q rows d m))) = map okey (nodes d)"
  by (induction rows arbitrary: d m) simp_all

definition row_views :: "dom \<Rightarrow> view list" where
  "row_views d = filter is_row (views d)"

lemma search_loop_rows:
  assumes "keys_distinct d"
  shows "row_views (fst (search_loop env q (getElementsByTagName d (js ''div'')) d m))
    = map (\<lambda>v. v\<lparr>v_disp := if row_matches env q (v_id v) then js ''block'' else js ''none''\<rparr>)
        (row_views d)"
proof -
  let ?rows = "getElementsByTagName d (js ''div'')"
  let ?f = "\<lambda>v. if v_key v \<in> row_keys (row_matches env q) ?rows then v\<lparr>v_disp := js ''block''\<rparr>
             else if v_key v \<in> row_keys (\<lambda>i. \<not> row_matches env q i) ?rows
             then v\<lparr>v_disp := js ''none''\<rparr> else v"
  have dist: "distinct (map okey ?rows)"
    using assms by (simp add: keys_distinct_def getElementsByTagName_def distinct_map_filter)
  have inj: "e = e'" if "e \<in> set (nodes d)" "e' \<in> set (nodes d)" "okey e = okey e'" for e e'
    using assms that by (auto simp: keys_distinct_def distinct_map dest: inj_onD)
  have key: "v_key v \<in> row_keys P ?rows \<longleftrightarrow> P (v_id v)" if v: "v \<in> set (row_views d)" for v P
    using v inj by (auto simp: row_views_def views_def row_keys_def is_row_def
        getElementsByTagName_def) blast+
  have "is_row (?f v) = is_row v" for v
    by (simp add: is_row_def)
  then have "filter is_row (map ?f (views d)) = map ?f (filter is_row (views d))"
    by (simp add: filter_map o_def)
  then have "row_views (fst (search_loop env q ?rows d m)) = map ?f (row_views d)"
    by (simp only: row_views_def search_loop_views [OF dist])
  then show ?thesis using key by (auto intro!: map_cong)
qed

lemma display_by_id_row_views:
  assumes "keys_distinct d" "\<exists>v \<in> set (views d). v_id v = i" "\<forall>v \<in> set (row_views d). v_id v \<noteq> i"
  obtains d' where "display_by_id i x d = Inr d'" "keys_distinct d'" "row_views d' = row_views d"
    "map v_id (views d') = map v_id (views d)"
    "find (\<lambda>v. v_id v = i) (views d') = map_option (\<lambda>v. v\<lparr>v_disp := x\<rparr>) (find (\<lambda>v. v_id v = i) (views d))"
proof -
  obtain d' k where d': "display_by_id i x d = Inr d'" "keys_distinct d'"
      "views d' = map (\<lambda>v. if v_key v = k then v\<lparr>v_disp := x\<rparr> else v) (views d)"
      "\<forall>v \<in> set (views d). v_key v = k \<longrightarrow> v_id v = i"
      "find (\<lambda>v. v_id v = i) (views d') = map_option (\<lambda>v. v\<lparr>v_disp := x\<rparr>) (find (\<lambda>v. v_id v = i) (views d))"
    using display_by_id_ok [OF assms(1,2)] by blast
  let ?g = "\<lambda>v. if v_key v = k then v\<lparr>v_disp := x\<rparr> else v"
  have "is_row (?g v) = is_row v" for v by (simp add: is_row_def)
  then have "row_views d' = map ?g (row_views d)"
    by (simp add: row_views_def d'(3) filter_map o_def)
  also have "\<dots> = row_views d"
    using assms(3) d'(4) by (intro map_idI) (auto simp: row_views_def)
  finally show ?thesis
    using that d' by (simp add: o_def if_distrib cong: if_cong)
qed

text \<open>
  A page the search works on: identities are distinct, both status lines exist, and no
  row carries the \<open>id\<close> of a status line.
\<close>

definition results_page :: "dom \<Rightarrow> bool" where
  "results_page d \<longleftrightarrow> keys_distinct d \<and>
     (\<exists>v \<in> set (views d). v_id v = js ''Searching'') \<and>
     (\<exists>v \<in> set (views d). v_id v = js ''NoMatches'') \<and>
     (\<forall>v \<in> set (row_views d). v_id v \<noteq> js ''Searching'' \<and> v_id v \<noteq> js ''NoMatches'')"

definition effective_search :: "jsenv \<Rightarrow> jstr \<Rightarrow> results \<Rightarrow> jstr" where
  "effective_search env search0 st =
     normalise_search env (if search0 = [] then js_unescape (js_substring_from (query st) 1) else search0)"

lemma search_loop_ids:
  "distinct (map okey rows) \<Longrightarrow>
   map v_id (views (fst (search_loop env q rows d m))) = map v_id (views d)"
  by (simp only: search_loop_views map_map) (auto intro!: map_cong)

lemma exists_id_cong:
  "map v_id (views d) = map v_id (views d') \<Longrightarrow>
   (\<exists>v \<in> set (views d). v_id v = i) \<longleftrightarrow> (\<exists>v \<in> set (views d'). v_id v = i)"
  by (metis (mono_tags, lifting) image_iff list.set_map)

lemma matches_row_views:
  "length (filter (\<lambda>r. cls r = js ''SRResult'' \<and> P (eid r)) (getElementsByTagName d (js ''div'')))
     = length (filter (\<lambda>v. P (v_id v)) (row_views d))"
  by (auto simp: getElementsByTagName_def row_views_def views_def filter_map o_def is_row_def
      intro!: arg_cong [where f = length] filter_cong)

definition shown :: "jsenv \<Rightarrow> jstr \<Rightarrow> view \<Rightarrow> view" where
  "shown env q v = v\<lparr>v_disp := if row_matches env q (v_id v) then js ''block'' else js ''none''\<rparr>"

lemma search_loop_page:
  assumes page: "results_page d0"
    and loop: "search_loop env q (getElementsByTagName d0 (js ''div'')) d0 0 = (d, m)"
  shows "results_page d" "row_views d = map (shown env q) (row_views d0)"
    "m = length (filter (\<lambda>v. row_matches env q (v_id v)) (row_views d0))"
proof -
  let ?rows = "getElementsByTagName d0 (js ''div'')"
  have kd: "keys_distinct d0" using page by (simp add: results_page_def)
  then have dist: "distinct (map okey ?rows)"
    by (simp add: keys_distinct_def getElementsByTagName_def distinct_map_filter)
  show rv: "row_views d = map (shown env q) (row_views d0)"
    using search_loop_rows [OF kd, of env q 0] loop by (simp add: shown_def)
  show "m = length (filter (\<lambda>v. row_matches env q (v_id v)) (row_views d0))"
    using search_loop_matches [of env q ?rows d0 0] loop by (simp add: matches_row_views)
  have ids: "map v_id (views d) = map v_id (views d0)"
    using search_loop_ids [OF dist, of env q d0 0] loop by simp
  have "keys_distinct d"
    using kd search_loop_keys [of env q ?rows d0 0] loop by (simp add: keys_distinct_def)
  with page show "results_page d"
    by (auto simp: results_page_def exists_id_cong [OF ids] rv shown_def)
qed

lemma status_line:
  assumes page: "results_page d" and i: "i \<in> {js ''Searching'', js ''NoMatches''}"
  obtains d' where "display_by_id i x d = Inr d'" "results_page d'" "row_views d' = row_views d"
    "map_option disp (getElementById d' i) = Some x"
proof -
  have ex: "\<exists>v \<in> set (views d). v_id v = i" and rid: "\<forall>v \<in> set (row_views d). v_id v \<noteq> i"
    and kd: "keys_distinct d"
    using page i by (auto simp: results_page_def)
  obtain d' where d': "display_by_id i x d = Inr d'" "keys_distinct d'" "row_views d' = row_views d"
      "map v_id (views d') = map v_id (views d)"
      "find (\<lambda>v. v_id v = i) (views d') = map_option (\<lambda>v. v\<lparr>v_disp := x\<rparr>) (find (\<lambda>v. v_id v = i) (views d))"
    by (rule display_by_id_row_views [OF kd ex rid])
  obtain v where "find (\<lambda>v. v_id v = i) (views d) = Some v"
    using ex by (metis (mono_tags, lifting) find_None_iff not_Some_eq)
  with d'(5) have "map_option v_disp (map_option view_of (getElementById d' i)) = Some x"
    by (simp add: view_getElementById)
  moreover have "results_page d'"
    using page by (simp add: results_page_def d'(2,3) exists_id_cong [OF d'(4)])
  ultimately show ?thesis using that d' by (simp add: option.map_comp o_def)
qed

lemma Search_correct:
  fixes env :: jsenv and search0 :: jstr and st :: results
  assumes page: "results_page (doc st)"
  defines "q \<equiv> effective_search env search0 st"
  obtains st' where "Search env search0 st = Inr (st', True)" "results_page (doc st')"
    "row_views (doc st') = map (shown env q) (row_views (doc st))"
    "lastMatchCount st' = length (filter (\<lambda>v. row_matches env q (v_id v)) (row_views (doc st)))"
    "map_option disp (getElementById (doc st') (js ''NoMatches''))
       = Some (if lastMatchCount st' = 0 then js ''block'' else js ''none'')"
proof -
  obtain d m where loop: "search_loop env q (getElementsByTagName (doc st) (js ''div'')) (doc st) 0 = (d, m)"
    by fastforce
  note d = search_loop_page [OF page loop]
  obtain d1 where d1: "display_by_id (js ''Searching'') (js ''none'') d = Inr d1"
      "results_page d1" "row_views d1 = row_views d"
    using status_line [OF d(1), of "js ''Searching''"] by blast
  obtain d2 where d2: "display_by_id (js ''NoMatches'') (if m = 0 then js ''block'' else js ''none'') d1 = Inr d2"
      "results_page d2" "row_views d2 = row_views d1"
      "map_option disp (getElementById d2 (js ''NoMatches'')) = Some (if m = 0 then js ''block'' else js ''none'')"
    using status_line [OF d1(2), of "js ''NoMatches''"] by blast
  have "Search env search0 st = Inr (st\<lparr>doc := d2, lastMatchCount := m\<rparr>, True)"
    using loop d1(1) d2(1) by (simp add: Search_def q_def effective_search_def Let_def)
  then show ?thesis using that d d1 d2 by simp
qed

section \<open>The page createResults builds\<close>

definition page_with :: "dom list \<Rightarrow> dom" where
  "page_with rows =
     Elem 0 (js ''body'') (js ''SRPage'') [] [] [] []
       [Elem 1 (js ''div'') [] (js ''SRIndex'') [] [] []
          [status_div 2 ''Loading'',
           Elem 3 (js ''div'') [] (js ''SRResults'') [] [] [] rows,
           status_div 4 ''Searching'',
           status_div 5 ''NoMatches'']]"

definition key_view :: "nat \<Rightarrow> string \<Rightarrow> string \<Rightarrow> jstr \<Rightarrow> view" where
  "key_view k t c i = \<lparr>v_key = k, v_tag = js t, v_cls = js c, v_id = i, v_disp = []\<rparr>"

fun child_views :: "nat \<Rightarrow> nat \<Rightarrow> nat \<Rightarrow> target list \<Rightarrow> view list" where
  "child_views e c k [] = []"
| "child_views e c k (tg # tgs) =
     key_view k ''a'' ''SRScope'' (child_id (js_dec e) c) # child_views e (Suc c) (Suc k) tgs"

definition tail_views :: "nat \<Rightarrow> nat \<Rightarrow> target list \<Rightarrow> view list" where
  "tail_views e k tgs =
     (if length tgs = 1 then [key_view k ''span'' ''SRScope'' []]
      else key_view k ''div'' ''SRChildren'' [] # child_views e 0 (Suc k) tgs)"

definition created_row_views :: "nat \<Rightarrow> nat \<Rightarrow> entry \<Rightarrow> view list" where
  "created_row_views e k en =
     [key_view k ''div'' ''SRResult'' (js ''SR_'' @ e_id en),
      key_view (k + 1) ''div'' ''SREntry'' [],
      key_view (k + 2) ''a'' ''SRSymbol'' (item_id (js_dec e))]
     @ tail_views e (k + 3) (e_targets en)"

lemmas elem_defs = el_def setKeyActions_def setClassAttr_def if_target_def status_div_def

lemma setters_views [simp]:
  "views (setAttribute n v e) = views e"
  "views (set_inner x e) = views e"
  "views (if_target p e) = views e"
  by (cases e; simp add: views_def view_of_def if_target_def)+

lemma views_append_kid: "views (append_kid n e) = views e @ views n"
  by (cases e) (simp add: views_def view_of_def)

lemma views_foldl_append_kid:
  "views (foldl (\<lambda>cs c. append_kid c cs) e cs) = views e @ concat (map views cs)"
  by (induction cs arbitrary: e) (simp_all add: views_append_kid)

lemma views_children: "concat (map views (create_children e c k tgs)) = child_views e c k tgs"
  by (induction tgs arbitrary: c k)
    (simp_all add: elem_defs views_def view_of_def key_view_def)

lemma views_create_row: "views (create_row e k en) = created_row_views e k en"
proof -
  have base: "views (setClassAttr (js c) (set_id i (el k t ''''))) = [key_view k t c i]"
       "views (setClassAttr (js c) (el k t '''')) = [key_view k t c []]" for c i k t
    by (simp_all add: elem_defs views_def view_of_def key_view_def)
  have link: "views (create_link e k en) = [key_view k ''a'' ''SRSymbol'' (item_id (js_dec e))]" for k
    by (simp add: create_link_def elem_defs views_def view_of_def key_view_def)
  show ?thesis
    by (cases "e_targets en" rule: remdups_adj.cases)
      (simp_all add: create_row_def Let_def created_row_views_def tail_views_def views_append_kid
        views_foldl_append_kid base link views_children add.commute
        del: create_children.simps child_views.simps)
qed

lemma child_views_keys: "map v_key (child_views e c k tgs) = [k..<k + length tgs]"
  by (induction tgs arbitrary: c k) (simp_all add: key_view_def upt_rec)

lemma created_row_keys:
  "sorted_wrt (<) (map v_key (created_row_views e k en)) \<and>
   (\<forall>v \<in> set (created_row_views e k en). k \<le> v_key v \<and> v_key v < k + 4 + length (e_targets en))"
proof -
  have "\<forall>v \<in> set (child_views e c k' tgs). k' \<le> v_key v \<and> v_key v < k' + length tgs" for c k' tgs
    using child_views_keys [of e c k' tgs]
    by (metis atLeastLessThan_iff atLeastLessThan_upt image_eqI list.set_map)
  then have children: "\<And>v. v \<in> set (child_views e 0 (4 + k) (e_targets en)) \<Longrightarrow>
      4 + k \<le> v_key v \<and> v_key v < 4 + k + length (e_targets en)"
    by blast
  show ?thesis
    by (auto simp: created_row_views_def tail_views_def child_views_keys key_view_def
        sorted_wrt_upt dest!: children)
qed

lemma create_rows_keys:
  "sorted_wrt (<) (map v_key (concat (map views (create_rows e k sd)))) \<and>
   (\<forall>v \<in> set (concat (map views (create_rows e k sd))). k \<le> v_key v)"
proof (induction sd arbitrary: e k)
  case (Cons en sd)
  let ?k = "k + 4 + length (e_targets en)"
  note row = created_row_keys [of e k en]
  show ?case
    using row Cons [of "Suc e" ?k]
    by (auto simp: views_create_row sorted_wrt_append) fastforce+
qed simp

lemma page_with_append:
  assumes "\<forall>r \<in> set rs. 3 \<notin> set (map okey (nodes r))"
  shows "upd 3 (append_kid r) (page_with rs) = page_with (rs @ [r])"
proof -
  have "map (upd 3 (append_kid r)) rs = rs"
    using assms by (intro map_idI upd_idle) auto
  then show ?thesis
    by (simp add: page_with_def elem_defs Let_def)
qed

lemma fold_page_with:
  "\<forall>r \<in> set (rs @ rows). 3 \<notin> set (map okey (nodes r)) \<Longrightarrow>
   foldl (\<lambda>d r. upd 3 (append_kid r) d) (page_with rs) rows = page_with (rs @ rows)"
  by (induction rows arbitrary: rs) (simp_all add: page_with_append)

lemma keys_views: "map okey (nodes r) = map v_key (views r)"
  by (simp add: views_def o_def)

lemma createResults_page:
  "createResults sd results_page0 = Inr (page_with (create_rows 0 6 sd))"
proof -
  have p0: "results_page0 = page_with []"
    by (simp add: results_page0_def page_with_def elem_defs)
  have get: "getElementById (page_with []) (js ''SRResults'')
      = Some (Elem 3 (js ''div'') [] (js ''SRResults'') [] [] [] [])"
    by (simp add: getElementById_def page_with_def elem_defs)
  have mx: "Max (okey ` set (nodes (page_with []))) = 5"
    by (simp add: page_with_def elem_defs)
  have "\<forall>v \<in> set (concat (map views (create_rows 0 6 sd))). 6 \<le> v_key v"
    using create_rows_keys by blast
  then have "\<forall>r \<in> set ([] @ create_rows 0 6 sd). 3 \<notin> set (map okey (nodes r))"
    by (fastforce simp: keys_views)
  from fold_page_with [OF this] show ?thesis
    by (simp add: createResults_def p0 get mx)
qed

lemma views_page_with:
  "views (page_with rows) =
     [key_view 0 ''body'' ''SRPage'' [], key_view 1 ''div'' '''' (js ''SRIndex''),
      key_view 2 ''div'' ''SRStatus'' (js ''Loading''), key_view 3 ''div'' '''' (js ''SRResults'')]
     @ concat (map views rows) @
     [key_view 4 ''div'' ''SRStatus'' (js ''Searching''), key_view 5 ''div'' ''SRStatus'' (js ''NoMatches'')]"
proof -
  have "map view_of (concat (map nodes rows)) = concat (map views rows)"
    by (induction rows) (simp_all add: views_def)
  then show ?thesis
    by (simp add: views_def page_with_def elem_defs view_of_def key_view_def)
qed

lemma filter_children [simp]: "filter is_row (child_views e c k tgs) = []"
  by (induction tgs arbitrary: c k) (simp_all add: is_row_def key_view_def)

lemma filter_created_row:
  "filter is_row (created_row_views e k en) = [key_view k ''div'' ''SRResult'' (js ''SR_'' @ e_id en)]"
  by (simp add: created_row_views_def tail_views_def is_row_def key_view_def
      filter_children [unfolded is_row_def])

lemma filter_create_rows:
  "map v_id (filter is_row (concat (map views (create_rows e k sd)))) = map (\<lambda>en. js ''SR_'' @ e_id en) sd"
  by (induction sd arbitrary: e k)
    (simp_all add: views_create_row filter_created_row key_view_def)

lemma created_row_ids:
  "map v_id (row_views (page_with (create_rows 0 6 sd))) = map (\<lambda>en. js ''SR_'' @ e_id en) sd"
  by (simp add: row_views_def views_page_with filter_create_rows is_row_def key_view_def
      filter_create_rows [unfolded is_row_def])

lemma created_results_page: "results_page (page_with (create_rows 0 6 sd))"
proof -
  let ?p = "page_with (create_rows 0 6 sd)"
  let ?mid = "concat (map views (create_rows 0 6 sd))"
  define K where "K = map v_key ?mid"
  have K: "sorted_wrt (<) K" "\<forall>k \<in> set K. 6 \<le> k"
    using create_rows_keys [of 0 6 sd] by (simp_all add: K_def)
  have "map okey (nodes ?p) = [0, 1, 2, 3] @ K @ [4, 5]"
    by (simp add: keys_views views_page_with key_view_def K_def)
  with K have "keys_distinct ?p"
    by (auto simp: keys_distinct_def strict_sorted_iff)
  moreover have "v_id v \<in> set (map (\<lambda>en. js ''SR_'' @ e_id en) sd)" if "v \<in> set (row_views ?p)" for v
    using that created_row_ids [of sd] by (metis image_eqI list.set_map)
  moreover have "js ''SR_'' @ x \<noteq> js ''Searching''" "js ''SR_'' @ x \<noteq> js ''NoMatches''" for x
    by (simp_all add: js_def)
  ultimately show ?thesis
    by (fastforce simp: results_page_def views_page_with key_view_def)
qed

section \<open>Navigation ends and finds the nearest visible entry\<close>

lemma item_id_inject: "item_id (js_int i) = item_id (js_int j) \<longleftrightarrow> i = j"
  by (simp add: item_id_def)

lemma items_bounded:
  obtains N where "\<And>j. N < \<bar>j\<bar> \<Longrightarrow> getElementById d (item_id (js_int j)) = None"
proof -
  let ?J = "{j. item_id (js_int j) \<in> eid ` set (nodes d)}"
  have "inj (\<lambda>j. item_id (js_int j))" by (auto intro!: injI simp: item_id_inject)
  then have "finite ((\<lambda>j. item_id (js_int j)) -` (eid ` set (nodes d)))"
    by (intro finite_vimageI) simp_all
  then have fin: "finite (abs ` ?J)" by (simp add: vimage_def)
  show ?thesis
  proof (rule that [of "Max (insert 0 (abs ` ?J))"])
    fix j :: int
    assume "Max (insert 0 (abs ` ?J)) < \<bar>j\<bar>"
    then have "j \<notin> ?J" using fin by auto
    then show "getElementById d (item_id (js_int j)) = None"
      unfolding getElementById_def find_None_iff by (metis image_eqI mem_Collect_eq)
  qed
qed

definition hidden_item :: "dom \<Rightarrow> int \<Rightarrow> bool" where
  "hidden_item d j =
     (case getElementById d (item_id (js_int j)) of
        None \<Rightarrow> False
      | Some e \<Rightarrow> (case row_of d e of Inl _ \<Rightarrow> False | Inr row \<Rightarrow> disp row \<noteq> js ''block''))"

text \<open>What a navigation stopping at item \<open>j\<close> returns.\<close>

definition item_result :: "dom \<Rightarrow> int \<Rightarrow> dom option script" where
  "item_result d j =
     (case getElementById d (item_id (js_int j)) of
        None \<Rightarrow> returns None
      | Some e \<Rightarrow> (case row_of d e of Inl err \<Rightarrow> Some (Inl err) | Inr row \<Rightarrow> returns (Some e)))"

lemma NavNext_step:
  "NavNext d i = (if hidden_item d i then NavNext d (i + 1) else item_result d i)"
  by (subst NavNext.simps) (auto simp: hidden_item_def item_result_def split: option.splits sum.splits)

lemma NavPrev_step:
  "NavPrev d i = (if hidden_item d i then NavPrev d (i - 1) else item_result d i)"
  by (subst NavPrev.simps) (auto simp: hidden_item_def item_result_def split: option.splits sum.splits)

lemma hidden_bounded:
  obtains N where "\<And>j. hidden_item d j \<Longrightarrow> \<bar>j\<bar> \<le> N"
proof -
  obtain N where "\<And>j. N < \<bar>j\<bar> \<Longrightarrow> getElementById d (item_id (js_int j)) = None"
    using items_bounded by blast
  then have "\<And>j. hidden_item d j \<Longrightarrow> \<bar>j\<bar> \<le> N"
    by (metis hidden_item_def leI option.simps(4))
  then show ?thesis using that by blast
qed

text \<open>Both directions are one walk with a step of one.\<close>

lemma walk_finds:
  fixes nav :: "int \<Rightarrow> dom option script" and s :: int
  assumes step: "\<And>i. nav i = (if hidden_item d i then nav (i + s) else item_result d i)"
    and s: "\<bar>s\<bar> = 1"
  shows "\<exists>n. list_all (\<lambda>k. hidden_item d (i + s * int k)) [0..<n] \<and>
     \<not> hidden_item d (i + s * int n) \<and> nav i = item_result d (i + s * int n)"
proof -
  obtain N where N: "\<And>j. hidden_item d j \<Longrightarrow> \<bar>j\<bar> \<le> N" using hidden_bounded by blast
  show ?thesis
  proof (induction "nat (N + 1 - s * i)" arbitrary: i rule: less_induct)
    case less
    show ?case
    proof (cases "hidden_item d i")
      case True
      have "nat (N + 1 - s * (i + s)) < nat (N + 1 - s * i)"
        using N [OF True] s by (auto simp: abs_if algebra_simps split: if_splits)
      from less [OF this] obtain n where
        n: "list_all (\<lambda>k. hidden_item d (i + s + s * int k)) [0..<n]"
          "\<not> hidden_item d (i + s + s * int n)" "nav (i + s) = item_result d (i + s + s * int n)"
        by blast
      have "list_all (\<lambda>k. hidden_item d (i + s * int k)) [0..<Suc n]"
        unfolding list_all_iff
      proof (rule ballI)
        fix k
        assume "k \<in> set [0..<Suc n]"
        with True n(1) show "hidden_item d (i + s * int k)"
          by (cases k) (auto simp: list_all_iff algebra_simps)
      qed
      moreover have "i + s * int (Suc n) = i + s + s * int n" by (simp add: algebra_simps)
      ultimately show ?thesis using n(2,3) step [of i] True by metis
    next
      case False
      then show ?thesis using step [of i] by (intro exI [of _ 0]) simp
    qed
  qed
qed

text \<open>A search on the page of created rows, with the query string the search box sends.\<close>

lemma search_created_page:
  fixes st :: results and env :: jsenv and typed :: jstr and searchData :: "entry list"
  defines "d \<equiv> page_with (create_rows 0 6 searchData)"
    and "shows_row i \<equiv> row_matches env (normalise_search env typed) i"
  obtains st' where
    "Search env [] (st\<lparr>doc := d, query := js ''?'' @ js_escape typed\<rparr>) = Inr (st', True)"
    "map (\<lambda>v. (v_id v, v_disp v)) (row_views (doc st')) =
       map (\<lambda>en. (js ''SR_'' @ e_id en, if shows_row (js ''SR_'' @ e_id en) then js ''block'' else js ''none''))
         searchData"
    "lastMatchCount st' = length (filter (\<lambda>en. shows_row (js ''SR_'' @ e_id en)) searchData)"
    "map_option disp (getElementById (doc st') (js ''NoMatches''))
       = Some (if lastMatchCount st' = 0 then js ''block'' else js ''none'')"
proof -
  let ?st = "st\<lparr>doc := d, query := js ''?'' @ js_escape typed\<rparr>"
  let ?q = "normalise_search env typed"
  have page: "results_page (doc ?st)" by (simp add: d_def created_results_page)
  have ds: "doc ?st = d" by simp
  have q: "effective_search env [] ?st = ?q"
    using unescape_escape [of typed "[]"]
    by (simp add: effective_search_def js_substring_from_def js_def)
  obtain st' where st': "Search env [] ?st = Inr (st', True)"
    "row_views (doc st') = map (shown env ?q) (row_views d)"
    "lastMatchCount st' = length (filter (\<lambda>v. shows_row (v_id v)) (row_views d))"
    "map_option disp (getElementById (doc st') (js ''NoMatches''))
       = Some (if lastMatchCount st' = 0 then js ''block'' else js ''none'')"
    unfolding shows_row_def using Search_correct [OF page, of env "[]", unfolded q ds] by blast
  have "map (\<lambda>v. (v_id v, v_disp v)) (row_views (doc st'))
      = map (\<lambda>i. (i, if shows_row i then js ''block'' else js ''none'')) (map v_id (row_views d))"
    by (simp add: st'(2) shown_def shows_row_def)
  moreover have "lastMatchCount st' = length (filter shows_row (map v_id (row_views d)))"
    by (simp add: st'(3) filter_map o_def)
  ultimately show thesis
    using st'(1,4) by (intro that [of st']) (simp_all add: d_def created_row_ids filter_map o_def)
qed

section \<open>Properties\<close>

text \<open>
  What a reader expects of a search, without the code: the text without the spaces around it, in
  lower case; every unit but the lower-case letters, the digits and those beyond ASCII written as an
  underscore and two hexadecimal digits; and a row is meant when its name starts with that. The name
  of a row is the identifier of its entry in lower case (or, when the identifier has units beyond
  ASCII, what the engine makes of it).
\<close>

definition encoded :: "jstr \<Rightarrow> jstr" where
  "encoded s = concat (map (\<lambda>c.
     if 97 \<le> c \<and> c \<le> 122 \<or> 48 \<le> c \<and> c \<le> 57 \<or> 0x80 \<le> c then [c]
     else [95, js_digit (unat c div 16), js_digit (unat c mod 16)]) s)"

definition without_spaces :: "jstr \<Rightarrow> jstr" where
  "without_spaces s = rev (dropWhile (\<lambda>c. c = 32) (rev (dropWhile (\<lambda>c. c = 32) s)))"

definition row_name :: "jsenv \<Rightarrow> entry \<Rightarrow> jstr" where
  "row_name env en =
     (if list_all plain_unit (e_id en) then map lower_unit (e_id en)
      else strip_sr (js_lower env (js ''SR_'' @ e_id en)))"

definition meant :: "jsenv \<Rightarrow> jstr \<Rightarrow> entry \<Rightarrow> bool" where
  "meant env typed en \<longleftrightarrow> prefix (encoded (js_lower env (without_spaces typed))) (row_name env en)"

lemma row_matches_meant:
  "row_matches env (normalise_search env typed) (js ''SR_'' @ e_id en) = meant env typed en"
proof -
  have "convertToId_unit = (\<lambda>c.
      if 97 \<le> c \<and> c \<le> 122 \<or> 48 \<le> c \<and> c \<le> 57 \<or> 0x80 \<le> c then [c]
      else [95, js_digit (unat c div 16), js_digit (unat c mod 16)])"
    by (simp add: fun_eq_iff convertToId_unit_cases id_keeps_def)
  then have "normalise_search env typed = encoded (js_lower env (without_spaces typed))"
    by (simp add: normalise_search_def convertToId_eq encoded_def without_spaces_def trim_left_def trim_right_def)
  moreover have "strip_sr (js_lower env (js ''SR_'' @ e_id en)) = row_name env en"
  proof (cases "list_all plain_unit (e_id en)")
    case True
    moreover have "list_all plain_unit (js ''SR_'')" "map lower_unit (js ''SR_'') = js ''sr_''" by code_simp+
    ultimately show ?thesis by (simp add: row_name_def js_lower_def strip_sr_row)
  qed (simp add: row_name_def)
  ultimately show ?thesis by (simp add: row_matches_prefix meant_def)
qed

text \<open>
  C5: from the search box to the rows: the page \<open>createResults\<close> builds for any
  \<open>searchData\<close>, searched with the query string the search box navigates to for the
  text \<open>typed\<close>, shows exactly the rows whose name starts with the encoded text, hides all others,
  counts those it shows, and shows the \<open>No Matches\<close> line exactly when there is none.
\<close>

theorem results_page_shows_matches:
  "\<exists>d st'. createResults searchData results_page0 = Inr d \<and>
     Search env [] (st\<lparr>doc := d, query := js ''?'' @ js_escape typed\<rparr>) = Inr (st', True) \<and>
     map (\<lambda>v. (v_id v, v_disp v)) (row_views (doc st')) =
       map (\<lambda>en. (js ''SR_'' @ e_id en,
               if prefix (encoded (js_lower env (without_spaces typed))) (row_name env en)
               then js ''block'' else js ''none'')) searchData \<and>
     lastMatchCount st' = length (filter (\<lambda>en.
       prefix (encoded (js_lower env (without_spaces typed))) (row_name env en)) searchData) \<and>
     map_option disp (getElementById (doc st') (js ''NoMatches''))
       = Some (if lastMatchCount st' = 0 then js ''block'' else js ''none'')"
  by (rule search_created_page [of env typed searchData st])
     (use createResults_page in \<open>unfold row_matches_meant meant_def, blast\<close>)

text \<open>
  \<open>FindChildElement\<close> always ends, on any document, and returns the first
  \<open>SRChildren\<close> division in document order among the elements below the row that are
  reached through divisions.
\<close>

theorem FindChildElement_document_order:
  "FindChildElement d i =
     (case getElementById d i of
        None \<Rightarrow> Inl TypeError
      | Some row \<Rightarrow> Inr (find is_children_div (concat (map descend (kids row)))))"
  by (simp add: FindChildElement_def find_child_walk_eq split: option.split)

text \<open>
  C34: \<open>NavNext\<close> and \<open>NavPrev\<close> return on every document, from every index: they
  stop at the nearest item in their direction that is not hidden by the search, having
  passed hidden items only, and return it, or nothing where the items end.
\<close>

theorem navigation_finds_nearest_visible:
  "(\<exists>n. list_all (\<lambda>k. hidden_item d (i + int k)) [0..<n] \<and>
      \<not> hidden_item d (i + int n) \<and> NavNext d i = item_result d (i + int n)) \<and>
   (\<exists>n. list_all (\<lambda>k. hidden_item d (i - int k)) [0..<n] \<and>
      \<not> hidden_item d (i - int n) \<and> NavPrev d i = item_result d (i - int n))"
proof -
  have "NavPrev d i = (if hidden_item d i then NavPrev d (i + - 1) else item_result d i)" for i
    using NavPrev_step [of d i] by simp
  note prev = walk_finds [of "NavPrev d" d "- 1" i, OF this]
  from walk_finds [of "NavNext d" d 1 i, OF NavNext_step] prev show ?thesis
    by (simp only: mult_1 mult_minus1 add_uminus_conv_diff abs_one abs_minus_cancel)
qed

fun process_all :: "results \<Rightarrow> key_event list \<Rightarrow> bool list" where
  "process_all st [] = []"
| "process_all st (e # es) = (let (st', ok) = ProcessKeys e st in ok # process_all st' es)"

lemma process_presses:
  "repeatOn st \<Longrightarrow> lastKey st = k \<Longrightarrow> 0 < k \<Longrightarrow>
   process_all st (replicate n \<lparr>etype = KeyPress, keyCode = c\<rparr> @ es)
     = replicate n True @ process_all st es"
  by (induction n) (simp_all add: ProcessKeys_def)

text \<open>
  the key filter: a key going down is handled, the first key press the browser sends
  for it is ignored, every further press while the key repeats is handled, and the key
  going up is not.
\<close>

theorem key_filter_handles_repeats:
  "process_all st (\<lparr>etype = KeyDown, keyCode = Suc k\<rparr> # \<lparr>etype = KeyPress, keyCode = c\<rparr> #
       replicate n \<lparr>etype = KeyPress, keyCode = c\<rparr> @ [\<lparr>etype = KeyUp, keyCode = c'\<rparr>])
     = True # False # replicate n True @ [False]"
  by (simp add: ProcessKeys_def Let_def) (subst process_presses, auto simp: ProcessKeys_def Let_def)

text \<open>The pages of the site, which hold the results page in a frame.\<close>

definition site_page :: parent_page where
  "site_page = \<lparr>p_readable = True, p_closes = True, p_has_field = True\<rparr>"

text \<open>A page of three entries, after a search for \<open>a\<close> and with the first entry expanded.\<close>

definition two_targets :: "target list" where
  "two_targets = replicate 2 \<lparr>t_href = js ''h'', t_parent = 1, t_scope = js ''s''\<rparr>"

definition demo_entries :: "entry list" where
  "demo_entries =
     [\<lparr>e_id = js ''a_0'', e_label = js ''a'', e_targets = two_targets\<rparr>,
      \<lparr>e_id = js ''b_1'', e_label = js ''b'', e_targets = two_targets\<rparr>,
      \<lparr>e_id = js ''aa_2'', e_label = js ''aa'', e_targets = take 1 two_targets\<rparr>]"

definition demo_page :: "results script" where
  "demo_page =
     (case createResults demo_entries results_page0 of
        Inl e \<Rightarrow> Some (Inl e)
      | Inr d \<Rightarrow>
          andThen (thrown (Search ascii_env (js ''a'')
            \<lparr>doc = d, query = [], lastMatchCount = 0, lastKey = 0, repeatOn = False,
             focused = NoFocus, embedder = site_page, parent_calls = []\<rparr>)) (\<lambda>(st, _).
          andThen (Nav \<lparr>etype = KeyDown, keyCode = 39\<rparr> 0 st) (\<lambda>(st, _). returns st)))"

text \<open>
  Pressing Up below a hidden row can put the focus inside that hidden row: \<open>Nav\<close>
  finds the visible entry above with \<open>NavPrev\<close> but then looks for the last child of
  the entry directly above. Here the entries \<open>a\<close> (two targets, shown, expanded),
  \<open>b\<close> (two targets, hidden by the search) and \<open>aa\<close> (shown) are on the page; Up from
  \<open>aa\<close> focuses the second child of \<open>b\<close>, in a row that is not displayed.
\<close>

theorem nav_up_enters_hidden_row:
  "andThen demo_page (\<lambda>st. andThen (Nav \<lparr>etype = KeyDown, keyCode = 38\<rparr> 2 st) (\<lambda>(st, _).
     returns (focused st, map_option eid (by_key (doc st) 17), map_option disp (by_key (doc st) 12))))
   = returns (FocusOn 17, Some (js ''Item1_c1''), Some (js ''none''))"
  by code_simp

end
