(* ===== verification/ResultsRun.thy ===== *)
theory ResultsRun
  imports SearchResults
begin

text \<open>
  The life of a results page (\<open>search/search.js\<close>): the events that its elements can fire, one
  after the other. The elements are those that \<open>createResults\<close> built; the events change what
  is displayed and focused.
\<close>

section \<open>Events\<close>

text \<open>
  A search, a click on the link of an entry with several targets, a key on the link of an
  entry or of one of its targets, and the message with which the search box asks the page to
  take the focus.
\<close>

datatype page_event = SearchFor jstr | ClickEntry jstr | KeyOnEntry key_event nat | KeyOnTarget key_event nat nat
  | TakeFocus

text \<open>The events that the elements of the page for an index can fire.\<close>

definition several :: "entry \<Rightarrow> bool" where
  "several en \<longleftrightarrow> length (e_targets en) \<noteq> 1"

fun can_fire :: "entry list \<Rightarrow> page_event \<Rightarrow> bool" where
  "can_fire sd (SearchFor s) \<longleftrightarrow> True"
| "can_fire sd (ClickEntry i) \<longleftrightarrow> list_ex (\<lambda>en. several en \<and> i = js ''SR_'' @ e_id en) sd"
| "can_fire sd (KeyOnEntry e i) \<longleftrightarrow> i < length sd"
| "can_fire sd (KeyOnTarget e i c) \<longleftrightarrow> i < length sd \<and> several (sd ! i) \<and> c < length (e_targets (sd ! i))"
| "can_fire sd TakeFocus \<longleftrightarrow> True"

fun fire_event :: "jsenv \<Rightarrow> page_event \<Rightarrow> results \<Rightarrow> results script" where
  "fire_event env (SearchFor s) st = andThen (thrown (Search env s st)) (\<lambda>(st, _). returns st)"
| "fire_event env (ClickEntry i) st = thrown (Toggle i st)"
| "fire_event env (KeyOnEntry e i) st = andThen (Nav e (int i) st) (\<lambda>(st, _). returns st)"
| "fire_event env (KeyOnTarget e i c) st = andThen (NavChild e (int i) c st) (\<lambda>(st, _). returns st)"
| "fire_event env TakeFocus st =
     andThen (NavNext (doc st) 0) (\<lambda>e. returns (case e of None \<Rightarrow> st | Some e \<Rightarrow> focus_on e st))"

fun page_run :: "jsenv \<Rightarrow> page_event list \<Rightarrow> results \<Rightarrow> results script" where
  "page_run env [] st = returns st"
| "page_run env (e # es) st = andThen (fire_event env e st) (page_run env es)"

section \<open>Elements without what they display\<close>

fun skel :: "dom \<Rightarrow> dom" where
  "skel (Elem k t c i d a x es) = Elem k t c i [] a x (map skel es)"

lemma skel_sel [simp]:
  "okey (skel e) = okey e" "tag (skel e) = tag e" "cls (skel e) = cls e" "eid (skel e) = eid e"
  "disp (skel e) = []" "kids (skel e) = map skel (kids e)"
  by (cases e; simp)+

lemma nodes_skel: "nodes (skel d) = map skel (nodes d)"
proof (induction d)
  case (Elem k t c i d a x es)
  then have "concat (map (nodes \<circ> skel) es) = map skel (concat (map nodes es))"
    by (induction es) simp_all
  then show ?case by simp
qed

lemma skel_style_display [simp]: "skel (style_display k x d) = skel d"
proof (induction d)
  case (Elem k' t c i d a y es)
  then have "map (skel \<circ> style_display k x) es = map skel es" by simp
  then show ?case by (simp add: style_display_def Let_def o_def)
qed

lemma skel_search_loop [simp]: "skel (fst (search_loop env q rows d m)) = skel d"
  by (induction env q rows d m rule: search_loop.induct) simp_all

lemma skel_display_by_id: "display_by_id i x d = Inr d' \<Longrightarrow> skel d' = skel d"
  by (auto simp: display_by_id_def split: option.splits)

text \<open>What is looked up by identity, \<open>id\<close> or tag does not depend on the display.\<close>

lemma skel_eq_nodes:
  assumes "skel d = skel d'"
  shows "map skel (nodes d) = map skel (nodes d')"
  using assms by (simp flip: nodes_skel)

lemma skel_eq_map:
  assumes "skel d = skel d'" "\<And>e. f (skel e) = f e"
  shows "map f (nodes d) = map f (nodes d')"
proof -
  have "map f (nodes d) = map f (map skel (nodes d))" for d using assms(2) by simp
  then show ?thesis using skel_eq_nodes [OF assms(1)] by metis
qed

lemmas skel_eq_ids = skel_eq_map [where f = eid, OF _ skel_sel(4)]
lemmas skel_eq_keys = skel_eq_map [where f = okey, OF _ skel_sel(1)]

lemma has_id: "i \<in> eid ` set (nodes d) \<longleftrightarrow> (\<exists>e. getElementById d i = Some e \<and> e \<in> set (nodes d) \<and> eid e = i)"
proof
  assume "i \<in> eid ` set (nodes d)"
  then have "getElementById d i \<noteq> None" by (auto simp: getElementById_def find_None_iff)
  then show "\<exists>e. getElementById d i = Some e \<and> e \<in> set (nodes d) \<and> eid e = i"
    using getElementById_Some by blast
qed auto

section \<open>Links have rows\<close>

definition is_link :: "dom \<Rightarrow> bool" where
  "is_link e \<longleftrightarrow> prefix (js ''Item'') (eid e)"

lemma is_link_skel [simp]: "is_link (skel e) = is_link e"
  by (simp add: is_link_def)

lemma link_ids:
  "eid e = item_id i \<Longrightarrow> is_link e" "eid e = child_id i c \<Longrightarrow> is_link e"
  by (simp_all add: is_link_def item_id_def child_id_def)

text \<open>
  A document in which every link is a grandchild of some element: none is the root or one
  of its children.
\<close>

definition links_ok :: "dom \<Rightarrow> bool" where
  "links_ok d \<longleftrightarrow> keys_distinct d \<and> \<not> is_link d \<and> (\<forall>c \<in> set (kids d). \<not> is_link c) \<and>
     (\<forall>e \<in> set (nodes d). is_link e \<longrightarrow> tag e = js ''a'')"

lemma links_ok_skel: "links_ok (skel d) = links_ok d"
  by (simp add: links_ok_def keys_distinct_def nodes_skel o_def)

lemma links_ok_cong: "skel d = skel d' \<Longrightarrow> links_ok d = links_ok d'"
  by (metis links_ok_skel)

lemma self_in_nodes: "d \<in> set (nodes d)"
  by (subst nodes_unfold) simp

lemma kid_in_nodes: "p \<in> set (nodes d) \<Longrightarrow> c \<in> set (kids p) \<Longrightarrow> c \<in> set (nodes d)"
proof (induction d)
  case (Elem k t cl i di a x es)
  then show ?case using self_in_nodes [of c] by auto
qed

lemma has_parent:
  "e \<in> set (nodes d) \<Longrightarrow> e \<noteq> d \<Longrightarrow> \<exists>p \<in> set (nodes d). e \<in> set (kids p)"
proof (induction d)
  case (Elem k t c i di a x es)
  then obtain f where f: "f \<in> set es" "e \<in> set (nodes f)" by auto
  show ?case
  proof (cases "e = f")
    case False
    with Elem.IH [OF f(1)] f show ?thesis by auto
  qed (use f in auto)
qed

lemma parentNode_exists:
  assumes "e \<in> set (nodes d)" "e \<noteq> d"
  obtains p c where "parentNode d (okey e) = Some p" "p \<in> set (nodes d)" "c \<in> set (kids p)" "okey c = okey e"
proof -
  have "parentNode d (okey e) \<noteq> None"
    using has_parent [OF assms] by (auto simp: parentNode_def find_None_iff list_ex_iff)
  then obtain p where "parentNode d (okey e) = Some p" by blast
  then show thesis using that by (auto simp: parentNode_def find_Some_iff list_ex_iff) (metis nth_mem)
qed

lemma row_of_link:
  assumes "links_ok d" "e \<in> set (nodes d)" "is_link e"
  obtains r where "row_of d e = Inr r" "r \<in> set (nodes d)"
proof -
  have inj: "x = y" if "x \<in> set (nodes d)" "y \<in> set (nodes d)" "okey x = okey y" for x y
    using assms(1) that by (auto simp: links_ok_def keys_distinct_def distinct_map dest: inj_onD)
  have "e \<noteq> d" using assms(1,3) by (auto simp: links_ok_def)
  then obtain p c where p: "parentNode d (okey e) = Some p" "p \<in> set (nodes d)" "c \<in> set (kids p)" "okey c = okey e"
    using parentNode_exists [OF assms(2)] by blast
  then have "c = e" using inj kid_in_nodes assms(2) by blast
  then have "p \<noteq> d" using p(3) assms(1,3) by (auto simp: links_ok_def)
  then obtain r where "parentNode d (okey p) = Some r" "r \<in> set (nodes d)"
    using parentNode_exists [OF p(2)] by metis
  then show thesis using that p(1) by (simp add: row_of_def)
qed

lemma FindChild_row: "r \<in> set (nodes d) \<Longrightarrow> \<exists>c. FindChildElement d (eid r) = Inr c"
  using has_id [of "eid r" d] by (auto simp: FindChildElement_def)

section \<open>No key event throws\<close>

text \<open>A call that returns, with a result that satisfies \<open>P\<close>.\<close>

definition gives :: "('a \<Rightarrow> bool) \<Rightarrow> 'a script \<Rightarrow> bool" where
  "gives P m \<longleftrightarrow> (\<exists>v. m = returns v \<and> P v)"

lemma gives_intro [intro, simp]: "P v \<Longrightarrow> gives P (returns v)"
  by (auto simp: gives_def)

lemma gives_andThen: "gives P m \<Longrightarrow> (\<And>v. P v \<Longrightarrow> gives Q (f v)) \<Longrightarrow> gives Q (andThen m f)"
  by (auto simp: gives_def)

definition link_in :: "dom \<Rightarrow> dom \<Rightarrow> bool" where
  "link_in d e \<longleftrightarrow> e \<in> set (nodes d) \<and> is_link e"

lemma get_link:
  assumes "getElementById d i = Some e" "i = item_id x \<or> i = child_id x c"
  shows "link_in d e"
  using getElementById_Some [OF assms(1)] assms(2) link_ids by (auto simp: link_in_def)

lemma get_child: "getElementById d (child_id x c) = Some e \<Longrightarrow> link_in d e"
  using get_link by blast

lemma link_row: "links_ok d \<Longrightarrow> link_in d e \<Longrightarrow> \<exists>r \<in> set (nodes d). row_of d e = Inr r"
  using row_of_link unfolding link_in_def by metis

lemma item_result_gives: "links_ok d \<Longrightarrow> gives (\<lambda>f. pred_option (link_in d) f) (item_result d i)"
proof (cases "getElementById d (item_id (js_int i))")
  case (Some e)
  assume ok: "links_ok d"
  have "link_in d e" using get_link [OF Some] by blast
  moreover from link_row [OF ok this] obtain r where "row_of d e = Inr r" by blast
  ultimately show ?thesis using Some by (simp add: item_result_def)
qed (simp add: item_result_def)

lemma Nav_gives:
  assumes "links_ok d"
  shows "gives (\<lambda>f. pred_option (link_in d) f) (NavNext d i)" "gives (\<lambda>f. pred_option (link_in d) f) (NavPrev d i)"
proof -
  have "NavPrev d i = (if hidden_item d i then NavPrev d (i + - 1) else item_result d i)" for i
    using NavPrev_step [of d i] by simp
  from walk_finds [of "NavPrev d" d "- 1" i, OF this] walk_finds [of "NavNext d" d 1 i, OF NavNext_step]
  show "gives (\<lambda>f. pred_option (link_in d) f) (NavNext d i)" "gives (\<lambda>f. pred_option (link_in d) f) (NavPrev d i)"
    using item_result_gives [OF assms] by auto
qed

lemma child_ids_bounded:
  obtains N where "\<And>n. N \<le> n \<Longrightarrow> getElementById d (child_id i n) = None"
proof -
  have "inj (child_id i)" by (auto intro!: injI simp: child_id_def)
  then have "finite (child_id i -` (eid ` set (nodes d)))" by (intro finite_vimageI) simp_all
  then obtain N where "\<forall>n \<in> child_id i -` (eid ` set (nodes d)). n < N"
    using finite_nat_set_iff_bounded by blast
  then show thesis
    using that [of N] getElementById_Some by (metis image_eqI linorder_not_less option.exhaust vimageI)
qed

lemma last_child_ends:
  assumes "link_in d e"
  obtains f where "last_child d i n e = Some f" "link_in d f"
proof -
  obtain N where N: "\<And>n. N \<le> n \<Longrightarrow> getElementById d (child_id (js_int i) n) = None"
    using child_ids_bounded by blast
  from assms have "\<exists>f. last_child d i n e = Some f \<and> link_in d f"
  proof (induction "N - n" arbitrary: n e)
    case 0
    then show ?case using N [of n] by (subst last_child.simps) simp
  next
    case (Suc m)
    show ?case
    proof (cases "getElementById d (child_id (js_int i) n)")
      case (Some f)
      then have "link_in d f" using get_link by blast
      with Some Suc(1) [of "Suc n" f] Suc(2) show ?thesis by (subst last_child.simps) simp
    qed (use Suc.prems in \<open>subst last_child.simps, simp\<close>)
  qed
  with that show thesis by blast
qed

text \<open>What every event keeps, relative to the page as it was built.\<close>

fun focus_ok :: "dom \<Rightarrow> focus \<Rightarrow> bool" where
  "focus_ok d NoFocus \<longleftrightarrow> True"
| "focus_ok d (FocusOn k) \<longleftrightarrow> (\<exists>e \<in> set (nodes d). okey e = k \<and> is_link e \<and> tag e = js ''a'')"

definition run_ok :: "dom \<Rightarrow> results \<Rightarrow> bool" where
  "run_ok d0 st \<longleftrightarrow> skel (doc st) = skel d0 \<and> links_ok (doc st) \<and> focus_ok (doc st) (focused st) \<and> embedder st = site_page"

lemma focus_on_ok: "run_ok d0 st \<Longrightarrow> link_in (doc st) e \<Longrightarrow> run_ok d0 (focus_on e st)"
  by (auto simp: run_ok_def focus_on_def link_in_def links_ok_def)

lemma focus_ok_skel:
  assumes "skel d = skel d'"
  shows "focus_ok d f = focus_ok d' f"
proof (cases f)
  case (FocusOn k)
  let ?f = "\<lambda>e. (okey e, is_link e, tag e)"
  have eq: "focus_ok d f \<longleftrightarrow> (k, True, js ''a'') \<in> set (map ?f (nodes d))" for d
    by (auto simp: FocusOn image_iff)
  have "map ?f (nodes d) = map ?f (nodes d')"
    by (rule skel_eq_map [OF assms]) simp
  then show ?thesis by (simp only: eq)
qed simp

lemma display_ok:
  assumes "run_ok d0 st" "skel d = skel (doc st)" "doc st' = d" "focused st' = focused st" "embedder st' = embedder st"
  shows "run_ok d0 st'"
  using assms focus_ok_skel [OF assms(2)] links_ok_cong [OF assms(2)] by (simp add: run_ok_def)

lemma call_parent_site:
  "embedder st = site_page \<Longrightarrow> call_parent cs st = returns (st\<lparr>parent_calls := parent_calls st @ cs\<rparr>)"
  by (induction cs arbitrary: st) (simp_all add: parent_error_def site_page_def split: parent_call.split)

declare call_parent.simps [simp del]

lemma call_parent_ok: "run_ok d0 st \<Longrightarrow> gives (run_ok d0) (call_parent cs st)"
  by (simp add: call_parent_site run_ok_def)

lemma ProcessKeys_ok: "run_ok d0 (fst (ProcessKeys e st)) = run_ok d0 st"
  by (simp add: ProcessKeys_def Let_def run_ok_def split: key_event_type.split)

text \<open>The steps that the handlers share: the row of a link, its list of targets, the focus.\<close>

lemma row_gives:
  "links_ok d \<Longrightarrow> link_in d e \<Longrightarrow> gives (\<lambda>r. r \<in> set (nodes d)) (thrown (row_of d e))"
  using link_row by (fastforce simp: gives_def thrown_def returns_def)

lemma child_gives: "r \<in> set (nodes d) \<Longrightarrow> gives (\<lambda>_. True) (thrown (FindChildElement d (eid r)))"
  using FindChild_row by (auto simp: gives_def thrown_def returns_def)

lemma focus_found: "run_ok d0 st \<Longrightarrow> pred_option (link_in (doc st)) f \<Longrightarrow>
    run_ok d0 (case f of None \<Rightarrow> st | Some e \<Rightarrow> focus_on e st)"
  by (cases f) (simp_all add: focus_on_ok)

lemma nav_up_gives:
  assumes "run_ok d0 st"
  shows "gives (run_ok d0) (nav_up i st)"
  unfolding nav_up_def Let_def
proof (rule gives_andThen [OF Nav_gives(2)])
  show ok: "links_ok (doc st)" using assms by (simp add: run_ok_def)
  fix f
  assume f: "pred_option (link_in (doc st)) f"
  show "gives (run_ok d0) (case f of
      None \<Rightarrow> call_parent [FocusSearchField] st
    | Some e \<Rightarrow> andThen (thrown (row_of (doc st) e)) (\<lambda>row.
        andThen (thrown (FindChildElement (doc st) (eid row))) (\<lambda>child.
          case child of
            None \<Rightarrow> returns (focus_on e st)
          | Some c \<Rightarrow> if disp c = js ''block''
              then (case last_child (doc st) (i - 1) 0 e of None \<Rightarrow> None | Some e \<Rightarrow> returns (focus_on e st))
              else returns (focus_on e st))))"
  proof (cases f)
    case (Some e)
    with f have e: "link_in (doc st) e" by simp
    then obtain l where "last_child (doc st) (i - 1) 0 e = Some l" "link_in (doc st) l"
      using last_child_ends by blast
    then show ?thesis
      unfolding Some option.case
      by (intro gives_andThen [OF row_gives [OF ok e]] gives_andThen [OF child_gives])
         (auto simp: focus_on_ok assms e split: option.split)
  qed (simp add: call_parent_ok assms)
qed

lemma nav_down_gives:
  assumes "run_ok d0 st" "item_id (js_int i) \<in> eid ` set (nodes (doc st))"
  shows "gives (run_ok d0) (nav_down i st)"
proof -
  have ok: "links_ok (doc st)" using assms by (simp add: run_ok_def)
  obtain e where e: "getElementById (doc st) (item_id (js_int i)) = Some e" using assms(2) has_id by metis
  have l: "link_in (doc st) e" using get_link [OF e] by blast
  show ?thesis
    unfolding nav_down_def Let_def e option.case
    by (intro gives_andThen [OF row_gives [OF ok l]] gives_andThen [OF child_gives]
        gives_andThen [where P = "pred_option (link_in (doc st))"] gives_intro focus_found assms(1))
       (use get_child Nav_gives(1) [OF ok] in \<open>auto split: option.split\<close>)
qed

lemma nav_set_children_gives:
  assumes "run_ok d0 st" "item_id (js_int i) \<in> eid ` set (nodes (doc st))"
  shows "gives (run_ok d0) (nav_set_children x i st)"
proof -
  have ok: "links_ok (doc st)" using assms by (simp add: run_ok_def)
  obtain e where e: "getElementById (doc st) (item_id (js_int i)) = Some e" using assms(2) has_id by metis
  have l: "link_in (doc st) e" using get_link [OF e] by blast
  have "run_ok d0 (st\<lparr>doc := style_display k v (doc st)\<rparr>)" for k v
    by (rule display_ok [OF assms(1)]) simp_all
  then show ?thesis
    unfolding nav_set_children_def Let_def e option.case
    by (intro gives_andThen [OF row_gives [OF ok l]] gives_andThen [OF child_gives] gives_intro)
       (auto simp: assms(1) split: option.split)
qed

lemma Nav_ok:
  assumes "run_ok d0 st" "item_id (js_int i) \<in> eid ` set (nodes (doc st))"
  shows "gives (run_ok d0) (andThen (Nav e i st) (\<lambda>(st, _). returns st))"
proof -
  obtain u b where u: "ProcessKeys e st = (u, b)" by (cases "ProcessKeys e st")
  then have ok: "run_ok d0 u" using ProcessKeys_ok [of d0 e st] assms(1) by simp
  have "doc u = doc st" using u by (auto simp: ProcessKeys_def Let_def split: key_event_type.splits if_splits)
  then have id: "item_id (js_int i) \<in> eid ` set (nodes (doc u))" using assms(2) by simp
  have pair: "gives (run_ok d0) m \<Longrightarrow> gives (\<lambda>r. run_ok d0 (fst r)) (andThen m (\<lambda>st. returns (st, False)))" for m
    by (auto elim: gives_andThen)
  have "gives (\<lambda>r. run_ok d0 (fst r)) (Nav e i st)"
    unfolding Nav_def u Let_def prod.case
    by (simp add: pair nav_up_gives nav_down_gives nav_set_children_gives ok id assms call_parent_ok)
  then show ?thesis by (rule gives_andThen) (auto split: prod.split)
qed

lemma focus_id_gives:
  assumes "run_ok d0 st" "i \<in> eid ` set (nodes (doc st))" "i = item_id x \<or> i = child_id x c"
  shows "gives (run_ok d0) (focus_id i st)"
proof -
  obtain e where e: "getElementById (doc st) i = Some e" using assms(2) has_id by metis
  with get_link [OF e assms(3)] show ?thesis by (simp add: focus_id_def focus_on_ok assms(1))
qed

lemma NavChild_ok:
  assumes "run_ok d0 st" "item_id (js_int i) \<in> eid ` set (nodes (doc st))"
    "0 < c \<longrightarrow> child_id (js_int i) (c - 1) \<in> eid ` set (nodes (doc st))"
  shows "gives (run_ok d0) (andThen (NavChild e i c st) (\<lambda>(st, _). returns st))"
proof -
  obtain u b where u: "ProcessKeys e st = (u, b)" by (cases "ProcessKeys e st")
  then have ok: "run_ok d0 u" using ProcessKeys_ok [of d0 e st] assms(1) by simp
  have d: "doc u = doc st" using u by (auto simp: ProcessKeys_def Let_def split: key_event_type.splits if_splits)
  have up: "gives (run_ok d0) (if c > 0 then focus_id (child_id (js_int i) (c - 1)) u else focus_id (item_id (js_int i)) u)"
    using focus_id_gives [OF ok] assms(2,3) d by auto
  have down: "gives (pred_option (link_in (doc u)))
      (case getElementById (doc u) (child_id (js_int i) (c + 1)) of
        Some elem \<Rightarrow> returns (Some elem) | None \<Rightarrow> NavNext (doc u) (i + 1))"
    using Nav_gives(1) [of "doc u" "i + 1"] ok get_child [of "doc u" "js_int i" "c + 1"]
    by (auto simp: run_ok_def split: option.split)
  have "gives (\<lambda>r. run_ok d0 (fst r)) (NavChild e i c st)"
    unfolding NavChild_def u Let_def prod.case
    using gives_andThen [OF up, of "\<lambda>r. run_ok d0 (fst r)" "\<lambda>st. returns (st, False)"]
      gives_andThen [OF down, of "\<lambda>r. run_ok d0 (fst r)" "\<lambda>elem. returns (case elem of None \<Rightarrow> u | Some c \<Rightarrow> focus_on c u, False)"]
      gives_andThen [OF call_parent_ok [OF ok], of "\<lambda>r. run_ok d0 (fst r)" "\<lambda>st. returns (st, False)"]
    by (simp add: ok assms(1) call_parent_ok focus_found)
  then show ?thesis by (rule gives_andThen) (auto split: prod.split)
qed

lemma Toggle_ok:
  assumes "run_ok d0 st" "i \<in> eid ` set (nodes (doc st))"
  shows "gives (run_ok d0) (thrown (Toggle i st))"
proof -
  obtain e where e: "getElementById (doc st) i = Some e" using assms(2) has_id by metis
  have "run_ok d0 (st\<lparr>doc := style_display k v (doc st)\<rparr>)" for k v
    by (rule display_ok [OF assms(1)]) simp_all
  then show ?thesis
    using assms(1) by (auto simp: Toggle_def FindChildElement_def e gives_def thrown_def returns_def split: option.split)
qed

section \<open>The page as it is built\<close>

definition page_of :: "entry list \<Rightarrow> dom" where
  "page_of sd = page_with (create_rows 0 6 sd)"

lemma child_views_tags: "\<forall>v \<in> set (child_views e c k tgs). v_tag v = js ''a''"
  by (induction tgs arbitrary: c k) (simp_all add: key_view_def)

lemma created_link_tags:
  "\<forall>v \<in> set (concat (map views (create_rows e k sd))). prefix (js ''Item'') (v_id v) \<longrightarrow> v_tag v = js ''a''"
proof (induction sd arbitrary: e k)
  case (Cons en sd)
  have "\<not> prefix (js ''Item'') (js ''SR_'' @ x)" "\<not> prefix (js ''Item'') []" for x by (simp_all add: js_def)
  then show ?case using Cons child_views_tags
    by (auto simp: views_create_row created_row_views_def tail_views_def key_view_def)
qed simp

lemma page_of_links: "links_ok (page_of sd)"
proof -
  have "is_link e \<longrightarrow> tag e = js ''a''" if "e \<in> set (nodes (page_of sd))" for e
  proof -
    have "view_of e \<in> set (views (page_of sd))" using that by (simp add: views_def)
    moreover have "\<forall>v \<in> set (views (page_of sd)). prefix (js ''Item'') (v_id v) \<longrightarrow> v_tag v = js ''a''"
      using created_link_tags [of 0 6 sd] by (auto simp: page_of_def views_page_with key_view_def js_def)
    ultimately show ?thesis by (force simp: is_link_def)
  qed
  moreover have "keys_distinct (page_of sd)"
    using created_results_page [of sd] by (simp add: page_of_def results_page_def)
  ultimately show ?thesis
    by (simp add: links_ok_def) (simp add: page_of_def page_with_def is_link_def js_def)
qed

lemma child_views_ids: "c' < length tgs \<Longrightarrow> child_id (js_dec e) (c + c') \<in> v_id ` set (child_views e c k tgs)"
proof (induction tgs arbitrary: c c' k)
  case (Cons tg tgs)
  then show ?case using Cons.IH [of "c' - 1" "Suc c" "Suc k"] by (cases c') (auto simp: key_view_def)
qed simp

lemma created_ids:
  assumes "i < length sd"
  shows "item_id (js_dec (e + i)) \<in> v_id ` set (concat (map views (create_rows e k sd)))"
    "js ''SR_'' @ e_id (sd ! i) \<in> v_id ` set (concat (map views (create_rows e k sd)))"
    "several (sd ! i) \<Longrightarrow> c < length (e_targets (sd ! i)) \<Longrightarrow>
      child_id (js_dec (e + i)) c \<in> v_id ` set (concat (map views (create_rows e k sd)))"
proof -
  have row: "item_id (js_dec e) \<in> v_id ` set (views (create_row e k en))"
    "js ''SR_'' @ e_id en \<in> v_id ` set (views (create_row e k en))"
    "several en \<Longrightarrow> c < length (e_targets en) \<Longrightarrow> child_id (js_dec e) c \<in> v_id ` set (views (create_row e k en))" for e k en
    using child_views_ids [of c "e_targets en" e 0 "Suc (k + 3)"]
    by (auto simp: views_create_row created_row_views_def tail_views_def key_view_def several_def)
  from assms show "item_id (js_dec (e + i)) \<in> v_id ` set (concat (map views (create_rows e k sd)))"
    "js ''SR_'' @ e_id (sd ! i) \<in> v_id ` set (concat (map views (create_rows e k sd)))"
    "several (sd ! i) \<Longrightarrow> c < length (e_targets (sd ! i)) \<Longrightarrow>
      child_id (js_dec (e + i)) c \<in> v_id ` set (concat (map views (create_rows e k sd)))"
  proof (induction sd arbitrary: e k i)
    case (Cons en sd)
    {
      case 1
      then show ?case using Cons.IH(1) [of "i - 1" "Suc e"] row(1) [of e k en] by (cases i) (auto simp: image_Un)
    next
      case 2
      then show ?case using Cons.IH(2) [of "i - 1" "Suc e"] row(2) [of en e k] by (cases i) (auto simp: image_Un)
    next
      case 3
      then show ?case using Cons.IH(3) [of "i - 1" "Suc e"] row(3) [of en e k] by (cases i) (auto simp: image_Un)
    }
  qed simp_all
qed

section \<open>Every event returns\<close>

lemma ids_of_page:
  assumes "skel d = skel (page_of sd)"
  shows "i \<in> v_id ` set (concat (map views (create_rows 0 6 sd))) \<Longrightarrow> i \<in> eid ` set (nodes d)"
proof -
  assume "i \<in> v_id ` set (concat (map views (create_rows 0 6 sd)))"
  then have "i \<in> v_id ` set (views (page_of sd))" by (auto simp: page_of_def views_page_with)
  then have "i \<in> set (map eid (nodes (page_of sd)))" by (auto simp: views_def)
  also have "map eid (nodes (page_of sd)) = map eid (nodes d)" using skel_eq_ids [OF assms] by simp
  finally show ?thesis by simp
qed

lemma results_page_skel: "results_page (skel d) = results_page d"
proof -
  let ?f = "\<lambda>v :: view. v\<lparr>v_disp := []\<rparr>"
  have v: "views (skel d) = map ?f (views d)" by (simp add: views_def nodes_skel view_of_def)
  have "is_row (?f v) = is_row v" for v by (simp add: is_row_def)
  then have "row_views (skel d) = map ?f (row_views d)" by (simp add: row_views_def v filter_map o_def)
  then show ?thesis by (simp add: results_page_def keys_distinct_def nodes_skel o_def v)
qed

lemma Search_ok:
  assumes "run_ok (page_of sd) st"
  shows "gives (run_ok (page_of sd)) (andThen (thrown (Search env s st)) (\<lambda>(st, _). returns st))"
proof -
  have page: "results_page (doc st)"
    using assms created_results_page [of sd] by (metis page_of_def results_page_skel run_ok_def)
  obtain st' where st': "Search env s st = Inr (st', True)" using Search_correct [OF page] by blast
  have "skel (doc st') = skel (doc st) \<and> focused st' = focused st \<and> embedder st' = embedder st"
    using st' by (auto simp: Search_def Let_def split: prod.splits sum.splits dest!: skel_display_by_id)
      (metis fst_conv skel_search_loop)+
  then have "run_ok (page_of sd) st'" using display_ok [OF assms, of "doc st'" st'] by simp
  then show ?thesis using st' by simp
qed

lemma fire_event_ok:
  assumes "run_ok (page_of sd) st" "can_fire sd ev"
  shows "gives (run_ok (page_of sd)) (fire_event env ev st)"
proof -
  have ids: "i \<in> eid ` set (nodes (doc st))"
    if "i \<in> v_id ` set (concat (map views (create_rows 0 6 sd)))" for i
    using assms(1) that by (intro ids_of_page) (simp_all add: run_ok_def)
  have int: "js_int (int k) = js_dec k" for k by (simp add: js_int_def)
  show ?thesis
  proof (cases ev)
    case (ClickEntry i)
    then obtain k where "k < length sd" "i = js ''SR_'' @ e_id (sd ! k)"
      using assms(2) by (auto simp: list_ex_length)
    then show ?thesis using ClickEntry Toggle_ok [OF assms(1) ids] created_ids(2) [of k sd 0 6] by simp
  next
    case (KeyOnEntry e i)
    then show ?thesis using Nav_ok [OF assms(1), of "int i"] ids created_ids(1) [of i sd 0 6] assms(2) by (simp add: int)
  next
    case (KeyOnTarget e i c)
    then have "0 < c \<longrightarrow> child_id (js_int (int i)) (c - 1) \<in> eid ` set (nodes (doc st))"
      using ids created_ids(3) [of i sd "c - 1" 0 6] assms(2) less_imp_diff_less by (auto simp: int)
    moreover have "item_id (js_int (int i)) \<in> eid ` set (nodes (doc st))"
      using ids created_ids(1) [of i sd 0 6] assms(2) KeyOnTarget by (simp add: int)
    ultimately show ?thesis using NavChild_ok [OF assms(1)] KeyOnTarget by simp
  next
    case TakeFocus
    have "links_ok (doc st)" using assms(1) by (simp add: run_ok_def)
    then show ?thesis
      unfolding TakeFocus fire_event.simps
      by (intro gives_andThen [OF Nav_gives(1)] gives_intro focus_found assms(1))
  qed (simp add: Search_ok [OF assms(1)])
qed

lemma page_run_ok:
  assumes "run_ok (page_of sd) st" "list_all (can_fire sd) evs"
  shows "gives (run_ok (page_of sd)) (page_run env evs st)"
  using assms
proof (induction evs arbitrary: st)
  case (Cons ev evs)
  then show ?case by (simp add: gives_andThen [OF fire_event_ok])
qed simp

section \<open>The page in another page\<close>

text \<open>
  The handlers end with their calls to the parent: in another parent an event does the same, up to
  the first call that fails.
\<close>

definition in_page :: "parent_page \<Rightarrow> results \<Rightarrow> results" where
  "in_page p st = st\<lparr>embedder := p\<rparr>"

definition outcome :: "parent_page \<Rightarrow> parent_call list \<Rightarrow> results \<Rightarrow> results script" where
  "outcome p cs st =
     (case List.map_filter (parent_error p) cs of [] \<Rightarrow> returns (in_page p st) | e # _ \<Rightarrow> Some (Inl e))"

definition sim :: "parent_page \<Rightarrow> results \<Rightarrow> results script \<Rightarrow> results script \<Rightarrow> bool" where
  "sim p st m m' \<longleftrightarrow>
     (\<forall>u. m = returns u \<longrightarrow>
        embedder u = site_page \<and> (\<exists>cs. parent_calls u = parent_calls st @ cs \<and> m' = outcome p cs u))"

lemma in_page_simps [simp]:
  "doc (in_page p st) = doc st" "query (in_page p st) = query st" "lastKey (in_page p st) = lastKey st"
  "repeatOn (in_page p st) = repeatOn st" "parent_calls (in_page p st) = parent_calls st" "embedder (in_page p st) = p"
  "focus_on e (in_page p st) = in_page p (focus_on e st)"
  "(in_page p st)\<lparr>doc := d\<rparr> = in_page p (st\<lparr>doc := d\<rparr>)"
  "(in_page p st)\<lparr>parent_calls := cs\<rparr> = in_page p (st\<lparr>parent_calls := cs\<rparr>)"
  by (simp_all add: in_page_def focus_on_def)

lemma sim_fixed [simp]: "sim p st None m" "sim p st (Some (Inl e)) m"
  by (simp_all add: sim_def returns_def)

lemma sim_returns: "embedder u = site_page \<Longrightarrow> parent_calls u = parent_calls st \<Longrightarrow> sim p st (returns u) (returns (in_page p u))"
  by (simp add: sim_def outcome_def returns_def map_filter_simps)

lemma andThen_returns: "andThen m f = returns v \<longleftrightarrow> (\<exists>u. m = returns u \<and> f u = returns v)"
  by (auto simp: andThen_def returns_def split: option.splits sum.splits)

lemma sim_pure: "(\<And>v. sim p st (f v) (g v)) \<Longrightarrow> sim p st (andThen m f) (andThen m g)"
  by (auto simp: sim_def andThen_returns)

lemma map_filter_app: "List.map_filter f (xs @ ys) = List.map_filter f xs @ List.map_filter f ys"
  by (simp add: List.map_filter_def)

lemma sim_bind:
  assumes "sim p st m m'" "\<And>u. embedder u = site_page \<Longrightarrow> sim p u (f u) (f (in_page p u))"
  shows "sim p st (andThen m f) (andThen m' f)"
proof (unfold sim_def andThen_returns, intro allI impI, elim exE conjE)
  fix v u
  assume u: "m = returns u" "f u = returns v"
  with assms(1) obtain cs where cs: "embedder u = site_page" "parent_calls u = parent_calls st @ cs" "m' = outcome p cs u"
    by (auto simp: sim_def)
  with assms(2) [OF cs(1)] u(2) obtain ds where
    ds: "embedder v = site_page" "parent_calls v = parent_calls u @ ds" "f (in_page p u) = outcome p ds v"
    by (auto simp: sim_def)
  have "andThen (outcome p cs u) f = outcome p (cs @ ds) v"
    using ds(3) by (cases "List.map_filter (parent_error p) cs") (simp_all add: outcome_def map_filter_app)
  then show "embedder v = site_page \<and> (\<exists>cs. parent_calls v = parent_calls st @ cs \<and> andThen m' f = outcome p cs v)"
    using cs ds by auto
qed

lemma sim_call:
  assumes "embedder st = site_page"
  shows "sim p st (call_parent cs st) (call_parent cs (in_page p st))"
proof -
  have "call_parent cs (in_page p u) = outcome p cs (u\<lparr>parent_calls := parent_calls u @ cs\<rparr>)" for u
    by (induction cs arbitrary: u) (simp_all add: call_parent.simps outcome_def map_filter_simps split: option.split list.split)
  then show ?thesis using assms by (auto simp: call_parent_site sim_def returns_def)
qed

lemma sim_focus: "embedder st = site_page \<Longrightarrow> sim p st (returns (focus_on e st)) (returns (in_page p (focus_on e st)))"
  by (rule sim_returns) (simp_all add: focus_on_def)

lemma sim_doc: "embedder st = site_page \<Longrightarrow> sim p st (returns (st\<lparr>doc := d\<rparr>)) (returns (in_page p (st\<lparr>doc := d\<rparr>)))"
  by (rule sim_returns) simp_all

lemma sim_same: "embedder st = site_page \<Longrightarrow> sim p st (returns st) (returns (in_page p st))"
  by (rule sim_returns) simp_all

lemmas sim_rules = sim_pure sim_call sim_focus sim_doc sim_same sim_fixed

lemma sim_nav_up: "embedder st = site_page \<Longrightarrow> sim p st (nav_up i st) (nav_up i (in_page p st))"
  by (auto simp: nav_up_def Let_def intro!: sim_rules split: option.split)

lemma sim_nav_down: "embedder st = site_page \<Longrightarrow> sim p st (nav_down i st) (nav_down i (in_page p st))"
  by (auto simp: nav_down_def Let_def intro!: sim_rules split: option.split)

lemma sim_nav_set:
  "embedder st = site_page \<Longrightarrow> sim p st (nav_set_children x i st) (nav_set_children x i (in_page p st))"
  by (auto simp: nav_set_children_def Let_def intro!: sim_rules split: option.split)

lemma sim_focus_id: "embedder st = site_page \<Longrightarrow> sim p st (focus_id i st) (focus_id i (in_page p st))"
  by (auto simp: focus_id_def intro!: sim_rules split: option.split)

lemma andThen_pair [simp]: "andThen (andThen m (\<lambda>st. returns (st, b))) (\<lambda>(st, _). returns st) = m"
  by (cases m) (auto simp: andThen_def returns_def split: sum.split)

lemma andThen_found [simp]:
  "andThen (andThen m (\<lambda>f. returns (g f, b))) (\<lambda>(st, _). returns st) = andThen m (\<lambda>f. returns (g f))"
  by (cases m) (auto simp: andThen_def returns_def split: sum.split)

lemma ProcessKeys_in_page: "ProcessKeys e (in_page p st) = (in_page p (fst (ProcessKeys e st)), snd (ProcessKeys e st))"
  by (auto simp: ProcessKeys_def Let_def in_page_def split: key_event_type.split)

lemma sim_keys:
  assumes "ProcessKeys e st = (u, b)" "sim p u m m'"
  shows "sim p st m m'"
proof -
  have "parent_calls u = parent_calls st"
    using assms(1) by (auto simp: ProcessKeys_def Let_def split: key_event_type.splits if_splits)
  then show ?thesis using assms(2) by (simp add: sim_def)
qed

lemma keys_embedder: "ProcessKeys e st = (u, b) \<Longrightarrow> embedder u = embedder st"
  by (auto simp: ProcessKeys_def Let_def split: key_event_type.splits if_splits)

lemma sim_Nav:
  assumes "embedder st = site_page"
  shows "sim p st (andThen (Nav e i st) (\<lambda>(st, _). returns st)) (andThen (Nav e i (in_page p st)) (\<lambda>(st, _). returns st))"
proof -
  obtain u b where u: "ProcessKeys e st = (u, b)" by (cases "ProcessKeys e st")
  have ok: "embedder u = site_page" using keys_embedder [OF u] assms by simp
  show ?thesis
    unfolding Nav_def ProcessKeys_in_page u Let_def prod.case fst_conv snd_conv
    by (cases "keyCode e = 13")
       (auto intro!: sim_same [OF assms] sim_keys [OF u] sim_same [OF ok] sim_nav_up [OF ok] sim_nav_down [OF ok]
          sim_nav_set [OF ok] sim_call [OF ok])
qed

lemma sim_NavChild:
  assumes "embedder st = site_page"
  shows "sim p st (andThen (NavChild e i c st) (\<lambda>(st, _). returns st))
    (andThen (NavChild e i c (in_page p st)) (\<lambda>(st, _). returns st))"
proof -
  obtain u b where u: "ProcessKeys e st = (u, b)" by (cases "ProcessKeys e st")
  have ok: "embedder u = site_page" using keys_embedder [OF u] assms by simp
  have down: "sim p u (andThen m (\<lambda>f. returns (case f of None \<Rightarrow> u | Some c \<Rightarrow> focus_on c u)))
      (andThen m (\<lambda>f. returns (case f of None \<Rightarrow> in_page p u | Some c \<Rightarrow> in_page p (focus_on c u))))" for m
    using sim_same [OF ok] sim_focus [OF ok] by (intro sim_pure) (simp split: option.split)
  show ?thesis
    unfolding NavChild_def ProcessKeys_in_page u Let_def prod.case fst_conv snd_conv in_page_simps
    by (cases "keyCode e = 13")
       (auto intro!: sim_same [OF assms] sim_keys [OF u] sim_same [OF ok] sim_focus_id [OF ok]
          sim_call [OF ok] down)
qed

lemma Search_in_page:
  "Search env s (in_page p st) = map_sum id (\<lambda>(u, b). (in_page p u, b)) (Search env s st)"
  by (auto simp: Search_def Let_def in_page_def split: prod.split sum.split)

lemma Search_keeps_embedder: "Search env s st = Inr (u, b) \<Longrightarrow> embedder u = embedder st \<and> parent_calls u = parent_calls st"
  by (auto simp: Search_def Let_def split: prod.splits sum.splits)

lemma sim_event:
  assumes "embedder st = site_page"
  shows "sim p st (fire_event env ev st) (fire_event env ev (in_page p st))"
proof (cases ev)
  case (SearchFor s)
  then show ?thesis
    using assms Search_keeps_embedder [of env s st]
    by (cases "Search env s st") (auto simp: Search_in_page thrown_def intro!: sim_returns)
next
  case (ClickEntry i)
  then show ?thesis
    using assms by (auto simp: Toggle_def thrown_def intro!: sim_rules [unfolded returns_def] split: sum.split option.split)
next
  case TakeFocus
  then show ?thesis using assms by (auto intro!: sim_rules split: option.split)
qed (simp_all add: sim_Nav assms sim_NavChild)

lemma sim_run: "embedder st = site_page \<Longrightarrow> sim p st (page_run env evs st) (page_run env evs (in_page p st))"
  by (induction evs arbitrary: st) (auto intro!: sim_same sim_bind [OF sim_event])

section \<open>Properties\<close>

text \<open>The page as it is opened, before the first event.\<close>

definition opened :: "dom \<Rightarrow> jstr \<Rightarrow> parent_page \<Rightarrow> results" where
  "opened d q p = \<lparr>doc = d, query = q, lastMatchCount = 0, lastKey = 0, repeatOn = False,
     focused = NoFocus, embedder = p, parent_calls = []\<rparr>"

text \<open>
  C32: On a page that \<open>createResults\<close> built for any index and that a page of the site holds in a
  frame, no sequence of searches, clicks, keys on its elements and focus requests ever throws or
  fails to return; the elements stay as they were built, up to what is displayed, and the focus is
  only ever on a link of the page. In any other parent (the page opened by itself, a page without
  the search box, one that the scripts may not look into) the same sequence does the same, except
  that it throws at the first call to the parent that fails there.
\<close>

theorem results_page_never_throws:
  assumes "list_all (can_fire searchData) evs" "createResults searchData results_page0 = Inr d"
  shows "\<exists>st. page_run env evs (opened d q site_page) = returns st \<and> skel (doc st) = skel d \<and>
    (\<forall>k. focused st = FocusOn k \<longrightarrow> (\<exists>e \<in> set (nodes (doc st)). okey e = k \<and> tag e = js ''a'')) \<and>
    page_run env evs (opened d q p) =
      (case List.map_filter (parent_error p) (parent_calls st) of
         [] \<Rightarrow> returns (st\<lparr>embedder := p\<rparr>)
       | e # _ \<Rightarrow> Some (Inl e))"
proof -
  have d: "d = page_of searchData" using assms(2) by (simp add: createResults_page page_of_def)
  have "run_ok d (opened d q site_page)" by (simp add: run_ok_def opened_def d page_of_links)
  from page_run_ok [OF this [unfolded d] assms(1), of env, folded d]
  obtain st where st: "page_run env evs (opened d q site_page) = returns st" "run_ok d st"
    by (auto simp: gives_def)
  have "in_page p (opened d q site_page) = opened d q p" "embedder (opened d q site_page) = site_page"
    "parent_calls (opened d q site_page) = []"
    by (simp_all add: in_page_def opened_def)
  then have "page_run env evs (opened d q p) = outcome p (parent_calls st) st"
    using sim_run [of "opened d q site_page" p env evs] st(1) by (auto simp: sim_def returns_def)
  note other = this [unfolded outcome_def in_page_def]
  from st other show ?thesis by (intro exI [of _ st]) (auto simp: run_ok_def)
qed

definition key_down :: "nat \<Rightarrow> key_event" where
  "key_down k = \<lparr>etype = KeyDown, keyCode = k\<rparr>"

definition demo_events :: "page_event list" where
  "demo_events =
     [SearchFor (js ''a''), TakeFocus, KeyOnEntry (key_down 39) 0, KeyOnEntry (key_down 40) 0, KeyOnTarget (key_down 40) 0 1,
      KeyOnEntry (key_down 38) 2, ClickEntry (js ''SR_b_1''), KeyOnEntry (key_down 38) 0]"

text \<open>The last key goes up from the first entry; on the page opened by itself it throws.\<close>

definition by_itself :: parent_page where
  "by_itself = \<lparr>p_readable = True, p_closes = False, p_has_field = False\<rparr>"

theorem results_page_never_throws_witness:
  "\<exists>st. page_run ascii_env demo_events (opened (page_of demo_entries) [] site_page) = returns st \<and>
     page_run ascii_env demo_events (opened (page_of demo_entries) [] by_itself) = Some (Inl TypeError)"
proof -
  have "list_all (can_fire demo_entries) demo_events"
    by (simp add: demo_events_def demo_entries_def two_targets_def several_def js_def)
  moreover have "createResults demo_entries results_page0 = Inr (page_of demo_entries)"
    by (simp add: createResults_page page_of_def)
  ultimately obtain st where st: "page_run ascii_env demo_events (opened (page_of demo_entries) [] site_page) = returns st"
    "page_run ascii_env demo_events (opened (page_of demo_entries) [] by_itself) =
      (case List.map_filter (parent_error by_itself) (parent_calls st) of
         [] \<Rightarrow> returns (st\<lparr>embedder := by_itself\<rparr>)
       | e # _ \<Rightarrow> Some (Inl e))"
    using results_page_never_throws by blast
  have "andThen (page_run ascii_env demo_events (opened (page_of demo_entries) [] site_page))
      (\<lambda>st. returns (parent_calls st)) = returns [FocusSearchField]"
    by code_simp
  then have "parent_calls st = [FocusSearchField]" by (simp add: st(1) returns_def)
  then show ?thesis
    by (intro exI [of _ st] conjI st(1)) (simp only: st(2), simp add: map_filter_simps parent_error_def by_itself_def)
qed

end
