(* ===== verification/SearchData.thy ===== *)
theory SearchData
  imports JsString
begin

text \<open>
  The index tables of the search (\<open>search/searchdata.js\<close>): for each section of the
  index, the first characters that have a results page, the file name stem and the label
  in the selection window. The objects have the keys \<open>0\<close> to \<open>10\<close>; a lookup with another
  key is \<open>undefined\<close>.
\<close>

definition indexSectionsWithContent :: "jstr list" where
  "indexSectionsWithContent = map js
     [''_abcdefghilmnoprstuvwx~'',
      ''chlstx'',
      ''cel'',
      ''chlmrs'',
      ''acdefghilmnoprstuvwx~'',
      ''dfims'',
      ''l'',
      ''cflmp'',
      ''bcdfhilprstu'',
      ''_acdhlps'',
      ''bcs'']"

definition indexSectionNames :: "jstr list" where
  "indexSectionNames = map js
     [''all'',
      ''classes'',
      ''namespaces'',
      ''files'',
      ''functions'',
      ''variables'',
      ''typedefs'',
      ''enums'',
      ''enumvalues'',
      ''defines'',
      ''pages'']"

definition indexSectionLabels :: "jstr list" where
  "indexSectionLabels = map js
     [''All'',
      ''Classes'',
      ''Namespaces'',
      ''Files'',
      ''Functions'',
      ''Variables'',
      ''Typedefs'',
      ''Enumerations'',
      ''Enumerator'',
      ''Macros'',
      ''Pages'']"

text \<open>Reading a property of one of these objects.\<close>

definition js_get :: "'a list \<Rightarrow> nat \<Rightarrow> 'a option" where
  "js_get xs i = (if i < length xs then Some (xs ! i) else None)"

lemma index_tables_length [simp]:
  "length indexSectionsWithContent = 11" "length indexSectionNames = 11"
  "length indexSectionLabels = 11"
  by (simp_all add: indexSectionsWithContent_def indexSectionNames_def indexSectionLabels_def)

lemma js_get_Some_iff: "(\<exists>x. js_get xs i = Some x) \<longleftrightarrow> i < length xs"
  by (simp add: js_get_def)

end
