(* ===== verification/SearchBox.thy ===== *)
theory SearchBox
  imports SearchData Dom
begin

text \<open>
  The search box in the page header (the class \<open>SearchBox\<close> and \<open>init_search\<close> of
  \<open>search/search.js\<close>): its instance variables, the elements it touches, the pending
  timers, and one function per event handler. An event handler returns the new state or
  throws.
\<close>

section \<open>Geometry\<close>

text \<open>
  An element and its chain of \<open>offsetParent\<close> elements, up to and including the body.
\<close>

record box =
  offsetWidth :: int
  offsetHeight :: int
  offsetLeft :: int
  offsetTop :: int
  is_body :: bool

definition getXPos :: "box list \<Rightarrow> int" where
  "getXPos item =
     (if offsetWidth (hd item) \<noteq> 0
      then foldl (\<lambda>x b. x + offsetLeft b) 0 (takeWhile (\<lambda>b. \<not> is_body b) item) else 0)"

definition getYPos :: "box list \<Rightarrow> int" where
  "getYPos item =
     (if offsetWidth (hd item) \<noteq> 0
      then foldl (\<lambda>y b. y + offsetTop b) 0 (takeWhile (\<lambda>b. \<not> is_body b) item) else 0)"

section \<open>State\<close>

datatype action = RunSearch | RunCloseSelectionWindow

datatype focus_target = FocusSearch | FocusSelectItem nat | FocusNone

datatype display = Unset | Block | NoDisplay | InlineBlock

text \<open>
  The constructor's instance variables; \<open>0\<close> in the two timeouts means no timer, as in
  the code.
\<close>

record search_box =
  name :: jstr
  resultsPath :: jstr
  keyTimeout :: nat
  keyTimeoutLength :: nat
  closeSelectionTimeout :: nat
  lastSearchValue :: jstr
  lastResultsPage :: jstr
  hideTimeout :: nat
  searchIndex :: nat
  searchActive :: bool
  insideFrame :: bool
  searchLabel :: jstr
  extension :: jstr

text \<open>
  The page: the search field, the selection window with its child nodes, the results
  window, the frame, the timers that have not fired, and the geometry the layout reads.
  A child node of the selection window may be an item (class \<open>SelectItem\<close>, with the mark
  in its first child) or other text.
\<close>

record select_node =
  is_item :: bool
  item_mark :: jstr
  item_label :: jstr

record page = search_box +
  field_value :: jstr
  page_focus :: focus_target
  select_nodes :: "select_node list"
  select_display :: display
  select_left :: int
  select_top :: int
  select_box :: "box list"
  select_window_width :: int
  popup_width :: int
  popup_box_width :: int
  body_clientWidth :: int
  results_display :: display
  results_relative :: bool
  results_width :: int
  results_left :: int
  results_top :: int
  close_display :: display
  searchbox_active_class :: bool
  searchbox_box :: "box list"
  frame_location :: jstr
  frame_messages :: nat
  timers :: "(nat \<times> action \<times> nat) list"
  next_timer :: nat

text \<open>The constructor: two missing parameters only raise an alert.\<close>

definition new_SearchBox :: "jstr \<Rightarrow> jstr \<Rightarrow> bool \<Rightarrow> jstr \<Rightarrow> jstr \<Rightarrow> search_box" where
  "new_SearchBox nm rp inFrame label ext =
     \<lparr>name = nm, resultsPath = rp, keyTimeout = 0, keyTimeoutLength = 500,
      closeSelectionTimeout = 300, lastSearchValue = [], lastResultsPage = [],
      hideTimeout = 0, searchIndex = 0, searchActive = False, insideFrame = inFrame,
      searchLabel = label, extension = (if ext = [] then js ''.html'' else ext)\<rparr>"

section \<open>Timers\<close>

definition setTimeout :: "action \<Rightarrow> nat \<Rightarrow> page \<Rightarrow> nat \<times> page" where
  "setTimeout a delay p =
     (next_timer p,
      p\<lparr>timers := timers p @ [(next_timer p, a, delay)], next_timer := Suc (next_timer p)\<rparr>)"

definition clearTimeout :: "nat \<Rightarrow> page \<Rightarrow> page" where
  "clearTimeout t p = p\<lparr>timers := filter (\<lambda>x. fst x \<noteq> t) (timers p)\<rparr>"

section \<open>Handlers\<close>

definition Activate :: "bool \<Rightarrow> page \<Rightarrow> page" where
  "Activate isActive p =
     (if isActive \<or> results_display p = Block then
        let p = p\<lparr>searchbox_active_class := True\<rparr> in
        if field_value p = searchLabel p then p\<lparr>field_value := [], searchActive := True\<rparr> else p
      else if \<not> isActive then
        p\<lparr>searchbox_active_class := False, field_value := searchLabel p, searchActive := False,
          lastSearchValue := [], lastResultsPage := []\<rparr>
      else p)"

definition OnSearchFieldFocus :: "bool \<Rightarrow> page \<Rightarrow> page" where
  "OnSearchFieldFocus isActive p = Activate isActive p"

definition OnSearchSelectShow :: "page \<Rightarrow> page" where
  "OnSearchSelectShow p =
     (let left = getXPos (select_box p); top = getYPos (select_box p);
          p = (if insideFrame p then
                 let left = left + offsetWidth (hd (select_box p)) + 6;
                     top = top + offsetHeight (hd (select_box p));
                     left = left - select_window_width p
                 in p\<lparr>select_display := Block, select_left := left, select_top := top\<rparr>
               else
                 let top = top + offsetHeight (hd (select_box p))
                 in p\<lparr>select_display := Block, select_left := left, select_top := top\<rparr>)
      in if hideTimeout p \<noteq> 0
         then (clearTimeout (hideTimeout p) p)\<lparr>hideTimeout := 0\<rparr> else p)"

definition OnSearchSelectHide :: "page \<Rightarrow> page" where
  "OnSearchSelectHide p =
     (let (t, p) = setTimeout RunCloseSelectionWindow (closeSelectionTimeout p) p
      in p\<lparr>hideTimeout := t\<rparr>)"

definition CloseSelectionWindow :: "page \<Rightarrow> page" where
  "CloseSelectionWindow p = p\<lparr>select_display := NoDisplay\<rparr>"

definition CloseResultsWindow :: "page \<Rightarrow> page" where
  "CloseResultsWindow p =
     Activate False (p\<lparr>results_display := NoDisplay, close_display := NoDisplay\<rparr>)"

definition SelectItemCount :: "page \<Rightarrow> nat" where
  "SelectItemCount p = foldl (\<lambda>count n. if is_item n then Suc count else count) 0 (select_nodes p)"

fun select_item_set :: "nat \<Rightarrow> nat \<Rightarrow> select_node list \<Rightarrow> select_node list" where
  "select_item_set i j [] = []"
| "select_item_set i j (n # ns) =
     (if is_item n
      then n\<lparr>item_mark := if j = i then js ''&#8226;'' else js ''&#160;''\<rparr> # select_item_set i (Suc j) ns
      else n # select_item_set i j ns)"

definition SelectItemSet :: "nat \<Rightarrow> page \<Rightarrow> page" where
  "SelectItemSet i p = p\<lparr>select_nodes := select_item_set i 0 (select_nodes p)\<rparr>"

text \<open>
  \<open>Search\<close>: the results page is named after the section and the position of the first
  character in the section's table. The test for a surrogate pair compares the text
  itself, not its length, with \<open>1\<close>.
\<close>

definition index_char :: "jsenv \<Rightarrow> jstr \<Rightarrow> jstr" where
  "index_char env searchValue =
     (let code = (case js_lower env searchValue of [] \<Rightarrow> None | c # _ \<Rightarrow> Some c);
          surrogate = (case code of None \<Rightarrow> False | Some c \<Rightarrow> 0xD800 \<le> c \<and> c \<le> 0xDBFF)
      in if surrogate \<and> js_gt_one env searchValue then js_substr searchValue 0 2
         else js_lower env (js_substr searchValue 0 1))"

definition layout_results :: "page \<Rightarrow> page" where
  "layout_results p =
     (if results_display p \<noteq> Block then
        let p = p\<lparr>close_display := InlineBlock\<rparr> in
        if insideFrame p then
          let width = body_clientWidth p - 8
          in p\<lparr>results_relative := True, results_display := Block, results_width := width,
               popup_width := width\<rparr>
        else
          let left = getXPos (searchbox_box p) + 150; top = getYPos (searchbox_box p) + 20;
              p = p\<lparr>results_display := Block\<rparr>;
              left = left - popup_box_width p
          in p\<lparr>results_top := top, results_left := left\<rparr>
      else p)"

text \<open>
  A handler that can throw returns the error, if any, with the state it leaves behind.
\<close>

definition SearchBox_Search :: "jsenv \<Rightarrow> page \<Rightarrow> js_error option \<times> page" where
  "SearchBox_Search env p =
     (let p = p\<lparr>keyTimeout := 0\<rparr>;
          searchValue = trim_left (field_value p);
          idxChar = index_char env searchValue
      in case js_get indexSectionsWithContent (searchIndex p) of
           None \<Rightarrow> (Some TypeError, p)
         | Some content \<Rightarrow>
             let (resultsPage, resultsPageWithSearch) =
               (case js_indexOf content idxChar of
                  Some idx \<Rightarrow>
                    let page = resultsPath p @ js ''/'' @
                          (case js_get indexSectionNames (searchIndex p) of
                             None \<Rightarrow> js ''undefined'' | Some n \<Rightarrow> n) @
                          js ''_'' @ js_hex idx @ extension p
                    in (page, page @ js ''?'' @ js_escape searchValue)
                | None \<Rightarrow>
                    let page = resultsPath p @ js ''/nomatches'' @ extension p in (page, page))
             in (None, (layout_results (p\<lparr>frame_location := resultsPageWithSearch\<rparr>))
                  \<lparr>lastSearchValue := searchValue, lastResultsPage := resultsPage\<rparr>))"

definition OnSelectItem :: "jsenv \<Rightarrow> nat \<Rightarrow> page \<Rightarrow> js_error option \<times> page" where
  "OnSelectItem env i p =
     (let p = SelectItemSet i (p\<lparr>searchIndex := i\<rparr>);
          searchValue = remove_spaces (field_value p)
      in if searchValue \<noteq> [] \<and> searchActive p then SearchBox_Search env p else (None, p))"

record dom_event =
  ev_keyCode :: nat
  ev_shiftKey :: bool

definition OnSearchSelectKey :: "jsenv \<Rightarrow> dom_event \<Rightarrow> page \<Rightarrow> js_error option \<times> page" where
  "OnSearchSelectKey env e p =
     (if ev_keyCode e = 40 \<and> searchIndex p < SelectItemCount p
      then OnSelectItem env (Suc (searchIndex p)) (p\<lparr>searchIndex := Suc (searchIndex p)\<rparr>)
      else if ev_keyCode e = 38 \<and> 0 < searchIndex p
      then OnSelectItem env (searchIndex p - 1) (p\<lparr>searchIndex := searchIndex p - 1\<rparr>)
      else if ev_keyCode e = 13 \<or> ev_keyCode e = 27
      then (case OnSelectItem env (searchIndex p) p of
              (Some err, p) \<Rightarrow> (Some err, p)
            | (None, p) \<Rightarrow> (None, (CloseSelectionWindow p)\<lparr>page_focus := FocusSearch\<rparr>))
      else (None, p))"

text \<open>The first \<open>SelectItem\<close> child of the selection window.\<close>

definition first_select_item :: "page \<Rightarrow> nat option" where
  "first_select_item p = List.find (\<lambda>i. is_item (select_nodes p ! i)) [0..<length (select_nodes p)]"

definition field_changed :: "page \<Rightarrow> page" where
  "field_changed p =
     (let searchValue = remove_spaces (field_value p) in
      if searchValue \<noteq> lastSearchValue p then
        if searchValue \<noteq> [] then
          let (t, p) = setTimeout RunSearch (keyTimeoutLength p) p in p\<lparr>keyTimeout := t\<rparr>
        else p\<lparr>results_display := NoDisplay, close_display := NoDisplay, lastSearchValue := []\<rparr>
      else p)"

definition OnSearchFieldChange :: "dom_event \<Rightarrow> page \<Rightarrow> page" where
  "OnSearchFieldChange e p =
     (let p = (if keyTimeout p \<noteq> 0 then (clearTimeout (keyTimeout p) p)\<lparr>keyTimeout := 0\<rparr> else p) in
      if ev_keyCode e = 40 \<or> ev_keyCode e = 13 then
        if ev_shiftKey e then
          let p = OnSearchSelectShow p in
          case first_select_item p of
            Some i \<Rightarrow> p\<lparr>page_focus := FocusSelectItem i\<rparr>
          | None \<Rightarrow> p
        else field_changed (p\<lparr>frame_messages := Suc (frame_messages p)\<rparr>)
      else if ev_keyCode e = 27 then
        Activate False (p\<lparr>page_focus := FocusNone, results_display := NoDisplay,
          close_display := NoDisplay, lastSearchValue := []\<rparr>)
      else field_changed p)"

text \<open>\<open>init_search\<close> appends one item per label and selects the first.\<close>

definition init_search :: "jsenv \<Rightarrow> page \<Rightarrow> js_error option \<times> page" where
  "init_search env p =
     OnSelectItem env 0
       (p\<lparr>select_nodes := select_nodes p @
            map (\<lambda>l. \<lparr>is_item = True, item_mark = js ''&#160;'', item_label = l\<rparr>) indexSectionLabels\<rparr>)"

text \<open>
  A timer fires: it leaves the list and its code string runs. Focus and blur events that
  a handler's \<open>focus()\<close> or \<open>blur()\<close> raises are further calls of
  \<open>OnSearchFieldFocus\<close>, in the order the browser delivers them.
\<close>

definition fire :: "jsenv \<Rightarrow> nat \<Rightarrow> page \<Rightarrow> js_error option \<times> page" where
  "fire env t p =
     (case List.find (\<lambda>x. fst x = t) (timers p) of
        None \<Rightarrow> (None, p)
      | Some (_, a, _) \<Rightarrow>
          let p = p\<lparr>timers := filter (\<lambda>x. fst x \<noteq> t) (timers p)\<rparr> in
          case a of
            RunSearch \<Rightarrow> SearchBox_Search env p
          | RunCloseSelectionWindow \<Rightarrow> (None, CloseSelectionWindow p))"

section \<open>The events of the page and the states they reach\<close>

inductive box_step :: "jsenv \<Rightarrow> page \<Rightarrow> page \<Rightarrow> bool" for env where
  typed: "box_step env p (p\<lparr>field_value := v\<rparr>)"
| focus: "box_step env p (OnSearchFieldFocus b p)"
| mouse_over: "box_step env p (OnSearchSelectShow p)"
| mouse_out: "box_step env p (OnSearchSelectHide p)"
| key_up: "box_step env p (OnSearchFieldChange e p)"
| click: "i < length indexSectionLabels \<Longrightarrow> box_step env p (snd (OnSelectItem env i p))"
| select_key: "box_step env p (snd (OnSearchSelectKey env e p))"
| close: "box_step env p (CloseResultsWindow p)"
| timer: "t \<in> fst ` set (timers p) \<Longrightarrow> box_step env p (snd (fire env t p))"

text \<open>A page as the browser loads it, before \<open>init_search\<close>.\<close>

definition fresh_page :: "page \<Rightarrow> bool" where
  "fresh_page p \<longleftrightarrow>
     timers p = [] \<and> next_timer p = 1 \<and> keyTimeout p = 0 \<and> hideTimeout p = 0 \<and>
     \<not> searchActive p \<and> list_all (\<lambda>n. \<not> is_item n) (select_nodes p)"

inductive box_reachable :: "jsenv \<Rightarrow> page \<Rightarrow> bool" for env where
  start: "fresh_page p \<Longrightarrow> box_reachable env (snd (init_search env p))"
| step: "box_reachable env p \<Longrightarrow> box_step env p q \<Longrightarrow> box_reachable env q"

section \<open>Items of the selection window\<close>

lemma SelectItemCount_filter: "SelectItemCount p = length (filter is_item (select_nodes p))"
proof -
  have "foldl (\<lambda>count n. if is_item n then Suc count else count) c ns = c + length (filter is_item ns)"
    for c :: nat and ns :: "select_node list"
    by (induction ns arbitrary: c) simp_all
  then show ?thesis by (simp add: SelectItemCount_def)
qed

lemma select_item_set_items:
  "map is_item (select_item_set i j ns) = map is_item ns"
  by (induction ns arbitrary: j) simp_all

lemma length_filter_items:
  "map is_item ns = map is_item ms \<Longrightarrow> length (filter is_item ns) = length (filter is_item ms)"
proof (induction ns arbitrary: ms)
  case (Cons n ns)
  then show ?case by (cases ms) auto
qed simp

lemma SelectItemCount_set [simp]: "SelectItemCount (SelectItemSet i p) = SelectItemCount p"
  unfolding SelectItemCount_filter
  by (rule length_filter_items) (simp add: SelectItemSet_def select_item_set_items)

lemma select_item_set_marks:
  "map item_mark (filter is_item (select_item_set i j ns))
     = map (\<lambda>k. if k = i then js ''&#8226;'' else js ''&#160;'') [j..<j + length (filter is_item ns)]"
  by (induction ns arbitrary: j) (auto simp: upt_rec)

section \<open>What each handler leaves alone\<close>

lemmas handler_defs = Activate_def OnSearchFieldFocus_def OnSearchSelectHide_def
  CloseSelectionWindow_def CloseResultsWindow_def SelectItemSet_def setTimeout_def
  clearTimeout_def field_changed_def layout_results_def

lemma layout_frame [simp]:
  "select_nodes (layout_results p) = select_nodes p" "searchIndex (layout_results p) = searchIndex p"
  "timers (layout_results p) = timers p" "next_timer (layout_results p) = next_timer p"
  "keyTimeout (layout_results p) = keyTimeout p" "hideTimeout (layout_results p) = hideTimeout p"
  "frame_location (layout_results p) = frame_location p"
  by (simp_all add: layout_results_def Let_def)

lemma Search_frame [simp]:
  "select_nodes (snd (SearchBox_Search env p)) = select_nodes p"
  "searchIndex (snd (SearchBox_Search env p)) = searchIndex p"
  "timers (snd (SearchBox_Search env p)) = timers p"
  "next_timer (snd (SearchBox_Search env p)) = next_timer p"
  "keyTimeout (snd (SearchBox_Search env p)) = 0"
  "hideTimeout (snd (SearchBox_Search env p)) = hideTimeout p"
  by (simp_all add: SearchBox_Search_def Let_def split: option.split prod.split)

lemma Search_throws: "fst (SearchBox_Search env p) = (if searchIndex p < 11 then None else Some TypeError)"
  by (simp add: SearchBox_Search_def Let_def js_get_def split: option.split prod.split)

lemma SelectItemSet_frame [simp]:
  "searchIndex (SelectItemSet i p) = searchIndex p" "timers (SelectItemSet i p) = timers p"
  "next_timer (SelectItemSet i p) = next_timer p" "keyTimeout (SelectItemSet i p) = keyTimeout p"
  "hideTimeout (SelectItemSet i p) = hideTimeout p" "field_value (SelectItemSet i p) = field_value p"
  "searchActive (SelectItemSet i p) = searchActive p"
  by (simp_all add: SelectItemSet_def)

lemma SelectItemCount_cong: "select_nodes p = select_nodes q \<Longrightarrow> SelectItemCount p = SelectItemCount q"
  by (simp add: SelectItemCount_def)

lemma SelectItem_frame [simp]:
  "searchIndex (snd (OnSelectItem env i p)) = i"
  "SelectItemCount (snd (OnSelectItem env i p)) = SelectItemCount p"
  "timers (snd (OnSelectItem env i p)) = timers p"
  "next_timer (snd (OnSelectItem env i p)) = next_timer p"
  "hideTimeout (snd (OnSelectItem env i p)) = hideTimeout p"
  "keyTimeout (snd (OnSelectItem env i p)) \<in> {0, keyTimeout p}"
proof -
  have "SelectItemCount (snd (SearchBox_Search env q)) = SelectItemCount q" for q
    by (rule SelectItemCount_cong) simp
  moreover have "SelectItemCount (p\<lparr>searchIndex := i\<rparr>) = SelectItemCount p"
    by (rule SelectItemCount_cong) simp
  ultimately show "SelectItemCount (snd (OnSelectItem env i p)) = SelectItemCount p"
    by (simp add: OnSelectItem_def Let_def)
qed (simp_all add: OnSelectItem_def Let_def)

section \<open>The invariant\<close>

text \<open>
  Timers have distinct identities that were handed out; a non-zero \<open>keyTimeout\<close> is a
  search that has not run; \<open>hideTimeout\<close> never names a pending search.
\<close>

definition timers_ok :: "page \<Rightarrow> bool" where
  "timers_ok p \<longleftrightarrow>
     distinct (map fst (timers p)) \<and> (\<forall>x \<in> set (timers p). 0 < fst x \<and> fst x < next_timer p) \<and>
     0 < next_timer p \<and>
     (keyTimeout p \<noteq> 0 \<longrightarrow> (\<exists>d. (keyTimeout p, RunSearch, d) \<in> set (timers p))) \<and>
     hideTimeout p < next_timer p \<and>
     (\<forall>d. (hideTimeout p, RunSearch, d) \<notin> set (timers p))"

definition items_ok :: "page \<Rightarrow> bool" where
  "items_ok p \<longleftrightarrow> SelectItemCount p = 11 \<and> searchIndex p \<le> 11"

definition box_inv :: "page \<Rightarrow> bool" where
  "box_inv p \<longleftrightarrow> timers_ok p \<and> items_ok p"

lemma timers_ok_cong:
  "timers q = timers p \<Longrightarrow> next_timer q = next_timer p \<Longrightarrow> hideTimeout q = hideTimeout p \<Longrightarrow>
   keyTimeout q \<in> {0, keyTimeout p} \<Longrightarrow> timers_ok p \<Longrightarrow> timers_ok q"
  by (auto simp: timers_ok_def)

lemma timers_ok_search_timer:
  "timers_ok p \<Longrightarrow> keyTimeout p = 0 \<Longrightarrow>
   timers_ok ((snd (setTimeout RunSearch d p))\<lparr>keyTimeout := fst (setTimeout RunSearch d p)\<rparr>)"
  by (auto simp: timers_ok_def setTimeout_def)

lemma timers_ok_hide_timer:
  "timers_ok p \<Longrightarrow>
   timers_ok ((snd (setTimeout RunCloseSelectionWindow d p))
     \<lparr>hideTimeout := fst (setTimeout RunCloseSelectionWindow d p)\<rparr>)"
  by (auto simp: timers_ok_def setTimeout_def)

lemma timers_ok_clear:
  assumes "timers_ok p" "t = keyTimeout p \<or> t = hideTimeout p"
  shows "timers_ok ((clearTimeout t p)\<lparr>keyTimeout := if t = keyTimeout p then 0 else keyTimeout p\<rparr>)"
  using assms by (auto simp: timers_ok_def clearTimeout_def distinct_map_filter)


lemma timers_ok_idle:
  assumes "timers_ok p"
  shows "timers_ok ((clearTimeout (keyTimeout p) p)\<lparr>keyTimeout := 0\<rparr>)"
    and "timers_ok ((clearTimeout (hideTimeout p) p)\<lparr>hideTimeout := 0\<rparr>)"
  using assms by (auto simp: timers_ok_def clearTimeout_def distinct_map_filter)

lemma timers_ok_field_changed:
  assumes "timers_ok p" "keyTimeout p = 0"
  shows "timers_ok (field_changed p)"
proof -
  have ok: "timers_ok ((snd (setTimeout RunSearch d p))\<lparr>keyTimeout := fst (setTimeout RunSearch d p)\<rparr>)" for d
    by (rule timers_ok_search_timer [OF assms])
  have "timers_ok (p\<lparr>results_display := NoDisplay, close_display := NoDisplay, lastSearchValue := []\<rparr>)"
    by (rule timers_ok_cong [OF _ _ _ _ assms(1)]) simp_all
  then show ?thesis
    using ok assms by (simp add: field_changed_def Let_def split: prod.split) (metis fst_conv snd_conv)
qed

lemma timers_ok_show:
  assumes "timers_ok p"
  shows "timers_ok (OnSearchSelectShow p)" "keyTimeout (OnSearchSelectShow p) = keyTimeout p"
proof -
  define q where "q = (if insideFrame p
    then p\<lparr>select_display := Block,
      select_left := getXPos (select_box p) + offsetWidth (hd (select_box p)) + 6 - select_window_width p,
      select_top := getYPos (select_box p) + offsetHeight (hd (select_box p))\<rparr>
    else p\<lparr>select_display := Block, select_left := getXPos (select_box p),
      select_top := getYPos (select_box p) + offsetHeight (hd (select_box p))\<rparr>)"
  have q: "timers_ok q"
    by (rule timers_ok_cong [OF _ _ _ _ assms]) (simp_all add: q_def)
  have show_eq: "OnSearchSelectShow p =
      (if hideTimeout q \<noteq> 0 then (clearTimeout (hideTimeout q) q)\<lparr>hideTimeout := 0\<rparr> else q)"
    unfolding OnSearchSelectShow_def q_def Let_def by simp
  show "timers_ok (OnSearchSelectShow p)"
    using q timers_ok_idle(2) [OF q] by (simp add: show_eq)
  show "keyTimeout (OnSearchSelectShow p) = keyTimeout p"
    by (simp add: show_eq q_def clearTimeout_def)
qed


lemma Activate_frame [simp]:
  "select_nodes (Activate b p) = select_nodes p" "searchIndex (Activate b p) = searchIndex p"
  "timers (Activate b p) = timers p" "next_timer (Activate b p) = next_timer p"
  "keyTimeout (Activate b p) = keyTimeout p" "hideTimeout (Activate b p) = hideTimeout p"
  by (simp_all add: Activate_def Let_def)

lemma timers_ok_change:
  assumes "timers_ok p"
  shows "timers_ok (OnSearchFieldChange e p)"
proof -
  define q where "q = (if keyTimeout p \<noteq> 0 then (clearTimeout (keyTimeout p) p)\<lparr>keyTimeout := 0\<rparr> else p)"
  have q: "timers_ok q" "keyTimeout q = 0"
    using assms timers_ok_idle(1) [OF assms] by (simp_all add: q_def)
  have sent: "timers_ok (q\<lparr>frame_messages := n\<rparr>)" for n
    by (rule timers_ok_cong [OF _ _ _ _ q(1)]) simp_all
  have focus: "timers_ok ((OnSearchSelectShow q)\<lparr>page_focus := f\<rparr>)" for f
    by (rule timers_ok_cong [OF _ _ _ _ timers_ok_show(1) [OF q(1)]]) simp_all
  have escape: "timers_ok (Activate False (q\<lparr>page_focus := FocusNone, results_display := NoDisplay,
          close_display := NoDisplay, lastSearchValue := []\<rparr>))"
    by (rule timers_ok_cong [OF _ _ _ _ q(1)]) simp_all
  have fc: "timers_ok (field_changed (q\<lparr>frame_messages := n\<rparr>))" "timers_ok (field_changed q)" for n
    by (rule timers_ok_field_changed; simp add: sent q)+
  show ?thesis
    unfolding OnSearchFieldChange_def Let_def q_def [symmetric]
    using escape fc focus timers_ok_show(1) [OF q(1)] by (simp split: option.split)
qed

lemma timers_ok_select:
  "timers_ok p \<Longrightarrow> timers_ok (snd (OnSelectItem env i p))"
  by (rule timers_ok_cong [of _ p]) (use SelectItem_frame(6) [of env i p] in simp_all)

lemma timers_ok_select_key:
  assumes "timers_ok p"
  shows "timers_ok (snd (OnSearchSelectKey env e p))"
proof -
  have moved: "timers_ok (snd (OnSelectItem env i (p\<lparr>searchIndex := j\<rparr>)))" for i j
    by (rule timers_ok_select, rule timers_ok_cong [OF _ _ _ _ assms]) simp_all
  have closed: "timers_ok ((CloseSelectionWindow q)\<lparr>page_focus := f\<rparr>)" if "timers_ok q" for q :: page and f
    by (rule timers_ok_cong [OF _ _ _ _ that]) (simp_all add: CloseSelectionWindow_def)
  show ?thesis
    using moved closed assms timers_ok_select [OF assms, of env "searchIndex p"]
    by (auto simp: OnSearchSelectKey_def split: prod.split option.split)
qed

lemma timers_ok_fire:
  assumes "timers_ok p"
  shows "timers_ok (snd (fire env t p))"
proof (cases "List.find (\<lambda>x. fst x = t) (timers p)")
  case None
  then show ?thesis using assms by (simp add: fire_def)
next
  case (Some x)
  obtain a d where x: "x = (t, a, d)" and mem: "(t, a, d) \<in> set (timers p)"
    using Some by (auto simp: find_Some_iff in_set_conv_nth) (metis nth_mem prod.collapse)
  define q where "q = p\<lparr>timers := filter (\<lambda>x. fst x \<noteq> t) (timers p)\<rparr>"
  show ?thesis
  proof (cases a)
    case RunSearch
    have "timers_ok (q\<lparr>keyTimeout := 0\<rparr>)"
      using assms by (auto simp: timers_ok_def q_def distinct_map_filter)
    then have "timers_ok (snd (SearchBox_Search env q))"
      by (rule timers_ok_cong [rotated 4]) simp_all
    then show ?thesis using Some x RunSearch by (simp add: fire_def q_def)
  next
    case RunCloseSelectionWindow
    have "(keyTimeout p, RunSearch, d') \<in> set (timers p) \<Longrightarrow> keyTimeout p \<noteq> t" for d'
      using assms mem RunCloseSelectionWindow
      by (auto simp: timers_ok_def dest: eq_key_imp_eq_value)
    then have "timers_ok q"
      using assms by (auto simp: timers_ok_def q_def distinct_map_filter)
    then have "timers_ok (CloseSelectionWindow q)"
      by (rule timers_ok_cong [rotated 4]) (simp_all add: CloseSelectionWindow_def)
    then show ?thesis using Some x RunCloseSelectionWindow by (simp add: fire_def q_def)
  qed
qed


lemma items_ok_cong:
  "select_nodes q = select_nodes p \<Longrightarrow> searchIndex q = searchIndex p \<Longrightarrow> items_ok p \<Longrightarrow> items_ok q"
  by (simp add: items_ok_def SelectItemCount_def)

lemma items_ok_select:
  "SelectItemCount p = 11 \<Longrightarrow> i \<le> 11 \<Longrightarrow> items_ok (snd (OnSelectItem env i p))"
  by (simp add: items_ok_def)

lemma SelectItemCount_index [simp]: "SelectItemCount (p\<lparr>searchIndex := i\<rparr>) = SelectItemCount p"
  by (rule SelectItemCount_cong) simp

lemma items_ok_select_key:
  assumes "items_ok p"
  shows "items_ok (snd (OnSearchSelectKey env e p))"
proof -
  have n: "SelectItemCount p = 11" "searchIndex p \<le> 11" using assms by (simp_all add: items_ok_def)
  have moved: "items_ok (snd (OnSelectItem env i (p\<lparr>searchIndex := j\<rparr>)))" if "i \<le> 11" for i j
    by (rule items_ok_select) (simp_all add: n that)
  have closed: "items_ok ((CloseSelectionWindow q)\<lparr>page_focus := f\<rparr>)" if "items_ok q" for q :: page and f
    by (rule items_ok_cong [OF _ _ that]) (simp_all add: CloseSelectionWindow_def)
  show ?thesis
    using moved closed n assms items_ok_select [of p "searchIndex p" env]
    by (auto simp: OnSearchSelectKey_def split: prod.split option.split)
qed

lemma shown_frame [simp]:
  "select_nodes (OnSearchSelectShow p) = select_nodes p"
  "searchIndex (OnSearchSelectShow p) = searchIndex p"
  by (simp_all add: OnSearchSelectShow_def Let_def clearTimeout_def)

lemma field_changed_frame [simp]:
  "select_nodes (field_changed p) = select_nodes p" "searchIndex (field_changed p) = searchIndex p"
  by (simp_all add: field_changed_def Let_def setTimeout_def)

lemma change_frame [simp]:
  "select_nodes (OnSearchFieldChange e p) = select_nodes p"
  "searchIndex (OnSearchFieldChange e p) = searchIndex p"
  by (simp_all add: OnSearchFieldChange_def Let_def clearTimeout_def split: option.split)

lemma fire_frame [simp]:
  "select_nodes (snd (fire env t p)) = select_nodes p" "searchIndex (snd (fire env t p)) = searchIndex p"
  by (simp_all add: fire_def Let_def CloseSelectionWindow_def split: option.split prod.split action.split)

lemma box_inv_step:
  assumes "box_inv p" "box_step env p q"
  shows "box_inv q"
proof -
  have t: "timers_ok p" and i: "items_ok p" using assms(1) by (simp_all add: box_inv_def)
  have keep: "box_inv r" if "timers r = timers p" "next_timer r = next_timer p"
    "keyTimeout r = keyTimeout p" "hideTimeout r = hideTimeout p" "select_nodes r = select_nodes p"
    "searchIndex r = searchIndex p" for r
    using timers_ok_cong [OF _ _ _ _ t, of r] items_ok_cong [OF _ _ i, of r] that
    by (simp add: box_inv_def)
  from assms(2) show ?thesis
  proof (cases rule: box_step.cases)
    case mouse_over
    then show ?thesis
      using timers_ok_show(1) [OF t] items_ok_cong [OF _ _ i, of q] by (simp add: box_inv_def)
  next
    case mouse_out
    then show ?thesis
      using timers_ok_hide_timer [OF t] items_ok_cong [OF _ _ i, of q]
      by (simp add: box_inv_def OnSearchSelectHide_def split_beta setTimeout_def)
  next
    case (key_up e)
    then show ?thesis
      using timers_ok_change [OF t] items_ok_cong [OF _ _ i, of q] by (simp add: box_inv_def)
  next
    case (click j)
    then show ?thesis
      using timers_ok_select [OF t] items_ok_select [of p j] i by (simp add: box_inv_def items_ok_def)
  next
    case (select_key e)
    then show ?thesis
      using timers_ok_select_key [OF t] items_ok_select_key [OF i] by (simp add: box_inv_def)
  next
    case (timer t')
    then show ?thesis
      using timers_ok_fire [OF t] items_ok_cong [OF _ _ i, of q] by (simp add: box_inv_def)
  qed (auto intro!: keep simp: OnSearchFieldFocus_def CloseResultsWindow_def)
qed

lemma box_inv_start:
  assumes "fresh_page p"
  shows "box_inv (snd (init_search env p))"
proof -
  let ?p = "p\<lparr>select_nodes := select_nodes p @
      map (\<lambda>l. \<lparr>is_item = True, item_mark = js ''&#160;'', item_label = l\<rparr>) indexSectionLabels\<rparr>"
  have t: "timers_ok ?p" using assms by (simp add: timers_ok_def fresh_page_def)
  have "SelectItemCount ?p = 11"
    using assms by (simp add: SelectItemCount_filter fresh_page_def list_all_iff filter_empty_conv comp_def)
  then show ?thesis
    using timers_ok_select [OF t] items_ok_select [of ?p 0] by (simp add: box_inv_def init_search_def)
qed

lemma box_inv_reachable: "box_reachable env p \<Longrightarrow> box_inv p"
  by (induction rule: box_reachable.induct) (auto intro: box_inv_start box_inv_step)


section \<open>What a search opens\<close>

lemma plain_not_surrogate: "plain_unit c \<Longrightarrow> lower_unit c < 0xD800 \<or> 0xDBFF < lower_unit c"
  by (auto simp: plain_unit_def lower_unit_def word_less_nat_alt word_le_nat_alt unat_word_ariths)

lemma index_char_first: "index_char env s = js_lower env (js_substr s 0 1)"
proof (cases "js_gt_one env s")
  case True
  then have "list_all plain_unit s" by (simp add: js_gt_one_def)
  then show ?thesis
    using plain_not_surrogate
    by (cases s) (auto simp: index_char_def js_lower_def dest!: plain_not_surrogate)
next
  case False
  then show ?thesis by (simp add: index_char_def)
qed

lemma index_char_ascii:
  assumes "c < 128"
  shows "index_char env (c # cs) = [lower_unit c]"
  using assms by (simp add: index_char_first js_substr_def js_lower_def plain_unit_def)

lemma remove_spaces_trim: "remove_spaces s = [] \<longleftrightarrow> trim_left s = []"
  by (simp add: remove_spaces_def trim_left_def filter_empty_conv dropWhile_eq_Nil_conv)

lemma Search_keeps [simp]:
  "field_value (snd (SearchBox_Search env p)) = field_value p"
  "searchActive (snd (SearchBox_Search env p)) = searchActive p"
  by (simp_all add: SearchBox_Search_def layout_results_def Let_def split: option.split prod.split)

lemma Select_keeps [simp]:
  "field_value (snd (OnSelectItem env i p)) = field_value p"
  "searchActive (snd (OnSelectItem env i p)) = searchActive p"
  by (simp_all add: OnSelectItem_def Let_def)

lemma Select_throws:
  "fst (OnSelectItem env i p) =
     (if remove_spaces (field_value p) \<noteq> [] \<and> searchActive p \<and> 11 \<le> i then Some TypeError else None)"
  by (simp add: OnSelectItem_def Let_def Search_throws)

text \<open>An engine without Unicode data, and a page as it is loaded.\<close>

definition plain_env :: jsenv where
  "plain_env = \<lparr>uni_lower = (\<lambda>s. s), uni_gt_one = (\<lambda>_. False)\<rparr>"

definition loaded_page :: page where
  "loaded_page =
     search_box.extend (new_SearchBox (js ''searchBox'') (js ''search'') False (js ''Search'') [])
       (page.fields (js ''Search'') FocusNone [] Unset 0 0
          [\<lparr>offsetWidth = 20, offsetHeight = 19, offsetLeft = 5, offsetTop = 4, is_body = False\<rparr>]
          120 300 300 900 Unset False 0 0 0 Unset False
          [\<lparr>offsetWidth = 180, offsetHeight = 19, offsetLeft = 700, offsetTop = 4, is_body = False\<rparr>]
          [] 0 [] 1)"

lemma loaded_page_simps [simp]:
  "fresh_page loaded_page" "field_value loaded_page = js ''Search''"
  "searchLabel loaded_page = js ''Search''" "searchActive loaded_page = False"
  "timers loaded_page = []" "next_timer loaded_page = 1" "keyTimeout loaded_page = 0"
  "hideTimeout loaded_page = 0" "lastSearchValue loaded_page = []" "searchIndex loaded_page = 0"
  "resultsPath loaded_page = js ''search''" "extension loaded_page = js ''.html''"
  "keyTimeoutLength loaded_page = 500"
  by (simp_all add: fresh_page_def loaded_page_def search_box.defs page.defs new_SearchBox_def)

text \<open>A search whose first character is in the table of the section.\<close>

lemma search_listed:
  fixes p :: page and env :: jsenv
  assumes "searchIndex p < 11" "trim_left (field_value p) = c # cs" "c < 128"
    and "js_indexOf (indexSectionsWithContent ! searchIndex p) [lower_unit c] = Some k"
  defines "results \<equiv> resultsPath p @ js ''/'' @ indexSectionNames ! searchIndex p @ js ''_'' @ js_hex k @ extension p"
    and "q \<equiv> snd (SearchBox_Search env p)"
  shows "fst (SearchBox_Search env p) = None" "lastSearchValue q = c # cs" "lastResultsPage q = results"
    "frame_location q = results @ js ''?'' @ js_escape (c # cs)"
  using assms(1-4) index_char_ascii [OF assms(3), of env cs]
  by (simp_all add: q_def results_def SearchBox_Search_def Let_def layout_results_def js_get_def)

lemma search_unlisted:
  fixes p :: page and env :: jsenv
  assumes "searchIndex p < 11" "trim_left (field_value p) = c # cs" "c < 128"
    and "js_indexOf (indexSectionsWithContent ! searchIndex p) [lower_unit c] = None"
  defines "q \<equiv> snd (SearchBox_Search env p)"
  shows "fst (SearchBox_Search env p) = None" "lastSearchValue q = c # cs"
    "frame_location q = resultsPath p @ js ''/nomatches'' @ extension p"
  using assms(1-4) index_char_ascii [OF assms(3), of env cs]
  by (simp_all add: q_def SearchBox_Search_def Let_def layout_results_def js_get_def)


section \<open>Properties\<close>

lemma reachable_loaded: "box_reachable env (snd (init_search env loaded_page))"
  by (rule box_reachable.start) simp

text \<open>
  C35: In every state the page reaches, the selection window has its eleven items,
  the selected section is at most one past the last, timer numbers are distinct, a
  non-zero \<open>keyTimeout\<close> names a search that is still to run (never one that has run or
  was cancelled), and clearing \<open>hideTimeout\<close> never cancels a search.
\<close>

theorem search_box_reachable_states:
  assumes "box_reachable env p"
  shows "SelectItemCount p = 11 \<and> searchIndex p \<le> 11 \<and> distinct (map fst (timers p)) \<and>
    (keyTimeout p \<noteq> 0 \<longrightarrow> (\<exists>d. (keyTimeout p, RunSearch, d) \<in> set (timers p))) \<and>
    (\<forall>d. (hideTimeout p, RunSearch, d) \<notin> set (timers p))"
  using box_inv_reachable [OF assms] by (auto simp: box_inv_def timers_ok_def items_ok_def)

theorem search_box_reachable_states_witness:
  "SelectItemCount (snd (init_search plain_env loaded_page)) = 11"
  using search_box_reachable_states [OF reachable_loaded] by simp

text \<open>
  C8: The arrow and return keys in the selection window throw in exactly one
  situation: a search is active and the selection moves to, or is confirmed at, the
  position after the last section, which the down key reaches from the last one.
\<close>

theorem select_key_throws_iff:
  assumes "box_reachable env p"
  shows "fst (OnSearchSelectKey env e p) \<noteq> None \<longleftrightarrow>
    remove_spaces (field_value p) \<noteq> [] \<and> searchActive p \<and>
    (ev_keyCode e = 40 \<and> searchIndex p = 10 \<or>
     (ev_keyCode e = 13 \<or> ev_keyCode e = 27) \<and> searchIndex p = 11)"
proof -
  have n: "SelectItemCount p = 11" "searchIndex p \<le> 11"
    using box_inv_reachable [OF assms] by (simp_all add: box_inv_def items_ok_def)
  have confirm: "fst (case OnSelectItem env i p of
              (Some err, p) \<Rightarrow> (Some err, p)
            | (None, p) \<Rightarrow> (None, (CloseSelectionWindow p)\<lparr>page_focus := FocusSearch\<rparr>))
        = fst (OnSelectItem env i p)" for i
    by (simp split: prod.split option.split)
  show ?thesis
    using n by (auto simp: OnSearchSelectKey_def Select_throws confirm)
qed

theorem select_key_throws_iff_witness:
  "\<exists>p. box_reachable plain_env p \<and> fst (OnSearchSelectKey plain_env \<lparr>ev_keyCode = 40, ev_shiftKey = False\<rparr> p) \<noteq> None"
proof -
  define p1 where "p1 = OnSearchFieldFocus True (snd (init_search plain_env loaded_page))"
  define p2 where "p2 = p1\<lparr>field_value := js ''tcp''\<rparr>"
  define p3 where "p3 = snd (OnSelectItem plain_env 10 p2)"
  have "box_reachable plain_env p1" unfolding p1_def
    by (rule box_reachable.step [OF reachable_loaded]) (rule box_step.focus)
  then have "box_reachable plain_env p2" unfolding p2_def
    by (rule box_reachable.step) (rule box_step.typed)
  then have r: "box_reachable plain_env p3" unfolding p3_def
    by (rule box_reachable.step) (rule box_step.click, simp)
  have label: "searchLabel (snd (init_search plain_env loaded_page)) = js ''Search''"
    by (simp add: init_search_def OnSelectItem_def Let_def SelectItemSet_def)
  have "searchActive p1"
    by (simp add: p1_def OnSearchFieldFocus_def Activate_def Let_def init_search_def label)
       (simp add: OnSelectItem_def SelectItemSet_def Let_def)
  then have "searchActive p3" "searchIndex p3 = 10" "field_value p3 = js ''tcp''"
    by (simp_all add: p3_def p2_def)
  then show ?thesis
    using select_key_throws_iff [OF r, of "\<lparr>ev_keyCode = 40, ev_shiftKey = False\<rparr>"] r
    by (auto simp: remove_spaces_def js_def)
qed


text \<open>
  C7: A search for a text whose first character (after blanks) is ASCII opens the page
  of the position of its lower-case form in the table of the selected section, with the
  text escaped as the query, from which \<open>unescape\<close> recovers it; a character that is not
  in the table opens the page for no matches. The text kept as \<open>lastSearchValue\<close> still
  has its inner blanks.
\<close>

theorem search_opens_results_page:
  fixes p :: page and env :: jsenv
  assumes "searchIndex p < 11" "trim_left (field_value p) = c # cs" "c < 128"
  defines "content \<equiv> indexSectionsWithContent ! searchIndex p"
    and "q \<equiv> snd (SearchBox_Search env p)"
  shows "fst (SearchBox_Search env p) = None \<and> lastSearchValue q = c # cs \<and>
    (if lower_unit c \<in> set content
     then \<exists>k < length content. content ! k = lower_unit c \<and> (\<forall>j < k. content ! j \<noteq> lower_unit c) \<and>
            lastResultsPage q = resultsPath p @ js ''/'' @ indexSectionNames ! searchIndex p @ js ''_'' @
              js_hex k @ extension p \<and>
            (\<exists>query. frame_location q = lastResultsPage q @ js ''?'' @ query \<and> js_unescape query = c # cs)
     else frame_location q = resultsPath p @ js ''/nomatches'' @ extension p)"
proof (cases "js_indexOf content [lower_unit c]")
  case None
  then have "lower_unit c \<notin> set content" by (simp add: js_indexOf_unit_None)
  then show ?thesis
    using search_unlisted [OF assms(1-3), of env] None by (simp add: q_def content_def)
next
  case (Some k)
  then have k: "k < length content" "content ! k = lower_unit c" "\<forall>j<k. content ! j \<noteq> lower_unit c"
    by (auto dest: js_indexOf_unit)
  then have "lower_unit c \<in> set content" by (metis nth_mem)
  moreover have "js_unescape (js_escape (c # cs)) = c # cs"
    using unescape_escape [of "c # cs" "[]"] by simp
  ultimately show ?thesis
    using search_listed [OF assms(1-3), of k env] Some k
    by (auto simp: q_def content_def intro!: exI [of _ k])
qed


theorem search_opens_results_page_witness:
  "frame_location (snd (SearchBox_Search plain_env (loaded_page\<lparr>field_value := js ''  Zmq''\<rparr>)))
     = js ''search/nomatches.html''"
proof -
  have "lower_unit 90 \<notin> set (indexSectionsWithContent ! 0)"
    by (simp add: indexSectionsWithContent_def lower_unit_def js_def)
  then show ?thesis
    using search_opens_results_page [of "loaded_page\<lparr>field_value := js ''  Zmq''\<rparr>" 90 "js ''mq''" plain_env]
    by (simp add: trim_left_def js_def)
qed

text \<open>
  Typing in the field cancels the search that was pending and, when the text without
  its blanks is new and not empty, schedules one search half a second later; nothing
  else about the timers changes, and no search that was replaced can still run.
\<close>

theorem typing_debounces_search:
  assumes "box_reachable env p" "ev_keyCode e \<noteq> 40" "ev_keyCode e \<noteq> 13" "ev_keyCode e \<noteq> 27"
  defines "v \<equiv> remove_spaces (field_value p)" and "q \<equiv> OnSearchFieldChange e p"
  shows "timers q = filter (\<lambda>x. fst x \<noteq> keyTimeout p) (timers p) @
           (if v \<noteq> lastSearchValue p \<and> v \<noteq> [] then [(next_timer p, RunSearch, keyTimeoutLength p)] else []) \<and>
         keyTimeout q = (if v \<noteq> lastSearchValue p \<and> v \<noteq> [] then next_timer p else 0) \<and>
         (v = [] \<and> lastSearchValue p \<noteq> [] \<longrightarrow> results_display q = NoDisplay)"
proof -
  have pos: "fst x \<noteq> 0" if "x \<in> set (timers p)" for x
    using box_inv_reachable [OF assms(1)] that by (fastforce simp: box_inv_def timers_ok_def)
  then have "filter (\<lambda>x. fst x \<noteq> 0) (timers p) = timers p" by (simp add: filter_id_conv)
  then show ?thesis
    using assms(2-4) by (auto simp: v_def q_def OnSearchFieldChange_def field_changed_def Let_def
      setTimeout_def clearTimeout_def)
qed

theorem typing_debounces_search_witness:
  "timers (OnSearchFieldChange \<lparr>ev_keyCode = 65, ev_shiftKey = False\<rparr> (snd (init_search plain_env loaded_page)))
     = [(1, RunSearch, 500)]"
proof -
  have r: "field_value (snd (init_search plain_env loaded_page)) = js ''Search''"
    "timers (snd (init_search plain_env loaded_page)) = []" "next_timer (snd (init_search plain_env loaded_page)) = 1"
    "lastSearchValue (snd (init_search plain_env loaded_page)) = []"
    "keyTimeoutLength (snd (init_search plain_env loaded_page)) = 500"
    by (simp_all add: init_search_def OnSelectItem_def SelectItemSet_def Let_def)
  show ?thesis
    using typing_debounces_search [OF reachable_loaded, of "\<lparr>ev_keyCode = 65, ev_shiftKey = False\<rparr>"]
    by (simp add: r remove_spaces_def js_def)
qed


lemma find_append_single:
  "List.find P (xs @ [y]) = (case List.find P xs of None \<Rightarrow> if P y then Some y else None | Some x \<Rightarrow> Some x)"
  by (induction xs) simp_all

lemma show_timers:
  "timers (OnSearchSelectShow p) =
     (if hideTimeout p = 0 then timers p else filter (\<lambda>x. fst x \<noteq> hideTimeout p) (timers p))"
  "hideTimeout (OnSearchSelectShow p) = 0" "select_display (OnSearchSelectShow p) = Block"
  by (simp_all add: OnSearchSelectShow_def Let_def clearTimeout_def)

text \<open>
  Leaving the selection icon and coming back cancels the pending close and shows the
  window. After two leaves in a row only the second close is cancelled: the first one
  still runs and closes the window that is being used.
\<close>

theorem return_cancels_last_close_only:
  assumes "box_reachable env p"
  shows "timers (OnSearchSelectShow (OnSearchSelectHide p)) = timers p \<and>
         select_display (OnSearchSelectShow (OnSearchSelectHide p)) = Block \<and>
         (let q = OnSearchSelectShow (OnSearchSelectHide (OnSearchSelectHide p)) in
          timers q = timers p @ [(next_timer p, RunCloseSelectionWindow, closeSelectionTimeout p)] \<and>
          select_display q = Block \<and>
          select_display (snd (fire env (next_timer p) q)) = NoDisplay)"
proof -
  have fresh: "fst x < next_timer p" "0 < next_timer p" if "x \<in> set (timers p)" for x
    using box_inv_reachable [OF assms] that by (fastforce simp: box_inv_def timers_ok_def)+
  have pos: "0 < next_timer p"
    using box_inv_reachable [OF assms] by (simp add: box_inv_def timers_ok_def)
  have old: "filter (\<lambda>x. fst x \<noteq> next_timer p) (timers p) = timers p"
    "filter (\<lambda>x. fst x \<noteq> Suc (next_timer p)) (timers p) = timers p"
    using fresh by (fastforce simp: filter_id_conv)+
  have absent: "List.find (\<lambda>x. fst x = next_timer p) (timers p) = None"
    using fresh by (fastforce simp: find_None_iff)
  show ?thesis
    using old pos absent
    by (simp add: show_timers OnSearchSelectHide_def setTimeout_def Let_def fire_def
      CloseSelectionWindow_def find_append_single)
qed


theorem return_cancels_last_close_only_witness:
  "timers (OnSearchSelectShow (OnSearchSelectHide (OnSearchSelectHide (snd (init_search plain_env loaded_page)))))
     = [(1, RunCloseSelectionWindow, 300)]"
proof -
  have "timers (snd (init_search plain_env loaded_page)) = []" "next_timer (snd (init_search plain_env loaded_page)) = 1"
    "closeSelectionTimeout (snd (init_search plain_env loaded_page)) = 300"
    by (simp_all add: init_search_def OnSelectItem_def SelectItemSet_def Let_def loaded_page_def
      search_box.defs page.defs new_SearchBox_def)
  then show ?thesis
    using return_cancels_last_close_only [OF reachable_loaded, of plain_env] by (simp add: Let_def)
qed

text \<open>
  After a section is selected by a click or a key, the selection window marks
  exactly that section's item and every other item is unmarked.
\<close>

theorem selected_item_is_marked:
  "map item_mark (filter is_item (select_nodes (snd (OnSelectItem env i p)))) =
     map (\<lambda>k. if k = i then js ''&#8226;'' else js ''&#160;'') [0..<SelectItemCount p]"
proof -
  have nodes: "select_nodes (snd (OnSelectItem env i p)) = select_item_set i 0 (select_nodes p)"
    by (simp add: OnSelectItem_def SelectItemSet_def Let_def)
  show ?thesis
    unfolding nodes by (simp add: select_item_set_marks SelectItemCount_filter)
qed

end
