(* ===== verification/SearchSections.thy ===== *)
theory SearchSections
  imports SearchIndex
begin

text \<open>
  The shipped index of the other sections (\<open>search/classes_0.js\<close> to \<open>search/pages_2.js\<close>), in the
  order of the sections and of the characters of each.
\<close>

definition classes_0 :: "entry list" where
  "classes_0 = map entry_of
    [(''cli_397'', ''CLI'', [(''../dc/d44/class_e_s_c_1_1_c_l_i.html'', 1, ''ESC'')]),
     (''client_398'', ''Client'', [(''../df/dcd/class_communication_1_1_client.html'', 1, ''Communication'')]),
     (''continuous_5fresolver_399'', ''continuous_resolver'', [(''../d4/d27/classlsl_1_1continuous__resolver.html'', 1, ''lsl'')])]"

definition classes_1 :: "entry list" where
  "classes_1 = map entry_of
    [(''http_5fclient_400'', ''HTTP_client'', [(''../d7/d60/class_communication_1_1_h_t_t_p__client.html'', 1, ''Communication'')])]"

definition classes_2 :: "entry list" where
  "classes_2 = map entry_of
    [(''lost_5ferror_401'', ''lost_error'', [(''../de/d94/classlsl_1_1lost__error.html'', 1, ''lsl'')])]"

definition classes_3 :: "entry list" where
  "classes_3 = map entry_of
    [(''server_402'', ''Server'', [(''../dc/db1/class_communication_1_1_server.html'', 1, ''Communication'')]),
     (''stream_5finfo_403'', ''stream_info'', [(''../d1/d6a/classlsl_1_1stream__info.html'', 1, ''lsl'')]),
     (''stream_5finlet_404'', ''stream_inlet'', [(''../d6/dbd/classlsl_1_1stream__inlet.html'', 1, ''lsl'')]),
     (''stream_5foutlet_405'', ''stream_outlet'', [(''../d6/d55/classlsl_1_1stream__outlet.html'', 1, ''lsl'')])]"

definition classes_4 :: "entry list" where
  "classes_4 = map entry_of
    [(''timeout_5ferror_406'', ''timeout_error'', [(''../d4/d01/classlsl_1_1timeout__error.html'', 1, ''lsl'')])]"

definition classes_5 :: "entry list" where
  "classes_5 = map entry_of
    [(''xml_5felement_407'', ''xml_element'', [(''../d9/d90/classlsl_1_1xml__element.html'', 1, ''lsl'')])]"

definition classes_pages :: "entry list list" where
  "classes_pages = [classes_0, classes_1, classes_2, classes_3, classes_4, classes_5]"

definition namespaces_0 :: "entry list" where
  "namespaces_0 = map entry_of
    [(''communication_408'', ''Communication'', [(''../db/d7d/namespace_communication.html'', 1, '''')])]"

definition namespaces_1 :: "entry list" where
  "namespaces_1 = map entry_of
    [(''esc_409'', ''ESC'', [(''../d2/d52/namespace_e_s_c.html'', 1, '''')])]"

definition namespaces_2 :: "entry list" where
  "namespaces_2 = map entry_of
    [(''lsl_410'', ''lsl'', [(''../d3/db0/namespacelsl.html'', 1, '''')])]"

definition namespaces_pages :: "entry list list" where
  "namespaces_pages = [namespaces_0, namespaces_1, namespaces_2]"

definition files_0 :: "entry list" where
  "files_0 = map entry_of
    [(''cmakeccompilerid_2ec_411'', ''CMakeCCompilerId.c'', [(''../d1/d3a/_c_make_c_compiler_id_8c.html'', 1, '''')]),
     (''cmakecxxcompilerid_2ecpp_412'', ''CMakeCXXCompilerId.cpp'', [(''../d3/d66/_c_make_c_x_x_compiler_id_8cpp.html'', 1, '''')]),
     (''com_5fclient_2ecpp_413'', ''com_client.cpp'', [(''../d8/da5/com__client_8cpp.html'', 1, '''')]),
     (''com_5fclient_2ecpp_2eo_2ed_414'', ''com_client.cpp.o.d'', [(''../d6/d45/com__client_8cpp_8o_8d.html'', 1, '''')]),
     (''com_5fclient_2ehpp_415'', ''com_client.hpp'', [(''../dc/d13/com__client_8hpp.html'', 1, '''')])]"

definition files_1 :: "entry list" where
  "files_1 = map entry_of
    [(''http_5fclient_2ecpp_416'', ''http_client.cpp'', [(''../d5/d08/http__client_8cpp.html'', 1, '''')]),
     (''http_5fclient_2ecpp_2eo_2ed_417'', ''http_client.cpp.o.d'', [(''../dc/d95/http__client_8cpp_8o_8d.html'', 1, '''')]),
     (''http_5fclient_2ehpp_418'', ''http_client.hpp'', [(''../d9/dcd/http__client_8hpp.html'', 1, '''')])]"

definition files_2 :: "entry list" where
  "files_2 = map entry_of
    [(''lsl_5fc_2eh_419'', ''lsl_c.h'', [(''../db/df3/lsl__c_8h.html'', 1, '''')]),
     (''lsl_5fcpp_2eh_420'', ''lsl_cpp.h'', [(''../d1/d7c/lsl__cpp_8h.html'', 1, '''')])]"

definition files_3 :: "entry list" where
  "files_3 = map entry_of
    [(''main_2ecpp_421'', ''main.cpp'', [(''../d0/d3f/lib_2str_a_n_s_iseq_2src_2main_8cpp.html'', 1, ''(Global Namespace)''),
       (''../de/dfb/src_2main_8cpp.html'', 1, ''(Global Namespace)'')]),
     (''main_2ecpp_2eo_2ed_422'', ''main.cpp.o.d'', [(''../d3/df7/_c_make_files_2com__client_8dir_2src_2main_8cpp_8o_8d.html'', 1, ''(Global Namespace)''),
       (''../df/d3f/lib_2str_a_n_s_iseq_2_c_make_files_2str_a_n_s_iseq_8dir_2src_2main_8cpp_8o_8d.html'', 1, ''(Global Namespace)'')])]"

definition files_4 :: "entry list" where
  "files_4 = map entry_of
    [(''readme_2emd_423'', ''README.md'', [(''../d8/d5d/lib_2str_a_n_s_iseq_2_r_e_a_d_m_e_8md.html'', 1, ''(Global Namespace)''),
       (''../d9/dd6/_r_e_a_d_m_e_8md.html'', 1, ''(Global Namespace)''),
       (''../d5/df2/tool__lib_2built__lsl_2_r_e_a_d_m_e_8md.html'', 1, ''(Global Namespace)'')])]"

definition files_5 :: "entry list" where
  "files_5 = map entry_of
    [(''stransiseq_2ecpp_424'', ''strANSIseq.cpp'', [(''../dd/d40/str_a_n_s_iseq_8cpp.html'', 1, '''')]),
     (''stransiseq_2ecpp_2eo_2ed_425'', ''strANSIseq.cpp.o.d'', [(''../db/df0/str_a_n_s_iseq_8cpp_8o_8d.html'', 1, '''')]),
     (''stransiseq_2ehpp_426'', ''strANSIseq.hpp'', [(''../df/df2/str_a_n_s_iseq_8hpp.html'', 1, '''')])]"

definition files_pages :: "entry list list" where
  "files_pages = [files_0, files_1, files_2, files_3, files_4, files_5]"

definition functions_0 :: "entry list" where
  "functions_0 = map entry_of
    [(''append_5fchild_427'', ''append_child'', [(''../d9/d90/classlsl_1_1xml__element.html#af56c7976bb62cabc9c0ca69502063fea'', 1, ''lsl::xml_element'')]),
     (''append_5fchild_5fvalue_428'', ''append_child_value'', [(''../d9/d90/classlsl_1_1xml__element.html#a6a162d1b57049f5ecab6b68207a71d53'', 1, ''lsl::xml_element'')]),
     (''append_5fcopy_429'', ''append_copy'', [(''../d9/d90/classlsl_1_1xml__element.html#a73fc3bfe22e1117907a2d80ba33d2208'', 1, ''lsl::xml_element'')]),
     (''as_5fxml_430'', ''as_xml'', [(''../d1/d6a/classlsl_1_1stream__info.html#ab1ccb9c2a1945c7051a0e90edaba8996'', 1, ''lsl::stream_info'')])]"

definition functions_1 :: "entry list" where
  "functions_1 = map entry_of
    [(''channel_5fbytes_431'', ''channel_bytes'', [(''../d1/d6a/classlsl_1_1stream__info.html#a7eb192e1913596b017137347e4cc5847'', 1, ''lsl::stream_info'')]),
     (''channel_5fcount_432'', ''channel_count'', [(''../d1/d6a/classlsl_1_1stream__info.html#acf09957c1c61a9d9e0f9439037eec305'', 1, ''lsl::stream_info'')]),
     (''channel_5fformat_433'', ''channel_format'', [(''../d1/d6a/classlsl_1_1stream__info.html#aa9695e52570e617d1c7dd4ea9f88b15d'', 1, ''lsl::stream_info'')]),
     (''check_5ferror_434'', ''check_error'', [(''../d3/db0/namespacelsl.html#acce0545ac0a7831acde1a759b778393c'', 1, ''lsl'')]),
     (''child_435'', ''child'', [(''../d9/d90/classlsl_1_1xml__element.html#a111ef129dce406af43948d8c9b915148'', 1, ''lsl::xml_element'')]),
     (''child_5fvalue_436'', ''child_value'', [(''../d9/d90/classlsl_1_1xml__element.html#ac99677d44f66ba850afd9b669e26452f'', 1, ''lsl::xml_element::child_value() const''),
       (''../d9/d90/classlsl_1_1xml__element.html#a893102d2d84a444a89099f9c90cb6c31'', 1, ''lsl::xml_element::child_value(const std::string &amp;name) const'')]),
     (''cli_437'', ''CLI'', [(''../dc/d44/class_e_s_c_1_1_c_l_i.html#a47b6c71a4c59354a3f9c0cd9bd011807'', 1, ''ESC::CLI'')]),
     (''cli_5fid_438'', ''cli_id'', [(''../dc/d44/class_e_s_c_1_1_c_l_i.html#a24d0af4957baaeafab2a5f689e20b57d'', 1, ''ESC::CLI'')]),
     (''client_439'', ''Client'', [(''../df/dcd/class_communication_1_1_client.html#aea957bd14f311e1f6621e7611022b5c4'', 1, ''Communication::Client'')]),
     (''close_5fconnection_440'', ''close_connection'', [(''../df/dcd/class_communication_1_1_client.html#aa448a9277e9bed8326f74ad81062ab77'', 1, ''Communication::Client'')]),
     (''close_5fstream_441'', ''close_stream'', [(''../d6/dbd/classlsl_1_1stream__inlet.html#a77c2f10ed843723c7473aa52dcf544a0'', 1, ''lsl::stream_inlet'')]),
     (''continuous_5fresolver_442'', ''continuous_resolver'', [(''../d4/d27/classlsl_1_1continuous__resolver.html#a53b81e4328aba7a83c4aa129fa0d6f62'', 1, ''lsl::continuous_resolver::continuous_resolver(double forget_after=5.0)''),
       (''../d4/d27/classlsl_1_1continuous__resolver.html#a9eb3d09ca9c4f9c493a6978d403a5144'', 1, ''lsl::continuous_resolver::continuous_resolver(const std::string &amp;prop, const std::string &amp;value, double forget_after=5.0)''),
       (''../d4/d27/classlsl_1_1continuous__resolver.html#aa3b65921342bddafabe4e5d16a3c24a3'', 1, ''lsl::continuous_resolver::continuous_resolver(const std::string &amp;pred, double forget_after=5.0)'')]),
     (''crc_443'', ''CRC'', [(''../df/dcd/class_communication_1_1_client.html#a7020654cbb2e6f707fe637fc84d8328c'', 1, ''Communication::Client'')]),
     (''created_5fat_444'', ''created_at'', [(''../d1/d6a/classlsl_1_1stream__info.html#a9a5be16db42c09b1f0cced52a2259db8'', 1, ''lsl::stream_info'')])]"

definition functions_2 :: "entry list" where
  "functions_2 = map entry_of
    [(''desc_445'', ''desc'', [(''../d1/d6a/classlsl_1_1stream__info.html#a7bbc53bb041757eb87c6c73564981390'', 1, ''lsl::stream_info'')])]"

definition functions_3 :: "entry list" where
  "functions_3 = map entry_of
    [(''empty_446'', ''empty'', [(''../d9/d90/classlsl_1_1xml__element.html#a787dcaf85abcc5cd4d5f93fc80c82eb5'', 1, ''lsl::xml_element'')])]"

definition functions_4 :: "entry list" where
  "functions_4 = map entry_of
    [(''first_5fchild_447'', ''first_child'', [(''../d9/d90/classlsl_1_1xml__element.html#ab68b7a1c63c2cb0eb4ce6361b94469b7'', 1, ''lsl::xml_element'')]),
     (''from_5fsocket_448'', ''from_socket'', [(''../df/dcd/class_communication_1_1_client.html#a487e227b474999f2ff9f096f1a5784ad'', 1, ''Communication::Client'')]),
     (''from_5fxml_449'', ''from_xml'', [(''../d1/d6a/classlsl_1_1stream__info.html#abf8fb6ba88d2f6c4069961149f18faec'', 1, ''lsl::stream_info'')]),
     (''fstr_450'', ''fstr'', [(''../d2/d52/namespace_e_s_c.html#a080ff5f5b8a2ed3567a541acfa69a425'', 1, ''ESC'')]),
     (''fstr_5flink_451'', ''fstr_link'', [(''../d2/d52/namespace_e_s_c.html#a07d7fd8adc58054bde19b14556a8d945'', 1, ''ESC'')]),
     (''fstr_5fn_452'', ''fstr_n'', [(''../d2/d52/namespace_e_s_c.html#a6f0f9c5cc6b334d09b6da6834c02af16'', 1, ''ESC'')])]"

definition functions_5 :: "entry list" where
  "functions_5 = map entry_of
    [(''get_453'', ''get'', [(''../d7/d60/class_communication_1_1_h_t_t_p__client.html#a6c2e964c4510d91b79ff9303b672582e'', 1, ''Communication::HTTP_client'')]),
     (''get_5fchannel_5fcount_454'', ''get_channel_count'', [(''../d6/dbd/classlsl_1_1stream__inlet.html#ad86702cf94e5b0b850a2f94a228e4f98'', 1, ''lsl::stream_inlet'')]),
     (''get_5fpos_455'', ''get_pos'', [(''../d2/d52/namespace_e_s_c.html#a1ab0660788056c78944278261498664a'', 1, ''ESC'')]),
     (''get_5fstat_456'', ''get_stat'', [(''../df/dcd/class_communication_1_1_client.html#a2508e02531cf7e8dd258677b7b1490e9'', 1, ''Communication::Client'')])]"

definition functions_6 :: "entry list" where
  "functions_6 = map entry_of
    [(''handle_457'', ''handle'', [(''../d1/d6a/classlsl_1_1stream__info.html#a532f6e8b29052cf11fbf87aeb3424304'', 1, ''lsl::stream_info'')]),
     (''have_5fconsumers_458'', ''have_consumers'', [(''../d6/d55/classlsl_1_1stream__outlet.html#a3e7fad1010ef7c78bcd006a4f94381fa'', 1, ''lsl::stream_outlet'')]),
     (''hostname_459'', ''hostname'', [(''../d1/d6a/classlsl_1_1stream__info.html#a52db8d9e073297477d1183dfebe8dcda'', 1, ''lsl::stream_info'')]),
     (''http_5fclient_460'', ''HTTP_client'', [(''../d7/d60/class_communication_1_1_h_t_t_p__client.html#af8b79c3813af9e4e2b9d2cb45b52b8c3'', 1, ''Communication::HTTP_client'')])]"

definition functions_7 :: "entry list" where
  "functions_7 = map entry_of
    [(''info_461'', ''info'', [(''../d6/d55/classlsl_1_1stream__outlet.html#af6fda8eb922b27ae3ed98651934243fe'', 1, ''lsl::stream_outlet::info()''),
       (''../d6/dbd/classlsl_1_1stream__inlet.html#ae895a8d5c10dc4072e969686fc402b5b'', 1, ''lsl::stream_inlet::info()'')]),
     (''is_5fconnected_462'', ''is_connected'', [(''../df/dcd/class_communication_1_1_client.html#a5afbc51613d3caf88641d04e81837467'', 1, ''Communication::Client'')]),
     (''is_5ftext_463'', ''is_text'', [(''../d9/d90/classlsl_1_1xml__element.html#a965cfff9a29ebe6d8274f5256ff0017c'', 1, ''lsl::xml_element'')])]"

definition functions_8_1 :: "entry list" where
  "functions_8_1 = map entry_of
    [(''last_5fchild_464'', ''last_child'', [(''../d9/d90/classlsl_1_1xml__element.html#a12254f735a79a11b75718fe7c28186d0'', 1, ''lsl::xml_element'')]),
     (''library_5finfo_465'', ''library_info'', [(''../d3/db0/namespacelsl.html#a2a348cf022e9862396e4a10f60af42e9'', 1, ''lsl'')]),
     (''library_5fversion_466'', ''library_version'', [(''../d3/db0/namespacelsl.html#a25fc4deea3c2fb0df0744e3a24c56844'', 1, ''lsl'')]),
     (''local_5fclock_467'', ''local_clock'', [(''../d3/db0/namespacelsl.html#ae1766ae2ab66141cb927612e57a0c8c6'', 1, ''lsl'')]),
     (''log_468'', ''log'', [(''../dc/d44/class_e_s_c_1_1_c_l_i.html#a1ac0d519304d97b3be094979fcfe6e44'', 1, ''ESC::CLI'')]),
     (''log_5ferror_469'', ''log_error'', [(''../dc/d44/class_e_s_c_1_1_c_l_i.html#aee4e23e87ebd3cf3909f1760a5fda04b'', 1, ''ESC::CLI'')]),
     (''logln_470'', ''logln'', [(''../dc/d44/class_e_s_c_1_1_c_l_i.html#abe1e5a3cc2cbd55c0704e9b13842e436'', 1, ''ESC::CLI'')]),
     (''lost_5ferror_471'', ''lost_error'', [(''../de/d94/classlsl_1_1lost__error.html#a997ff6ff1ecd4fd33cda631b975d386e'', 1, ''lsl::lost_error'')]),
     (''lsl_5fappend_5fchild_472'', ''lsl_append_child'', [(''../db/df3/lsl__c_8h.html#a55229fcb1ff8d014f5459ee9526bc58a'', 1, ''lsl_c.h'')]),
     (''lsl_5fappend_5fchild_5fvalue_473'', ''lsl_append_child_value'', [(''../db/df3/lsl__c_8h.html#afb51a7b796ce958254c209e2dbca2453'', 1, ''lsl_c.h'')]),
     (''lsl_5fappend_5fcopy_474'', ''lsl_append_copy'', [(''../db/df3/lsl__c_8h.html#abc52ee7be11ed9788f5c82d157e0c1c1'', 1, ''lsl_c.h'')]),
     (''lsl_5fchild_475'', ''lsl_child'', [(''../db/df3/lsl__c_8h.html#a6e9680f770d8459406698ce71a76790c'', 1, ''lsl_c.h'')]),
     (''lsl_5fchild_5fvalue_476'', ''lsl_child_value'', [(''../db/df3/lsl__c_8h.html#af1a263d9c5182a79fdbbbcd7067d6a93'', 1, ''lsl_c.h'')]),
     (''lsl_5fchild_5fvalue_5fn_477'', ''lsl_child_value_n'', [(''../db/df3/lsl__c_8h.html#a6c36a5f5c61bb996f7dd1776283a8989'', 1, ''lsl_c.h'')]),
     (''lsl_5fclose_5fstream_478'', ''lsl_close_stream'', [(''../db/df3/lsl__c_8h.html#a36fa9d4e9c7c817547decef38cd9e07e'', 1, ''lsl_c.h'')]),
     (''lsl_5fcopy_5fstreaminfo_479'', ''lsl_copy_streaminfo'', [(''../db/df3/lsl__c_8h.html#a4514f8ed63874d11e756a59d99b0326d'', 1, ''lsl_c.h'')]),
     (''lsl_5fcreate_5fcontinuous_5fresolver_480'', ''lsl_create_continuous_resolver'', [(''../db/df3/lsl__c_8h.html#a648855a9dfc987afa399260f149034b9'', 1, ''lsl_c.h'')]),
     (''lsl_5fcreate_5fcontinuous_5fresolver_5fbypred_481'', ''lsl_create_continuous_resolver_bypred'', [(''../db/df3/lsl__c_8h.html#a15e67770c35aee6028082d73cda42fee'', 1, ''lsl_c.h'')]),
     (''lsl_5fcreate_5fcontinuous_5fresolver_5fbyprop_482'', ''lsl_create_continuous_resolver_byprop'', [(''../db/df3/lsl__c_8h.html#a9e5585ae34b000bcad7a3ea5ab36a0e1'', 1, ''lsl_c.h'')]),
     (''lsl_5fcreate_5finlet_483'', ''lsl_create_inlet'', [(''../db/df3/lsl__c_8h.html#ae293c3b20d52135ebf3e3ee9cb25c364'', 1, ''lsl_c.h'')]),
     (''lsl_5fcreate_5foutlet_484'', ''lsl_create_outlet'', [(''../db/df3/lsl__c_8h.html#a22a7097dedf222014e6b878f3870b0fa'', 1, ''lsl_c.h'')])]"

definition functions_8_2 :: "entry list" where
  "functions_8_2 = map entry_of
    [(''lsl_5fcreate_5fstreaminfo_485'', ''lsl_create_streaminfo'', [(''../db/df3/lsl__c_8h.html#ad84630a74d54a33c972daa18feb78c9d'', 1, ''lsl_c.h'')]),
     (''lsl_5fdestroy_5fcontinuous_5fresolver_486'', ''lsl_destroy_continuous_resolver'', [(''../db/df3/lsl__c_8h.html#a53de14eb7cebcda0a32a545e4759ce3f'', 1, ''lsl_c.h'')]),
     (''lsl_5fdestroy_5finlet_487'', ''lsl_destroy_inlet'', [(''../db/df3/lsl__c_8h.html#a3d5fb80bb339d9590959327802d9f869'', 1, ''lsl_c.h'')]),
     (''lsl_5fdestroy_5foutlet_488'', ''lsl_destroy_outlet'', [(''../db/df3/lsl__c_8h.html#a0588f316a9e406e61f1507d8f756529f'', 1, ''lsl_c.h'')]),
     (''lsl_5fdestroy_5fstreaminfo_489'', ''lsl_destroy_streaminfo'', [(''../db/df3/lsl__c_8h.html#aaa63607a0162e2ab9e62dffc7874d716'', 1, ''lsl_c.h'')]),
     (''lsl_5fdestroy_5fstring_490'', ''lsl_destroy_string'', [(''../db/df3/lsl__c_8h.html#addeff0a60f446e7f43770eb1f5e30f84'', 1, ''lsl_c.h'')]),
     (''lsl_5fempty_491'', ''lsl_empty'', [(''../db/df3/lsl__c_8h.html#a2461080c7a369e91c1ac1ee24c217d4f'', 1, ''lsl_c.h'')]),
     (''lsl_5ffirst_5fchild_492'', ''lsl_first_child'', [(''../db/df3/lsl__c_8h.html#acffa311b660404321a2e00b9cd4e495f'', 1, ''lsl_c.h'')]),
     (''lsl_5fget_5fchannel_5fbytes_493'', ''lsl_get_channel_bytes'', [(''../db/df3/lsl__c_8h.html#ace8095ccb59a3857b0ff42511c72ff9a'', 1, ''lsl_c.h'')]),
     (''lsl_5fget_5fchannel_5fcount_494'', ''lsl_get_channel_count'', [(''../db/df3/lsl__c_8h.html#a5a736ebd5f1fbbd26dc5f66dcdd4edd1'', 1, ''lsl_c.h'')]),
     (''lsl_5fget_5fchannel_5fformat_495'', ''lsl_get_channel_format'', [(''../db/df3/lsl__c_8h.html#aa85ef584982dd371ca580e5103cef633'', 1, ''lsl_c.h'')]),
     (''lsl_5fget_5fcreated_5fat_496'', ''lsl_get_created_at'', [(''../db/df3/lsl__c_8h.html#aae3594f14dbcf50ea012d89403f5d57c'', 1, ''lsl_c.h'')]),
     (''lsl_5fget_5fdesc_497'', ''lsl_get_desc'', [(''../db/df3/lsl__c_8h.html#afef7ba2a6124b285f4568af0cf200420'', 1, ''lsl_c.h'')]),
     (''lsl_5fget_5ffullinfo_498'', ''lsl_get_fullinfo'', [(''../db/df3/lsl__c_8h.html#a5517cad6ae3f24aa079a0f2a67654226'', 1, ''lsl_c.h'')]),
     (''lsl_5fget_5fhostname_499'', ''lsl_get_hostname'', [(''../db/df3/lsl__c_8h.html#ab517961395988205f230c14c94cf9506'', 1, ''lsl_c.h'')]),
     (''lsl_5fget_5finfo_500'', ''lsl_get_info'', [(''../db/df3/lsl__c_8h.html#ac3d742ffc5b4f8a941835df6d2369547'', 1, ''lsl_c.h'')]),
     (''lsl_5fget_5fname_501'', ''lsl_get_name'', [(''../db/df3/lsl__c_8h.html#a86691767b61f0731a3e0668efd42c224'', 1, ''lsl_c.h'')]),
     (''lsl_5fget_5fnominal_5fsrate_502'', ''lsl_get_nominal_srate'', [(''../db/df3/lsl__c_8h.html#a52b66d7a75574d98e8709d1734fdd113'', 1, ''lsl_c.h'')]),
     (''lsl_5fget_5fsample_5fbytes_503'', ''lsl_get_sample_bytes'', [(''../db/df3/lsl__c_8h.html#ac0ce4de263cd07fc4e3b1808e784693f'', 1, ''lsl_c.h'')]),
     (''lsl_5fget_5fsession_5fid_504'', ''lsl_get_session_id'', [(''../db/df3/lsl__c_8h.html#a66b17ecf6f20b0d5d8f1ed78080515ba'', 1, ''lsl_c.h'')]),
     (''lsl_5fget_5fsource_5fid_505'', ''lsl_get_source_id'', [(''../db/df3/lsl__c_8h.html#a98b8df791e7e9d415098aafcb06b3d93'', 1, ''lsl_c.h'')])]"

definition functions_8_3 :: "entry list" where
  "functions_8_3 = map entry_of
    [(''lsl_5fget_5ftype_506'', ''lsl_get_type'', [(''../db/df3/lsl__c_8h.html#a8f6958b1292ad3b59157c290bfce552d'', 1, ''lsl_c.h'')]),
     (''lsl_5fget_5fuid_507'', ''lsl_get_uid'', [(''../db/df3/lsl__c_8h.html#a381b60fcb6379eacda3276218751290c'', 1, ''lsl_c.h'')]),
     (''lsl_5fget_5fversion_508'', ''lsl_get_version'', [(''../db/df3/lsl__c_8h.html#a4c8de5b8ac7e0c9400082a90b398a9e6'', 1, ''lsl_c.h'')]),
     (''lsl_5fget_5fxml_509'', ''lsl_get_xml'', [(''../db/df3/lsl__c_8h.html#a620092f125b45938623229fee3a366f9'', 1, ''lsl_c.h'')]),
     (''lsl_5fhave_5fconsumers_510'', ''lsl_have_consumers'', [(''../db/df3/lsl__c_8h.html#a7f9691f7d2fd38874cefb8e2d75084db'', 1, ''lsl_c.h'')]),
     (''lsl_5fis_5ftext_511'', ''lsl_is_text'', [(''../db/df3/lsl__c_8h.html#a885c3584f6f6068680bb2b61ebf387e5'', 1, ''lsl_c.h'')]),
     (''lsl_5flast_5fchild_512'', ''lsl_last_child'', [(''../db/df3/lsl__c_8h.html#ac15f1512c5195e6d671d49a17885e119'', 1, ''lsl_c.h'')]),
     (''lsl_5flibrary_5finfo_513'', ''lsl_library_info'', [(''../db/df3/lsl__c_8h.html#ab5f5986ebe4bbf87d97d299b0c1213ea'', 1, ''lsl_c.h'')]),
     (''lsl_5flibrary_5fversion_514'', ''lsl_library_version'', [(''../db/df3/lsl__c_8h.html#a43f78dccab0a194c987b357a870e9fae'', 1, ''lsl_c.h'')]),
     (''lsl_5flocal_5fclock_515'', ''lsl_local_clock'', [(''../db/df3/lsl__c_8h.html#ab5830dfa3831a239eabae33504633849'', 1, ''lsl_c.h'')]),
     (''lsl_5fname_516'', ''lsl_name'', [(''../db/df3/lsl__c_8h.html#a5af95d29948ec4e56242dcf24d8c974c'', 1, ''lsl_c.h'')]),
     (''lsl_5fnext_5fsibling_517'', ''lsl_next_sibling'', [(''../db/df3/lsl__c_8h.html#a40490a0b61d90e5ecbc3265098818851'', 1, ''lsl_c.h'')]),
     (''lsl_5fnext_5fsibling_5fn_518'', ''lsl_next_sibling_n'', [(''../db/df3/lsl__c_8h.html#aea479a05659e31e6248597ac04d189ea'', 1, ''lsl_c.h'')]),
     (''lsl_5fopen_5fstream_519'', ''lsl_open_stream'', [(''../db/df3/lsl__c_8h.html#a50d0fd7851d0c963c18b5793da161aa4'', 1, ''lsl_c.h'')]),
     (''lsl_5fparent_520'', ''lsl_parent'', [(''../db/df3/lsl__c_8h.html#ad64f4e486c676d088eee07776dd12fac'', 1, ''lsl_c.h'')]),
     (''lsl_5fprepend_5fchild_521'', ''lsl_prepend_child'', [(''../db/df3/lsl__c_8h.html#a7c11ff3b7dc0d5f18d51f0104ac6e281'', 1, ''lsl_c.h'')]),
     (''lsl_5fprepend_5fchild_5fvalue_522'', ''lsl_prepend_child_value'', [(''../db/df3/lsl__c_8h.html#a2af93b773f826f19f1a9dd28d5db0fd9'', 1, ''lsl_c.h'')]),
     (''lsl_5fprepend_5fcopy_523'', ''lsl_prepend_copy'', [(''../db/df3/lsl__c_8h.html#a7ac39c444784b1956929937d983a27ff'', 1, ''lsl_c.h'')]),
     (''lsl_5fprevious_5fsibling_524'', ''lsl_previous_sibling'', [(''../db/df3/lsl__c_8h.html#a8331a69a3ea3978a1f04e80e6234a4c8'', 1, ''lsl_c.h'')]),
     (''lsl_5fprevious_5fsibling_5fn_525'', ''lsl_previous_sibling_n'', [(''../db/df3/lsl__c_8h.html#a9a6e5c2bcf2aa1555c30996d536e53ad'', 1, ''lsl_c.h'')]),
     (''lsl_5fprotocol_5fversion_526'', ''lsl_protocol_version'', [(''../db/df3/lsl__c_8h.html#a41474948cae5d78c552e3a98d5ecd5bc'', 1, ''lsl_c.h'')])]"

definition functions_8_4 :: "entry list" where
  "functions_8_4 = map entry_of
    [(''lsl_5fpull_5fchunk_5fbuf_527'', ''lsl_pull_chunk_buf'', [(''../db/df3/lsl__c_8h.html#abc993331c3f01c1d3ebb06e69821b009'', 1, ''lsl_c.h'')]),
     (''lsl_5fpull_5fchunk_5fc_528'', ''lsl_pull_chunk_c'', [(''../db/df3/lsl__c_8h.html#a0d7adeba028fb332270548faec0c61a1'', 1, ''lsl_c.h'')]),
     (''lsl_5fpull_5fchunk_5fd_529'', ''lsl_pull_chunk_d'', [(''../db/df3/lsl__c_8h.html#a8eaeec5c8e913bd5eb1e3419a4f56e31'', 1, ''lsl_c.h'')]),
     (''lsl_5fpull_5fchunk_5ff_530'', ''lsl_pull_chunk_f'', [(''../db/df3/lsl__c_8h.html#af605351d94ec7523858646b10dbfbbd2'', 1, ''lsl_c.h'')]),
     (''lsl_5fpull_5fchunk_5fi_531'', ''lsl_pull_chunk_i'', [(''../db/df3/lsl__c_8h.html#a819b6e50f2ba340686fb5d537a2548b8'', 1, ''lsl_c.h'')]),
     (''lsl_5fpull_5fchunk_5fl_532'', ''lsl_pull_chunk_l'', [(''../db/df3/lsl__c_8h.html#af1a8ca4c78fcf8571d811131ca479ba8'', 1, ''lsl_c.h'')]),
     (''lsl_5fpull_5fchunk_5fs_533'', ''lsl_pull_chunk_s'', [(''../db/df3/lsl__c_8h.html#ab0b1ae6dcb03612f18aa37e7aef2b2e0'', 1, ''lsl_c.h'')]),
     (''lsl_5fpull_5fchunk_5fstr_534'', ''lsl_pull_chunk_str'', [(''../db/df3/lsl__c_8h.html#a3715850e6e31ed2f6b0767aa42589478'', 1, ''lsl_c.h'')]),
     (''lsl_5fpull_5fsample_5fbuf_535'', ''lsl_pull_sample_buf'', [(''../db/df3/lsl__c_8h.html#a356ab88fcd5f5c52a95549b1c8c2d4ed'', 1, ''lsl_c.h'')]),
     (''lsl_5fpull_5fsample_5fc_536'', ''lsl_pull_sample_c'', [(''../db/df3/lsl__c_8h.html#a58d27f330e42ef40c7b2124a396d65de'', 1, ''lsl_c.h'')]),
     (''lsl_5fpull_5fsample_5fd_537'', ''lsl_pull_sample_d'', [(''../db/df3/lsl__c_8h.html#a4ccd428e2def15780552ab5550d2efaa'', 1, ''lsl_c.h'')]),
     (''lsl_5fpull_5fsample_5ff_538'', ''lsl_pull_sample_f'', [(''../db/df3/lsl__c_8h.html#af9e8d161e2cc70ffbf9443083ff5d33d'', 1, ''lsl_c.h'')]),
     (''lsl_5fpull_5fsample_5fi_539'', ''lsl_pull_sample_i'', [(''../db/df3/lsl__c_8h.html#a4404040430341459d37fdde84b590cba'', 1, ''lsl_c.h'')]),
     (''lsl_5fpull_5fsample_5fl_540'', ''lsl_pull_sample_l'', [(''../db/df3/lsl__c_8h.html#a7d4458adb9735400f666935f977e03f5'', 1, ''lsl_c.h'')]),
     (''lsl_5fpull_5fsample_5fs_541'', ''lsl_pull_sample_s'', [(''../db/df3/lsl__c_8h.html#a96bba791d4bb29acc1b0d9428a6b5edd'', 1, ''lsl_c.h'')]),
     (''lsl_5fpull_5fsample_5fstr_542'', ''lsl_pull_sample_str'', [(''../db/df3/lsl__c_8h.html#a9e191a0b0bac97c3f440c553241a623b'', 1, ''lsl_c.h'')]),
     (''lsl_5fpull_5fsample_5fv_543'', ''lsl_pull_sample_v'', [(''../db/df3/lsl__c_8h.html#a0574687b034da933fb4832caa3d04f92'', 1, ''lsl_c.h'')]),
     (''lsl_5fpush_5fchunk_5fbuf_544'', ''lsl_push_chunk_buf'', [(''../db/df3/lsl__c_8h.html#a51f3632a013dff65898f168529a70b07'', 1, ''lsl_c.h'')]),
     (''lsl_5fpush_5fchunk_5fbuft_545'', ''lsl_push_chunk_buft'', [(''../db/df3/lsl__c_8h.html#a2bb75ed52221f51f0bbb6bcbcd5049e4'', 1, ''lsl_c.h'')]),
     (''lsl_5fpush_5fchunk_5fbuftn_546'', ''lsl_push_chunk_buftn'', [(''../db/df3/lsl__c_8h.html#ad0b8e9c8e62e471dfbc098f4293d6ece'', 1, ''lsl_c.h'')]),
     (''lsl_5fpush_5fchunk_5fbuftnp_547'', ''lsl_push_chunk_buftnp'', [(''../db/df3/lsl__c_8h.html#a6a1f820184a78a8a1b09a87a98c8dba5'', 1, ''lsl_c.h'')])]"

definition functions_8_5 :: "entry list" where
  "functions_8_5 = map entry_of
    [(''lsl_5fpush_5fchunk_5fbuftp_548'', ''lsl_push_chunk_buftp'', [(''../db/df3/lsl__c_8h.html#a5c391ee5eed07954daea0791fe2335fb'', 1, ''lsl_c.h'')]),
     (''lsl_5fpush_5fchunk_5fc_549'', ''lsl_push_chunk_c'', [(''../db/df3/lsl__c_8h.html#a43928c1354e8539b4d9b40310912e9c1'', 1, ''lsl_c.h'')]),
     (''lsl_5fpush_5fchunk_5fct_550'', ''lsl_push_chunk_ct'', [(''../db/df3/lsl__c_8h.html#a864e000ed999639b3ba785cd6a076c52'', 1, ''lsl_c.h'')]),
     (''lsl_5fpush_5fchunk_5fctn_551'', ''lsl_push_chunk_ctn'', [(''../db/df3/lsl__c_8h.html#a504a4265f1cd530d141f92d1459f8fd2'', 1, ''lsl_c.h'')]),
     (''lsl_5fpush_5fchunk_5fctnp_552'', ''lsl_push_chunk_ctnp'', [(''../db/df3/lsl__c_8h.html#a3f6a22c686a346da77e03863b26c3fe9'', 1, ''lsl_c.h'')]),
     (''lsl_5fpush_5fchunk_5fctp_553'', ''lsl_push_chunk_ctp'', [(''../db/df3/lsl__c_8h.html#a8e049d82680d0fb6f803b9c604567516'', 1, ''lsl_c.h'')]),
     (''lsl_5fpush_5fchunk_5fd_554'', ''lsl_push_chunk_d'', [(''../db/df3/lsl__c_8h.html#a227534e78fd4bbdf473ad7796da49377'', 1, ''lsl_c.h'')]),
     (''lsl_5fpush_5fchunk_5fdt_555'', ''lsl_push_chunk_dt'', [(''../db/df3/lsl__c_8h.html#a5a201ecffb48729d0eb0e51dba539a23'', 1, ''lsl_c.h'')]),
     (''lsl_5fpush_5fchunk_5fdtn_556'', ''lsl_push_chunk_dtn'', [(''../db/df3/lsl__c_8h.html#a0d9396b1e4a12269d480762151e085f7'', 1, ''lsl_c.h'')]),
     (''lsl_5fpush_5fchunk_5fdtnp_557'', ''lsl_push_chunk_dtnp'', [(''../db/df3/lsl__c_8h.html#a23a41b710063ea717b411255af956c8c'', 1, ''lsl_c.h'')]),
     (''lsl_5fpush_5fchunk_5fdtp_558'', ''lsl_push_chunk_dtp'', [(''../db/df3/lsl__c_8h.html#a1e444e438b037d8a1363b1a74568976c'', 1, ''lsl_c.h'')]),
     (''lsl_5fpush_5fchunk_5ff_559'', ''lsl_push_chunk_f'', [(''../db/df3/lsl__c_8h.html#a191171b4aae05abeae2d4172fc500795'', 1, ''lsl_c.h'')]),
     (''lsl_5fpush_5fchunk_5fft_560'', ''lsl_push_chunk_ft'', [(''../db/df3/lsl__c_8h.html#a80f314d925564890ee64b1c2a699bdb0'', 1, ''lsl_c.h'')]),
     (''lsl_5fpush_5fchunk_5fftn_561'', ''lsl_push_chunk_ftn'', [(''../db/df3/lsl__c_8h.html#a4a39988b3987aa24d85f6f243c9cec9b'', 1, ''lsl_c.h'')]),
     (''lsl_5fpush_5fchunk_5fftnp_562'', ''lsl_push_chunk_ftnp'', [(''../db/df3/lsl__c_8h.html#ac81be759a83eb75c357bfb820e83cd12'', 1, ''lsl_c.h'')]),
     (''lsl_5fpush_5fchunk_5fftp_563'', ''lsl_push_chunk_ftp'', [(''../db/df3/lsl__c_8h.html#a91a947d9280a61e1e5e73d166a259385'', 1, ''lsl_c.h'')]),
     (''lsl_5fpush_5fchunk_5fi_564'', ''lsl_push_chunk_i'', [(''../db/df3/lsl__c_8h.html#ae0a4be2d1a0c02e8b065710d005e9c7a'', 1, ''lsl_c.h'')]),
     (''lsl_5fpush_5fchunk_5fit_565'', ''lsl_push_chunk_it'', [(''../db/df3/lsl__c_8h.html#a0ae72ee5f88fe45e1fdb04ccf8d38ef3'', 1, ''lsl_c.h'')]),
     (''lsl_5fpush_5fchunk_5fitn_566'', ''lsl_push_chunk_itn'', [(''../db/df3/lsl__c_8h.html#a4745191dd3eef55e228ad39275bf937c'', 1, ''lsl_c.h'')]),
     (''lsl_5fpush_5fchunk_5fitnp_567'', ''lsl_push_chunk_itnp'', [(''../db/df3/lsl__c_8h.html#a50600b670f8e2a5be27cb7b6eca885f9'', 1, ''lsl_c.h'')]),
     (''lsl_5fpush_5fchunk_5fitp_568'', ''lsl_push_chunk_itp'', [(''../db/df3/lsl__c_8h.html#a5f16f396ea43fafbad67f8cbc11cba15'', 1, ''lsl_c.h'')])]"

definition functions_8_6 :: "entry list" where
  "functions_8_6 = map entry_of
    [(''lsl_5fpush_5fchunk_5fl_569'', ''lsl_push_chunk_l'', [(''../db/df3/lsl__c_8h.html#af289f8a4f5efff22d10375a1bfc35f32'', 1, ''lsl_c.h'')]),
     (''lsl_5fpush_5fchunk_5flt_570'', ''lsl_push_chunk_lt'', [(''../db/df3/lsl__c_8h.html#aea5a6d89b758f61045830cb0f9d692b4'', 1, ''lsl_c.h'')]),
     (''lsl_5fpush_5fchunk_5fltn_571'', ''lsl_push_chunk_ltn'', [(''../db/df3/lsl__c_8h.html#ab647f7d988094c0f18d66619c4a93e68'', 1, ''lsl_c.h'')]),
     (''lsl_5fpush_5fchunk_5fltnp_572'', ''lsl_push_chunk_ltnp'', [(''../db/df3/lsl__c_8h.html#a005657d00b4c10bcf9dbb0d603dd7494'', 1, ''lsl_c.h'')]),
     (''lsl_5fpush_5fchunk_5fltp_573'', ''lsl_push_chunk_ltp'', [(''../db/df3/lsl__c_8h.html#a7991bcb18cd7dbe8722716e2c3fb4924'', 1, ''lsl_c.h'')]),
     (''lsl_5fpush_5fchunk_5fs_574'', ''lsl_push_chunk_s'', [(''../db/df3/lsl__c_8h.html#a3ce11253225a50b371cc1f33a348271f'', 1, ''lsl_c.h'')]),
     (''lsl_5fpush_5fchunk_5fst_575'', ''lsl_push_chunk_st'', [(''../db/df3/lsl__c_8h.html#a8b8ee567d1f8adf3816f0c58a7c311da'', 1, ''lsl_c.h'')]),
     (''lsl_5fpush_5fchunk_5fstn_576'', ''lsl_push_chunk_stn'', [(''../db/df3/lsl__c_8h.html#a7cc5ac6b271cc9b2afa180604faa91ef'', 1, ''lsl_c.h'')]),
     (''lsl_5fpush_5fchunk_5fstnp_577'', ''lsl_push_chunk_stnp'', [(''../db/df3/lsl__c_8h.html#a627538d2845775b858ad795745aacc3d'', 1, ''lsl_c.h'')]),
     (''lsl_5fpush_5fchunk_5fstp_578'', ''lsl_push_chunk_stp'', [(''../db/df3/lsl__c_8h.html#a8a64b224cd72b7226005e5dbe8c7c671'', 1, ''lsl_c.h'')]),
     (''lsl_5fpush_5fchunk_5fstr_579'', ''lsl_push_chunk_str'', [(''../db/df3/lsl__c_8h.html#adc2bfcb8e80b50c8ee271d85f290385c'', 1, ''lsl_c.h'')]),
     (''lsl_5fpush_5fchunk_5fstrt_580'', ''lsl_push_chunk_strt'', [(''../db/df3/lsl__c_8h.html#a75428ff735a620f5bf39ced8528b8172'', 1, ''lsl_c.h'')]),
     (''lsl_5fpush_5fchunk_5fstrtn_581'', ''lsl_push_chunk_strtn'', [(''../db/df3/lsl__c_8h.html#a744c9f9300c75ab285b6fb4c3eedb89d'', 1, ''lsl_c.h'')]),
     (''lsl_5fpush_5fchunk_5fstrtnp_582'', ''lsl_push_chunk_strtnp'', [(''../db/df3/lsl__c_8h.html#a5a39973a0ed113c792653f8782b29906'', 1, ''lsl_c.h'')]),
     (''lsl_5fpush_5fchunk_5fstrtp_583'', ''lsl_push_chunk_strtp'', [(''../db/df3/lsl__c_8h.html#a337c1cf22b439b511e8ee6238189f7d6'', 1, ''lsl_c.h'')]),
     (''lsl_5fpush_5fsample_5fbuf_584'', ''lsl_push_sample_buf'', [(''../db/df3/lsl__c_8h.html#a2e1505acff3a75a3e93a60ef4684456b'', 1, ''lsl_c.h'')]),
     (''lsl_5fpush_5fsample_5fbuft_585'', ''lsl_push_sample_buft'', [(''../db/df3/lsl__c_8h.html#a8b8ed17844fa3b269ac65b51c3cac7c5'', 1, ''lsl_c.h'')]),
     (''lsl_5fpush_5fsample_5fbuftp_586'', ''lsl_push_sample_buftp'', [(''../db/df3/lsl__c_8h.html#aa9716749d011b4f5c74e3eb4b7f86e6b'', 1, ''lsl_c.h'')]),
     (''lsl_5fpush_5fsample_5fc_587'', ''lsl_push_sample_c'', [(''../db/df3/lsl__c_8h.html#abac187f58d92db9130d18139d72064a9'', 1, ''lsl_c.h'')]),
     (''lsl_5fpush_5fsample_5fct_588'', ''lsl_push_sample_ct'', [(''../db/df3/lsl__c_8h.html#a3d8187c61f5dd8471e5c00610103cdee'', 1, ''lsl_c.h'')]),
     (''lsl_5fpush_5fsample_5fctp_589'', ''lsl_push_sample_ctp'', [(''../db/df3/lsl__c_8h.html#a79cca3f3f75ae677d973758b8cfd8295'', 1, ''lsl_c.h'')])]"

definition functions_8_7 :: "entry list" where
  "functions_8_7 = map entry_of
    [(''lsl_5fpush_5fsample_5fd_590'', ''lsl_push_sample_d'', [(''../db/df3/lsl__c_8h.html#ae44e19988a72b422344711d5017cb420'', 1, ''lsl_c.h'')]),
     (''lsl_5fpush_5fsample_5fdt_591'', ''lsl_push_sample_dt'', [(''../db/df3/lsl__c_8h.html#a224bb668fb637074adbcf301208c3052'', 1, ''lsl_c.h'')]),
     (''lsl_5fpush_5fsample_5fdtp_592'', ''lsl_push_sample_dtp'', [(''../db/df3/lsl__c_8h.html#af3604739246b9b9175b990eb74fbe183'', 1, ''lsl_c.h'')]),
     (''lsl_5fpush_5fsample_5ff_593'', ''lsl_push_sample_f'', [(''../db/df3/lsl__c_8h.html#aad62f3e27452d2944cd8cb443fc11741'', 1, ''lsl_c.h'')]),
     (''lsl_5fpush_5fsample_5fft_594'', ''lsl_push_sample_ft'', [(''../db/df3/lsl__c_8h.html#af0f78c4ea3b891919666047bf1bdbc90'', 1, ''lsl_c.h'')]),
     (''lsl_5fpush_5fsample_5fftp_595'', ''lsl_push_sample_ftp'', [(''../db/df3/lsl__c_8h.html#a03d1dce2aaa12d3787d0f501c50fe06f'', 1, ''lsl_c.h'')]),
     (''lsl_5fpush_5fsample_5fi_596'', ''lsl_push_sample_i'', [(''../db/df3/lsl__c_8h.html#aa08759dc9e3d361fbc26557fc7a42279'', 1, ''lsl_c.h'')]),
     (''lsl_5fpush_5fsample_5fit_597'', ''lsl_push_sample_it'', [(''../db/df3/lsl__c_8h.html#a2a69d88399fded37ac1f83a76255b464'', 1, ''lsl_c.h'')]),
     (''lsl_5fpush_5fsample_5fitp_598'', ''lsl_push_sample_itp'', [(''../db/df3/lsl__c_8h.html#a2b4dd3c7f41dd81766cdbfe7048fabd9'', 1, ''lsl_c.h'')]),
     (''lsl_5fpush_5fsample_5fl_599'', ''lsl_push_sample_l'', [(''../db/df3/lsl__c_8h.html#a1a0f09509cfc4e87346a15216fa852c6'', 1, ''lsl_c.h'')]),
     (''lsl_5fpush_5fsample_5flt_600'', ''lsl_push_sample_lt'', [(''../db/df3/lsl__c_8h.html#a6e502508ea597c9f9a4a129cddd4e799'', 1, ''lsl_c.h'')]),
     (''lsl_5fpush_5fsample_5fltp_601'', ''lsl_push_sample_ltp'', [(''../db/df3/lsl__c_8h.html#ab3acfb108aa4260818588e75d61307c2'', 1, ''lsl_c.h'')]),
     (''lsl_5fpush_5fsample_5fs_602'', ''lsl_push_sample_s'', [(''../db/df3/lsl__c_8h.html#abc5a012ac671893b58d38d81b4433520'', 1, ''lsl_c.h'')]),
     (''lsl_5fpush_5fsample_5fst_603'', ''lsl_push_sample_st'', [(''../db/df3/lsl__c_8h.html#a3b6c842b79ce6040d5fae9ee5b06a705'', 1, ''lsl_c.h'')]),
     (''lsl_5fpush_5fsample_5fstp_604'', ''lsl_push_sample_stp'', [(''../db/df3/lsl__c_8h.html#a9a8d74a7fef9cdf68bd3a1ecf76109fa'', 1, ''lsl_c.h'')]),
     (''lsl_5fpush_5fsample_5fstr_605'', ''lsl_push_sample_str'', [(''../db/df3/lsl__c_8h.html#a70a523aded3aaa76ba81aeaebb22e8df'', 1, ''lsl_c.h'')]),
     (''lsl_5fpush_5fsample_5fstrt_606'', ''lsl_push_sample_strt'', [(''../db/df3/lsl__c_8h.html#a281c387af4465c231abb4daed25431b3'', 1, ''lsl_c.h'')]),
     (''lsl_5fpush_5fsample_5fstrtp_607'', ''lsl_push_sample_strtp'', [(''../db/df3/lsl__c_8h.html#a72938aad4ca7af001b8a3d8d2d64fa2d'', 1, ''lsl_c.h'')]),
     (''lsl_5fpush_5fsample_5fv_608'', ''lsl_push_sample_v'', [(''../db/df3/lsl__c_8h.html#a9af4120da145ae6ebb904ad0b3bc1b43'', 1, ''lsl_c.h'')]),
     (''lsl_5fpush_5fsample_5fvt_609'', ''lsl_push_sample_vt'', [(''../db/df3/lsl__c_8h.html#a32e4ed2d5e4d064460f88d06fdc0b2d8'', 1, ''lsl_c.h'')]),
     (''lsl_5fpush_5fsample_5fvtp_610'', ''lsl_push_sample_vtp'', [(''../db/df3/lsl__c_8h.html#ac6eb5ec72140ba4ae26c80112ccaac52'', 1, ''lsl_c.h'')])]"

definition functions_8_8 :: "entry list" where
  "functions_8_8 = map entry_of
    [(''lsl_5fremove_5fchild_611'', ''lsl_remove_child'', [(''../db/df3/lsl__c_8h.html#af350135b29fa2aa538f8d3133b7a5ab7'', 1, ''lsl_c.h'')]),
     (''lsl_5fremove_5fchild_5fn_612'', ''lsl_remove_child_n'', [(''../db/df3/lsl__c_8h.html#a854a222cf8909b0b7ec901adbd5f6b13'', 1, ''lsl_c.h'')]),
     (''lsl_5fresolve_5fall_613'', ''lsl_resolve_all'', [(''../db/df3/lsl__c_8h.html#ac9b53eec106d81130b5aa2341ecf8bd2'', 1, ''lsl_c.h'')]),
     (''lsl_5fresolve_5fbypred_614'', ''lsl_resolve_bypred'', [(''../db/df3/lsl__c_8h.html#a0effb3c0c3ea96a144d3f13265d7d588'', 1, ''lsl_c.h'')]),
     (''lsl_5fresolve_5fbyprop_615'', ''lsl_resolve_byprop'', [(''../db/df3/lsl__c_8h.html#ac704c51be54e926f6dcc8dc7d04d8b8b'', 1, ''lsl_c.h'')]),
     (''lsl_5fresolver_5fresults_616'', ''lsl_resolver_results'', [(''../db/df3/lsl__c_8h.html#aa48e803c7206a2b9a9154486c8b59d3e'', 1, ''lsl_c.h'')]),
     (''lsl_5fsamples_5favailable_617'', ''lsl_samples_available'', [(''../db/df3/lsl__c_8h.html#ac2fa5d87f7c6c5343ab9a6f678229f62'', 1, ''lsl_c.h'')]),
     (''lsl_5fset_5fchild_5fvalue_618'', ''lsl_set_child_value'', [(''../db/df3/lsl__c_8h.html#ad8c1b9bd37107e1b19b0f7b6ea4c4bc5'', 1, ''lsl_c.h'')]),
     (''lsl_5fset_5fname_619'', ''lsl_set_name'', [(''../db/df3/lsl__c_8h.html#a339bd96520acc8d5c42fc3c5ab79fa45'', 1, ''lsl_c.h'')]),
     (''lsl_5fset_5fpostprocessing_620'', ''lsl_set_postprocessing'', [(''../db/df3/lsl__c_8h.html#a45543d906bb6b91b375e6c170da9d254'', 1, ''lsl_c.h'')]),
     (''lsl_5fset_5fvalue_621'', ''lsl_set_value'', [(''../db/df3/lsl__c_8h.html#aa856d09f05c334cb8472fefea485de1f'', 1, ''lsl_c.h'')]),
     (''lsl_5fsmoothing_5fhalftime_622'', ''lsl_smoothing_halftime'', [(''../db/df3/lsl__c_8h.html#a1cdbc26daae8f03a632bbc69ca7262c5'', 1, ''lsl_c.h'')]),
     (''lsl_5fstream_5finfo_5fmatches_5fquery_623'', ''lsl_stream_info_matches_query'', [(''../db/df3/lsl__c_8h.html#a8e0d0447b9598bfe0e46a6166de51cc3'', 1, ''lsl_c.h'')]),
     (''lsl_5fstreaminfo_5ffrom_5fxml_624'', ''lsl_streaminfo_from_xml'', [(''../db/df3/lsl__c_8h.html#a2d42a5d991505811d98ba04c6319f41b'', 1, ''lsl_c.h'')]),
     (''lsl_5ftime_5fcorrection_625'', ''lsl_time_correction'', [(''../db/df3/lsl__c_8h.html#a8cc9b06f96e96be28e417c5b21350e4f'', 1, ''lsl_c.h'')]),
     (''lsl_5ftime_5fcorrection_5fex_626'', ''lsl_time_correction_ex'', [(''../db/df3/lsl__c_8h.html#a55bca1a4bdd96a5e8bc967c3a2ff1dab'', 1, ''lsl_c.h'')]),
     (''lsl_5fvalue_627'', ''lsl_value'', [(''../db/df3/lsl__c_8h.html#a96ec833e4b9e6ee9c263bd903f2f7241'', 1, ''lsl_c.h'')]),
     (''lsl_5fwait_5ffor_5fconsumers_628'', ''lsl_wait_for_consumers'', [(''../db/df3/lsl__c_8h.html#a0be546ad8637f4a2fd5aee4d5bae2401'', 1, ''lsl_c.h'')]),
     (''lsl_5fwas_5fclock_5freset_629'', ''lsl_was_clock_reset'', [(''../db/df3/lsl__c_8h.html#ae54c0127325dd0bb977a481533e8ecb9'', 1, ''lsl_c.h'')])]"

definition functions_8 :: "entry list" where
  "functions_8 = functions_8_1 @ functions_8_2 @ functions_8_3 @ functions_8_4 @ functions_8_5 @ functions_8_6 @ functions_8_7 @ functions_8_8"

definition functions_9 :: "entry list" where
  "functions_9 = map entry_of
    [(''main_630'', ''main'', [(''../d1/d3a/_c_make_c_compiler_id_8c.html#a0ddf1224851353fc92bfbff6f499fa97'', 1, ''main(int argc, char *argv[]):&#160;CMakeCCompilerId.c''),
       (''../d3/d66/_c_make_c_x_x_compiler_id_8cpp.html#a0ddf1224851353fc92bfbff6f499fa97'', 1, ''main(int argc, char *argv[]):&#160;CMakeCXXCompilerId.cpp''),
       (''../d0/d3f/lib_2str_a_n_s_iseq_2src_2main_8cpp.html#a3c04138a5bfe5d72780bb7e82a18e627'', 1, ''main(int argc, char **argv):&#160;main.cpp''),
       (''../de/dfb/src_2main_8cpp.html#a3c04138a5bfe5d72780bb7e82a18e627'', 1, ''main(int argc, char **argv):&#160;main.cpp'')]),
     (''matches_5fquery_631'', ''matches_query'', [(''../d1/d6a/classlsl_1_1stream__info.html#a6c3474322d467e8d8198c7a6e4c7ad76'', 1, ''lsl::stream_info'')]),
     (''move_5fdown_632'', ''move_down'', [(''../d2/d52/namespace_e_s_c.html#a0339f1bf272536a7645b373a503b4928'', 1, ''ESC'')]),
     (''move_5fleft_633'', ''move_left'', [(''../d2/d52/namespace_e_s_c.html#a231a32f47e8c90921259a47ce621b1cc'', 1, ''ESC'')]),
     (''move_5fright_634'', ''move_right'', [(''../d2/d52/namespace_e_s_c.html#ac00ec90c2ccac2f1bcb6219b6f081ad5'', 1, ''ESC'')]),
     (''move_5fto_635'', ''move_to'', [(''../d2/d52/namespace_e_s_c.html#aabdbbf48acbc97aadc974b67b8f65d49'', 1, ''ESC'')]),
     (''move_5ftype_636'', ''move_type'', [(''../d2/d52/namespace_e_s_c.html#a2dc320253a173af845d4317a62c45a6f'', 1, ''ESC'')]),
     (''move_5fup_637'', ''move_up'', [(''../d2/d52/namespace_e_s_c.html#ab8b0eda8f8c0d37419c0435cad5230e0'', 1, ''ESC'')])]"

definition functions_a :: "entry list" where
  "functions_a = map entry_of
    [(''name_638'', ''name'', [(''../d1/d6a/classlsl_1_1stream__info.html#a0862e5c580d65ecf9ceb1fcc26f2ca34'', 1, ''lsl::stream_info::name()''),
       (''../d9/d90/classlsl_1_1xml__element.html#a2e449e85b7e763b1d0db4bb19d2eb7c2'', 1, ''lsl::xml_element::name() const'')]),
     (''next_5fsibling_639'', ''next_sibling'', [(''../d9/d90/classlsl_1_1xml__element.html#a9637215f616b660789696e452b0e0591'', 1, ''lsl::xml_element::next_sibling() const''),
       (''../d9/d90/classlsl_1_1xml__element.html#a100590d2a9822261a3f0b0ed7810134d'', 1, ''lsl::xml_element::next_sibling(const std::string &amp;name) const'')]),
     (''nominal_5fsrate_640'', ''nominal_srate'', [(''../d1/d6a/classlsl_1_1stream__info.html#a35b9b9b8947915f9f9518333342e2835'', 1, ''lsl::stream_info'')])]"

definition functions_b :: "entry list" where
  "functions_b = map entry_of
    [(''open_5fconnection_641'', ''open_connection'', [(''../df/dcd/class_communication_1_1_client.html#a66336ae23ea502a9395010407a952664'', 1, ''Communication::Client::open_connection()''),
       (''../d7/d60/class_communication_1_1_h_t_t_p__client.html#a67973a5bc8e92122bc5f98c95990bca7'', 1, ''Communication::HTTP_client::open_connection()'')]),
     (''open_5fstream_642'', ''open_stream'', [(''../d6/dbd/classlsl_1_1stream__inlet.html#ad84029ed0662d755b0544c7652348718'', 1, ''lsl::stream_inlet'')]),
     (''operator_3d_643'', ''operator='', [(''../d1/d6a/classlsl_1_1stream__info.html#a8ce8011b9da9b90c8e11e5c1c477a0a2'', 1, ''lsl::stream_info'')])]"

definition functions_c :: "entry list" where
  "functions_c = map entry_of
    [(''parent_644'', ''parent'', [(''../d9/d90/classlsl_1_1xml__element.html#ae3211be3c10164f366220b638a9dd200'', 1, ''lsl::xml_element'')]),
     (''post_645'', ''post'', [(''../d7/d60/class_communication_1_1_h_t_t_p__client.html#a241e78ccad7bcbc7597cb2dde7d7e402'', 1, ''Communication::HTTP_client'')]),
     (''prepend_5fchild_646'', ''prepend_child'', [(''../d9/d90/classlsl_1_1xml__element.html#abd881c6c5d0d381f9efff2fc25975e7e'', 1, ''lsl::xml_element'')]),
     (''prepend_5fchild_5fvalue_647'', ''prepend_child_value'', [(''../d9/d90/classlsl_1_1xml__element.html#a3e7fde09def517574df99c71a0a05d23'', 1, ''lsl::xml_element'')]),
     (''prepend_5fcopy_648'', ''prepend_copy'', [(''../d9/d90/classlsl_1_1xml__element.html#a1bea6df95134f909611b1c40218828d7'', 1, ''lsl::xml_element'')]),
     (''previous_5fsibling_649'', ''previous_sibling'', [(''../d9/d90/classlsl_1_1xml__element.html#a78c2e0b3d7bda2b5a2d478e3c0cdc87a'', 1, ''lsl::xml_element::previous_sibling() const''),
       (''../d9/d90/classlsl_1_1xml__element.html#a70b90853b7edfaebfe69bc1103ed6b8b'', 1, ''lsl::xml_element::previous_sibling(const std::string &amp;name) const'')]),
     (''protocol_5fversion_650'', ''protocol_version'', [(''../d3/db0/namespacelsl.html#a59009e83a8f0e33643474b373ad2f7f2'', 1, ''lsl'')]),
     (''pull_5fchunk_651'', ''pull_chunk'', [(''../d6/dbd/classlsl_1_1stream__inlet.html#a558f53812f5dc3c19b2cbe0026a61f6a'', 1, ''lsl::stream_inlet::pull_chunk()''),
       (''../d6/dbd/classlsl_1_1stream__inlet.html#af9051121db6ffa6945bd2288b2bf2a15'', 1, ''lsl::stream_inlet::pull_chunk(std::vector&lt; std::vector&lt; T &gt; &gt; &amp;chunk, std::vector&lt; double &gt; &amp;timestamps)''),
       (''../d6/dbd/classlsl_1_1stream__inlet.html#acf6cdc3afdbb4c31c97fb979e4aca632'', 1, ''lsl::stream_inlet::pull_chunk(std::vector&lt; std::vector&lt; T &gt; &gt; &amp;chunk)'')]),
     (''pull_5fchunk_5fmultiplexed_652'', ''pull_chunk_multiplexed'', [(''../d6/dbd/classlsl_1_1stream__inlet.html#abdb890fbad785ed4bc39288fc2f47329'', 1, ''lsl::stream_inlet::pull_chunk_multiplexed(double *data_buffer, double *timestamp_buffer, std::size_t data_buffer_elements, std::size_t timestamp_buffer_elements, double timeout=0.0)''),
       (''../d6/dbd/classlsl_1_1stream__inlet.html#a9ac87825319b345987fdd54e606fd56f'', 1, ''lsl::stream_inlet::pull_chunk_multiplexed(std::vector&lt; T &gt; &amp;chunk, std::vector&lt; double &gt; *timestamps=nullptr, double timeout=0.0, bool append=false)''),
       (''../d6/dbd/classlsl_1_1stream__inlet.html#a6a0f2f39152a2975571d5073d9967646'', 1, ''lsl::stream_inlet::pull_chunk_multiplexed(std::string *data_buffer, double *timestamp_buffer, std::size_t data_buffer_elements, std::size_t timestamp_buffer_elements, double timeout=0.0)''),
       (''../d6/dbd/classlsl_1_1stream__inlet.html#a85ee4c75121e8ee54de22f228a3abae5'', 1, ''lsl::stream_inlet::pull_chunk_multiplexed(char *data_buffer, double *timestamp_buffer, std::size_t data_buffer_elements, std::size_t timestamp_buffer_elements, double timeout=0.0)''),
       (''../d6/dbd/classlsl_1_1stream__inlet.html#a3b93d803b348905bc34747c5820d6364'', 1, ''lsl::stream_inlet::pull_chunk_multiplexed(int32_t *data_buffer, double *timestamp_buffer, std::size_t data_buffer_elements, std::size_t timestamp_buffer_elements, double timeout=0.0)''),
       (''../d6/dbd/classlsl_1_1stream__inlet.html#a97adf2cb7d60e4b47bf25217a2b17964'', 1, ''lsl::stream_inlet::pull_chunk_multiplexed(float *data_buffer, double *timestamp_buffer, std::size_t data_buffer_elements, std::size_t timestamp_buffer_elements, double timeout=0.0)''),
       (''../d6/dbd/classlsl_1_1stream__inlet.html#aa2f2c576a6b5a3bf562878200829bb47'', 1, ''lsl::stream_inlet::pull_chunk_multiplexed(long *data_buffer, double *timestamp_buffer, std::size_t data_buffer_elements, std::size_t timestamp_buffer_elements, double timeout=0.0)''),
       (''../d6/dbd/classlsl_1_1stream__inlet.html#a40e9727b155e274df482e4579e60f3b3'', 1, ''lsl::stream_inlet::pull_chunk_multiplexed(int16_t *data_buffer, double *timestamp_buffer, std::size_t data_buffer_elements, std::size_t timestamp_buffer_elements, double timeout=0.0)'')]),
     (''pull_5fchunk_5fnumeric_5fstructs_653'', ''pull_chunk_numeric_structs'', [(''../d6/dbd/classlsl_1_1stream__inlet.html#a018caadb9a2c61f0c1c6388f7b617008'', 1, ''lsl::stream_inlet::pull_chunk_numeric_structs(std::vector&lt; T &gt; &amp;chunk, std::vector&lt; double &gt; &amp;timestamps)''),
       (''../d6/dbd/classlsl_1_1stream__inlet.html#a4a743ed5df78b05dcc038e73a1d4fb9b'', 1, ''lsl::stream_inlet::pull_chunk_numeric_structs()''),
       (''../d6/dbd/classlsl_1_1stream__inlet.html#ab14a0120e49dcd33f6df0716e6606810'', 1, ''lsl::stream_inlet::pull_chunk_numeric_structs(std::vector&lt; T &gt; &amp;chunk)'')]),
     (''pull_5fnumeric_5fraw_654'', ''pull_numeric_raw'', [(''../d6/dbd/classlsl_1_1stream__inlet.html#ae8f7beaaa82d192d844abdd1531f6b9a'', 1, ''lsl::stream_inlet'')]),
     (''pull_5fnumeric_5fstruct_655'', ''pull_numeric_struct'', [(''../d6/dbd/classlsl_1_1stream__inlet.html#a540c7ba2c23188916ffe311c26c2c081'', 1, ''lsl::stream_inlet'')]),
     (''pull_5fsample_656'', ''pull_sample'', [(''../d6/dbd/classlsl_1_1stream__inlet.html#af3707fbfd5e9f54be73f9d55de55a8fc'', 1, ''lsl::stream_inlet::pull_sample(std::vector&lt; float &gt; &amp;sample, double timeout=FOREVER)''),
       (''../d6/dbd/classlsl_1_1stream__inlet.html#a52e95747438991868e3eb9c791e24f42'', 1, ''lsl::stream_inlet::pull_sample(std::string *buffer, int32_t buffer_elements, double timeout=FOREVER)''),
       (''../d6/dbd/classlsl_1_1stream__inlet.html#a9183e81a122df862eff9ea9797c82b73'', 1, ''lsl::stream_inlet::pull_sample(char *buffer, int32_t buffer_elements, double timeout=FOREVER)''),
       (''../d6/dbd/classlsl_1_1stream__inlet.html#a3462f2634ce13e7f9c764e16a58a71a6'', 1, ''lsl::stream_inlet::pull_sample(int16_t *buffer, int32_t buffer_elements, double timeout=FOREVER)''),
       (''../d6/dbd/classlsl_1_1stream__inlet.html#ae4534102453ccd98f319c746ec1de0a9'', 1, ''lsl::stream_inlet::pull_sample(int32_t *buffer, int32_t buffer_elements, double timeout=FOREVER)''),
       (''../d6/dbd/classlsl_1_1stream__inlet.html#a774c17a647ebd321b5ce4a5450f71202'', 1, ''lsl::stream_inlet::pull_sample(long *buffer, int32_t buffer_elements, double timeout=FOREVER)''),
       (''../d6/dbd/classlsl_1_1stream__inlet.html#acb78fe666a3be090278bc3d1f3eb7619'', 1, ''lsl::stream_inlet::pull_sample(double *buffer, int32_t buffer_elements, double timeout=FOREVER)''),
       (''../d6/dbd/classlsl_1_1stream__inlet.html#a78a36bf33ddfc7101bd15cb5bcb9561d'', 1, ''lsl::stream_inlet::pull_sample(std::vector&lt; std::string &gt; &amp;sample, double timeout=FOREVER)''),
       (''../d6/dbd/classlsl_1_1stream__inlet.html#a58dc91be6ec0d1b83024a169ad0c292b'', 1, ''lsl::stream_inlet::pull_sample(T sample[N], double timeout=FOREVER)''),
       (''../d6/dbd/classlsl_1_1stream__inlet.html#a447dd270fa83d8f1df16963b8601027e'', 1, ''lsl::stream_inlet::pull_sample(std::vector&lt; double &gt; &amp;sample, double timeout=FOREVER)''),
       (''../d6/dbd/classlsl_1_1stream__inlet.html#a80fecf88ba609c7e4898eb16a49f2b75'', 1, ''lsl::stream_inlet::pull_sample(std::vector&lt; long &gt; &amp;sample, double timeout=FOREVER)''),
       (''../d6/dbd/classlsl_1_1stream__inlet.html#a7789d75e1afceaf5187e8bc33a0b99be'', 1, ''lsl::stream_inlet::pull_sample(std::vector&lt; int16_t &gt; &amp;sample, double timeout=FOREVER)''),
       (''../d6/dbd/classlsl_1_1stream__inlet.html#a4a10bd640a10c317ba4a0244cc986146'', 1, ''lsl::stream_inlet::pull_sample(float *buffer, int32_t buffer_elements, double timeout=FOREVER)''),
       (''../d6/dbd/classlsl_1_1stream__inlet.html#a3a2a662e0b723d7f2101b79eb08371b7'', 1, ''lsl::stream_inlet::pull_sample(std::vector&lt; char &gt; &amp;sample, double timeout=FOREVER)''),
       (''../d6/dbd/classlsl_1_1stream__inlet.html#af33558ccbbe57767386278d2255db1a1'', 1, ''lsl::stream_inlet::pull_sample(std::vector&lt; int32_t &gt; &amp;sample, double timeout=FOREVER)'')]),
     (''push_5fchunk_657'', ''push_chunk'', [(''../d6/d55/classlsl_1_1stream__outlet.html#a58427b98e8a60e7d160534078f3e04f8'', 1, ''lsl::stream_outlet::push_chunk(const std::vector&lt; T &gt; &amp;samples, double timestamp=0.0, bool pushthrough=true)''),
       (''../d6/d55/classlsl_1_1stream__outlet.html#a05ff22ae7b36a9e64dc08f71b45913e6'', 1, ''lsl::stream_outlet::push_chunk(const std::vector&lt; T &gt; &amp;samples, const std::vector&lt; double &gt; &amp;timestamps, bool pushthrough=true)'')]),
     (''push_5fchunk_5fmultiplexed_658'', ''push_chunk_multiplexed'', [(''../d6/d55/classlsl_1_1stream__outlet.html#a10acfcf6b1db179f04596def60bc3792'', 1, ''lsl::stream_outlet::push_chunk_multiplexed(const int32_t *data_buffer, const double *timestamp_buffer, std::size_t data_buffer_elements, bool pushthrough=true)''),
       (''../d6/d55/classlsl_1_1stream__outlet.html#a17744ee6e963464fe6442d1e6f1a50f8'', 1, ''lsl::stream_outlet::push_chunk_multiplexed(const std::string *data_buffer, const double *timestamp_buffer, std::size_t data_buffer_elements, bool pushthrough=true)''),
       (''../d6/d55/classlsl_1_1stream__outlet.html#a6ff877ac1b4c96f38ac36a2319a874da'', 1, ''lsl::stream_outlet::push_chunk_multiplexed(const char *data_buffer, const double *timestamp_buffer, std::size_t data_buffer_elements, bool pushthrough=true)''),
       (''../d6/d55/classlsl_1_1stream__outlet.html#ac90405c89feb8c95a493f42a0c749421'', 1, ''lsl::stream_outlet::push_chunk_multiplexed(const int16_t *data_buffer, const double *timestamp_buffer, std::size_t data_buffer_elements, bool pushthrough=true)''),
       (''../d6/d55/classlsl_1_1stream__outlet.html#adafb6b76614ea386917f696bdb272209'', 1, ''lsl::stream_outlet::push_chunk_multiplexed(const std::vector&lt; float &gt; &amp;buffer, double timestamp=0.0, bool pushthrough=true)''),
       (''../d6/d55/classlsl_1_1stream__outlet.html#a3ec413951e8613ce5289a265aaabf6e9'', 1, ''lsl::stream_outlet::push_chunk_multiplexed(const long *data_buffer, const double *timestamp_buffer, std::size_t data_buffer_elements, bool pushthrough=true)''),
       (''../d6/d55/classlsl_1_1stream__outlet.html#a4f476f737355d7c2b128dcc1798f46b7'', 1, ''lsl::stream_outlet::push_chunk_multiplexed(const double *data_buffer, const double *timestamp_buffer, std::size_t data_buffer_elements, bool pushthrough=true)''),
       (''../d6/d55/classlsl_1_1stream__outlet.html#a4cc12f447c2ccfe67a118a3c23215f0d'', 1, ''lsl::stream_outlet::push_chunk_multiplexed(const float *data_buffer, const double *timestamp_buffer, std::size_t data_buffer_elements, bool pushthrough=true)''),
       (''../d6/d55/classlsl_1_1stream__outlet.html#a2b4da4c1a2c3c47f39ed8a3f2cc717a5'', 1, ''lsl::stream_outlet::push_chunk_multiplexed(const std::string *buffer, std::size_t buffer_elements, double timestamp=0.0, bool pushthrough=true)''),
       (''../d6/d55/classlsl_1_1stream__outlet.html#ab462e099798c3055b8f976767b239379'', 1, ''lsl::stream_outlet::push_chunk_multiplexed(const char *buffer, std::size_t buffer_elements, double timestamp=0.0, bool pushthrough=true)''),
       (''../d6/d55/classlsl_1_1stream__outlet.html#a78a48678f40e2bbb591aa0b9da9891d8'', 1, ''lsl::stream_outlet::push_chunk_multiplexed(const int16_t *buffer, std::size_t buffer_elements, double timestamp=0.0, bool pushthrough=true)''),
       (''../d6/d55/classlsl_1_1stream__outlet.html#a161ead63f9a373d69744c3c54a650c1d'', 1, ''lsl::stream_outlet::push_chunk_multiplexed(const int32_t *buffer, std::size_t buffer_elements, double timestamp=0.0, bool pushthrough=true)''),
       (''../d6/d55/classlsl_1_1stream__outlet.html#a4953cee1905211d533cb9bd6b0525099'', 1, ''lsl::stream_outlet::push_chunk_multiplexed(const long *buffer, std::size_t buffer_elements, double timestamp=0.0, bool pushthrough=true)''),
       (''../d6/d55/classlsl_1_1stream__outlet.html#af5d993951e77df22ecb225c3b4aad87c'', 1, ''lsl::stream_outlet::push_chunk_multiplexed(const double *buffer, std::size_t buffer_elements, double timestamp=0.0, bool pushthrough=true)''),
       (''../d6/d55/classlsl_1_1stream__outlet.html#ac31c0f13ba9de7331e520b3b08ede811'', 1, ''lsl::stream_outlet::push_chunk_multiplexed(const std::vector&lt; std::string &gt; &amp;buffer, const std::vector&lt; double &gt; &amp;timestamps, bool pushthrough=true)''),
       (''../d6/d55/classlsl_1_1stream__outlet.html#aa42becb37b937c5d6319dac67a0da4a4'', 1, ''lsl::stream_outlet::push_chunk_multiplexed(const std::vector&lt; double &gt; &amp;buffer, double timestamp=0.0, bool pushthrough=true)''),
       (''../d6/d55/classlsl_1_1stream__outlet.html#abe328c3200c383d160ca0e00029b8124'', 1, ''lsl::stream_outlet::push_chunk_multiplexed(const std::vector&lt; long &gt; &amp;buffer, double timestamp=0.0, bool pushthrough=true)''),
       (''../d6/d55/classlsl_1_1stream__outlet.html#a341840ed1504e2cfa0cc9c15263e030a'', 1, ''lsl::stream_outlet::push_chunk_multiplexed(const std::vector&lt; int32_t &gt; &amp;buffer, double timestamp=0.0, bool pushthrough=true)''),
       (''../d6/d55/classlsl_1_1stream__outlet.html#a874e84f39bf470f755aa46da300244f6'', 1, ''lsl::stream_outlet::push_chunk_multiplexed(const std::vector&lt; int16_t &gt; &amp;buffer, double timestamp=0.0, bool pushthrough=true)''),
       (''../d6/d55/classlsl_1_1stream__outlet.html#af1bedf881293459205b9ba5df7b92051'', 1, ''lsl::stream_outlet::push_chunk_multiplexed(const std::vector&lt; char &gt; &amp;buffer, double timestamp=0.0, bool pushthrough=true)''),
       (''../d6/d55/classlsl_1_1stream__outlet.html#a554027868fa9710470f0c3f057904b4b'', 1, ''lsl::stream_outlet::push_chunk_multiplexed(const std::vector&lt; std::string &gt; &amp;buffer, double timestamp=0.0, bool pushthrough=true)''),
       (''../d6/d55/classlsl_1_1stream__outlet.html#a9075bd46bb9f2d1a0d494dbb7772eb48'', 1, ''lsl::stream_outlet::push_chunk_multiplexed(const std::vector&lt; long &gt; &amp;buffer, const std::vector&lt; double &gt; &amp;timestamps, bool pushthrough=true)''),
       (''../d6/d55/classlsl_1_1stream__outlet.html#ae3875c13d689e11c6d34181b8fadfa5d'', 1, ''lsl::stream_outlet::push_chunk_multiplexed(const std::vector&lt; int32_t &gt; &amp;buffer, const std::vector&lt; double &gt; &amp;timestamps, bool pushthrough=true)''),
       (''../d6/d55/classlsl_1_1stream__outlet.html#a5ceb5a7488582559846637a310056605'', 1, ''lsl::stream_outlet::push_chunk_multiplexed(const std::vector&lt; char &gt; &amp;buffer, const std::vector&lt; double &gt; &amp;timestamps, bool pushthrough=true)''),
       (''../d6/d55/classlsl_1_1stream__outlet.html#ad0a2c2b78e18b423e34ed0282df6b919'', 1, ''lsl::stream_outlet::push_chunk_multiplexed(const std::vector&lt; double &gt; &amp;buffer, const std::vector&lt; double &gt; &amp;timestamps, bool pushthrough=true)''),
       (''../d6/d55/classlsl_1_1stream__outlet.html#a7ea80b891c9aaf7b4c62c715692218cc'', 1, ''lsl::stream_outlet::push_chunk_multiplexed(const float *buffer, std::size_t buffer_elements, double timestamp=0.0, bool pushthrough=true)''),
       (''../d6/d55/classlsl_1_1stream__outlet.html#a9d175090070f408ca7e9c8d8437c02f6'', 1, ''lsl::stream_outlet::push_chunk_multiplexed(const std::vector&lt; int16_t &gt; &amp;buffer, const std::vector&lt; double &gt; &amp;timestamps, bool pushthrough=true)''),
       (''../d6/d55/classlsl_1_1stream__outlet.html#a5944abd4386a9568441ddb352e8df71f'', 1, ''lsl::stream_outlet::push_chunk_multiplexed(const std::vector&lt; float &gt; &amp;buffer, const std::vector&lt; double &gt; &amp;timestamps, bool pushthrough=true)'')]),
     (''push_5fchunk_5fnumeric_5fstructs_659'', ''push_chunk_numeric_structs'', [(''../d6/d55/classlsl_1_1stream__outlet.html#a226b11eae43287c7b72e4d0ca1e812e7'', 1, ''lsl::stream_outlet::push_chunk_numeric_structs(const std::vector&lt; T &gt; &amp;samples, const std::vector&lt; double &gt; &amp;timestamps, bool pushthrough=true)''),
       (''../d6/d55/classlsl_1_1stream__outlet.html#ad7e1405b50bc546c4f742f508aa734cc'', 1, ''lsl::stream_outlet::push_chunk_numeric_structs(const std::vector&lt; T &gt; &amp;samples, double timestamp=0.0, bool pushthrough=true)'')]),
     (''push_5fnumeric_5fraw_660'', ''push_numeric_raw'', [(''../d6/d55/classlsl_1_1stream__outlet.html#a5c394e995a86d03cb71c3d180f855681'', 1, ''lsl::stream_outlet'')]),
     (''push_5fnumeric_5fstruct_661'', ''push_numeric_struct'', [(''../d6/d55/classlsl_1_1stream__outlet.html#a18b2da34bdd1306ef926d97532c43f28'', 1, ''lsl::stream_outlet'')]),
     (''push_5fsample_662'', ''push_sample'', [(''../d6/d55/classlsl_1_1stream__outlet.html#a66a528d5f31f5b5f747994c6de35a80f'', 1, ''lsl::stream_outlet::push_sample(const std::vector&lt; int16_t &gt; &amp;data, double timestamp=0.0, bool pushthrough=true)''),
       (''../d6/d55/classlsl_1_1stream__outlet.html#a510668a6adc032792e8bad06458e58eb'', 1, ''lsl::stream_outlet::push_sample(const std::vector&lt; char &gt; &amp;data, double timestamp=0.0, bool pushthrough=true)''),
       (''../d6/d55/classlsl_1_1stream__outlet.html#a59f69780061e6c8743a4cb566944033b'', 1, ''lsl::stream_outlet::push_sample(const std::vector&lt; std::string &gt; &amp;data, double timestamp=0.0, bool pushthrough=true)''),
       (''../d6/d55/classlsl_1_1stream__outlet.html#a24192e6e3416ad36154bc01be55334c3'', 1, ''lsl::stream_outlet::push_sample(const float *data, double timestamp=0.0, bool pushthrough=true)''),
       (''../d6/d55/classlsl_1_1stream__outlet.html#af0d747a0610be04501117f87c1b010e9'', 1, ''lsl::stream_outlet::push_sample(const double *data, double timestamp=0.0, bool pushthrough=true)''),
       (''../d6/d55/classlsl_1_1stream__outlet.html#a558af80f807399556a2483346e80b935'', 1, ''lsl::stream_outlet::push_sample(const long *data, double timestamp=0.0, bool pushthrough=true)''),
       (''../d6/d55/classlsl_1_1stream__outlet.html#aff1709d7bbf628e9b14d18444c7ac237'', 1, ''lsl::stream_outlet::push_sample(const int32_t *data, double timestamp=0.0, bool pushthrough=true)''),
       (''../d6/d55/classlsl_1_1stream__outlet.html#a675bbe044a5053087e05e0267fe6722a'', 1, ''lsl::stream_outlet::push_sample(const T data[N], double timestamp=0.0, bool pushthrough=true)''),
       (''../d6/d55/classlsl_1_1stream__outlet.html#ae67672d4aa82d500e0a192d38f64d6fe'', 1, ''lsl::stream_outlet::push_sample(const int16_t *data, double timestamp=0.0, bool pushthrough=true)''),
       (''../d6/d55/classlsl_1_1stream__outlet.html#acbb1a237bb410d9794c1961922aca6ad'', 1, ''lsl::stream_outlet::push_sample(const char *data, double timestamp=0.0, bool pushthrough=true)''),
       (''../d6/d55/classlsl_1_1stream__outlet.html#a4c984d8bf178e2321c590aaf81d4da3f'', 1, ''lsl::stream_outlet::push_sample(const std::vector&lt; float &gt; &amp;data, double timestamp=0.0, bool pushthrough=true)''),
       (''../d6/d55/classlsl_1_1stream__outlet.html#a93e571140b73b4324051b8ef4b5606a4'', 1, ''lsl::stream_outlet::push_sample(const std::string *data, double timestamp=0.0, bool pushthrough=true)''),
       (''../d6/d55/classlsl_1_1stream__outlet.html#abd59227041d01d48e90d4d5d05da7662'', 1, ''lsl::stream_outlet::push_sample(const std::vector&lt; double &gt; &amp;data, double timestamp=0.0, bool pushthrough=true)''),
       (''../d6/d55/classlsl_1_1stream__outlet.html#a277f76e889a33849170d5c25fa99c723'', 1, ''lsl::stream_outlet::push_sample(const std::vector&lt; long &gt; &amp;data, double timestamp=0.0, bool pushthrough=true)''),
       (''../d6/d55/classlsl_1_1stream__outlet.html#aa1f12739e569d284896c7f514f55a301'', 1, ''lsl::stream_outlet::push_sample(const std::vector&lt; int32_t &gt; &amp;data, double timestamp=0.0, bool pushthrough=true)'')])]"

definition functions_d :: "entry list" where
  "functions_d = map entry_of
    [(''reads_663'', ''readS'', [(''../df/dcd/class_communication_1_1_client.html#a73fec58648938364cd65d690f50bd7ec'', 1, ''Communication::Client'')]),
     (''remove_5fchild_664'', ''remove_child'', [(''../d9/d90/classlsl_1_1xml__element.html#ad23da57ac3a6a7f3dd849be0a8b44a47'', 1, ''lsl::xml_element::remove_child(const std::string &amp;name)''),
       (''../d9/d90/classlsl_1_1xml__element.html#a0c07b18ef39b7f6d683b9612e2a9104e'', 1, ''lsl::xml_element::remove_child(const xml_element &amp;e)'')]),
     (''resolve_5fstream_665'', ''resolve_stream'', [(''../d3/db0/namespacelsl.html#a4edfbcc31f48f27e8f7c2a36b69cd4b9'', 1, ''lsl::resolve_stream(const std::string &amp;prop, const std::string &amp;value, int32_t minimum=1, double timeout=FOREVER)''),
       (''../d3/db0/namespacelsl.html#a824e14275a55df97d0552a91fc2c4097'', 1, ''lsl::resolve_stream(const std::string &amp;pred, int32_t minimum=1, double timeout=FOREVER)'')]),
     (''resolve_5fstreams_666'', ''resolve_streams'', [(''../d3/db0/namespacelsl.html#a2935ff3db04cd640f69943ad14a61915'', 1, ''lsl'')]),
     (''results_667'', ''results'', [(''../d4/d27/classlsl_1_1continuous__resolver.html#ad88c16d36f8a2dc64f4ae4536445e15a'', 1, ''lsl::continuous_resolver'')])]"

definition functions_e :: "entry list" where
  "functions_e = map entry_of
    [(''sample_5fbytes_668'', ''sample_bytes'', [(''../d1/d6a/classlsl_1_1stream__info.html#ab68def3a9c81c289ba46a5b40c6b4084'', 1, ''lsl::stream_info'')]),
     (''samples_5favailable_669'', ''samples_available'', [(''../d6/dbd/classlsl_1_1stream__inlet.html#a8a4f5ff87d40a696ab4a5d74c03cd52b'', 1, ''lsl::stream_inlet'')]),
     (''server_670'', ''Server'', [(''../dc/db1/class_communication_1_1_server.html#a3571bd6913a55394cde0ced0f404685d'', 1, ''Communication::Server'')]),
     (''session_5fid_671'', ''session_id'', [(''../d1/d6a/classlsl_1_1stream__info.html#a59036c0e83bcb07b711ec7e3e3b15fef'', 1, ''lsl::stream_info'')]),
     (''set_5fchild_5fvalue_672'', ''set_child_value'', [(''../d9/d90/classlsl_1_1xml__element.html#a6fe187e03b36cf8fd5f9d3892e99453f'', 1, ''lsl::xml_element'')]),
     (''set_5fname_673'', ''set_name'', [(''../d9/d90/classlsl_1_1xml__element.html#a8ddf2b35719b273dbb5700f16a2da4e5'', 1, ''lsl::xml_element'')]),
     (''set_5fpostprocessing_674'', ''set_postprocessing'', [(''../d6/dbd/classlsl_1_1stream__inlet.html#aaf40ba9c127a1828933613d0f2b0fc3d'', 1, ''lsl::stream_inlet'')]),
     (''set_5fvalue_675'', ''set_value'', [(''../d9/d90/classlsl_1_1xml__element.html#a3a3bbf2468ba3abd9309764faa61a7a4'', 1, ''lsl::xml_element'')]),
     (''smoothing_5fhalftime_676'', ''smoothing_halftime'', [(''../d6/dbd/classlsl_1_1stream__inlet.html#a2774c1dbcf3fc7b17505e8814921d17c'', 1, ''lsl::stream_inlet'')]),
     (''source_5fid_677'', ''source_id'', [(''../d1/d6a/classlsl_1_1stream__info.html#a1f20c68246a88047978d9b03e14a9d2b'', 1, ''lsl::stream_info'')]),
     (''stream_5finfo_678'', ''stream_info'', [(''../d1/d6a/classlsl_1_1stream__info.html#a874f4899da89168b768cfe9acdd569a0'', 1, ''lsl::stream_info::stream_info(const std::string &amp;name, const std::string &amp;type, int32_t channel_count=1, double nominal_srate=IRREGULAR_RATE, channel_format_t channel_format=cf_float32, const std::string &amp;source_id=std::string())''),
       (''../d1/d6a/classlsl_1_1stream__info.html#a7358ba03d8741b0b194cf9e747405702'', 1, ''lsl::stream_info::stream_info(lsl_streaminfo handle)''),
       (''../d1/d6a/classlsl_1_1stream__info.html#a780a9289cc6f1d57215ed297aecfc78b'', 1, ''lsl::stream_info::stream_info()''),
       (''../d1/d6a/classlsl_1_1stream__info.html#a82fd071574212a20ba4faffac5ce7803'', 1, ''lsl::stream_info::stream_info(const stream_info &amp;rhs)'')]),
     (''stream_5finlet_679'', ''stream_inlet'', [(''../d6/dbd/classlsl_1_1stream__inlet.html#a7c93b7d4fc053b2e3320841371b32919'', 1, ''lsl::stream_inlet'')]),
     (''stream_5foutlet_680'', ''stream_outlet'', [(''../d6/d55/classlsl_1_1stream__outlet.html#ac88c568fdc7429d95c51cd7b58d902cc'', 1, ''lsl::stream_outlet'')])]"

definition functions_f :: "entry list" where
  "functions_f = map entry_of
    [(''time_5fcorrection_681'', ''time_correction'', [(''../d6/dbd/classlsl_1_1stream__inlet.html#a845d95f5fc60fb9cd01fb73d3da75e94'', 1, ''lsl::stream_inlet::time_correction(double timeout=FOREVER)''),
       (''../d6/dbd/classlsl_1_1stream__inlet.html#a9603f3365093f43f9e2bae1b9e9b2cd8'', 1, ''lsl::stream_inlet::time_correction(double *remote_time, double *uncertainty, double timeout=FOREVER)'')]),
     (''timeout_5ferror_682'', ''timeout_error'', [(''../d4/d01/classlsl_1_1timeout__error.html#afbc3b7c957fe3da4021aff3c30e6192f'', 1, ''lsl::timeout_error'')]),
     (''type_683'', ''type'', [(''../d1/d6a/classlsl_1_1stream__info.html#a2162830f6867e9513eba9385eb0cbb99'', 1, ''lsl::stream_info'')])]"

definition functions_10 :: "entry list" where
  "functions_10 = map entry_of
    [(''uid_684'', ''uid'', [(''../d1/d6a/classlsl_1_1stream__info.html#ae6fa890ffd440f298dd02fe71eaf3b82'', 1, ''lsl::stream_info'')])]"

definition functions_11 :: "entry list" where
  "functions_11 = map entry_of
    [(''value_685'', ''value'', [(''../d9/d90/classlsl_1_1xml__element.html#a1a5e666b35c5d7262e4ffbda86b57f73'', 1, ''lsl::xml_element'')]),
     (''version_686'', ''version'', [(''../d1/d6a/classlsl_1_1stream__info.html#aabd83f83d0abe8671e766e97f471dea9'', 1, ''lsl::stream_info'')])]"

definition functions_12 :: "entry list" where
  "functions_12 = map entry_of
    [(''wait_5ffor_5fconsumers_687'', ''wait_for_consumers'', [(''../d6/d55/classlsl_1_1stream__outlet.html#af188fa767e2a70c402486b761e9869fe'', 1, ''lsl::stream_outlet'')]),
     (''was_5fclock_5freset_688'', ''was_clock_reset'', [(''../d6/dbd/classlsl_1_1stream__inlet.html#ac3b8fa8912090ad6607b05cbb5848352'', 1, ''lsl::stream_inlet'')]),
     (''writes_689'', ''writeS'', [(''../df/dcd/class_communication_1_1_client.html#a32bd631bcb3b0a3476b146a0cc49332d'', 1, ''Communication::Client'')])]"

definition functions_13 :: "entry list" where
  "functions_13 = map entry_of
    [(''xml_5felement_690'', ''xml_element'', [(''../d9/d90/classlsl_1_1xml__element.html#a9a2c940a06714662f3cef5e9847e8cae'', 1, ''lsl::xml_element'')])]"

definition functions_14 :: "entry list" where
  "functions_14 = map entry_of
    [(''_7eclient_691'', ''~Client'', [(''../df/dcd/class_communication_1_1_client.html#a77c290beabfe76ea97a9027d66a04f7c'', 1, ''Communication::Client'')]),
     (''_7econtinuous_5fresolver_692'', ''~continuous_resolver'', [(''../d4/d27/classlsl_1_1continuous__resolver.html#a382bc439e5dbb1efcaa32def93ef01df'', 1, ''lsl::continuous_resolver'')]),
     (''_7ehttp_5fclient_693'', ''~HTTP_client'', [(''../d7/d60/class_communication_1_1_h_t_t_p__client.html#a9cbcd819dda4fc2fd0c4295bce974dff'', 1, ''Communication::HTTP_client'')]),
     (''_7eserver_694'', ''~Server'', [(''../dc/db1/class_communication_1_1_server.html#aef74c77dc02436ee1dc6d16310837b12'', 1, ''Communication::Server'')]),
     (''_7estream_5finfo_695'', ''~stream_info'', [(''../d1/d6a/classlsl_1_1stream__info.html#afe4bf312984faef204ee4480385a9bc1'', 1, ''lsl::stream_info'')]),
     (''_7estream_5finlet_696'', ''~stream_inlet'', [(''../d6/dbd/classlsl_1_1stream__inlet.html#ac3b37a1c2e376280c3144f422bb27d79'', 1, ''lsl::stream_inlet'')]),
     (''_7estream_5foutlet_697'', ''~stream_outlet'', [(''../d6/d55/classlsl_1_1stream__outlet.html#aa8a10c88f57686d77bee002aff4c9d4e'', 1, ''lsl::stream_outlet'')])]"

definition functions_pages :: "entry list list" where
  "functions_pages = [functions_0, functions_1, functions_2, functions_3, functions_4, functions_5, functions_6, functions_7, functions_8, functions_9, functions_a, functions_b, functions_c, functions_d, functions_e, functions_f, functions_10, functions_11, functions_12, functions_13, functions_14]"

definition variables_0 :: "entry list" where
  "variables_0 = map entry_of
    [(''deduced_5ftimestamp_698'', ''DEDUCED_TIMESTAMP'', [(''../d3/db0/namespacelsl.html#a57df17d8a2563a18b8b759a0cec696cc'', 1, ''lsl'')])]"

definition variables_1 :: "entry list" where
  "variables_1 = map entry_of
    [(''forever_699'', ''FOREVER'', [(''../d3/db0/namespacelsl.html#a74cfbc9077aca21295117217249721ed'', 1, ''lsl'')])]"

definition variables_2 :: "entry list" where
  "variables_2 = map entry_of
    [(''info_5farch_700'', ''info_arch'', [(''../d1/d3a/_c_make_c_compiler_id_8c.html#a59647e99d304ed33b15cb284c27ed391'', 1, ''info_arch():&#160;CMakeCCompilerId.c''),
       (''../d3/d66/_c_make_c_x_x_compiler_id_8cpp.html#a59647e99d304ed33b15cb284c27ed391'', 1, ''info_arch():&#160;CMakeCXXCompilerId.cpp'')]),
     (''info_5fcompiler_701'', ''info_compiler'', [(''../d1/d3a/_c_make_c_compiler_id_8c.html#a4b0efeb7a5d59313986b3a0390f050f6'', 1, ''info_compiler():&#160;CMakeCCompilerId.c''),
       (''../d3/d66/_c_make_c_x_x_compiler_id_8cpp.html#a4b0efeb7a5d59313986b3a0390f050f6'', 1, ''info_compiler():&#160;CMakeCXXCompilerId.cpp'')]),
     (''info_5flanguage_5fextensions_5fdefault_702'', ''info_language_extensions_default'', [(''../d1/d3a/_c_make_c_compiler_id_8c.html#a0f46a8a39e09d9b803c4766904fd7e99'', 1, ''info_language_extensions_default():&#160;CMakeCCompilerId.c''),
       (''../d3/d66/_c_make_c_x_x_compiler_id_8cpp.html#a0f46a8a39e09d9b803c4766904fd7e99'', 1, ''info_language_extensions_default():&#160;CMakeCXXCompilerId.cpp'')]),
     (''info_5flanguage_5fstandard_5fdefault_703'', ''info_language_standard_default'', [(''../d1/d3a/_c_make_c_compiler_id_8c.html#a4607cccf070750927b458473ca82c090'', 1, ''info_language_standard_default():&#160;CMakeCCompilerId.c''),
       (''../d3/d66/_c_make_c_x_x_compiler_id_8cpp.html#a4607cccf070750927b458473ca82c090'', 1, ''info_language_standard_default():&#160;CMakeCXXCompilerId.cpp'')]),
     (''info_5fplatform_704'', ''info_platform'', [(''../d1/d3a/_c_make_c_compiler_id_8c.html#a2321403dee54ee23f0c2fa849c60f7d4'', 1, ''info_platform():&#160;CMakeCCompilerId.c''),
       (''../d3/d66/_c_make_c_x_x_compiler_id_8cpp.html#a2321403dee54ee23f0c2fa849c60f7d4'', 1, ''info_platform():&#160;CMakeCXXCompilerId.cpp'')]),
     (''irregular_5frate_705'', ''IRREGULAR_RATE'', [(''../d3/db0/namespacelsl.html#ac7ebddefe1091ef2d9459b6f9d79f7ab'', 1, ''lsl'')])]"

definition variables_3 :: "entry list" where
  "variables_3 = map entry_of
    [(''m_5fclient_706'', ''m_client'', [(''../dc/db1/class_communication_1_1_server.html#a3f85e046ae47cdb26aa7d1497dcd64c3'', 1, ''Communication::Server'')]),
     (''m_5ffd_707'', ''m_fd'', [(''../dc/db1/class_communication_1_1_server.html#a3acba24524ce792ff0e8adc5f519c79d'', 1, ''Communication::Server'')])]"

definition variables_4 :: "entry list" where
  "variables_4 = map entry_of
    [(''s_5fverbose_5fmax_708'', ''s_verbose_max'', [(''../dc/d44/class_e_s_c_1_1_c_l_i.html#a9100047dfeea902233c4e50c6bd0b63d'', 1, ''ESC::CLI'')])]"

definition variables_pages :: "entry list list" where
  "variables_pages = [variables_0, variables_1, variables_2, variables_3, variables_4]"

definition typedefs_0 :: "entry list" where
  "typedefs_0 = map entry_of
    [(''lsl_5fcontinuous_5fresolver_709'', ''lsl_continuous_resolver'', [(''../db/df3/lsl__c_8h.html#a78b224e996f3a73b35f4c5d73d721366'', 1, ''lsl_c.h'')]),
     (''lsl_5finlet_710'', ''lsl_inlet'', [(''../db/df3/lsl__c_8h.html#aff5474907fddf8b14300c79c9fda38e6'', 1, ''lsl_c.h'')]),
     (''lsl_5foutlet_711'', ''lsl_outlet'', [(''../db/df3/lsl__c_8h.html#aef1212b6b2cd3e3747fd6e433c30e395'', 1, ''lsl_c.h'')]),
     (''lsl_5fstreaminfo_712'', ''lsl_streaminfo'', [(''../db/df3/lsl__c_8h.html#a6fd635c662a9c80840b53bd7c202499c'', 1, ''lsl_c.h'')]),
     (''lsl_5fxml_5fptr_713'', ''lsl_xml_ptr'', [(''../db/df3/lsl__c_8h.html#ab174601268a7f0a9b60223510ba7d3b8'', 1, ''lsl_c.h'')])]"

definition typedefs_pages :: "entry list list" where
  "typedefs_pages = [typedefs_0]"

definition enums_0 :: "entry list" where
  "enums_0 = map entry_of
    [(''channel_5fformat_5ft_714'', ''channel_format_t'', [(''../d3/db0/namespacelsl.html#a28d50dae6fd82eea8893ce3d63ccd46c'', 1, ''lsl'')])]"

definition enums_1 :: "entry list" where
  "enums_1 = map entry_of
    [(''format_715'', ''FORMAT'', [(''../d2/d52/namespace_e_s_c.html#a93c187b0ecaecc64127a1e7d211562a1'', 1, ''ESC'')])]"

definition enums_2 :: "entry list" where
  "enums_2 = map entry_of
    [(''lsl_5fchannel_5fformat_5ft_716'', ''lsl_channel_format_t'', [(''../db/df3/lsl__c_8h.html#ad346feb32bddd136c3f7797e45047754'', 1, ''lsl_c.h'')]),
     (''lsl_5ferror_5fcode_5ft_717'', ''lsl_error_code_t'', [(''../db/df3/lsl__c_8h.html#a0be58f7d496eb06924ee1825219c6e50'', 1, ''lsl_c.h'')]),
     (''lsl_5fprocessing_5foptions_5ft_718'', ''lsl_processing_options_t'', [(''../db/df3/lsl__c_8h.html#a9246faefd09869849b726df268042333'', 1, ''lsl_c.h'')])]"

definition enums_3 :: "entry list" where
  "enums_3 = map entry_of
    [(''mode_719'', ''Mode'', [(''../df/dcd/class_communication_1_1_client.html#ad5719d96b9a023b9d6e6bfb3c917f6dd'', 1, ''Communication::Client'')])]"

definition enums_4 :: "entry list" where
  "enums_4 = map entry_of
    [(''processing_5foptions_5ft_720'', ''processing_options_t'', [(''../d3/db0/namespacelsl.html#aaa1cffa7d29bb2756522bc2bb069e310'', 1, ''lsl'')])]"

definition enums_pages :: "entry list list" where
  "enums_pages = [enums_0, enums_1, enums_2, enums_3, enums_4]"

definition enumvalues_0 :: "entry list" where
  "enumvalues_0 = map entry_of
    [(''bg_5fblack_721'', ''BG_BLACK'', [(''../d2/d52/namespace_e_s_c.html#a93c187b0ecaecc64127a1e7d211562a1a2d6d9e4c4d26f775a2d2e0f5d4c2fee5'', 1, ''ESC'')]),
     (''bg_5fblue_722'', ''BG_BLUE'', [(''../d2/d52/namespace_e_s_c.html#a93c187b0ecaecc64127a1e7d211562a1a560f8ec0e3a165bffd234986d419d93e'', 1, ''ESC'')]),
     (''bg_5fcyan_723'', ''BG_CYAN'', [(''../d2/d52/namespace_e_s_c.html#a93c187b0ecaecc64127a1e7d211562a1a5c996890ffc321f6f95d51357fa2e00a'', 1, ''ESC'')]),
     (''bg_5fdefault_724'', ''BG_DEFAULT'', [(''../d2/d52/namespace_e_s_c.html#a93c187b0ecaecc64127a1e7d211562a1a1b9e16c203595a107bc8ba10051e08d1'', 1, ''ESC'')]),
     (''bg_5fgreen_725'', ''BG_GREEN'', [(''../d2/d52/namespace_e_s_c.html#a93c187b0ecaecc64127a1e7d211562a1adb93cd7891a72f8d7878e8ea39700b51'', 1, ''ESC'')]),
     (''bg_5fmagenta_726'', ''BG_MAGENTA'', [(''../d2/d52/namespace_e_s_c.html#a93c187b0ecaecc64127a1e7d211562a1ac524cfac8f3b50f5d6ac8a2ce7ac0939'', 1, ''ESC'')]),
     (''bg_5fred_727'', ''BG_RED'', [(''../d2/d52/namespace_e_s_c.html#a93c187b0ecaecc64127a1e7d211562a1a9ca7916a80da428a5e295b0356e5ba91'', 1, ''ESC'')]),
     (''bg_5fwhite_728'', ''BG_WHITE'', [(''../d2/d52/namespace_e_s_c.html#a93c187b0ecaecc64127a1e7d211562a1ae86ea0aceff2ecc297273593ef04d88a'', 1, ''ESC'')]),
     (''bg_5fyellow_729'', ''BG_YELLOW'', [(''../d2/d52/namespace_e_s_c.html#a93c187b0ecaecc64127a1e7d211562a1a3b8d384d180428029a6712830c9b01b7'', 1, ''ESC'')]),
     (''blink_5ffast_730'', ''BLINK_FAST'', [(''../d2/d52/namespace_e_s_c.html#a93c187b0ecaecc64127a1e7d211562a1a0af3dbb99fb41d75e60df73e7bab1fdd'', 1, ''ESC'')]),
     (''blink_5fslow_731'', ''BLINK_SLOW'', [(''../d2/d52/namespace_e_s_c.html#a93c187b0ecaecc64127a1e7d211562a1a5bfaa69787e265bc37dca5b2b61c64a9'', 1, ''ESC'')]),
     (''bold_732'', ''BOLD'', [(''../d2/d52/namespace_e_s_c.html#a93c187b0ecaecc64127a1e7d211562a1a0949b3693d2401dfa4651b442a9c9551'', 1, ''ESC'')])]"

definition enumvalues_1 :: "entry list" where
  "enumvalues_1 = map entry_of
    [(''cf_5fdouble64_733'', ''cf_double64'', [(''../d3/db0/namespacelsl.html#a28d50dae6fd82eea8893ce3d63ccd46cab11213c3d307faf6ef734633ac732eb7'', 1, ''lsl'')]),
     (''cf_5ffloat32_734'', ''cf_float32'', [(''../d3/db0/namespacelsl.html#a28d50dae6fd82eea8893ce3d63ccd46ca46efa3307b337f7de592753642584616'', 1, ''lsl'')]),
     (''cf_5fint16_735'', ''cf_int16'', [(''../d3/db0/namespacelsl.html#a28d50dae6fd82eea8893ce3d63ccd46ca5c625662462c8a30454f6f7f0520e79c'', 1, ''lsl'')]),
     (''cf_5fint32_736'', ''cf_int32'', [(''../d3/db0/namespacelsl.html#a28d50dae6fd82eea8893ce3d63ccd46ca526ce3ccb97e3bb75d913c60ad56c26d'', 1, ''lsl'')]),
     (''cf_5fint64_737'', ''cf_int64'', [(''../d3/db0/namespacelsl.html#a28d50dae6fd82eea8893ce3d63ccd46ca6795e1df0db0b05744fd1fe9623567a0'', 1, ''lsl'')]),
     (''cf_5fint8_738'', ''cf_int8'', [(''../d3/db0/namespacelsl.html#a28d50dae6fd82eea8893ce3d63ccd46ca829ae156932f587fbbc70aed1d46e388'', 1, ''lsl'')]),
     (''cf_5fstring_739'', ''cf_string'', [(''../d3/db0/namespacelsl.html#a28d50dae6fd82eea8893ce3d63ccd46caedadbd6437a22628678edaf287c87048'', 1, ''lsl'')]),
     (''cf_5fundefined_740'', ''cf_undefined'', [(''../d3/db0/namespacelsl.html#a28d50dae6fd82eea8893ce3d63ccd46cadc8092d1092568f7d36d89fa7e813d76'', 1, ''lsl'')]),
     (''cft_5fdouble64_741'', ''cft_double64'', [(''../db/df3/lsl__c_8h.html#ad346feb32bddd136c3f7797e45047754a3286e5e97a2240d0fc4375e6eaf26291'', 1, ''lsl_c.h'')]),
     (''cft_5ffloat32_742'', ''cft_float32'', [(''../db/df3/lsl__c_8h.html#ad346feb32bddd136c3f7797e45047754a0548a6d8aa4e05f6195b7d7667b1a708'', 1, ''lsl_c.h'')]),
     (''cft_5fint16_743'', ''cft_int16'', [(''../db/df3/lsl__c_8h.html#ad346feb32bddd136c3f7797e45047754ab0af40c86cf7de7ff94f52006f924f3b'', 1, ''lsl_c.h'')]),
     (''cft_5fint32_744'', ''cft_int32'', [(''../db/df3/lsl__c_8h.html#ad346feb32bddd136c3f7797e45047754a2048ca1d716016ec3439711eaf352652'', 1, ''lsl_c.h'')]),
     (''cft_5fint64_745'', ''cft_int64'', [(''../db/df3/lsl__c_8h.html#ad346feb32bddd136c3f7797e45047754a90aad2d18937be799aca56fe80794aa5'', 1, ''lsl_c.h'')]),
     (''cft_5fint8_746'', ''cft_int8'', [(''../db/df3/lsl__c_8h.html#ad346feb32bddd136c3f7797e45047754a1b18c0e17a470b9e3bcff23cf49b8d6b'', 1, ''lsl_c.h'')]),
     (''cft_5fstring_747'', ''cft_string'', [(''../db/df3/lsl__c_8h.html#ad346feb32bddd136c3f7797e45047754a8353906afd3439e2f9dc504f571a724d'', 1, ''lsl_c.h'')]),
     (''cft_5fundefined_748'', ''cft_undefined'', [(''../db/df3/lsl__c_8h.html#ad346feb32bddd136c3f7797e45047754a0cbaf0c7054a57713970489abab7fb85'', 1, ''lsl_c.h'')])]"

definition enumvalues_2 :: "entry list" where
  "enumvalues_2 = map entry_of
    [(''dim_749'', ''DIM'', [(''../d2/d52/namespace_e_s_c.html#a93c187b0ecaecc64127a1e7d211562a1a11a52229f2c02ac21863203a9649771d'', 1, ''ESC'')])]"

definition enumvalues_3 :: "entry list" where
  "enumvalues_3 = map entry_of
    [(''fg_5fblack_750'', ''FG_BLACK'', [(''../d2/d52/namespace_e_s_c.html#a93c187b0ecaecc64127a1e7d211562a1a5793314530aabf181b6d61339928a486'', 1, ''ESC'')]),
     (''fg_5fblue_751'', ''FG_BLUE'', [(''../d2/d52/namespace_e_s_c.html#a93c187b0ecaecc64127a1e7d211562a1a2c10a5323218ceb224ef379037cd7e0a'', 1, ''ESC'')]),
     (''fg_5fcyan_752'', ''FG_CYAN'', [(''../d2/d52/namespace_e_s_c.html#a93c187b0ecaecc64127a1e7d211562a1a1c482c45cb9fa67cb290cb6e17ca291d'', 1, ''ESC'')]),
     (''fg_5fdefault_753'', ''FG_DEFAULT'', [(''../d2/d52/namespace_e_s_c.html#a93c187b0ecaecc64127a1e7d211562a1afa9e18e6b89e7b527ac48cdeabb64955'', 1, ''ESC'')]),
     (''fg_5fgreen_754'', ''FG_GREEN'', [(''../d2/d52/namespace_e_s_c.html#a93c187b0ecaecc64127a1e7d211562a1a852050b53ec94746365cf503b9daf77c'', 1, ''ESC'')]),
     (''fg_5fmagenta_755'', ''FG_MAGENTA'', [(''../d2/d52/namespace_e_s_c.html#a93c187b0ecaecc64127a1e7d211562a1a080f5acc7b26dd8c82d66a410dcb003a'', 1, ''ESC'')]),
     (''fg_5fred_756'', ''FG_RED'', [(''../d2/d52/namespace_e_s_c.html#a93c187b0ecaecc64127a1e7d211562a1a51f33f01a9c1d72db09e6a9ac6ddb759'', 1, ''ESC'')]),
     (''fg_5fwhite_757'', ''FG_WHITE'', [(''../d2/d52/namespace_e_s_c.html#a93c187b0ecaecc64127a1e7d211562a1ae751c14d8a6185aa862011b31cef11ee'', 1, ''ESC'')]),
     (''fg_5fyellow_758'', ''FG_YELLOW'', [(''../d2/d52/namespace_e_s_c.html#a93c187b0ecaecc64127a1e7d211562a1a4407cb515758165608277ff094d8aa4e'', 1, ''ESC'')])]"

definition enumvalues_4 :: "entry list" where
  "enumvalues_4 = map entry_of
    [(''hidden_759'', ''HIDDEN'', [(''../d2/d52/namespace_e_s_c.html#a93c187b0ecaecc64127a1e7d211562a1aa554b8e89b9c53e86096c1ee2dca2aae'', 1, ''ESC'')])]"

definition enumvalues_5 :: "entry list" where
  "enumvalues_5 = map entry_of
    [(''italic_760'', ''ITALIC'', [(''../d2/d52/namespace_e_s_c.html#a93c187b0ecaecc64127a1e7d211562a1ad7e062b99a6ddd60a225ecc7d10756b1'', 1, ''ESC'')])]"

definition enumvalues_6 :: "entry list" where
  "enumvalues_6 = map entry_of
    [(''lsl_5fargument_5ferror_761'', ''lsl_argument_error'', [(''../db/df3/lsl__c_8h.html#a0be58f7d496eb06924ee1825219c6e50ad4626ba223d8c0b1535074752b0a0463'', 1, ''lsl_c.h'')]),
     (''lsl_5finternal_5ferror_762'', ''lsl_internal_error'', [(''../db/df3/lsl__c_8h.html#a0be58f7d496eb06924ee1825219c6e50a600b03c28953fa600d6c4e544a14fd99'', 1, ''lsl_c.h'')]),
     (''lsl_5flost_5ferror_763'', ''lsl_lost_error'', [(''../db/df3/lsl__c_8h.html#a0be58f7d496eb06924ee1825219c6e50aa463db40788d297314191e0b41081feb'', 1, ''lsl_c.h'')]),
     (''lsl_5fno_5ferror_764'', ''lsl_no_error'', [(''../db/df3/lsl__c_8h.html#a0be58f7d496eb06924ee1825219c6e50ae6bc06b8e33c37c36c1edae45b4778c1'', 1, ''lsl_c.h'')]),
     (''lsl_5ftimeout_5ferror_765'', ''lsl_timeout_error'', [(''../db/df3/lsl__c_8h.html#a0be58f7d496eb06924ee1825219c6e50a41650b5604c0b7392b79d383a7f59a68'', 1, ''lsl_c.h'')])]"

definition enumvalues_7 :: "entry list" where
  "enumvalues_7 = map entry_of
    [(''post_5fall_766'', ''post_ALL'', [(''../d3/db0/namespacelsl.html#aaa1cffa7d29bb2756522bc2bb069e310a198f16659e71b850e4674ed31d10e914'', 1, ''lsl'')]),
     (''post_5fclocksync_767'', ''post_clocksync'', [(''../d3/db0/namespacelsl.html#aaa1cffa7d29bb2756522bc2bb069e310accf7cbfa478e679b53255d46fd62f888'', 1, ''lsl'')]),
     (''post_5fdejitter_768'', ''post_dejitter'', [(''../d3/db0/namespacelsl.html#aaa1cffa7d29bb2756522bc2bb069e310a83b67e37c1bbcfb4ee7479098386499f'', 1, ''lsl'')]),
     (''post_5fmonotonize_769'', ''post_monotonize'', [(''../d3/db0/namespacelsl.html#aaa1cffa7d29bb2756522bc2bb069e310af7cdac323760b9cb6587733a24f5aecb'', 1, ''lsl'')]),
     (''post_5fnone_770'', ''post_none'', [(''../d3/db0/namespacelsl.html#aaa1cffa7d29bb2756522bc2bb069e310ac01170c28c82b28d721da1971e16424b'', 1, ''lsl'')]),
     (''post_5fthreadsafe_771'', ''post_threadsafe'', [(''../d3/db0/namespacelsl.html#aaa1cffa7d29bb2756522bc2bb069e310a8ebef2c4c98e1a9246e9927e6b0b87c9'', 1, ''lsl'')]),
     (''proc_5fall_772'', ''proc_ALL'', [(''../db/df3/lsl__c_8h.html#a9246faefd09869849b726df268042333ae75b6de5e0af2a7c1377c11fafefbb02'', 1, ''lsl_c.h'')]),
     (''proc_5fclocksync_773'', ''proc_clocksync'', [(''../db/df3/lsl__c_8h.html#a9246faefd09869849b726df268042333ae6bdb3d07024fa143a22417546496828'', 1, ''lsl_c.h'')]),
     (''proc_5fdejitter_774'', ''proc_dejitter'', [(''../db/df3/lsl__c_8h.html#a9246faefd09869849b726df268042333a21f46ef0bbdba358fabe116ae1559c87'', 1, ''lsl_c.h'')]),
     (''proc_5fmonotonize_775'', ''proc_monotonize'', [(''../db/df3/lsl__c_8h.html#a9246faefd09869849b726df268042333ad36e527d8a75f2ef42d48311bbd605c7'', 1, ''lsl_c.h'')]),
     (''proc_5fnone_776'', ''proc_none'', [(''../db/df3/lsl__c_8h.html#a9246faefd09869849b726df268042333a10e08b294e3583a6e1892da753137445'', 1, ''lsl_c.h'')]),
     (''proc_5fthreadsafe_777'', ''proc_threadsafe'', [(''../db/df3/lsl__c_8h.html#a9246faefd09869849b726df268042333af3444351bc66b5a0a8a758774de84438'', 1, ''lsl_c.h'')])]"

definition enumvalues_8 :: "entry list" where
  "enumvalues_8 = map entry_of
    [(''reverse_778'', ''REVERSE'', [(''../d2/d52/namespace_e_s_c.html#a93c187b0ecaecc64127a1e7d211562a1a991c4d7703b3a4062d71ac80b047d0f6'', 1, ''ESC'')])]"

definition enumvalues_9 :: "entry list" where
  "enumvalues_9 = map entry_of
    [(''serial_779'', ''SERIAL'', [(''../df/dcd/class_communication_1_1_client.html#ad5719d96b9a023b9d6e6bfb3c917f6ddae1bf4306016574e334b5aec78b2efaf2'', 1, ''Communication::Client'')]),
     (''strike_780'', ''STRIKE'', [(''../d2/d52/namespace_e_s_c.html#a93c187b0ecaecc64127a1e7d211562a1a712e5fd9a5e6d3b6a565a22b7b6590b2'', 1, ''ESC'')])]"

definition enumvalues_a :: "entry list" where
  "enumvalues_a = map entry_of
    [(''tcp_781'', ''TCP'', [(''../df/dcd/class_communication_1_1_client.html#ad5719d96b9a023b9d6e6bfb3c917f6dda9729ef4069d34c1034ca97789e50b03f'', 1, ''Communication::Client'')])]"

definition enumvalues_b :: "entry list" where
  "enumvalues_b = map entry_of
    [(''udp_782'', ''UDP'', [(''../df/dcd/class_communication_1_1_client.html#ad5719d96b9a023b9d6e6bfb3c917f6dda1b32b1dce6fdf665a44847863b977720'', 1, ''Communication::Client'')]),
     (''underline_783'', ''UNDERLINE'', [(''../d2/d52/namespace_e_s_c.html#a93c187b0ecaecc64127a1e7d211562a1a1ea0683248f9953ca0713e5797ce17d1'', 1, ''ESC'')])]"

definition enumvalues_pages :: "entry list list" where
  "enumvalues_pages = [enumvalues_0, enumvalues_1, enumvalues_2, enumvalues_3, enumvalues_4, enumvalues_5, enumvalues_6, enumvalues_7, enumvalues_8, enumvalues_9, enumvalues_a, enumvalues_b]"

definition defines_0 :: "entry list" where
  "defines_0 = map entry_of
    [(''_5f_5fhas_5finclude_784'', ''__has_include'', [(''../d1/d3a/_c_make_c_compiler_id_8c.html#ae5510d82e4946f1656f4969911c54736'', 1, ''__has_include():&#160;CMakeCCompilerId.c''),
       (''../d3/d66/_c_make_c_x_x_compiler_id_8cpp.html#ae5510d82e4946f1656f4969911c54736'', 1, ''__has_include():&#160;CMakeCXXCompilerId.cpp'')])]"

definition defines_1 :: "entry list" where
  "defines_1 = map entry_of
    [(''architecture_5fid_785'', ''ARCHITECTURE_ID'', [(''../d1/d3a/_c_make_c_compiler_id_8c.html#aba35d0d200deaeb06aee95ca297acb28'', 1, ''ARCHITECTURE_ID():&#160;CMakeCCompilerId.c''),
       (''../d3/d66/_c_make_c_x_x_compiler_id_8cpp.html#aba35d0d200deaeb06aee95ca297acb28'', 1, ''ARCHITECTURE_ID():&#160;CMakeCXXCompilerId.cpp'')])]"

definition defines_2 :: "entry list" where
  "defines_2 = map entry_of
    [(''c_5fversion_786'', ''C_VERSION'', [(''../d1/d3a/_c_make_c_compiler_id_8c.html#adaee3ee7c5a7a22451ea25e762e1d7d5'', 1, ''CMakeCCompilerId.c'')]),
     (''compiler_5fid_787'', ''COMPILER_ID'', [(''../d1/d3a/_c_make_c_compiler_id_8c.html#a81dee0709ded976b2e0319239f72d174'', 1, ''COMPILER_ID():&#160;CMakeCCompilerId.c''),
       (''../d3/d66/_c_make_c_x_x_compiler_id_8cpp.html#a81dee0709ded976b2e0319239f72d174'', 1, ''COMPILER_ID():&#160;CMakeCXXCompilerId.cpp'')]),
     (''crlf_788'', ''CRLF'', [(''../dc/d13/com__client_8hpp.html#a6cb23a858b0a21bdaa644b9181dc415f'', 1, ''com_client.hpp'')]),
     (''cxx_5fstd_789'', ''CXX_STD'', [(''../d3/d66/_c_make_c_x_x_compiler_id_8cpp.html#a34cc889e576a1ae6c84ae9e0a851ba21'', 1, ''CMakeCXXCompilerId.cpp'')])]"

definition defines_3 :: "entry list" where
  "defines_3 = map entry_of
    [(''dec_790'', ''DEC'', [(''../d1/d3a/_c_make_c_compiler_id_8c.html#ad1280362da42492bbc11aa78cbf776ad'', 1, ''DEC():&#160;CMakeCCompilerId.c''),
       (''../d3/d66/_c_make_c_x_x_compiler_id_8cpp.html#ad1280362da42492bbc11aa78cbf776ad'', 1, ''DEC():&#160;CMakeCXXCompilerId.cpp'')])]"

definition defines_4 :: "entry list" where
  "defines_4 = map entry_of
    [(''hex_791'', ''HEX'', [(''../d1/d3a/_c_make_c_compiler_id_8c.html#a46d5d95daa1bef867bd0179594310ed5'', 1, ''HEX():&#160;CMakeCCompilerId.c''),
       (''../d3/d66/_c_make_c_x_x_compiler_id_8cpp.html#a46d5d95daa1bef867bd0179594310ed5'', 1, ''HEX():&#160;CMakeCXXCompilerId.cpp'')])]"

definition defines_5 :: "entry list" where
  "defines_5 = map entry_of
    [(''liblsl_5fc_5fapi_792'', ''LIBLSL_C_API'', [(''../db/df3/lsl__c_8h.html#aafd0ef1813e8be84a1420c4f1df64615'', 1, ''lsl_c.h'')]),
     (''liblsl_5fcompile_5fheader_5fversion_793'', ''LIBLSL_COMPILE_HEADER_VERSION'', [(''../db/df3/lsl__c_8h.html#a8575e959edab9eb4be131982dd260acd'', 1, ''lsl_c.h'')]),
     (''log_794'', ''LOG'', [(''../df/df2/str_a_n_s_iseq_8hpp.html#a3577749fb48d57a158b8ac1a0b3ab57e'', 1, ''strANSIseq.hpp'')]),
     (''lsl_5fdeduced_5ftimestamp_795'', ''LSL_DEDUCED_TIMESTAMP'', [(''../db/df3/lsl__c_8h.html#a5282bfa3df16b30eb308375a45062cfc'', 1, ''lsl_c.h'')]),
     (''lsl_5fforever_796'', ''LSL_FOREVER'', [(''../db/df3/lsl__c_8h.html#a0416859f36f40e91d12cd07aafb34eaa'', 1, ''lsl_c.h'')]),
     (''lsl_5firregular_5frate_797'', ''LSL_IRREGULAR_RATE'', [(''../db/df3/lsl__c_8h.html#ab46eddb74ca540d49497330b132dbff1'', 1, ''lsl_c.h'')]),
     (''lsl_5fno_5fpreference_798'', ''LSL_NO_PREFERENCE'', [(''../db/df3/lsl__c_8h.html#ab94fcb1a355dbfc31f9dd3e0d699e6d6'', 1, ''lsl_c.h'')])]"

definition defines_6 :: "entry list" where
  "defines_6 = map entry_of
    [(''platform_5fid_799'', ''PLATFORM_ID'', [(''../d1/d3a/_c_make_c_compiler_id_8c.html#adbc5372f40838899018fadbc89bd588b'', 1, ''PLATFORM_ID():&#160;CMakeCCompilerId.c''),
       (''../d3/d66/_c_make_c_x_x_compiler_id_8cpp.html#adbc5372f40838899018fadbc89bd588b'', 1, ''PLATFORM_ID():&#160;CMakeCXXCompilerId.cpp'')])]"

definition defines_7 :: "entry list" where
  "defines_7 = map entry_of
    [(''stringify_800'', ''STRINGIFY'', [(''../d1/d3a/_c_make_c_compiler_id_8c.html#a43e1cad902b6477bec893cb6430bd6c8'', 1, ''STRINGIFY():&#160;CMakeCCompilerId.c''),
       (''../d3/d66/_c_make_c_x_x_compiler_id_8cpp.html#a43e1cad902b6477bec893cb6430bd6c8'', 1, ''STRINGIFY():&#160;CMakeCXXCompilerId.cpp'')]),
     (''stringify_5fhelper_801'', ''STRINGIFY_HELPER'', [(''../d1/d3a/_c_make_c_compiler_id_8c.html#a2ae9b72bb13abaabfcf2ee0ba7d3fa1d'', 1, ''STRINGIFY_HELPER():&#160;CMakeCCompilerId.c''),
       (''../d3/d66/_c_make_c_x_x_compiler_id_8cpp.html#a2ae9b72bb13abaabfcf2ee0ba7d3fa1d'', 1, ''STRINGIFY_HELPER():&#160;CMakeCXXCompilerId.cpp'')])]"

definition defines_pages :: "entry list list" where
  "defines_pages = [defines_0, defines_1, defines_2, defines_3, defines_4, defines_5, defines_6, defines_7]"

definition pages_0 :: "entry list" where
  "pages_0 = map entry_of
    [(''built_5flsl_802'', ''built_lsl'', [(''../d5/d45/md__home_aightech_dev_kistler__d_a_q_lib_com_client_tool_lib_built_lsl__r_e_a_d_m_e.html'', 1, '''')])]"

definition pages_1 :: "entry list" where
  "pages_1 = map entry_of
    [(''com_5fclient_803'', ''com_client'', [(''../index.html'', 1, '''')])]"

definition pages_2 :: "entry list" where
  "pages_2 = map entry_of
    [(''stransiseq_804'', ''strANSIseq'', [(''../d8/de6/md__home_aightech_dev_kistler__d_a_q_lib_com_client_lib_str_a_n_s_iseq__r_e_a_d_m_e.html'', 1, '''')])]"

definition pages_pages :: "entry list list" where
  "pages_pages = [pages_0, pages_1, pages_2]"

text \<open>The pages of every section, as the tables of \<open>search/searchdata.js\<close> count them.\<close>

definition section_pages :: "entry list list list" where
  "section_pages =
    [all_pages, classes_pages, namespaces_pages, files_pages, functions_pages, variables_pages, typedefs_pages, enums_pages, enumvalues_pages, defines_pages, pages_pages]"

end
