(* ===== verification/SearchEntries.thy ===== *)
theory SearchEntries
  imports SearchIndex
begin

text \<open>
  What the entries of the shipped index (\<open>search/all_*.js\<close> and the pages of the other sections) have in
  common: the identifier of an entry is the encoded label with a number.
\<close>

section \<open>Entries that spell their labels\<close>

text \<open>
  An entry on the page of a character: its label starts with that character, and its
  identifier is the encoded label with a number.
\<close>

definition entry_ok :: "u16 \<Rightarrow> entry \<Rightarrow> bool" where
  "entry_ok c e \<longleftrightarrow> e_label e \<noteq> [] \<and> lower_unit (hd (e_label e)) = c \<and> (\<forall>c \<in> set (e_label e). c < 0x80) \<and>
     (\<exists>ds. list_all is_digit ds \<and> e_id e = convertToId (map lower_unit (e_label e)) @ 95 # ds)"

text \<open>The same on literals, character by character.\<close>

definition spell :: "char \<Rightarrow> string" where
  "spell c =
     (let n = (of_char c :: nat) in
      if 65 \<le> n \<and> n \<le> 90 then [char_of (n + 32)]
      else if 97 \<le> n \<and> n \<le> 122 \<or> 48 \<le> n \<and> n \<le> 57 then [c]
      else CHR ''_'' # map (\<lambda>d. char_of (if d < 10 then 48 + d else 87 + d)) [n div 16, n mod 16])"

lemma spell_simps:
  "spell CHR ''.'' = ''_2e''" "spell CHR ''1'' = ''1''" "spell CHR ''2'' = ''2''" "spell CHR ''3'' = ''3''"
  "spell CHR ''4'' = ''4''" "spell CHR ''6'' = ''6''" "spell CHR ''8'' = ''8''" "spell CHR ''='' = ''_3d''"
  "spell CHR ''A'' = ''a''" "spell CHR ''B'' = ''b''" "spell CHR ''C'' = ''c''" "spell CHR ''D'' = ''d''"
  "spell CHR ''E'' = ''e''" "spell CHR ''F'' = ''f''" "spell CHR ''G'' = ''g''" "spell CHR ''H'' = ''h''"
  "spell CHR ''I'' = ''i''" "spell CHR ''K'' = ''k''" "spell CHR ''L'' = ''l''" "spell CHR ''M'' = ''m''"
  "spell CHR ''N'' = ''n''" "spell CHR ''O'' = ''o''" "spell CHR ''P'' = ''p''" "spell CHR ''R'' = ''r''"
  "spell CHR ''S'' = ''s''" "spell CHR ''T'' = ''t''" "spell CHR ''U'' = ''u''" "spell CHR ''V'' = ''v''"
  "spell CHR ''W'' = ''w''" "spell CHR ''X'' = ''x''" "spell CHR ''Y'' = ''y''" "spell CHR ''_'' = ''_5f''"
  "spell CHR ''a'' = ''a''" "spell CHR ''b'' = ''b''" "spell CHR ''c'' = ''c''" "spell CHR ''d'' = ''d''"
  "spell CHR ''e'' = ''e''" "spell CHR ''f'' = ''f''" "spell CHR ''g'' = ''g''" "spell CHR ''h'' = ''h''"
  "spell CHR ''i'' = ''i''" "spell CHR ''j'' = ''j''" "spell CHR ''k'' = ''k''" "spell CHR ''l'' = ''l''"
  "spell CHR ''m'' = ''m''" "spell CHR ''n'' = ''n''" "spell CHR ''o'' = ''o''" "spell CHR ''p'' = ''p''"
  "spell CHR ''q'' = ''q''" "spell CHR ''r'' = ''r''" "spell CHR ''s'' = ''s''" "spell CHR ''t'' = ''t''"
  "spell CHR ''u'' = ''u''" "spell CHR ''v'' = ''v''" "spell CHR ''w'' = ''w''" "spell CHR ''x'' = ''x''"
  "spell CHR ''y'' = ''y''" "spell CHR ''z'' = ''z''" "spell CHR ''~'' = ''_7e''"  by code_simp+

lemma ascii_char: "(of_char c :: nat) < 128 \<Longrightarrow> (of_char c :: u16) = of_nat (of_char c)"
  by (metis of_char_of of_nat_of_char)

fun spelled :: "string \<Rightarrow> string" where
  "spelled [] = []"
| "spelled (c # cs) = spell c @ spelled cs"

fun rest_after :: "string \<Rightarrow> string \<Rightarrow> string option" where
  "rest_after [] s = Some s"
| "rest_after (x # xs) [] = None"
| "rest_after (x # xs) (y # ys) = (if x = y then rest_after xs ys else None)"

definition known_char :: "char \<Rightarrow> bool" where
  "known_char c \<longleftrightarrow> c \<in> set ''.123468=ABCDEFGHIKLMNOPRSTUVWXY_abcdefghijklmnopqrstuvwxyz~''"

definition named_ok :: "char \<Rightarrow> string \<Rightarrow> string \<Rightarrow> bool" where
  "named_ok c i label \<longleftrightarrow> (case label of [] \<Rightarrow> False | x # xs \<Rightarrow> spell x = spell c) \<and> list_all known_char label \<and>
     (case rest_after (spelled label @ ''_'') i of None \<Rightarrow> False | Some ds \<Rightarrow> list_all (\<lambda>d. d \<in> set ''0123456789'') ds)"

lemma known_units:
  "list_all (\<lambda>c. js (spell c) = convertToId_unit (lower_unit (of_char c)) \<and> (of_char c :: u16) < 0x80) ''.123468=ABCDEFGHIKLMNOPRSTUVWXY_abcdefghijklmnopqrstuvwxyz~''"
  by code_simp

lemma known_chars:
  "known_char CHR ''.''" "known_char CHR ''1''" "known_char CHR ''2''" "known_char CHR ''3''" "known_char CHR ''4''"
  "known_char CHR ''6''" "known_char CHR ''8''" "known_char CHR ''=''" "known_char CHR ''A''" "known_char CHR ''B''"
  "known_char CHR ''C''" "known_char CHR ''D''" "known_char CHR ''E''" "known_char CHR ''F''" "known_char CHR ''G''"
  "known_char CHR ''H''" "known_char CHR ''I''" "known_char CHR ''K''" "known_char CHR ''L''" "known_char CHR ''M''"
  "known_char CHR ''N''" "known_char CHR ''O''" "known_char CHR ''P''" "known_char CHR ''R''" "known_char CHR ''S''"
  "known_char CHR ''T''" "known_char CHR ''U''" "known_char CHR ''V''" "known_char CHR ''W''" "known_char CHR ''X''"
  "known_char CHR ''Y''" "known_char CHR ''_''" "known_char CHR ''a''" "known_char CHR ''b''" "known_char CHR ''c''"
  "known_char CHR ''d''" "known_char CHR ''e''" "known_char CHR ''f''" "known_char CHR ''g''" "known_char CHR ''h''"
  "known_char CHR ''i''" "known_char CHR ''j''" "known_char CHR ''k''" "known_char CHR ''l''" "known_char CHR ''m''"
  "known_char CHR ''n''" "known_char CHR ''o''" "known_char CHR ''p''" "known_char CHR ''q''" "known_char CHR ''r''"
  "known_char CHR ''s''" "known_char CHR ''t''" "known_char CHR ''u''" "known_char CHR ''v''" "known_char CHR ''w''"
  "known_char CHR ''x''" "known_char CHR ''y''" "known_char CHR ''z''" "known_char CHR ''~''"
  by (simp_all add: known_char_def)

lemma digit_units: "list_all (\<lambda>d. is_digit (of_char d)) ''0123456789''"
  by code_simp

lemma spelled_js:
  assumes "list_all known_char s"
  shows "js (spelled s) = convertToId (map lower_unit (js s))"
proof -
  have "js (spell c) = convertToId_unit (lower_unit (of_char c))" if "known_char c" for c
    using known_units that by (simp only: list_all_iff known_char_def)
  with assms show ?thesis by (induction s) (simp_all add: js_append, simp_all add: js_def)
qed

lemma rest_after_Some: "rest_after p s = Some r \<Longrightarrow> s = p @ r"
  by (induction p s rule: rest_after.induct) (auto split: if_splits)

lemma named_entry_ok:
  assumes "named_ok c i label" "known_char c"
  shows "entry_ok (lower_unit (of_char c)) (entry_of (i, label, ts))"
proof -
  obtain x xs where l: "label = x # xs" "spell x = spell c" "list_all known_char label"
    using assms(1) by (cases label) (auto simp: named_ok_def)
  obtain ds where ds: "rest_after (spelled label @ ''_'') i = Some ds" "list_all (\<lambda>d. d \<in> set ''0123456789'') ds"
    using assms(1) by (auto simp: named_ok_def split: option.splits)
  have unit: "js (spell c) = convertToId_unit (lower_unit (of_char c))" "(of_char c :: u16) < 0x80"
    if "known_char c" for c
    using known_units that by (simp_all only: list_all_iff known_char_def)
  have "known_char x" using l by simp
  then have "convertToId_unit (lower_unit (of_char x)) = convertToId_unit (lower_unit (of_char c))"
    using unit(1) [OF assms(2)] unit(1) [of x] l(2) by simp
  then have first: "lower_unit (of_char x) = lower_unit (of_char c)"
    using prefix_convertToId_unit [of "lower_unit (of_char x)" "[]" "lower_unit (of_char c)" "[]"] by simp
  have ascii: "\<forall>u \<in> set (js label). u < 0x80" using l(3) unit(2) by (auto simp: js_def list_all_iff)
  have "i = spelled label @ ''_'' @ ds" using rest_after_Some [OF ds(1)] by simp
  then have "js i = convertToId (map lower_unit (js label)) @ 95 # js ds"
    using spelled_js [OF l(3)] by (simp only: js_append) (simp add: js_def)
  moreover have "list_all is_digit (js ds)"
    using ds(2) digit_units by (simp only: list_all_iff js_def set_map ball_simps) blast
  ultimately show ?thesis using first ascii l(1)
    by (auto simp: entry_ok_def js_def)
qed

lemma page_ok:
  assumes "list_all (\<lambda>(i, label, ts). named_ok c i label) es" "known_char c"
  shows "list_all (entry_ok (lower_unit (of_char c))) (map entry_of es)"
  using assms(1) by (induction es) (auto simp del: entry_of.simps intro: named_entry_ok assms(2))

end
