(* ===== verification/AllEntries.thy ===== *)
theory AllEntries
  imports SearchEntries
begin

text \<open>The entries of the section \<open>All\<close>, page by page.\<close>

lemma ok_all_0: "list_all (entry_ok (lower_unit (of_char CHR ''_''))) all_0"
  unfolding all_0_def by (rule page_ok) (simp_all add: named_ok_def spell_simps known_chars)

lemma ok_all_1: "list_all (entry_ok (lower_unit (of_char CHR ''a''))) all_1"
  unfolding all_1_def by (rule page_ok) (simp_all add: named_ok_def spell_simps known_chars)

lemma ok_all_2: "list_all (entry_ok (lower_unit (of_char CHR ''b''))) all_2"
  unfolding all_2_def by (rule page_ok) (simp_all add: named_ok_def spell_simps known_chars)

lemma ok_all_3: "list_all (entry_ok (lower_unit (of_char CHR ''c''))) all_3"
  unfolding all_3_def by (rule page_ok) (simp_all add: named_ok_def spell_simps known_chars)

lemma ok_all_4: "list_all (entry_ok (lower_unit (of_char CHR ''d''))) all_4"
  unfolding all_4_def by (rule page_ok) (simp_all add: named_ok_def spell_simps known_chars)

lemma ok_all_5: "list_all (entry_ok (lower_unit (of_char CHR ''e''))) all_5"
  unfolding all_5_def by (rule page_ok) (simp_all add: named_ok_def spell_simps known_chars)

lemma ok_all_6: "list_all (entry_ok (lower_unit (of_char CHR ''f''))) all_6"
  unfolding all_6_def by (rule page_ok) (simp_all add: named_ok_def spell_simps known_chars)

lemma ok_all_7: "list_all (entry_ok (lower_unit (of_char CHR ''g''))) all_7"
  unfolding all_7_def by (rule page_ok) (simp_all add: named_ok_def spell_simps known_chars)

lemma ok_all_8: "list_all (entry_ok (lower_unit (of_char CHR ''h''))) all_8"
  unfolding all_8_def by (rule page_ok) (simp_all add: named_ok_def spell_simps known_chars)

lemma ok_all_9: "list_all (entry_ok (lower_unit (of_char CHR ''i''))) all_9"
  unfolding all_9_def by (rule page_ok) (simp_all add: named_ok_def spell_simps known_chars)

lemma ok_all_a_1: "list_all (entry_ok (lower_unit (of_char CHR ''l''))) all_a_1"
  unfolding all_a_1_def by (rule page_ok) (simp_all add: named_ok_def spell_simps known_chars)

lemma ok_all_a_2: "list_all (entry_ok (lower_unit (of_char CHR ''l''))) all_a_2"
  unfolding all_a_2_def by (rule page_ok) (simp_all add: named_ok_def spell_simps known_chars)

lemma ok_all_a_3: "list_all (entry_ok (lower_unit (of_char CHR ''l''))) all_a_3"
  unfolding all_a_3_def by (rule page_ok) (simp_all add: named_ok_def spell_simps known_chars)

lemma ok_all_a_4: "list_all (entry_ok (lower_unit (of_char CHR ''l''))) all_a_4"
  unfolding all_a_4_def by (rule page_ok) (simp_all add: named_ok_def spell_simps known_chars)

lemma ok_all_a_5: "list_all (entry_ok (lower_unit (of_char CHR ''l''))) all_a_5"
  unfolding all_a_5_def by (rule page_ok) (simp_all add: named_ok_def spell_simps known_chars)

lemma ok_all_a_6: "list_all (entry_ok (lower_unit (of_char CHR ''l''))) all_a_6"
  unfolding all_a_6_def by (rule page_ok) (simp_all add: named_ok_def spell_simps known_chars)

lemma ok_all_a_7: "list_all (entry_ok (lower_unit (of_char CHR ''l''))) all_a_7"
  unfolding all_a_7_def by (rule page_ok) (simp_all add: named_ok_def spell_simps known_chars)

lemma ok_all_a_8: "list_all (entry_ok (lower_unit (of_char CHR ''l''))) all_a_8"
  unfolding all_a_8_def by (rule page_ok) (simp_all add: named_ok_def spell_simps known_chars)

lemma ok_all_a_9: "list_all (entry_ok (lower_unit (of_char CHR ''l''))) all_a_9"
  unfolding all_a_9_def by (rule page_ok) (simp_all add: named_ok_def spell_simps known_chars)

lemma ok_all_b: "list_all (entry_ok (lower_unit (of_char CHR ''m''))) all_b"
  unfolding all_b_def by (rule page_ok) (simp_all add: named_ok_def spell_simps known_chars)

lemma ok_all_c: "list_all (entry_ok (lower_unit (of_char CHR ''n''))) all_c"
  unfolding all_c_def by (rule page_ok) (simp_all add: named_ok_def spell_simps known_chars)

lemma ok_all_d: "list_all (entry_ok (lower_unit (of_char CHR ''o''))) all_d"
  unfolding all_d_def by (rule page_ok) (simp_all add: named_ok_def spell_simps known_chars)

lemma ok_all_e: "list_all (entry_ok (lower_unit (of_char CHR ''p''))) all_e"
  unfolding all_e_def by (rule page_ok) (simp_all add: named_ok_def spell_simps known_chars)

lemma ok_all_f: "list_all (entry_ok (lower_unit (of_char CHR ''r''))) all_f"
  unfolding all_f_def by (rule page_ok) (simp_all add: named_ok_def spell_simps known_chars)

lemma ok_all_10: "list_all (entry_ok (lower_unit (of_char CHR ''s''))) all_10"
  unfolding all_10_def by (rule page_ok) (simp_all add: named_ok_def spell_simps known_chars)

lemma ok_all_11: "list_all (entry_ok (lower_unit (of_char CHR ''t''))) all_11"
  unfolding all_11_def by (rule page_ok) (simp_all add: named_ok_def spell_simps known_chars)

lemma ok_all_12: "list_all (entry_ok (lower_unit (of_char CHR ''u''))) all_12"
  unfolding all_12_def by (rule page_ok) (simp_all add: named_ok_def spell_simps known_chars)

lemma ok_all_13: "list_all (entry_ok (lower_unit (of_char CHR ''v''))) all_13"
  unfolding all_13_def by (rule page_ok) (simp_all add: named_ok_def spell_simps known_chars)

lemma ok_all_14: "list_all (entry_ok (lower_unit (of_char CHR ''w''))) all_14"
  unfolding all_14_def by (rule page_ok) (simp_all add: named_ok_def spell_simps known_chars)

lemma ok_all_15: "list_all (entry_ok (lower_unit (of_char CHR ''x''))) all_15"
  unfolding all_15_def by (rule page_ok) (simp_all add: named_ok_def spell_simps known_chars)

lemma ok_all_16: "list_all (entry_ok (lower_unit (of_char CHR ''~''))) all_16"
  unfolding all_16_def by (rule page_ok) (simp_all add: named_ok_def spell_simps known_chars)

lemma ok_all_a: "list_all (entry_ok (lower_unit (of_char CHR ''l''))) all_a"
  by (simp only: all_a_def list_all_append ok_all_a_1 ok_all_a_2 ok_all_a_3 ok_all_a_4 ok_all_a_5 ok_all_a_6
      ok_all_a_7 ok_all_a_8 ok_all_a_9 simp_thms)

lemma ok_all_pages:
  "list_all2 (\<lambda>c es. list_all (entry_ok c) es) (map (\<lambda>c. lower_unit (of_char c)) ''_abcdefghilmnoprstuvwx~'') all_pages"
  by (simp only: list.map all_pages_def list_all2_Cons list_all2_Nil simp_thms
      ok_all_0 ok_all_1 ok_all_2 ok_all_3 ok_all_4 ok_all_5 ok_all_6 ok_all_7
      ok_all_8 ok_all_9 ok_all_a ok_all_b ok_all_c ok_all_d ok_all_e ok_all_f
      ok_all_10 ok_all_11 ok_all_12 ok_all_13 ok_all_14 ok_all_15 ok_all_16)

end
