(* ===== verification/SectionEntries.thy ===== *)
theory SectionEntries
  imports SearchEntries SearchSections
begin

text \<open>The entries of the other sections, page by page.\<close>

lemma ok_classes_0: "list_all (entry_ok (lower_unit (of_char CHR ''c''))) classes_0"
  unfolding classes_0_def by (rule page_ok) (simp_all add: named_ok_def spell_simps known_chars)

lemma ok_classes_1: "list_all (entry_ok (lower_unit (of_char CHR ''h''))) classes_1"
  unfolding classes_1_def by (rule page_ok) (simp_all add: named_ok_def spell_simps known_chars)

lemma ok_classes_2: "list_all (entry_ok (lower_unit (of_char CHR ''l''))) classes_2"
  unfolding classes_2_def by (rule page_ok) (simp_all add: named_ok_def spell_simps known_chars)

lemma ok_classes_3: "list_all (entry_ok (lower_unit (of_char CHR ''s''))) classes_3"
  unfolding classes_3_def by (rule page_ok) (simp_all add: named_ok_def spell_simps known_chars)

lemma ok_classes_4: "list_all (entry_ok (lower_unit (of_char CHR ''t''))) classes_4"
  unfolding classes_4_def by (rule page_ok) (simp_all add: named_ok_def spell_simps known_chars)

lemma ok_classes_5: "list_all (entry_ok (lower_unit (of_char CHR ''x''))) classes_5"
  unfolding classes_5_def by (rule page_ok) (simp_all add: named_ok_def spell_simps known_chars)

lemma ok_namespaces_0: "list_all (entry_ok (lower_unit (of_char CHR ''c''))) namespaces_0"
  unfolding namespaces_0_def by (rule page_ok) (simp_all add: named_ok_def spell_simps known_chars)

lemma ok_namespaces_1: "list_all (entry_ok (lower_unit (of_char CHR ''e''))) namespaces_1"
  unfolding namespaces_1_def by (rule page_ok) (simp_all add: named_ok_def spell_simps known_chars)

lemma ok_namespaces_2: "list_all (entry_ok (lower_unit (of_char CHR ''l''))) namespaces_2"
  unfolding namespaces_2_def by (rule page_ok) (simp_all add: named_ok_def spell_simps known_chars)

lemma ok_files_0: "list_all (entry_ok (lower_unit (of_char CHR ''c''))) files_0"
  unfolding files_0_def by (rule page_ok) (simp_all add: named_ok_def spell_simps known_chars)

lemma ok_files_1: "list_all (entry_ok (lower_unit (of_char CHR ''h''))) files_1"
  unfolding files_1_def by (rule page_ok) (simp_all add: named_ok_def spell_simps known_chars)

lemma ok_files_2: "list_all (entry_ok (lower_unit (of_char CHR ''l''))) files_2"
  unfolding files_2_def by (rule page_ok) (simp_all add: named_ok_def spell_simps known_chars)

lemma ok_files_3: "list_all (entry_ok (lower_unit (of_char CHR ''m''))) files_3"
  unfolding files_3_def by (rule page_ok) (simp_all add: named_ok_def spell_simps known_chars)

lemma ok_files_4: "list_all (entry_ok (lower_unit (of_char CHR ''r''))) files_4"
  unfolding files_4_def by (rule page_ok) (simp_all add: named_ok_def spell_simps known_chars)

lemma ok_files_5: "list_all (entry_ok (lower_unit (of_char CHR ''s''))) files_5"
  unfolding files_5_def by (rule page_ok) (simp_all add: named_ok_def spell_simps known_chars)

lemma ok_functions_0: "list_all (entry_ok (lower_unit (of_char CHR ''a''))) functions_0"
  unfolding functions_0_def by (rule page_ok) (simp_all add: named_ok_def spell_simps known_chars)

lemma ok_functions_1: "list_all (entry_ok (lower_unit (of_char CHR ''c''))) functions_1"
  unfolding functions_1_def by (rule page_ok) (simp_all add: named_ok_def spell_simps known_chars)

lemma ok_functions_2: "list_all (entry_ok (lower_unit (of_char CHR ''d''))) functions_2"
  unfolding functions_2_def by (rule page_ok) (simp_all add: named_ok_def spell_simps known_chars)

lemma ok_functions_3: "list_all (entry_ok (lower_unit (of_char CHR ''e''))) functions_3"
  unfolding functions_3_def by (rule page_ok) (simp_all add: named_ok_def spell_simps known_chars)

lemma ok_functions_4: "list_all (entry_ok (lower_unit (of_char CHR ''f''))) functions_4"
  unfolding functions_4_def by (rule page_ok) (simp_all add: named_ok_def spell_simps known_chars)

lemma ok_functions_5: "list_all (entry_ok (lower_unit (of_char CHR ''g''))) functions_5"
  unfolding functions_5_def by (rule page_ok) (simp_all add: named_ok_def spell_simps known_chars)

lemma ok_functions_6: "list_all (entry_ok (lower_unit (of_char CHR ''h''))) functions_6"
  unfolding functions_6_def by (rule page_ok) (simp_all add: named_ok_def spell_simps known_chars)

lemma ok_functions_7: "list_all (entry_ok (lower_unit (of_char CHR ''i''))) functions_7"
  unfolding functions_7_def by (rule page_ok) (simp_all add: named_ok_def spell_simps known_chars)

lemma ok_functions_8_1: "list_all (entry_ok (lower_unit (of_char CHR ''l''))) functions_8_1"
  unfolding functions_8_1_def by (rule page_ok) (simp_all add: named_ok_def spell_simps known_chars)

lemma ok_functions_8_2: "list_all (entry_ok (lower_unit (of_char CHR ''l''))) functions_8_2"
  unfolding functions_8_2_def by (rule page_ok) (simp_all add: named_ok_def spell_simps known_chars)

lemma ok_functions_8_3: "list_all (entry_ok (lower_unit (of_char CHR ''l''))) functions_8_3"
  unfolding functions_8_3_def by (rule page_ok) (simp_all add: named_ok_def spell_simps known_chars)

lemma ok_functions_8_4: "list_all (entry_ok (lower_unit (of_char CHR ''l''))) functions_8_4"
  unfolding functions_8_4_def by (rule page_ok) (simp_all add: named_ok_def spell_simps known_chars)

lemma ok_functions_8_5: "list_all (entry_ok (lower_unit (of_char CHR ''l''))) functions_8_5"
  unfolding functions_8_5_def by (rule page_ok) (simp_all add: named_ok_def spell_simps known_chars)

lemma ok_functions_8_6: "list_all (entry_ok (lower_unit (of_char CHR ''l''))) functions_8_6"
  unfolding functions_8_6_def by (rule page_ok) (simp_all add: named_ok_def spell_simps known_chars)

lemma ok_functions_8_7: "list_all (entry_ok (lower_unit (of_char CHR ''l''))) functions_8_7"
  unfolding functions_8_7_def by (rule page_ok) (simp_all add: named_ok_def spell_simps known_chars)

lemma ok_functions_8_8: "list_all (entry_ok (lower_unit (of_char CHR ''l''))) functions_8_8"
  unfolding functions_8_8_def by (rule page_ok) (simp_all add: named_ok_def spell_simps known_chars)

lemma ok_functions_8: "list_all (entry_ok (lower_unit (of_char CHR ''l''))) functions_8"
  by (simp only: functions_8_def list_all_append ok_functions_8_1 ok_functions_8_2 ok_functions_8_3 ok_functions_8_4 ok_functions_8_5 ok_functions_8_6 ok_functions_8_7 ok_functions_8_8 simp_thms)

lemma ok_functions_9: "list_all (entry_ok (lower_unit (of_char CHR ''m''))) functions_9"
  unfolding functions_9_def by (rule page_ok) (simp_all add: named_ok_def spell_simps known_chars)

lemma ok_functions_a: "list_all (entry_ok (lower_unit (of_char CHR ''n''))) functions_a"
  unfolding functions_a_def by (rule page_ok) (simp_all add: named_ok_def spell_simps known_chars)

lemma ok_functions_b: "list_all (entry_ok (lower_unit (of_char CHR ''o''))) functions_b"
  unfolding functions_b_def by (rule page_ok) (simp_all add: named_ok_def spell_simps known_chars)

lemma ok_functions_c: "list_all (entry_ok (lower_unit (of_char CHR ''p''))) functions_c"
  unfolding functions_c_def by (rule page_ok) (simp_all add: named_ok_def spell_simps known_chars)

lemma ok_functions_d: "list_all (entry_ok (lower_unit (of_char CHR ''r''))) functions_d"
  unfolding functions_d_def by (rule page_ok) (simp_all add: named_ok_def spell_simps known_chars)

lemma ok_functions_e: "list_all (entry_ok (lower_unit (of_char CHR ''s''))) functions_e"
  unfolding functions_e_def by (rule page_ok) (simp_all add: named_ok_def spell_simps known_chars)

lemma ok_functions_f: "list_all (entry_ok (lower_unit (of_char CHR ''t''))) functions_f"
  unfolding functions_f_def by (rule page_ok) (simp_all add: named_ok_def spell_simps known_chars)

lemma ok_functions_10: "list_all (entry_ok (lower_unit (of_char CHR ''u''))) functions_10"
  unfolding functions_10_def by (rule page_ok) (simp_all add: named_ok_def spell_simps known_chars)

lemma ok_functions_11: "list_all (entry_ok (lower_unit (of_char CHR ''v''))) functions_11"
  unfolding functions_11_def by (rule page_ok) (simp_all add: named_ok_def spell_simps known_chars)

lemma ok_functions_12: "list_all (entry_ok (lower_unit (of_char CHR ''w''))) functions_12"
  unfolding functions_12_def by (rule page_ok) (simp_all add: named_ok_def spell_simps known_chars)

lemma ok_functions_13: "list_all (entry_ok (lower_unit (of_char CHR ''x''))) functions_13"
  unfolding functions_13_def by (rule page_ok) (simp_all add: named_ok_def spell_simps known_chars)

lemma ok_functions_14: "list_all (entry_ok (lower_unit (of_char CHR ''~''))) functions_14"
  unfolding functions_14_def by (rule page_ok) (simp_all add: named_ok_def spell_simps known_chars)

lemma ok_variables_0: "list_all (entry_ok (lower_unit (of_char CHR ''d''))) variables_0"
  unfolding variables_0_def by (rule page_ok) (simp_all add: named_ok_def spell_simps known_chars)

lemma ok_variables_1: "list_all (entry_ok (lower_unit (of_char CHR ''f''))) variables_1"
  unfolding variables_1_def by (rule page_ok) (simp_all add: named_ok_def spell_simps known_chars)

lemma ok_variables_2: "list_all (entry_ok (lower_unit (of_char CHR ''i''))) variables_2"
  unfolding variables_2_def by (rule page_ok) (simp_all add: named_ok_def spell_simps known_chars)

lemma ok_variables_3: "list_all (entry_ok (lower_unit (of_char CHR ''m''))) variables_3"
  unfolding variables_3_def by (rule page_ok) (simp_all add: named_ok_def spell_simps known_chars)

lemma ok_variables_4: "list_all (entry_ok (lower_unit (of_char CHR ''s''))) variables_4"
  unfolding variables_4_def by (rule page_ok) (simp_all add: named_ok_def spell_simps known_chars)

lemma ok_typedefs_0: "list_all (entry_ok (lower_unit (of_char CHR ''l''))) typedefs_0"
  unfolding typedefs_0_def by (rule page_ok) (simp_all add: named_ok_def spell_simps known_chars)

lemma ok_enums_0: "list_all (entry_ok (lower_unit (of_char CHR ''c''))) enums_0"
  unfolding enums_0_def by (rule page_ok) (simp_all add: named_ok_def spell_simps known_chars)

lemma ok_enums_1: "list_all (entry_ok (lower_unit (of_char CHR ''f''))) enums_1"
  unfolding enums_1_def by (rule page_ok) (simp_all add: named_ok_def spell_simps known_chars)

lemma ok_enums_2: "list_all (entry_ok (lower_unit (of_char CHR ''l''))) enums_2"
  unfolding enums_2_def by (rule page_ok) (simp_all add: named_ok_def spell_simps known_chars)

lemma ok_enums_3: "list_all (entry_ok (lower_unit (of_char CHR ''m''))) enums_3"
  unfolding enums_3_def by (rule page_ok) (simp_all add: named_ok_def spell_simps known_chars)

lemma ok_enums_4: "list_all (entry_ok (lower_unit (of_char CHR ''p''))) enums_4"
  unfolding enums_4_def by (rule page_ok) (simp_all add: named_ok_def spell_simps known_chars)

lemma ok_enumvalues_0: "list_all (entry_ok (lower_unit (of_char CHR ''b''))) enumvalues_0"
  unfolding enumvalues_0_def by (rule page_ok) (simp_all add: named_ok_def spell_simps known_chars)

lemma ok_enumvalues_1: "list_all (entry_ok (lower_unit (of_char CHR ''c''))) enumvalues_1"
  unfolding enumvalues_1_def by (rule page_ok) (simp_all add: named_ok_def spell_simps known_chars)

lemma ok_enumvalues_2: "list_all (entry_ok (lower_unit (of_char CHR ''d''))) enumvalues_2"
  unfolding enumvalues_2_def by (rule page_ok) (simp_all add: named_ok_def spell_simps known_chars)

lemma ok_enumvalues_3: "list_all (entry_ok (lower_unit (of_char CHR ''f''))) enumvalues_3"
  unfolding enumvalues_3_def by (rule page_ok) (simp_all add: named_ok_def spell_simps known_chars)

lemma ok_enumvalues_4: "list_all (entry_ok (lower_unit (of_char CHR ''h''))) enumvalues_4"
  unfolding enumvalues_4_def by (rule page_ok) (simp_all add: named_ok_def spell_simps known_chars)

lemma ok_enumvalues_5: "list_all (entry_ok (lower_unit (of_char CHR ''i''))) enumvalues_5"
  unfolding enumvalues_5_def by (rule page_ok) (simp_all add: named_ok_def spell_simps known_chars)

lemma ok_enumvalues_6: "list_all (entry_ok (lower_unit (of_char CHR ''l''))) enumvalues_6"
  unfolding enumvalues_6_def by (rule page_ok) (simp_all add: named_ok_def spell_simps known_chars)

lemma ok_enumvalues_7: "list_all (entry_ok (lower_unit (of_char CHR ''p''))) enumvalues_7"
  unfolding enumvalues_7_def by (rule page_ok) (simp_all add: named_ok_def spell_simps known_chars)

lemma ok_enumvalues_8: "list_all (entry_ok (lower_unit (of_char CHR ''r''))) enumvalues_8"
  unfolding enumvalues_8_def by (rule page_ok) (simp_all add: named_ok_def spell_simps known_chars)

lemma ok_enumvalues_9: "list_all (entry_ok (lower_unit (of_char CHR ''s''))) enumvalues_9"
  unfolding enumvalues_9_def by (rule page_ok) (simp_all add: named_ok_def spell_simps known_chars)

lemma ok_enumvalues_a: "list_all (entry_ok (lower_unit (of_char CHR ''t''))) enumvalues_a"
  unfolding enumvalues_a_def by (rule page_ok) (simp_all add: named_ok_def spell_simps known_chars)

lemma ok_enumvalues_b: "list_all (entry_ok (lower_unit (of_char CHR ''u''))) enumvalues_b"
  unfolding enumvalues_b_def by (rule page_ok) (simp_all add: named_ok_def spell_simps known_chars)

lemma ok_defines_0: "list_all (entry_ok (lower_unit (of_char CHR ''_''))) defines_0"
  unfolding defines_0_def by (rule page_ok) (simp_all add: named_ok_def spell_simps known_chars)

lemma ok_defines_1: "list_all (entry_ok (lower_unit (of_char CHR ''a''))) defines_1"
  unfolding defines_1_def by (rule page_ok) (simp_all add: named_ok_def spell_simps known_chars)

lemma ok_defines_2: "list_all (entry_ok (lower_unit (of_char CHR ''c''))) defines_2"
  unfolding defines_2_def by (rule page_ok) (simp_all add: named_ok_def spell_simps known_chars)

lemma ok_defines_3: "list_all (entry_ok (lower_unit (of_char CHR ''d''))) defines_3"
  unfolding defines_3_def by (rule page_ok) (simp_all add: named_ok_def spell_simps known_chars)

lemma ok_defines_4: "list_all (entry_ok (lower_unit (of_char CHR ''h''))) defines_4"
  unfolding defines_4_def by (rule page_ok) (simp_all add: named_ok_def spell_simps known_chars)

lemma ok_defines_5: "list_all (entry_ok (lower_unit (of_char CHR ''l''))) defines_5"
  unfolding defines_5_def by (rule page_ok) (simp_all add: named_ok_def spell_simps known_chars)

lemma ok_defines_6: "list_all (entry_ok (lower_unit (of_char CHR ''p''))) defines_6"
  unfolding defines_6_def by (rule page_ok) (simp_all add: named_ok_def spell_simps known_chars)

lemma ok_defines_7: "list_all (entry_ok (lower_unit (of_char CHR ''s''))) defines_7"
  unfolding defines_7_def by (rule page_ok) (simp_all add: named_ok_def spell_simps known_chars)

lemma ok_pages_0: "list_all (entry_ok (lower_unit (of_char CHR ''b''))) pages_0"
  unfolding pages_0_def by (rule page_ok) (simp_all add: named_ok_def spell_simps known_chars)

lemma ok_pages_1: "list_all (entry_ok (lower_unit (of_char CHR ''c''))) pages_1"
  unfolding pages_1_def by (rule page_ok) (simp_all add: named_ok_def spell_simps known_chars)

lemma ok_pages_2: "list_all (entry_ok (lower_unit (of_char CHR ''s''))) pages_2"
  unfolding pages_2_def by (rule page_ok) (simp_all add: named_ok_def spell_simps known_chars)

lemma ok_classes_pages:
  "list_all2 (\<lambda>c es. list_all (entry_ok c) es) (map (\<lambda>c. lower_unit (of_char c)) ''chlstx'') classes_pages"
  by (simp only: list.map classes_pages_def list_all2_Cons list_all2_Nil simp_thms
      ok_classes_0 ok_classes_1 ok_classes_2 ok_classes_3 ok_classes_4 ok_classes_5)

lemma ok_namespaces_pages:
  "list_all2 (\<lambda>c es. list_all (entry_ok c) es) (map (\<lambda>c. lower_unit (of_char c)) ''cel'') namespaces_pages"
  by (simp only: list.map namespaces_pages_def list_all2_Cons list_all2_Nil simp_thms
      ok_namespaces_0 ok_namespaces_1 ok_namespaces_2)

lemma ok_files_pages:
  "list_all2 (\<lambda>c es. list_all (entry_ok c) es) (map (\<lambda>c. lower_unit (of_char c)) ''chlmrs'') files_pages"
  by (simp only: list.map files_pages_def list_all2_Cons list_all2_Nil simp_thms
      ok_files_0 ok_files_1 ok_files_2 ok_files_3 ok_files_4 ok_files_5)

lemma ok_functions_pages:
  "list_all2 (\<lambda>c es. list_all (entry_ok c) es) (map (\<lambda>c. lower_unit (of_char c)) ''acdefghilmnoprstuvwx~'') functions_pages"
  by (simp only: list.map functions_pages_def list_all2_Cons list_all2_Nil simp_thms
      ok_functions_0 ok_functions_1 ok_functions_2 ok_functions_3 ok_functions_4 ok_functions_5 ok_functions_6 ok_functions_7
      ok_functions_8 ok_functions_9 ok_functions_a ok_functions_b ok_functions_c ok_functions_d ok_functions_e ok_functions_f
      ok_functions_10 ok_functions_11 ok_functions_12 ok_functions_13 ok_functions_14)

lemma ok_variables_pages:
  "list_all2 (\<lambda>c es. list_all (entry_ok c) es) (map (\<lambda>c. lower_unit (of_char c)) ''dfims'') variables_pages"
  by (simp only: list.map variables_pages_def list_all2_Cons list_all2_Nil simp_thms
      ok_variables_0 ok_variables_1 ok_variables_2 ok_variables_3 ok_variables_4)

lemma ok_typedefs_pages:
  "list_all2 (\<lambda>c es. list_all (entry_ok c) es) (map (\<lambda>c. lower_unit (of_char c)) ''l'') typedefs_pages"
  by (simp only: list.map typedefs_pages_def list_all2_Cons list_all2_Nil simp_thms
      ok_typedefs_0)

lemma ok_enums_pages:
  "list_all2 (\<lambda>c es. list_all (entry_ok c) es) (map (\<lambda>c. lower_unit (of_char c)) ''cflmp'') enums_pages"
  by (simp only: list.map enums_pages_def list_all2_Cons list_all2_Nil simp_thms
      ok_enums_0 ok_enums_1 ok_enums_2 ok_enums_3 ok_enums_4)

lemma ok_enumvalues_pages:
  "list_all2 (\<lambda>c es. list_all (entry_ok c) es) (map (\<lambda>c. lower_unit (of_char c)) ''bcdfhilprstu'') enumvalues_pages"
  by (simp only: list.map enumvalues_pages_def list_all2_Cons list_all2_Nil simp_thms
      ok_enumvalues_0 ok_enumvalues_1 ok_enumvalues_2 ok_enumvalues_3 ok_enumvalues_4 ok_enumvalues_5 ok_enumvalues_6 ok_enumvalues_7
      ok_enumvalues_8 ok_enumvalues_9 ok_enumvalues_a ok_enumvalues_b)

lemma ok_defines_pages:
  "list_all2 (\<lambda>c es. list_all (entry_ok c) es) (map (\<lambda>c. lower_unit (of_char c)) ''_acdhlps'') defines_pages"
  by (simp only: list.map defines_pages_def list_all2_Cons list_all2_Nil simp_thms
      ok_defines_0 ok_defines_1 ok_defines_2 ok_defines_3 ok_defines_4 ok_defines_5 ok_defines_6 ok_defines_7)

lemma ok_pages_pages:
  "list_all2 (\<lambda>c es. list_all (entry_ok c) es) (map (\<lambda>c. lower_unit (of_char c)) ''bcs'') pages_pages"
  by (simp only: list.map pages_pages_def list_all2_Cons list_all2_Nil simp_thms
      ok_pages_0 ok_pages_1 ok_pages_2)

end
