(* ===== verification/SearchShipped.thy ===== *)
theory SearchShipped
  imports AllEntries SectionEntries SearchBox
begin

text \<open>
  The shipped index against the code of \<open>search/search.js\<close>: the box and the results page find
  every entry by every prefix of its name, in each of the eleven sections.
\<close>

section \<open>The pages of the sections\<close>

lemma section_chars:
  "indexSectionsWithContent = map (map (\<lambda>c. lower_unit (of_char c)))
     [''_abcdefghilmnoprstuvwx~'', ''chlstx'', ''cel'', ''chlmrs'', ''acdefghilmnoprstuvwx~'', ''dfims'', ''l'', ''cflmp'',
      ''bcdfhilprstu'', ''_acdhlps'', ''bcs'']"
  "list_all distinct indexSectionsWithContent"
  by code_simp+

lemma shipped_pages_ok:
  "list_all2 (list_all2 (\<lambda>c es. list_all (entry_ok c) es)) indexSectionsWithContent section_pages"
  unfolding section_chars(1) section_pages_def list.map(2) [of "map _"] list.map(1) [of "map _"]
  by (intro list.rel_intros ok_all_pages ok_classes_pages ok_namespaces_pages ok_files_pages ok_functions_pages
      ok_variables_pages ok_typedefs_pages ok_enums_pages ok_enumvalues_pages ok_defines_pages ok_pages_pages)

lemma shipped_entry_ok:
  assumes "s < length section_pages" "k < length (section_pages ! s)" "e \<in> set (section_pages ! s ! k)"
  shows "entry_ok (indexSectionsWithContent ! s ! k) e" "k < length (indexSectionsWithContent ! s)" "s < 11"
    "distinct (indexSectionsWithContent ! s)"
proof -
  have s: "s < length indexSectionsWithContent"
    and page: "list_all2 (\<lambda>c es. list_all (entry_ok c) es) (indexSectionsWithContent ! s) (section_pages ! s)"
    using shipped_pages_ok assms(1) by (auto simp: list_all2_conv_all_nth)
  show "entry_ok (indexSectionsWithContent ! s ! k) e" "k < length (indexSectionsWithContent ! s)"
    using page assms(2,3) by (auto simp: list_all2_conv_all_nth list_all_iff)
  show "s < 11" "distinct (indexSectionsWithContent ! s)"
    using s section_chars(2) by (simp_all add: list_all_length)
qed

lemma hd_trim_right:
  assumes "trim_right s \<noteq> []"
  shows "s \<noteq> []" "hd (trim_right s) = hd s"
proof -
  have "prefix (trim_right s) s"
    unfolding trim_right_def by (metis suffix_dropWhile suffix_to_prefix rev_rev_ident)
  with assms show "s \<noteq> []" "hd (trim_right s) = hd s"
    by (auto simp: prefix_def) (metis hd_append2)
qed

lemma typed_prefix_opens_page:
  assumes k: "s < length section_pages" "k < length (section_pages ! s)" "e \<in> set (section_pages ! s ! k)"
    and q: "q = map lower_unit (trim_right (trim_left v))" "q \<noteq> []" "prefix q (map lower_unit (e_label e))"
    and ascii: "\<forall>c \<in> set v. c < 0x80"
  obtains c cs where "trim_left v = c # cs" "c < 128"
    "js_indexOf (indexSectionsWithContent ! s) [lower_unit c] = Some k"
proof -
  note ok = shipped_entry_ok [OF k]
  obtain c cs where c: "trim_left v = c # cs" "lower_unit c = hd q"
    using q(1,2) hd_trim_right [of "trim_left v"] by (cases "trim_left v") (auto simp: hd_map)
  have "hd q = lower_unit (hd (e_label e))"
    using q(2,3) ok(1) by (cases q; cases "e_label e") (auto simp: entry_ok_def)
  then have at: "lower_unit c = indexSectionsWithContent ! s ! k"
    using c(2) ok(1) by (simp add: entry_ok_def)
  then have "lower_unit c \<in> set (indexSectionsWithContent ! s)" using ok(2) by simp
  then obtain k' where k': "js_indexOf (indexSectionsWithContent ! s) [lower_unit c] = Some k'"
    using js_indexOf_unit_None by blast
  then have "k' < length (indexSectionsWithContent ! s)" "indexSectionsWithContent ! s ! k' = indexSectionsWithContent ! s ! k"
    using at js_indexOf_unit by fastforce+
  then have "k' = k" using ok(2) ok(4) nth_eq_iff_index_eq by blast
  moreover have "c \<in> set v" using c(1) set_dropWhileD [of c "\<lambda>c. c = 32" v] by (simp add: trim_left_def)
  ultimately show thesis using that c(1) k' ascii by blast
qed

lemma trim_left_idem: "trim_left (trim_left v) = trim_left v"
  unfolding trim_left_def dropWhile_eq_self_iff using hd_dropWhile by blast

lemma typed_prefix_matches:
  assumes k: "s < length section_pages" "k < length (section_pages ! s)" "e \<in> set (section_pages ! s ! k)"
    and q: "q = map lower_unit (trim_right (trim_left v))" "prefix q (map lower_unit (e_label e))"
    and ascii: "\<forall>c \<in> set v. c < 0x80"
  shows "row_matches env (normalise_search env (trim_left v)) (js ''SR_'' @ e_id e)"
proof -
  obtain ds where ds: "list_all is_digit ds" "e_id e = convertToId (map lower_unit (e_label e)) @ 95 # ds"
    and label: "\<forall>c \<in> set (e_label e). c < 0x80"
    using shipped_entry_ok(1) [OF k] by (auto simp: entry_ok_def)
  have id: "e_id e = convertToId (map lower_unit (e_label e)) @ js ''_'' @ ds"
    by (simp add: ds(2) js_def)
  have left: "set (trim_left s) \<subseteq> set s" for s by (auto simp: trim_left_def dest: set_dropWhileD)
  have "trim_right s = rev (trim_left (rev s))" for s by (simp add: trim_right_def trim_left_def)
  then have "set (trim_right (trim_left v)) \<subseteq> set v"
    using left [of "rev (trim_left v)"] left [of v] by auto
  then have "js_lower env (trim_right (trim_left v)) = q"
    using ascii q(1) by (auto simp: js_lower_def list_all_iff plain_unit_def)
  then have "normalise_search env (trim_left v) = convertToId q"
    by (simp add: normalise_search_def trim_left_idem)
  then show ?thesis
    unfolding id row_matches_prefix js_lower_row_digits [OF label ds(1)] strip_sr_row
    using q(2) by (simp add: prefix_convertToId_suffix)
qed

section \<open>Properties\<close>

text \<open>
  C31: Every entry of the shipped index is found: when a section is selected and the text in the
  search box (ASCII), trimmed and in lower case, is a non-empty prefix of the lower-case label of
  an entry of the section, the box opens the very page of the section that holds the entry, with
  the text as its query, and the search on the rows that page builds displays the row of the
  entry.
\<close>

theorem shipped_names_are_found:
  fixes p :: page and st :: results and e :: entry and s k :: nat and env :: jsenv
  defines "v \<equiv> field_value p"
  defines "q \<equiv> map lower_unit (trim_right (trim_left v))"
    and "opened \<equiv> SearchBox_Search env p"
    and "sent \<equiv> js ''?'' @ js_escape (trim_left v)"
  assumes "s < length section_pages" "k < length (section_pages ! s)" "e \<in> set (section_pages ! s ! k)"
    and "searchIndex p = s" "\<forall>c \<in> set v. c < 0x80"
    and "q \<noteq> []" "prefix q (map lower_unit (e_label e))"
  shows "fst opened = None \<and>
    frame_location (snd opened) = resultsPath p @ js ''/'' @ indexSectionNames ! s @ js ''_'' @ js_hex k @ extension p @ sent \<and>
    (\<exists>d st'. createResults (section_pages ! s ! k) results_page0 = Inr d \<and>
       Search env [] (st\<lparr>doc := d, query := sent\<rparr>) = Inr (st', True) \<and>
       (js ''SR_'' @ e_id e, js ''block'') \<in> set (map (\<lambda>v. (v_id v, v_disp v)) (row_views (doc st'))))"
proof -
  obtain c cs where c: "trim_left v = c # cs" "c < 128"
    "js_indexOf (indexSectionsWithContent ! s) [lower_unit c] = Some k"
    using typed_prefix_opens_page [OF assms(5-7) refl assms(10,11) [unfolded q_def] assms(9)] by blast
  have "fst opened = None \<and>
    frame_location (snd opened) = resultsPath p @ js ''/'' @ indexSectionNames ! s @ js ''_'' @ js_hex k @ extension p @ sent"
    using search_listed [of p c cs k env] c assms(8) shipped_entry_ok(3) [OF assms(5-7)]
    by (simp add: opened_def sent_def v_def)
  moreover obtain st' where st': "Search env [] (st\<lparr>doc := page_with (create_rows 0 6 (section_pages ! s ! k)), query := sent\<rparr>) = Inr (st', True)"
    "map (\<lambda>v. (v_id v, v_disp v)) (row_views (doc st')) =
       map (\<lambda>en. (js ''SR_'' @ e_id en,
           if row_matches env (normalise_search env (trim_left v)) (js ''SR_'' @ e_id en)
           then js ''block'' else js ''none'')) (section_pages ! s ! k)"
    unfolding sent_def by (rule search_created_page) blast
  have "(js ''SR_'' @ e_id e, js ''block'') \<in> set (map (\<lambda>v. (v_id v, v_disp v)) (row_views (doc st')))"
    unfolding st'(2) using assms(7) typed_prefix_matches [OF assms(5-7) refl assms(11) [unfolded q_def] assms(9), of env]
    by force
  with st'(1) createResults_page [of "section_pages ! s ! k"] have "\<exists>d st'. createResults (section_pages ! s ! k) results_page0 = Inr d \<and>
       Search env [] (st\<lparr>doc := d, query := sent\<rparr>) = Inr (st', True) \<and>
       (js ''SR_'' @ e_id e, js ''block'') \<in> set (map (\<lambda>v. (v_id v, v_disp v)) (row_views (doc st')))"
    by blast
  ultimately show ?thesis by blast
qed

text \<open>Typing \<open> As_X\<close> finds the row of \<open>as_xml\<close>.\<close>

theorem shipped_names_are_found_witness:
  "frame_location (snd (SearchBox_Search plain_env (loaded_page\<lparr>field_value := js '' As_X''\<rparr>)))
     = js ''search/all_1.html?As_X''"
proof -
  define p where "p = loaded_page\<lparr>field_value := js '' As_X''\<rparr>"
  have e: "all_1 ! 4 \<in> set (section_pages ! 0 ! 1)" "1 < length (section_pages ! 0)" "0 < length section_pages"
    and l: "e_label (all_1 ! 4) = js ''as_xml''" and n: "indexSectionNames ! 0 = js ''all''"
    by (simp_all add: section_pages_def all_pages_def all_1_def indexSectionNames_def)
  define st :: results where "st = \<lparr>doc = results_page0, query = [], lastMatchCount = 0, lastKey = 0,
    repeatOn = False, focused = NoFocus, embedder = site_page, parent_calls = []\<rparr>"
  have t: "trim_right (js ''As_X'') = js ''As_X''" "trim_left (js '' As_X'') = js ''As_X''"
    "map lower_unit (js ''As_X'') = js ''as_x''" "(\<forall>c \<in> set (js '' As_X''). c < 0x80) \<longleftrightarrow> True"
    "prefix (js ''as_x'') (map lower_unit (js ''as_xml''))" "js ''as_x'' \<noteq> []"
    "js ''search/all_1.html?As_X'' = js ''search'' @ js ''/'' @ js ''all'' @ js ''_'' @ js_hex 1 @ js ''.html'' @ js ''?'' @ js_escape (js ''As_X'')"
    by code_simp+
  have f: "field_value p = js '' As_X''" "searchIndex p = 0" "resultsPath p = js ''search''" "extension p = js ''.html''"
    by (simp_all add: p_def)
  show ?thesis
    using shipped_names_are_found [of 0 1 "all_1 ! 4" p plain_env st]
    by (simp only: f e l n t p_def [symmetric] simp_thms)
qed

end
