(* ===== verification/NavPath.thy ===== *)
theory NavPath
  imports JsString "HOL-Library.Sublist"
begin

text \<open>
  The string functions of the navigation tree (\<open>navtree.js\<close>): cutting a path from a URL,
  cleaning what the location gives before it reaches a selector, the class name of a
  node's link, and the link that \<open>localStorage\<close> keeps while the panel is not
  synchronised with the page.
\<close>

section \<open>Strings\<close>

fun js_lastIndexOf :: "jstr \<Rightarrow> u16 \<Rightarrow> nat option" where
  "js_lastIndexOf [] c = None"
| "js_lastIndexOf (x # xs) c =
     (case js_lastIndexOf xs c of Some i \<Rightarrow> Some (Suc i) | None \<Rightarrow> if x = c then Some 0 else None)"

fun js_replace_first :: "u16 \<Rightarrow> jstr \<Rightarrow> jstr \<Rightarrow> jstr" where
  "js_replace_first c t [] = []"
| "js_replace_first c t (x # xs) = (if x = c then t @ xs else x # js_replace_first c t xs)"

text \<open>\<open>s.split(c)\<close> for a separator of one unit.\<close>

fun js_split :: "u16 \<Rightarrow> jstr \<Rightarrow> jstr list" where
  "js_split c [] = [[]]"
| "js_split c (x # xs) =
     (if x = c then [] # js_split c xs
      else (case js_split c xs of [] \<Rightarrow> [[x]] | p # ps \<Rightarrow> (x # p) # ps))"

abbreviation slash :: u16 where "slash \<equiv> 47"
abbreviation number_sign :: u16 where "number_sign \<equiv> 35"
abbreviation colon :: u16 where "colon \<equiv> 58"

definition is_word :: "u16 \<Rightarrow> bool" where
  "is_word c \<longleftrightarrow> (48 \<le> c \<and> c \<le> 57) \<or> (65 \<le> c \<and> c \<le> 90) \<or> c = 95 \<or> (97 \<le> c \<and> c \<le> 122)"

lemma js_lastIndexOf_None: "js_lastIndexOf s c = None \<longleftrightarrow> c \<notin> set s"
  by (induction s) (auto split: option.split)

lemma js_lastIndexOf_append: "c \<notin> set t \<Longrightarrow> js_lastIndexOf (s @ c # t) c = Some (length s)"
proof (induction s)
  case Nil
  then show ?case using js_lastIndexOf_None [of t c] by (simp split: option.split)
qed simp

lemma js_split_none: "c \<notin> set s \<Longrightarrow> js_split c s = [s]"
  by (induction s) auto

lemma js_split_first: "c \<notin> set s \<Longrightarrow> js_split c (s @ c # t) = s # js_split c t"
  by (induction s) auto

lemma js_split_nonempty [simp]: "js_split c s \<noteq> []"
  by (cases s) (auto split: list.split)

lemma js_replace_first_at: "c \<notin> set s \<Longrightarrow> js_replace_first c t (s @ c # u) = s @ t @ u"
  by (induction s) auto

section \<open>Paths\<close>

definition stripPath :: "jstr \<Rightarrow> jstr" where
  "stripPath uri = js_substring_from uri
     (case js_lastIndexOf uri slash of Some i \<Rightarrow> Suc i | None \<Rightarrow> 0)"

text \<open>
  The pattern of \<open>stripPath2\<close>: a text that ends with a two-level directory, a \<open>d\<close> and one
  word character, then a \<open>d\<close> and two.
\<close>

definition two_levels :: "jstr \<Rightarrow> bool" where
  "two_levels m \<longleftrightarrow>
     m ! 0 = slash \<and> m ! 1 = 100 \<and> is_word (m ! 2) \<and> m ! 3 = slash \<and> m ! 4 = 100 \<and>
     is_word (m ! 5) \<and> is_word (m ! 6) \<and> m ! 7 = slash"

definition ends_two_levels :: "jstr \<Rightarrow> bool" where
  "ends_two_levels s \<longleftrightarrow> 8 \<le> length s \<and> two_levels (drop (length s - 8) s)"

definition stripPath2 :: "jstr \<Rightarrow> jstr" where
  "stripPath2 uri =
     (case js_lastIndexOf uri slash of
        None \<Rightarrow> js_substring_from uri 0
      | Some i \<Rightarrow>
          if ends_two_levels (take (Suc i) uri) then js_substring_from uri (i - 6)
          else js_substring_from uri (Suc i))"

text \<open>
  The location of the page: the path and the fragment with its leading number sign
  (empty when there is none).
\<close>

record location =
  loc_pathname :: jstr
  loc_hash :: jstr

definition hashValue :: "location \<Rightarrow> jstr" where
  "hashValue loc = filter (\<lambda>c. is_word c \<or> c = 45) (js_substring_from (loc_hash loc) 1)"

definition hashUrl :: "location \<Rightarrow> jstr" where
  "hashUrl loc = number_sign # hashValue loc"

definition path_keeps :: "u16 \<Rightarrow> bool" where
  "path_keeps c \<longleftrightarrow> (48 \<le> c \<and> c \<le> 57) \<or> (65 \<le> c \<and> c \<le> 90) \<or> (97 \<le> c \<and> c \<le> 122) \<or>
     c \<in> set (js ''-+&@#/%?=~_|!:,.;()'')"

definition pathName :: "location \<Rightarrow> jstr" where
  "pathName loc = filter path_keeps (loc_pathname loc)"

section \<open>The link of a node\<close>

text \<open>
  What \<open>newNode\<close> puts on a node's anchor: the class name, the target, and whether a click
  scrolls to an anchor of the page (the name of the anchor) or stores the link only.
  \<open>relpath\<close> is the path from the page to the root of the site.
\<close>

datatype link_click = StoreOnly jstr | StoreAndGoto jstr jstr

record link_attrs =
  a_className :: jstr
  a_href :: jstr
  a_onclick :: link_click

definition link_attributes :: "location \<Rightarrow> jstr \<Rightarrow> jstr \<Rightarrow> link_attrs" where
  "link_attributes loc relpath link0 =
     (let external = (js_substr link0 0 1 = js ''^'');
          link = (if external then js_substring_from link0 1 else link0);
          url = (if external then link else relpath @ link);
          cls = stripPath (js_replace_first number_sign [colon] link)
      in if number_sign \<in> set link then
           let parts = js_split number_sign link;
               aname = number_sign # parts ! 1;
               srcPage = stripPath (pathName loc);
               targetPage = stripPath (parts ! 0)
           in \<lparr>a_className = cls,
               a_href = (if srcPage \<noteq> targetPage then url else js ''javascript:void(0)''),
               a_onclick = StoreAndGoto link aname\<rparr>
         else \<lparr>a_className = cls, a_href = url, a_onclick = StoreOnly link\<rparr>)"

text \<open>
  The selector of \<open>selectAndHighlight\<close>: an anchor is selected when its class attribute
  ends with the page and the fragment.
\<close>

definition highlight_suffix :: "location \<Rightarrow> jstr \<Rightarrow> jstr" where
  "highlight_suffix loc hash = stripPath (pathName loc) @ [colon] @ js_substring_from hash 1"

definition highlighted :: "location \<Rightarrow> jstr \<Rightarrow> jstr \<Rightarrow> bool" where
  "highlighted loc hash cls \<longleftrightarrow> suffix (highlight_suffix loc hash) cls"

section \<open>The stored link\<close>

text \<open>
  The synchronisation state of the panel: whether the browser has \<open>localStorage\<close>, the
  item \<open>navpath\<close> (absent before it is first set), and the class \<open>sync\<close> of the button with
  the image it shows.
\<close>

record nav_sync =
  localStorageSupported :: bool
  navpath :: "jstr option"
  sync_class :: bool
  sync_image_on :: bool

definition storeLink :: "jstr \<Rightarrow> nav_sync \<Rightarrow> nav_sync" where
  "storeLink link s =
     (if \<not> sync_class s \<and> localStorageSupported s then s\<lparr>navpath := Some link\<rparr> else s)"

definition deleteLink :: "nav_sync \<Rightarrow> nav_sync" where
  "deleteLink s = (if localStorageSupported s then s\<lparr>navpath := Some []\<rparr> else s)"

definition cachedLink :: "nav_sync \<Rightarrow> jstr option" where
  "cachedLink s = (if localStorageSupported s then navpath s else Some [])"

text \<open>\<open>if (cachedLink())\<close>: neither absent nor empty.\<close>

definition has_cachedLink :: "nav_sync \<Rightarrow> bool" where
  "has_cachedLink s \<longleftrightarrow> (case cachedLink s of None \<Rightarrow> False | Some l \<Rightarrow> l \<noteq> [])"

definition toggleSyncButton :: "location \<Rightarrow> nav_sync \<Rightarrow> nav_sync" where
  "toggleSyncButton loc s =
     (if sync_class s then
        storeLink (stripPath2 (pathName loc) @ hashUrl loc) (s\<lparr>sync_class := False, sync_image_on := False\<rparr>)
      else deleteLink (s\<lparr>sync_class := True, sync_image_on := True\<rparr>))"

text \<open>The part of \<open>initNavTree\<close> that shows the button.\<close>

definition init_sync :: "nav_sync \<Rightarrow> nav_sync" where
  "init_sync s =
     (if localStorageSupported s then
        if has_cachedLink s then s\<lparr>sync_image_on := False, sync_class := False\<rparr>
        else s\<lparr>sync_image_on := True\<rparr>
      else s)"


section \<open>Lemmas\<close>

lemma stripPath_append: "slash \<notin> set t \<Longrightarrow> stripPath (s @ slash # t) = t"
  by (simp add: stripPath_def js_substring_from_def js_lastIndexOf_append)

lemma stripPath_plain: "slash \<notin> set t \<Longrightarrow> stripPath t = t"
  by (simp add: stripPath_def js_substring_from_def js_lastIndexOf_None [THEN iffD2])

lemma stripPath_dir:
  assumes "slash \<notin> set t" "d = [] \<or> last d = slash"
  shows "stripPath (d @ t) = t"
proof (cases "d = []")
  case True
  then show ?thesis using assms(1) by (simp add: stripPath_plain)
next
  case False
  then have "d @ t = butlast d @ slash # t" using assms(2) by (metis append_butlast_last_id append_Cons append_Nil append_assoc)
  then show ?thesis using assms(1) stripPath_append by metis
qed

lemma stripPath2_split:
  "slash \<notin> set t \<Longrightarrow> stripPath2 (s @ slash # t) =
     (if ends_two_levels (s @ [slash]) then js_substring_from (s @ slash # t) (length s - 6) else t)"
  by (simp add: stripPath2_def js_lastIndexOf_append js_substring_from_def)

text \<open>A page of the site: a file name, in the root or in a two-level directory.\<close>

definition site_page :: "jstr \<Rightarrow> jstr \<Rightarrow> bool" where
  "site_page dir file \<longleftrightarrow> slash \<notin> set file \<and>
     (dir = [] \<or> (\<exists>x y z. is_word x \<and> is_word y \<and> is_word z \<and> dir = [100, x, slash, 100, y, z, slash]))"

lemma two_levels_literal:
  "is_word x \<Longrightarrow> is_word y \<Longrightarrow> is_word z \<Longrightarrow>
   ends_two_levels (s @ [slash, 100, x, slash, 100, y, z, slash])"
  by (simp add: ends_two_levels_def two_levels_def)

lemma hashUrl_hash: "list_all (\<lambda>c. is_word c \<or> c = 45) h \<Longrightarrow> loc_hash loc = number_sign # h \<Longrightarrow>
  hashUrl loc = number_sign # h"
  by (simp add: hashUrl_def hashValue_def js_substring_from_def list_all_iff filter_id_conv)

lemma pathName_clean: "list_all path_keeps (loc_pathname loc) \<Longrightarrow> pathName loc = loc_pathname loc"
  by (simp add: pathName_def list_all_iff filter_id_conv)

section \<open>Properties\<close>

text \<open>
  \<open>stripPath2\<close> recovers, from the path of a page of the site, the name under which
  the index lists it: the file name of a page in the root directory (unless the site
  itself lies in a directory that looks like one of its own two-level directories), and
  the two-level directory with the file name of any other page.
\<close>

theorem stripPath2_recovers_page:
  assumes "site_page dir file" "dir = [] \<Longrightarrow> \<not> ends_two_levels (base @ [slash])"
  shows "stripPath2 (base @ slash # dir @ file) = dir @ file"
proof (cases "dir = []")
  case True
  then show ?thesis using assms by (simp add: site_page_def stripPath2_split)
next
  case False
  then obtain x y z where w: "is_word x" "is_word y" "is_word z"
    and dir: "dir = [100, x, slash, 100, y, z, slash]" and no_slash: "slash \<notin> set file"
    using assms(1) by (auto simp: site_page_def)
  let ?s = "base @ [slash, 100, x, slash, 100, y, z]"
  have "base @ slash # dir @ file = ?s @ slash # file" by (simp add: dir)
  moreover have "ends_two_levels (?s @ [slash])" using two_levels_literal [OF w, of base] by simp
  ultimately show ?thesis
    using stripPath2_split [OF no_slash, of ?s] by (simp add: dir js_substring_from_def)
qed

theorem stripPath2_recovers_page_witness:
  "stripPath2 (js ''/site/db/df3/lsl__c_8h.html'') = js ''db/df3/lsl__c_8h.html'' \<and>
   stripPath2 (js ''/site/classes.html'') = js ''classes.html''"
proof -
  have "site_page (js ''db/df3/'') (js ''lsl__c_8h.html'')" "site_page [] (js ''classes.html'')"
    by (simp_all add: site_page_def js_def is_word_def)
  moreover have "\<not> ends_two_levels (js ''/site'' @ [slash])"
    by (simp add: ends_two_levels_def js_def)
  moreover have "js ''db/df3/'' \<noteq> []" by (simp add: js_def)
  ultimately have "stripPath2 (js ''/site'' @ slash # js ''db/df3/'' @ js ''lsl__c_8h.html'') = js ''db/df3/'' @ js ''lsl__c_8h.html''"
    "stripPath2 (js ''/site'' @ slash # [] @ js ''classes.html'') = [] @ js ''classes.html''"
    using stripPath2_recovers_page by blast+
  then show ?thesis by (simp add: js_def)
qed

text \<open>
  The class name that a node's link to an anchor gets is found by the selector that
  highlights it once the page and the fragment are those of the link, and the link then
  stays on the page.
\<close>

theorem node_class_found_by_selector:
  assumes "slash \<notin> set page" "number_sign \<notin> set (dir @ page)" "dir = [] \<or> last dir = slash"
    and "list_all (\<lambda>c. is_word c \<or> c = 45) anchor"
    and "loc_pathname loc = base @ dir @ page" "base = [] \<or> last base = slash"
    and "list_all path_keeps (base @ dir @ page)" "loc_hash loc = number_sign # anchor"
    and "js_substr (dir @ page) 0 1 \<noteq> js ''^''" "dir @ page \<noteq> []"
  shows "highlighted loc (hashUrl loc) (a_className (link_attributes loc rel (dir @ page @ number_sign # anchor))) \<and>
         a_href (link_attributes loc rel (dir @ page @ number_sign # anchor)) = js ''javascript:void(0)''"
proof -
  let ?link = "dir @ page @ number_sign # anchor"
  have anchor: "slash \<notin> set anchor" "number_sign \<notin> set anchor"
    using assms(4) by (auto simp: list_all_iff is_word_def)
  have internal: "js_substr ?link 0 1 \<noteq> js ''^''"
    using assms(9,10) by (cases "dir @ page") (auto simp: js_substr_def js_def append_eq_Cons_conv)
  have colons: "js_replace_first number_sign [colon] ?link = dir @ page @ colon # anchor"
    using assms(2) js_replace_first_at [of number_sign "dir @ page"] by simp
  have cls: "stripPath (dir @ page @ colon # anchor) = page @ colon # anchor"
    using stripPath_dir [of "page @ colon # anchor" dir] assms(1,3) anchor by simp
  have split: "js_split number_sign ?link = [dir @ page, anchor]"
    using js_split_first [of number_sign "dir @ page" anchor] assms(2) anchor by (simp add: js_split_none)
  have name: "pathName loc = (base @ dir) @ page" using assms(5,7) by (simp add: pathName_clean)
  have strip: "stripPath (pathName loc) = page"
    unfolding name using assms(1,3,6) by (intro stripPath_dir) (auto simp: last_append)
  have target: "stripPath (dir @ page) = page" using assms(1,3) by (rule stripPath_dir)
  have hash: "hashUrl loc = number_sign # anchor" using assms(4,8) by (rule hashUrl_hash)
  show ?thesis
    using internal colons cls split strip target hash
    by (simp add: link_attributes_def Let_def highlighted_def highlight_suffix_def js_substring_from_def)
qed


theorem node_class_found_by_selector_witness:
  "highlighted \<lparr>loc_pathname = js ''/db/lsl__c_8h.html'', loc_hash = js ''#a1-b''\<rparr> (js ''#a1-b'')
     (a_className (link_attributes \<lparr>loc_pathname = js ''/db/lsl__c_8h.html'', loc_hash = js ''#a1-b''\<rparr>
       (js ''../'') (js ''db/lsl__c_8h.html#a1-b'')))"
proof -
  let ?loc = "\<lparr>loc_pathname = js ''/db/lsl__c_8h.html'', loc_hash = js ''#a1-b''\<rparr>"
  have "hashUrl ?loc = js ''#a1-b''"
    by (simp add: hashUrl_def hashValue_def js_substring_from_def js_def is_word_def)
  moreover have "highlighted ?loc (hashUrl ?loc) (a_className (link_attributes ?loc (js ''../'')
      (js ''db/'' @ js ''lsl__c_8h.html'' @ number_sign # js ''a1-b'')))"
    by (rule conjunct1 [OF node_class_found_by_selector [where base = "js ''/''"]])
       (simp_all add: js_def is_word_def path_keeps_def js_substr_def)
  ultimately show ?thesis by (simp add: js_def)
qed

section \<open>The synchronisation button\<close>

text \<open>
  What happens to the state after the page is initialised: the button is pressed, or a
  link of the tree, which is never empty, is followed.
\<close>

inductive sync_reachable :: "nav_sync \<Rightarrow> bool" where
  loaded: "sync_class s \<Longrightarrow> sync_reachable (init_sync s)"
| pressed: "sync_reachable s \<Longrightarrow> sync_reachable (toggleSyncButton loc s)"
| followed: "sync_reachable s \<Longrightarrow> link \<noteq> [] \<Longrightarrow> sync_reachable (storeLink link s)"

definition sync_agrees :: "nav_sync \<Rightarrow> bool" where
  "sync_agrees s \<longleftrightarrow> (localStorageSupported s \<longrightarrow>
     has_cachedLink s = (\<not> sync_class s) \<and> sync_image_on s = sync_class s)"

lemmas sync_defs = sync_agrees_def has_cachedLink_def cachedLink_def storeLink_def deleteLink_def
  toggleSyncButton_def init_sync_def

lemma sync_agrees_init: "sync_class s \<Longrightarrow> sync_agrees (init_sync s)"
  by (auto simp: sync_defs split: option.splits)

lemma sync_agrees_store: "sync_agrees s \<Longrightarrow> link \<noteq> [] \<Longrightarrow> sync_agrees (storeLink link s)"
  by (auto simp: sync_defs split: option.splits)

lemma sync_agrees_toggle: "sync_agrees s \<Longrightarrow> sync_agrees (toggleSyncButton loc s)"
  by (auto simp: sync_defs hashUrl_def split: option.splits)

text \<open>
  Where the browser has \<open>localStorage\<close>, the panel is out of synchronisation exactly
  when a link is stored, and the button shows it, whatever is pressed and followed.
\<close>

theorem sync_button_tells_stored_link:
  assumes "sync_reachable s" "localStorageSupported s"
  shows "has_cachedLink s = (\<not> sync_class s) \<and> sync_image_on s = sync_class s"
proof -
  from assms(1) have "sync_agrees s"
    by induction (simp_all add: sync_agrees_init sync_agrees_toggle sync_agrees_store)
  then show ?thesis using assms(2) by (simp add: sync_agrees_def)
qed

theorem sync_button_tells_stored_link_witness:
  "has_cachedLink (toggleSyncButton \<lparr>loc_pathname = js ''/index.html'', loc_hash = []\<rparr> (init_sync
     \<lparr>localStorageSupported = True, navpath = None, sync_class = True, sync_image_on = True\<rparr>))"
proof -
  let ?s = "toggleSyncButton \<lparr>loc_pathname = js ''/index.html'', loc_hash = []\<rparr> (init_sync
     \<lparr>localStorageSupported = True, navpath = None, sync_class = True, sync_image_on = True\<rparr>)"
  have "sync_reachable ?s" by (intro sync_reachable.intros) simp
  moreover have "localStorageSupported ?s" "\<not> sync_class ?s"
    by (simp_all add: toggleSyncButton_def init_sync_def storeLink_def has_cachedLink_def cachedLink_def)
  ultimately show ?thesis using sync_button_tells_stored_link by blast
qed

end
