(* ===== verification/NavTree.thy ===== *)
theory NavTree
  imports NavPath Dom
begin

text \<open>
  The navigation tree (\<open>navtree.js\<close>): the arrays that describe it, the nodes that are
  built from them when a level is first shown, opening and closing a node, and following
  the position of a page (its breadcrumbs) down the tree.
\<close>

section \<open>The data\<close>

text \<open>
  An entry of the arrays is a text, a link and the data of its children: none, the name
  of a script that defines them, or the array itself.
\<close>

datatype nav_item = Item (i_text: jstr) (i_link: "jstr option") (i_data: nav_data)
  and nav_data = NoData | Lazy jstr | Items "nav_item list"

text \<open>
  The scripts of the site: the variables that the script of a name defines, if it
  loads. A script that does not load never calls back, and a name that is not defined
  throws in the callback; the tree stays as it was in both cases.
\<close>

type_synonym site_scripts = "jstr \<Rightarrow> (jstr \<rightharpoonup> nav_item list) option"

definition getData_name :: "jstr \<Rightarrow> jstr" where
  "getData_name varName =
     (let n = (case js_lastIndexOf varName slash of
                 Some i \<Rightarrow> js_substring_from varName (Suc i) | None \<Rightarrow> varName)
      in map (\<lambda>c. if c = 45 then 95 else c) n)"

definition getScript :: "site_scripts \<Rightarrow> jstr \<Rightarrow> nav_item list option" where
  "getScript scripts v = (case scripts v of None \<Rightarrow> None | Some vars \<Rightarrow> vars (getData_name v))"

section \<open>Nodes\<close>

datatype node_anchor = LinkAnchor link_attrs | ToggleAnchor | PlainAnchor

datatype arrow = ArrowRight | ArrowDown

text \<open>
  \<open>plus_img\<close> is the arrow of a node that has children, \<open>indent\<close> the pixels in front of
  it (or of the label), \<open>childrenUL\<close> the list element of the children once it is created,
  and whether it is displayed.
\<close>

record node_info =
  label :: jstr
  anchor :: node_anchor
  childrenData :: nav_data
  depth :: nat
  isLast :: bool
  expanded :: bool
  childrenVisited :: bool
  plus_img :: "arrow option"
  indent :: nat
  childrenUL :: "bool option"

datatype nav_node = Node (info: node_info) (children: "nav_node list")

definition with_info :: "(node_info \<Rightarrow> node_info) \<Rightarrow> nav_node \<Rightarrow> nav_node" where
  "with_info f n = Node (f (info n)) (children n)"

definition set_data :: "nav_data \<Rightarrow> nav_node \<Rightarrow> nav_node" where
  "set_data d = with_info (childrenData_update (\<lambda>_. d))"

definition set_child :: "nat \<Rightarrow> nav_node \<Rightarrow> nav_node \<Rightarrow> nav_node" where
  "set_child i c n = Node (info n) ((children n)[i := c])"

text \<open>The page the tree is shown on.\<close>

record nav_page =
  location_of :: location
  relpath :: jstr
  toroot :: jstr
  scripts :: site_scripts

section \<open>Building a level\<close>

text \<open>
  \<open>createIndent\<close> counts the ancestors of the new node: it has as many as its depth.
\<close>

definition createIndent :: "nav_data \<Rightarrow> nat \<Rightarrow> arrow option \<times> nat" where
  "createIndent d dep =
     (let level = dep - 1 in
      if d \<noteq> NoData then (Some ArrowRight, 16 * level) else (None, 16 * (level + 1)))"

definition newNode :: "nav_page \<Rightarrow> nav_node \<Rightarrow> nav_item \<Rightarrow> bool \<Rightarrow> nav_node" where
  "newNode pg po it lastNode =
     (let dep = depth (info po) + 1;
          (img, ind) = createIndent (i_data it) dep;
          a = (case i_link it of
                 Some link \<Rightarrow>
                   if link \<noteq> [] then LinkAnchor (link_attributes (location_of pg) (relpath pg) link)
                   else if i_data it \<noteq> NoData then ToggleAnchor else PlainAnchor
               | None \<Rightarrow> if i_data it \<noteq> NoData then ToggleAnchor else PlainAnchor)
      in Node \<lparr>label = i_text it, anchor = a, childrenData = i_data it, depth = dep,
           isLast = lastNode, expanded = False, childrenVisited = False, plus_img = img,
           indent = ind, childrenUL = None\<rparr> [])"

text \<open>
  \<open>getChildrenUL\<close> creates the list element, hidden, when it is first asked for.
\<close>

definition getChildrenUL :: "node_info \<Rightarrow> node_info" where
  "getChildrenUL i = (if childrenUL i = None then i\<lparr>childrenUL := Some False\<rparr> else i)"

definition getNode :: "nav_page \<Rightarrow> nav_node \<Rightarrow> nav_node" where
  "getNode pg po =
     (case childrenData (info po) of
        Items items \<Rightarrow>
          let l = int (length items) - 1 in
          Node ((if items = [] then info po else getChildrenUL (info po))\<lparr>childrenVisited := True\<rparr>)
            (map (\<lambda>i. newNode pg po (items ! i) (int i = l)) [0..<length items])
      | _ \<Rightarrow> with_info (childrenVisited_update (\<lambda>_. True)) po)"

text \<open>
  While a level is built, the element is taken out of the document and put back at its
  place (\<open>removeToInsertLater\<close>): in a list of siblings, in front of the one that
  followed it.
\<close>

definition remove_child :: "'e \<Rightarrow> 'e list \<Rightarrow> 'e list" where
  "remove_child e es = filter (\<lambda>x. x \<noteq> e) es"

definition next_sibling :: "'e \<Rightarrow> 'e list \<Rightarrow> 'e option" where
  "next_sibling e es = (case dropWhile (\<lambda>x. x \<noteq> e) es of _ # n # _ \<Rightarrow> Some n | _ \<Rightarrow> None)"

definition insert_before :: "'e \<Rightarrow> 'e \<Rightarrow> 'e list \<Rightarrow> 'e list" where
  "insert_before e n es = takeWhile (\<lambda>x. x \<noteq> n) es @ e # dropWhile (\<lambda>x. x \<noteq> n) es"

definition removeToInsertLater :: "'e \<Rightarrow> 'e list \<Rightarrow> 'e list \<times> ('e list \<Rightarrow> 'e list)" where
  "removeToInsertLater e es =
     (let nextSibling = next_sibling e es in
      (remove_child e es,
       (\<lambda>later. case nextSibling of Some n \<Rightarrow> insert_before e n later | None \<Rightarrow> later @ [e])))"


section \<open>Opening and closing\<close>

definition show_children :: "nav_page \<Rightarrow> nav_node \<Rightarrow> nav_node" where
  "show_children pg n =
     (let n = (if \<not> childrenVisited (info n) then getNode pg n else n) in
      with_info (\<lambda>i. (getChildrenUL i)\<lparr>childrenUL := Some True, plus_img := Some ArrowDown, expanded := True\<rparr>) n)"

lemma show_children_simps [simp]:
  "childrenData (info (show_children pg n)) = childrenData (info n)"
  "childrenVisited (info (show_children pg n))" "expanded (info (show_children pg n))"
  "plus_img (info (show_children pg n)) = Some ArrowDown"
  "childrenUL (info (show_children pg n)) = Some True"
  "label (info (show_children pg n)) = label (info n)"
  "anchor (info (show_children pg n)) = anchor (info n)"
  "depth (info (show_children pg n)) = depth (info n)"
  "childrenVisited (info n) \<Longrightarrow> children (show_children pg n) = children n"
  by (auto simp: show_children_def getNode_def with_info_def Let_def getChildrenUL_def split: nav_data.split)

lemma node_update_simps [simp]:
  "info (with_info f n) = f (info n)" "children (with_info f n) = children n"
  "info (set_child b c n) = info n" "children (set_child b c n) = (children n)[b := c]"
  "info (set_data d n) = (info n)\<lparr>childrenData := d\<rparr>" "children (set_data d n) = children n"
  by (simp_all add: with_info_def set_child_def set_data_def)

fun is_lazy :: "nav_data \<Rightarrow> bool" where
  "is_lazy (Lazy _) = True"
| "is_lazy _ = False"

function expandNode :: "nav_page \<Rightarrow> nav_node \<Rightarrow> nav_node" where
  "expandNode pg n =
     (if childrenData (info n) \<noteq> NoData \<and> \<not> expanded (info n) then
        case childrenData (info n) of
          Lazy v \<Rightarrow>
            (case getScript (scripts pg) v of
               None \<Rightarrow> n
             | Some items \<Rightarrow> expandNode pg (set_data (Items items) n))
        | _ \<Rightarrow> show_children pg n
      else n)"
  by pat_completeness auto
termination
  by (relation "measure (\<lambda>(pg, n). if is_lazy (childrenData (info n)) then 1 else 0)")
     auto

text \<open>A press on the arrow of a node (the function that \<open>createIndent\<close> installs).\<close>

definition toggleNode :: "nav_page \<Rightarrow> nav_node \<Rightarrow> nav_node" where
  "toggleNode pg n =
     (if expanded (info n) then
        with_info (\<lambda>i. (getChildrenUL i)\<lparr>childrenUL := Some False, plus_img := Some ArrowRight,
          expanded := False\<rparr>) n
      else expandNode pg n)"

section \<open>Following the breadcrumbs\<close>

text \<open>
  The end of \<open>showNode\<close>: a node is selected (here the positions that lead to it), only the
  anchor with the fragment is looked for, a script has not come, or the code throws.
\<close>

datatype shown = Selected "nat list" | AnchorOnly | Waiting | Throws js_error

fun below :: "nat \<Rightarrow> shown \<Rightarrow> shown" where
  "below b (Selected bs) = Selected (b # bs)"
| "below b s = s"

text \<open>\<open>toroot\<close> without its extension: cut at the first dot that has a unit after it.\<close>

fun strip_extension :: "jstr \<Rightarrow> jstr" where
  "strip_extension [] = []"
| "strip_extension (c # cs) = (if c = 46 \<and> cs \<noteq> [] then [] else c # strip_extension cs)"

definition opens_selected :: "nav_page \<Rightarrow> bool" where
  "opens_selected pg \<longleftrightarrow>
     stripPath (strip_extension (toroot pg)) \<in> {js ''index'', js ''pages'', js ''search''}"

definition lazy_weight :: "nat list \<Rightarrow> nav_node \<Rightarrow> nat" where
  "lazy_weight bs n =
     (if is_lazy (childrenData (info n)) then 3
      else if \<not> childrenVisited (info n) then 2
      else if bs \<noteq> [] \<and> hd bs < length (children n) \<and> is_lazy (childrenData (info (children n ! hd bs)))
      then 1 else 0)"

function showNode :: "nav_page \<Rightarrow> nat list \<Rightarrow> nav_node \<Rightarrow> nav_node \<times> shown" where
  "showNode pg bs n =
     (case childrenData (info n) of
        NoData \<Rightarrow> (n, AnchorOnly)
      | Lazy v \<Rightarrow>
          (case getScript (scripts pg) v of
             None \<Rightarrow> (n, Waiting)
           | Some items \<Rightarrow> showNode pg bs (set_data (Items items) n))
      | Items _ \<Rightarrow>
          let m = show_children pg n in
          case bs of
            [] \<Rightarrow> (m, Throws TypeError)
          | b # b' # bs' \<Rightarrow>
              if b < length (children m) then
                let (c, s) = showNode pg (b' # bs') (children m ! b) in (set_child b c m, below b s)
              else (m, AnchorOnly)
          | [b] \<Rightarrow>
              if b < length (children m) then
                let c = children m ! b in
                case childrenData (info c) of
                  Lazy v \<Rightarrow>
                    (case getScript (scripts pg) v of
                       None \<Rightarrow> (m, Waiting)
                     | Some items \<Rightarrow>
                         showNode pg [b] (with_info (expanded_update (\<lambda>_. False))
                           (set_child b (set_data (Items items) c) m)))
                | _ \<Rightarrow> (if opens_selected pg then set_child b (expandNode pg c) m else m, Selected [b])
              else (m, Throws TypeError))"
  by pat_completeness auto
termination
proof (relation "measures [\<lambda>(pg, bs, n). length bs, \<lambda>(pg, bs, n). lazy_weight bs n]", goal_cases)
  case 4
  then show ?case
    by (cases "childrenVisited (info n)") (auto simp: lazy_weight_def)
qed (auto simp: lazy_weight_def)


declare expandNode.simps [simp del] showNode.simps [simp del]

section \<open>The specification: what the arrays describe\<close>

text \<open>
  The entries of a level, loading the script when the level is in one, and the entry at a
  position.
\<close>

definition level :: "site_scripts \<Rightarrow> nav_data \<Rightarrow> nav_item list option" where
  "level s d = (case d of NoData \<Rightarrow> None | Lazy v \<Rightarrow> getScript s v | Items items \<Rightarrow> Some items)"

fun item_at :: "site_scripts \<Rightarrow> nav_data \<Rightarrow> nat list \<Rightarrow> nav_item option" where
  "item_at s d [] = None"
| "item_at s d [b] =
     (case level s d of None \<Rightarrow> None | Some items \<Rightarrow> if b < length items then Some (items ! b) else None)"
| "item_at s d (b # b' # bs) =
     (case level s d of
        None \<Rightarrow> None
      | Some items \<Rightarrow> if b < length items then item_at s (i_data (items ! b)) (b' # bs) else None)"

text \<open>
  A node stands for the data it was built from: its data are the same, or the array that
  the script gave; its children stand for the entries of the array once the level is
  built, and there are none before; an open node has its arrow down and its list
  displayed, a closed one with children has its arrow to the right and no built list
  displayed.
\<close>

definition data_ok :: "site_scripts \<Rightarrow> nav_data \<Rightarrow> nav_data \<Rightarrow> bool" where
  "data_ok s d cd \<longleftrightarrow> cd = d \<or> (\<exists>items. level s d = Some items \<and> cd = Items items)"

definition open_ok :: "node_info \<Rightarrow> bool" where
  "open_ok i \<longleftrightarrow>
     (expanded i \<longrightarrow> childrenVisited i \<and> plus_img i = Some ArrowDown \<and> childrenUL i = Some True) \<and>
     (\<not> expanded i \<longrightarrow> childrenData i \<noteq> NoData \<longrightarrow> plus_img i = Some ArrowRight \<and>
       (childrenVisited i \<longrightarrow> childrenUL i \<noteq> Some True))"

inductive stands_for :: "site_scripts \<Rightarrow> nav_data \<Rightarrow> nav_node \<Rightarrow> bool" for s where
  closed: "\<lbrakk>data_ok s d (childrenData i); \<not> childrenVisited i; open_ok i\<rbrakk> \<Longrightarrow> stands_for s d (Node i [])"
| built: "\<lbrakk>level s d = Some items; childrenData i = Items items; childrenVisited i; open_ok i;
     length cs = length items;
     \<And>k. k < length cs \<Longrightarrow> label (info (cs ! k)) = i_text (items ! k) \<and> stands_for s (i_data (items ! k)) (cs ! k)\<rbrakk>
   \<Longrightarrow> stands_for s d (Node i cs)"

inductive_cases stands_forE: "stands_for s d (Node i cs)"

lemma stands_for_built:
  assumes "stands_for s d n" "childrenVisited (info n)"
  obtains items where "level s d = Some items" "childrenData (info n) = Items items"
    "length (children n) = length items"
    "\<And>k. k < length items \<Longrightarrow> label (info (children n ! k)) = i_text (items ! k) \<and>
       stands_for s (i_data (items ! k)) (children n ! k)"
  using assms by (cases n) (auto elim!: stands_forE)

lemma stands_for_open: "stands_for s d n \<Longrightarrow> open_ok (info n)"
  by (auto elim: stands_for.cases)

lemma stands_for_data: "stands_for s d n \<Longrightarrow> data_ok s d (childrenData (info n))"
  by (auto elim!: stands_for.cases simp: data_ok_def)

lemma stands_for_unvisited: "stands_for s d n \<Longrightarrow> \<not> childrenVisited (info n) \<Longrightarrow> children n = []"
  by (auto elim: stands_for.cases)

lemma stands_for_load:
  assumes "stands_for s d n" "childrenData (info n) = Lazy v" "getScript s v = Some items"
  shows "stands_for s d (set_data (Items items) n)" "level s d = Some items"
proof -
  have d: "data_ok s d (Lazy v)" using stands_for_data [OF assms(1)] assms(2) by simp
  then show l: "level s d = Some items" using assms(3) by (auto simp: data_ok_def level_def)
  have unvisited: "\<not> childrenVisited (info n)" using assms(1,2) by (auto elim!: stands_for_built)
  then have "children n = []" using assms(1) stands_for_unvisited by blast
  moreover have "open_ok ((info n)\<lparr>childrenData := Items items\<rparr>)"
    using stands_for_open [OF assms(1)] assms(2) by (simp add: open_ok_def)
  moreover have "data_ok s d (Items items)" using l by (simp add: data_ok_def)
  ultimately have "stands_for s d (Node ((info n)\<lparr>childrenData := Items items\<rparr>) [])"
    using unvisited by (intro stands_for.closed) simp_all
  then show "stands_for s d (set_data (Items items) n)"
    using \<open>children n = []\<close> by (simp add: set_data_def with_info_def)
qed

lemma newNode_stands_for: "stands_for s (i_data it) (newNode pg po it b)"
  "label (info (newNode pg po it b)) = i_text it"
  by (auto simp: newNode_def createIndent_def Let_def data_ok_def open_ok_def intro!: stands_for.closed)

lemma show_children_stands_for:
  assumes "stands_for s d n" "childrenData (info n) = Items items"
  shows "stands_for s d (show_children pg n)" "level s d = Some items"
    "length (children (show_children pg n)) = length items"
proof -
  show l: "level s d = Some items"
    using stands_for_data [OF assms(1)] assms(2) by (auto simp: data_ok_def level_def)
  have built: "stands_for s d (show_children pg n) \<and> length (children (show_children pg n)) = length items"
  proof (cases "childrenVisited (info n)")
    case True
    then obtain its where its: "level s d = Some its" "childrenData (info n) = Items its"
      "length (children n) = length its"
      "\<And>k. k < length its \<Longrightarrow> label (info (children n ! k)) = i_text (its ! k) \<and>
         stands_for s (i_data (its ! k)) (children n ! k)"
      using assms(1) by (elim stands_for_built) auto
    have "stands_for s d (Node (info (show_children pg n)) (children (show_children pg n)))"
      by (rule stands_for.built [OF its(1)]) (use its True in \<open>auto simp: open_ok_def\<close>)
    then have "stands_for s d (show_children pg n)" by (simp only: nav_node.collapse)
    then show ?thesis using its assms(2) l True by simp
  next
    case False
    then have cs: "children (show_children pg n)
        = map (\<lambda>i. newNode pg n (items ! i) (int i = int (length items) - 1)) [0..<length items]"
      using assms(2) by (simp add: show_children_def getNode_def)
    have "stands_for s d (Node (info (show_children pg n)) (children (show_children pg n)))"
      by (rule stands_for.built [OF l]) (auto simp: assms(2) open_ok_def cs newNode_stands_for)
    then have "stands_for s d (show_children pg n)" by (simp only: nav_node.collapse)
    then show ?thesis using cs by simp
  qed
  show "stands_for s d (show_children pg n)" "length (children (show_children pg n)) = length items"
    using built by simp_all
qed


lemma set_child_stands_for:
  assumes "stands_for s d n" "childrenData (info n) = Items items" "childrenVisited (info n)"
    and "b < length items" "stands_for s (i_data (items ! b)) c" "label (info c) = i_text (items ! b)"
  shows "stands_for s d (set_child b c n)"
proof -
  obtain its where its: "level s d = Some its" "childrenData (info n) = Items its"
      "length (children n) = length its"
      "\<And>k. k < length its \<Longrightarrow> label (info (children n ! k)) = i_text (its ! k) \<and>
         stands_for s (i_data (its ! k)) (children n ! k)"
    using assms(1,3) by (elim stands_for_built) auto
  have "its = items" using its assms(2) by simp
  have o: "open_ok (info n)" using assms(1) by (rule stands_for_open)
  show ?thesis
    unfolding set_child_def
    by (rule stands_for.built [OF its(1)]) (use its assms o \<open>its = items\<close> in \<open>auto simp: nth_list_update\<close>)
qed

lemma expandNode_stands_for:
  "stands_for (scripts pg) d n \<Longrightarrow>
     stands_for (scripts pg) d (expandNode pg n) \<and> label (info (expandNode pg n)) = label (info n)"
proof (induction pg n rule: expandNode.induct)
  case (1 pg n)
  show ?case
  proof (cases "childrenData (info n)")
    case NoData
    then show ?thesis using "1.prems" by (simp add: expandNode.simps)
  next
    case (Items items)
    then show ?thesis
      using "1.prems" show_children_stands_for [OF "1.prems" Items] by (simp add: expandNode.simps)
  next
    case (Lazy v)
    then show ?thesis
    proof (cases "\<not> expanded (info n) \<and> (\<exists>items. getScript (scripts pg) v = Some items)")
      case True
      then obtain items where items: "getScript (scripts pg) v = Some items" by blast
      have "stands_for (scripts pg) d (set_data (Items items) n)"
        by (rule stands_for_load(1) [OF "1.prems" Lazy items])
      then show ?thesis
        using "1.IH" [OF _ Lazy items] True Lazy items expandNode.simps [of pg n] by simp
    next
      case False
      then show ?thesis using "1.prems" Lazy expandNode.simps [of pg n] by auto
    qed
  qed
qed

text \<open>
  The node at a position, and whether every node on the way to it (not the node itself)
  is open.
\<close>

fun node_at :: "nav_node \<Rightarrow> nat list \<Rightarrow> nav_node" where
  "node_at n [] = n"
| "node_at n (b # bs) = node_at (children n ! b) bs"

fun way_open :: "nav_node \<Rightarrow> nat list \<Rightarrow> bool" where
  "way_open n [] = True"
| "way_open n (b # bs) = (expanded (info n) \<and> plus_img (info n) = Some ArrowDown \<and>
     childrenUL (info n) = Some True \<and> b < length (children n) \<and> way_open (children n ! b) bs)"

lemma show_children_again:
  "show_children pg (with_info (expanded_update (\<lambda>_. False)) (set_child b c (show_children pg n)))
     = set_child b c (show_children pg n)"
  by (simp add: show_children_def [of pg "with_info _ _"] Let_def getChildrenUL_def)
     (simp add: with_info_def set_child_def)


lemma showNode_load:
  "childrenData (info n) = Lazy v \<Longrightarrow> getScript (scripts pg) v = Some items \<Longrightarrow>
     showNode pg bs n = showNode pg bs (set_data (Items items) n)"
  by (subst showNode.simps) simp

lemma stands_for_child:
  assumes "stands_for s d n" "childrenVisited (info n)" "childrenData (info n) = Items items" "b < length items"
  shows "stands_for s (i_data (items ! b)) (children n ! b)" "label (info (children n ! b)) = i_text (items ! b)"
  using assms by (auto elim!: stands_for_built)

definition loads :: "site_scripts \<Rightarrow> nav_data \<Rightarrow> bool" where
  "loads s d \<longleftrightarrow> (case d of Lazy v \<Rightarrow> getScript s v \<noteq> None | _ \<Rightarrow> True)"

definition shows_position :: "nav_page \<Rightarrow> nav_data \<Rightarrow> nat list \<Rightarrow> nav_item \<Rightarrow> nav_node \<Rightarrow> bool" where
  "shows_position pg d bs it n \<longleftrightarrow>
     (\<exists>n'. showNode pg bs n = (n', Selected bs) \<and> stands_for (scripts pg) d n' \<and>
        label (info n') = label (info n) \<and> way_open n' bs \<and> label (info (node_at n' bs)) = i_text it)"

lemma shows_position_load:
  "childrenData (info n) = Lazy v \<Longrightarrow> getScript (scripts pg) v = Some items \<Longrightarrow>
     shows_position pg d bs it (set_data (Items items) n) \<Longrightarrow> shows_position pg d bs it n"
  by (simp add: shows_position_def showNode_load)

lemma shows_last:
  assumes "stands_for (scripts pg) d n" "childrenData (info n) = Items items" "b < length items"
    and "\<not> is_lazy (childrenData (info (children (show_children pg n) ! b)))"
  shows "shows_position pg d [b] (items ! b) n"
proof -
  let ?m = "show_children pg n"
  let ?c = "children ?m ! b"
  note m = show_children_stands_for [OF assms(1,2)]
  have md: "childrenData (info ?m) = Items items" using assms(2) by simp
  have c: "stands_for (scripts pg) (i_data (items ! b)) ?c" "label (info ?c) = i_text (items ! b)"
    using stands_for_child [OF m(1) _ md assms(3)] by simp_all
  let ?m' = "if opens_selected pg then set_child b (expandNode pg ?c) ?m else ?m"
  have run: "showNode pg [b] n = (?m', Selected [b])"
    using assms(2-4) m(3) by (subst showNode.simps) (auto simp: Let_def split: nav_data.split)
  have "stands_for (scripts pg) d (set_child b (expandNode pg ?c) ?m)"
    by (rule set_child_stands_for [OF m(1) md _ assms(3)])
       (use c expandNode_stands_for [OF c(1)] in simp_all)
  then show ?thesis
    unfolding shows_position_def run
    using m assms(3) c expandNode_stands_for [OF c(1)] by (auto simp: nth_list_update)
qed

lemma shows_last_lazy:
  assumes "stands_for (scripts pg) d n" "childrenData (info n) = Items items" "b < length items"
    and "loads (scripts pg) (i_data (items ! b))"
  shows "shows_position pg d [b] (items ! b) n"
proof (cases "childrenData (info (children (show_children pg n) ! b))")
  case (Lazy v)
  let ?m = "show_children pg n"
  let ?c = "children ?m ! b"
  note m = show_children_stands_for [OF assms(1,2)]
  have md: "childrenData (info ?m) = Items items" using assms(2) by simp
  have c: "stands_for (scripts pg) (i_data (items ! b)) ?c" "label (info ?c) = i_text (items ! b)"
    using stands_for_child [OF m(1) _ md assms(3)] by simp_all
  have "i_data (items ! b) = Lazy v"
    using stands_for_data [OF c(1)] Lazy by (auto simp: data_ok_def)
  then obtain its where its: "getScript (scripts pg) v = Some its"
    using assms(4) by (auto simp: loads_def)
  let ?m' = "set_child b (set_data (Items its) ?c) ?m"
  have m': "stands_for (scripts pg) d ?m'"
    by (rule set_child_stands_for [OF m(1) md _ assms(3)])
       (use c stands_for_load(1) [OF c(1) Lazy its] in simp_all)
  have again: "show_children pg ?m' = ?m'"
    by (simp add: show_children_def [of pg "set_child _ _ _"] Let_def getChildrenUL_def)
       (simp add: with_info_def set_child_def)
  have step: "showNode pg [b] n = showNode pg [b] (with_info (expanded_update (\<lambda>_. False)) ?m')"
    using assms(2,3) m(3) Lazy its by (subst showNode.simps) (simp add: Let_def)
  have "showNode pg [b] (with_info (expanded_update (\<lambda>_. False)) ?m') = showNode pg [b] ?m'"
    using assms(2) again show_children_again [of pg b "set_data (Items its) ?c" n]
    by (subst (1 2) showNode.simps) (simp add: Let_def)
  moreover have "shows_position pg d [b] (items ! b) ?m'"
    by (rule shows_last [OF m' _ assms(3)]) (use assms(2,3) m(3) again in simp_all)
  ultimately show ?thesis using step by (simp add: shows_position_def)
qed (use shows_last [OF assms(1-3)] in simp_all)


lemma shows_step:
  assumes "stands_for (scripts pg) d n" "childrenData (info n) = Items items" "b < length items"
    and "\<And>c. stands_for (scripts pg) (i_data (items ! b)) c \<Longrightarrow>
      shows_position pg (i_data (items ! b)) (b' # bs) it c"
  shows "shows_position pg d (b # b' # bs) it n"
proof -
  let ?m = "show_children pg n"
  note m = show_children_stands_for [OF assms(1,2)]
  have md: "childrenData (info ?m) = Items items" using assms(2) by simp
  note c = stands_for_child [OF m(1) _ md assms(3), simplified]
  obtain c' where c': "showNode pg (b' # bs) (children ?m ! b) = (c', Selected (b' # bs))"
    "stands_for (scripts pg) (i_data (items ! b)) c'" "label (info c') = label (info (children ?m ! b))"
    "way_open c' (b' # bs)" "label (info (node_at c' (b' # bs))) = i_text it"
    using assms(4) [OF c(1)] by (auto simp: shows_position_def)
  have run: "showNode pg (b # b' # bs) n = (set_child b c' ?m, Selected (b # b' # bs))"
    using assms(2,3) m(3) c' by (subst showNode.simps) (simp add: Let_def)
  have "stands_for (scripts pg) d (set_child b c' ?m)"
    by (rule set_child_stands_for [OF m(1) md _ assms(3)]) (use c c' in simp_all)
  then show ?thesis
    unfolding shows_position_def run using m(3) assms(3) c' by auto
qed

lemma shows_position_any:
  "stands_for (scripts pg) d n \<Longrightarrow> item_at (scripts pg) d bs = Some it \<Longrightarrow>
     loads (scripts pg) (i_data it) \<Longrightarrow> shows_position pg d bs it n"
proof (induction bs arbitrary: d n rule: list.induct)
  case (Cons b bs)
  obtain items where items: "level (scripts pg) d = Some items" "b < length items"
    using Cons.prems(2) by (cases bs) (auto split: option.splits if_splits)
  have built: "shows_position pg d (b # bs) it n"
    if s: "stands_for (scripts pg) d n" and i: "childrenData (info n) = Items items" for n
  proof (cases bs)
    case Nil
    then show ?thesis
      using Cons.prems items shows_last_lazy [OF s i] by auto
  next
    case (Cons b' bs')
    show ?thesis
      unfolding Cons using Cons.prems Cons.IH items
      by (intro shows_step [OF s i items(2)]) (simp add: Cons)
  qed
  show ?case
  proof (cases "childrenData (info n)")
    case NoData
    then show ?thesis
      using stands_for_data [OF Cons.prems(1)] items by (auto simp: data_ok_def level_def)
  next
    case (Items its)
    then show ?thesis
      using stands_for_data [OF Cons.prems(1)] items built [OF Cons.prems(1)]
      by (auto simp: data_ok_def level_def)
  next
    case (Lazy v)
    then have "d = Lazy v" using stands_for_data [OF Cons.prems(1)] by (auto simp: data_ok_def)
    then have v: "getScript (scripts pg) v = Some items" using items by (simp add: level_def)
    show ?thesis
      by (rule shows_position_load [OF Lazy v], rule built)
         (use stands_for_load(1) [OF Cons.prems(1) Lazy v] in simp_all)
  qed
qed simp


lemma showNode_keeps_last:
  assumes s: "stands_for (scripts pg) d n" and i: "childrenData (info n) = Items items"
    and b: "b < length items" and nl: "\<not> is_lazy (childrenData (info (children (show_children pg n) ! b)))"
  shows "stands_for (scripts pg) d (fst (showNode pg [b] n)) \<and> label (info (fst (showNode pg [b] n))) = label (info n)"
  using shows_last [OF s i b nl] by (auto simp: shows_position_def)

lemma showNode_keeps_one:
  assumes s: "stands_for (scripts pg) d n" and i: "childrenData (info n) = Items items"
  shows "stands_for (scripts pg) d (fst (showNode pg [b] n)) \<and> label (info (fst (showNode pg [b] n))) = label (info n)"
proof (cases "b < length items")
  case b: True
  note m = show_children_stands_for(1) [OF s i, of pg] show_children_stands_for(3) [OF s i, of pg]
  show ?thesis
  proof (cases "\<exists>v. childrenData (info (children (show_children pg n) ! b)) = Lazy v \<and> getScript (scripts pg) v = None")
    case True
    then show ?thesis
      using s i b m by (subst (1 2) showNode.simps) (auto simp: Let_def)
  next
    case False
    have "loads (scripts pg) (i_data (items ! b))"
      if "is_lazy (childrenData (info (children (show_children pg n) ! b)))"
    proof -
      obtain v where v: "childrenData (info (children (show_children pg n) ! b)) = Lazy v"
        using \<open>is_lazy _\<close> by (cases "childrenData (info (children (show_children pg n) ! b))") simp_all
      then have "i_data (items ! b) = Lazy v"
        using stands_for_data [OF stands_for_child(1) [OF m(1) _ _ b]] i by (auto simp: data_ok_def)
      then show ?thesis using False v by (simp add: loads_def)
    qed
    then show ?thesis
      using shows_last_lazy [OF s i b] showNode_keeps_last [OF s i b]
      by (cases "is_lazy (childrenData (info (children (show_children pg n) ! b)))")
         (auto simp: shows_position_def simp del: way_open.simps)
  qed
next
  case False
  then show ?thesis
    using i show_children_stands_for [OF s i] by (subst (1 2) showNode.simps) (simp add: Let_def)
qed

lemma showNode_via_load:
  assumes "stands_for (scripts pg) d n"
    and "\<And>n. stands_for (scripts pg) d n \<Longrightarrow> \<not> is_lazy (childrenData (info n)) \<Longrightarrow>
      stands_for (scripts pg) d (fst (showNode pg bs n)) \<and> label (info (fst (showNode pg bs n))) = label (info n)"
  shows "stands_for (scripts pg) d (fst (showNode pg bs n)) \<and> label (info (fst (showNode pg bs n))) = label (info n)"
proof (cases "childrenData (info n)")
  case (Lazy v)
  show ?thesis
  proof (cases "getScript (scripts pg) v")
    case None
    then show ?thesis using assms(1) Lazy by (subst (1 2) showNode.simps) simp
  next
    case (Some items)
    then show ?thesis
      using assms(2) [OF stands_for_load(1) [OF assms(1) Lazy Some]] showNode_load [OF Lazy Some] by simp
  qed
qed (use assms in simp_all)

lemma showNode_keeps:
  "stands_for (scripts pg) d n \<Longrightarrow>
     stands_for (scripts pg) d (fst (showNode pg bs n)) \<and> label (info (fst (showNode pg bs n))) = label (info n)"
proof (induction bs arbitrary: d n)
  case Nil
  have eager: "stands_for (scripts pg) d (fst (showNode pg [] n)) \<and> label (info (fst (showNode pg [] n))) = label (info n)"
    if "stands_for (scripts pg) d n" "\<not> is_lazy (childrenData (info n))" for n
    using that show_children_stands_for [OF that(1)]
    by (subst (1 2) showNode.simps) (auto simp: Let_def split: nav_data.split)
  show ?case by (rule showNode_via_load [OF Nil eager])
next
  case step: (Cons b bs)
  have eager: "stands_for (scripts pg) d (fst (showNode pg (b # bs) n)) \<and>
      label (info (fst (showNode pg (b # bs) n))) = label (info n)"
    if s: "stands_for (scripts pg) d n" and "\<not> is_lazy (childrenData (info n))" for n
  proof (cases "childrenData (info n)")
    case NoData
    then show ?thesis using s by (subst (1 2) showNode.simps) simp
  next
    case (Items items)
    note m = show_children_stands_for(1) [OF s Items, of pg] show_children_stands_for(3) [OF s Items, of pg]
    show ?thesis
    proof (cases bs)
      case Nil
      then show ?thesis using showNode_keeps_one [OF s Items] by simp
    next
      case (Cons b' bs')
      have "stands_for (scripts pg) d (set_child b (fst (showNode pg bs (children (show_children pg n) ! b)))
          (show_children pg n))" if b: "b < length items"
        using step.IH [OF stands_for_child(1) [OF m(1) _ _ b]] stands_for_child(2) [OF m(1) _ _ b] Items b
        by (intro set_child_stands_for [OF m(1)]) auto
      then show ?thesis
        using m Items Cons by (subst (1 2) showNode.simps) (auto simp: Let_def split: prod.split)
    qed
  qed (use that in simp)
  show ?case by (rule showNode_via_load [OF step.prems eager])
qed


section \<open>The states of the tree\<close>

text \<open>The root that \<open>initNavTree\<close> makes; its list is in the document and displayed.\<close>

definition init_root :: "nav_item list \<Rightarrow> nav_node" where
  "init_root nav =
     Node \<lparr>label = [], anchor = PlainAnchor, childrenData = Items nav, depth = 0, isLast = True,
       expanded = False, childrenVisited = False, plus_img = Some ArrowRight, indent = 0,
       childrenUL = Some True\<rparr> []"

fun update_at :: "nat list \<Rightarrow> (nav_node \<Rightarrow> nav_node) \<Rightarrow> nav_node \<Rightarrow> nav_node" where
  "update_at [] f n = f n"
| "update_at (b # bs) f n = set_child b (update_at bs f (children n ! b)) n"

fun is_built :: "nav_node \<Rightarrow> nat list \<Rightarrow> bool" where
  "is_built n [] = True"
| "is_built n (b # bs) = (b < length (children n) \<and> is_built (children n ! b) bs)"

text \<open>
  Whatever the page does with the tree: it shows positions, good or bad ones, and the
  reader presses the arrows of nodes that exist.
\<close>

inductive tree_reachable :: "nav_page \<Rightarrow> nav_item list \<Rightarrow> nav_node \<Rightarrow> bool" for pg nav where
  init: "tree_reachable pg nav (init_root nav)"
| position: "tree_reachable pg nav n \<Longrightarrow> tree_reachable pg nav (fst (showNode pg bs n))"
| press: "tree_reachable pg nav n \<Longrightarrow> is_built n bs \<Longrightarrow> tree_reachable pg nav (update_at bs (toggleNode pg) n)"

lemma init_root_stands_for: "stands_for s (Items nav) (init_root nav)"
  unfolding init_root_def by (rule stands_for.closed) (simp_all add: data_ok_def open_ok_def)

lemma open_ok_cong:
  "expanded j = expanded i \<Longrightarrow> childrenVisited j = childrenVisited i \<Longrightarrow> plus_img j = plus_img i \<Longrightarrow>
   childrenUL j = childrenUL i \<Longrightarrow> childrenData j = childrenData i \<Longrightarrow> open_ok j = open_ok i"
  by (simp add: open_ok_def)

lemma stands_for_info:
  assumes "stands_for s d n" "open_ok i" "childrenVisited i = childrenVisited (info n)"
    "childrenData i = childrenData (info n)"
  shows "stands_for s d (Node i (children n))"
  using assms(1)
proof cases
  case (closed j)
  then show ?thesis using assms by (auto intro!: stands_for.closed)
next
  case (built items j cs)
  then show ?thesis using assms by (auto intro!: stands_for.built [of s d items])
qed

lemma toggleNode_stands_for:
  assumes "stands_for (scripts pg) d n"
  shows "stands_for (scripts pg) d (toggleNode pg n) \<and> label (info (toggleNode pg n)) = label (info n)"
proof (cases "expanded (info n)")
  case True
  let ?i = "(getChildrenUL (info n))\<lparr>childrenUL := Some False, plus_img := Some ArrowRight, expanded := False\<rparr>"
  have "stands_for (scripts pg) d (Node ?i (children n))"
    using stands_for_open [OF assms] by (intro stands_for_info [OF assms]) (auto simp: open_ok_def getChildrenUL_def)
  then show ?thesis using True by (simp add: toggleNode_def with_info_def getChildrenUL_def)
next
  case False
  then show ?thesis using expandNode_stands_for [OF assms] by (simp add: toggleNode_def)
qed

lemma update_at_stands_for:
  "stands_for (scripts pg) d n \<Longrightarrow> is_built n bs \<Longrightarrow>
     stands_for (scripts pg) d (update_at bs (toggleNode pg) n) \<and>
     label (info (update_at bs (toggleNode pg) n)) = label (info n)"
proof (induction bs arbitrary: d n)
  case Nil
  then show ?case by (simp add: toggleNode_stands_for)
next
  case (Cons b bs)
  then have "children n \<noteq> []" by auto
  then have v: "childrenVisited (info n)" using stands_for_unvisited [OF Cons.prems(1)] by blast
  obtain items where items: "childrenData (info n) = Items items" "length (children n) = length items"
    using stands_for_built [OF Cons.prems(1) v] by metis
  have b: "b < length items" using Cons.prems items by simp
  note c = stands_for_child [OF Cons.prems(1) v items(1) b]
  show ?case
    using set_child_stands_for [OF Cons.prems(1) items(1) v b] Cons.IH [OF c(1)] Cons.prems(2) c(2) by simp
qed

lemma tree_reachable_stands_for:
  "tree_reachable pg nav n \<Longrightarrow> stands_for (scripts pg) (Items nav) n"
  by (induction rule: tree_reachable.induct)
     (simp_all add: init_root_stands_for showNode_keeps update_at_stands_for)

lemma built_stands_for:
  "stands_for s d n \<Longrightarrow> is_built n bs \<Longrightarrow> \<exists>d'. stands_for s d' (node_at n bs)"
proof (induction bs arbitrary: d n)
  case (Cons b bs)
  then have "children n \<noteq> []" by auto
  then have v: "childrenVisited (info n)" using stands_for_unvisited [OF Cons.prems(1)] by blast
  obtain items where items: "childrenData (info n) = Items items" "length (children n) = length items"
    using stands_for_built [OF Cons.prems(1) v] by metis
  then have "stands_for s (i_data (items ! b)) (children n ! b)"
    using stands_for_child(1) [OF Cons.prems(1) v items(1)] Cons.prems(2) by simp
  then show ?case using Cons.IH Cons.prems(2) by simp
qed auto


section \<open>Properties\<close>

text \<open>
  C4: From every state of the tree, showing a position that the arrays of the site
  describe (loading the scripts on the way) selects the entry at exactly that position
  and leaves every level on the way to it built, displayed and with its arrow down.
\<close>

theorem breadcrumbs_open_the_tree:
  assumes "tree_reachable pg nav n" "item_at (scripts pg) (Items nav) bs = Some it"
    and "loads (scripts pg) (i_data it)"
  shows "\<exists>n'. showNode pg bs n = (n', Selected bs) \<and> way_open n' bs \<and> label (info (node_at n' bs)) = i_text it"
  using shows_position_any [OF tree_reachable_stands_for [OF assms(1)] assms(2,3)]
  by (auto simp: shows_position_def)

definition demo_nav :: "nav_item list" where
  "demo_nav = [Item (js ''Project'') (Some (js ''index.html''))
     (Items [Item (js ''Classes'') (Some (js ''annotated.html'')) (Lazy (js ''annotated-dup''))])]"

definition demo_nav_page :: nav_page where
  "demo_nav_page = \<lparr>location_of = \<lparr>loc_pathname = js ''/classes.html'', loc_hash = []\<rparr>, relpath = [],
     toroot = js ''classes.html'',
     scripts = (\<lambda>v. if v = js ''annotated-dup''
       then Some [js ''annotated_dup'' \<mapsto> [Item (js ''Client'') (Some (js ''df/dcd/c.html'')) NoData]] else None)\<rparr>"

theorem breadcrumbs_open_the_tree_witness:
  "\<exists>n'. showNode demo_nav_page [0, 0, 0] (init_root demo_nav) = (n', Selected [0, 0, 0]) \<and>
     label (info (node_at n' [0, 0, 0])) = js ''Client''"
proof -
  have "getData_name (js ''annotated-dup'') = js ''annotated_dup''"
    by (simp add: getData_name_def js_def Let_def)
  then have "item_at (scripts demo_nav_page) (Items demo_nav) [0, 0, 0]
      = Some (Item (js ''Client'') (Some (js ''df/dcd/c.html'')) NoData)"
    by (simp add: level_def getScript_def demo_nav_def demo_nav_page_def)
  then show ?thesis
    using breadcrumbs_open_the_tree [OF tree_reachable.init] by (fastforce simp: loads_def)
qed

text \<open>
  In every state, each node that exists shows what it is: an open one has built its
  level, has its arrow down and displays its list; a closed one whose children are known
  has its arrow to the right, and its list, once built, is hidden.
\<close>

theorem arrows_tell_open_nodes:
  assumes "tree_reachable pg nav n" "is_built n bs"
  defines "i \<equiv> info (node_at n bs)"
  shows "(expanded i \<longrightarrow> childrenVisited i \<and> plus_img i = Some ArrowDown \<and> childrenUL i = Some True) \<and>
    (\<not> expanded i \<and> childrenData i \<noteq> NoData \<longrightarrow> plus_img i = Some ArrowRight \<and>
       (childrenVisited i \<longrightarrow> childrenUL i \<noteq> Some True))"
  using built_stands_for [OF tree_reachable_stands_for [OF assms(1)] assms(2)] stands_for_open
  unfolding i_def open_ok_def by blast

theorem arrows_tell_open_nodes_witness:
  "plus_img (info (node_at (init_root demo_nav) [])) = Some ArrowRight"
  using arrows_tell_open_nodes [OF tree_reachable.init [of demo_nav_page demo_nav], of "[]"]
  by (simp add: init_root_def)

lemma info_restored:
  "expanded i \<Longrightarrow> plus_img i = Some ArrowDown \<Longrightarrow> childrenUL i = Some True \<Longrightarrow>
   i\<lparr>expanded := True, plus_img := Some ArrowDown, childrenUL := Some True\<rparr> = i"
  by (cases i) simp

text \<open>
  Closing an open node and opening it again gives the node as it was, with the state
  of everything below it.
\<close>

theorem close_and_reopen:
  assumes "tree_reachable pg nav n" "is_built n bs" "expanded (info (node_at n bs))"
  shows "toggleNode pg (toggleNode pg (node_at n bs)) = node_at n bs"
proof -
  let ?m = "node_at n bs"
  obtain d where s: "stands_for (scripts pg) d ?m"
    using built_stands_for [OF tree_reachable_stands_for [OF assms(1)] assms(2)] by blast
  have o: "childrenVisited (info ?m)" "plus_img (info ?m) = Some ArrowDown" "childrenUL (info ?m) = Some True"
    using stands_for_open [OF s] assms(3) by (simp_all add: open_ok_def)
  obtain items where items: "childrenData (info ?m) = Items items"
    using s o(1) by (elim stands_for_built)
  let ?c = "toggleNode pg ?m"
  have c: "info ?c = (info ?m)\<lparr>expanded := False, plus_img := Some ArrowRight, childrenUL := Some False\<rparr>"
    "children ?c = children ?m"
    using assms(3) o by (simp_all add: toggleNode_def getChildrenUL_def)
  have "toggleNode pg ?c = show_children pg ?c"
    using c items by (simp add: toggleNode_def expandNode.simps)
  also have "\<dots> = Node ((info ?m)\<lparr>expanded := True, plus_img := Some ArrowDown, childrenUL := Some True\<rparr>) (children ?m)"
    using c o by (simp add: show_children_def Let_def getChildrenUL_def with_info_def)
  also have "\<dots> = ?m" using info_restored [OF assms(3) o(2,3)] by simp
  finally show ?thesis .
qed

theorem close_and_reopen_witness:
  "let n = toggleNode demo_nav_page (init_root demo_nav) in
     expanded (info n) \<and> toggleNode demo_nav_page (toggleNode demo_nav_page n) = n"
proof -
  let ?n = "toggleNode demo_nav_page (init_root demo_nav)"
  have "tree_reachable demo_nav_page demo_nav ?n"
    using tree_reachable.press [OF tree_reachable.init, of demo_nav "[]" demo_nav_page] by simp
  moreover have "expanded (info ?n)"
    by (simp add: toggleNode_def init_root_def expandNode.simps)
  ultimately show ?thesis
    using close_and_reopen [of demo_nav_page demo_nav ?n "[]"] by (simp add: Let_def)
qed


lemma item_at_eager:
  "level s d = Some items \<Longrightarrow> item_at s d (b # bs) =
     (if b < length items then if bs = [] then Some (items ! b) else item_at s (i_data (items ! b)) bs else None)"
  by (cases bs) simp_all

text \<open>
  A position that leaves the tree at an array: when the missing entry is the last
  step the code throws, before it only the anchor of the fragment is looked for; in both
  cases the level is opened and the tree still stands for the arrays.
\<close>

theorem position_outside_a_level:
  assumes "tree_reachable pg nav n" "length nav \<le> b"
  shows "snd (showNode pg (b # bs) n) = (if bs = [] then Throws TypeError else AnchorOnly) \<and>
    expanded (info (fst (showNode pg (b # bs) n))) \<and>
    stands_for (scripts pg) (Items nav) (fst (showNode pg (b # bs) n))"
proof -
  have s: "stands_for (scripts pg) (Items nav) n" using tree_reachable_stands_for [OF assms(1)] .
  have d: "childrenData (info n) = Items nav"
    using stands_for_data [OF s] by (auto simp: data_ok_def level_def)
  note m = show_children_stands_for(1) [OF s d, of pg] show_children_stands_for(3) [OF s d, of pg]
  show ?thesis
    using d m assms(2) by (cases bs) (simp_all add: showNode.simps Let_def)
qed

theorem position_outside_a_level_witness:
  "snd (showNode demo_nav_page [1] (init_root demo_nav)) = Throws TypeError"
  using position_outside_a_level [OF tree_reachable.init [of demo_nav_page demo_nav], of 1 "[]"]
  by (simp add: demo_nav_def)

lemma drop_to_element: "e \<notin> set us \<Longrightarrow> dropWhile (\<lambda>x. x \<noteq> e) (us @ e # vs) = e # vs"
  by (induction us) auto

lemma take_to_element: "e \<notin> set us \<Longrightarrow> takeWhile (\<lambda>x. x \<noteq> e) (us @ e # vs) = us"
  by (induction us) auto

lemma split_at_element:
  assumes "distinct es" "e \<in> set es"
  obtains us vs where "es = us @ e # vs" "e \<notin> set us" "e \<notin> set vs" "distinct (us @ vs)"
proof -
  obtain us vs where "es = us @ e # vs" using split_list [OF assms(2)] by blast
  then show ?thesis using that assms(1) by auto
qed

text \<open>
  The element that is taken out of the document while its level is built is put back
  where it was, and while it is out only it is missing.
\<close>

theorem removed_element_returns_to_its_place:
  assumes "distinct es" "e \<in> set es"
  shows "snd (removeToInsertLater e es) (fst (removeToInsertLater e es)) = es \<and>
    set (fst (removeToInsertLater e es)) = set es - {e}"
proof -
  obtain us vs where es: "es = us @ e # vs" "e \<notin> set us" "e \<notin> set vs" "distinct (us @ vs)"
    using split_at_element [OF assms] .
  have "filter (\<lambda>x. x \<noteq> e) us = us" "filter (\<lambda>x. x \<noteq> e) vs = vs"
    using es(2,3) by (auto simp: filter_id_conv)
  then have rest: "remove_child e es = us @ vs" by (simp add: remove_child_def es(1))
  have "dropWhile (\<lambda>x. x \<noteq> e) (us @ e # vs) = e # vs" by (rule drop_to_element [OF es(2)])
  then have next_is: "next_sibling e es = (case vs of [] \<Rightarrow> None | n # _ \<Rightarrow> Some n)"
    by (simp add: next_sibling_def es(1) split: list.split)
  have "insert_before e v (us @ v # vs') = us @ e # v # vs'" if "vs = v # vs'" for v vs'
  proof -
    have "v \<notin> set us" using es(4) that by auto
    then show ?thesis by (simp add: insert_before_def drop_to_element take_to_element)
  qed
  then have "snd (removeToInsertLater e es) (us @ vs) = es"
    using next_is es(1) by (cases vs) (simp_all add: removeToInsertLater_def Let_def)
  then show ?thesis
    using rest es by (auto simp: removeToInsertLater_def Let_def)
qed

theorem removed_element_returns_to_its_place_witness:
  "snd (removeToInsertLater (2::nat) [1, 2, 3]) (fst (removeToInsertLater 2 [1, 2, 3])) = [1, 2, 3]"
  using removed_element_returns_to_its_place [of "[1, 2, 3]" "2::nat"] by simp

end
