(* ===== verification/NavData.thy ===== *)
theory NavData
  imports NavTree
begin

text \<open>
  The arrays that the site ships for its navigation tree: the tree itself as far as it is
  not in scripts of its own (\<open>navtreedata.js\<close>), the first key of each index script, and
  the index scripts (\<open>navtreeindex0.js\<close> to \<open>navtreeindex2.js\<close>), which give the position of
  every page and anchor. Each index is split in two halves here. A key that occurs twice
  in an object literal has its last value.
\<close>

definition NAVTREE :: "nav_item list" where
  "NAVTREE = [
    Item (js ''CleverHand Interface'') (Some (js ''index.html'')) (Items [
     Item (js ''com_client'') (Some (js ''index.html'')) (Items [
      Item (js ''Building source code'') (Some (js ''index.html#autotoc_md5'')) NoData,
      Item (js ''Demonstration app'') (Some (js ''index.html#autotoc_md6'')) NoData,
      Item (js ''Example'') (Some (js ''index.html#autotoc_md7'')) NoData]),
     Item (js ''strANSIseq'') (Some (js ''d8/de6/md__home_aightech_dev_kistler__d_a_q_lib_com_client_lib_str_a_n_s_iseq__r_e_a_d_m_e.html'')) (Items [
      Item (js ''Building source code'') (Some (js ''d8/de6/md__home_aightech_dev_kistler__d_a_q_lib_com_client_lib_str_a_n_s_iseq__r_e_a_d_m_e.html#autotoc_md1'')) NoData,
      Item (js ''Demonstration app'') (Some (js ''d8/de6/md__home_aightech_dev_kistler__d_a_q_lib_com_client_lib_str_a_n_s_iseq__r_e_a_d_m_e.html#autotoc_md2'')) NoData,
      Item (js ''Example'') (Some (js ''d8/de6/md__home_aightech_dev_kistler__d_a_q_lib_com_client_lib_str_a_n_s_iseq__r_e_a_d_m_e.html#autotoc_md3'')) NoData]),
     Item (js ''built_lsl'') (Some (js ''d5/d45/md__home_aightech_dev_kistler__d_a_q_lib_com_client_tool_lib_built_lsl__r_e_a_d_m_e.html'')) (Items [
      Item (js ''Building source code'') (Some (js ''d5/d45/md__home_aightech_dev_kistler__d_a_q_lib_com_client_tool_lib_built_lsl__r_e_a_d_m_e.html#autotoc_md9'')) NoData,
      Item (js ''Demonstration app'') (Some (js ''d5/d45/md__home_aightech_dev_kistler__d_a_q_lib_com_client_tool_lib_built_lsl__r_e_a_d_m_e.html#autotoc_md10'')) NoData,
      Item (js ''Example'') (Some (js ''d5/d45/md__home_aightech_dev_kistler__d_a_q_lib_com_client_tool_lib_built_lsl__r_e_a_d_m_e.html#autotoc_md11'')) NoData]),
     Item (js ''Namespaces'') (Some (js ''namespaces.html'')) (Items [
      Item (js ''Namespace List'') (Some (js ''namespaces.html'')) (Lazy (js ''namespaces_dup'')),
      Item (js ''Namespace Members'') (Some (js ''namespacemembers.html'')) (Items [
       Item (js ''All'') (Some (js ''namespacemembers.html'')) NoData,
       Item (js ''Functions'') (Some (js ''namespacemembers_func.html'')) NoData,
       Item (js ''Variables'') (Some (js ''namespacemembers_vars.html'')) NoData,
       Item (js ''Enumerations'') (Some (js ''namespacemembers_enum.html'')) NoData,
       Item (js ''Enumerator'') (Some (js ''namespacemembers_eval.html'')) NoData])]),
     Item (js ''Classes'') (Some (js ''annotated.html'')) (Items [
      Item (js ''Class List'') (Some (js ''annotated.html'')) (Lazy (js ''annotated_dup'')),
      Item (js ''Class Index'') (Some (js ''classes.html'')) NoData,
      Item (js ''Class Hierarchy'') (Some (js ''hierarchy.html'')) (Lazy (js ''hierarchy'')),
      Item (js ''Class Members'') (Some (js ''functions.html'')) (Items [
       Item (js ''All'') (Some (js ''functions.html'')) NoData,
       Item (js ''Functions'') (Some (js ''functions_func.html'')) NoData,
       Item (js ''Variables'') (Some (js ''functions_vars.html'')) NoData,
       Item (js ''Enumerations'') (Some (js ''functions_enum.html'')) NoData,
       Item (js ''Enumerator'') (Some (js ''functions_eval.html'')) NoData])]),
     Item (js ''Files'') (Some (js ''files.html'')) (Items [
      Item (js ''File List'') (Some (js ''files.html'')) (Lazy (js ''files_dup'')),
      Item (js ''File Members'') (Some (js ''globals.html'')) (Items [
       Item (js ''All'') (Some (js ''globals.html'')) (Lazy (js ''globals_dup'')),
       Item (js ''Functions'') (Some (js ''globals_func.html'')) NoData,
       Item (js ''Variables'') (Some (js ''globals_vars.html'')) NoData,
       Item (js ''Typedefs'') (Some (js ''globals_type.html'')) NoData,
       Item (js ''Enumerations'') (Some (js ''globals_enum.html'')) NoData,
       Item (js ''Enumerator'') (Some (js ''globals_eval.html'')) NoData,
       Item (js ''Macros'') (Some (js ''globals_defs.html'')) NoData])])])]"

definition NAVTREEINDEX :: "string list" where
  "NAVTREEINDEX = [
    ''annotated.html'',
    ''d6/dbd/classlsl_1_1stream__inlet.html#a9183e81a122df862eff9ea9797c82b73'',
    ''db/df3/lsl__c_8h.html#af9e8d161e2cc70ffbf9443083ff5d33d'']"

definition NAVTREEINDEX0a :: "(string \<times> nat list) list" where
  "NAVTREEINDEX0a = [
    (''annotated.html'', [4, 0]),
    (''classes.html'', [4, 1]),
    (''d0/d3f/lib_2str_a_n_s_iseq_2src_2main_8cpp.html'', [5, 0, 2, 0, 1, 0]),
    (''d0/d3f/lib_2str_a_n_s_iseq_2src_2main_8cpp.html#a3c04138a5bfe5d72780bb7e82a18e627'', [5, 0, 2, 0, 1, 0, 0]),
    (''d1/d3a/_c_make_c_compiler_id_8c.html'', [5, 0, 0, 0, 0, 0, 0]),
    (''d1/d3a/_c_make_c_compiler_id_8c.html#a0ddf1224851353fc92bfbff6f499fa97'', [5, 0, 0, 0, 0, 0, 0, 9]),
    (''d1/d3a/_c_make_c_compiler_id_8c.html#a0f46a8a39e09d9b803c4766904fd7e99'', [5, 0, 0, 0, 0, 0, 0, 12]),
    (''d1/d3a/_c_make_c_compiler_id_8c.html#a2321403dee54ee23f0c2fa849c60f7d4'', [5, 0, 0, 0, 0, 0, 0, 14]),
    (''d1/d3a/_c_make_c_compiler_id_8c.html#a2ae9b72bb13abaabfcf2ee0ba7d3fa1d'', [5, 0, 0, 0, 0, 0, 0, 8]),
    (''d1/d3a/_c_make_c_compiler_id_8c.html#a43e1cad902b6477bec893cb6430bd6c8'', [5, 0, 0, 0, 0, 0, 0, 7]),
    (''d1/d3a/_c_make_c_compiler_id_8c.html#a4607cccf070750927b458473ca82c090'', [5, 0, 0, 0, 0, 0, 0, 13]),
    (''d1/d3a/_c_make_c_compiler_id_8c.html#a46d5d95daa1bef867bd0179594310ed5'', [5, 0, 0, 0, 0, 0, 0, 5]),
    (''d1/d3a/_c_make_c_compiler_id_8c.html#a4b0efeb7a5d59313986b3a0390f050f6'', [5, 0, 0, 0, 0, 0, 0, 11]),
    (''d1/d3a/_c_make_c_compiler_id_8c.html#a59647e99d304ed33b15cb284c27ed391'', [5, 0, 0, 0, 0, 0, 0, 10]),
    (''d1/d3a/_c_make_c_compiler_id_8c.html#a81dee0709ded976b2e0319239f72d174'', [5, 0, 0, 0, 0, 0, 0, 3]),
    (''d1/d3a/_c_make_c_compiler_id_8c.html#aba35d0d200deaeb06aee95ca297acb28'', [5, 0, 0, 0, 0, 0, 0, 1]),
    (''d1/d3a/_c_make_c_compiler_id_8c.html#ad1280362da42492bbc11aa78cbf776ad'', [5, 0, 0, 0, 0, 0, 0, 4]),
    (''d1/d3a/_c_make_c_compiler_id_8c.html#adaee3ee7c5a7a22451ea25e762e1d7d5'', [5, 0, 0, 0, 0, 0, 0, 2]),
    (''d1/d3a/_c_make_c_compiler_id_8c.html#adbc5372f40838899018fadbc89bd588b'', [5, 0, 0, 0, 0, 0, 0, 6]),
    (''d1/d3a/_c_make_c_compiler_id_8c.html#ae5510d82e4946f1656f4969911c54736'', [5, 0, 0, 0, 0, 0, 0, 0]),
    (''d1/d6a/classlsl_1_1stream__info.html'', [4, 0, 2, 0]),
    (''d1/d6a/classlsl_1_1stream__info.html#a0862e5c580d65ecf9ceb1fcc26f2ca34'', [4, 0, 2, 0, 14]),
    (''d1/d6a/classlsl_1_1stream__info.html#a1f20c68246a88047978d9b03e14a9d2b'', [4, 0, 2, 0, 19]),
    (''d1/d6a/classlsl_1_1stream__info.html#a2162830f6867e9513eba9385eb0cbb99'', [4, 0, 2, 0, 20]),
    (''d1/d6a/classlsl_1_1stream__info.html#a35b9b9b8947915f9f9518333342e2835'', [4, 0, 2, 0, 15]),
    (''d1/d6a/classlsl_1_1stream__info.html#a52db8d9e073297477d1183dfebe8dcda'', [4, 0, 2, 0, 12]),
    (''d1/d6a/classlsl_1_1stream__info.html#a532f6e8b29052cf11fbf87aeb3424304'', [4, 0, 2, 0, 11]),
    (''d1/d6a/classlsl_1_1stream__info.html#a59036c0e83bcb07b711ec7e3e3b15fef'', [4, 0, 2, 0, 18]),
    (''d1/d6a/classlsl_1_1stream__info.html#a6c3474322d467e8d8198c7a6e4c7ad76'', [4, 0, 2, 0, 13]),
    (''d1/d6a/classlsl_1_1stream__info.html#a7358ba03d8741b0b194cf9e747405702'', [4, 0, 2, 0, 1]),
    (''d1/d6a/classlsl_1_1stream__info.html#a780a9289cc6f1d57215ed297aecfc78b'', [4, 0, 2, 0, 2]),
    (''d1/d6a/classlsl_1_1stream__info.html#a7bbc53bb041757eb87c6c73564981390'', [4, 0, 2, 0, 10]),
    (''d1/d6a/classlsl_1_1stream__info.html#a7eb192e1913596b017137347e4cc5847'', [4, 0, 2, 0, 6]),
    (''d1/d6a/classlsl_1_1stream__info.html#a82fd071574212a20ba4faffac5ce7803'', [4, 0, 2, 0, 3]),
    (''d1/d6a/classlsl_1_1stream__info.html#a874f4899da89168b768cfe9acdd569a0'', [4, 0, 2, 0, 0]),
    (''d1/d6a/classlsl_1_1stream__info.html#a8ce8011b9da9b90c8e11e5c1c477a0a2'', [4, 0, 2, 0, 16]),
    (''d1/d6a/classlsl_1_1stream__info.html#a9a5be16db42c09b1f0cced52a2259db8'', [4, 0, 2, 0, 9]),
    (''d1/d6a/classlsl_1_1stream__info.html#aa9695e52570e617d1c7dd4ea9f88b15d'', [4, 0, 2, 0, 8]),
    (''d1/d6a/classlsl_1_1stream__info.html#aabd83f83d0abe8671e766e97f471dea9'', [4, 0, 2, 0, 22]),
    (''d1/d6a/classlsl_1_1stream__info.html#ab1ccb9c2a1945c7051a0e90edaba8996'', [4, 0, 2, 0, 5]),
    (''d1/d6a/classlsl_1_1stream__info.html#ab68def3a9c81c289ba46a5b40c6b4084'', [4, 0, 2, 0, 17]),
    (''d1/d6a/classlsl_1_1stream__info.html#acf09957c1c61a9d9e0f9439037eec305'', [4, 0, 2, 0, 7]),
    (''d1/d6a/classlsl_1_1stream__info.html#ae6fa890ffd440f298dd02fe71eaf3b82'', [4, 0, 2, 0, 21]),
    (''d1/d6a/classlsl_1_1stream__info.html#afe4bf312984faef204ee4480385a9bc1'', [4, 0, 2, 0, 4]),
    (''d1/d7c/lsl__cpp_8h.html'', [5, 0, 4, 0, 0, 1]),
    (''d1/d7c/lsl__cpp_8h.html#a25fc4deea3c2fb0df0744e3a24c56844'', [5, 0, 4, 0, 0, 1, 11]),
    (''d1/d7c/lsl__cpp_8h.html#a28d50dae6fd82eea8893ce3d63ccd46c'', [5, 0, 4, 0, 0, 1, 7]),
    (''d1/d7c/lsl__cpp_8h.html#a28d50dae6fd82eea8893ce3d63ccd46ca46efa3307b337f7de592753642584616'', [5, 0, 4, 0, 0, 1, 7, 0]),
    (''d1/d7c/lsl__cpp_8h.html#a28d50dae6fd82eea8893ce3d63ccd46ca526ce3ccb97e3bb75d913c60ad56c26d'', [5, 0, 4, 0, 0, 1, 7, 3]),
    (''d1/d7c/lsl__cpp_8h.html#a28d50dae6fd82eea8893ce3d63ccd46ca5c625662462c8a30454f6f7f0520e79c'', [5, 0, 4, 0, 0, 1, 7, 4]),
    (''d1/d7c/lsl__cpp_8h.html#a28d50dae6fd82eea8893ce3d63ccd46ca6795e1df0db0b05744fd1fe9623567a0'', [5, 0, 4, 0, 0, 1, 7, 6]),
    (''d1/d7c/lsl__cpp_8h.html#a28d50dae6fd82eea8893ce3d63ccd46ca829ae156932f587fbbc70aed1d46e388'', [5, 0, 4, 0, 0, 1, 7, 5]),
    (''d1/d7c/lsl__cpp_8h.html#a28d50dae6fd82eea8893ce3d63ccd46cab11213c3d307faf6ef734633ac732eb7'', [5, 0, 4, 0, 0, 1, 7, 1]),
    (''d1/d7c/lsl__cpp_8h.html#a28d50dae6fd82eea8893ce3d63ccd46cadc8092d1092568f7d36d89fa7e813d76'', [5, 0, 4, 0, 0, 1, 7, 7]),
    (''d1/d7c/lsl__cpp_8h.html#a28d50dae6fd82eea8893ce3d63ccd46caedadbd6437a22628678edaf287c87048'', [5, 0, 4, 0, 0, 1, 7, 2]),
    (''d1/d7c/lsl__cpp_8h.html#a2935ff3db04cd640f69943ad14a61915'', [5, 0, 4, 0, 0, 1, 16]),
    (''d1/d7c/lsl__cpp_8h.html#a2a348cf022e9862396e4a10f60af42e9'', [5, 0, 4, 0, 0, 1, 10]),
    (''d1/d7c/lsl__cpp_8h.html#a4edfbcc31f48f27e8f7c2a36b69cd4b9'', [5, 0, 4, 0, 0, 1, 15]),
    (''d1/d7c/lsl__cpp_8h.html#a57df17d8a2563a18b8b759a0cec696cc'', [5, 0, 4, 0, 0, 1, 17]),
    (''d1/d7c/lsl__cpp_8h.html#a59009e83a8f0e33643474b373ad2f7f2'', [5, 0, 4, 0, 0, 1, 13]),
    (''d1/d7c/lsl__cpp_8h.html#a74cfbc9077aca21295117217249721ed'', [5, 0, 4, 0, 0, 1, 18]),
    (''d1/d7c/lsl__cpp_8h.html#a824e14275a55df97d0552a91fc2c4097'', [5, 0, 4, 0, 0, 1, 14]),
    (''d1/d7c/lsl__cpp_8h.html#aaa1cffa7d29bb2756522bc2bb069e310'', [5, 0, 4, 0, 0, 1, 8]),
    (''d1/d7c/lsl__cpp_8h.html#aaa1cffa7d29bb2756522bc2bb069e310a198f16659e71b850e4674ed31d10e914'', [5, 0, 4, 0, 0, 1, 8, 5]),
    (''d1/d7c/lsl__cpp_8h.html#aaa1cffa7d29bb2756522bc2bb069e310a83b67e37c1bbcfb4ee7479098386499f'', [5, 0, 4, 0, 0, 1, 8, 2]),
    (''d1/d7c/lsl__cpp_8h.html#aaa1cffa7d29bb2756522bc2bb069e310a8ebef2c4c98e1a9246e9927e6b0b87c9'', [5, 0, 4, 0, 0, 1, 8, 4]),
    (''d1/d7c/lsl__cpp_8h.html#aaa1cffa7d29bb2756522bc2bb069e310ac01170c28c82b28d721da1971e16424b'', [5, 0, 4, 0, 0, 1, 8, 0]),
    (''d1/d7c/lsl__cpp_8h.html#aaa1cffa7d29bb2756522bc2bb069e310accf7cbfa478e679b53255d46fd62f888'', [5, 0, 4, 0, 0, 1, 8, 1]),
    (''d1/d7c/lsl__cpp_8h.html#aaa1cffa7d29bb2756522bc2bb069e310af7cdac323760b9cb6587733a24f5aecb'', [5, 0, 4, 0, 0, 1, 8, 3]),
    (''d1/d7c/lsl__cpp_8h.html#ac7ebddefe1091ef2d9459b6f9d79f7ab'', [5, 0, 4, 0, 0, 1, 19]),
    (''d1/d7c/lsl__cpp_8h.html#acce0545ac0a7831acde1a759b778393c'', [5, 0, 4, 0, 0, 1, 9]),
    (''d1/d7c/lsl__cpp_8h.html#ae1766ae2ab66141cb927612e57a0c8c6'', [5, 0, 4, 0, 0, 1, 12]),
    (''d1/d7c/lsl__cpp_8h_source.html'', [5, 0, 4, 0, 0, 1]),
    (''d2/d52/namespace_e_s_c.html'', [3, 0, 1]),
    (''d2/d52/namespace_e_s_c.html#a0339f1bf272536a7645b373a503b4928'', [3, 0, 1, 6]),
    (''d2/d52/namespace_e_s_c.html#a07d7fd8adc58054bde19b14556a8d945'', [3, 0, 1, 3]),
    (''d2/d52/namespace_e_s_c.html#a080ff5f5b8a2ed3567a541acfa69a425'', [3, 0, 1, 2]),
    (''d2/d52/namespace_e_s_c.html#a1ab0660788056c78944278261498664a'', [3, 0, 1, 5]),
    (''d2/d52/namespace_e_s_c.html#a231a32f47e8c90921259a47ce621b1cc'', [3, 0, 1, 7]),
    (''d2/d52/namespace_e_s_c.html#a2dc320253a173af845d4317a62c45a6f'', [3, 0, 1, 10]),
    (''d2/d52/namespace_e_s_c.html#a6f0f9c5cc6b334d09b6da6834c02af16'', [3, 0, 1, 4]),
    (''d2/d52/namespace_e_s_c.html#a93c187b0ecaecc64127a1e7d211562a1'', [3, 0, 1, 1]),
    (''d2/d52/namespace_e_s_c.html#a93c187b0ecaecc64127a1e7d211562a1a080f5acc7b26dd8c82d66a410dcb003a'', [3, 0, 1, 1, 19]),
    (''d2/d52/namespace_e_s_c.html#a93c187b0ecaecc64127a1e7d211562a1a0949b3693d2401dfa4651b442a9c9551'', [3, 0, 1, 1, 0]),
    (''d2/d52/namespace_e_s_c.html#a93c187b0ecaecc64127a1e7d211562a1a0af3dbb99fb41d75e60df73e7bab1fdd'', [3, 0, 1, 1, 5]),
    (''d2/d52/namespace_e_s_c.html#a93c187b0ecaecc64127a1e7d211562a1a11a52229f2c02ac21863203a9649771d'', [3, 0, 1, 1, 1]),
    (''d2/d52/namespace_e_s_c.html#a93c187b0ecaecc64127a1e7d211562a1a1b9e16c203595a107bc8ba10051e08d1'', [3, 0, 1, 1, 26]),
    (''d2/d52/namespace_e_s_c.html#a93c187b0ecaecc64127a1e7d211562a1a1c482c45cb9fa67cb290cb6e17ca291d'', [3, 0, 1, 1, 21]),
    (''d2/d52/namespace_e_s_c.html#a93c187b0ecaecc64127a1e7d211562a1a1ea0683248f9953ca0713e5797ce17d1'', [3, 0, 1, 1, 3]),
    (''d2/d52/namespace_e_s_c.html#a93c187b0ecaecc64127a1e7d211562a1a2c10a5323218ceb224ef379037cd7e0a'', [3, 0, 1, 1, 17]),
    (''d2/d52/namespace_e_s_c.html#a93c187b0ecaecc64127a1e7d211562a1a2d6d9e4c4d26f775a2d2e0f5d4c2fee5'', [3, 0, 1, 1, 10]),
    (''d2/d52/namespace_e_s_c.html#a93c187b0ecaecc64127a1e7d211562a1a3b8d384d180428029a6712830c9b01b7'', [3, 0, 1, 1, 16]),
    (''d2/d52/namespace_e_s_c.html#a93c187b0ecaecc64127a1e7d211562a1a4407cb515758165608277ff094d8aa4e'', [3, 0, 1, 1, 15]),
    (''d2/d52/namespace_e_s_c.html#a93c187b0ecaecc64127a1e7d211562a1a51f33f01a9c1d72db09e6a9ac6ddb759'', [3, 0, 1, 1, 11]),
    (''d2/d52/namespace_e_s_c.html#a93c187b0ecaecc64127a1e7d211562a1a560f8ec0e3a165bffd234986d419d93e'', [3, 0, 1, 1, 18]),
    (''d2/d52/namespace_e_s_c.html#a93c187b0ecaecc64127a1e7d211562a1a5793314530aabf181b6d61339928a486'', [3, 0, 1, 1, 9]),
    (''d2/d52/namespace_e_s_c.html#a93c187b0ecaecc64127a1e7d211562a1a5bfaa69787e265bc37dca5b2b61c64a9'', [3, 0, 1, 1, 4]),
    (''d2/d52/namespace_e_s_c.html#a93c187b0ecaecc64127a1e7d211562a1a5c996890ffc321f6f95d51357fa2e00a'', [3, 0, 1, 1, 22]),
    (''d2/d52/namespace_e_s_c.html#a93c187b0ecaecc64127a1e7d211562a1a712e5fd9a5e6d3b6a565a22b7b6590b2'', [3, 0, 1, 1, 8]),
    (''d2/d52/namespace_e_s_c.html#a93c187b0ecaecc64127a1e7d211562a1a852050b53ec94746365cf503b9daf77c'', [3, 0, 1, 1, 13]),
    (''d2/d52/namespace_e_s_c.html#a93c187b0ecaecc64127a1e7d211562a1a991c4d7703b3a4062d71ac80b047d0f6'', [3, 0, 1, 1, 6]),
    (''d2/d52/namespace_e_s_c.html#a93c187b0ecaecc64127a1e7d211562a1a9ca7916a80da428a5e295b0356e5ba91'', [3, 0, 1, 1, 12]),
    (''d2/d52/namespace_e_s_c.html#a93c187b0ecaecc64127a1e7d211562a1aa554b8e89b9c53e86096c1ee2dca2aae'', [3, 0, 1, 1, 7]),
    (''d2/d52/namespace_e_s_c.html#a93c187b0ecaecc64127a1e7d211562a1ac524cfac8f3b50f5d6ac8a2ce7ac0939'', [3, 0, 1, 1, 20]),
    (''d2/d52/namespace_e_s_c.html#a93c187b0ecaecc64127a1e7d211562a1ad7e062b99a6ddd60a225ecc7d10756b1'', [3, 0, 1, 1, 2]),
    (''d2/d52/namespace_e_s_c.html#a93c187b0ecaecc64127a1e7d211562a1adb93cd7891a72f8d7878e8ea39700b51'', [3, 0, 1, 1, 14]),
    (''d2/d52/namespace_e_s_c.html#a93c187b0ecaecc64127a1e7d211562a1ae751c14d8a6185aa862011b31cef11ee'', [3, 0, 1, 1, 23]),
    (''d2/d52/namespace_e_s_c.html#a93c187b0ecaecc64127a1e7d211562a1ae86ea0aceff2ecc297273593ef04d88a'', [3, 0, 1, 1, 24]),
    (''d2/d52/namespace_e_s_c.html#a93c187b0ecaecc64127a1e7d211562a1afa9e18e6b89e7b527ac48cdeabb64955'', [3, 0, 1, 1, 25]),
    (''d2/d52/namespace_e_s_c.html#aabdbbf48acbc97aadc974b67b8f65d49'', [3, 0, 1, 9]),
    (''d2/d52/namespace_e_s_c.html#ab8b0eda8f8c0d37419c0435cad5230e0'', [3, 0, 1, 11]),
    (''d2/d52/namespace_e_s_c.html#ac00ec90c2ccac2f1bcb6219b6f081ad5'', [3, 0, 1, 8]),
    (''d3/d66/_c_make_c_x_x_compiler_id_8cpp.html'', [5, 0, 0, 0, 0, 1, 0]),
    (''d3/d66/_c_make_c_x_x_compiler_id_8cpp.html#a0ddf1224851353fc92bfbff6f499fa97'', [5, 0, 0, 0, 0, 1, 0, 9]),
    (''d3/d66/_c_make_c_x_x_compiler_id_8cpp.html#a0f46a8a39e09d9b803c4766904fd7e99'', [5, 0, 0, 0, 0, 1, 0, 12]),
    (''d3/d66/_c_make_c_x_x_compiler_id_8cpp.html#a2321403dee54ee23f0c2fa849c60f7d4'', [5, 0, 0, 0, 0, 1, 0, 14]),
    (''d3/d66/_c_make_c_x_x_compiler_id_8cpp.html#a2ae9b72bb13abaabfcf2ee0ba7d3fa1d'', [5, 0, 0, 0, 0, 1, 0, 8]),
    (''d3/d66/_c_make_c_x_x_compiler_id_8cpp.html#a34cc889e576a1ae6c84ae9e0a851ba21'', [5, 0, 0, 0, 0, 1, 0, 3]),
    (''d3/d66/_c_make_c_x_x_compiler_id_8cpp.html#a43e1cad902b6477bec893cb6430bd6c8'', [5, 0, 0, 0, 0, 1, 0, 7]),
    (''d3/d66/_c_make_c_x_x_compiler_id_8cpp.html#a4607cccf070750927b458473ca82c090'', [5, 0, 0, 0, 0, 1, 0, 13]),
    (''d3/d66/_c_make_c_x_x_compiler_id_8cpp.html#a46d5d95daa1bef867bd0179594310ed5'', [5, 0, 0, 0, 0, 1, 0, 5]),
    (''d3/d66/_c_make_c_x_x_compiler_id_8cpp.html#a4b0efeb7a5d59313986b3a0390f050f6'', [5, 0, 0, 0, 0, 1, 0, 11]),
    (''d3/d66/_c_make_c_x_x_compiler_id_8cpp.html#a59647e99d304ed33b15cb284c27ed391'', [5, 0, 0, 0, 0, 1, 0, 10]),
    (''d3/d66/_c_make_c_x_x_compiler_id_8cpp.html#a81dee0709ded976b2e0319239f72d174'', [5, 0, 0, 0, 0, 1, 0, 2]),
    (''d3/d66/_c_make_c_x_x_compiler_id_8cpp.html#aba35d0d200deaeb06aee95ca297acb28'', [5, 0, 0, 0, 0, 1, 0, 1])]"

definition NAVTREEINDEX0b :: "(string \<times> nat list) list" where
  "NAVTREEINDEX0b = [
    (''d3/d66/_c_make_c_x_x_compiler_id_8cpp.html#ad1280362da42492bbc11aa78cbf776ad'', [5, 0, 0, 0, 0, 1, 0, 4]),
    (''d3/d66/_c_make_c_x_x_compiler_id_8cpp.html#adbc5372f40838899018fadbc89bd588b'', [5, 0, 0, 0, 0, 1, 0, 6]),
    (''d3/d66/_c_make_c_x_x_compiler_id_8cpp.html#ae5510d82e4946f1656f4969911c54736'', [5, 0, 0, 0, 0, 1, 0, 0]),
    (''d3/db0/namespacelsl.html'', [3, 0, 2]),
    (''d3/db0/namespacelsl.html#a25fc4deea3c2fb0df0744e3a24c56844'', [3, 0, 2, 11]),
    (''d3/db0/namespacelsl.html#a28d50dae6fd82eea8893ce3d63ccd46c'', [3, 0, 2, 7]),
    (''d3/db0/namespacelsl.html#a28d50dae6fd82eea8893ce3d63ccd46ca46efa3307b337f7de592753642584616'', [3, 0, 2, 7, 0]),
    (''d3/db0/namespacelsl.html#a28d50dae6fd82eea8893ce3d63ccd46ca526ce3ccb97e3bb75d913c60ad56c26d'', [3, 0, 2, 7, 3]),
    (''d3/db0/namespacelsl.html#a28d50dae6fd82eea8893ce3d63ccd46ca5c625662462c8a30454f6f7f0520e79c'', [3, 0, 2, 7, 4]),
    (''d3/db0/namespacelsl.html#a28d50dae6fd82eea8893ce3d63ccd46ca6795e1df0db0b05744fd1fe9623567a0'', [3, 0, 2, 7, 6]),
    (''d3/db0/namespacelsl.html#a28d50dae6fd82eea8893ce3d63ccd46ca829ae156932f587fbbc70aed1d46e388'', [3, 0, 2, 7, 5]),
    (''d3/db0/namespacelsl.html#a28d50dae6fd82eea8893ce3d63ccd46cab11213c3d307faf6ef734633ac732eb7'', [3, 0, 2, 7, 1]),
    (''d3/db0/namespacelsl.html#a28d50dae6fd82eea8893ce3d63ccd46cadc8092d1092568f7d36d89fa7e813d76'', [3, 0, 2, 7, 7]),
    (''d3/db0/namespacelsl.html#a28d50dae6fd82eea8893ce3d63ccd46caedadbd6437a22628678edaf287c87048'', [3, 0, 2, 7, 2]),
    (''d3/db0/namespacelsl.html#a2935ff3db04cd640f69943ad14a61915'', [3, 0, 2, 16]),
    (''d3/db0/namespacelsl.html#a2a348cf022e9862396e4a10f60af42e9'', [3, 0, 2, 10]),
    (''d3/db0/namespacelsl.html#a4edfbcc31f48f27e8f7c2a36b69cd4b9'', [3, 0, 2, 15]),
    (''d3/db0/namespacelsl.html#a57df17d8a2563a18b8b759a0cec696cc'', [3, 0, 2, 17]),
    (''d3/db0/namespacelsl.html#a59009e83a8f0e33643474b373ad2f7f2'', [3, 0, 2, 13]),
    (''d3/db0/namespacelsl.html#a74cfbc9077aca21295117217249721ed'', [3, 0, 2, 18]),
    (''d3/db0/namespacelsl.html#a824e14275a55df97d0552a91fc2c4097'', [3, 0, 2, 14]),
    (''d3/db0/namespacelsl.html#aaa1cffa7d29bb2756522bc2bb069e310'', [3, 0, 2, 8]),
    (''d3/db0/namespacelsl.html#aaa1cffa7d29bb2756522bc2bb069e310a198f16659e71b850e4674ed31d10e914'', [3, 0, 2, 8, 5]),
    (''d3/db0/namespacelsl.html#aaa1cffa7d29bb2756522bc2bb069e310a83b67e37c1bbcfb4ee7479098386499f'', [3, 0, 2, 8, 2]),
    (''d3/db0/namespacelsl.html#aaa1cffa7d29bb2756522bc2bb069e310a8ebef2c4c98e1a9246e9927e6b0b87c9'', [3, 0, 2, 8, 4]),
    (''d3/db0/namespacelsl.html#aaa1cffa7d29bb2756522bc2bb069e310ac01170c28c82b28d721da1971e16424b'', [3, 0, 2, 8, 0]),
    (''d3/db0/namespacelsl.html#aaa1cffa7d29bb2756522bc2bb069e310accf7cbfa478e679b53255d46fd62f888'', [3, 0, 2, 8, 1]),
    (''d3/db0/namespacelsl.html#aaa1cffa7d29bb2756522bc2bb069e310af7cdac323760b9cb6587733a24f5aecb'', [3, 0, 2, 8, 3]),
    (''d3/db0/namespacelsl.html#ac7ebddefe1091ef2d9459b6f9d79f7ab'', [3, 0, 2, 19]),
    (''d3/db0/namespacelsl.html#acce0545ac0a7831acde1a759b778393c'', [3, 0, 2, 9]),
    (''d3/db0/namespacelsl.html#ae1766ae2ab66141cb927612e57a0c8c6'', [3, 0, 2, 12]),
    (''d3/df7/_c_make_files_2com__client_8dir_2src_2main_8cpp_8o_8d.html'', [5, 0, 0, 0, 2, 0, 0]),
    (''d4/d01/classlsl_1_1timeout__error.html'', [4, 0, 2, 6]),
    (''d4/d01/classlsl_1_1timeout__error.html#afbc3b7c957fe3da4021aff3c30e6192f'', [4, 0, 2, 6, 0]),
    (''d4/d27/classlsl_1_1continuous__resolver.html'', [4, 0, 2, 4]),
    (''d4/d27/classlsl_1_1continuous__resolver.html#a382bc439e5dbb1efcaa32def93ef01df'', [4, 0, 2, 4, 3]),
    (''d4/d27/classlsl_1_1continuous__resolver.html#a53b81e4328aba7a83c4aa129fa0d6f62'', [4, 0, 2, 4, 0]),
    (''d4/d27/classlsl_1_1continuous__resolver.html#a9eb3d09ca9c4f9c493a6978d403a5144'', [4, 0, 2, 4, 1]),
    (''d4/d27/classlsl_1_1continuous__resolver.html#aa3b65921342bddafabe4e5d16a3c24a3'', [4, 0, 2, 4, 2]),
    (''d4/d27/classlsl_1_1continuous__resolver.html#ad88c16d36f8a2dc64f4ae4536445e15a'', [4, 0, 2, 4, 4]),
    (''d5/d08/http__client_8cpp.html'', [5, 0, 3, 1]),
    (''d5/d45/md__home_aightech_dev_kistler__d_a_q_lib_com_client_tool_lib_built_lsl__r_e_a_d_m_e.html'', [2]),
    (''d5/d45/md__home_aightech_dev_kistler__d_a_q_lib_com_client_tool_lib_built_lsl__r_e_a_d_m_e.html#autotoc_md10'', [2, 1]),
    (''d5/d45/md__home_aightech_dev_kistler__d_a_q_lib_com_client_tool_lib_built_lsl__r_e_a_d_m_e.html#autotoc_md11'', [2, 2]),
    (''d5/d45/md__home_aightech_dev_kistler__d_a_q_lib_com_client_tool_lib_built_lsl__r_e_a_d_m_e.html#autotoc_md9'', [2, 0]),
    (''d6/d45/com__client_8cpp_8o_8d.html'', [5, 0, 0, 0, 1, 0, 0]),
    (''d6/d55/classlsl_1_1stream__outlet.html'', [4, 0, 2, 1]),
    (''d6/d55/classlsl_1_1stream__outlet.html#a05ff22ae7b36a9e64dc08f71b45913e6'', [4, 0, 2, 1, 4]),
    (''d6/d55/classlsl_1_1stream__outlet.html#a10acfcf6b1db179f04596def60bc3792'', [4, 0, 2, 1, 15]),
    (''d6/d55/classlsl_1_1stream__outlet.html#a161ead63f9a373d69744c3c54a650c1d'', [4, 0, 2, 1, 14]),
    (''d6/d55/classlsl_1_1stream__outlet.html#a17744ee6e963464fe6442d1e6f1a50f8'', [4, 0, 2, 1, 19]),
    (''d6/d55/classlsl_1_1stream__outlet.html#a18b2da34bdd1306ef926d97532c43f28'', [4, 0, 2, 1, 37]),
    (''d6/d55/classlsl_1_1stream__outlet.html#a226b11eae43287c7b72e4d0ca1e812e7'', [4, 0, 2, 1, 34]),
    (''d6/d55/classlsl_1_1stream__outlet.html#a24192e6e3416ad36154bc01be55334c3'', [4, 0, 2, 1, 40]),
    (''d6/d55/classlsl_1_1stream__outlet.html#a277f76e889a33849170d5c25fa99c723'', [4, 0, 2, 1, 50]),
    (''d6/d55/classlsl_1_1stream__outlet.html#a2b4da4c1a2c3c47f39ed8a3f2cc717a5'', [4, 0, 2, 1, 18]),
    (''d6/d55/classlsl_1_1stream__outlet.html#a341840ed1504e2cfa0cc9c15263e030a'', [4, 0, 2, 1, 29]),
    (''d6/d55/classlsl_1_1stream__outlet.html#a3e7fad1010ef7c78bcd006a4f94381fa'', [4, 0, 2, 1, 2]),
    (''d6/d55/classlsl_1_1stream__outlet.html#a3ec413951e8613ce5289a265aaabf6e9'', [4, 0, 2, 1, 17]),
    (''d6/d55/classlsl_1_1stream__outlet.html#a4953cee1905211d533cb9bd6b0525099'', [4, 0, 2, 1, 16]),
    (''d6/d55/classlsl_1_1stream__outlet.html#a4c984d8bf178e2321c590aaf81d4da3f'', [4, 0, 2, 1, 47]),
    (''d6/d55/classlsl_1_1stream__outlet.html#a4cc12f447c2ccfe67a118a3c23215f0d'', [4, 0, 2, 1, 11]),
    (''d6/d55/classlsl_1_1stream__outlet.html#a4f476f737355d7c2b128dcc1798f46b7'', [4, 0, 2, 1, 9]),
    (''d6/d55/classlsl_1_1stream__outlet.html#a510668a6adc032792e8bad06458e58eb'', [4, 0, 2, 1, 45]),
    (''d6/d55/classlsl_1_1stream__outlet.html#a554027868fa9710470f0c3f057904b4b'', [4, 0, 2, 1, 33]),
    (''d6/d55/classlsl_1_1stream__outlet.html#a558af80f807399556a2483346e80b935'', [4, 0, 2, 1, 43]),
    (''d6/d55/classlsl_1_1stream__outlet.html#a58427b98e8a60e7d160534078f3e04f8'', [4, 0, 2, 1, 5]),
    (''d6/d55/classlsl_1_1stream__outlet.html#a5944abd4386a9568441ddb352e8df71f'', [4, 0, 2, 1, 24]),
    (''d6/d55/classlsl_1_1stream__outlet.html#a59f69780061e6c8743a4cb566944033b'', [4, 0, 2, 1, 51]),
    (''d6/d55/classlsl_1_1stream__outlet.html#a5c394e995a86d03cb71c3d180f855681'', [4, 0, 2, 1, 36]),
    (''d6/d55/classlsl_1_1stream__outlet.html#a5ceb5a7488582559846637a310056605'', [4, 0, 2, 1, 20]),
    (''d6/d55/classlsl_1_1stream__outlet.html#a66a528d5f31f5b5f747994c6de35a80f'', [4, 0, 2, 1, 48]),
    (''d6/d55/classlsl_1_1stream__outlet.html#a675bbe044a5053087e05e0267fe6722a'', [4, 0, 2, 1, 52]),
    (''d6/d55/classlsl_1_1stream__outlet.html#a6ff877ac1b4c96f38ac36a2319a874da'', [4, 0, 2, 1, 7]),
    (''d6/d55/classlsl_1_1stream__outlet.html#a78a48678f40e2bbb591aa0b9da9891d8'', [4, 0, 2, 1, 12]),
    (''d6/d55/classlsl_1_1stream__outlet.html#a7ea80b891c9aaf7b4c62c715692218cc'', [4, 0, 2, 1, 10]),
    (''d6/d55/classlsl_1_1stream__outlet.html#a874e84f39bf470f755aa46da300244f6'', [4, 0, 2, 1, 27]),
    (''d6/d55/classlsl_1_1stream__outlet.html#a9075bd46bb9f2d1a0d494dbb7772eb48'', [4, 0, 2, 1, 30]),
    (''d6/d55/classlsl_1_1stream__outlet.html#a93e571140b73b4324051b8ef4b5606a4'', [4, 0, 2, 1, 44]),
    (''d6/d55/classlsl_1_1stream__outlet.html#a9d175090070f408ca7e9c8d8437c02f6'', [4, 0, 2, 1, 26]),
    (''d6/d55/classlsl_1_1stream__outlet.html#aa1f12739e569d284896c7f514f55a301'', [4, 0, 2, 1, 49]),
    (''d6/d55/classlsl_1_1stream__outlet.html#aa42becb37b937c5d6319dac67a0da4a4'', [4, 0, 2, 1, 23]),
    (''d6/d55/classlsl_1_1stream__outlet.html#aa8a10c88f57686d77bee002aff4c9d4e'', [4, 0, 2, 1, 1]),
    (''d6/d55/classlsl_1_1stream__outlet.html#ab462e099798c3055b8f976767b239379'', [4, 0, 2, 1, 6]),
    (''d6/d55/classlsl_1_1stream__outlet.html#abd59227041d01d48e90d4d5d05da7662'', [4, 0, 2, 1, 46]),
    (''d6/d55/classlsl_1_1stream__outlet.html#abe328c3200c383d160ca0e00029b8124'', [4, 0, 2, 1, 31]),
    (''d6/d55/classlsl_1_1stream__outlet.html#ac31c0f13ba9de7331e520b3b08ede811'', [4, 0, 2, 1, 32]),
    (''d6/d55/classlsl_1_1stream__outlet.html#ac88c568fdc7429d95c51cd7b58d902cc'', [4, 0, 2, 1, 0]),
    (''d6/d55/classlsl_1_1stream__outlet.html#ac90405c89feb8c95a493f42a0c749421'', [4, 0, 2, 1, 13]),
    (''d6/d55/classlsl_1_1stream__outlet.html#acbb1a237bb410d9794c1961922aca6ad'', [4, 0, 2, 1, 38]),
    (''d6/d55/classlsl_1_1stream__outlet.html#ad0a2c2b78e18b423e34ed0282df6b919'', [4, 0, 2, 1, 22]),
    (''d6/d55/classlsl_1_1stream__outlet.html#ad7e1405b50bc546c4f742f508aa734cc'', [4, 0, 2, 1, 35]),
    (''d6/d55/classlsl_1_1stream__outlet.html#adafb6b76614ea386917f696bdb272209'', [4, 0, 2, 1, 25]),
    (''d6/d55/classlsl_1_1stream__outlet.html#ae3875c13d689e11c6d34181b8fadfa5d'', [4, 0, 2, 1, 28]),
    (''d6/d55/classlsl_1_1stream__outlet.html#ae67672d4aa82d500e0a192d38f64d6fe'', [4, 0, 2, 1, 41]),
    (''d6/d55/classlsl_1_1stream__outlet.html#af0d747a0610be04501117f87c1b010e9'', [4, 0, 2, 1, 39]),
    (''d6/d55/classlsl_1_1stream__outlet.html#af188fa767e2a70c402486b761e9869fe'', [4, 0, 2, 1, 53]),
    (''d6/d55/classlsl_1_1stream__outlet.html#af1bedf881293459205b9ba5df7b92051'', [4, 0, 2, 1, 21]),
    (''d6/d55/classlsl_1_1stream__outlet.html#af5d993951e77df22ecb225c3b4aad87c'', [4, 0, 2, 1, 8]),
    (''d6/d55/classlsl_1_1stream__outlet.html#af6fda8eb922b27ae3ed98651934243fe'', [4, 0, 2, 1, 3]),
    (''d6/d55/classlsl_1_1stream__outlet.html#aff1709d7bbf628e9b14d18444c7ac237'', [4, 0, 2, 1, 42]),
    (''d6/dbd/classlsl_1_1stream__inlet.html'', [4, 0, 2, 2]),
    (''d6/dbd/classlsl_1_1stream__inlet.html#a018caadb9a2c61f0c1c6388f7b617008'', [4, 0, 2, 2, 19]),
    (''d6/dbd/classlsl_1_1stream__inlet.html#a2774c1dbcf3fc7b17505e8814921d17c'', [4, 0, 2, 2, 39]),
    (''d6/dbd/classlsl_1_1stream__inlet.html#a3462f2634ce13e7f9c764e16a58a71a6'', [4, 0, 2, 2, 25]),
    (''d6/dbd/classlsl_1_1stream__inlet.html#a3a2a662e0b723d7f2101b79eb08371b7'', [4, 0, 2, 2, 29]),
    (''d6/dbd/classlsl_1_1stream__inlet.html#a3b93d803b348905bc34747c5820d6364'', [4, 0, 2, 2, 13]),
    (''d6/dbd/classlsl_1_1stream__inlet.html#a40e9727b155e274df482e4579e60f3b3'', [4, 0, 2, 2, 12]),
    (''d6/dbd/classlsl_1_1stream__inlet.html#a447dd270fa83d8f1df16963b8601027e'', [4, 0, 2, 2, 30]),
    (''d6/dbd/classlsl_1_1stream__inlet.html#a4a10bd640a10c317ba4a0244cc986146'', [4, 0, 2, 2, 24]),
    (''d6/dbd/classlsl_1_1stream__inlet.html#a4a743ed5df78b05dcc038e73a1d4fb9b'', [4, 0, 2, 2, 17]),
    (''d6/dbd/classlsl_1_1stream__inlet.html#a52e95747438991868e3eb9c791e24f42'', [4, 0, 2, 2, 28]),
    (''d6/dbd/classlsl_1_1stream__inlet.html#a540c7ba2c23188916ffe311c26c2c081'', [4, 0, 2, 2, 21]),
    (''d6/dbd/classlsl_1_1stream__inlet.html#a558f53812f5dc3c19b2cbe0026a61f6a'', [4, 0, 2, 2, 6]),
    (''d6/dbd/classlsl_1_1stream__inlet.html#a58dc91be6ec0d1b83024a169ad0c292b'', [4, 0, 2, 2, 36]),
    (''d6/dbd/classlsl_1_1stream__inlet.html#a6a0f2f39152a2975571d5073d9967646'', [4, 0, 2, 2, 15]),
    (''d6/dbd/classlsl_1_1stream__inlet.html#a774c17a647ebd321b5ce4a5450f71202'', [4, 0, 2, 2, 27]),
    (''d6/dbd/classlsl_1_1stream__inlet.html#a7789d75e1afceaf5187e8bc33a0b99be'', [4, 0, 2, 2, 32]),
    (''d6/dbd/classlsl_1_1stream__inlet.html#a77c2f10ed843723c7473aa52dcf544a0'', [4, 0, 2, 2, 2]),
    (''d6/dbd/classlsl_1_1stream__inlet.html#a78a36bf33ddfc7101bd15cb5bcb9561d'', [4, 0, 2, 2, 35]),
    (''d6/dbd/classlsl_1_1stream__inlet.html#a7c93b7d4fc053b2e3320841371b32919'', [4, 0, 2, 2, 0]),
    (''d6/dbd/classlsl_1_1stream__inlet.html#a80fecf88ba609c7e4898eb16a49f2b75'', [4, 0, 2, 2, 34]),
    (''d6/dbd/classlsl_1_1stream__inlet.html#a845d95f5fc60fb9cd01fb73d3da75e94'', [4, 0, 2, 2, 41]),
    (''d6/dbd/classlsl_1_1stream__inlet.html#a85ee4c75121e8ee54de22f228a3abae5'', [4, 0, 2, 2, 9]),
    (''d6/dbd/classlsl_1_1stream__inlet.html#a8a4f5ff87d40a696ab4a5d74c03cd52b'', [4, 0, 2, 2, 37])]"

definition NAVTREEINDEX1a :: "(string \<times> nat list) list" where
  "NAVTREEINDEX1a = [
    (''d6/dbd/classlsl_1_1stream__inlet.html#a9183e81a122df862eff9ea9797c82b73'', [4, 0, 2, 2, 22]),
    (''d6/dbd/classlsl_1_1stream__inlet.html#a9603f3365093f43f9e2bae1b9e9b2cd8'', [4, 0, 2, 2, 40]),
    (''d6/dbd/classlsl_1_1stream__inlet.html#a97adf2cb7d60e4b47bf25217a2b17964'', [4, 0, 2, 2, 11]),
    (''d6/dbd/classlsl_1_1stream__inlet.html#a9ac87825319b345987fdd54e606fd56f'', [4, 0, 2, 2, 16]),
    (''d6/dbd/classlsl_1_1stream__inlet.html#aa2f2c576a6b5a3bf562878200829bb47'', [4, 0, 2, 2, 14]),
    (''d6/dbd/classlsl_1_1stream__inlet.html#aaf40ba9c127a1828933613d0f2b0fc3d'', [4, 0, 2, 2, 38]),
    (''d6/dbd/classlsl_1_1stream__inlet.html#ab14a0120e49dcd33f6df0716e6606810'', [4, 0, 2, 2, 18]),
    (''d6/dbd/classlsl_1_1stream__inlet.html#abdb890fbad785ed4bc39288fc2f47329'', [4, 0, 2, 2, 10]),
    (''d6/dbd/classlsl_1_1stream__inlet.html#ac3b37a1c2e376280c3144f422bb27d79'', [4, 0, 2, 2, 1]),
    (''d6/dbd/classlsl_1_1stream__inlet.html#ac3b8fa8912090ad6607b05cbb5848352'', [4, 0, 2, 2, 42]),
    (''d6/dbd/classlsl_1_1stream__inlet.html#acb78fe666a3be090278bc3d1f3eb7619'', [4, 0, 2, 2, 23]),
    (''d6/dbd/classlsl_1_1stream__inlet.html#acf6cdc3afdbb4c31c97fb979e4aca632'', [4, 0, 2, 2, 7]),
    (''d6/dbd/classlsl_1_1stream__inlet.html#ad84029ed0662d755b0544c7652348718'', [4, 0, 2, 2, 5]),
    (''d6/dbd/classlsl_1_1stream__inlet.html#ad86702cf94e5b0b850a2f94a228e4f98'', [4, 0, 2, 2, 3]),
    (''d6/dbd/classlsl_1_1stream__inlet.html#ae4534102453ccd98f319c746ec1de0a9'', [4, 0, 2, 2, 26]),
    (''d6/dbd/classlsl_1_1stream__inlet.html#ae895a8d5c10dc4072e969686fc402b5b'', [4, 0, 2, 2, 4]),
    (''d6/dbd/classlsl_1_1stream__inlet.html#ae8f7beaaa82d192d844abdd1531f6b9a'', [4, 0, 2, 2, 20]),
    (''d6/dbd/classlsl_1_1stream__inlet.html#af33558ccbbe57767386278d2255db1a1'', [4, 0, 2, 2, 33]),
    (''d6/dbd/classlsl_1_1stream__inlet.html#af3707fbfd5e9f54be73f9d55de55a8fc'', [4, 0, 2, 2, 31]),
    (''d6/dbd/classlsl_1_1stream__inlet.html#af9051121db6ffa6945bd2288b2bf2a15'', [4, 0, 2, 2, 8]),
    (''d7/d60/class_communication_1_1_h_t_t_p__client.html'', [4, 0, 0, 2]),
    (''d7/d60/class_communication_1_1_h_t_t_p__client.html#a241e78ccad7bcbc7597cb2dde7d7e402'', [4, 0, 0, 2, 4]),
    (''d7/d60/class_communication_1_1_h_t_t_p__client.html#a67973a5bc8e92122bc5f98c95990bca7'', [4, 0, 0, 2, 3]),
    (''d7/d60/class_communication_1_1_h_t_t_p__client.html#a6c2e964c4510d91b79ff9303b672582e'', [4, 0, 0, 2, 2]),
    (''d7/d60/class_communication_1_1_h_t_t_p__client.html#a9cbcd819dda4fc2fd0c4295bce974dff'', [4, 0, 0, 2, 1]),
    (''d7/d60/class_communication_1_1_h_t_t_p__client.html#af8b79c3813af9e4e2b9d2cb45b52b8c3'', [4, 0, 0, 2, 0]),
    (''d8/da5/com__client_8cpp.html'', [5, 0, 3, 0]),
    (''d8/de6/md__home_aightech_dev_kistler__d_a_q_lib_com_client_lib_str_a_n_s_iseq__r_e_a_d_m_e.html'', [1]),
    (''d8/de6/md__home_aightech_dev_kistler__d_a_q_lib_com_client_lib_str_a_n_s_iseq__r_e_a_d_m_e.html#autotoc_md1'', [1, 0]),
    (''d8/de6/md__home_aightech_dev_kistler__d_a_q_lib_com_client_lib_str_a_n_s_iseq__r_e_a_d_m_e.html#autotoc_md2'', [1, 1]),
    (''d8/de6/md__home_aightech_dev_kistler__d_a_q_lib_com_client_lib_str_a_n_s_iseq__r_e_a_d_m_e.html#autotoc_md3'', [1, 2]),
    (''d9/d90/classlsl_1_1xml__element.html'', [4, 0, 2, 3]),
    (''d9/d90/classlsl_1_1xml__element.html#a0c07b18ef39b7f6d683b9612e2a9104e'', [4, 0, 2, 3, 21]),
    (''d9/d90/classlsl_1_1xml__element.html#a100590d2a9822261a3f0b0ed7810134d'', [4, 0, 2, 3, 13]),
    (''d9/d90/classlsl_1_1xml__element.html#a111ef129dce406af43948d8c9b915148'', [4, 0, 2, 3, 4]),
    (''d9/d90/classlsl_1_1xml__element.html#a12254f735a79a11b75718fe7c28186d0'', [4, 0, 2, 3, 10]),
    (''d9/d90/classlsl_1_1xml__element.html#a1a5e666b35c5d7262e4ffbda86b57f73'', [4, 0, 2, 3, 25]),
    (''d9/d90/classlsl_1_1xml__element.html#a1bea6df95134f909611b1c40218828d7'', [4, 0, 2, 3, 17]),
    (''d9/d90/classlsl_1_1xml__element.html#a2e449e85b7e763b1d0db4bb19d2eb7c2'', [4, 0, 2, 3, 11]),
    (''d9/d90/classlsl_1_1xml__element.html#a3a3bbf2468ba3abd9309764faa61a7a4'', [4, 0, 2, 3, 24]),
    (''d9/d90/classlsl_1_1xml__element.html#a3e7fde09def517574df99c71a0a05d23'', [4, 0, 2, 3, 16]),
    (''d9/d90/classlsl_1_1xml__element.html#a6a162d1b57049f5ecab6b68207a71d53'', [4, 0, 2, 3, 2]),
    (''d9/d90/classlsl_1_1xml__element.html#a6fe187e03b36cf8fd5f9d3892e99453f'', [4, 0, 2, 3, 22]),
    (''d9/d90/classlsl_1_1xml__element.html#a70b90853b7edfaebfe69bc1103ed6b8b'', [4, 0, 2, 3, 19]),
    (''d9/d90/classlsl_1_1xml__element.html#a73fc3bfe22e1117907a2d80ba33d2208'', [4, 0, 2, 3, 3]),
    (''d9/d90/classlsl_1_1xml__element.html#a787dcaf85abcc5cd4d5f93fc80c82eb5'', [4, 0, 2, 3, 7]),
    (''d9/d90/classlsl_1_1xml__element.html#a78c2e0b3d7bda2b5a2d478e3c0cdc87a'', [4, 0, 2, 3, 18]),
    (''d9/d90/classlsl_1_1xml__element.html#a893102d2d84a444a89099f9c90cb6c31'', [4, 0, 2, 3, 6]),
    (''d9/d90/classlsl_1_1xml__element.html#a8ddf2b35719b273dbb5700f16a2da4e5'', [4, 0, 2, 3, 23]),
    (''d9/d90/classlsl_1_1xml__element.html#a9637215f616b660789696e452b0e0591'', [4, 0, 2, 3, 12]),
    (''d9/d90/classlsl_1_1xml__element.html#a965cfff9a29ebe6d8274f5256ff0017c'', [4, 0, 2, 3, 9]),
    (''d9/d90/classlsl_1_1xml__element.html#a9a2c940a06714662f3cef5e9847e8cae'', [4, 0, 2, 3, 0]),
    (''d9/d90/classlsl_1_1xml__element.html#ab68b7a1c63c2cb0eb4ce6361b94469b7'', [4, 0, 2, 3, 8]),
    (''d9/d90/classlsl_1_1xml__element.html#abd881c6c5d0d381f9efff2fc25975e7e'', [4, 0, 2, 3, 15]),
    (''d9/d90/classlsl_1_1xml__element.html#ac99677d44f66ba850afd9b669e26452f'', [4, 0, 2, 3, 5]),
    (''d9/d90/classlsl_1_1xml__element.html#ad23da57ac3a6a7f3dd849be0a8b44a47'', [4, 0, 2, 3, 20]),
    (''d9/d90/classlsl_1_1xml__element.html#ae3211be3c10164f366220b638a9dd200'', [4, 0, 2, 3, 14]),
    (''d9/d90/classlsl_1_1xml__element.html#af56c7976bb62cabc9c0ca69502063fea'', [4, 0, 2, 3, 1]),
    (''d9/dcd/http__client_8hpp.html'', [5, 0, 1, 1]),
    (''d9/dcd/http__client_8hpp_source.html'', [5, 0, 1, 1]),
    (''db/d7d/namespace_communication.html'', [3, 0, 0]),
    (''db/df0/str_a_n_s_iseq_8cpp_8o_8d.html'', [5, 0, 0, 1, 0, 0, 0, 0, 0]),
    (''db/df3/lsl__c_8h.html'', [5, 0, 4, 0, 0, 0]),
    (''db/df3/lsl__c_8h.html#a005657d00b4c10bcf9dbb0d603dd7494'', [5, 0, 4, 0, 0, 0, 114]),
    (''db/df3/lsl__c_8h.html#a03d1dce2aaa12d3787d0f501c50fe06f'', [5, 0, 4, 0, 0, 0, 137]),
    (''db/df3/lsl__c_8h.html#a0416859f36f40e91d12cd07aafb34eaa'', [5, 0, 4, 0, 0, 0, 3]),
    (''db/df3/lsl__c_8h.html#a0574687b034da933fb4832caa3d04f92'', [5, 0, 4, 0, 0, 0, 85]),
    (''db/df3/lsl__c_8h.html#a0588f316a9e406e61f1507d8f756529f'', [5, 0, 4, 0, 0, 0, 30]),
    (''db/df3/lsl__c_8h.html#a0ae72ee5f88fe45e1fdb04ccf8d38ef3'', [5, 0, 4, 0, 0, 0, 107]),
    (''db/df3/lsl__c_8h.html#a0be546ad8637f4a2fd5aee4d5bae2401'', [5, 0, 4, 0, 0, 0, 170]),
    (''db/df3/lsl__c_8h.html#a0be58f7d496eb06924ee1825219c6e50'', [5, 0, 4, 0, 0, 0, 12]),
    (''db/df3/lsl__c_8h.html#a0be58f7d496eb06924ee1825219c6e50a41650b5604c0b7392b79d383a7f59a68'', [5, 0, 4, 0, 0, 0, 12, 1]),
    (''db/df3/lsl__c_8h.html#a0be58f7d496eb06924ee1825219c6e50a600b03c28953fa600d6c4e544a14fd99'', [5, 0, 4, 0, 0, 0, 12, 4]),
    (''db/df3/lsl__c_8h.html#a0be58f7d496eb06924ee1825219c6e50aa463db40788d297314191e0b41081feb'', [5, 0, 4, 0, 0, 0, 12, 2]),
    (''db/df3/lsl__c_8h.html#a0be58f7d496eb06924ee1825219c6e50ad4626ba223d8c0b1535074752b0a0463'', [5, 0, 4, 0, 0, 0, 12, 3]),
    (''db/df3/lsl__c_8h.html#a0be58f7d496eb06924ee1825219c6e50ae6bc06b8e33c37c36c1edae45b4778c1'', [5, 0, 4, 0, 0, 0, 12, 0]),
    (''db/df3/lsl__c_8h.html#a0d7adeba028fb332270548faec0c61a1'', [5, 0, 4, 0, 0, 0, 70]),
    (''db/df3/lsl__c_8h.html#a0d9396b1e4a12269d480762151e085f7'', [5, 0, 4, 0, 0, 0, 98]),
    (''db/df3/lsl__c_8h.html#a0effb3c0c3ea96a144d3f13265d7d588'', [5, 0, 4, 0, 0, 0, 156]),
    (''db/df3/lsl__c_8h.html#a15e67770c35aee6028082d73cda42fee'', [5, 0, 4, 0, 0, 0, 23]),
    (''db/df3/lsl__c_8h.html#a191171b4aae05abeae2d4172fc500795'', [5, 0, 4, 0, 0, 0, 101]),
    (''db/df3/lsl__c_8h.html#a1a0f09509cfc4e87346a15216fa852c6'', [5, 0, 4, 0, 0, 0, 141]),
    (''db/df3/lsl__c_8h.html#a1cdbc26daae8f03a632bbc69ca7262c5'', [5, 0, 4, 0, 0, 0, 164]),
    (''db/df3/lsl__c_8h.html#a1e444e438b037d8a1363b1a74568976c'', [5, 0, 4, 0, 0, 0, 100]),
    (''db/df3/lsl__c_8h.html#a224bb668fb637074adbcf301208c3052'', [5, 0, 4, 0, 0, 0, 133]),
    (''db/df3/lsl__c_8h.html#a227534e78fd4bbdf473ad7796da49377'', [5, 0, 4, 0, 0, 0, 96]),
    (''db/df3/lsl__c_8h.html#a22a7097dedf222014e6b878f3870b0fa'', [5, 0, 4, 0, 0, 0, 26]),
    (''db/df3/lsl__c_8h.html#a23a41b710063ea717b411255af956c8c'', [5, 0, 4, 0, 0, 0, 99]),
    (''db/df3/lsl__c_8h.html#a2461080c7a369e91c1ac1ee24c217d4f'', [5, 0, 4, 0, 0, 0, 33]),
    (''db/df3/lsl__c_8h.html#a281c387af4465c231abb4daed25431b3'', [5, 0, 4, 0, 0, 0, 148]),
    (''db/df3/lsl__c_8h.html#a2a69d88399fded37ac1f83a76255b464'', [5, 0, 4, 0, 0, 0, 139]),
    (''db/df3/lsl__c_8h.html#a2af93b773f826f19f1a9dd28d5db0fd9'', [5, 0, 4, 0, 0, 0, 64]),
    (''db/df3/lsl__c_8h.html#a2b4dd3c7f41dd81766cdbfe7048fabd9'', [5, 0, 4, 0, 0, 0, 140]),
    (''db/df3/lsl__c_8h.html#a2bb75ed52221f51f0bbb6bcbcd5049e4'', [5, 0, 4, 0, 0, 0, 87]),
    (''db/df3/lsl__c_8h.html#a2d42a5d991505811d98ba04c6319f41b'', [5, 0, 4, 0, 0, 0, 166]),
    (''db/df3/lsl__c_8h.html#a2e1505acff3a75a3e93a60ef4684456b'', [5, 0, 4, 0, 0, 0, 126]),
    (''db/df3/lsl__c_8h.html#a32e4ed2d5e4d064460f88d06fdc0b2d8'', [5, 0, 4, 0, 0, 0, 151]),
    (''db/df3/lsl__c_8h.html#a337c1cf22b439b511e8ee6238189f7d6'', [5, 0, 4, 0, 0, 0, 125]),
    (''db/df3/lsl__c_8h.html#a339bd96520acc8d5c42fc3c5ab79fa45'', [5, 0, 4, 0, 0, 0, 161]),
    (''db/df3/lsl__c_8h.html#a356ab88fcd5f5c52a95549b1c8c2d4ed'', [5, 0, 4, 0, 0, 0, 77]),
    (''db/df3/lsl__c_8h.html#a36fa9d4e9c7c817547decef38cd9e07e'', [5, 0, 4, 0, 0, 0, 20]),
    (''db/df3/lsl__c_8h.html#a3715850e6e31ed2f6b0767aa42589478'', [5, 0, 4, 0, 0, 0, 76]),
    (''db/df3/lsl__c_8h.html#a381b60fcb6379eacda3276218751290c'', [5, 0, 4, 0, 0, 0, 49]),
    (''db/df3/lsl__c_8h.html#a3b6c842b79ce6040d5fae9ee5b06a705'', [5, 0, 4, 0, 0, 0, 145]),
    (''db/df3/lsl__c_8h.html#a3ce11253225a50b371cc1f33a348271f'', [5, 0, 4, 0, 0, 0, 116]),
    (''db/df3/lsl__c_8h.html#a3d5fb80bb339d9590959327802d9f869'', [5, 0, 4, 0, 0, 0, 29]),
    (''db/df3/lsl__c_8h.html#a3d8187c61f5dd8471e5c00610103cdee'', [5, 0, 4, 0, 0, 0, 130]),
    (''db/df3/lsl__c_8h.html#a3f6a22c686a346da77e03863b26c3fe9'', [5, 0, 4, 0, 0, 0, 94]),
    (''db/df3/lsl__c_8h.html#a40490a0b61d90e5ecbc3265098818851'', [5, 0, 4, 0, 0, 0, 59]),
    (''db/df3/lsl__c_8h.html#a41474948cae5d78c552e3a98d5ecd5bc'', [5, 0, 4, 0, 0, 0, 68]),
    (''db/df3/lsl__c_8h.html#a43928c1354e8539b4d9b40310912e9c1'', [5, 0, 4, 0, 0, 0, 91]),
    (''db/df3/lsl__c_8h.html#a43f78dccab0a194c987b357a870e9fae'', [5, 0, 4, 0, 0, 0, 56]),
    (''db/df3/lsl__c_8h.html#a4404040430341459d37fdde84b590cba'', [5, 0, 4, 0, 0, 0, 81]),
    (''db/df3/lsl__c_8h.html#a4514f8ed63874d11e756a59d99b0326d'', [5, 0, 4, 0, 0, 0, 21]),
    (''db/df3/lsl__c_8h.html#a45543d906bb6b91b375e6c170da9d254'', [5, 0, 4, 0, 0, 0, 162]),
    (''db/df3/lsl__c_8h.html#a4745191dd3eef55e228ad39275bf937c'', [5, 0, 4, 0, 0, 0, 108]),
    (''db/df3/lsl__c_8h.html#a4a39988b3987aa24d85f6f243c9cec9b'', [5, 0, 4, 0, 0, 0, 103]),
    (''db/df3/lsl__c_8h.html#a4c8de5b8ac7e0c9400082a90b398a9e6'', [5, 0, 4, 0, 0, 0, 50]),
    (''db/df3/lsl__c_8h.html#a4ccd428e2def15780552ab5550d2efaa'', [5, 0, 4, 0, 0, 0, 79]),
    (''db/df3/lsl__c_8h.html#a504a4265f1cd530d141f92d1459f8fd2'', [5, 0, 4, 0, 0, 0, 93]),
    (''db/df3/lsl__c_8h.html#a50600b670f8e2a5be27cb7b6eca885f9'', [5, 0, 4, 0, 0, 0, 109]),
    (''db/df3/lsl__c_8h.html#a50d0fd7851d0c963c18b5793da161aa4'', [5, 0, 4, 0, 0, 0, 61]),
    (''db/df3/lsl__c_8h.html#a51f3632a013dff65898f168529a70b07'', [5, 0, 4, 0, 0, 0, 86]),
    (''db/df3/lsl__c_8h.html#a5282bfa3df16b30eb308375a45062cfc'', [5, 0, 4, 0, 0, 0, 2]),
    (''db/df3/lsl__c_8h.html#a52b66d7a75574d98e8709d1734fdd113'', [5, 0, 4, 0, 0, 0, 44])]"

definition NAVTREEINDEX1b :: "(string \<times> nat list) list" where
  "NAVTREEINDEX1b = [
    (''db/df3/lsl__c_8h.html#a53de14eb7cebcda0a32a545e4759ce3f'', [5, 0, 4, 0, 0, 0, 28]),
    (''db/df3/lsl__c_8h.html#a5517cad6ae3f24aa079a0f2a67654226'', [5, 0, 4, 0, 0, 0, 40]),
    (''db/df3/lsl__c_8h.html#a55229fcb1ff8d014f5459ee9526bc58a'', [5, 0, 4, 0, 0, 0, 14]),
    (''db/df3/lsl__c_8h.html#a55bca1a4bdd96a5e8bc967c3a2ff1dab'', [5, 0, 4, 0, 0, 0, 168]),
    (''db/df3/lsl__c_8h.html#a58d27f330e42ef40c7b2124a396d65de'', [5, 0, 4, 0, 0, 0, 78]),
    (''db/df3/lsl__c_8h.html#a5a201ecffb48729d0eb0e51dba539a23'', [5, 0, 4, 0, 0, 0, 97]),
    (''db/df3/lsl__c_8h.html#a5a39973a0ed113c792653f8782b29906'', [5, 0, 4, 0, 0, 0, 124]),
    (''db/df3/lsl__c_8h.html#a5a736ebd5f1fbbd26dc5f66dcdd4edd1'', [5, 0, 4, 0, 0, 0, 36]),
    (''db/df3/lsl__c_8h.html#a5af95d29948ec4e56242dcf24d8c974c'', [5, 0, 4, 0, 0, 0, 58]),
    (''db/df3/lsl__c_8h.html#a5c391ee5eed07954daea0791fe2335fb'', [5, 0, 4, 0, 0, 0, 90]),
    (''db/df3/lsl__c_8h.html#a5f16f396ea43fafbad67f8cbc11cba15'', [5, 0, 4, 0, 0, 0, 110]),
    (''db/df3/lsl__c_8h.html#a620092f125b45938623229fee3a366f9'', [5, 0, 4, 0, 0, 0, 51]),
    (''db/df3/lsl__c_8h.html#a627538d2845775b858ad795745aacc3d'', [5, 0, 4, 0, 0, 0, 119]),
    (''db/df3/lsl__c_8h.html#a648855a9dfc987afa399260f149034b9'', [5, 0, 4, 0, 0, 0, 22]),
    (''db/df3/lsl__c_8h.html#a66b17ecf6f20b0d5d8f1ed78080515ba'', [5, 0, 4, 0, 0, 0, 46]),
    (''db/df3/lsl__c_8h.html#a6a1f820184a78a8a1b09a87a98c8dba5'', [5, 0, 4, 0, 0, 0, 89]),
    (''db/df3/lsl__c_8h.html#a6c36a5f5c61bb996f7dd1776283a8989'', [5, 0, 4, 0, 0, 0, 19]),
    (''db/df3/lsl__c_8h.html#a6e502508ea597c9f9a4a129cddd4e799'', [5, 0, 4, 0, 0, 0, 142]),
    (''db/df3/lsl__c_8h.html#a6e9680f770d8459406698ce71a76790c'', [5, 0, 4, 0, 0, 0, 17]),
    (''db/df3/lsl__c_8h.html#a6fd635c662a9c80840b53bd7c202499c'', [5, 0, 4, 0, 0, 0, 9]),
    (''db/df3/lsl__c_8h.html#a70a523aded3aaa76ba81aeaebb22e8df'', [5, 0, 4, 0, 0, 0, 147]),
    (''db/df3/lsl__c_8h.html#a72938aad4ca7af001b8a3d8d2d64fa2d'', [5, 0, 4, 0, 0, 0, 149]),
    (''db/df3/lsl__c_8h.html#a744c9f9300c75ab285b6fb4c3eedb89d'', [5, 0, 4, 0, 0, 0, 123]),
    (''db/df3/lsl__c_8h.html#a75428ff735a620f5bf39ced8528b8172'', [5, 0, 4, 0, 0, 0, 122]),
    (''db/df3/lsl__c_8h.html#a78b224e996f3a73b35f4c5d73d721366'', [5, 0, 4, 0, 0, 0, 6]),
    (''db/df3/lsl__c_8h.html#a7991bcb18cd7dbe8722716e2c3fb4924'', [5, 0, 4, 0, 0, 0, 115]),
    (''db/df3/lsl__c_8h.html#a79cca3f3f75ae677d973758b8cfd8295'', [5, 0, 4, 0, 0, 0, 131]),
    (''db/df3/lsl__c_8h.html#a7ac39c444784b1956929937d983a27ff'', [5, 0, 4, 0, 0, 0, 65]),
    (''db/df3/lsl__c_8h.html#a7c11ff3b7dc0d5f18d51f0104ac6e281'', [5, 0, 4, 0, 0, 0, 63]),
    (''db/df3/lsl__c_8h.html#a7cc5ac6b271cc9b2afa180604faa91ef'', [5, 0, 4, 0, 0, 0, 118]),
    (''db/df3/lsl__c_8h.html#a7d4458adb9735400f666935f977e03f5'', [5, 0, 4, 0, 0, 0, 82]),
    (''db/df3/lsl__c_8h.html#a7f9691f7d2fd38874cefb8e2d75084db'', [5, 0, 4, 0, 0, 0, 52]),
    (''db/df3/lsl__c_8h.html#a80f314d925564890ee64b1c2a699bdb0'', [5, 0, 4, 0, 0, 0, 102]),
    (''db/df3/lsl__c_8h.html#a819b6e50f2ba340686fb5d537a2548b8'', [5, 0, 4, 0, 0, 0, 73]),
    (''db/df3/lsl__c_8h.html#a8331a69a3ea3978a1f04e80e6234a4c8'', [5, 0, 4, 0, 0, 0, 66]),
    (''db/df3/lsl__c_8h.html#a854a222cf8909b0b7ec901adbd5f6b13'', [5, 0, 4, 0, 0, 0, 154]),
    (''db/df3/lsl__c_8h.html#a8575e959edab9eb4be131982dd260acd'', [5, 0, 4, 0, 0, 0, 1]),
    (''db/df3/lsl__c_8h.html#a864e000ed999639b3ba785cd6a076c52'', [5, 0, 4, 0, 0, 0, 92]),
    (''db/df3/lsl__c_8h.html#a86691767b61f0731a3e0668efd42c224'', [5, 0, 4, 0, 0, 0, 43]),
    (''db/df3/lsl__c_8h.html#a885c3584f6f6068680bb2b61ebf387e5'', [5, 0, 4, 0, 0, 0, 53]),
    (''db/df3/lsl__c_8h.html#a8a64b224cd72b7226005e5dbe8c7c671'', [5, 0, 4, 0, 0, 0, 120]),
    (''db/df3/lsl__c_8h.html#a8b8ed17844fa3b269ac65b51c3cac7c5'', [5, 0, 4, 0, 0, 0, 127]),
    (''db/df3/lsl__c_8h.html#a8b8ee567d1f8adf3816f0c58a7c311da'', [5, 0, 4, 0, 0, 0, 117]),
    (''db/df3/lsl__c_8h.html#a8cc9b06f96e96be28e417c5b21350e4f'', [5, 0, 4, 0, 0, 0, 167]),
    (''db/df3/lsl__c_8h.html#a8e049d82680d0fb6f803b9c604567516'', [5, 0, 4, 0, 0, 0, 95]),
    (''db/df3/lsl__c_8h.html#a8e0d0447b9598bfe0e46a6166de51cc3'', [5, 0, 4, 0, 0, 0, 165]),
    (''db/df3/lsl__c_8h.html#a8eaeec5c8e913bd5eb1e3419a4f56e31'', [5, 0, 4, 0, 0, 0, 71]),
    (''db/df3/lsl__c_8h.html#a8f6958b1292ad3b59157c290bfce552d'', [5, 0, 4, 0, 0, 0, 48]),
    (''db/df3/lsl__c_8h.html#a91a947d9280a61e1e5e73d166a259385'', [5, 0, 4, 0, 0, 0, 105]),
    (''db/df3/lsl__c_8h.html#a9246faefd09869849b726df268042333'', [5, 0, 4, 0, 0, 0, 13]),
    (''db/df3/lsl__c_8h.html#a9246faefd09869849b726df268042333a10e08b294e3583a6e1892da753137445'', [5, 0, 4, 0, 0, 0, 13, 0]),
    (''db/df3/lsl__c_8h.html#a9246faefd09869849b726df268042333a21f46ef0bbdba358fabe116ae1559c87'', [5, 0, 4, 0, 0, 0, 13, 2]),
    (''db/df3/lsl__c_8h.html#a9246faefd09869849b726df268042333ad36e527d8a75f2ef42d48311bbd605c7'', [5, 0, 4, 0, 0, 0, 13, 3]),
    (''db/df3/lsl__c_8h.html#a9246faefd09869849b726df268042333ae6bdb3d07024fa143a22417546496828'', [5, 0, 4, 0, 0, 0, 13, 1]),
    (''db/df3/lsl__c_8h.html#a9246faefd09869849b726df268042333ae75b6de5e0af2a7c1377c11fafefbb02'', [5, 0, 4, 0, 0, 0, 13, 5]),
    (''db/df3/lsl__c_8h.html#a9246faefd09869849b726df268042333af3444351bc66b5a0a8a758774de84438'', [5, 0, 4, 0, 0, 0, 13, 4]),
    (''db/df3/lsl__c_8h.html#a96bba791d4bb29acc1b0d9428a6b5edd'', [5, 0, 4, 0, 0, 0, 83]),
    (''db/df3/lsl__c_8h.html#a96ec833e4b9e6ee9c263bd903f2f7241'', [5, 0, 4, 0, 0, 0, 169]),
    (''db/df3/lsl__c_8h.html#a98b8df791e7e9d415098aafcb06b3d93'', [5, 0, 4, 0, 0, 0, 47]),
    (''db/df3/lsl__c_8h.html#a9a6e5c2bcf2aa1555c30996d536e53ad'', [5, 0, 4, 0, 0, 0, 67]),
    (''db/df3/lsl__c_8h.html#a9a8d74a7fef9cdf68bd3a1ecf76109fa'', [5, 0, 4, 0, 0, 0, 146]),
    (''db/df3/lsl__c_8h.html#a9af4120da145ae6ebb904ad0b3bc1b43'', [5, 0, 4, 0, 0, 0, 150]),
    (''db/df3/lsl__c_8h.html#a9e191a0b0bac97c3f440c553241a623b'', [5, 0, 4, 0, 0, 0, 84]),
    (''db/df3/lsl__c_8h.html#a9e5585ae34b000bcad7a3ea5ab36a0e1'', [5, 0, 4, 0, 0, 0, 24]),
    (''db/df3/lsl__c_8h.html#aa08759dc9e3d361fbc26557fc7a42279'', [5, 0, 4, 0, 0, 0, 138]),
    (''db/df3/lsl__c_8h.html#aa48e803c7206a2b9a9154486c8b59d3e'', [5, 0, 4, 0, 0, 0, 158]),
    (''db/df3/lsl__c_8h.html#aa856d09f05c334cb8472fefea485de1f'', [5, 0, 4, 0, 0, 0, 163]),
    (''db/df3/lsl__c_8h.html#aa85ef584982dd371ca580e5103cef633'', [5, 0, 4, 0, 0, 0, 37]),
    (''db/df3/lsl__c_8h.html#aa9716749d011b4f5c74e3eb4b7f86e6b'', [5, 0, 4, 0, 0, 0, 128]),
    (''db/df3/lsl__c_8h.html#aaa63607a0162e2ab9e62dffc7874d716'', [5, 0, 4, 0, 0, 0, 31]),
    (''db/df3/lsl__c_8h.html#aad62f3e27452d2944cd8cb443fc11741'', [5, 0, 4, 0, 0, 0, 135]),
    (''db/df3/lsl__c_8h.html#aae3594f14dbcf50ea012d89403f5d57c'', [5, 0, 4, 0, 0, 0, 38]),
    (''db/df3/lsl__c_8h.html#aafd0ef1813e8be84a1420c4f1df64615'', [5, 0, 4, 0, 0, 0, 0]),
    (''db/df3/lsl__c_8h.html#ab0b1ae6dcb03612f18aa37e7aef2b2e0'', [5, 0, 4, 0, 0, 0, 75]),
    (''db/df3/lsl__c_8h.html#ab174601268a7f0a9b60223510ba7d3b8'', [5, 0, 4, 0, 0, 0, 10]),
    (''db/df3/lsl__c_8h.html#ab3acfb108aa4260818588e75d61307c2'', [5, 0, 4, 0, 0, 0, 143]),
    (''db/df3/lsl__c_8h.html#ab46eddb74ca540d49497330b132dbff1'', [5, 0, 4, 0, 0, 0, 4]),
    (''db/df3/lsl__c_8h.html#ab517961395988205f230c14c94cf9506'', [5, 0, 4, 0, 0, 0, 41]),
    (''db/df3/lsl__c_8h.html#ab5830dfa3831a239eabae33504633849'', [5, 0, 4, 0, 0, 0, 57]),
    (''db/df3/lsl__c_8h.html#ab5f5986ebe4bbf87d97d299b0c1213ea'', [5, 0, 4, 0, 0, 0, 55]),
    (''db/df3/lsl__c_8h.html#ab647f7d988094c0f18d66619c4a93e68'', [5, 0, 4, 0, 0, 0, 113]),
    (''db/df3/lsl__c_8h.html#ab94fcb1a355dbfc31f9dd3e0d699e6d6'', [5, 0, 4, 0, 0, 0, 5]),
    (''db/df3/lsl__c_8h.html#abac187f58d92db9130d18139d72064a9'', [5, 0, 4, 0, 0, 0, 129]),
    (''db/df3/lsl__c_8h.html#abc52ee7be11ed9788f5c82d157e0c1c1'', [5, 0, 4, 0, 0, 0, 16]),
    (''db/df3/lsl__c_8h.html#abc5a012ac671893b58d38d81b4433520'', [5, 0, 4, 0, 0, 0, 144]),
    (''db/df3/lsl__c_8h.html#abc993331c3f01c1d3ebb06e69821b009'', [5, 0, 4, 0, 0, 0, 69]),
    (''db/df3/lsl__c_8h.html#ac0ce4de263cd07fc4e3b1808e784693f'', [5, 0, 4, 0, 0, 0, 45]),
    (''db/df3/lsl__c_8h.html#ac15f1512c5195e6d671d49a17885e119'', [5, 0, 4, 0, 0, 0, 54]),
    (''db/df3/lsl__c_8h.html#ac2fa5d87f7c6c5343ab9a6f678229f62'', [5, 0, 4, 0, 0, 0, 159]),
    (''db/df3/lsl__c_8h.html#ac3d742ffc5b4f8a941835df6d2369547'', [5, 0, 4, 0, 0, 0, 42]),
    (''db/df3/lsl__c_8h.html#ac6eb5ec72140ba4ae26c80112ccaac52'', [5, 0, 4, 0, 0, 0, 152]),
    (''db/df3/lsl__c_8h.html#ac704c51be54e926f6dcc8dc7d04d8b8b'', [5, 0, 4, 0, 0, 0, 157]),
    (''db/df3/lsl__c_8h.html#ac81be759a83eb75c357bfb820e83cd12'', [5, 0, 4, 0, 0, 0, 104]),
    (''db/df3/lsl__c_8h.html#ac9b53eec106d81130b5aa2341ecf8bd2'', [5, 0, 4, 0, 0, 0, 155]),
    (''db/df3/lsl__c_8h.html#ace8095ccb59a3857b0ff42511c72ff9a'', [5, 0, 4, 0, 0, 0, 35]),
    (''db/df3/lsl__c_8h.html#acffa311b660404321a2e00b9cd4e495f'', [5, 0, 4, 0, 0, 0, 34]),
    (''db/df3/lsl__c_8h.html#ad0b8e9c8e62e471dfbc098f4293d6ece'', [5, 0, 4, 0, 0, 0, 88]),
    (''db/df3/lsl__c_8h.html#ad346feb32bddd136c3f7797e45047754'', [5, 0, 4, 0, 0, 0, 11]),
    (''db/df3/lsl__c_8h.html#ad346feb32bddd136c3f7797e45047754a0548a6d8aa4e05f6195b7d7667b1a708'', [5, 0, 4, 0, 0, 0, 11, 0]),
    (''db/df3/lsl__c_8h.html#ad346feb32bddd136c3f7797e45047754a0cbaf0c7054a57713970489abab7fb85'', [5, 0, 4, 0, 0, 0, 11, 7]),
    (''db/df3/lsl__c_8h.html#ad346feb32bddd136c3f7797e45047754a1b18c0e17a470b9e3bcff23cf49b8d6b'', [5, 0, 4, 0, 0, 0, 11, 5]),
    (''db/df3/lsl__c_8h.html#ad346feb32bddd136c3f7797e45047754a2048ca1d716016ec3439711eaf352652'', [5, 0, 4, 0, 0, 0, 11, 3]),
    (''db/df3/lsl__c_8h.html#ad346feb32bddd136c3f7797e45047754a3286e5e97a2240d0fc4375e6eaf26291'', [5, 0, 4, 0, 0, 0, 11, 1]),
    (''db/df3/lsl__c_8h.html#ad346feb32bddd136c3f7797e45047754a8353906afd3439e2f9dc504f571a724d'', [5, 0, 4, 0, 0, 0, 11, 2]),
    (''db/df3/lsl__c_8h.html#ad346feb32bddd136c3f7797e45047754a90aad2d18937be799aca56fe80794aa5'', [5, 0, 4, 0, 0, 0, 11, 6]),
    (''db/df3/lsl__c_8h.html#ad346feb32bddd136c3f7797e45047754ab0af40c86cf7de7ff94f52006f924f3b'', [5, 0, 4, 0, 0, 0, 11, 4]),
    (''db/df3/lsl__c_8h.html#ad64f4e486c676d088eee07776dd12fac'', [5, 0, 4, 0, 0, 0, 62]),
    (''db/df3/lsl__c_8h.html#ad84630a74d54a33c972daa18feb78c9d'', [5, 0, 4, 0, 0, 0, 27]),
    (''db/df3/lsl__c_8h.html#ad8c1b9bd37107e1b19b0f7b6ea4c4bc5'', [5, 0, 4, 0, 0, 0, 160]),
    (''db/df3/lsl__c_8h.html#adc2bfcb8e80b50c8ee271d85f290385c'', [5, 0, 4, 0, 0, 0, 121]),
    (''db/df3/lsl__c_8h.html#addeff0a60f446e7f43770eb1f5e30f84'', [5, 0, 4, 0, 0, 0, 32]),
    (''db/df3/lsl__c_8h.html#ae0a4be2d1a0c02e8b065710d005e9c7a'', [5, 0, 4, 0, 0, 0, 106]),
    (''db/df3/lsl__c_8h.html#ae293c3b20d52135ebf3e3ee9cb25c364'', [5, 0, 4, 0, 0, 0, 25]),
    (''db/df3/lsl__c_8h.html#ae44e19988a72b422344711d5017cb420'', [5, 0, 4, 0, 0, 0, 132]),
    (''db/df3/lsl__c_8h.html#ae54c0127325dd0bb977a481533e8ecb9'', [5, 0, 4, 0, 0, 0, 171]),
    (''db/df3/lsl__c_8h.html#aea479a05659e31e6248597ac04d189ea'', [5, 0, 4, 0, 0, 0, 60]),
    (''db/df3/lsl__c_8h.html#aea5a6d89b758f61045830cb0f9d692b4'', [5, 0, 4, 0, 0, 0, 112]),
    (''db/df3/lsl__c_8h.html#aef1212b6b2cd3e3747fd6e433c30e395'', [5, 0, 4, 0, 0, 0, 8]),
    (''db/df3/lsl__c_8h.html#af0f78c4ea3b891919666047bf1bdbc90'', [5, 0, 4, 0, 0, 0, 136]),
    (''db/df3/lsl__c_8h.html#af1a263d9c5182a79fdbbbcd7067d6a93'', [5, 0, 4, 0, 0, 0, 18]),
    (''db/df3/lsl__c_8h.html#af1a8ca4c78fcf8571d811131ca479ba8'', [5, 0, 4, 0, 0, 0, 74]),
    (''db/df3/lsl__c_8h.html#af289f8a4f5efff22d10375a1bfc35f32'', [5, 0, 4, 0, 0, 0, 111]),
    (''db/df3/lsl__c_8h.html#af350135b29fa2aa538f8d3133b7a5ab7'', [5, 0, 4, 0, 0, 0, 153]),
    (''db/df3/lsl__c_8h.html#af3604739246b9b9175b990eb74fbe183'', [5, 0, 4, 0, 0, 0, 134]),
    (''db/df3/lsl__c_8h.html#af605351d94ec7523858646b10dbfbbd2'', [5, 0, 4, 0, 0, 0, 72])]"

definition NAVTREEINDEX2a :: "(string \<times> nat list) list" where
  "NAVTREEINDEX2a = [
    (''db/df3/lsl__c_8h.html#af9e8d161e2cc70ffbf9443083ff5d33d'', [5, 0, 4, 0, 0, 0, 80]),
    (''db/df3/lsl__c_8h.html#afb51a7b796ce958254c209e2dbca2453'', [5, 0, 4, 0, 0, 0, 15]),
    (''db/df3/lsl__c_8h.html#afef7ba2a6124b285f4568af0cf200420'', [5, 0, 4, 0, 0, 0, 39]),
    (''db/df3/lsl__c_8h.html#aff5474907fddf8b14300c79c9fda38e6'', [5, 0, 4, 0, 0, 0, 7]),
    (''db/df3/lsl__c_8h_source.html'', [5, 0, 4, 0, 0, 0]),
    (''dc/d13/com__client_8hpp.html'', [5, 0, 1, 0]),
    (''dc/d13/com__client_8hpp.html#a6cb23a858b0a21bdaa644b9181dc415f'', [5, 0, 1, 0, 2]),
    (''dc/d13/com__client_8hpp_source.html'', [5, 0, 1, 0]),
    (''dc/d44/class_e_s_c_1_1_c_l_i.html'', [4, 0, 1, 0]),
    (''dc/d44/class_e_s_c_1_1_c_l_i.html#a1ac0d519304d97b3be094979fcfe6e44'', [4, 0, 1, 0, 2]),
    (''dc/d44/class_e_s_c_1_1_c_l_i.html#a24d0af4957baaeafab2a5f689e20b57d'', [4, 0, 1, 0, 1]),
    (''dc/d44/class_e_s_c_1_1_c_l_i.html#a47b6c71a4c59354a3f9c0cd9bd011807'', [4, 0, 1, 0, 0]),
    (''dc/d44/class_e_s_c_1_1_c_l_i.html#abe1e5a3cc2cbd55c0704e9b13842e436'', [4, 0, 1, 0, 4]),
    (''dc/d44/class_e_s_c_1_1_c_l_i.html#aee4e23e87ebd3cf3909f1760a5fda04b'', [4, 0, 1, 0, 3]),
    (''dc/d95/http__client_8cpp_8o_8d.html'', [5, 0, 0, 0, 1, 0, 1]),
    (''dc/db1/class_communication_1_1_server.html'', [4, 0, 0, 1]),
    (''dc/db1/class_communication_1_1_server.html#a3571bd6913a55394cde0ced0f404685d'', [4, 0, 0, 1, 0]),
    (''dc/db1/class_communication_1_1_server.html#a3acba24524ce792ff0e8adc5f519c79d'', [4, 0, 0, 1, 3]),
    (''dc/db1/class_communication_1_1_server.html#a3f85e046ae47cdb26aa7d1497dcd64c3'', [4, 0, 0, 1, 2]),
    (''dc/db1/class_communication_1_1_server.html#aef74c77dc02436ee1dc6d16310837b12'', [4, 0, 0, 1, 1]),
    (''dd/d40/str_a_n_s_iseq_8cpp.html'', [5, 0, 2, 0, 1, 1]),
    (''dd/d40/str_a_n_s_iseq_8cpp.html#a0339f1bf272536a7645b373a503b4928'', [5, 0, 2, 0, 1, 1, 3]),
    (''dd/d40/str_a_n_s_iseq_8cpp.html#a07d7fd8adc58054bde19b14556a8d945'', [5, 0, 2, 0, 1, 1, 1]),
    (''dd/d40/str_a_n_s_iseq_8cpp.html#a080ff5f5b8a2ed3567a541acfa69a425'', [5, 0, 2, 0, 1, 1, 0]),
    (''dd/d40/str_a_n_s_iseq_8cpp.html#a1ab0660788056c78944278261498664a'', [5, 0, 2, 0, 1, 1, 2]),
    (''dd/d40/str_a_n_s_iseq_8cpp.html#a231a32f47e8c90921259a47ce621b1cc'', [5, 0, 2, 0, 1, 1, 4]),
    (''dd/d40/str_a_n_s_iseq_8cpp.html#a2dc320253a173af845d4317a62c45a6f'', [5, 0, 2, 0, 1, 1, 7]),
    (''dd/d40/str_a_n_s_iseq_8cpp.html#aabdbbf48acbc97aadc974b67b8f65d49'', [5, 0, 2, 0, 1, 1, 6]),
    (''dd/d40/str_a_n_s_iseq_8cpp.html#ab8b0eda8f8c0d37419c0435cad5230e0'', [5, 0, 2, 0, 1, 1, 8]),
    (''dd/d40/str_a_n_s_iseq_8cpp.html#ac00ec90c2ccac2f1bcb6219b6f081ad5'', [5, 0, 2, 0, 1, 1, 5]),
    (''de/d94/classlsl_1_1lost__error.html'', [4, 0, 2, 5]),
    (''de/d94/classlsl_1_1lost__error.html#a997ff6ff1ecd4fd33cda631b975d386e'', [4, 0, 2, 5, 0]),
    (''de/dfb/src_2main_8cpp.html'', [5, 0, 3, 2]),
    (''de/dfb/src_2main_8cpp.html#a3c04138a5bfe5d72780bb7e82a18e627'', [5, 0, 3, 2, 0]),
    (''df/d3f/lib_2str_a_n_s_iseq_2_c_make_files_2str_a_n_s_iseq_8dir_2src_2main_8cpp_8o_8d.html'', [5, 0, 0, 1, 0, 0, 1, 0, 0]),
    (''df/dcd/class_communication_1_1_client.html'', [4, 0, 0, 0]),
    (''df/dcd/class_communication_1_1_client.html#a2508e02531cf7e8dd258677b7b1490e9'', [4, 0, 0, 0, 6]),
    (''df/dcd/class_communication_1_1_client.html#a32bd631bcb3b0a3476b146a0cc49332d'', [4, 0, 0, 0, 10]),
    (''df/dcd/class_communication_1_1_client.html#a487e227b474999f2ff9f096f1a5784ad'', [4, 0, 0, 0, 5]),
    (''df/dcd/class_communication_1_1_client.html#a5afbc51613d3caf88641d04e81837467'', [4, 0, 0, 0, 7]),
    (''df/dcd/class_communication_1_1_client.html#a66336ae23ea502a9395010407a952664'', [4, 0, 0, 0, 8]),
    (''df/dcd/class_communication_1_1_client.html#a7020654cbb2e6f707fe637fc84d8328c'', [4, 0, 0, 0, 4]),
    (''df/dcd/class_communication_1_1_client.html#a73fec58648938364cd65d690f50bd7ec'', [4, 0, 0, 0, 9]),
    (''df/dcd/class_communication_1_1_client.html#a77c290beabfe76ea97a9027d66a04f7c'', [4, 0, 0, 0, 2]),
    (''df/dcd/class_communication_1_1_client.html#aa448a9277e9bed8326f74ad81062ab77'', [4, 0, 0, 0, 3]),
    (''df/dcd/class_communication_1_1_client.html#ad5719d96b9a023b9d6e6bfb3c917f6dd'', [4, 0, 0, 0, 0]),
    (''df/dcd/class_communication_1_1_client.html#ad5719d96b9a023b9d6e6bfb3c917f6dda1b32b1dce6fdf665a44847863b977720'', [4, 0, 0, 0, 0, 2]),
    (''df/dcd/class_communication_1_1_client.html#ad5719d96b9a023b9d6e6bfb3c917f6dda9729ef4069d34c1034ca97789e50b03f'', [4, 0, 0, 0, 0, 1]),
    (''df/dcd/class_communication_1_1_client.html#ad5719d96b9a023b9d6e6bfb3c917f6ddae1bf4306016574e334b5aec78b2efaf2'', [4, 0, 0, 0, 0, 0]),
    (''df/dcd/class_communication_1_1_client.html#aea957bd14f311e1f6621e7611022b5c4'', [4, 0, 0, 0, 1]),
    (''df/df2/str_a_n_s_iseq_8hpp.html'', [5, 0, 2, 0, 0, 0]),
    (''df/df2/str_a_n_s_iseq_8hpp.html#a0339f1bf272536a7645b373a503b4928'', [5, 0, 2, 0, 0, 0, 7]),
    (''df/df2/str_a_n_s_iseq_8hpp.html#a07d7fd8adc58054bde19b14556a8d945'', [5, 0, 2, 0, 0, 0, 4]),
    (''df/df2/str_a_n_s_iseq_8hpp.html#a080ff5f5b8a2ed3567a541acfa69a425'', [5, 0, 2, 0, 0, 0, 3]),
    (''df/df2/str_a_n_s_iseq_8hpp.html#a1ab0660788056c78944278261498664a'', [5, 0, 2, 0, 0, 0, 6]),
    (''df/df2/str_a_n_s_iseq_8hpp.html#a231a32f47e8c90921259a47ce621b1cc'', [5, 0, 2, 0, 0, 0, 8]),
    (''df/df2/str_a_n_s_iseq_8hpp.html#a2dc320253a173af845d4317a62c45a6f'', [5, 0, 2, 0, 0, 0, 11]),
    (''df/df2/str_a_n_s_iseq_8hpp.html#a3577749fb48d57a158b8ac1a0b3ab57e'', [5, 0, 2, 0, 0, 0, 1]),
    (''df/df2/str_a_n_s_iseq_8hpp.html#a6f0f9c5cc6b334d09b6da6834c02af16'', [5, 0, 2, 0, 0, 0, 5]),
    (''df/df2/str_a_n_s_iseq_8hpp.html#a93c187b0ecaecc64127a1e7d211562a1'', [5, 0, 2, 0, 0, 0, 2]),
    (''df/df2/str_a_n_s_iseq_8hpp.html#a93c187b0ecaecc64127a1e7d211562a1a080f5acc7b26dd8c82d66a410dcb003a'', [5, 0, 2, 0, 0, 0, 2, 19]),
    (''df/df2/str_a_n_s_iseq_8hpp.html#a93c187b0ecaecc64127a1e7d211562a1a0949b3693d2401dfa4651b442a9c9551'', [5, 0, 2, 0, 0, 0, 2, 0]),
    (''df/df2/str_a_n_s_iseq_8hpp.html#a93c187b0ecaecc64127a1e7d211562a1a0af3dbb99fb41d75e60df73e7bab1fdd'', [5, 0, 2, 0, 0, 0, 2, 5]),
    (''df/df2/str_a_n_s_iseq_8hpp.html#a93c187b0ecaecc64127a1e7d211562a1a11a52229f2c02ac21863203a9649771d'', [5, 0, 2, 0, 0, 0, 2, 1]),
    (''df/df2/str_a_n_s_iseq_8hpp.html#a93c187b0ecaecc64127a1e7d211562a1a1b9e16c203595a107bc8ba10051e08d1'', [5, 0, 2, 0, 0, 0, 2, 26]),
    (''df/df2/str_a_n_s_iseq_8hpp.html#a93c187b0ecaecc64127a1e7d211562a1a1c482c45cb9fa67cb290cb6e17ca291d'', [5, 0, 2, 0, 0, 0, 2, 21]),
    (''df/df2/str_a_n_s_iseq_8hpp.html#a93c187b0ecaecc64127a1e7d211562a1a1ea0683248f9953ca0713e5797ce17d1'', [5, 0, 2, 0, 0, 0, 2, 3]),
    (''df/df2/str_a_n_s_iseq_8hpp.html#a93c187b0ecaecc64127a1e7d211562a1a2c10a5323218ceb224ef379037cd7e0a'', [5, 0, 2, 0, 0, 0, 2, 17]),
    (''df/df2/str_a_n_s_iseq_8hpp.html#a93c187b0ecaecc64127a1e7d211562a1a2d6d9e4c4d26f775a2d2e0f5d4c2fee5'', [5, 0, 2, 0, 0, 0, 2, 10]),
    (''df/df2/str_a_n_s_iseq_8hpp.html#a93c187b0ecaecc64127a1e7d211562a1a3b8d384d180428029a6712830c9b01b7'', [5, 0, 2, 0, 0, 0, 2, 16]),
    (''df/df2/str_a_n_s_iseq_8hpp.html#a93c187b0ecaecc64127a1e7d211562a1a4407cb515758165608277ff094d8aa4e'', [5, 0, 2, 0, 0, 0, 2, 15]),
    (''df/df2/str_a_n_s_iseq_8hpp.html#a93c187b0ecaecc64127a1e7d211562a1a51f33f01a9c1d72db09e6a9ac6ddb759'', [5, 0, 2, 0, 0, 0, 2, 11]),
    (''df/df2/str_a_n_s_iseq_8hpp.html#a93c187b0ecaecc64127a1e7d211562a1a560f8ec0e3a165bffd234986d419d93e'', [5, 0, 2, 0, 0, 0, 2, 18]),
    (''df/df2/str_a_n_s_iseq_8hpp.html#a93c187b0ecaecc64127a1e7d211562a1a5793314530aabf181b6d61339928a486'', [5, 0, 2, 0, 0, 0, 2, 9]),
    (''df/df2/str_a_n_s_iseq_8hpp.html#a93c187b0ecaecc64127a1e7d211562a1a5bfaa69787e265bc37dca5b2b61c64a9'', [5, 0, 2, 0, 0, 0, 2, 4]),
    (''df/df2/str_a_n_s_iseq_8hpp.html#a93c187b0ecaecc64127a1e7d211562a1a5c996890ffc321f6f95d51357fa2e00a'', [5, 0, 2, 0, 0, 0, 2, 22])]"

definition NAVTREEINDEX2b :: "(string \<times> nat list) list" where
  "NAVTREEINDEX2b = [
    (''df/df2/str_a_n_s_iseq_8hpp.html#a93c187b0ecaecc64127a1e7d211562a1a712e5fd9a5e6d3b6a565a22b7b6590b2'', [5, 0, 2, 0, 0, 0, 2, 8]),
    (''df/df2/str_a_n_s_iseq_8hpp.html#a93c187b0ecaecc64127a1e7d211562a1a852050b53ec94746365cf503b9daf77c'', [5, 0, 2, 0, 0, 0, 2, 13]),
    (''df/df2/str_a_n_s_iseq_8hpp.html#a93c187b0ecaecc64127a1e7d211562a1a991c4d7703b3a4062d71ac80b047d0f6'', [5, 0, 2, 0, 0, 0, 2, 6]),
    (''df/df2/str_a_n_s_iseq_8hpp.html#a93c187b0ecaecc64127a1e7d211562a1a9ca7916a80da428a5e295b0356e5ba91'', [5, 0, 2, 0, 0, 0, 2, 12]),
    (''df/df2/str_a_n_s_iseq_8hpp.html#a93c187b0ecaecc64127a1e7d211562a1aa554b8e89b9c53e86096c1ee2dca2aae'', [5, 0, 2, 0, 0, 0, 2, 7]),
    (''df/df2/str_a_n_s_iseq_8hpp.html#a93c187b0ecaecc64127a1e7d211562a1ac524cfac8f3b50f5d6ac8a2ce7ac0939'', [5, 0, 2, 0, 0, 0, 2, 20]),
    (''df/df2/str_a_n_s_iseq_8hpp.html#a93c187b0ecaecc64127a1e7d211562a1ad7e062b99a6ddd60a225ecc7d10756b1'', [5, 0, 2, 0, 0, 0, 2, 2]),
    (''df/df2/str_a_n_s_iseq_8hpp.html#a93c187b0ecaecc64127a1e7d211562a1adb93cd7891a72f8d7878e8ea39700b51'', [5, 0, 2, 0, 0, 0, 2, 14]),
    (''df/df2/str_a_n_s_iseq_8hpp.html#a93c187b0ecaecc64127a1e7d211562a1ae751c14d8a6185aa862011b31cef11ee'', [5, 0, 2, 0, 0, 0, 2, 23]),
    (''df/df2/str_a_n_s_iseq_8hpp.html#a93c187b0ecaecc64127a1e7d211562a1ae86ea0aceff2ecc297273593ef04d88a'', [5, 0, 2, 0, 0, 0, 2, 24]),
    (''df/df2/str_a_n_s_iseq_8hpp.html#a93c187b0ecaecc64127a1e7d211562a1afa9e18e6b89e7b527ac48cdeabb64955'', [5, 0, 2, 0, 0, 0, 2, 25]),
    (''df/df2/str_a_n_s_iseq_8hpp.html#aabdbbf48acbc97aadc974b67b8f65d49'', [5, 0, 2, 0, 0, 0, 10]),
    (''df/df2/str_a_n_s_iseq_8hpp.html#ab8b0eda8f8c0d37419c0435cad5230e0'', [5, 0, 2, 0, 0, 0, 12]),
    (''df/df2/str_a_n_s_iseq_8hpp.html#ac00ec90c2ccac2f1bcb6219b6f081ad5'', [5, 0, 2, 0, 0, 0, 9]),
    (''df/df2/str_a_n_s_iseq_8hpp_source.html'', [5, 0, 2, 0, 0, 0]),
    (''dir_127a0b13c4059b08a7f4d866ec5a21cc.html'', [5, 0, 0, 1, 0]),
    (''dir_3280642a839541a29e29961741ef8ced.html'', [5, 0, 0, 1, 0, 0, 0, 0]),
    (''dir_40a07be7a32b2e45b448972e4bdb8ed5.html'', [5, 0, 0, 0, 2, 0]),
    (''dir_4166fd07804cc527cdfc167b21a5330f.html'', [5, 0, 0, 1, 0, 0]),
    (''dir_470f4625da3256ec4a5c2be4bd4f8658.html'', [5, 0, 4, 0]),
    (''dir_4fef79e7177ba769987a8da36c892c5f.html'', [5, 0, 0]),
    (''dir_5ccf6f5f6f8f5a0c68d52188c0c1e2bd.html'', [5, 0, 0, 0, 0, 0]),
    (''dir_5e9cc357fe3b3313ad16f661a338681c.html'', [5, 0, 2, 0, 1]),
    (''dir_63772b626f2709090f0bdca0f40827b4.html'', [5, 0, 0, 0]),
    (''dir_68267d1309a1af8e8297ef4c3efbcdba.html'', [5, 0, 3]),
    (''dir_6dd59ef4c64b46cf9e81380f0a3a6757.html'', [5, 0, 0, 0, 1, 0]),
    (''dir_798295ff5de2e5beb17f203298baaa7f.html'', [5, 0, 0, 1, 0, 0, 1, 0]),
    (''dir_7a9c7094c62de71bbec4b12c7c975b93.html'', [5, 0, 0, 1]),
    (''dir_97aefd0d527b934f1d99a682da8fe6a9.html'', [5, 0, 2]),
    (''dir_a0aabf0f9c68f10a87f9043c02514b41.html'', [5, 0, 0, 1, 0, 0, 0]),
    (''dir_a95d52f81f463f3290acb9e3d34dacea.html'', [5, 0, 0, 1, 0, 0, 1]),
    (''dir_bebb180f26d6bb41eb2a098db65f44a7.html'', [5, 0, 0, 0, 1]),
    (''dir_caab832a2bdf26d7f56e9ddf444490ee.html'', [5, 0, 2, 0, 0]),
    (''dir_cb540477a80f9d51ad37a936dad104bf.html'', [5, 0, 0, 0, 2]),
    (''dir_d44c64559bbebec7f509842c48db8b23.html'', [5, 0, 1]),
    (''dir_d623257484d3aadfc7ce1557f2d8c6b6.html'', [5, 0, 4, 0, 0]),
    (''dir_e1a715d407a4074a9fa63b2e02ec2b8f.html'', [5, 0, 0, 0, 0, 1]),
    (''dir_e3e6a61ebba8fbca2913381c4bcfbd2b.html'', [5, 0, 4]),
    (''dir_e7c96c2c740204929c097fd23996983c.html'', [5, 0, 2, 0]),
    (''dir_ee532ceb613f48f23d20ef02624c3a91.html'', [5, 0, 0, 0, 0]),
    (''files.html'', [5, 0]),
    (''functions.html'', [4, 3, 0]),
    (''functions_enum.html'', [4, 3, 3]),
    (''functions_eval.html'', [4, 3, 4]),
    (''functions_func.html'', [4, 3, 1]),
    (''functions_vars.html'', [4, 3, 2]),
    (''globals.html'', [5, 1, 0]),
    (''globals.html'', [5, 1, 0, 0]),
    (''globals_a.html'', [5, 1, 0, 1]),
    (''globals_c.html'', [5, 1, 0, 2]),
    (''globals_d.html'', [5, 1, 0, 3]),
    (''globals_defs.html'', [5, 1, 6]),
    (''globals_enum.html'', [5, 1, 4]),
    (''globals_eval.html'', [5, 1, 5]),
    (''globals_func.html'', [5, 1, 1]),
    (''globals_h.html'', [5, 1, 0, 4]),
    (''globals_i.html'', [5, 1, 0, 5]),
    (''globals_l.html'', [5, 1, 0, 6]),
    (''globals_m.html'', [5, 1, 0, 7]),
    (''globals_p.html'', [5, 1, 0, 8]),
    (''globals_s.html'', [5, 1, 0, 9]),
    (''globals_type.html'', [5, 1, 3]),
    (''globals_vars.html'', [5, 1, 2]),
    (''hierarchy.html'', [4, 2]),
    (''index.html'', []),
    (''index.html'', [0]),
    (''index.html#autotoc_md5'', [0, 0]),
    (''index.html#autotoc_md6'', [0, 1]),
    (''index.html#autotoc_md7'', [0, 2]),
    (''namespacemembers.html'', [3, 1, 0]),
    (''namespacemembers_enum.html'', [3, 1, 3]),
    (''namespacemembers_eval.html'', [3, 1, 4]),
    (''namespacemembers_func.html'', [3, 1, 1]),
    (''namespacemembers_vars.html'', [3, 1, 2]),
    (''namespaces.html'', [3, 0]),
    (''pages.html'', [])]"

definition NAVTREEINDEX_scripts :: "(string \<times> nat list) list list" where
  "NAVTREEINDEX_scripts =
     [NAVTREEINDEX0a @ NAVTREEINDEX0b, NAVTREEINDEX1a @ NAVTREEINDEX1b, NAVTREEINDEX2a @ NAVTREEINDEX2b]"

end
