(* ===== verification/NavIndex.thy ===== *)
theory NavIndex
  imports NavTree
begin

text \<open>
  From a page and a fragment to a node of the navigation tree (\<open>navtree.js\<close>): the choice
  of the index script, the look-up of the position, the selection of the node, and the
  events that start it.
\<close>

section \<open>The site and the state\<close>

text \<open>
  What the site ships: the tree, the first key of every index script, and the entries of
  an index script if it loads. An object literal keeps the last value of a key.
\<close>

type_synonym index_entries = "(jstr \<times> nat list) list"

record nav_site =
  nav_tree :: "nav_item list"
  first_keys :: "jstr list"
  index_script :: "nat \<Rightarrow> index_entries option"

definition obj_get :: "index_entries \<Rightarrow> jstr \<Rightarrow> nat list option" where
  "obj_get es k = map_of (rev es) k"

text \<open>
  \<open>navTreeSubIndices\<close>, the object that \<open>initNavTree\<close> makes (its root node and the
  breadcrumbs, undefined at first), the positions whose item has the class \<open>selected\<close>,
  the place of the synchronisation button, and an error that a handler threw.
\<close>

record nav_state =
  navTreeSubIndices :: "nat \<Rightarrow> index_entries option"
  root_node :: nav_node
  breadcrumbs :: "nat list option"
  selected :: "nat list list"
  sync_top :: nat
  thrown_error :: "js_error option"

definition home :: "nav_site \<Rightarrow> jstr" where
  "home site = (case nav_tree site of it # _ \<Rightarrow> (case i_link it of Some l \<Rightarrow> l | None \<Rightarrow> []) | [] \<Rightarrow> [])"

section \<open>Selecting\<close>

text \<open>The positions of the nodes that exist, in document order.\<close>

function built_positions :: "nav_node \<Rightarrow> nat list list" where
  "built_positions n =
     concat (map (\<lambda>k. [k] # map ((#) k) (built_positions (children n ! k))) [0..<length (children n)])"
  by pat_completeness auto
termination
proof (relation "measure size", goal_cases)
  case (2 n k)
  then have "children n ! k \<in> set (children n)" by simp
  then have "size (children n ! k) < size_list size (children n) + 1"
    by (metis less_Suc_eq_le Suc_eq_plus1 size_list_estimation' order_refl)
  then show ?case by (cases n) simp
qed simp

declare built_positions.simps [simp del]

definition anchor_class :: "node_anchor \<Rightarrow> jstr" where
  "anchor_class a = (case a of LinkAnchor l \<Rightarrow> a_className l | ToggleAnchor \<Rightarrow> js ''nolink'' | PlainAnchor \<Rightarrow> [])"

definition selectAndHighlight :: "nav_page \<Rightarrow> jstr \<Rightarrow> nat list option \<Rightarrow> nav_state \<Rightarrow> nav_state" where
  "selectAndHighlight pg hash n st =
     (let as = (if hash \<noteq> [] then
                  filter (\<lambda>p. highlighted (location_of pg) hash (anchor_class (anchor (info (node_at (root_node st) p)))))
                    (built_positions (root_node st))
                else []);
          chosen = (if as \<noteq> [] then as else case n of Some p \<Rightarrow> [p] | None \<Rightarrow> []);
          st = st\<lparr>selected := selected st @ chosen\<rparr>
      in st\<lparr>sync_top := if [0] \<in> set (selected st) then 30 else 5\<rparr>)"

text \<open>\<open>$('.item').removeClass('selected')\<close> with \<open>removeAttr('id')\<close>.\<close>

definition clear_selection :: "nav_state \<Rightarrow> nav_state" where
  "clear_selection st = st\<lparr>selected := []\<rparr>"

text \<open>\<open>showNode\<close> on the root, and what its end does to the page.\<close>

definition show_from_root :: "nav_page \<Rightarrow> jstr \<Rightarrow> nat list \<Rightarrow> nav_state \<Rightarrow> nav_state" where
  "show_from_root pg hash bs st =
     (let (n, s) = showNode pg bs (root_node st); st = st\<lparr>root_node := n\<rparr> in
      case s of
        Selected p \<Rightarrow> selectAndHighlight pg hash (Some p) st
      | AnchorOnly \<Rightarrow> selectAndHighlight pg hash None st
      | Waiting \<Rightarrow> st
      | Throws e \<Rightarrow> st\<lparr>thrown_error := Some e\<rparr>)"

section \<open>Looking up the position\<close>

text \<open>
  \<open>$.extend(true, [], x)\<close> copies an array into a new one; an undefined \<open>x\<close> is skipped and
  the result is the empty array.
\<close>

definition jq_extend :: "nat list option \<Rightarrow> nat list option" where
  "jq_extend x = Some (case x of None \<Rightarrow> [] | Some b \<Rightarrow> b)"

definition goto_breadcrumbs :: "index_entries \<Rightarrow> jstr \<Rightarrow> jstr \<Rightarrow> nat list option" where
  "goto_breadcrumbs es root hash =
     jq_extend (case obj_get es (root @ hash) of Some b \<Rightarrow> Some b | None \<Rightarrow> obj_get es root)"

text \<open>The second half of \<open>gotoNode\<close>.\<close>

definition goto_show :: "nav_page \<Rightarrow> jstr \<Rightarrow> nav_state \<Rightarrow> nav_state" where
  "goto_show pg hash st =
     (case breadcrumbs st of
        None \<Rightarrow> st
      | Some b \<Rightarrow> show_from_root pg hash (0 # b) (st\<lparr>breadcrumbs := Some (0 # b)\<rparr>))"

text \<open>
  The page and fragment to go to: those of the stored link when there is one. A fragment
  of a stored link is cleaned; a fragment that names a line is dropped.
\<close>

definition nav_target :: "nav_sync \<Rightarrow> jstr \<Rightarrow> jstr \<Rightarrow> jstr \<times> jstr" where
  "nav_target sync root hash =
     (if has_cachedLink sync then
        let parts = js_split number_sign (the (cachedLink sync)) in
        (parts ! 0,
         if length parts > 1 then number_sign # filter (\<lambda>c. is_word c \<or> c = 45) (parts ! 1) else [])
      else (root, hash))"

definition is_line_hash :: "jstr \<Rightarrow> bool" where
  "is_line_hash h \<longleftrightarrow> 3 \<le> length h \<and> h ! 0 = number_sign \<and> h ! 1 = 108 \<and>
     list_all (\<lambda>c. 48 \<le> c \<and> c \<le> 57) (drop 2 h)"

text \<open>The loop over \<open>NAVTREEINDEX\<close>, with \<open>i\<close> the index before the rest of the keys.\<close>

fun index_scan :: "jstr list \<Rightarrow> jstr \<Rightarrow> int \<Rightarrow> int" where
  "index_scan [] url i = i"
| "index_scan (k # ks) url i = (if k \<le> url then index_scan ks url (i + 1) else i)"

definition choose_index :: "nav_site \<Rightarrow> jstr \<Rightarrow> jstr \<Rightarrow> nat \<times> jstr" where
  "choose_index site root hash =
     (let i = index_scan (first_keys site) (root @ hash) (-1) in
      if i = -1 then (0, home site) else (nat i, root))"

definition load_index :: "nav_site \<Rightarrow> nat \<Rightarrow> nav_state \<Rightarrow> (index_entries \<times> nav_state) option" where
  "load_index site i st =
     (case navTreeSubIndices st i of
        Some es \<Rightarrow> Some (es, st)
      | None \<Rightarrow>
          (case index_script site i of
             None \<Rightarrow> None
           | Some es \<Rightarrow> Some (es, st\<lparr>navTreeSubIndices := (navTreeSubIndices st)(i := Some es)\<rparr>)))"

text \<open>
  \<open>navTo\<close> and \<open>gotoNode\<close> call each other: here the look-up of \<open>gotoNode\<close> and its fall-back
  call are part of \<open>navTo\<close>. A call that does not return is \<open>None\<close>.
\<close>

partial_function (option) navTo ::
  "nav_site \<Rightarrow> nav_page \<Rightarrow> nav_sync \<Rightarrow> jstr \<Rightarrow> jstr \<Rightarrow> nav_state \<Rightarrow> nav_state option" where
  "navTo site pg sync root0 hash0 st =
     (let (root1, hash1) = nav_target sync root0 hash0;
          hash = (if is_line_hash hash1 then [] else hash1);
          (i, root) = choose_index site root1 hash
      in case load_index site i st of
           None \<Rightarrow> Some st
         | Some (es, st) \<Rightarrow>
             let b = goto_breadcrumbs es root hash; st = st\<lparr>breadcrumbs := b\<rparr> in
             if b = None \<and> root \<noteq> home site then
               Option.bind (navTo site pg sync (home site) [] st)
                 (\<lambda>st. Some (goto_show pg hash (clear_selection st)))
             else Some (goto_show pg hash st))"

declare navTo.simps [code]

section \<open>The events\<close>

text \<open>
  \<open>initNavTree\<close> when the document is ready and the \<open>load\<close> event of the window come in
  either order; the first one leaves what the second one needs.
\<close>

record nav_events =
  loadTriggered :: bool
  readyTriggered :: bool
  pending :: "(jstr \<times> jstr) option"
  navigations :: "(jstr \<times> jstr) list"

datatype nav_event = WindowLoad | DocumentReady jstr jstr

definition no_events :: nav_events where
  "no_events = \<lparr>loadTriggered = False, readyTriggered = False, pending = None, navigations = []\<rparr>"

definition window_load :: "nav_events \<Rightarrow> nav_events" where
  "window_load e =
     (if readyTriggered e
      then e\<lparr>navigations := navigations e @ (case pending e of Some c \<Rightarrow> [c] | None \<Rightarrow> []), loadTriggered := True\<rparr>
      else e\<lparr>loadTriggered := True\<rparr>)"

definition document_ready :: "jstr \<Rightarrow> jstr \<Rightarrow> nav_events \<Rightarrow> nav_events" where
  "document_ready root hash e =
     (if loadTriggered e then e\<lparr>navigations := navigations e @ [(root, hash)]\<rparr>
      else e\<lparr>pending := Some (root, hash), readyTriggered := True\<rparr>)"

fun on_nav_event :: "nav_event \<Rightarrow> nav_events \<Rightarrow> nav_events" where
  "on_nav_event WindowLoad e = window_load e"
| "on_nav_event (DocumentReady root hash) e = document_ready root hash e"

text \<open>
  The handler of \<open>hashchange\<close>; \<open>None\<close> when it starts no navigation. The first component
  tells whether the selection is cleared.
\<close>

definition on_hashchange ::
  "nav_page \<Rightarrow> bool \<Rightarrow> nav_state \<Rightarrow> (nav_state \<times> jstr \<times> jstr) option" where
  "on_hashchange pg animationInProgress st =
     (let loc = location_of pg in
      if length (loc_hash loc) > 1 then
        let clslink = stripPath (pathName loc) @ [colon] @ hashValue loc;
            a = filter (\<lambda>p. suffix clslink (anchor_class (anchor (info (node_at (root_node st) p)))))
                  (built_positions (root_node st));
            some_selected = (\<exists>p \<in> set a. p \<in> set (selected st))
        in Some (if some_selected then st else clear_selection st, stripPath2 (pathName loc), hashUrl loc)
      else if \<not> animationInProgress then
        Some (clear_selection st, toroot pg, hashUrl loc)
      else None)"


section \<open>The choice of the index script\<close>

lemma index_scan_count: "index_scan ks url i = i + int (length (takeWhile (\<lambda>k. k \<le> url) ks))"
  by (induction ks arbitrary: i) auto

lemma choose_index_eq:
  "choose_index site root hash =
     (let c = length (takeWhile (\<lambda>k. k \<le> root @ hash) (first_keys site)) in
      if c = 0 then (0, home site) else (c - 1, root))"
  by (auto simp: choose_index_def index_scan_count Let_def)

text \<open>
  With the first keys in order, the script that is chosen is the one whose range
  holds the URL: its first key is not above the URL and the first key of the next script
  is. A URL below every key falls back to the first script and the start page.
\<close>

theorem chosen_index_holds_url:
  assumes "sorted (first_keys site)" "choose_index site root hash = (i, root')"
  shows "(root' = root \<and> i < length (first_keys site) \<and> first_keys site ! i \<le> root @ hash \<and>
            (\<forall>j < length (first_keys site). i < j \<longrightarrow> root @ hash < first_keys site ! j)) \<or>
         (i = 0 \<and> root' = home site \<and> (\<forall>k \<in> set (first_keys site). root @ hash < k))"
proof -
  let ?ks = "first_keys site" and ?u = "root @ hash"
  let ?c = "length (takeWhile (\<lambda>k. k \<le> ?u) ?ks)"
  have above: "?u < ?ks ! j" if "?c \<le> j" "j < length ?ks" for j
  proof -
    have "\<not> ?ks ! ?c \<le> ?u" using that nth_length_takeWhile [of "\<lambda>k. k \<le> ?u" ?ks] by simp
    moreover have "?ks ! ?c \<le> ?ks ! j" using assms(1) that by (simp add: sorted_iff_nth_mono)
    ultimately show ?thesis by auto
  qed
  show ?thesis
  proof (cases "?c = 0")
    case True
    then have "?u < k" if "k \<in> set ?ks" for k
      using above that by (metis in_set_conv_nth le0)
    then show ?thesis using assms(2) True by (simp add: choose_index_eq)
  next
    case False
    have "?c - 1 < length ?ks"
      using False length_takeWhile_le [of "\<lambda>k. k \<le> ?u" ?ks] by arith
    moreover have "?ks ! (?c - 1) \<le> ?u"
    proof -
      have lt: "?c - 1 < ?c" using False by simp
      then have "takeWhile (\<lambda>k. k \<le> ?u) ?ks ! (?c - 1) \<in> set (takeWhile (\<lambda>k. k \<le> ?u) ?ks)"
        by (rule nth_mem)
      then have "takeWhile (\<lambda>k. k \<le> ?u) ?ks ! (?c - 1) \<le> ?u" by (blast dest: set_takeWhileD)
      then show ?thesis using takeWhile_nth [OF lt] by metis
    qed
    moreover have "i = ?c - 1" "root' = root"
      using assms(2) False by (auto simp: choose_index_eq Let_def)
    ultimately have "root' = root \<and> i < length ?ks \<and> ?ks ! i \<le> ?u \<and> (\<forall>j < length ?ks. i < j \<longrightarrow> ?u < ?ks ! j)"
      using False above by auto
    then show ?thesis by blast
  qed
qed

text \<open>The fall-back of \<open>gotoNode\<close> to the start page is never taken.\<close>

lemma goto_breadcrumbs_Some: "goto_breadcrumbs es root hash \<noteq> None"
  by (simp add: goto_breadcrumbs_def jq_extend_def)

lemma navTo_eq:
  "navTo site pg sync root0 hash0 st = Some
     (let (root1, hash1) = nav_target sync root0 hash0;
          hash = (if is_line_hash hash1 then [] else hash1);
          (i, root) = choose_index site root1 hash
      in case load_index site i st of
           None \<Rightarrow> st
         | Some (es, st) \<Rightarrow> goto_show pg hash (st\<lparr>breadcrumbs := goto_breadcrumbs es root hash\<rparr>))"
  by (subst navTo.simps) (simp add: goto_breadcrumbs_Some Let_def split: prod.split option.split)


theorem chosen_index_holds_url_witness:
  "choose_index \<lparr>nav_tree = [], first_keys = [js ''annotated.html'', js ''files.html''], index_script = \<lambda>_. None\<rparr>
     (js ''classes.html'') [] = (0, js ''classes.html'')"
proof -
  let ?site = "\<lparr>nav_tree = [], first_keys = [js ''annotated.html'', js ''files.html''], index_script = \<lambda>_. None\<rparr>"
  obtain i r where c: "choose_index ?site (js ''classes.html'') [] = (i, r)" by (metis surj_pair)
  have below: "js ''annotated.html'' \<le> js ''classes.html''" "js ''classes.html'' < js ''files.html''"
    "js ''annotated.html'' \<le> js ''files.html''"
    by (simp_all add: js_less_eq less_le)
  then have "sorted (first_keys ?site)" by simp
  from chosen_index_holds_url [OF this c] show ?thesis
    using below c by (auto simp: less_Suc_eq not_less [symmetric])
qed

section \<open>Going to a page\<close>

lemma select_keeps [simp]:
  "breadcrumbs (selectAndHighlight pg hash p st) = breadcrumbs st"
  "root_node (selectAndHighlight pg hash p st) = root_node st"
  by (simp_all add: selectAndHighlight_def Let_def)

lemma select_selects:
  "p \<in> set (selected (selectAndHighlight pg hash (Some p) st)) \<or>
   (\<exists>q \<in> set (selected (selectAndHighlight pg hash (Some p) st)).
      highlighted (location_of pg) hash (anchor_class (anchor (info (node_at (root_node st) q)))))"
  by (auto simp: selectAndHighlight_def Let_def filter_empty_conv)

text \<open>The state after going to a listed page: the way is open, and the item is highlighted.\<close>

lemma navTo_goes:
  assumes "h = (if is_line_hash hash then [] else hash)"
    and "\<not> has_cachedLink sync" "choose_index site root h = (i, root')" "load_index site i st = Some (es, st')"
    and "goto_breadcrumbs es root' h = Some b"
    and "tree_reachable pg (nav_tree site) (root_node st)"
    and "item_at (scripts pg) (Items (nav_tree site)) (0 # b) = Some it" "loads (scripts pg) (i_data it)"
  obtains n where "way_open n (0 # b)" "label (info (node_at n (0 # b))) = i_text it"
    "tree_reachable pg (nav_tree site) n"
    "navTo site pg sync root hash st =
       Some (selectAndHighlight pg h (Some (0 # b)) (st'\<lparr>breadcrumbs := Some (0 # b), root_node := n\<rparr>))"
proof -
  have root: "root_node st' = root_node st"
    using assms(4) by (auto simp: load_index_def split: option.splits)
  obtain n where n: "showNode pg (0 # b) (root_node st) = (n, Selected (0 # b))" "way_open n (0 # b)"
    "label (info (node_at n (0 # b))) = i_text it"
    using shows_position_any [OF tree_reachable_stands_for [OF assms(6)] assms(7,8)]
    by (auto simp: shows_position_def)
  have "navTo site pg sync root hash st =
      Some (selectAndHighlight pg h (Some (0 # b)) (st'\<lparr>breadcrumbs := Some (0 # b), root_node := n\<rparr>))"
    using assms(1-5) n(1) root
    by (simp add: navTo_eq nav_target_def goto_show_def show_from_root_def)
  moreover have "tree_reachable pg (nav_tree site) n"
    using tree_reachable.position [OF assms(6), of "0 # b"] n(1) by simp
  ultimately show thesis using n(2,3) that by blast
qed

lemma navTo_listed:
  assumes "\<not> has_cachedLink sync" "\<not> is_line_hash hash"
    and "choose_index site root hash = (i, root)" "load_index site i st = Some (es, st')"
    and "obj_get es (root @ hash) = Some b"
    and "tree_reachable pg (nav_tree site) (root_node st)"
    and "item_at (scripts pg) (Items (nav_tree site)) (0 # b) = Some it" "loads (scripts pg) (i_data it)"
  obtains n where "way_open n (0 # b)" "label (info (node_at n (0 # b))) = i_text it"
    "navTo site pg sync root hash st =
       Some (selectAndHighlight pg hash (Some (0 # b)) (st'\<lparr>breadcrumbs := Some (0 # b), root_node := n\<rparr>))"
proof -
  have "goto_breadcrumbs es root hash = Some b" using assms(5) by (simp add: goto_breadcrumbs_def jq_extend_def)
  moreover have "hash = (if is_line_hash hash then [] else hash)" using assms(2) by simp
  ultimately show thesis using navTo_goes [OF _ assms(1,3,4) _ assms(6-8)] that by blast
qed

text \<open>
  C9: Going, with no link stored by the synchronisation button, to a page and fragment that the
  index lists, at a position that the tree describes: the call returns, the entry at that position of the tree is reached, every
  level on the way is open, and the item there is selected, unless an anchor of the tree
  carries the page and the fragment, and then those items are.
\<close>

theorem navTo_reaches_listed_page:
  assumes "\<not> has_cachedLink sync" "\<not> is_line_hash hash"
    and "choose_index site root hash = (i, root)" "load_index site i st = Some (es, st')"
    and "obj_get es (root @ hash) = Some b"
    and "tree_reachable pg (nav_tree site) (root_node st)"
    and "item_at (scripts pg) (Items (nav_tree site)) (0 # b) = Some it" "loads (scripts pg) (i_data it)"
  shows "\<exists>st''. navTo site pg sync root hash st = Some st'' \<and> breadcrumbs st'' = Some (0 # b) \<and>
    way_open (root_node st'') (0 # b) \<and> label (info (node_at (root_node st'') (0 # b))) = i_text it \<and>
    (0 # b \<in> set (selected st'') \<or>
     (\<exists>p \<in> set (selected st''). highlighted (location_of pg) hash (anchor_class (anchor (info (node_at (root_node st'') p))))))"
proof -
  obtain n where "way_open n (0 # b)" "label (info (node_at n (0 # b))) = i_text it"
    "navTo site pg sync root hash st =
       Some (selectAndHighlight pg hash (Some (0 # b)) (st'\<lparr>breadcrumbs := Some (0 # b), root_node := n\<rparr>))"
    using navTo_listed [OF assms] by blast
  then show ?thesis
    using select_selects [of "0 # b" pg hash "st'\<lparr>breadcrumbs := Some (0 # b), root_node := n\<rparr>"] by simp
qed


definition demo_site :: nav_site where
  "demo_site = \<lparr>nav_tree = demo_nav, first_keys = [js ''annotated.html''],
     index_script = (\<lambda>i. if i = 0
       then Some [(js ''annotated.html'', [0]), (js ''df/dcd/c.html'', [0, 0])] else None)\<rparr>"

definition demo_state :: nav_state where
  "demo_state = \<lparr>navTreeSubIndices = (\<lambda>_. None), root_node = init_root demo_nav, breadcrumbs = None,
     selected = [], sync_top = 5, thrown_error = None\<rparr>"

definition no_sync :: nav_sync where
  "no_sync = \<lparr>localStorageSupported = True, navpath = None, sync_class = True, sync_image_on = True\<rparr>"

definition demo_entries_loaded :: nav_state where
  "demo_entries_loaded = demo_state\<lparr>navTreeSubIndices :=
     (\<lambda>_. None)(0 := Some [(js ''annotated.html'', [0]), (js ''df/dcd/c.html'', [0, 0])])\<rparr>"

lemma demo_facts:
  "\<not> has_cachedLink no_sync" "nav_tree demo_site = demo_nav"
  "load_index demo_site 0 demo_state
     = Some ([(js ''annotated.html'', [0]), (js ''df/dcd/c.html'', [0, 0])], demo_entries_loaded)"
  "root_node demo_state = init_root demo_nav"
  by (simp_all add: no_sync_def has_cachedLink_def cachedLink_def demo_site_def demo_state_def
    demo_entries_loaded_def load_index_def)

lemma demo_chosen:
  "choose_index demo_site (js ''annotated.html'') [] = (0, js ''annotated.html'')"
  "choose_index demo_site (js ''unknown.html'') [] = (0, js ''unknown.html'')"
proof -
  have "js ''annotated.html'' \<le> js ''unknown.html''" by (simp add: js_less_eq)
  then show "choose_index demo_site (js ''annotated.html'') [] = (0, js ''annotated.html'')"
    "choose_index demo_site (js ''unknown.html'') [] = (0, js ''unknown.html'')"
    by (simp_all add: choose_index_def demo_site_def)
qed

theorem navTo_reaches_listed_page_witness:
  "\<exists>st. navTo demo_site demo_nav_page no_sync (js ''annotated.html'') [] demo_state = Some st \<and>
     breadcrumbs st = Some [0, 0] \<and> label (info (node_at (root_node st) [0, 0])) = js ''Classes''"
proof -
  have "item_at (scripts demo_nav_page) (Items (nav_tree demo_site)) (0 # [0])
      = Some (Item (js ''Classes'') (Some (js ''annotated.html'')) (Lazy (js ''annotated-dup'')))"
    by (simp add: demo_facts demo_nav_def level_def)
  moreover have "loads (scripts demo_nav_page) (Lazy (js ''annotated-dup''))"
    by (simp add: loads_def getScript_def demo_nav_page_def getData_name_def js_def Let_def)
  ultimately have "\<exists>st''. navTo demo_site demo_nav_page no_sync (js ''annotated.html'') [] demo_state = Some st'' \<and>
    breadcrumbs st'' = Some (0 # [0]) \<and> way_open (root_node st'') (0 # [0]) \<and>
    label (info (node_at (root_node st'') (0 # [0]))) =
      i_text (Item (js ''Classes'') (Some (js ''annotated.html'')) (Lazy (js ''annotated-dup''))) \<and>
    (0 # [0] \<in> set (selected st'') \<or> (\<exists>p \<in> set (selected st''). highlighted (location_of demo_nav_page) []
       (anchor_class (anchor (info (node_at (root_node st'') p))))))"
    by (intro navTo_reaches_listed_page [OF demo_facts(1) _ demo_chosen(1) demo_facts(3)])
       (simp_all add: demo_facts is_line_hash_def obj_get_def tree_reachable.init)
  then show ?thesis by auto
qed

lemma obj_get_unlisted: "k \<notin> fst ` set es \<Longrightarrow> obj_get es k = None"
  by (simp add: obj_get_def map_of_eq_None_iff)

text \<open>
  A page that its index script does not list, with or without the fragment, does not
  lead to the start page of the fall-back: the copied array is empty, the position is
  that of the root, and the tree shows its first entry.
\<close>

theorem unlisted_page_shows_root_entry:
  assumes "\<not> has_cachedLink sync" "\<not> is_line_hash hash"
    and "choose_index site root hash = (i, root')" "load_index site i st = Some (es, st')"
    and "root' @ hash \<notin> fst ` set es" "root' \<notin> fst ` set es"
    and "tree_reachable pg (nav_tree site) (root_node st)"
    and "nav_tree site = it # rest" "loads (scripts pg) (i_data it)"
  shows "\<exists>st''. navTo site pg sync root hash st = Some st'' \<and> breadcrumbs st'' = Some [0] \<and>
    label (info (node_at (root_node st'') [0])) = i_text it"
proof -
  have root: "root_node st' = root_node st"
    using assms(4) by (auto simp: load_index_def split: option.splits)
  have at: "item_at (scripts pg) (Items (nav_tree site)) [0] = Some it"
    using assms(8) by (simp add: level_def)
  obtain n where n: "showNode pg [0] (root_node st) = (n, Selected [0])"
    "label (info (node_at n [0])) = i_text it"
    using shows_position_any [OF tree_reachable_stands_for [OF assms(7)] at assms(9)]
    by (auto simp: shows_position_def)
  have "navTo site pg sync root hash st = Some (selectAndHighlight pg hash (Some [0])
      (st'\<lparr>breadcrumbs := Some [0], root_node := n\<rparr>))"
    using assms(1-6) n(1) root
    by (simp add: navTo_eq nav_target_def goto_breadcrumbs_def obj_get_unlisted jq_extend_def goto_show_def
      show_from_root_def)
  then show ?thesis using n by (simp add: selectAndHighlight_def Let_def)
qed

theorem unlisted_page_shows_root_entry_witness:
  "\<exists>st. navTo demo_site demo_nav_page no_sync (js ''unknown.html'') [] demo_state = Some st \<and>
     breadcrumbs st = Some [0]"
proof -
  have nav: "nav_tree demo_site = Item (js ''Project'') (Some (js ''index.html''))
     (Items [Item (js ''Classes'') (Some (js ''annotated.html'')) (Lazy (js ''annotated-dup''))]) # []"
    by (simp add: demo_facts demo_nav_def)
  have "\<exists>st''. navTo demo_site demo_nav_page no_sync (js ''unknown.html'') [] demo_state = Some st'' \<and>
    breadcrumbs st'' = Some [0] \<and> label (info (node_at (root_node st'') [0])) =
      i_text (Item (js ''Project'') (Some (js ''index.html''))
        (Items [Item (js ''Classes'') (Some (js ''annotated.html'')) (Lazy (js ''annotated-dup''))]))"
    by (rule unlisted_page_shows_root_entry [OF demo_facts(1) _ demo_chosen(2) demo_facts(3) _ _ _ nav])
       (simp_all add: demo_facts is_line_hash_def tree_reachable.init loads_def)
  then show ?thesis by auto
qed

section \<open>Fragments and stored links\<close>

definition clean_hash :: "jstr \<Rightarrow> bool" where
  "clean_hash h \<longleftrightarrow> h = [] \<or> (\<exists>t. h = number_sign # t \<and> list_all (\<lambda>c. is_word c \<or> c = 45) t)"

text \<open>
  Whatever the location and the stored link hold, the fragment that the navigation
  uses is empty or a number sign followed by word characters and hyphens only, so that
  it cannot leave the selector it is put into.
\<close>

theorem navigation_fragment_is_clean:
  "clean_hash (snd (nav_target sync root (hashUrl loc)))"
  by (auto simp: clean_hash_def nav_target_def hashUrl_def hashValue_def Let_def list_all_iff)

lemma path_keeps_none: "number_sign \<notin> set p \<Longrightarrow> number_sign \<notin> set (filter path_keeps p)"
  by auto

lemma stripPath2_subset: "set (stripPath2 uri) \<subseteq> set uri"
  using set_drop_subset [of _ uri]
  by (auto simp: stripPath2_def js_substring_from_def split: option.splits dest: in_set_dropD)

lemma toggle_stores_page:
  assumes "localStorageSupported sync" "sync_class sync" "number_sign \<notin> set (loc_pathname loc)"
  shows "nav_target (toggleSyncButton loc sync) root hash = (stripPath2 (pathName loc), hashUrl loc)"
proof -
  let ?p = "stripPath2 (pathName loc)" and ?h = "hashValue loc"
  have p: "number_sign \<notin> set ?p"
    using stripPath2_subset [of "pathName loc"] path_keeps_none [OF assms(3)] by (auto simp: pathName_def)
  have h: "number_sign \<notin> set ?h"
    by (auto simp: hashValue_def is_word_def)
  have idem: "filter (\<lambda>c. is_word c \<or> c = 45) ?h = ?h" by (simp add: hashValue_def)
  have "js_split number_sign (?p @ number_sign # ?h) = [?p, ?h]"
    using p h by (simp add: js_split_first js_split_none)
  then show ?thesis
    using assms(1,2) idem
    by (simp add: nav_target_def toggleSyncButton_def storeLink_def has_cachedLink_def
      cachedLink_def hashUrl_def)
qed

text \<open>
  Switching synchronisation off remembers the page: every later navigation, until it
  is switched on again, goes to that page and fragment, whatever page it is started for.
\<close>

theorem switched_off_panel_stays:
  assumes "localStorageSupported sync" "sync_class sync" "number_sign \<notin> set (loc_pathname loc)"
  shows "nav_target (toggleSyncButton loc sync) root hash = (stripPath2 (pathName loc), hashUrl loc) \<and>
    nav_target (toggleSyncButton loc' (toggleSyncButton loc sync)) root hash = (root, hash)"
proof
  show "nav_target (toggleSyncButton loc sync) root hash = (stripPath2 (pathName loc), hashUrl loc)"
    using assms by (rule toggle_stores_page)
  show "nav_target (toggleSyncButton loc' (toggleSyncButton loc sync)) root hash = (root, hash)"
    using assms(1,2)
    by (simp add: nav_target_def toggleSyncButton_def storeLink_def deleteLink_def has_cachedLink_def cachedLink_def)
qed

theorem switched_off_panel_stays_witness:
  "nav_target (toggleSyncButton \<lparr>loc_pathname = js ''/db/df3/lsl__c_8h.html'', loc_hash = js ''#a1''\<rparr>
     \<lparr>localStorageSupported = True, navpath = None, sync_class = True, sync_image_on = True\<rparr>)
     (js ''index.html'') (js ''#'') = (js ''db/df3/lsl__c_8h.html'', js ''#a1'')"
proof -
  let ?loc = "\<lparr>loc_pathname = js ''/db/df3/lsl__c_8h.html'', loc_hash = js ''#a1''\<rparr>"
  have "stripPath2 (pathName ?loc) = js ''db/df3/lsl__c_8h.html''"
    by (simp add: pathName_def path_keeps_def stripPath2_def js_def ends_two_levels_def two_levels_def
      is_word_def js_substring_from_def)
  moreover have "hashUrl ?loc = js ''#a1''"
    by (simp add: hashUrl_def hashValue_def js_substring_from_def js_def is_word_def)
  ultimately show ?thesis
    using switched_off_panel_stays [of "\<lparr>localStorageSupported = True, navpath = None, sync_class = True, sync_image_on = True\<rparr>" ?loc]
    by (simp add: js_def)
qed

text \<open>
  The window's \<open>load\<close> event and the page's \<open>initNavTree\<close> start exactly one
  navigation in either order, for the page and fragment \<open>initNavTree\<close> was given, and
  none before both have happened.
\<close>

theorem one_navigation_after_load:
  "navigations (on_nav_event WindowLoad (on_nav_event (DocumentReady root hash) no_events)) = [(root, hash)] \<and>
   navigations (on_nav_event (DocumentReady root hash) (on_nav_event WindowLoad no_events)) = [(root, hash)] \<and>
   navigations (on_nav_event WindowLoad no_events) = [] \<and>
   navigations (on_nav_event (DocumentReady root hash) no_events) = []"
  by (simp add: no_events_def window_load_def document_ready_def)

end
