(* ===== verification/NavShipped.thy ===== *)
theory NavShipped
  imports NavIndex NavData
begin

text \<open>
  The shipped index scripts against the code that reads them: every entry is in the
  script that the code chooses for it, and the positions that lie in the shipped part of
  the tree are those of the entries' pages.
\<close>

fun str_less :: "string \<Rightarrow> string \<Rightarrow> bool" where
  "str_less [] [] = False"
| "str_less [] (_ # _) = True"
| "str_less (_ # _) [] = False"
| "str_less (a # as) (b # bs) = (if a = b then str_less as bs else (of_char a :: nat) < of_char b)"

text \<open>Keys in order, equal neighbours allowed.\<close>

fun in_order :: "string list \<Rightarrow> bool" where
  "in_order (a # b # r) = ((a = b \<or> str_less a b) \<and> in_order (b # r))"
| "in_order _ = True"

lemma str_less_js: "str_less a b \<Longrightarrow> js a < js b"
  by (induction a b rule: str_less.induct) (auto simp: js_less_eq less_le split: if_splits)

text \<open>A half of a script lies between the first keys of its script and of the next one.\<close>

definition within :: "string \<Rightarrow> string option \<Rightarrow> string list \<Rightarrow> bool" where
  "within lo hi ks \<longleftrightarrow> in_order (lo # ks) \<and> (case hi of None \<Rightarrow> True | Some h \<Rightarrow> str_less (last (lo # ks)) h)"

lemma within_0a: "within (NAVTREEINDEX ! 0) (Some (NAVTREEINDEX ! 1)) (map fst NAVTREEINDEX0a)"
  by code_simp

lemma within_0b: "within (NAVTREEINDEX ! 0) (Some (NAVTREEINDEX ! 1)) (map fst NAVTREEINDEX0b)"
  by code_simp

lemma within_1a: "within (NAVTREEINDEX ! 1) (Some (NAVTREEINDEX ! 2)) (map fst NAVTREEINDEX1a)"
  by code_simp

lemma within_1b: "within (NAVTREEINDEX ! 1) (Some (NAVTREEINDEX ! 2)) (map fst NAVTREEINDEX1b)"
  by code_simp

lemma within_2a: "within (NAVTREEINDEX ! 2) None (map fst NAVTREEINDEX2a)"
  by code_simp

lemma within_2b: "within (NAVTREEINDEX ! 2) None (map fst NAVTREEINDEX2b)"
  by code_simp

lemma in_order_bounds:
  "in_order ks \<Longrightarrow> k \<in> set ks \<Longrightarrow> js (hd ks) \<le> js k \<and> js k \<le> js (last ks)"
proof (induction ks arbitrary: k rule: in_order.induct)
  case (1 a b r)
  have ab: "js a \<le> js b" using "1.prems"(1) str_less_js [of a b] by (auto intro: less_imp_le)
  have rest: "js (hd (b # r)) \<le> js x \<and> js x \<le> js (last (b # r))" if "x \<in> set (b # r)" for x
    using "1.IH" "1.prems"(1) that by simp
  show ?case
  proof (cases "k = a")
    case True
    then show ?thesis using ab rest [of b] by auto
  next
    case False
    then have "k \<in> set (b # r)" using "1.prems"(2) by simp
    from rest [OF this] show ?thesis using ab by auto
  qed
qed auto

lemma within_bounds:
  assumes "within lo hi ks" "k \<in> set ks"
  shows "js lo \<le> js k" "hi = Some h \<Longrightarrow> js k < js h"
proof -
  have "in_order (lo # ks)" using assms(1) by (simp add: within_def)
  from in_order_bounds [OF this, of k] assms(2)
  have b: "js lo \<le> js k" "js k \<le> js (last (lo # ks))" by auto
  then show "js lo \<le> js k" by simp
  show "js k < js h" if "hi = Some h"
    using assms(1) that str_less_js b(2) by (auto simp: within_def dest: le_less_trans)
qed


definition shipped_site :: nav_site where
  "shipped_site = \<lparr>nav_tree = NAVTREE, first_keys = map js NAVTREEINDEX,
     index_script = (\<lambda>i. if i < length NAVTREEINDEX_scripts
       then Some (map (\<lambda>(k, b). (js k, b)) (NAVTREEINDEX_scripts ! i)) else None)\<rparr>"

lemma first_keys_order: "str_less (NAVTREEINDEX ! 0) (NAVTREEINDEX ! 1)" "str_less (NAVTREEINDEX ! 1) (NAVTREEINDEX ! 2)"
  by code_simp+

lemma first_keys_shipped:
  "first_keys shipped_site = [js (NAVTREEINDEX ! 0), js (NAVTREEINDEX ! 1), js (NAVTREEINDEX ! 2)]"
  by (simp add: shipped_site_def NAVTREEINDEX_def)

lemma first_keys_less:
  "js (NAVTREEINDEX ! 0) < js (NAVTREEINDEX ! 1)" "js (NAVTREEINDEX ! 1) < js (NAVTREEINDEX ! 2)"
  by (rule str_less_js, rule first_keys_order)+

lemma chosen_0:
  "js (NAVTREEINDEX ! 0) \<le> u \<Longrightarrow> u < js (NAVTREEINDEX ! 1) \<Longrightarrow> choose_index shipped_site u [] = (0, u)"
  by (simp add: choose_index_eq first_keys_shipped)

lemma chosen_1:
  "js (NAVTREEINDEX ! 1) \<le> u \<Longrightarrow> u < js (NAVTREEINDEX ! 2) \<Longrightarrow> choose_index shipped_site u [] = (1, u)"
  using order.trans [OF less_imp_le [OF first_keys_less(1)], of u]
  by (simp add: choose_index_eq first_keys_shipped)

lemma chosen_2: "js (NAVTREEINDEX ! 2) \<le> u \<Longrightarrow> choose_index shipped_site u [] = (2, u)"
  using order.trans [OF less_imp_le [OF first_keys_less(2)], of u]
    order.trans [OF less_imp_le [OF first_keys_less(1)], of u]
  by (simp add: choose_index_eq first_keys_shipped)

definition chosen_for :: "nat \<Rightarrow> (string \<times> nat list) list \<Rightarrow> bool" where
  "chosen_for i es = list_all (\<lambda>(k, b). choose_index shipped_site (js k) [] = (i, js k)) es"

lemma chosen_for_append: "chosen_for i (xs @ ys) \<longleftrightarrow> chosen_for i xs \<and> chosen_for i ys"
  by (simp add: chosen_for_def)

lemma chosen_forI:
  "(\<And>k. k \<in> set (map fst es) \<Longrightarrow> choose_index shipped_site (js k) [] = (i, js k)) \<Longrightarrow> chosen_for i es"
  by (force simp: chosen_for_def list_all_iff)

lemma chosen_scripts:
  "chosen_for 0 NAVTREEINDEX0a" "chosen_for 0 NAVTREEINDEX0b" "chosen_for 1 NAVTREEINDEX1a"
  "chosen_for 1 NAVTREEINDEX1b" "chosen_for 2 NAVTREEINDEX2a" "chosen_for 2 NAVTREEINDEX2b"
proof -
  note b = within_bounds [OF within_0a] within_bounds [OF within_0b] within_bounds [OF within_1a]
    within_bounds [OF within_1b] within_bounds [OF within_2a] within_bounds [OF within_2b]
  show "chosen_for 0 NAVTREEINDEX0a" "chosen_for 0 NAVTREEINDEX0b"
    by (rule chosen_forI, rule chosen_0, rule b, assumption, rule b, assumption, rule refl)+
  show "chosen_for 1 NAVTREEINDEX1a" "chosen_for 1 NAVTREEINDEX1b"
    by (rule chosen_forI, rule chosen_1, rule b, assumption, rule b, assumption, rule refl)+
  show "chosen_for 2 NAVTREEINDEX2a" "chosen_for 2 NAVTREEINDEX2b"
    by (rule chosen_forI, rule chosen_2, rule b, assumption)+
qed

text \<open>
  Every one of the 652 entries of the three shipped index scripts is found: for the
  URL of the entry the code chooses the script that holds it.
\<close>

theorem shipped_entries_are_in_chosen_script:
  "length (concat NAVTREEINDEX_scripts) = 652 \<and>
   list_all (\<lambda>i. list_all (\<lambda>(k, b). choose_index shipped_site (js k) [] = (i, js k)) (NAVTREEINDEX_scripts ! i))
     [0..<length NAVTREEINDEX_scripts]"
proof
  show "length (concat NAVTREEINDEX_scripts) = 652"
    by (simp add: NAVTREEINDEX_scripts_def NAVTREEINDEX0a_def NAVTREEINDEX0b_def NAVTREEINDEX1a_def
      NAVTREEINDEX1b_def NAVTREEINDEX2a_def NAVTREEINDEX2b_def)
  have three: "[0..<length NAVTREEINDEX_scripts] = [0, 1, 2]"
    by (simp add: NAVTREEINDEX_scripts_def upt_rec)
  have "chosen_for 0 (NAVTREEINDEX_scripts ! 0)" "chosen_for 1 (NAVTREEINDEX_scripts ! 1)"
    "chosen_for 2 (NAVTREEINDEX_scripts ! 2)"
    using chosen_scripts by (simp_all add: NAVTREEINDEX_scripts_def chosen_for_append)
  then show "list_all (\<lambda>i. list_all (\<lambda>(k, b). choose_index shipped_site (js k) [] = (i, js k)) (NAVTREEINDEX_scripts ! i))
     [0..<length NAVTREEINDEX_scripts]"
    unfolding three by (simp add: chosen_for_def)
qed

end
