(* ===== verification/NavScripts.thy ===== *)
theory NavScripts
  imports NavData
begin

text \<open>
  The scripts that the site ships for the levels of its navigation tree which
  \<open>navtreedata.js\<close> leaves out (\<open>annotated_dup.js\<close>, \<open>files_dup.js\<close>, one script per directory, file
  and class): the array that each of them defines. A long array is split in pieces here.
\<close>

definition namespaces_dup :: "nav_item list" where
  "namespaces_dup = [
    Item (js ''Communication'') (Some (js ''db/d7d/namespace_communication.html'')) (Lazy (js ''db/d7d/namespace_communication'')),
    Item (js ''ESC'') (Some (js ''d2/d52/namespace_e_s_c.html'')) (Lazy (js ''d2/d52/namespace_e_s_c'')),
    Item (js ''lsl'') (Some (js ''d3/db0/namespacelsl.html'')) (Lazy (js ''d3/db0/namespacelsl''))]"

definition namespace_communication :: "nav_item list" where
  "namespace_communication = [
    Item (js ''Client'') (Some (js ''df/dcd/class_communication_1_1_client.html'')) (Lazy (js ''df/dcd/class_communication_1_1_client'')),
    Item (js ''Server'') (Some (js ''dc/db1/class_communication_1_1_server.html'')) (Lazy (js ''dc/db1/class_communication_1_1_server'')),
    Item (js ''HTTP_client'') (Some (js ''d7/d60/class_communication_1_1_h_t_t_p__client.html'')) (Lazy (js ''d7/d60/class_communication_1_1_h_t_t_p__client''))]"

definition class_communication_1_1_client :: "nav_item list" where
  "class_communication_1_1_client = [
    Item (js ''Mode'') (Some (js ''df/dcd/class_communication_1_1_client.html#ad5719d96b9a023b9d6e6bfb3c917f6dd'')) (Items [
     Item (js ''SERIAL'') (Some (js ''df/dcd/class_communication_1_1_client.html#ad5719d96b9a023b9d6e6bfb3c917f6ddae1bf4306016574e334b5aec78b2efaf2'')) NoData,
     Item (js ''TCP'') (Some (js ''df/dcd/class_communication_1_1_client.html#ad5719d96b9a023b9d6e6bfb3c917f6dda9729ef4069d34c1034ca97789e50b03f'')) NoData,
     Item (js ''UDP'') (Some (js ''df/dcd/class_communication_1_1_client.html#ad5719d96b9a023b9d6e6bfb3c917f6dda1b32b1dce6fdf665a44847863b977720'')) NoData]),
    Item (js ''Client'') (Some (js ''df/dcd/class_communication_1_1_client.html#aea957bd14f311e1f6621e7611022b5c4'')) NoData,
    Item (js ''~Client'') (Some (js ''df/dcd/class_communication_1_1_client.html#a77c290beabfe76ea97a9027d66a04f7c'')) NoData,
    Item (js ''close_connection'') (Some (js ''df/dcd/class_communication_1_1_client.html#aa448a9277e9bed8326f74ad81062ab77'')) NoData,
    Item (js ''CRC'') (Some (js ''df/dcd/class_communication_1_1_client.html#a7020654cbb2e6f707fe637fc84d8328c'')) NoData,
    Item (js ''from_socket'') (Some (js ''df/dcd/class_communication_1_1_client.html#a487e227b474999f2ff9f096f1a5784ad'')) NoData,
    Item (js ''get_stat'') (Some (js ''df/dcd/class_communication_1_1_client.html#a2508e02531cf7e8dd258677b7b1490e9'')) NoData,
    Item (js ''is_connected'') (Some (js ''df/dcd/class_communication_1_1_client.html#a5afbc51613d3caf88641d04e81837467'')) NoData,
    Item (js ''open_connection'') (Some (js ''df/dcd/class_communication_1_1_client.html#a66336ae23ea502a9395010407a952664'')) NoData,
    Item (js ''readS'') (Some (js ''df/dcd/class_communication_1_1_client.html#a73fec58648938364cd65d690f50bd7ec'')) NoData,
    Item (js ''writeS'') (Some (js ''df/dcd/class_communication_1_1_client.html#a32bd631bcb3b0a3476b146a0cc49332d'')) NoData]"

definition class_communication_1_1_server :: "nav_item list" where
  "class_communication_1_1_server = [
    Item (js ''Server'') (Some (js ''dc/db1/class_communication_1_1_server.html#a3571bd6913a55394cde0ced0f404685d'')) NoData,
    Item (js ''~Server'') (Some (js ''dc/db1/class_communication_1_1_server.html#aef74c77dc02436ee1dc6d16310837b12'')) NoData,
    Item (js ''m_client'') (Some (js ''dc/db1/class_communication_1_1_server.html#a3f85e046ae47cdb26aa7d1497dcd64c3'')) NoData,
    Item (js ''m_fd'') (Some (js ''dc/db1/class_communication_1_1_server.html#a3acba24524ce792ff0e8adc5f519c79d'')) NoData]"

definition class_communication_1_1_h_t_t_p__client :: "nav_item list" where
  "class_communication_1_1_h_t_t_p__client = [
    Item (js ''HTTP_client'') (Some (js ''d7/d60/class_communication_1_1_h_t_t_p__client.html#af8b79c3813af9e4e2b9d2cb45b52b8c3'')) NoData,
    Item (js ''~HTTP_client'') (Some (js ''d7/d60/class_communication_1_1_h_t_t_p__client.html#a9cbcd819dda4fc2fd0c4295bce974dff'')) NoData,
    Item (js ''get'') (Some (js ''d7/d60/class_communication_1_1_h_t_t_p__client.html#a6c2e964c4510d91b79ff9303b672582e'')) NoData,
    Item (js ''open_connection'') (Some (js ''d7/d60/class_communication_1_1_h_t_t_p__client.html#a67973a5bc8e92122bc5f98c95990bca7'')) NoData,
    Item (js ''post'') (Some (js ''d7/d60/class_communication_1_1_h_t_t_p__client.html#a241e78ccad7bcbc7597cb2dde7d7e402'')) NoData]"

definition namespace_e_s_c :: "nav_item list" where
  "namespace_e_s_c = [
    Item (js ''CLI'') (Some (js ''dc/d44/class_e_s_c_1_1_c_l_i.html'')) (Lazy (js ''dc/d44/class_e_s_c_1_1_c_l_i'')),
    Item (js ''FORMAT'') (Some (js ''d2/d52/namespace_e_s_c.html#a93c187b0ecaecc64127a1e7d211562a1'')) (Items [
     Item (js ''BOLD'') (Some (js ''d2/d52/namespace_e_s_c.html#a93c187b0ecaecc64127a1e7d211562a1a0949b3693d2401dfa4651b442a9c9551'')) NoData,
     Item (js ''DIM'') (Some (js ''d2/d52/namespace_e_s_c.html#a93c187b0ecaecc64127a1e7d211562a1a11a52229f2c02ac21863203a9649771d'')) NoData,
     Item (js ''ITALIC'') (Some (js ''d2/d52/namespace_e_s_c.html#a93c187b0ecaecc64127a1e7d211562a1ad7e062b99a6ddd60a225ecc7d10756b1'')) NoData,
     Item (js ''UNDERLINE'') (Some (js ''d2/d52/namespace_e_s_c.html#a93c187b0ecaecc64127a1e7d211562a1a1ea0683248f9953ca0713e5797ce17d1'')) NoData,
     Item (js ''BLINK_SLOW'') (Some (js ''d2/d52/namespace_e_s_c.html#a93c187b0ecaecc64127a1e7d211562a1a5bfaa69787e265bc37dca5b2b61c64a9'')) NoData,
     Item (js ''BLINK_FAST'') (Some (js ''d2/d52/namespace_e_s_c.html#a93c187b0ecaecc64127a1e7d211562a1a0af3dbb99fb41d75e60df73e7bab1fdd'')) NoData,
     Item (js ''REVERSE'') (Some (js ''d2/d52/namespace_e_s_c.html#a93c187b0ecaecc64127a1e7d211562a1a991c4d7703b3a4062d71ac80b047d0f6'')) NoData,
     Item (js ''HIDDEN'') (Some (js ''d2/d52/namespace_e_s_c.html#a93c187b0ecaecc64127a1e7d211562a1aa554b8e89b9c53e86096c1ee2dca2aae'')) NoData,
     Item (js ''STRIKE'') (Some (js ''d2/d52/namespace_e_s_c.html#a93c187b0ecaecc64127a1e7d211562a1a712e5fd9a5e6d3b6a565a22b7b6590b2'')) NoData,
     Item (js ''FG_BLACK'') (Some (js ''d2/d52/namespace_e_s_c.html#a93c187b0ecaecc64127a1e7d211562a1a5793314530aabf181b6d61339928a486'')) NoData,
     Item (js ''BG_BLACK'') (Some (js ''d2/d52/namespace_e_s_c.html#a93c187b0ecaecc64127a1e7d211562a1a2d6d9e4c4d26f775a2d2e0f5d4c2fee5'')) NoData,
     Item (js ''FG_RED'') (Some (js ''d2/d52/namespace_e_s_c.html#a93c187b0ecaecc64127a1e7d211562a1a51f33f01a9c1d72db09e6a9ac6ddb759'')) NoData,
     Item (js ''BG_RED'') (Some (js ''d2/d52/namespace_e_s_c.html#a93c187b0ecaecc64127a1e7d211562a1a9ca7916a80da428a5e295b0356e5ba91'')) NoData,
     Item (js ''FG_GREEN'') (Some (js ''d2/d52/namespace_e_s_c.html#a93c187b0ecaecc64127a1e7d211562a1a852050b53ec94746365cf503b9daf77c'')) NoData,
     Item (js ''BG_GREEN'') (Some (js ''d2/d52/namespace_e_s_c.html#a93c187b0ecaecc64127a1e7d211562a1adb93cd7891a72f8d7878e8ea39700b51'')) NoData,
     Item (js ''FG_YELLOW'') (Some (js ''d2/d52/namespace_e_s_c.html#a93c187b0ecaecc64127a1e7d211562a1a4407cb515758165608277ff094d8aa4e'')) NoData,
     Item (js ''BG_YELLOW'') (Some (js ''d2/d52/namespace_e_s_c.html#a93c187b0ecaecc64127a1e7d211562a1a3b8d384d180428029a6712830c9b01b7'')) NoData,
     Item (js ''FG_BLUE'') (Some (js ''d2/d52/namespace_e_s_c.html#a93c187b0ecaecc64127a1e7d211562a1a2c10a5323218ceb224ef379037cd7e0a'')) NoData,
     Item (js ''BG_BLUE'') (Some (js ''d2/d52/namespace_e_s_c.html#a93c187b0ecaecc64127a1e7d211562a1a560f8ec0e3a165bffd234986d419d93e'')) NoData,
     Item (js ''FG_MAGENTA'') (Some (js ''d2/d52/namespace_e_s_c.html#a93c187b0ecaecc64127a1e7d211562a1a080f5acc7b26dd8c82d66a410dcb003a'')) NoData,
     Item (js ''BG_MAGENTA'') (Some (js ''d2/d52/namespace_e_s_c.html#a93c187b0ecaecc64127a1e7d211562a1ac524cfac8f3b50f5d6ac8a2ce7ac0939'')) NoData,
     Item (js ''FG_CYAN'') (Some (js ''d2/d52/namespace_e_s_c.html#a93c187b0ecaecc64127a1e7d211562a1a1c482c45cb9fa67cb290cb6e17ca291d'')) NoData,
     Item (js ''BG_CYAN'') (Some (js ''d2/d52/namespace_e_s_c.html#a93c187b0ecaecc64127a1e7d211562a1a5c996890ffc321f6f95d51357fa2e00a'')) NoData,
     Item (js ''FG_WHITE'') (Some (js ''d2/d52/namespace_e_s_c.html#a93c187b0ecaecc64127a1e7d211562a1ae751c14d8a6185aa862011b31cef11ee'')) NoData,
     Item (js ''BG_WHITE'') (Some (js ''d2/d52/namespace_e_s_c.html#a93c187b0ecaecc64127a1e7d211562a1ae86ea0aceff2ecc297273593ef04d88a'')) NoData,
     Item (js ''FG_DEFAULT'') (Some (js ''d2/d52/namespace_e_s_c.html#a93c187b0ecaecc64127a1e7d211562a1afa9e18e6b89e7b527ac48cdeabb64955'')) NoData,
     Item (js ''BG_DEFAULT'') (Some (js ''d2/d52/namespace_e_s_c.html#a93c187b0ecaecc64127a1e7d211562a1a1b9e16c203595a107bc8ba10051e08d1'')) NoData]),
    Item (js ''fstr'') (Some (js ''d2/d52/namespace_e_s_c.html#a080ff5f5b8a2ed3567a541acfa69a425'')) NoData,
    Item (js ''fstr_link'') (Some (js ''d2/d52/namespace_e_s_c.html#a07d7fd8adc58054bde19b14556a8d945'')) NoData,
    Item (js ''fstr_n'') (Some (js ''d2/d52/namespace_e_s_c.html#a6f0f9c5cc6b334d09b6da6834c02af16'')) NoData,
    Item (js ''get_pos'') (Some (js ''d2/d52/namespace_e_s_c.html#a1ab0660788056c78944278261498664a'')) NoData,
    Item (js ''move_down'') (Some (js ''d2/d52/namespace_e_s_c.html#a0339f1bf272536a7645b373a503b4928'')) NoData,
    Item (js ''move_left'') (Some (js ''d2/d52/namespace_e_s_c.html#a231a32f47e8c90921259a47ce621b1cc'')) NoData,
    Item (js ''move_right'') (Some (js ''d2/d52/namespace_e_s_c.html#ac00ec90c2ccac2f1bcb6219b6f081ad5'')) NoData,
    Item (js ''move_to'') (Some (js ''d2/d52/namespace_e_s_c.html#aabdbbf48acbc97aadc974b67b8f65d49'')) NoData,
    Item (js ''move_type'') (Some (js ''d2/d52/namespace_e_s_c.html#a2dc320253a173af845d4317a62c45a6f'')) NoData,
    Item (js ''move_up'') (Some (js ''d2/d52/namespace_e_s_c.html#ab8b0eda8f8c0d37419c0435cad5230e0'')) NoData]"

definition class_e_s_c_1_1_c_l_i :: "nav_item list" where
  "class_e_s_c_1_1_c_l_i = [
    Item (js ''CLI'') (Some (js ''dc/d44/class_e_s_c_1_1_c_l_i.html#a47b6c71a4c59354a3f9c0cd9bd011807'')) NoData,
    Item (js ''cli_id'') (Some (js ''dc/d44/class_e_s_c_1_1_c_l_i.html#a24d0af4957baaeafab2a5f689e20b57d'')) NoData,
    Item (js ''log'') (Some (js ''dc/d44/class_e_s_c_1_1_c_l_i.html#a1ac0d519304d97b3be094979fcfe6e44'')) NoData,
    Item (js ''log_error'') (Some (js ''dc/d44/class_e_s_c_1_1_c_l_i.html#aee4e23e87ebd3cf3909f1760a5fda04b'')) NoData,
    Item (js ''logln'') (Some (js ''dc/d44/class_e_s_c_1_1_c_l_i.html#abe1e5a3cc2cbd55c0704e9b13842e436'')) NoData]"

definition namespacelsl :: "nav_item list" where
  "namespacelsl = [
    Item (js ''stream_info'') (Some (js ''d1/d6a/classlsl_1_1stream__info.html'')) (Lazy (js ''d1/d6a/classlsl_1_1stream__info'')),
    Item (js ''stream_outlet'') (Some (js ''d6/d55/classlsl_1_1stream__outlet.html'')) (Lazy (js ''d6/d55/classlsl_1_1stream__outlet'')),
    Item (js ''stream_inlet'') (Some (js ''d6/dbd/classlsl_1_1stream__inlet.html'')) (Lazy (js ''d6/dbd/classlsl_1_1stream__inlet'')),
    Item (js ''xml_element'') (Some (js ''d9/d90/classlsl_1_1xml__element.html'')) (Lazy (js ''d9/d90/classlsl_1_1xml__element'')),
    Item (js ''continuous_resolver'') (Some (js ''d4/d27/classlsl_1_1continuous__resolver.html'')) (Lazy (js ''d4/d27/classlsl_1_1continuous__resolver'')),
    Item (js ''lost_error'') (Some (js ''de/d94/classlsl_1_1lost__error.html'')) (Lazy (js ''de/d94/classlsl_1_1lost__error'')),
    Item (js ''timeout_error'') (Some (js ''d4/d01/classlsl_1_1timeout__error.html'')) (Lazy (js ''d4/d01/classlsl_1_1timeout__error'')),
    Item (js ''channel_format_t'') (Some (js ''d3/db0/namespacelsl.html#a28d50dae6fd82eea8893ce3d63ccd46c'')) (Items [
     Item (js ''cf_float32'') (Some (js ''d3/db0/namespacelsl.html#a28d50dae6fd82eea8893ce3d63ccd46ca46efa3307b337f7de592753642584616'')) NoData,
     Item (js ''cf_double64'') (Some (js ''d3/db0/namespacelsl.html#a28d50dae6fd82eea8893ce3d63ccd46cab11213c3d307faf6ef734633ac732eb7'')) NoData,
     Item (js ''cf_string'') (Some (js ''d3/db0/namespacelsl.html#a28d50dae6fd82eea8893ce3d63ccd46caedadbd6437a22628678edaf287c87048'')) NoData,
     Item (js ''cf_int32'') (Some (js ''d3/db0/namespacelsl.html#a28d50dae6fd82eea8893ce3d63ccd46ca526ce3ccb97e3bb75d913c60ad56c26d'')) NoData,
     Item (js ''cf_int16'') (Some (js ''d3/db0/namespacelsl.html#a28d50dae6fd82eea8893ce3d63ccd46ca5c625662462c8a30454f6f7f0520e79c'')) NoData,
     Item (js ''cf_int8'') (Some (js ''d3/db0/namespacelsl.html#a28d50dae6fd82eea8893ce3d63ccd46ca829ae156932f587fbbc70aed1d46e388'')) NoData,
     Item (js ''cf_int64'') (Some (js ''d3/db0/namespacelsl.html#a28d50dae6fd82eea8893ce3d63ccd46ca6795e1df0db0b05744fd1fe9623567a0'')) NoData,
     Item (js ''cf_undefined'') (Some (js ''d3/db0/namespacelsl.html#a28d50dae6fd82eea8893ce3d63ccd46cadc8092d1092568f7d36d89fa7e813d76'')) NoData]),
    Item (js ''processing_options_t'') (Some (js ''d3/db0/namespacelsl.html#aaa1cffa7d29bb2756522bc2bb069e310'')) (Items [
     Item (js ''post_none'') (Some (js ''d3/db0/namespacelsl.html#aaa1cffa7d29bb2756522bc2bb069e310ac01170c28c82b28d721da1971e16424b'')) NoData,
     Item (js ''post_clocksync'') (Some (js ''d3/db0/namespacelsl.html#aaa1cffa7d29bb2756522bc2bb069e310accf7cbfa478e679b53255d46fd62f888'')) NoData,
     Item (js ''post_dejitter'') (Some (js ''d3/db0/namespacelsl.html#aaa1cffa7d29bb2756522bc2bb069e310a83b67e37c1bbcfb4ee7479098386499f'')) NoData,
     Item (js ''post_monotonize'') (Some (js ''d3/db0/namespacelsl.html#aaa1cffa7d29bb2756522bc2bb069e310af7cdac323760b9cb6587733a24f5aecb'')) NoData,
     Item (js ''post_threadsafe'') (Some (js ''d3/db0/namespacelsl.html#aaa1cffa7d29bb2756522bc2bb069e310a8ebef2c4c98e1a9246e9927e6b0b87c9'')) NoData,
     Item (js ''post_ALL'') (Some (js ''d3/db0/namespacelsl.html#aaa1cffa7d29bb2756522bc2bb069e310a198f16659e71b850e4674ed31d10e914'')) NoData]),
    Item (js ''check_error'') (Some (js ''d3/db0/namespacelsl.html#acce0545ac0a7831acde1a759b778393c'')) NoData,
    Item (js ''library_info'') (Some (js ''d3/db0/namespacelsl.html#a2a348cf022e9862396e4a10f60af42e9'')) NoData,
    Item (js ''library_version'') (Some (js ''d3/db0/namespacelsl.html#a25fc4deea3c2fb0df0744e3a24c56844'')) NoData,
    Item (js ''local_clock'') (Some (js ''d3/db0/namespacelsl.html#ae1766ae2ab66141cb927612e57a0c8c6'')) NoData,
    Item (js ''protocol_version'') (Some (js ''d3/db0/namespacelsl.html#a59009e83a8f0e33643474b373ad2f7f2'')) NoData,
    Item (js ''resolve_stream'') (Some (js ''d3/db0/namespacelsl.html#a824e14275a55df97d0552a91fc2c4097'')) NoData,
    Item (js ''resolve_stream'') (Some (js ''d3/db0/namespacelsl.html#a4edfbcc31f48f27e8f7c2a36b69cd4b9'')) NoData,
    Item (js ''resolve_streams'') (Some (js ''d3/db0/namespacelsl.html#a2935ff3db04cd640f69943ad14a61915'')) NoData,
    Item (js ''DEDUCED_TIMESTAMP'') (Some (js ''d3/db0/namespacelsl.html#a57df17d8a2563a18b8b759a0cec696cc'')) NoData,
    Item (js ''FOREVER'') (Some (js ''d3/db0/namespacelsl.html#a74cfbc9077aca21295117217249721ed'')) NoData,
    Item (js ''IRREGULAR_RATE'') (Some (js ''d3/db0/namespacelsl.html#ac7ebddefe1091ef2d9459b6f9d79f7ab'')) NoData]"

definition classlsl_1_1stream__info :: "nav_item list" where
  "classlsl_1_1stream__info = [
    Item (js ''stream_info'') (Some (js ''d1/d6a/classlsl_1_1stream__info.html#a874f4899da89168b768cfe9acdd569a0'')) NoData,
    Item (js ''stream_info'') (Some (js ''d1/d6a/classlsl_1_1stream__info.html#a7358ba03d8741b0b194cf9e747405702'')) NoData,
    Item (js ''stream_info'') (Some (js ''d1/d6a/classlsl_1_1stream__info.html#a780a9289cc6f1d57215ed297aecfc78b'')) NoData,
    Item (js ''stream_info'') (Some (js ''d1/d6a/classlsl_1_1stream__info.html#a82fd071574212a20ba4faffac5ce7803'')) NoData,
    Item (js ''~stream_info'') (Some (js ''d1/d6a/classlsl_1_1stream__info.html#afe4bf312984faef204ee4480385a9bc1'')) NoData,
    Item (js ''as_xml'') (Some (js ''d1/d6a/classlsl_1_1stream__info.html#ab1ccb9c2a1945c7051a0e90edaba8996'')) NoData,
    Item (js ''channel_bytes'') (Some (js ''d1/d6a/classlsl_1_1stream__info.html#a7eb192e1913596b017137347e4cc5847'')) NoData,
    Item (js ''channel_count'') (Some (js ''d1/d6a/classlsl_1_1stream__info.html#acf09957c1c61a9d9e0f9439037eec305'')) NoData,
    Item (js ''channel_format'') (Some (js ''d1/d6a/classlsl_1_1stream__info.html#aa9695e52570e617d1c7dd4ea9f88b15d'')) NoData,
    Item (js ''created_at'') (Some (js ''d1/d6a/classlsl_1_1stream__info.html#a9a5be16db42c09b1f0cced52a2259db8'')) NoData,
    Item (js ''desc'') (Some (js ''d1/d6a/classlsl_1_1stream__info.html#a7bbc53bb041757eb87c6c73564981390'')) NoData,
    Item (js ''handle'') (Some (js ''d1/d6a/classlsl_1_1stream__info.html#a532f6e8b29052cf11fbf87aeb3424304'')) NoData,
    Item (js ''hostname'') (Some (js ''d1/d6a/classlsl_1_1stream__info.html#a52db8d9e073297477d1183dfebe8dcda'')) NoData,
    Item (js ''matches_query'') (Some (js ''d1/d6a/classlsl_1_1stream__info.html#a6c3474322d467e8d8198c7a6e4c7ad76'')) NoData,
    Item (js ''name'') (Some (js ''d1/d6a/classlsl_1_1stream__info.html#a0862e5c580d65ecf9ceb1fcc26f2ca34'')) NoData,
    Item (js ''nominal_srate'') (Some (js ''d1/d6a/classlsl_1_1stream__info.html#a35b9b9b8947915f9f9518333342e2835'')) NoData,
    Item (js ''operator='') (Some (js ''d1/d6a/classlsl_1_1stream__info.html#a8ce8011b9da9b90c8e11e5c1c477a0a2'')) NoData,
    Item (js ''sample_bytes'') (Some (js ''d1/d6a/classlsl_1_1stream__info.html#ab68def3a9c81c289ba46a5b40c6b4084'')) NoData,
    Item (js ''session_id'') (Some (js ''d1/d6a/classlsl_1_1stream__info.html#a59036c0e83bcb07b711ec7e3e3b15fef'')) NoData,
    Item (js ''source_id'') (Some (js ''d1/d6a/classlsl_1_1stream__info.html#a1f20c68246a88047978d9b03e14a9d2b'')) NoData,
    Item (js ''type'') (Some (js ''d1/d6a/classlsl_1_1stream__info.html#a2162830f6867e9513eba9385eb0cbb99'')) NoData,
    Item (js ''uid'') (Some (js ''d1/d6a/classlsl_1_1stream__info.html#ae6fa890ffd440f298dd02fe71eaf3b82'')) NoData,
    Item (js ''version'') (Some (js ''d1/d6a/classlsl_1_1stream__info.html#aabd83f83d0abe8671e766e97f471dea9'')) NoData]"

definition classlsl_1_1stream__outlet_1 :: "nav_item list" where
  "classlsl_1_1stream__outlet_1 = [
    Item (js ''stream_outlet'') (Some (js ''d6/d55/classlsl_1_1stream__outlet.html#ac88c568fdc7429d95c51cd7b58d902cc'')) NoData,
    Item (js ''~stream_outlet'') (Some (js ''d6/d55/classlsl_1_1stream__outlet.html#aa8a10c88f57686d77bee002aff4c9d4e'')) NoData,
    Item (js ''have_consumers'') (Some (js ''d6/d55/classlsl_1_1stream__outlet.html#a3e7fad1010ef7c78bcd006a4f94381fa'')) NoData,
    Item (js ''info'') (Some (js ''d6/d55/classlsl_1_1stream__outlet.html#af6fda8eb922b27ae3ed98651934243fe'')) NoData,
    Item (js ''push_chunk'') (Some (js ''d6/d55/classlsl_1_1stream__outlet.html#a05ff22ae7b36a9e64dc08f71b45913e6'')) NoData,
    Item (js ''push_chunk'') (Some (js ''d6/d55/classlsl_1_1stream__outlet.html#a58427b98e8a60e7d160534078f3e04f8'')) NoData,
    Item (js ''push_chunk_multiplexed'') (Some (js ''d6/d55/classlsl_1_1stream__outlet.html#ab462e099798c3055b8f976767b239379'')) NoData,
    Item (js ''push_chunk_multiplexed'') (Some (js ''d6/d55/classlsl_1_1stream__outlet.html#a6ff877ac1b4c96f38ac36a2319a874da'')) NoData,
    Item (js ''push_chunk_multiplexed'') (Some (js ''d6/d55/classlsl_1_1stream__outlet.html#af5d993951e77df22ecb225c3b4aad87c'')) NoData,
    Item (js ''push_chunk_multiplexed'') (Some (js ''d6/d55/classlsl_1_1stream__outlet.html#a4f476f737355d7c2b128dcc1798f46b7'')) NoData,
    Item (js ''push_chunk_multiplexed'') (Some (js ''d6/d55/classlsl_1_1stream__outlet.html#a7ea80b891c9aaf7b4c62c715692218cc'')) NoData,
    Item (js ''push_chunk_multiplexed'') (Some (js ''d6/d55/classlsl_1_1stream__outlet.html#a4cc12f447c2ccfe67a118a3c23215f0d'')) NoData,
    Item (js ''push_chunk_multiplexed'') (Some (js ''d6/d55/classlsl_1_1stream__outlet.html#a78a48678f40e2bbb591aa0b9da9891d8'')) NoData,
    Item (js ''push_chunk_multiplexed'') (Some (js ''d6/d55/classlsl_1_1stream__outlet.html#ac90405c89feb8c95a493f42a0c749421'')) NoData,
    Item (js ''push_chunk_multiplexed'') (Some (js ''d6/d55/classlsl_1_1stream__outlet.html#a161ead63f9a373d69744c3c54a650c1d'')) NoData,
    Item (js ''push_chunk_multiplexed'') (Some (js ''d6/d55/classlsl_1_1stream__outlet.html#a10acfcf6b1db179f04596def60bc3792'')) NoData,
    Item (js ''push_chunk_multiplexed'') (Some (js ''d6/d55/classlsl_1_1stream__outlet.html#a4953cee1905211d533cb9bd6b0525099'')) NoData,
    Item (js ''push_chunk_multiplexed'') (Some (js ''d6/d55/classlsl_1_1stream__outlet.html#a3ec413951e8613ce5289a265aaabf6e9'')) NoData,
    Item (js ''push_chunk_multiplexed'') (Some (js ''d6/d55/classlsl_1_1stream__outlet.html#a2b4da4c1a2c3c47f39ed8a3f2cc717a5'')) NoData,
    Item (js ''push_chunk_multiplexed'') (Some (js ''d6/d55/classlsl_1_1stream__outlet.html#a17744ee6e963464fe6442d1e6f1a50f8'')) NoData,
    Item (js ''push_chunk_multiplexed'') (Some (js ''d6/d55/classlsl_1_1stream__outlet.html#a5ceb5a7488582559846637a310056605'')) NoData]"

definition classlsl_1_1stream__outlet_2 :: "nav_item list" where
  "classlsl_1_1stream__outlet_2 = [
    Item (js ''push_chunk_multiplexed'') (Some (js ''d6/d55/classlsl_1_1stream__outlet.html#af1bedf881293459205b9ba5df7b92051'')) NoData,
    Item (js ''push_chunk_multiplexed'') (Some (js ''d6/d55/classlsl_1_1stream__outlet.html#ad0a2c2b78e18b423e34ed0282df6b919'')) NoData,
    Item (js ''push_chunk_multiplexed'') (Some (js ''d6/d55/classlsl_1_1stream__outlet.html#aa42becb37b937c5d6319dac67a0da4a4'')) NoData,
    Item (js ''push_chunk_multiplexed'') (Some (js ''d6/d55/classlsl_1_1stream__outlet.html#a5944abd4386a9568441ddb352e8df71f'')) NoData,
    Item (js ''push_chunk_multiplexed'') (Some (js ''d6/d55/classlsl_1_1stream__outlet.html#adafb6b76614ea386917f696bdb272209'')) NoData,
    Item (js ''push_chunk_multiplexed'') (Some (js ''d6/d55/classlsl_1_1stream__outlet.html#a9d175090070f408ca7e9c8d8437c02f6'')) NoData,
    Item (js ''push_chunk_multiplexed'') (Some (js ''d6/d55/classlsl_1_1stream__outlet.html#a874e84f39bf470f755aa46da300244f6'')) NoData,
    Item (js ''push_chunk_multiplexed'') (Some (js ''d6/d55/classlsl_1_1stream__outlet.html#ae3875c13d689e11c6d34181b8fadfa5d'')) NoData,
    Item (js ''push_chunk_multiplexed'') (Some (js ''d6/d55/classlsl_1_1stream__outlet.html#a341840ed1504e2cfa0cc9c15263e030a'')) NoData,
    Item (js ''push_chunk_multiplexed'') (Some (js ''d6/d55/classlsl_1_1stream__outlet.html#a9075bd46bb9f2d1a0d494dbb7772eb48'')) NoData,
    Item (js ''push_chunk_multiplexed'') (Some (js ''d6/d55/classlsl_1_1stream__outlet.html#abe328c3200c383d160ca0e00029b8124'')) NoData,
    Item (js ''push_chunk_multiplexed'') (Some (js ''d6/d55/classlsl_1_1stream__outlet.html#ac31c0f13ba9de7331e520b3b08ede811'')) NoData,
    Item (js ''push_chunk_multiplexed'') (Some (js ''d6/d55/classlsl_1_1stream__outlet.html#a554027868fa9710470f0c3f057904b4b'')) NoData,
    Item (js ''push_chunk_numeric_structs'') (Some (js ''d6/d55/classlsl_1_1stream__outlet.html#a226b11eae43287c7b72e4d0ca1e812e7'')) NoData,
    Item (js ''push_chunk_numeric_structs'') (Some (js ''d6/d55/classlsl_1_1stream__outlet.html#ad7e1405b50bc546c4f742f508aa734cc'')) NoData,
    Item (js ''push_numeric_raw'') (Some (js ''d6/d55/classlsl_1_1stream__outlet.html#a5c394e995a86d03cb71c3d180f855681'')) NoData,
    Item (js ''push_numeric_struct'') (Some (js ''d6/d55/classlsl_1_1stream__outlet.html#a18b2da34bdd1306ef926d97532c43f28'')) NoData,
    Item (js ''push_sample'') (Some (js ''d6/d55/classlsl_1_1stream__outlet.html#acbb1a237bb410d9794c1961922aca6ad'')) NoData,
    Item (js ''push_sample'') (Some (js ''d6/d55/classlsl_1_1stream__outlet.html#af0d747a0610be04501117f87c1b010e9'')) NoData,
    Item (js ''push_sample'') (Some (js ''d6/d55/classlsl_1_1stream__outlet.html#a24192e6e3416ad36154bc01be55334c3'')) NoData,
    Item (js ''push_sample'') (Some (js ''d6/d55/classlsl_1_1stream__outlet.html#ae67672d4aa82d500e0a192d38f64d6fe'')) NoData]"

definition classlsl_1_1stream__outlet_3 :: "nav_item list" where
  "classlsl_1_1stream__outlet_3 = [
    Item (js ''push_sample'') (Some (js ''d6/d55/classlsl_1_1stream__outlet.html#aff1709d7bbf628e9b14d18444c7ac237'')) NoData,
    Item (js ''push_sample'') (Some (js ''d6/d55/classlsl_1_1stream__outlet.html#a558af80f807399556a2483346e80b935'')) NoData,
    Item (js ''push_sample'') (Some (js ''d6/d55/classlsl_1_1stream__outlet.html#a93e571140b73b4324051b8ef4b5606a4'')) NoData,
    Item (js ''push_sample'') (Some (js ''d6/d55/classlsl_1_1stream__outlet.html#a510668a6adc032792e8bad06458e58eb'')) NoData,
    Item (js ''push_sample'') (Some (js ''d6/d55/classlsl_1_1stream__outlet.html#abd59227041d01d48e90d4d5d05da7662'')) NoData,
    Item (js ''push_sample'') (Some (js ''d6/d55/classlsl_1_1stream__outlet.html#a4c984d8bf178e2321c590aaf81d4da3f'')) NoData,
    Item (js ''push_sample'') (Some (js ''d6/d55/classlsl_1_1stream__outlet.html#a66a528d5f31f5b5f747994c6de35a80f'')) NoData,
    Item (js ''push_sample'') (Some (js ''d6/d55/classlsl_1_1stream__outlet.html#aa1f12739e569d284896c7f514f55a301'')) NoData,
    Item (js ''push_sample'') (Some (js ''d6/d55/classlsl_1_1stream__outlet.html#a277f76e889a33849170d5c25fa99c723'')) NoData,
    Item (js ''push_sample'') (Some (js ''d6/d55/classlsl_1_1stream__outlet.html#a59f69780061e6c8743a4cb566944033b'')) NoData,
    Item (js ''push_sample'') (Some (js ''d6/d55/classlsl_1_1stream__outlet.html#a675bbe044a5053087e05e0267fe6722a'')) NoData,
    Item (js ''wait_for_consumers'') (Some (js ''d6/d55/classlsl_1_1stream__outlet.html#af188fa767e2a70c402486b761e9869fe'')) NoData]"

definition classlsl_1_1stream__outlet :: "nav_item list" where
  "classlsl_1_1stream__outlet = classlsl_1_1stream__outlet_1 @ classlsl_1_1stream__outlet_2 @ classlsl_1_1stream__outlet_3"

definition classlsl_1_1stream__inlet_1 :: "nav_item list" where
  "classlsl_1_1stream__inlet_1 = [
    Item (js ''stream_inlet'') (Some (js ''d6/dbd/classlsl_1_1stream__inlet.html#a7c93b7d4fc053b2e3320841371b32919'')) NoData,
    Item (js ''~stream_inlet'') (Some (js ''d6/dbd/classlsl_1_1stream__inlet.html#ac3b37a1c2e376280c3144f422bb27d79'')) NoData,
    Item (js ''close_stream'') (Some (js ''d6/dbd/classlsl_1_1stream__inlet.html#a77c2f10ed843723c7473aa52dcf544a0'')) NoData,
    Item (js ''get_channel_count'') (Some (js ''d6/dbd/classlsl_1_1stream__inlet.html#ad86702cf94e5b0b850a2f94a228e4f98'')) NoData,
    Item (js ''info'') (Some (js ''d6/dbd/classlsl_1_1stream__inlet.html#ae895a8d5c10dc4072e969686fc402b5b'')) NoData,
    Item (js ''open_stream'') (Some (js ''d6/dbd/classlsl_1_1stream__inlet.html#ad84029ed0662d755b0544c7652348718'')) NoData,
    Item (js ''pull_chunk'') (Some (js ''d6/dbd/classlsl_1_1stream__inlet.html#a558f53812f5dc3c19b2cbe0026a61f6a'')) NoData,
    Item (js ''pull_chunk'') (Some (js ''d6/dbd/classlsl_1_1stream__inlet.html#acf6cdc3afdbb4c31c97fb979e4aca632'')) NoData,
    Item (js ''pull_chunk'') (Some (js ''d6/dbd/classlsl_1_1stream__inlet.html#af9051121db6ffa6945bd2288b2bf2a15'')) NoData,
    Item (js ''pull_chunk_multiplexed'') (Some (js ''d6/dbd/classlsl_1_1stream__inlet.html#a85ee4c75121e8ee54de22f228a3abae5'')) NoData,
    Item (js ''pull_chunk_multiplexed'') (Some (js ''d6/dbd/classlsl_1_1stream__inlet.html#abdb890fbad785ed4bc39288fc2f47329'')) NoData,
    Item (js ''pull_chunk_multiplexed'') (Some (js ''d6/dbd/classlsl_1_1stream__inlet.html#a97adf2cb7d60e4b47bf25217a2b17964'')) NoData,
    Item (js ''pull_chunk_multiplexed'') (Some (js ''d6/dbd/classlsl_1_1stream__inlet.html#a40e9727b155e274df482e4579e60f3b3'')) NoData,
    Item (js ''pull_chunk_multiplexed'') (Some (js ''d6/dbd/classlsl_1_1stream__inlet.html#a3b93d803b348905bc34747c5820d6364'')) NoData,
    Item (js ''pull_chunk_multiplexed'') (Some (js ''d6/dbd/classlsl_1_1stream__inlet.html#aa2f2c576a6b5a3bf562878200829bb47'')) NoData,
    Item (js ''pull_chunk_multiplexed'') (Some (js ''d6/dbd/classlsl_1_1stream__inlet.html#a6a0f2f39152a2975571d5073d9967646'')) NoData,
    Item (js ''pull_chunk_multiplexed'') (Some (js ''d6/dbd/classlsl_1_1stream__inlet.html#a9ac87825319b345987fdd54e606fd56f'')) NoData,
    Item (js ''pull_chunk_numeric_structs'') (Some (js ''d6/dbd/classlsl_1_1stream__inlet.html#a4a743ed5df78b05dcc038e73a1d4fb9b'')) NoData,
    Item (js ''pull_chunk_numeric_structs'') (Some (js ''d6/dbd/classlsl_1_1stream__inlet.html#ab14a0120e49dcd33f6df0716e6606810'')) NoData,
    Item (js ''pull_chunk_numeric_structs'') (Some (js ''d6/dbd/classlsl_1_1stream__inlet.html#a018caadb9a2c61f0c1c6388f7b617008'')) NoData,
    Item (js ''pull_numeric_raw'') (Some (js ''d6/dbd/classlsl_1_1stream__inlet.html#ae8f7beaaa82d192d844abdd1531f6b9a'')) NoData]"

definition classlsl_1_1stream__inlet_2 :: "nav_item list" where
  "classlsl_1_1stream__inlet_2 = [
    Item (js ''pull_numeric_struct'') (Some (js ''d6/dbd/classlsl_1_1stream__inlet.html#a540c7ba2c23188916ffe311c26c2c081'')) NoData,
    Item (js ''pull_sample'') (Some (js ''d6/dbd/classlsl_1_1stream__inlet.html#a9183e81a122df862eff9ea9797c82b73'')) NoData,
    Item (js ''pull_sample'') (Some (js ''d6/dbd/classlsl_1_1stream__inlet.html#acb78fe666a3be090278bc3d1f3eb7619'')) NoData,
    Item (js ''pull_sample'') (Some (js ''d6/dbd/classlsl_1_1stream__inlet.html#a4a10bd640a10c317ba4a0244cc986146'')) NoData,
    Item (js ''pull_sample'') (Some (js ''d6/dbd/classlsl_1_1stream__inlet.html#a3462f2634ce13e7f9c764e16a58a71a6'')) NoData,
    Item (js ''pull_sample'') (Some (js ''d6/dbd/classlsl_1_1stream__inlet.html#ae4534102453ccd98f319c746ec1de0a9'')) NoData,
    Item (js ''pull_sample'') (Some (js ''d6/dbd/classlsl_1_1stream__inlet.html#a774c17a647ebd321b5ce4a5450f71202'')) NoData,
    Item (js ''pull_sample'') (Some (js ''d6/dbd/classlsl_1_1stream__inlet.html#a52e95747438991868e3eb9c791e24f42'')) NoData,
    Item (js ''pull_sample'') (Some (js ''d6/dbd/classlsl_1_1stream__inlet.html#a3a2a662e0b723d7f2101b79eb08371b7'')) NoData,
    Item (js ''pull_sample'') (Some (js ''d6/dbd/classlsl_1_1stream__inlet.html#a447dd270fa83d8f1df16963b8601027e'')) NoData,
    Item (js ''pull_sample'') (Some (js ''d6/dbd/classlsl_1_1stream__inlet.html#af3707fbfd5e9f54be73f9d55de55a8fc'')) NoData,
    Item (js ''pull_sample'') (Some (js ''d6/dbd/classlsl_1_1stream__inlet.html#a7789d75e1afceaf5187e8bc33a0b99be'')) NoData,
    Item (js ''pull_sample'') (Some (js ''d6/dbd/classlsl_1_1stream__inlet.html#af33558ccbbe57767386278d2255db1a1'')) NoData,
    Item (js ''pull_sample'') (Some (js ''d6/dbd/classlsl_1_1stream__inlet.html#a80fecf88ba609c7e4898eb16a49f2b75'')) NoData,
    Item (js ''pull_sample'') (Some (js ''d6/dbd/classlsl_1_1stream__inlet.html#a78a36bf33ddfc7101bd15cb5bcb9561d'')) NoData,
    Item (js ''pull_sample'') (Some (js ''d6/dbd/classlsl_1_1stream__inlet.html#a58dc91be6ec0d1b83024a169ad0c292b'')) NoData,
    Item (js ''samples_available'') (Some (js ''d6/dbd/classlsl_1_1stream__inlet.html#a8a4f5ff87d40a696ab4a5d74c03cd52b'')) NoData,
    Item (js ''set_postprocessing'') (Some (js ''d6/dbd/classlsl_1_1stream__inlet.html#aaf40ba9c127a1828933613d0f2b0fc3d'')) NoData,
    Item (js ''smoothing_halftime'') (Some (js ''d6/dbd/classlsl_1_1stream__inlet.html#a2774c1dbcf3fc7b17505e8814921d17c'')) NoData,
    Item (js ''time_correction'') (Some (js ''d6/dbd/classlsl_1_1stream__inlet.html#a9603f3365093f43f9e2bae1b9e9b2cd8'')) NoData,
    Item (js ''time_correction'') (Some (js ''d6/dbd/classlsl_1_1stream__inlet.html#a845d95f5fc60fb9cd01fb73d3da75e94'')) NoData]"

definition classlsl_1_1stream__inlet_3 :: "nav_item list" where
  "classlsl_1_1stream__inlet_3 = [
    Item (js ''was_clock_reset'') (Some (js ''d6/dbd/classlsl_1_1stream__inlet.html#ac3b8fa8912090ad6607b05cbb5848352'')) NoData]"

definition classlsl_1_1stream__inlet :: "nav_item list" where
  "classlsl_1_1stream__inlet = classlsl_1_1stream__inlet_1 @ classlsl_1_1stream__inlet_2 @ classlsl_1_1stream__inlet_3"

definition classlsl_1_1xml__element_1 :: "nav_item list" where
  "classlsl_1_1xml__element_1 = [
    Item (js ''xml_element'') (Some (js ''d9/d90/classlsl_1_1xml__element.html#a9a2c940a06714662f3cef5e9847e8cae'')) NoData,
    Item (js ''append_child'') (Some (js ''d9/d90/classlsl_1_1xml__element.html#af56c7976bb62cabc9c0ca69502063fea'')) NoData,
    Item (js ''append_child_value'') (Some (js ''d9/d90/classlsl_1_1xml__element.html#a6a162d1b57049f5ecab6b68207a71d53'')) NoData,
    Item (js ''append_copy'') (Some (js ''d9/d90/classlsl_1_1xml__element.html#a73fc3bfe22e1117907a2d80ba33d2208'')) NoData,
    Item (js ''child'') (Some (js ''d9/d90/classlsl_1_1xml__element.html#a111ef129dce406af43948d8c9b915148'')) NoData,
    Item (js ''child_value'') (Some (js ''d9/d90/classlsl_1_1xml__element.html#ac99677d44f66ba850afd9b669e26452f'')) NoData,
    Item (js ''child_value'') (Some (js ''d9/d90/classlsl_1_1xml__element.html#a893102d2d84a444a89099f9c90cb6c31'')) NoData,
    Item (js ''empty'') (Some (js ''d9/d90/classlsl_1_1xml__element.html#a787dcaf85abcc5cd4d5f93fc80c82eb5'')) NoData,
    Item (js ''first_child'') (Some (js ''d9/d90/classlsl_1_1xml__element.html#ab68b7a1c63c2cb0eb4ce6361b94469b7'')) NoData,
    Item (js ''is_text'') (Some (js ''d9/d90/classlsl_1_1xml__element.html#a965cfff9a29ebe6d8274f5256ff0017c'')) NoData,
    Item (js ''last_child'') (Some (js ''d9/d90/classlsl_1_1xml__element.html#a12254f735a79a11b75718fe7c28186d0'')) NoData,
    Item (js ''name'') (Some (js ''d9/d90/classlsl_1_1xml__element.html#a2e449e85b7e763b1d0db4bb19d2eb7c2'')) NoData,
    Item (js ''next_sibling'') (Some (js ''d9/d90/classlsl_1_1xml__element.html#a9637215f616b660789696e452b0e0591'')) NoData,
    Item (js ''next_sibling'') (Some (js ''d9/d90/classlsl_1_1xml__element.html#a100590d2a9822261a3f0b0ed7810134d'')) NoData,
    Item (js ''parent'') (Some (js ''d9/d90/classlsl_1_1xml__element.html#ae3211be3c10164f366220b638a9dd200'')) NoData,
    Item (js ''prepend_child'') (Some (js ''d9/d90/classlsl_1_1xml__element.html#abd881c6c5d0d381f9efff2fc25975e7e'')) NoData,
    Item (js ''prepend_child_value'') (Some (js ''d9/d90/classlsl_1_1xml__element.html#a3e7fde09def517574df99c71a0a05d23'')) NoData,
    Item (js ''prepend_copy'') (Some (js ''d9/d90/classlsl_1_1xml__element.html#a1bea6df95134f909611b1c40218828d7'')) NoData,
    Item (js ''previous_sibling'') (Some (js ''d9/d90/classlsl_1_1xml__element.html#a78c2e0b3d7bda2b5a2d478e3c0cdc87a'')) NoData,
    Item (js ''previous_sibling'') (Some (js ''d9/d90/classlsl_1_1xml__element.html#a70b90853b7edfaebfe69bc1103ed6b8b'')) NoData,
    Item (js ''remove_child'') (Some (js ''d9/d90/classlsl_1_1xml__element.html#ad23da57ac3a6a7f3dd849be0a8b44a47'')) NoData]"

definition classlsl_1_1xml__element_2 :: "nav_item list" where
  "classlsl_1_1xml__element_2 = [
    Item (js ''remove_child'') (Some (js ''d9/d90/classlsl_1_1xml__element.html#a0c07b18ef39b7f6d683b9612e2a9104e'')) NoData,
    Item (js ''set_child_value'') (Some (js ''d9/d90/classlsl_1_1xml__element.html#a6fe187e03b36cf8fd5f9d3892e99453f'')) NoData,
    Item (js ''set_name'') (Some (js ''d9/d90/classlsl_1_1xml__element.html#a8ddf2b35719b273dbb5700f16a2da4e5'')) NoData,
    Item (js ''set_value'') (Some (js ''d9/d90/classlsl_1_1xml__element.html#a3a3bbf2468ba3abd9309764faa61a7a4'')) NoData,
    Item (js ''value'') (Some (js ''d9/d90/classlsl_1_1xml__element.html#a1a5e666b35c5d7262e4ffbda86b57f73'')) NoData]"

definition classlsl_1_1xml__element :: "nav_item list" where
  "classlsl_1_1xml__element = classlsl_1_1xml__element_1 @ classlsl_1_1xml__element_2"

definition classlsl_1_1continuous__resolver :: "nav_item list" where
  "classlsl_1_1continuous__resolver = [
    Item (js ''continuous_resolver'') (Some (js ''d4/d27/classlsl_1_1continuous__resolver.html#a53b81e4328aba7a83c4aa129fa0d6f62'')) NoData,
    Item (js ''continuous_resolver'') (Some (js ''d4/d27/classlsl_1_1continuous__resolver.html#a9eb3d09ca9c4f9c493a6978d403a5144'')) NoData,
    Item (js ''continuous_resolver'') (Some (js ''d4/d27/classlsl_1_1continuous__resolver.html#aa3b65921342bddafabe4e5d16a3c24a3'')) NoData,
    Item (js ''~continuous_resolver'') (Some (js ''d4/d27/classlsl_1_1continuous__resolver.html#a382bc439e5dbb1efcaa32def93ef01df'')) NoData,
    Item (js ''results'') (Some (js ''d4/d27/classlsl_1_1continuous__resolver.html#ad88c16d36f8a2dc64f4ae4536445e15a'')) NoData]"

definition classlsl_1_1lost__error :: "nav_item list" where
  "classlsl_1_1lost__error = [
    Item (js ''lost_error'') (Some (js ''de/d94/classlsl_1_1lost__error.html#a997ff6ff1ecd4fd33cda631b975d386e'')) NoData]"

definition classlsl_1_1timeout__error :: "nav_item list" where
  "classlsl_1_1timeout__error = [
    Item (js ''timeout_error'') (Some (js ''d4/d01/classlsl_1_1timeout__error.html#afbc3b7c957fe3da4021aff3c30e6192f'')) NoData]"

definition annotated_dup :: "nav_item list" where
  "annotated_dup = [
    Item (js ''Communication'') (Some (js ''db/d7d/namespace_communication.html'')) (Items [
     Item (js ''Client'') (Some (js ''df/dcd/class_communication_1_1_client.html'')) (Lazy (js ''df/dcd/class_communication_1_1_client'')),
     Item (js ''Server'') (Some (js ''dc/db1/class_communication_1_1_server.html'')) (Lazy (js ''dc/db1/class_communication_1_1_server'')),
     Item (js ''HTTP_client'') (Some (js ''d7/d60/class_communication_1_1_h_t_t_p__client.html'')) (Lazy (js ''d7/d60/class_communication_1_1_h_t_t_p__client''))]),
    Item (js ''ESC'') (Some (js ''d2/d52/namespace_e_s_c.html'')) (Items [
     Item (js ''CLI'') (Some (js ''dc/d44/class_e_s_c_1_1_c_l_i.html'')) (Lazy (js ''dc/d44/class_e_s_c_1_1_c_l_i''))]),
    Item (js ''lsl'') (Some (js ''d3/db0/namespacelsl.html'')) (Items [
     Item (js ''stream_info'') (Some (js ''d1/d6a/classlsl_1_1stream__info.html'')) (Lazy (js ''d1/d6a/classlsl_1_1stream__info'')),
     Item (js ''stream_outlet'') (Some (js ''d6/d55/classlsl_1_1stream__outlet.html'')) (Lazy (js ''d6/d55/classlsl_1_1stream__outlet'')),
     Item (js ''stream_inlet'') (Some (js ''d6/dbd/classlsl_1_1stream__inlet.html'')) (Lazy (js ''d6/dbd/classlsl_1_1stream__inlet'')),
     Item (js ''xml_element'') (Some (js ''d9/d90/classlsl_1_1xml__element.html'')) (Lazy (js ''d9/d90/classlsl_1_1xml__element'')),
     Item (js ''continuous_resolver'') (Some (js ''d4/d27/classlsl_1_1continuous__resolver.html'')) (Lazy (js ''d4/d27/classlsl_1_1continuous__resolver'')),
     Item (js ''lost_error'') (Some (js ''de/d94/classlsl_1_1lost__error.html'')) (Lazy (js ''de/d94/classlsl_1_1lost__error'')),
     Item (js ''timeout_error'') (Some (js ''d4/d01/classlsl_1_1timeout__error.html'')) (Lazy (js ''d4/d01/classlsl_1_1timeout__error''))])]"

definition hierarchy :: "nav_item list" where
  "hierarchy = [
    Item (js ''ESC::CLI'') (Some (js ''dc/d44/class_e_s_c_1_1_c_l_i.html'')) (Items [
     Item (js ''Communication::Client'') (Some (js ''df/dcd/class_communication_1_1_client.html'')) NoData,
     Item (js ''Communication::HTTP_client'') (Some (js ''d7/d60/class_communication_1_1_h_t_t_p__client.html'')) NoData,
     Item (js ''Communication::Server'') (Some (js ''dc/db1/class_communication_1_1_server.html'')) NoData]),
    Item (js ''lsl::continuous_resolver'') (Some (js ''d4/d27/classlsl_1_1continuous__resolver.html'')) NoData,
    Item (js ''std::runtime_error'') None (Items [
     Item (js ''lsl::lost_error'') (Some (js ''de/d94/classlsl_1_1lost__error.html'')) NoData,
     Item (js ''lsl::timeout_error'') (Some (js ''d4/d01/classlsl_1_1timeout__error.html'')) NoData]),
    Item (js ''lsl::stream_info'') (Some (js ''d1/d6a/classlsl_1_1stream__info.html'')) NoData,
    Item (js ''lsl::stream_inlet'') (Some (js ''d6/dbd/classlsl_1_1stream__inlet.html'')) NoData,
    Item (js ''lsl::stream_outlet'') (Some (js ''d6/d55/classlsl_1_1stream__outlet.html'')) NoData,
    Item (js ''lsl::xml_element'') (Some (js ''d9/d90/classlsl_1_1xml__element.html'')) NoData]"

definition files_dup :: "nav_item list" where
  "files_dup = [
    Item (js ''build'') (Some (js ''dir_4fef79e7177ba769987a8da36c892c5f.html'')) (Lazy (js ''dir_4fef79e7177ba769987a8da36c892c5f'')),
    Item (js ''include'') (Some (js ''dir_d44c64559bbebec7f509842c48db8b23.html'')) (Lazy (js ''dir_d44c64559bbebec7f509842c48db8b23'')),
    Item (js ''lib'') (Some (js ''dir_97aefd0d527b934f1d99a682da8fe6a9.html'')) (Lazy (js ''dir_97aefd0d527b934f1d99a682da8fe6a9'')),
    Item (js ''src'') (Some (js ''dir_68267d1309a1af8e8297ef4c3efbcdba.html'')) (Lazy (js ''dir_68267d1309a1af8e8297ef4c3efbcdba'')),
    Item (js ''tool_lib'') (Some (js ''dir_e3e6a61ebba8fbca2913381c4bcfbd2b.html'')) (Lazy (js ''dir_e3e6a61ebba8fbca2913381c4bcfbd2b''))]"

definition dir_4fef79e7177ba769987a8da36c892c5f :: "nav_item list" where
  "dir_4fef79e7177ba769987a8da36c892c5f = [
    Item (js ''CMakeFiles'') (Some (js ''dir_63772b626f2709090f0bdca0f40827b4.html'')) (Lazy (js ''dir_63772b626f2709090f0bdca0f40827b4'')),
    Item (js ''lib'') (Some (js ''dir_7a9c7094c62de71bbec4b12c7c975b93.html'')) (Lazy (js ''dir_7a9c7094c62de71bbec4b12c7c975b93''))]"

definition dir_63772b626f2709090f0bdca0f40827b4 :: "nav_item list" where
  "dir_63772b626f2709090f0bdca0f40827b4 = [
    Item (js ''3.22.1'') (Some (js ''dir_ee532ceb613f48f23d20ef02624c3a91.html'')) (Lazy (js ''dir_ee532ceb613f48f23d20ef02624c3a91'')),
    Item (js ''com_client.2.10.dir'') (Some (js ''dir_bebb180f26d6bb41eb2a098db65f44a7.html'')) (Lazy (js ''dir_bebb180f26d6bb41eb2a098db65f44a7'')),
    Item (js ''com_client.dir'') (Some (js ''dir_cb540477a80f9d51ad37a936dad104bf.html'')) (Lazy (js ''dir_cb540477a80f9d51ad37a936dad104bf''))]"

definition dir_ee532ceb613f48f23d20ef02624c3a91 :: "nav_item list" where
  "dir_ee532ceb613f48f23d20ef02624c3a91 = [
    Item (js ''CompilerIdC'') (Some (js ''dir_5ccf6f5f6f8f5a0c68d52188c0c1e2bd.html'')) (Lazy (js ''dir_5ccf6f5f6f8f5a0c68d52188c0c1e2bd'')),
    Item (js ''CompilerIdCXX'') (Some (js ''dir_e1a715d407a4074a9fa63b2e02ec2b8f.html'')) (Lazy (js ''dir_e1a715d407a4074a9fa63b2e02ec2b8f''))]"

definition dir_5ccf6f5f6f8f5a0c68d52188c0c1e2bd :: "nav_item list" where
  "dir_5ccf6f5f6f8f5a0c68d52188c0c1e2bd = [
    Item (js ''CMakeCCompilerId.c'') (Some (js ''d1/d3a/_c_make_c_compiler_id_8c.html'')) (Lazy (js ''d1/d3a/_c_make_c_compiler_id_8c''))]"

definition c_make_c_compiler_id_8c :: "nav_item list" where
  "c_make_c_compiler_id_8c = [
    Item (js ''__has_include'') (Some (js ''d1/d3a/_c_make_c_compiler_id_8c.html#ae5510d82e4946f1656f4969911c54736'')) NoData,
    Item (js ''ARCHITECTURE_ID'') (Some (js ''d1/d3a/_c_make_c_compiler_id_8c.html#aba35d0d200deaeb06aee95ca297acb28'')) NoData,
    Item (js ''C_VERSION'') (Some (js ''d1/d3a/_c_make_c_compiler_id_8c.html#adaee3ee7c5a7a22451ea25e762e1d7d5'')) NoData,
    Item (js ''COMPILER_ID'') (Some (js ''d1/d3a/_c_make_c_compiler_id_8c.html#a81dee0709ded976b2e0319239f72d174'')) NoData,
    Item (js ''DEC'') (Some (js ''d1/d3a/_c_make_c_compiler_id_8c.html#ad1280362da42492bbc11aa78cbf776ad'')) NoData,
    Item (js ''HEX'') (Some (js ''d1/d3a/_c_make_c_compiler_id_8c.html#a46d5d95daa1bef867bd0179594310ed5'')) NoData,
    Item (js ''PLATFORM_ID'') (Some (js ''d1/d3a/_c_make_c_compiler_id_8c.html#adbc5372f40838899018fadbc89bd588b'')) NoData,
    Item (js ''STRINGIFY'') (Some (js ''d1/d3a/_c_make_c_compiler_id_8c.html#a43e1cad902b6477bec893cb6430bd6c8'')) NoData,
    Item (js ''STRINGIFY_HELPER'') (Some (js ''d1/d3a/_c_make_c_compiler_id_8c.html#a2ae9b72bb13abaabfcf2ee0ba7d3fa1d'')) NoData,
    Item (js ''main'') (Some (js ''d1/d3a/_c_make_c_compiler_id_8c.html#a0ddf1224851353fc92bfbff6f499fa97'')) NoData,
    Item (js ''info_arch'') (Some (js ''d1/d3a/_c_make_c_compiler_id_8c.html#a59647e99d304ed33b15cb284c27ed391'')) NoData,
    Item (js ''info_compiler'') (Some (js ''d1/d3a/_c_make_c_compiler_id_8c.html#a4b0efeb7a5d59313986b3a0390f050f6'')) NoData,
    Item (js ''info_language_extensions_default'') (Some (js ''d1/d3a/_c_make_c_compiler_id_8c.html#a0f46a8a39e09d9b803c4766904fd7e99'')) NoData,
    Item (js ''info_language_standard_default'') (Some (js ''d1/d3a/_c_make_c_compiler_id_8c.html#a4607cccf070750927b458473ca82c090'')) NoData,
    Item (js ''info_platform'') (Some (js ''d1/d3a/_c_make_c_compiler_id_8c.html#a2321403dee54ee23f0c2fa849c60f7d4'')) NoData]"

definition dir_e1a715d407a4074a9fa63b2e02ec2b8f :: "nav_item list" where
  "dir_e1a715d407a4074a9fa63b2e02ec2b8f = [
    Item (js ''CMakeCXXCompilerId.cpp'') (Some (js ''d3/d66/_c_make_c_x_x_compiler_id_8cpp.html'')) (Lazy (js ''d3/d66/_c_make_c_x_x_compiler_id_8cpp''))]"

definition c_make_c_x_x_compiler_id_8cpp :: "nav_item list" where
  "c_make_c_x_x_compiler_id_8cpp = [
    Item (js ''__has_include'') (Some (js ''d3/d66/_c_make_c_x_x_compiler_id_8cpp.html#ae5510d82e4946f1656f4969911c54736'')) NoData,
    Item (js ''ARCHITECTURE_ID'') (Some (js ''d3/d66/_c_make_c_x_x_compiler_id_8cpp.html#aba35d0d200deaeb06aee95ca297acb28'')) NoData,
    Item (js ''COMPILER_ID'') (Some (js ''d3/d66/_c_make_c_x_x_compiler_id_8cpp.html#a81dee0709ded976b2e0319239f72d174'')) NoData,
    Item (js ''CXX_STD'') (Some (js ''d3/d66/_c_make_c_x_x_compiler_id_8cpp.html#a34cc889e576a1ae6c84ae9e0a851ba21'')) NoData,
    Item (js ''DEC'') (Some (js ''d3/d66/_c_make_c_x_x_compiler_id_8cpp.html#ad1280362da42492bbc11aa78cbf776ad'')) NoData,
    Item (js ''HEX'') (Some (js ''d3/d66/_c_make_c_x_x_compiler_id_8cpp.html#a46d5d95daa1bef867bd0179594310ed5'')) NoData,
    Item (js ''PLATFORM_ID'') (Some (js ''d3/d66/_c_make_c_x_x_compiler_id_8cpp.html#adbc5372f40838899018fadbc89bd588b'')) NoData,
    Item (js ''STRINGIFY'') (Some (js ''d3/d66/_c_make_c_x_x_compiler_id_8cpp.html#a43e1cad902b6477bec893cb6430bd6c8'')) NoData,
    Item (js ''STRINGIFY_HELPER'') (Some (js ''d3/d66/_c_make_c_x_x_compiler_id_8cpp.html#a2ae9b72bb13abaabfcf2ee0ba7d3fa1d'')) NoData,
    Item (js ''main'') (Some (js ''d3/d66/_c_make_c_x_x_compiler_id_8cpp.html#a0ddf1224851353fc92bfbff6f499fa97'')) NoData,
    Item (js ''info_arch'') (Some (js ''d3/d66/_c_make_c_x_x_compiler_id_8cpp.html#a59647e99d304ed33b15cb284c27ed391'')) NoData,
    Item (js ''info_compiler'') (Some (js ''d3/d66/_c_make_c_x_x_compiler_id_8cpp.html#a4b0efeb7a5d59313986b3a0390f050f6'')) NoData,
    Item (js ''info_language_extensions_default'') (Some (js ''d3/d66/_c_make_c_x_x_compiler_id_8cpp.html#a0f46a8a39e09d9b803c4766904fd7e99'')) NoData,
    Item (js ''info_language_standard_default'') (Some (js ''d3/d66/_c_make_c_x_x_compiler_id_8cpp.html#a4607cccf070750927b458473ca82c090'')) NoData,
    Item (js ''info_platform'') (Some (js ''d3/d66/_c_make_c_x_x_compiler_id_8cpp.html#a2321403dee54ee23f0c2fa849c60f7d4'')) NoData]"

definition dir_bebb180f26d6bb41eb2a098db65f44a7 :: "nav_item list" where
  "dir_bebb180f26d6bb41eb2a098db65f44a7 = [
    Item (js ''src'') (Some (js ''dir_6dd59ef4c64b46cf9e81380f0a3a6757.html'')) (Lazy (js ''dir_6dd59ef4c64b46cf9e81380f0a3a6757''))]"

definition dir_6dd59ef4c64b46cf9e81380f0a3a6757 :: "nav_item list" where
  "dir_6dd59ef4c64b46cf9e81380f0a3a6757 = [
    Item (js ''com_client.cpp.o.d'') (Some (js ''d6/d45/com__client_8cpp_8o_8d.html'')) NoData,
    Item (js ''http_client.cpp.o.d'') (Some (js ''dc/d95/http__client_8cpp_8o_8d.html'')) NoData]"

definition dir_cb540477a80f9d51ad37a936dad104bf :: "nav_item list" where
  "dir_cb540477a80f9d51ad37a936dad104bf = [
    Item (js ''src'') (Some (js ''dir_40a07be7a32b2e45b448972e4bdb8ed5.html'')) (Lazy (js ''dir_40a07be7a32b2e45b448972e4bdb8ed5''))]"

definition dir_40a07be7a32b2e45b448972e4bdb8ed5 :: "nav_item list" where
  "dir_40a07be7a32b2e45b448972e4bdb8ed5 = [
    Item (js ''main.cpp.o.d'') (Some (js ''d3/df7/_c_make_files_2com__client_8dir_2src_2main_8cpp_8o_8d.html'')) NoData]"

definition dir_7a9c7094c62de71bbec4b12c7c975b93 :: "nav_item list" where
  "dir_7a9c7094c62de71bbec4b12c7c975b93 = [
    Item (js ''strANSIseq'') (Some (js ''dir_127a0b13c4059b08a7f4d866ec5a21cc.html'')) (Lazy (js ''dir_127a0b13c4059b08a7f4d866ec5a21cc''))]"

definition dir_127a0b13c4059b08a7f4d866ec5a21cc :: "nav_item list" where
  "dir_127a0b13c4059b08a7f4d866ec5a21cc = [
    Item (js ''CMakeFiles'') (Some (js ''dir_4166fd07804cc527cdfc167b21a5330f.html'')) (Lazy (js ''dir_4166fd07804cc527cdfc167b21a5330f''))]"

definition dir_4166fd07804cc527cdfc167b21a5330f :: "nav_item list" where
  "dir_4166fd07804cc527cdfc167b21a5330f = [
    Item (js ''strANSIseq.1.9.dir'') (Some (js ''dir_a0aabf0f9c68f10a87f9043c02514b41.html'')) (Lazy (js ''dir_a0aabf0f9c68f10a87f9043c02514b41'')),
    Item (js ''strANSIseq.dir'') (Some (js ''dir_a95d52f81f463f3290acb9e3d34dacea.html'')) (Lazy (js ''dir_a95d52f81f463f3290acb9e3d34dacea''))]"

definition dir_a0aabf0f9c68f10a87f9043c02514b41 :: "nav_item list" where
  "dir_a0aabf0f9c68f10a87f9043c02514b41 = [
    Item (js ''src'') (Some (js ''dir_3280642a839541a29e29961741ef8ced.html'')) (Lazy (js ''dir_3280642a839541a29e29961741ef8ced''))]"

definition dir_3280642a839541a29e29961741ef8ced :: "nav_item list" where
  "dir_3280642a839541a29e29961741ef8ced = [
    Item (js ''strANSIseq.cpp.o.d'') (Some (js ''db/df0/str_a_n_s_iseq_8cpp_8o_8d.html'')) NoData]"

definition dir_a95d52f81f463f3290acb9e3d34dacea :: "nav_item list" where
  "dir_a95d52f81f463f3290acb9e3d34dacea = [
    Item (js ''src'') (Some (js ''dir_798295ff5de2e5beb17f203298baaa7f.html'')) (Lazy (js ''dir_798295ff5de2e5beb17f203298baaa7f''))]"

definition dir_798295ff5de2e5beb17f203298baaa7f :: "nav_item list" where
  "dir_798295ff5de2e5beb17f203298baaa7f = [
    Item (js ''main.cpp.o.d'') (Some (js ''df/d3f/lib_2str_a_n_s_iseq_2_c_make_files_2str_a_n_s_iseq_8dir_2src_2main_8cpp_8o_8d.html'')) NoData]"

definition dir_d44c64559bbebec7f509842c48db8b23 :: "nav_item list" where
  "dir_d44c64559bbebec7f509842c48db8b23 = [
    Item (js ''com_client.hpp'') (Some (js ''dc/d13/com__client_8hpp.html'')) (Lazy (js ''dc/d13/com__client_8hpp'')),
    Item (js ''http_client.hpp'') (Some (js ''d9/dcd/http__client_8hpp.html'')) (Items [
     Item (js ''HTTP_client'') (Some (js ''d7/d60/class_communication_1_1_h_t_t_p__client.html'')) (Lazy (js ''d7/d60/class_communication_1_1_h_t_t_p__client''))])]"

definition com__client_8hpp :: "nav_item list" where
  "com__client_8hpp = [
    Item (js ''Client'') (Some (js ''df/dcd/class_communication_1_1_client.html'')) (Lazy (js ''df/dcd/class_communication_1_1_client'')),
    Item (js ''Server'') (Some (js ''dc/db1/class_communication_1_1_server.html'')) (Lazy (js ''dc/db1/class_communication_1_1_server'')),
    Item (js ''CRLF'') (Some (js ''dc/d13/com__client_8hpp.html#a6cb23a858b0a21bdaa644b9181dc415f'')) NoData]"

definition dir_97aefd0d527b934f1d99a682da8fe6a9 :: "nav_item list" where
  "dir_97aefd0d527b934f1d99a682da8fe6a9 = [
    Item (js ''strANSIseq'') (Some (js ''dir_e7c96c2c740204929c097fd23996983c.html'')) (Lazy (js ''dir_e7c96c2c740204929c097fd23996983c''))]"

definition dir_e7c96c2c740204929c097fd23996983c :: "nav_item list" where
  "dir_e7c96c2c740204929c097fd23996983c = [
    Item (js ''include'') (Some (js ''dir_caab832a2bdf26d7f56e9ddf444490ee.html'')) (Lazy (js ''dir_caab832a2bdf26d7f56e9ddf444490ee'')),
    Item (js ''src'') (Some (js ''dir_5e9cc357fe3b3313ad16f661a338681c.html'')) (Lazy (js ''dir_5e9cc357fe3b3313ad16f661a338681c''))]"

definition dir_caab832a2bdf26d7f56e9ddf444490ee :: "nav_item list" where
  "dir_caab832a2bdf26d7f56e9ddf444490ee = [
    Item (js ''strANSIseq.hpp'') (Some (js ''df/df2/str_a_n_s_iseq_8hpp.html'')) (Lazy (js ''df/df2/str_a_n_s_iseq_8hpp''))]"

definition str_a_n_s_iseq_8hpp :: "nav_item list" where
  "str_a_n_s_iseq_8hpp = [
    Item (js ''CLI'') (Some (js ''dc/d44/class_e_s_c_1_1_c_l_i.html'')) (Lazy (js ''dc/d44/class_e_s_c_1_1_c_l_i'')),
    Item (js ''LOG'') (Some (js ''df/df2/str_a_n_s_iseq_8hpp.html#a3577749fb48d57a158b8ac1a0b3ab57e'')) NoData,
    Item (js ''FORMAT'') (Some (js ''df/df2/str_a_n_s_iseq_8hpp.html#a93c187b0ecaecc64127a1e7d211562a1'')) (Items [
     Item (js ''BOLD'') (Some (js ''df/df2/str_a_n_s_iseq_8hpp.html#a93c187b0ecaecc64127a1e7d211562a1a0949b3693d2401dfa4651b442a9c9551'')) NoData,
     Item (js ''DIM'') (Some (js ''df/df2/str_a_n_s_iseq_8hpp.html#a93c187b0ecaecc64127a1e7d211562a1a11a52229f2c02ac21863203a9649771d'')) NoData,
     Item (js ''ITALIC'') (Some (js ''df/df2/str_a_n_s_iseq_8hpp.html#a93c187b0ecaecc64127a1e7d211562a1ad7e062b99a6ddd60a225ecc7d10756b1'')) NoData,
     Item (js ''UNDERLINE'') (Some (js ''df/df2/str_a_n_s_iseq_8hpp.html#a93c187b0ecaecc64127a1e7d211562a1a1ea0683248f9953ca0713e5797ce17d1'')) NoData,
     Item (js ''BLINK_SLOW'') (Some (js ''df/df2/str_a_n_s_iseq_8hpp.html#a93c187b0ecaecc64127a1e7d211562a1a5bfaa69787e265bc37dca5b2b61c64a9'')) NoData,
     Item (js ''BLINK_FAST'') (Some (js ''df/df2/str_a_n_s_iseq_8hpp.html#a93c187b0ecaecc64127a1e7d211562a1a0af3dbb99fb41d75e60df73e7bab1fdd'')) NoData,
     Item (js ''REVERSE'') (Some (js ''df/df2/str_a_n_s_iseq_8hpp.html#a93c187b0ecaecc64127a1e7d211562a1a991c4d7703b3a4062d71ac80b047d0f6'')) NoData,
     Item (js ''HIDDEN'') (Some (js ''df/df2/str_a_n_s_iseq_8hpp.html#a93c187b0ecaecc64127a1e7d211562a1aa554b8e89b9c53e86096c1ee2dca2aae'')) NoData,
     Item (js ''STRIKE'') (Some (js ''df/df2/str_a_n_s_iseq_8hpp.html#a93c187b0ecaecc64127a1e7d211562a1a712e5fd9a5e6d3b6a565a22b7b6590b2'')) NoData,
     Item (js ''FG_BLACK'') (Some (js ''df/df2/str_a_n_s_iseq_8hpp.html#a93c187b0ecaecc64127a1e7d211562a1a5793314530aabf181b6d61339928a486'')) NoData,
     Item (js ''BG_BLACK'') (Some (js ''df/df2/str_a_n_s_iseq_8hpp.html#a93c187b0ecaecc64127a1e7d211562a1a2d6d9e4c4d26f775a2d2e0f5d4c2fee5'')) NoData,
     Item (js ''FG_RED'') (Some (js ''df/df2/str_a_n_s_iseq_8hpp.html#a93c187b0ecaecc64127a1e7d211562a1a51f33f01a9c1d72db09e6a9ac6ddb759'')) NoData,
     Item (js ''BG_RED'') (Some (js ''df/df2/str_a_n_s_iseq_8hpp.html#a93c187b0ecaecc64127a1e7d211562a1a9ca7916a80da428a5e295b0356e5ba91'')) NoData,
     Item (js ''FG_GREEN'') (Some (js ''df/df2/str_a_n_s_iseq_8hpp.html#a93c187b0ecaecc64127a1e7d211562a1a852050b53ec94746365cf503b9daf77c'')) NoData,
     Item (js ''BG_GREEN'') (Some (js ''df/df2/str_a_n_s_iseq_8hpp.html#a93c187b0ecaecc64127a1e7d211562a1adb93cd7891a72f8d7878e8ea39700b51'')) NoData,
     Item (js ''FG_YELLOW'') (Some (js ''df/df2/str_a_n_s_iseq_8hpp.html#a93c187b0ecaecc64127a1e7d211562a1a4407cb515758165608277ff094d8aa4e'')) NoData,
     Item (js ''BG_YELLOW'') (Some (js ''df/df2/str_a_n_s_iseq_8hpp.html#a93c187b0ecaecc64127a1e7d211562a1a3b8d384d180428029a6712830c9b01b7'')) NoData,
     Item (js ''FG_BLUE'') (Some (js ''df/df2/str_a_n_s_iseq_8hpp.html#a93c187b0ecaecc64127a1e7d211562a1a2c10a5323218ceb224ef379037cd7e0a'')) NoData,
     Item (js ''BG_BLUE'') (Some (js ''df/df2/str_a_n_s_iseq_8hpp.html#a93c187b0ecaecc64127a1e7d211562a1a560f8ec0e3a165bffd234986d419d93e'')) NoData,
     Item (js ''FG_MAGENTA'') (Some (js ''df/df2/str_a_n_s_iseq_8hpp.html#a93c187b0ecaecc64127a1e7d211562a1a080f5acc7b26dd8c82d66a410dcb003a'')) NoData,
     Item (js ''BG_MAGENTA'') (Some (js ''df/df2/str_a_n_s_iseq_8hpp.html#a93c187b0ecaecc64127a1e7d211562a1ac524cfac8f3b50f5d6ac8a2ce7ac0939'')) NoData,
     Item (js ''FG_CYAN'') (Some (js ''df/df2/str_a_n_s_iseq_8hpp.html#a93c187b0ecaecc64127a1e7d211562a1a1c482c45cb9fa67cb290cb6e17ca291d'')) NoData,
     Item (js ''BG_CYAN'') (Some (js ''df/df2/str_a_n_s_iseq_8hpp.html#a93c187b0ecaecc64127a1e7d211562a1a5c996890ffc321f6f95d51357fa2e00a'')) NoData,
     Item (js ''FG_WHITE'') (Some (js ''df/df2/str_a_n_s_iseq_8hpp.html#a93c187b0ecaecc64127a1e7d211562a1ae751c14d8a6185aa862011b31cef11ee'')) NoData,
     Item (js ''BG_WHITE'') (Some (js ''df/df2/str_a_n_s_iseq_8hpp.html#a93c187b0ecaecc64127a1e7d211562a1ae86ea0aceff2ecc297273593ef04d88a'')) NoData,
     Item (js ''FG_DEFAULT'') (Some (js ''df/df2/str_a_n_s_iseq_8hpp.html#a93c187b0ecaecc64127a1e7d211562a1afa9e18e6b89e7b527ac48cdeabb64955'')) NoData,
     Item (js ''BG_DEFAULT'') (Some (js ''df/df2/str_a_n_s_iseq_8hpp.html#a93c187b0ecaecc64127a1e7d211562a1a1b9e16c203595a107bc8ba10051e08d1'')) NoData]),
    Item (js ''fstr'') (Some (js ''df/df2/str_a_n_s_iseq_8hpp.html#a080ff5f5b8a2ed3567a541acfa69a425'')) NoData,
    Item (js ''fstr_link'') (Some (js ''df/df2/str_a_n_s_iseq_8hpp.html#a07d7fd8adc58054bde19b14556a8d945'')) NoData,
    Item (js ''fstr_n'') (Some (js ''df/df2/str_a_n_s_iseq_8hpp.html#a6f0f9c5cc6b334d09b6da6834c02af16'')) NoData,
    Item (js ''get_pos'') (Some (js ''df/df2/str_a_n_s_iseq_8hpp.html#a1ab0660788056c78944278261498664a'')) NoData,
    Item (js ''move_down'') (Some (js ''df/df2/str_a_n_s_iseq_8hpp.html#a0339f1bf272536a7645b373a503b4928'')) NoData,
    Item (js ''move_left'') (Some (js ''df/df2/str_a_n_s_iseq_8hpp.html#a231a32f47e8c90921259a47ce621b1cc'')) NoData,
    Item (js ''move_right'') (Some (js ''df/df2/str_a_n_s_iseq_8hpp.html#ac00ec90c2ccac2f1bcb6219b6f081ad5'')) NoData,
    Item (js ''move_to'') (Some (js ''df/df2/str_a_n_s_iseq_8hpp.html#aabdbbf48acbc97aadc974b67b8f65d49'')) NoData,
    Item (js ''move_type'') (Some (js ''df/df2/str_a_n_s_iseq_8hpp.html#a2dc320253a173af845d4317a62c45a6f'')) NoData,
    Item (js ''move_up'') (Some (js ''df/df2/str_a_n_s_iseq_8hpp.html#ab8b0eda8f8c0d37419c0435cad5230e0'')) NoData]"

definition dir_5e9cc357fe3b3313ad16f661a338681c :: "nav_item list" where
  "dir_5e9cc357fe3b3313ad16f661a338681c = [
    Item (js ''main.cpp'') (Some (js ''d0/d3f/lib_2str_a_n_s_iseq_2src_2main_8cpp.html'')) (Lazy (js ''d0/d3f/lib_2str_a_n_s_iseq_2src_2main_8cpp'')),
    Item (js ''strANSIseq.cpp'') (Some (js ''dd/d40/str_a_n_s_iseq_8cpp.html'')) (Lazy (js ''dd/d40/str_a_n_s_iseq_8cpp''))]"

definition lib_2str_a_n_s_iseq_2src_2main_8cpp :: "nav_item list" where
  "lib_2str_a_n_s_iseq_2src_2main_8cpp = [
    Item (js ''main'') (Some (js ''d0/d3f/lib_2str_a_n_s_iseq_2src_2main_8cpp.html#a3c04138a5bfe5d72780bb7e82a18e627'')) NoData]"

definition str_a_n_s_iseq_8cpp :: "nav_item list" where
  "str_a_n_s_iseq_8cpp = [
    Item (js ''fstr'') (Some (js ''dd/d40/str_a_n_s_iseq_8cpp.html#a080ff5f5b8a2ed3567a541acfa69a425'')) NoData,
    Item (js ''fstr_link'') (Some (js ''dd/d40/str_a_n_s_iseq_8cpp.html#a07d7fd8adc58054bde19b14556a8d945'')) NoData,
    Item (js ''get_pos'') (Some (js ''dd/d40/str_a_n_s_iseq_8cpp.html#a1ab0660788056c78944278261498664a'')) NoData,
    Item (js ''move_down'') (Some (js ''dd/d40/str_a_n_s_iseq_8cpp.html#a0339f1bf272536a7645b373a503b4928'')) NoData,
    Item (js ''move_left'') (Some (js ''dd/d40/str_a_n_s_iseq_8cpp.html#a231a32f47e8c90921259a47ce621b1cc'')) NoData,
    Item (js ''move_right'') (Some (js ''dd/d40/str_a_n_s_iseq_8cpp.html#ac00ec90c2ccac2f1bcb6219b6f081ad5'')) NoData,
    Item (js ''move_to'') (Some (js ''dd/d40/str_a_n_s_iseq_8cpp.html#aabdbbf48acbc97aadc974b67b8f65d49'')) NoData,
    Item (js ''move_type'') (Some (js ''dd/d40/str_a_n_s_iseq_8cpp.html#a2dc320253a173af845d4317a62c45a6f'')) NoData,
    Item (js ''move_up'') (Some (js ''dd/d40/str_a_n_s_iseq_8cpp.html#ab8b0eda8f8c0d37419c0435cad5230e0'')) NoData]"

definition dir_68267d1309a1af8e8297ef4c3efbcdba :: "nav_item list" where
  "dir_68267d1309a1af8e8297ef4c3efbcdba = [
    Item (js ''com_client.cpp'') (Some (js ''d8/da5/com__client_8cpp.html'')) NoData,
    Item (js ''http_client.cpp'') (Some (js ''d5/d08/http__client_8cpp.html'')) NoData,
    Item (js ''main.cpp'') (Some (js ''de/dfb/src_2main_8cpp.html'')) (Lazy (js ''de/dfb/src_2main_8cpp''))]"

definition src_2main_8cpp :: "nav_item list" where
  "src_2main_8cpp = [
    Item (js ''main'') (Some (js ''de/dfb/src_2main_8cpp.html#a3c04138a5bfe5d72780bb7e82a18e627'')) NoData]"

definition dir_e3e6a61ebba8fbca2913381c4bcfbd2b :: "nav_item list" where
  "dir_e3e6a61ebba8fbca2913381c4bcfbd2b = [
    Item (js ''built_lsl'') (Some (js ''dir_470f4625da3256ec4a5c2be4bd4f8658.html'')) (Lazy (js ''dir_470f4625da3256ec4a5c2be4bd4f8658''))]"

definition dir_470f4625da3256ec4a5c2be4bd4f8658 :: "nav_item list" where
  "dir_470f4625da3256ec4a5c2be4bd4f8658 = [
    Item (js ''include'') (Some (js ''dir_d623257484d3aadfc7ce1557f2d8c6b6.html'')) (Lazy (js ''dir_d623257484d3aadfc7ce1557f2d8c6b6''))]"

definition dir_d623257484d3aadfc7ce1557f2d8c6b6 :: "nav_item list" where
  "dir_d623257484d3aadfc7ce1557f2d8c6b6 = [
    Item (js ''lsl_c.h'') (Some (js ''db/df3/lsl__c_8h.html'')) (Lazy (js ''db/df3/lsl__c_8h'')),
    Item (js ''lsl_cpp.h'') (Some (js ''d1/d7c/lsl__cpp_8h.html'')) (Lazy (js ''d1/d7c/lsl__cpp_8h''))]"

definition lsl__c_8h_1 :: "nav_item list" where
  "lsl__c_8h_1 = [
    Item (js ''LIBLSL_C_API'') (Some (js ''db/df3/lsl__c_8h.html#aafd0ef1813e8be84a1420c4f1df64615'')) NoData,
    Item (js ''LIBLSL_COMPILE_HEADER_VERSION'') (Some (js ''db/df3/lsl__c_8h.html#a8575e959edab9eb4be131982dd260acd'')) NoData,
    Item (js ''LSL_DEDUCED_TIMESTAMP'') (Some (js ''db/df3/lsl__c_8h.html#a5282bfa3df16b30eb308375a45062cfc'')) NoData,
    Item (js ''LSL_FOREVER'') (Some (js ''db/df3/lsl__c_8h.html#a0416859f36f40e91d12cd07aafb34eaa'')) NoData,
    Item (js ''LSL_IRREGULAR_RATE'') (Some (js ''db/df3/lsl__c_8h.html#ab46eddb74ca540d49497330b132dbff1'')) NoData,
    Item (js ''LSL_NO_PREFERENCE'') (Some (js ''db/df3/lsl__c_8h.html#ab94fcb1a355dbfc31f9dd3e0d699e6d6'')) NoData,
    Item (js ''lsl_continuous_resolver'') (Some (js ''db/df3/lsl__c_8h.html#a78b224e996f3a73b35f4c5d73d721366'')) NoData,
    Item (js ''lsl_inlet'') (Some (js ''db/df3/lsl__c_8h.html#aff5474907fddf8b14300c79c9fda38e6'')) NoData,
    Item (js ''lsl_outlet'') (Some (js ''db/df3/lsl__c_8h.html#aef1212b6b2cd3e3747fd6e433c30e395'')) NoData,
    Item (js ''lsl_streaminfo'') (Some (js ''db/df3/lsl__c_8h.html#a6fd635c662a9c80840b53bd7c202499c'')) NoData,
    Item (js ''lsl_xml_ptr'') (Some (js ''db/df3/lsl__c_8h.html#ab174601268a7f0a9b60223510ba7d3b8'')) NoData,
    Item (js ''lsl_channel_format_t'') (Some (js ''db/df3/lsl__c_8h.html#ad346feb32bddd136c3f7797e45047754'')) (Items [
     Item (js ''cft_float32'') (Some (js ''db/df3/lsl__c_8h.html#ad346feb32bddd136c3f7797e45047754a0548a6d8aa4e05f6195b7d7667b1a708'')) NoData,
     Item (js ''cft_double64'') (Some (js ''db/df3/lsl__c_8h.html#ad346feb32bddd136c3f7797e45047754a3286e5e97a2240d0fc4375e6eaf26291'')) NoData,
     Item (js ''cft_string'') (Some (js ''db/df3/lsl__c_8h.html#ad346feb32bddd136c3f7797e45047754a8353906afd3439e2f9dc504f571a724d'')) NoData,
     Item (js ''cft_int32'') (Some (js ''db/df3/lsl__c_8h.html#ad346feb32bddd136c3f7797e45047754a2048ca1d716016ec3439711eaf352652'')) NoData,
     Item (js ''cft_int16'') (Some (js ''db/df3/lsl__c_8h.html#ad346feb32bddd136c3f7797e45047754ab0af40c86cf7de7ff94f52006f924f3b'')) NoData,
     Item (js ''cft_int8'') (Some (js ''db/df3/lsl__c_8h.html#ad346feb32bddd136c3f7797e45047754a1b18c0e17a470b9e3bcff23cf49b8d6b'')) NoData,
     Item (js ''cft_int64'') (Some (js ''db/df3/lsl__c_8h.html#ad346feb32bddd136c3f7797e45047754a90aad2d18937be799aca56fe80794aa5'')) NoData,
     Item (js ''cft_undefined'') (Some (js ''db/df3/lsl__c_8h.html#ad346feb32bddd136c3f7797e45047754a0cbaf0c7054a57713970489abab7fb85'')) NoData]),
    Item (js ''lsl_error_code_t'') (Some (js ''db/df3/lsl__c_8h.html#a0be58f7d496eb06924ee1825219c6e50'')) (Items [
     Item (js ''lsl_no_error'') (Some (js ''db/df3/lsl__c_8h.html#a0be58f7d496eb06924ee1825219c6e50ae6bc06b8e33c37c36c1edae45b4778c1'')) NoData,
     Item (js ''lsl_timeout_error'') (Some (js ''db/df3/lsl__c_8h.html#a0be58f7d496eb06924ee1825219c6e50a41650b5604c0b7392b79d383a7f59a68'')) NoData,
     Item (js ''lsl_lost_error'') (Some (js ''db/df3/lsl__c_8h.html#a0be58f7d496eb06924ee1825219c6e50aa463db40788d297314191e0b41081feb'')) NoData,
     Item (js ''lsl_argument_error'') (Some (js ''db/df3/lsl__c_8h.html#a0be58f7d496eb06924ee1825219c6e50ad4626ba223d8c0b1535074752b0a0463'')) NoData,
     Item (js ''lsl_internal_error'') (Some (js ''db/df3/lsl__c_8h.html#a0be58f7d496eb06924ee1825219c6e50a600b03c28953fa600d6c4e544a14fd99'')) NoData]),
    Item (js ''lsl_processing_options_t'') (Some (js ''db/df3/lsl__c_8h.html#a9246faefd09869849b726df268042333'')) (Items [
     Item (js ''proc_none'') (Some (js ''db/df3/lsl__c_8h.html#a9246faefd09869849b726df268042333a10e08b294e3583a6e1892da753137445'')) NoData,
     Item (js ''proc_clocksync'') (Some (js ''db/df3/lsl__c_8h.html#a9246faefd09869849b726df268042333ae6bdb3d07024fa143a22417546496828'')) NoData,
     Item (js ''proc_dejitter'') (Some (js ''db/df3/lsl__c_8h.html#a9246faefd09869849b726df268042333a21f46ef0bbdba358fabe116ae1559c87'')) NoData,
     Item (js ''proc_monotonize'') (Some (js ''db/df3/lsl__c_8h.html#a9246faefd09869849b726df268042333ad36e527d8a75f2ef42d48311bbd605c7'')) NoData,
     Item (js ''proc_threadsafe'') (Some (js ''db/df3/lsl__c_8h.html#a9246faefd09869849b726df268042333af3444351bc66b5a0a8a758774de84438'')) NoData,
     Item (js ''proc_ALL'') (Some (js ''db/df3/lsl__c_8h.html#a9246faefd09869849b726df268042333ae75b6de5e0af2a7c1377c11fafefbb02'')) NoData]),
    Item (js ''lsl_append_child'') (Some (js ''db/df3/lsl__c_8h.html#a55229fcb1ff8d014f5459ee9526bc58a'')) NoData,
    Item (js ''lsl_append_child_value'') (Some (js ''db/df3/lsl__c_8h.html#afb51a7b796ce958254c209e2dbca2453'')) NoData,
    Item (js ''lsl_append_copy'') (Some (js ''db/df3/lsl__c_8h.html#abc52ee7be11ed9788f5c82d157e0c1c1'')) NoData,
    Item (js ''lsl_child'') (Some (js ''db/df3/lsl__c_8h.html#a6e9680f770d8459406698ce71a76790c'')) NoData,
    Item (js ''lsl_child_value'') (Some (js ''db/df3/lsl__c_8h.html#af1a263d9c5182a79fdbbbcd7067d6a93'')) NoData,
    Item (js ''lsl_child_value_n'') (Some (js ''db/df3/lsl__c_8h.html#a6c36a5f5c61bb996f7dd1776283a8989'')) NoData,
    Item (js ''lsl_close_stream'') (Some (js ''db/df3/lsl__c_8h.html#a36fa9d4e9c7c817547decef38cd9e07e'')) NoData,
    Item (js ''lsl_copy_streaminfo'') (Some (js ''db/df3/lsl__c_8h.html#a4514f8ed63874d11e756a59d99b0326d'')) NoData,
    Item (js ''lsl_create_continuous_resolver'') (Some (js ''db/df3/lsl__c_8h.html#a648855a9dfc987afa399260f149034b9'')) NoData,
    Item (js ''lsl_create_continuous_resolver_bypred'') (Some (js ''db/df3/lsl__c_8h.html#a15e67770c35aee6028082d73cda42fee'')) NoData,
    Item (js ''lsl_create_continuous_resolver_byprop'') (Some (js ''db/df3/lsl__c_8h.html#a9e5585ae34b000bcad7a3ea5ab36a0e1'')) NoData,
    Item (js ''lsl_create_inlet'') (Some (js ''db/df3/lsl__c_8h.html#ae293c3b20d52135ebf3e3ee9cb25c364'')) NoData,
    Item (js ''lsl_create_outlet'') (Some (js ''db/df3/lsl__c_8h.html#a22a7097dedf222014e6b878f3870b0fa'')) NoData,
    Item (js ''lsl_create_streaminfo'') (Some (js ''db/df3/lsl__c_8h.html#ad84630a74d54a33c972daa18feb78c9d'')) NoData,
    Item (js ''lsl_destroy_continuous_resolver'') (Some (js ''db/df3/lsl__c_8h.html#a53de14eb7cebcda0a32a545e4759ce3f'')) NoData,
    Item (js ''lsl_destroy_inlet'') (Some (js ''db/df3/lsl__c_8h.html#a3d5fb80bb339d9590959327802d9f869'')) NoData,
    Item (js ''lsl_destroy_outlet'') (Some (js ''db/df3/lsl__c_8h.html#a0588f316a9e406e61f1507d8f756529f'')) NoData,
    Item (js ''lsl_destroy_streaminfo'') (Some (js ''db/df3/lsl__c_8h.html#aaa63607a0162e2ab9e62dffc7874d716'')) NoData,
    Item (js ''lsl_destroy_string'') (Some (js ''db/df3/lsl__c_8h.html#addeff0a60f446e7f43770eb1f5e30f84'')) NoData,
    Item (js ''lsl_empty'') (Some (js ''db/df3/lsl__c_8h.html#a2461080c7a369e91c1ac1ee24c217d4f'')) NoData,
    Item (js ''lsl_first_child'') (Some (js ''db/df3/lsl__c_8h.html#acffa311b660404321a2e00b9cd4e495f'')) NoData,
    Item (js ''lsl_get_channel_bytes'') (Some (js ''db/df3/lsl__c_8h.html#ace8095ccb59a3857b0ff42511c72ff9a'')) NoData,
    Item (js ''lsl_get_channel_count'') (Some (js ''db/df3/lsl__c_8h.html#a5a736ebd5f1fbbd26dc5f66dcdd4edd1'')) NoData,
    Item (js ''lsl_get_channel_format'') (Some (js ''db/df3/lsl__c_8h.html#aa85ef584982dd371ca580e5103cef633'')) NoData,
    Item (js ''lsl_get_created_at'') (Some (js ''db/df3/lsl__c_8h.html#aae3594f14dbcf50ea012d89403f5d57c'')) NoData,
    Item (js ''lsl_get_desc'') (Some (js ''db/df3/lsl__c_8h.html#afef7ba2a6124b285f4568af0cf200420'')) NoData,
    Item (js ''lsl_get_fullinfo'') (Some (js ''db/df3/lsl__c_8h.html#a5517cad6ae3f24aa079a0f2a67654226'')) NoData,
    Item (js ''lsl_get_hostname'') (Some (js ''db/df3/lsl__c_8h.html#ab517961395988205f230c14c94cf9506'')) NoData,
    Item (js ''lsl_get_info'') (Some (js ''db/df3/lsl__c_8h.html#ac3d742ffc5b4f8a941835df6d2369547'')) NoData,
    Item (js ''lsl_get_name'') (Some (js ''db/df3/lsl__c_8h.html#a86691767b61f0731a3e0668efd42c224'')) NoData,
    Item (js ''lsl_get_nominal_srate'') (Some (js ''db/df3/lsl__c_8h.html#a52b66d7a75574d98e8709d1734fdd113'')) NoData,
    Item (js ''lsl_get_sample_bytes'') (Some (js ''db/df3/lsl__c_8h.html#ac0ce4de263cd07fc4e3b1808e784693f'')) NoData,
    Item (js ''lsl_get_session_id'') (Some (js ''db/df3/lsl__c_8h.html#a66b17ecf6f20b0d5d8f1ed78080515ba'')) NoData,
    Item (js ''lsl_get_source_id'') (Some (js ''db/df3/lsl__c_8h.html#a98b8df791e7e9d415098aafcb06b3d93'')) NoData,
    Item (js ''lsl_get_type'') (Some (js ''db/df3/lsl__c_8h.html#a8f6958b1292ad3b59157c290bfce552d'')) NoData,
    Item (js ''lsl_get_uid'') (Some (js ''db/df3/lsl__c_8h.html#a381b60fcb6379eacda3276218751290c'')) NoData,
    Item (js ''lsl_get_version'') (Some (js ''db/df3/lsl__c_8h.html#a4c8de5b8ac7e0c9400082a90b398a9e6'')) NoData,
    Item (js ''lsl_get_xml'') (Some (js ''db/df3/lsl__c_8h.html#a620092f125b45938623229fee3a366f9'')) NoData,
    Item (js ''lsl_have_consumers'') (Some (js ''db/df3/lsl__c_8h.html#a7f9691f7d2fd38874cefb8e2d75084db'')) NoData,
    Item (js ''lsl_is_text'') (Some (js ''db/df3/lsl__c_8h.html#a885c3584f6f6068680bb2b61ebf387e5'')) NoData,
    Item (js ''lsl_last_child'') (Some (js ''db/df3/lsl__c_8h.html#ac15f1512c5195e6d671d49a17885e119'')) NoData,
    Item (js ''lsl_library_info'') (Some (js ''db/df3/lsl__c_8h.html#ab5f5986ebe4bbf87d97d299b0c1213ea'')) NoData,
    Item (js ''lsl_library_version'') (Some (js ''db/df3/lsl__c_8h.html#a43f78dccab0a194c987b357a870e9fae'')) NoData,
    Item (js ''lsl_local_clock'') (Some (js ''db/df3/lsl__c_8h.html#ab5830dfa3831a239eabae33504633849'')) NoData,
    Item (js ''lsl_name'') (Some (js ''db/df3/lsl__c_8h.html#a5af95d29948ec4e56242dcf24d8c974c'')) NoData,
    Item (js ''lsl_next_sibling'') (Some (js ''db/df3/lsl__c_8h.html#a40490a0b61d90e5ecbc3265098818851'')) NoData,
    Item (js ''lsl_next_sibling_n'') (Some (js ''db/df3/lsl__c_8h.html#aea479a05659e31e6248597ac04d189ea'')) NoData,
    Item (js ''lsl_open_stream'') (Some (js ''db/df3/lsl__c_8h.html#a50d0fd7851d0c963c18b5793da161aa4'')) NoData,
    Item (js ''lsl_parent'') (Some (js ''db/df3/lsl__c_8h.html#ad64f4e486c676d088eee07776dd12fac'')) NoData,
    Item (js ''lsl_prepend_child'') (Some (js ''db/df3/lsl__c_8h.html#a7c11ff3b7dc0d5f18d51f0104ac6e281'')) NoData,
    Item (js ''lsl_prepend_child_value'') (Some (js ''db/df3/lsl__c_8h.html#a2af93b773f826f19f1a9dd28d5db0fd9'')) NoData,
    Item (js ''lsl_prepend_copy'') (Some (js ''db/df3/lsl__c_8h.html#a7ac39c444784b1956929937d983a27ff'')) NoData,
    Item (js ''lsl_previous_sibling'') (Some (js ''db/df3/lsl__c_8h.html#a8331a69a3ea3978a1f04e80e6234a4c8'')) NoData,
    Item (js ''lsl_previous_sibling_n'') (Some (js ''db/df3/lsl__c_8h.html#a9a6e5c2bcf2aa1555c30996d536e53ad'')) NoData,
    Item (js ''lsl_protocol_version'') (Some (js ''db/df3/lsl__c_8h.html#a41474948cae5d78c552e3a98d5ecd5bc'')) NoData,
    Item (js ''lsl_pull_chunk_buf'') (Some (js ''db/df3/lsl__c_8h.html#abc993331c3f01c1d3ebb06e69821b009'')) NoData,
    Item (js ''lsl_pull_chunk_c'') (Some (js ''db/df3/lsl__c_8h.html#a0d7adeba028fb332270548faec0c61a1'')) NoData,
    Item (js ''lsl_pull_chunk_d'') (Some (js ''db/df3/lsl__c_8h.html#a8eaeec5c8e913bd5eb1e3419a4f56e31'')) NoData,
    Item (js ''lsl_pull_chunk_f'') (Some (js ''db/df3/lsl__c_8h.html#af605351d94ec7523858646b10dbfbbd2'')) NoData,
    Item (js ''lsl_pull_chunk_i'') (Some (js ''db/df3/lsl__c_8h.html#a819b6e50f2ba340686fb5d537a2548b8'')) NoData,
    Item (js ''lsl_pull_chunk_l'') (Some (js ''db/df3/lsl__c_8h.html#af1a8ca4c78fcf8571d811131ca479ba8'')) NoData,
    Item (js ''lsl_pull_chunk_s'') (Some (js ''db/df3/lsl__c_8h.html#ab0b1ae6dcb03612f18aa37e7aef2b2e0'')) NoData,
    Item (js ''lsl_pull_chunk_str'') (Some (js ''db/df3/lsl__c_8h.html#a3715850e6e31ed2f6b0767aa42589478'')) NoData,
    Item (js ''lsl_pull_sample_buf'') (Some (js ''db/df3/lsl__c_8h.html#a356ab88fcd5f5c52a95549b1c8c2d4ed'')) NoData,
    Item (js ''lsl_pull_sample_c'') (Some (js ''db/df3/lsl__c_8h.html#a58d27f330e42ef40c7b2124a396d65de'')) NoData,
    Item (js ''lsl_pull_sample_d'') (Some (js ''db/df3/lsl__c_8h.html#a4ccd428e2def15780552ab5550d2efaa'')) NoData,
    Item (js ''lsl_pull_sample_f'') (Some (js ''db/df3/lsl__c_8h.html#af9e8d161e2cc70ffbf9443083ff5d33d'')) NoData,
    Item (js ''lsl_pull_sample_i'') (Some (js ''db/df3/lsl__c_8h.html#a4404040430341459d37fdde84b590cba'')) NoData,
    Item (js ''lsl_pull_sample_l'') (Some (js ''db/df3/lsl__c_8h.html#a7d4458adb9735400f666935f977e03f5'')) NoData,
    Item (js ''lsl_pull_sample_s'') (Some (js ''db/df3/lsl__c_8h.html#a96bba791d4bb29acc1b0d9428a6b5edd'')) NoData,
    Item (js ''lsl_pull_sample_str'') (Some (js ''db/df3/lsl__c_8h.html#a9e191a0b0bac97c3f440c553241a623b'')) NoData,
    Item (js ''lsl_pull_sample_v'') (Some (js ''db/df3/lsl__c_8h.html#a0574687b034da933fb4832caa3d04f92'')) NoData,
    Item (js ''lsl_push_chunk_buf'') (Some (js ''db/df3/lsl__c_8h.html#a51f3632a013dff65898f168529a70b07'')) NoData,
    Item (js ''lsl_push_chunk_buft'') (Some (js ''db/df3/lsl__c_8h.html#a2bb75ed52221f51f0bbb6bcbcd5049e4'')) NoData,
    Item (js ''lsl_push_chunk_buftn'') (Some (js ''db/df3/lsl__c_8h.html#ad0b8e9c8e62e471dfbc098f4293d6ece'')) NoData,
    Item (js ''lsl_push_chunk_buftnp'') (Some (js ''db/df3/lsl__c_8h.html#a6a1f820184a78a8a1b09a87a98c8dba5'')) NoData]"

definition lsl__c_8h_2 :: "nav_item list" where
  "lsl__c_8h_2 = [
    Item (js ''lsl_push_chunk_buftp'') (Some (js ''db/df3/lsl__c_8h.html#a5c391ee5eed07954daea0791fe2335fb'')) NoData,
    Item (js ''lsl_push_chunk_c'') (Some (js ''db/df3/lsl__c_8h.html#a43928c1354e8539b4d9b40310912e9c1'')) NoData,
    Item (js ''lsl_push_chunk_ct'') (Some (js ''db/df3/lsl__c_8h.html#a864e000ed999639b3ba785cd6a076c52'')) NoData,
    Item (js ''lsl_push_chunk_ctn'') (Some (js ''db/df3/lsl__c_8h.html#a504a4265f1cd530d141f92d1459f8fd2'')) NoData,
    Item (js ''lsl_push_chunk_ctnp'') (Some (js ''db/df3/lsl__c_8h.html#a3f6a22c686a346da77e03863b26c3fe9'')) NoData,
    Item (js ''lsl_push_chunk_ctp'') (Some (js ''db/df3/lsl__c_8h.html#a8e049d82680d0fb6f803b9c604567516'')) NoData,
    Item (js ''lsl_push_chunk_d'') (Some (js ''db/df3/lsl__c_8h.html#a227534e78fd4bbdf473ad7796da49377'')) NoData,
    Item (js ''lsl_push_chunk_dt'') (Some (js ''db/df3/lsl__c_8h.html#a5a201ecffb48729d0eb0e51dba539a23'')) NoData,
    Item (js ''lsl_push_chunk_dtn'') (Some (js ''db/df3/lsl__c_8h.html#a0d9396b1e4a12269d480762151e085f7'')) NoData,
    Item (js ''lsl_push_chunk_dtnp'') (Some (js ''db/df3/lsl__c_8h.html#a23a41b710063ea717b411255af956c8c'')) NoData,
    Item (js ''lsl_push_chunk_dtp'') (Some (js ''db/df3/lsl__c_8h.html#a1e444e438b037d8a1363b1a74568976c'')) NoData,
    Item (js ''lsl_push_chunk_f'') (Some (js ''db/df3/lsl__c_8h.html#a191171b4aae05abeae2d4172fc500795'')) NoData,
    Item (js ''lsl_push_chunk_ft'') (Some (js ''db/df3/lsl__c_8h.html#a80f314d925564890ee64b1c2a699bdb0'')) NoData,
    Item (js ''lsl_push_chunk_ftn'') (Some (js ''db/df3/lsl__c_8h.html#a4a39988b3987aa24d85f6f243c9cec9b'')) NoData,
    Item (js ''lsl_push_chunk_ftnp'') (Some (js ''db/df3/lsl__c_8h.html#ac81be759a83eb75c357bfb820e83cd12'')) NoData,
    Item (js ''lsl_push_chunk_ftp'') (Some (js ''db/df3/lsl__c_8h.html#a91a947d9280a61e1e5e73d166a259385'')) NoData,
    Item (js ''lsl_push_chunk_i'') (Some (js ''db/df3/lsl__c_8h.html#ae0a4be2d1a0c02e8b065710d005e9c7a'')) NoData,
    Item (js ''lsl_push_chunk_it'') (Some (js ''db/df3/lsl__c_8h.html#a0ae72ee5f88fe45e1fdb04ccf8d38ef3'')) NoData,
    Item (js ''lsl_push_chunk_itn'') (Some (js ''db/df3/lsl__c_8h.html#a4745191dd3eef55e228ad39275bf937c'')) NoData,
    Item (js ''lsl_push_chunk_itnp'') (Some (js ''db/df3/lsl__c_8h.html#a50600b670f8e2a5be27cb7b6eca885f9'')) NoData,
    Item (js ''lsl_push_chunk_itp'') (Some (js ''db/df3/lsl__c_8h.html#a5f16f396ea43fafbad67f8cbc11cba15'')) NoData,
    Item (js ''lsl_push_chunk_l'') (Some (js ''db/df3/lsl__c_8h.html#af289f8a4f5efff22d10375a1bfc35f32'')) NoData,
    Item (js ''lsl_push_chunk_lt'') (Some (js ''db/df3/lsl__c_8h.html#aea5a6d89b758f61045830cb0f9d692b4'')) NoData,
    Item (js ''lsl_push_chunk_ltn'') (Some (js ''db/df3/lsl__c_8h.html#ab647f7d988094c0f18d66619c4a93e68'')) NoData,
    Item (js ''lsl_push_chunk_ltnp'') (Some (js ''db/df3/lsl__c_8h.html#a005657d00b4c10bcf9dbb0d603dd7494'')) NoData,
    Item (js ''lsl_push_chunk_ltp'') (Some (js ''db/df3/lsl__c_8h.html#a7991bcb18cd7dbe8722716e2c3fb4924'')) NoData,
    Item (js ''lsl_push_chunk_s'') (Some (js ''db/df3/lsl__c_8h.html#a3ce11253225a50b371cc1f33a348271f'')) NoData,
    Item (js ''lsl_push_chunk_st'') (Some (js ''db/df3/lsl__c_8h.html#a8b8ee567d1f8adf3816f0c58a7c311da'')) NoData,
    Item (js ''lsl_push_chunk_stn'') (Some (js ''db/df3/lsl__c_8h.html#a7cc5ac6b271cc9b2afa180604faa91ef'')) NoData,
    Item (js ''lsl_push_chunk_stnp'') (Some (js ''db/df3/lsl__c_8h.html#a627538d2845775b858ad795745aacc3d'')) NoData,
    Item (js ''lsl_push_chunk_stp'') (Some (js ''db/df3/lsl__c_8h.html#a8a64b224cd72b7226005e5dbe8c7c671'')) NoData,
    Item (js ''lsl_push_chunk_str'') (Some (js ''db/df3/lsl__c_8h.html#adc2bfcb8e80b50c8ee271d85f290385c'')) NoData,
    Item (js ''lsl_push_chunk_strt'') (Some (js ''db/df3/lsl__c_8h.html#a75428ff735a620f5bf39ced8528b8172'')) NoData,
    Item (js ''lsl_push_chunk_strtn'') (Some (js ''db/df3/lsl__c_8h.html#a744c9f9300c75ab285b6fb4c3eedb89d'')) NoData,
    Item (js ''lsl_push_chunk_strtnp'') (Some (js ''db/df3/lsl__c_8h.html#a5a39973a0ed113c792653f8782b29906'')) NoData,
    Item (js ''lsl_push_chunk_strtp'') (Some (js ''db/df3/lsl__c_8h.html#a337c1cf22b439b511e8ee6238189f7d6'')) NoData,
    Item (js ''lsl_push_sample_buf'') (Some (js ''db/df3/lsl__c_8h.html#a2e1505acff3a75a3e93a60ef4684456b'')) NoData,
    Item (js ''lsl_push_sample_buft'') (Some (js ''db/df3/lsl__c_8h.html#a8b8ed17844fa3b269ac65b51c3cac7c5'')) NoData,
    Item (js ''lsl_push_sample_buftp'') (Some (js ''db/df3/lsl__c_8h.html#aa9716749d011b4f5c74e3eb4b7f86e6b'')) NoData,
    Item (js ''lsl_push_sample_c'') (Some (js ''db/df3/lsl__c_8h.html#abac187f58d92db9130d18139d72064a9'')) NoData,
    Item (js ''lsl_push_sample_ct'') (Some (js ''db/df3/lsl__c_8h.html#a3d8187c61f5dd8471e5c00610103cdee'')) NoData,
    Item (js ''lsl_push_sample_ctp'') (Some (js ''db/df3/lsl__c_8h.html#a79cca3f3f75ae677d973758b8cfd8295'')) NoData,
    Item (js ''lsl_push_sample_d'') (Some (js ''db/df3/lsl__c_8h.html#ae44e19988a72b422344711d5017cb420'')) NoData,
    Item (js ''lsl_push_sample_dt'') (Some (js ''db/df3/lsl__c_8h.html#a224bb668fb637074adbcf301208c3052'')) NoData,
    Item (js ''lsl_push_sample_dtp'') (Some (js ''db/df3/lsl__c_8h.html#af3604739246b9b9175b990eb74fbe183'')) NoData,
    Item (js ''lsl_push_sample_f'') (Some (js ''db/df3/lsl__c_8h.html#aad62f3e27452d2944cd8cb443fc11741'')) NoData,
    Item (js ''lsl_push_sample_ft'') (Some (js ''db/df3/lsl__c_8h.html#af0f78c4ea3b891919666047bf1bdbc90'')) NoData,
    Item (js ''lsl_push_sample_ftp'') (Some (js ''db/df3/lsl__c_8h.html#a03d1dce2aaa12d3787d0f501c50fe06f'')) NoData,
    Item (js ''lsl_push_sample_i'') (Some (js ''db/df3/lsl__c_8h.html#aa08759dc9e3d361fbc26557fc7a42279'')) NoData,
    Item (js ''lsl_push_sample_it'') (Some (js ''db/df3/lsl__c_8h.html#a2a69d88399fded37ac1f83a76255b464'')) NoData,
    Item (js ''lsl_push_sample_itp'') (Some (js ''db/df3/lsl__c_8h.html#a2b4dd3c7f41dd81766cdbfe7048fabd9'')) NoData,
    Item (js ''lsl_push_sample_l'') (Some (js ''db/df3/lsl__c_8h.html#a1a0f09509cfc4e87346a15216fa852c6'')) NoData,
    Item (js ''lsl_push_sample_lt'') (Some (js ''db/df3/lsl__c_8h.html#a6e502508ea597c9f9a4a129cddd4e799'')) NoData,
    Item (js ''lsl_push_sample_ltp'') (Some (js ''db/df3/lsl__c_8h.html#ab3acfb108aa4260818588e75d61307c2'')) NoData,
    Item (js ''lsl_push_sample_s'') (Some (js ''db/df3/lsl__c_8h.html#abc5a012ac671893b58d38d81b4433520'')) NoData,
    Item (js ''lsl_push_sample_st'') (Some (js ''db/df3/lsl__c_8h.html#a3b6c842b79ce6040d5fae9ee5b06a705'')) NoData,
    Item (js ''lsl_push_sample_stp'') (Some (js ''db/df3/lsl__c_8h.html#a9a8d74a7fef9cdf68bd3a1ecf76109fa'')) NoData,
    Item (js ''lsl_push_sample_str'') (Some (js ''db/df3/lsl__c_8h.html#a70a523aded3aaa76ba81aeaebb22e8df'')) NoData,
    Item (js ''lsl_push_sample_strt'') (Some (js ''db/df3/lsl__c_8h.html#a281c387af4465c231abb4daed25431b3'')) NoData,
    Item (js ''lsl_push_sample_strtp'') (Some (js ''db/df3/lsl__c_8h.html#a72938aad4ca7af001b8a3d8d2d64fa2d'')) NoData,
    Item (js ''lsl_push_sample_v'') (Some (js ''db/df3/lsl__c_8h.html#a9af4120da145ae6ebb904ad0b3bc1b43'')) NoData,
    Item (js ''lsl_push_sample_vt'') (Some (js ''db/df3/lsl__c_8h.html#a32e4ed2d5e4d064460f88d06fdc0b2d8'')) NoData,
    Item (js ''lsl_push_sample_vtp'') (Some (js ''db/df3/lsl__c_8h.html#ac6eb5ec72140ba4ae26c80112ccaac52'')) NoData,
    Item (js ''lsl_remove_child'') (Some (js ''db/df3/lsl__c_8h.html#af350135b29fa2aa538f8d3133b7a5ab7'')) NoData,
    Item (js ''lsl_remove_child_n'') (Some (js ''db/df3/lsl__c_8h.html#a854a222cf8909b0b7ec901adbd5f6b13'')) NoData,
    Item (js ''lsl_resolve_all'') (Some (js ''db/df3/lsl__c_8h.html#ac9b53eec106d81130b5aa2341ecf8bd2'')) NoData,
    Item (js ''lsl_resolve_bypred'') (Some (js ''db/df3/lsl__c_8h.html#a0effb3c0c3ea96a144d3f13265d7d588'')) NoData,
    Item (js ''lsl_resolve_byprop'') (Some (js ''db/df3/lsl__c_8h.html#ac704c51be54e926f6dcc8dc7d04d8b8b'')) NoData,
    Item (js ''lsl_resolver_results'') (Some (js ''db/df3/lsl__c_8h.html#aa48e803c7206a2b9a9154486c8b59d3e'')) NoData,
    Item (js ''lsl_samples_available'') (Some (js ''db/df3/lsl__c_8h.html#ac2fa5d87f7c6c5343ab9a6f678229f62'')) NoData,
    Item (js ''lsl_set_child_value'') (Some (js ''db/df3/lsl__c_8h.html#ad8c1b9bd37107e1b19b0f7b6ea4c4bc5'')) NoData,
    Item (js ''lsl_set_name'') (Some (js ''db/df3/lsl__c_8h.html#a339bd96520acc8d5c42fc3c5ab79fa45'')) NoData,
    Item (js ''lsl_set_postprocessing'') (Some (js ''db/df3/lsl__c_8h.html#a45543d906bb6b91b375e6c170da9d254'')) NoData,
    Item (js ''lsl_set_value'') (Some (js ''db/df3/lsl__c_8h.html#aa856d09f05c334cb8472fefea485de1f'')) NoData,
    Item (js ''lsl_smoothing_halftime'') (Some (js ''db/df3/lsl__c_8h.html#a1cdbc26daae8f03a632bbc69ca7262c5'')) NoData,
    Item (js ''lsl_stream_info_matches_query'') (Some (js ''db/df3/lsl__c_8h.html#a8e0d0447b9598bfe0e46a6166de51cc3'')) NoData,
    Item (js ''lsl_streaminfo_from_xml'') (Some (js ''db/df3/lsl__c_8h.html#a2d42a5d991505811d98ba04c6319f41b'')) NoData,
    Item (js ''lsl_time_correction'') (Some (js ''db/df3/lsl__c_8h.html#a8cc9b06f96e96be28e417c5b21350e4f'')) NoData,
    Item (js ''lsl_time_correction_ex'') (Some (js ''db/df3/lsl__c_8h.html#a55bca1a4bdd96a5e8bc967c3a2ff1dab'')) NoData,
    Item (js ''lsl_value'') (Some (js ''db/df3/lsl__c_8h.html#a96ec833e4b9e6ee9c263bd903f2f7241'')) NoData,
    Item (js ''lsl_wait_for_consumers'') (Some (js ''db/df3/lsl__c_8h.html#a0be546ad8637f4a2fd5aee4d5bae2401'')) NoData,
    Item (js ''lsl_was_clock_reset'') (Some (js ''db/df3/lsl__c_8h.html#ae54c0127325dd0bb977a481533e8ecb9'')) NoData]"

definition lsl__c_8h :: "nav_item list" where
  "lsl__c_8h = lsl__c_8h_1 @ lsl__c_8h_2"

definition lsl__cpp_8h :: "nav_item list" where
  "lsl__cpp_8h = [
    Item (js ''stream_info'') (Some (js ''d1/d6a/classlsl_1_1stream__info.html'')) (Lazy (js ''d1/d6a/classlsl_1_1stream__info'')),
    Item (js ''stream_outlet'') (Some (js ''d6/d55/classlsl_1_1stream__outlet.html'')) (Lazy (js ''d6/d55/classlsl_1_1stream__outlet'')),
    Item (js ''stream_inlet'') (Some (js ''d6/dbd/classlsl_1_1stream__inlet.html'')) (Lazy (js ''d6/dbd/classlsl_1_1stream__inlet'')),
    Item (js ''xml_element'') (Some (js ''d9/d90/classlsl_1_1xml__element.html'')) (Lazy (js ''d9/d90/classlsl_1_1xml__element'')),
    Item (js ''continuous_resolver'') (Some (js ''d4/d27/classlsl_1_1continuous__resolver.html'')) (Lazy (js ''d4/d27/classlsl_1_1continuous__resolver'')),
    Item (js ''lost_error'') (Some (js ''de/d94/classlsl_1_1lost__error.html'')) (Lazy (js ''de/d94/classlsl_1_1lost__error'')),
    Item (js ''timeout_error'') (Some (js ''d4/d01/classlsl_1_1timeout__error.html'')) (Lazy (js ''d4/d01/classlsl_1_1timeout__error'')),
    Item (js ''channel_format_t'') (Some (js ''d1/d7c/lsl__cpp_8h.html#a28d50dae6fd82eea8893ce3d63ccd46c'')) (Items [
     Item (js ''cf_float32'') (Some (js ''d1/d7c/lsl__cpp_8h.html#a28d50dae6fd82eea8893ce3d63ccd46ca46efa3307b337f7de592753642584616'')) NoData,
     Item (js ''cf_double64'') (Some (js ''d1/d7c/lsl__cpp_8h.html#a28d50dae6fd82eea8893ce3d63ccd46cab11213c3d307faf6ef734633ac732eb7'')) NoData,
     Item (js ''cf_string'') (Some (js ''d1/d7c/lsl__cpp_8h.html#a28d50dae6fd82eea8893ce3d63ccd46caedadbd6437a22628678edaf287c87048'')) NoData,
     Item (js ''cf_int32'') (Some (js ''d1/d7c/lsl__cpp_8h.html#a28d50dae6fd82eea8893ce3d63ccd46ca526ce3ccb97e3bb75d913c60ad56c26d'')) NoData,
     Item (js ''cf_int16'') (Some (js ''d1/d7c/lsl__cpp_8h.html#a28d50dae6fd82eea8893ce3d63ccd46ca5c625662462c8a30454f6f7f0520e79c'')) NoData,
     Item (js ''cf_int8'') (Some (js ''d1/d7c/lsl__cpp_8h.html#a28d50dae6fd82eea8893ce3d63ccd46ca829ae156932f587fbbc70aed1d46e388'')) NoData,
     Item (js ''cf_int64'') (Some (js ''d1/d7c/lsl__cpp_8h.html#a28d50dae6fd82eea8893ce3d63ccd46ca6795e1df0db0b05744fd1fe9623567a0'')) NoData,
     Item (js ''cf_undefined'') (Some (js ''d1/d7c/lsl__cpp_8h.html#a28d50dae6fd82eea8893ce3d63ccd46cadc8092d1092568f7d36d89fa7e813d76'')) NoData]),
    Item (js ''processing_options_t'') (Some (js ''d1/d7c/lsl__cpp_8h.html#aaa1cffa7d29bb2756522bc2bb069e310'')) (Items [
     Item (js ''post_none'') (Some (js ''d1/d7c/lsl__cpp_8h.html#aaa1cffa7d29bb2756522bc2bb069e310ac01170c28c82b28d721da1971e16424b'')) NoData,
     Item (js ''post_clocksync'') (Some (js ''d1/d7c/lsl__cpp_8h.html#aaa1cffa7d29bb2756522bc2bb069e310accf7cbfa478e679b53255d46fd62f888'')) NoData,
     Item (js ''post_dejitter'') (Some (js ''d1/d7c/lsl__cpp_8h.html#aaa1cffa7d29bb2756522bc2bb069e310a83b67e37c1bbcfb4ee7479098386499f'')) NoData,
     Item (js ''post_monotonize'') (Some (js ''d1/d7c/lsl__cpp_8h.html#aaa1cffa7d29bb2756522bc2bb069e310af7cdac323760b9cb6587733a24f5aecb'')) NoData,
     Item (js ''post_threadsafe'') (Some (js ''d1/d7c/lsl__cpp_8h.html#aaa1cffa7d29bb2756522bc2bb069e310a8ebef2c4c98e1a9246e9927e6b0b87c9'')) NoData,
     Item (js ''post_ALL'') (Some (js ''d1/d7c/lsl__cpp_8h.html#aaa1cffa7d29bb2756522bc2bb069e310a198f16659e71b850e4674ed31d10e914'')) NoData]),
    Item (js ''check_error'') (Some (js ''d1/d7c/lsl__cpp_8h.html#acce0545ac0a7831acde1a759b778393c'')) NoData,
    Item (js ''library_info'') (Some (js ''d1/d7c/lsl__cpp_8h.html#a2a348cf022e9862396e4a10f60af42e9'')) NoData,
    Item (js ''library_version'') (Some (js ''d1/d7c/lsl__cpp_8h.html#a25fc4deea3c2fb0df0744e3a24c56844'')) NoData,
    Item (js ''local_clock'') (Some (js ''d1/d7c/lsl__cpp_8h.html#ae1766ae2ab66141cb927612e57a0c8c6'')) NoData,
    Item (js ''protocol_version'') (Some (js ''d1/d7c/lsl__cpp_8h.html#a59009e83a8f0e33643474b373ad2f7f2'')) NoData,
    Item (js ''resolve_stream'') (Some (js ''d1/d7c/lsl__cpp_8h.html#a824e14275a55df97d0552a91fc2c4097'')) NoData,
    Item (js ''resolve_stream'') (Some (js ''d1/d7c/lsl__cpp_8h.html#a4edfbcc31f48f27e8f7c2a36b69cd4b9'')) NoData,
    Item (js ''resolve_streams'') (Some (js ''d1/d7c/lsl__cpp_8h.html#a2935ff3db04cd640f69943ad14a61915'')) NoData,
    Item (js ''DEDUCED_TIMESTAMP'') (Some (js ''d1/d7c/lsl__cpp_8h.html#a57df17d8a2563a18b8b759a0cec696cc'')) NoData,
    Item (js ''FOREVER'') (Some (js ''d1/d7c/lsl__cpp_8h.html#a74cfbc9077aca21295117217249721ed'')) NoData,
    Item (js ''IRREGULAR_RATE'') (Some (js ''d1/d7c/lsl__cpp_8h.html#ac7ebddefe1091ef2d9459b6f9d79f7ab'')) NoData]"

definition globals_dup :: "nav_item list" where
  "globals_dup = [
    Item (js ''_'') (Some (js ''globals.html'')) NoData,
    Item (js ''a'') (Some (js ''globals_a.html'')) NoData,
    Item (js ''c'') (Some (js ''globals_c.html'')) NoData,
    Item (js ''d'') (Some (js ''globals_d.html'')) NoData,
    Item (js ''h'') (Some (js ''globals_h.html'')) NoData,
    Item (js ''i'') (Some (js ''globals_i.html'')) NoData,
    Item (js ''l'') (Some (js ''globals_l.html'')) NoData,
    Item (js ''m'') (Some (js ''globals_m.html'')) NoData,
    Item (js ''p'') (Some (js ''globals_p.html'')) NoData,
    Item (js ''s'') (Some (js ''globals_s.html'')) NoData]"

text \<open>The scripts by their path, with the variable that each defines.\<close>

definition nav_scripts :: "(string \<times> string \<times> nav_item list) list" where
  "nav_scripts = [
    (''namespaces_dup'', ''namespaces_dup'', namespaces_dup),
    (''db/d7d/namespace_communication'', ''namespace_communication'', namespace_communication),
    (''df/dcd/class_communication_1_1_client'', ''class_communication_1_1_client'', class_communication_1_1_client),
    (''dc/db1/class_communication_1_1_server'', ''class_communication_1_1_server'', class_communication_1_1_server),
    (''d7/d60/class_communication_1_1_h_t_t_p__client'', ''class_communication_1_1_h_t_t_p__client'', class_communication_1_1_h_t_t_p__client),
    (''d2/d52/namespace_e_s_c'', ''namespace_e_s_c'', namespace_e_s_c),
    (''dc/d44/class_e_s_c_1_1_c_l_i'', ''class_e_s_c_1_1_c_l_i'', class_e_s_c_1_1_c_l_i),
    (''d3/db0/namespacelsl'', ''namespacelsl'', namespacelsl),
    (''d1/d6a/classlsl_1_1stream__info'', ''classlsl_1_1stream__info'', classlsl_1_1stream__info),
    (''d6/d55/classlsl_1_1stream__outlet'', ''classlsl_1_1stream__outlet'', classlsl_1_1stream__outlet),
    (''d6/dbd/classlsl_1_1stream__inlet'', ''classlsl_1_1stream__inlet'', classlsl_1_1stream__inlet),
    (''d9/d90/classlsl_1_1xml__element'', ''classlsl_1_1xml__element'', classlsl_1_1xml__element),
    (''d4/d27/classlsl_1_1continuous__resolver'', ''classlsl_1_1continuous__resolver'', classlsl_1_1continuous__resolver),
    (''de/d94/classlsl_1_1lost__error'', ''classlsl_1_1lost__error'', classlsl_1_1lost__error),
    (''d4/d01/classlsl_1_1timeout__error'', ''classlsl_1_1timeout__error'', classlsl_1_1timeout__error),
    (''annotated_dup'', ''annotated_dup'', annotated_dup),
    (''hierarchy'', ''hierarchy'', hierarchy),
    (''files_dup'', ''files_dup'', files_dup),
    (''dir_4fef79e7177ba769987a8da36c892c5f'', ''dir_4fef79e7177ba769987a8da36c892c5f'', dir_4fef79e7177ba769987a8da36c892c5f),
    (''dir_63772b626f2709090f0bdca0f40827b4'', ''dir_63772b626f2709090f0bdca0f40827b4'', dir_63772b626f2709090f0bdca0f40827b4),
    (''dir_ee532ceb613f48f23d20ef02624c3a91'', ''dir_ee532ceb613f48f23d20ef02624c3a91'', dir_ee532ceb613f48f23d20ef02624c3a91),
    (''dir_5ccf6f5f6f8f5a0c68d52188c0c1e2bd'', ''dir_5ccf6f5f6f8f5a0c68d52188c0c1e2bd'', dir_5ccf6f5f6f8f5a0c68d52188c0c1e2bd),
    (''d1/d3a/_c_make_c_compiler_id_8c'', ''_c_make_c_compiler_id_8c'', c_make_c_compiler_id_8c),
    (''dir_e1a715d407a4074a9fa63b2e02ec2b8f'', ''dir_e1a715d407a4074a9fa63b2e02ec2b8f'', dir_e1a715d407a4074a9fa63b2e02ec2b8f),
    (''d3/d66/_c_make_c_x_x_compiler_id_8cpp'', ''_c_make_c_x_x_compiler_id_8cpp'', c_make_c_x_x_compiler_id_8cpp),
    (''dir_bebb180f26d6bb41eb2a098db65f44a7'', ''dir_bebb180f26d6bb41eb2a098db65f44a7'', dir_bebb180f26d6bb41eb2a098db65f44a7),
    (''dir_6dd59ef4c64b46cf9e81380f0a3a6757'', ''dir_6dd59ef4c64b46cf9e81380f0a3a6757'', dir_6dd59ef4c64b46cf9e81380f0a3a6757),
    (''dir_cb540477a80f9d51ad37a936dad104bf'', ''dir_cb540477a80f9d51ad37a936dad104bf'', dir_cb540477a80f9d51ad37a936dad104bf),
    (''dir_40a07be7a32b2e45b448972e4bdb8ed5'', ''dir_40a07be7a32b2e45b448972e4bdb8ed5'', dir_40a07be7a32b2e45b448972e4bdb8ed5),
    (''dir_7a9c7094c62de71bbec4b12c7c975b93'', ''dir_7a9c7094c62de71bbec4b12c7c975b93'', dir_7a9c7094c62de71bbec4b12c7c975b93),
    (''dir_127a0b13c4059b08a7f4d866ec5a21cc'', ''dir_127a0b13c4059b08a7f4d866ec5a21cc'', dir_127a0b13c4059b08a7f4d866ec5a21cc),
    (''dir_4166fd07804cc527cdfc167b21a5330f'', ''dir_4166fd07804cc527cdfc167b21a5330f'', dir_4166fd07804cc527cdfc167b21a5330f),
    (''dir_a0aabf0f9c68f10a87f9043c02514b41'', ''dir_a0aabf0f9c68f10a87f9043c02514b41'', dir_a0aabf0f9c68f10a87f9043c02514b41),
    (''dir_3280642a839541a29e29961741ef8ced'', ''dir_3280642a839541a29e29961741ef8ced'', dir_3280642a839541a29e29961741ef8ced),
    (''dir_a95d52f81f463f3290acb9e3d34dacea'', ''dir_a95d52f81f463f3290acb9e3d34dacea'', dir_a95d52f81f463f3290acb9e3d34dacea),
    (''dir_798295ff5de2e5beb17f203298baaa7f'', ''dir_798295ff5de2e5beb17f203298baaa7f'', dir_798295ff5de2e5beb17f203298baaa7f),
    (''dir_d44c64559bbebec7f509842c48db8b23'', ''dir_d44c64559bbebec7f509842c48db8b23'', dir_d44c64559bbebec7f509842c48db8b23),
    (''dc/d13/com__client_8hpp'', ''com__client_8hpp'', com__client_8hpp),
    (''dir_97aefd0d527b934f1d99a682da8fe6a9'', ''dir_97aefd0d527b934f1d99a682da8fe6a9'', dir_97aefd0d527b934f1d99a682da8fe6a9),
    (''dir_e7c96c2c740204929c097fd23996983c'', ''dir_e7c96c2c740204929c097fd23996983c'', dir_e7c96c2c740204929c097fd23996983c),
    (''dir_caab832a2bdf26d7f56e9ddf444490ee'', ''dir_caab832a2bdf26d7f56e9ddf444490ee'', dir_caab832a2bdf26d7f56e9ddf444490ee),
    (''df/df2/str_a_n_s_iseq_8hpp'', ''str_a_n_s_iseq_8hpp'', str_a_n_s_iseq_8hpp),
    (''dir_5e9cc357fe3b3313ad16f661a338681c'', ''dir_5e9cc357fe3b3313ad16f661a338681c'', dir_5e9cc357fe3b3313ad16f661a338681c),
    (''d0/d3f/lib_2str_a_n_s_iseq_2src_2main_8cpp'', ''lib_2str_a_n_s_iseq_2src_2main_8cpp'', lib_2str_a_n_s_iseq_2src_2main_8cpp),
    (''dd/d40/str_a_n_s_iseq_8cpp'', ''str_a_n_s_iseq_8cpp'', str_a_n_s_iseq_8cpp),
    (''dir_68267d1309a1af8e8297ef4c3efbcdba'', ''dir_68267d1309a1af8e8297ef4c3efbcdba'', dir_68267d1309a1af8e8297ef4c3efbcdba),
    (''de/dfb/src_2main_8cpp'', ''src_2main_8cpp'', src_2main_8cpp),
    (''dir_e3e6a61ebba8fbca2913381c4bcfbd2b'', ''dir_e3e6a61ebba8fbca2913381c4bcfbd2b'', dir_e3e6a61ebba8fbca2913381c4bcfbd2b),
    (''dir_470f4625da3256ec4a5c2be4bd4f8658'', ''dir_470f4625da3256ec4a5c2be4bd4f8658'', dir_470f4625da3256ec4a5c2be4bd4f8658),
    (''dir_d623257484d3aadfc7ce1557f2d8c6b6'', ''dir_d623257484d3aadfc7ce1557f2d8c6b6'', dir_d623257484d3aadfc7ce1557f2d8c6b6),
    (''db/df3/lsl__c_8h'', ''lsl__c_8h'', lsl__c_8h),
    (''d1/d7c/lsl__cpp_8h'', ''lsl__cpp_8h'', lsl__cpp_8h),
    (''globals_dup'', ''globals_dup'', globals_dup)]"

definition shipped_scripts :: site_scripts where
  "shipped_scripts v =
     map_option (\<lambda>(x, items). [js x \<mapsto> items]) (map_of (map (\<lambda>(p, r). (js p, r)) nav_scripts) v)"

end
