(* ===== verification/NavPlaces.thy ===== *)
theory NavPlaces
  imports NavScripts
begin

text \<open>
  The positions of the shipped tree (\<open>navtreedata.js\<close> with the scripts of its levels, as
  \<open>getScript\<close> and \<open>getNode\<close> of \<open>navtree.js\<close> load them), and the positions that the index scripts give:
  each is that of the entry of its page.
\<close>

section \<open>Looking up a script\<close>

text \<open>\<open>getData_name\<close> on the name of a script, character by character.\<close>

fun last_part :: "string \<Rightarrow> string \<Rightarrow> string" where
  "last_part r [] = r"
| "last_part r (c # cs) = last_part (if c = CHR ''/'' then cs else r) cs"

definition data_name :: "string \<Rightarrow> string" where
  "data_name s = map (\<lambda>c. if c = CHR ''-'' then CHR ''_'' else c) (last_part s s)"

lemma last_part_none: "CHR ''/'' \<notin> set s \<Longrightarrow> last_part r s = r"
  by (induction s arbitrary: r) auto

lemma last_part_slash: "CHR ''/'' \<notin> set b \<Longrightarrow> last_part r (a @ CHR ''/'' # b) = b"
  by (induction a arbitrary: r) (auto simp: last_part_none)

lemma getData_name_js: "getData_name (js s) = js (data_name s)"
proof -
  have dash: "of_char c = (45 :: u16) \<longleftrightarrow> c = CHR ''-''" for c
    using js_inject [of "[c]" "[CHR ''-'']"] by (simp add: js_def)
  have conv: "map (\<lambda>c. if c = 45 then 95 else c) (js t) = js (map (\<lambda>c. if c = CHR ''-'' then CHR ''_'' else c) t)" for t
    by (simp add: js_def dash)
  have sl: "of_char c = slash \<longleftrightarrow> c = CHR ''/''" "slash = of_char c \<longleftrightarrow> c = CHR ''/''" for c
    using js_inject [of "[c]" "[CHR ''/'']"] by (auto simp: js_def)
  have slash_in: "slash \<in> set (js t) \<longleftrightarrow> CHR ''/'' \<in> set t" for t
    by (induction t) (auto simp: js_def sl)
  show ?thesis
  proof (cases "CHR ''/'' \<in> set s")
    case False
    moreover have "js_lastIndexOf (js s) slash = None" using False slash_in by (simp add: js_lastIndexOf_None)
    ultimately show ?thesis by (simp add: getData_name_def data_name_def conv last_part_none)
  next
    case True
    then obtain a b where s: "s = a @ CHR ''/'' # b" "CHR ''/'' \<notin> set b" by (meson split_list_last)
    have js_s: "js s = js a @ slash # js b" by (simp add: s(1) js_def)
    have "js_lastIndexOf (js s) slash = Some (length (js a))"
      using s(2) js_lastIndexOf_append [of slash "js b" "js a"] slash_in [of b] by (simp add: js_s)
    moreover have "js_substring_from (js s) (Suc (length (js a))) = js b"
      by (simp add: js_s js_substring_from_def)
    ultimately show ?thesis using s by (simp add: getData_name_def data_name_def conv last_part_slash)
  qed
qed

lemma getScript_shipped:
  assumes "map_of nav_scripts p = Some (x, items)" "data_name p = x"
  shows "getScript shipped_scripts (js p) = Some items"
proof -
  have "map_of (map (\<lambda>(p, r). (js p, r)) xs) (js p) = map_of xs p" for xs :: "(string \<times> string \<times> nav_item list) list"
    by (induction xs) auto
  then show ?thesis using assms by (simp add: getScript_def shipped_scripts_def getData_name_js)
qed

lemma script_names:
  "distinct (map fst nav_scripts)" "list_all (\<lambda>(p, x, _). data_name p = x) nav_scripts"
  by (simp_all add: nav_scripts_def data_name_def)

lemma scripts_level: "list_all (\<lambda>(p, x, items). level shipped_scripts (Lazy (js p)) = Some items) nav_scripts"
proof -
  have "level shipped_scripts (Lazy (js p)) = Some items" if "(p, x, items) \<in> set nav_scripts" for p x items
  proof -
    have "map_of nav_scripts p = Some (x, items)"
      using that script_names(1) by (simp add: map_of_is_SomeI)
    moreover have "data_name p = x" using that script_names(2) by (auto simp: list_all_iff)
    ultimately show ?thesis using getScript_shipped by (simp add: level_def)
  qed
  then show ?thesis by (auto simp: list_all_iff)
qed

lemmas script_level = scripts_level [unfolded nav_scripts_def list.pred_inject prod.case simp_thms]

section \<open>The entries by their position\<close>

text \<open>The entry at a position of the tree, the scripts being loaded on the way.\<close>

definition tree_at :: "nat list \<Rightarrow> nav_item option" where
  "tree_at bs = item_at shipped_scripts (Items NAVTREE) bs"

text \<open>The entries of an array, and of the arrays inside it, stand at the positions from \<open>p\<close> on.\<close>

fun all_at :: "nat list \<Rightarrow> nat \<Rightarrow> nav_item list \<Rightarrow> bool" where
  "all_at p n [] = True"
| "all_at p n (Item t l d # its) =
     (tree_at (p @ [n]) = Some (Item t l d) \<and>
      (case d of Items sub \<Rightarrow> all_at (p @ [n]) 0 sub | _ \<Rightarrow> True) \<and> all_at p (n + 1) its)"

lemma item_at_below:
  "item_at s d p = Some it \<Longrightarrow> item_at s d (p @ b # bs) = item_at s (i_data it) (b # bs)"
  by (induction s d p rule: item_at.induct) (auto split: option.splits if_splits)

lemma all_at_nth:
  "\<forall>i < length its. tree_at (p @ [n + i]) = Some (its ! i) \<Longrightarrow> all_at p n its"
proof (induction p n its rule: all_at.induct)
  case (2 p n t l d its)
  have here: "tree_at (p @ [n]) = Some (Item t l d)" using "2.prems" by force
  have "\<forall>i < length its. tree_at (p @ [n + 1 + i]) = Some (its ! i)" using "2.prems" by force
  moreover have "all_at (p @ [n]) 0 sub" if d: "d = Items sub" for sub
  proof (rule "2.IH"(1) [OF d], intro allI impI)
    fix i
    assume "i < length sub"
    then show "tree_at ((p @ [n]) @ [0 + i]) = Some (sub ! i)"
      using item_at_below [OF here [unfolded tree_at_def], of i "[]"] d by (simp add: tree_at_def level_def)
  qed
  ultimately show ?case using here "2.IH"(2) by (simp split: nav_data.split)
qed simp

lemma top_places: "all_at [] 0 NAVTREE"
  by (rule all_at_nth) (simp add: tree_at_def level_def)

lemma script_places:
  assumes "\<exists>t l. tree_at p = Some (Item t l (Lazy v))" "level shipped_scripts (Lazy v) = Some items"
  shows "all_at p 0 items"
proof (rule all_at_nth, intro allI impI)
  fix i
  assume "i < length items"
  moreover obtain t l where "item_at shipped_scripts (Items NAVTREE) p = Some (Item t l (Lazy v))"
    using assms(1) by (auto simp: tree_at_def)
  from item_at_below [OF this, of i "[]"]
  have "tree_at (p @ [0 + i]) = item_at shipped_scripts (Lazy v) [i]" by (simp add: tree_at_def)
  ultimately show "tree_at (p @ [0 + i]) = Some (items ! i)"
    using assms(2) by simp
qed

lemma all_at_append: "all_at p n (xs @ ys) \<longleftrightarrow> all_at p n xs \<and> all_at p (n + length xs) ys"
  by (induction p n xs rule: all_at.induct) (simp_all add: ac_simps)

lemmas count = add_0_left one_add_one numeral_plus_one one_plus_numeral numeral_plus_numeral add_num_simps

lemmas spread = all_at.simps nav_data.case append.simps count simp_thms

text \<open>The tree of \<open>navtreedata.js\<close>, then script by script.\<close>

lemmas places = top_places [unfolded NAVTREE_def spread]

lemma piece_length:
  "length lsl__c_8h_1 = 90"
  "length classlsl_1_1stream__outlet_1 = 21"
  "length classlsl_1_1stream__outlet_2 = 21"
  "length classlsl_1_1stream__outlet_3 = 12"
  "length classlsl_1_1stream__inlet_1 = 21"
  "length classlsl_1_1stream__inlet_2 = 21"
  "length classlsl_1_1stream__inlet_3 = 1"
  "length classlsl_1_1xml__element_1 = 21"
  "length classlsl_1_1xml__element_2 = 5"
  by (simp_all add: lsl__c_8h_1_def classlsl_1_1stream__outlet_1_def classlsl_1_1stream__outlet_2_def classlsl_1_1stream__outlet_3_def classlsl_1_1stream__inlet_1_def classlsl_1_1stream__inlet_2_def
    classlsl_1_1stream__inlet_3_def classlsl_1_1xml__element_1_def classlsl_1_1xml__element_2_def)

lemma at_0_3_0: "all_at [0, 3, 0] 0 namespaces_dup"
  by (rule script_places [where v = "js ''namespaces_dup''"]) (simp add: places del: One_nat_def, simp add: script_level)

lemmas places_0_3_0 = at_0_3_0 [unfolded namespaces_dup_def spread]

lemma at_0_4_0: "all_at [0, 4, 0] 0 annotated_dup"
  by (rule script_places [where v = "js ''annotated_dup''"]) (simp add: places del: One_nat_def, simp add: script_level)

lemmas places_0_4_0 = at_0_4_0 [unfolded annotated_dup_def spread]

lemma at_0_5_0: "all_at [0, 5, 0] 0 files_dup"
  by (rule script_places [where v = "js ''files_dup''"]) (simp add: places del: One_nat_def, simp add: script_level)

lemmas places_0_5_0 = at_0_5_0 [unfolded files_dup_def spread]

lemma at_0_3_0_1: "all_at [0, 3, 0, 1] 0 namespace_e_s_c"
  by (rule script_places [where v = "js ''d2/d52/namespace_e_s_c''"]) (simp add: places_0_3_0 del: One_nat_def, simp add: script_level)

lemmas places_0_3_0_1 = at_0_3_0_1 [unfolded namespace_e_s_c_def spread]

lemma at_0_3_0_2: "all_at [0, 3, 0, 2] 0 namespacelsl"
  by (rule script_places [where v = "js ''d3/db0/namespacelsl''"]) (simp add: places_0_3_0 del: One_nat_def, simp add: script_level)

lemmas places_0_3_0_2 = at_0_3_0_2 [unfolded namespacelsl_def spread]

lemma at_0_5_0_0: "all_at [0, 5, 0, 0] 0 dir_4fef79e7177ba769987a8da36c892c5f"
  by (rule script_places [where v = "js ''dir_4fef79e7177ba769987a8da36c892c5f''"]) (simp add: places_0_5_0 del: One_nat_def, simp add: script_level)

lemmas places_0_5_0_0 = at_0_5_0_0 [unfolded dir_4fef79e7177ba769987a8da36c892c5f_def spread]

lemma at_0_5_0_1: "all_at [0, 5, 0, 1] 0 dir_d44c64559bbebec7f509842c48db8b23"
  by (rule script_places [where v = "js ''dir_d44c64559bbebec7f509842c48db8b23''"]) (simp add: places_0_5_0 del: One_nat_def, simp add: script_level)

lemmas places_0_5_0_1 = at_0_5_0_1 [unfolded dir_d44c64559bbebec7f509842c48db8b23_def spread]

lemma at_0_5_0_2: "all_at [0, 5, 0, 2] 0 dir_97aefd0d527b934f1d99a682da8fe6a9"
  by (rule script_places [where v = "js ''dir_97aefd0d527b934f1d99a682da8fe6a9''"]) (simp add: places_0_5_0 del: One_nat_def, simp add: script_level)

lemmas places_0_5_0_2 = at_0_5_0_2 [unfolded dir_97aefd0d527b934f1d99a682da8fe6a9_def spread]

lemma at_0_5_0_3: "all_at [0, 5, 0, 3] 0 dir_68267d1309a1af8e8297ef4c3efbcdba"
  by (rule script_places [where v = "js ''dir_68267d1309a1af8e8297ef4c3efbcdba''"]) (simp add: places_0_5_0 del: One_nat_def, simp add: script_level)

lemmas places_0_5_0_3 = at_0_5_0_3 [unfolded dir_68267d1309a1af8e8297ef4c3efbcdba_def spread]

lemma at_0_5_0_4: "all_at [0, 5, 0, 4] 0 dir_e3e6a61ebba8fbca2913381c4bcfbd2b"
  by (rule script_places [where v = "js ''dir_e3e6a61ebba8fbca2913381c4bcfbd2b''"]) (simp add: places_0_5_0 del: One_nat_def, simp add: script_level)

lemmas places_0_5_0_4 = at_0_5_0_4 [unfolded dir_e3e6a61ebba8fbca2913381c4bcfbd2b_def spread]

lemma at_0_5_1_0: "all_at [0, 5, 1, 0] 0 globals_dup"
  by (rule script_places [where v = "js ''globals_dup''"]) (simp add: places del: One_nat_def, simp add: script_level)

lemmas places_0_5_1_0 = at_0_5_1_0 [unfolded globals_dup_def spread]

lemma at_0_4_0_0_0: "all_at [0, 4, 0, 0, 0] 0 class_communication_1_1_client"
  by (rule script_places [where v = "js ''df/dcd/class_communication_1_1_client''"]) (simp add: places_0_4_0 del: One_nat_def, simp add: script_level)

lemmas places_0_4_0_0_0 = at_0_4_0_0_0 [unfolded class_communication_1_1_client_def spread]

lemma at_0_4_0_0_1: "all_at [0, 4, 0, 0, 1] 0 class_communication_1_1_server"
  by (rule script_places [where v = "js ''dc/db1/class_communication_1_1_server''"]) (simp add: places_0_4_0 del: One_nat_def, simp add: script_level)

lemmas places_0_4_0_0_1 = at_0_4_0_0_1 [unfolded class_communication_1_1_server_def spread]

lemma at_0_4_0_0_2: "all_at [0, 4, 0, 0, 2] 0 class_communication_1_1_h_t_t_p__client"
  by (rule script_places [where v = "js ''d7/d60/class_communication_1_1_h_t_t_p__client''"]) (simp add: places_0_4_0 del: One_nat_def, simp add: script_level)

lemmas places_0_4_0_0_2 = at_0_4_0_0_2 [unfolded class_communication_1_1_h_t_t_p__client_def spread]

lemma at_0_4_0_1_0: "all_at [0, 4, 0, 1, 0] 0 class_e_s_c_1_1_c_l_i"
  by (rule script_places [where v = "js ''dc/d44/class_e_s_c_1_1_c_l_i''"]) (simp add: places_0_4_0 del: One_nat_def, simp add: script_level)

lemmas places_0_4_0_1_0 = at_0_4_0_1_0 [unfolded class_e_s_c_1_1_c_l_i_def spread]

lemma at_0_4_0_2_0: "all_at [0, 4, 0, 2, 0] 0 classlsl_1_1stream__info"
  by (rule script_places [where v = "js ''d1/d6a/classlsl_1_1stream__info''"]) (simp add: places_0_4_0 del: One_nat_def, simp add: script_level)

lemmas places_0_4_0_2_0 = at_0_4_0_2_0 [unfolded classlsl_1_1stream__info_def spread]

lemma at_0_4_0_2_1: "all_at [0, 4, 0, 2, 1] 0 classlsl_1_1stream__outlet"
  by (rule script_places [where v = "js ''d6/d55/classlsl_1_1stream__outlet''"]) (simp add: places_0_4_0 del: One_nat_def, simp add: script_level)

lemmas places_0_4_0_2_1 = at_0_4_0_2_1 [unfolded classlsl_1_1stream__outlet_def all_at_append piece_length count,
    unfolded classlsl_1_1stream__outlet_1_def classlsl_1_1stream__outlet_2_def classlsl_1_1stream__outlet_3_def spread]

lemma at_0_4_0_2_2: "all_at [0, 4, 0, 2, 2] 0 classlsl_1_1stream__inlet"
  by (rule script_places [where v = "js ''d6/dbd/classlsl_1_1stream__inlet''"]) (simp add: places_0_4_0 del: One_nat_def, simp add: script_level)

lemmas places_0_4_0_2_2 = at_0_4_0_2_2 [unfolded classlsl_1_1stream__inlet_def all_at_append piece_length count,
    unfolded classlsl_1_1stream__inlet_1_def classlsl_1_1stream__inlet_2_def classlsl_1_1stream__inlet_3_def spread]

lemma at_0_4_0_2_3: "all_at [0, 4, 0, 2, 3] 0 classlsl_1_1xml__element"
  by (rule script_places [where v = "js ''d9/d90/classlsl_1_1xml__element''"]) (simp add: places_0_4_0 del: One_nat_def, simp add: script_level)

lemmas places_0_4_0_2_3 = at_0_4_0_2_3 [unfolded classlsl_1_1xml__element_def all_at_append piece_length count,
    unfolded classlsl_1_1xml__element_1_def classlsl_1_1xml__element_2_def spread]

lemma at_0_4_0_2_4: "all_at [0, 4, 0, 2, 4] 0 classlsl_1_1continuous__resolver"
  by (rule script_places [where v = "js ''d4/d27/classlsl_1_1continuous__resolver''"]) (simp add: places_0_4_0 del: One_nat_def, simp add: script_level)

lemmas places_0_4_0_2_4 = at_0_4_0_2_4 [unfolded classlsl_1_1continuous__resolver_def spread]

lemma at_0_4_0_2_5: "all_at [0, 4, 0, 2, 5] 0 classlsl_1_1lost__error"
  by (rule script_places [where v = "js ''de/d94/classlsl_1_1lost__error''"]) (simp add: places_0_4_0 del: One_nat_def, simp add: script_level)

lemmas places_0_4_0_2_5 = at_0_4_0_2_5 [unfolded classlsl_1_1lost__error_def spread]

lemma at_0_4_0_2_6: "all_at [0, 4, 0, 2, 6] 0 classlsl_1_1timeout__error"
  by (rule script_places [where v = "js ''d4/d01/classlsl_1_1timeout__error''"]) (simp add: places_0_4_0 del: One_nat_def, simp add: script_level)

lemmas places_0_4_0_2_6 = at_0_4_0_2_6 [unfolded classlsl_1_1timeout__error_def spread]

lemma at_0_5_0_0_0: "all_at [0, 5, 0, 0, 0] 0 dir_63772b626f2709090f0bdca0f40827b4"
  by (rule script_places [where v = "js ''dir_63772b626f2709090f0bdca0f40827b4''"]) (simp add: places_0_5_0_0 del: One_nat_def, simp add: script_level)

lemmas places_0_5_0_0_0 = at_0_5_0_0_0 [unfolded dir_63772b626f2709090f0bdca0f40827b4_def spread]

lemma at_0_5_0_0_1: "all_at [0, 5, 0, 0, 1] 0 dir_7a9c7094c62de71bbec4b12c7c975b93"
  by (rule script_places [where v = "js ''dir_7a9c7094c62de71bbec4b12c7c975b93''"]) (simp add: places_0_5_0_0 del: One_nat_def, simp add: script_level)

lemmas places_0_5_0_0_1 = at_0_5_0_0_1 [unfolded dir_7a9c7094c62de71bbec4b12c7c975b93_def spread]

lemma at_0_5_0_1_0: "all_at [0, 5, 0, 1, 0] 0 com__client_8hpp"
  by (rule script_places [where v = "js ''dc/d13/com__client_8hpp''"]) (simp add: places_0_5_0_1 del: One_nat_def, simp add: script_level)

lemmas places_0_5_0_1_0 = at_0_5_0_1_0 [unfolded com__client_8hpp_def spread]

lemma at_0_5_0_2_0: "all_at [0, 5, 0, 2, 0] 0 dir_e7c96c2c740204929c097fd23996983c"
  by (rule script_places [where v = "js ''dir_e7c96c2c740204929c097fd23996983c''"]) (simp add: places_0_5_0_2 del: One_nat_def, simp add: script_level)

lemmas places_0_5_0_2_0 = at_0_5_0_2_0 [unfolded dir_e7c96c2c740204929c097fd23996983c_def spread]

lemma at_0_5_0_3_2: "all_at [0, 5, 0, 3, 2] 0 src_2main_8cpp"
  by (rule script_places [where v = "js ''de/dfb/src_2main_8cpp''"]) (simp add: places_0_5_0_3 del: One_nat_def, simp add: script_level)

lemmas places_0_5_0_3_2 = at_0_5_0_3_2 [unfolded src_2main_8cpp_def spread]

lemma at_0_5_0_4_0: "all_at [0, 5, 0, 4, 0] 0 dir_470f4625da3256ec4a5c2be4bd4f8658"
  by (rule script_places [where v = "js ''dir_470f4625da3256ec4a5c2be4bd4f8658''"]) (simp add: places_0_5_0_4 del: One_nat_def, simp add: script_level)

lemmas places_0_5_0_4_0 = at_0_5_0_4_0 [unfolded dir_470f4625da3256ec4a5c2be4bd4f8658_def spread]

lemma at_0_5_0_0_0_0: "all_at [0, 5, 0, 0, 0, 0] 0 dir_ee532ceb613f48f23d20ef02624c3a91"
  by (rule script_places [where v = "js ''dir_ee532ceb613f48f23d20ef02624c3a91''"]) (simp add: places_0_5_0_0_0 del: One_nat_def, simp add: script_level)

lemmas places_0_5_0_0_0_0 = at_0_5_0_0_0_0 [unfolded dir_ee532ceb613f48f23d20ef02624c3a91_def spread]

lemma at_0_5_0_0_0_1: "all_at [0, 5, 0, 0, 0, 1] 0 dir_bebb180f26d6bb41eb2a098db65f44a7"
  by (rule script_places [where v = "js ''dir_bebb180f26d6bb41eb2a098db65f44a7''"]) (simp add: places_0_5_0_0_0 del: One_nat_def, simp add: script_level)

lemmas places_0_5_0_0_0_1 = at_0_5_0_0_0_1 [unfolded dir_bebb180f26d6bb41eb2a098db65f44a7_def spread]

lemma at_0_5_0_0_0_2: "all_at [0, 5, 0, 0, 0, 2] 0 dir_cb540477a80f9d51ad37a936dad104bf"
  by (rule script_places [where v = "js ''dir_cb540477a80f9d51ad37a936dad104bf''"]) (simp add: places_0_5_0_0_0 del: One_nat_def, simp add: script_level)

lemmas places_0_5_0_0_0_2 = at_0_5_0_0_0_2 [unfolded dir_cb540477a80f9d51ad37a936dad104bf_def spread]

lemma at_0_5_0_0_1_0: "all_at [0, 5, 0, 0, 1, 0] 0 dir_127a0b13c4059b08a7f4d866ec5a21cc"
  by (rule script_places [where v = "js ''dir_127a0b13c4059b08a7f4d866ec5a21cc''"]) (simp add: places_0_5_0_0_1 del: One_nat_def, simp add: script_level)

lemmas places_0_5_0_0_1_0 = at_0_5_0_0_1_0 [unfolded dir_127a0b13c4059b08a7f4d866ec5a21cc_def spread]

lemma at_0_5_0_2_0_0: "all_at [0, 5, 0, 2, 0, 0] 0 dir_caab832a2bdf26d7f56e9ddf444490ee"
  by (rule script_places [where v = "js ''dir_caab832a2bdf26d7f56e9ddf444490ee''"]) (simp add: places_0_5_0_2_0 del: One_nat_def, simp add: script_level)

lemmas places_0_5_0_2_0_0 = at_0_5_0_2_0_0 [unfolded dir_caab832a2bdf26d7f56e9ddf444490ee_def spread]

lemma at_0_5_0_2_0_1: "all_at [0, 5, 0, 2, 0, 1] 0 dir_5e9cc357fe3b3313ad16f661a338681c"
  by (rule script_places [where v = "js ''dir_5e9cc357fe3b3313ad16f661a338681c''"]) (simp add: places_0_5_0_2_0 del: One_nat_def, simp add: script_level)

lemmas places_0_5_0_2_0_1 = at_0_5_0_2_0_1 [unfolded dir_5e9cc357fe3b3313ad16f661a338681c_def spread]

lemma at_0_5_0_4_0_0: "all_at [0, 5, 0, 4, 0, 0] 0 dir_d623257484d3aadfc7ce1557f2d8c6b6"
  by (rule script_places [where v = "js ''dir_d623257484d3aadfc7ce1557f2d8c6b6''"]) (simp add: places_0_5_0_4_0 del: One_nat_def, simp add: script_level)

lemmas places_0_5_0_4_0_0 = at_0_5_0_4_0_0 [unfolded dir_d623257484d3aadfc7ce1557f2d8c6b6_def spread]

lemma at_0_5_0_0_0_0_0: "all_at [0, 5, 0, 0, 0, 0, 0] 0 dir_5ccf6f5f6f8f5a0c68d52188c0c1e2bd"
  by (rule script_places [where v = "js ''dir_5ccf6f5f6f8f5a0c68d52188c0c1e2bd''"]) (simp add: places_0_5_0_0_0_0 del: One_nat_def, simp add: script_level)

lemmas places_0_5_0_0_0_0_0 = at_0_5_0_0_0_0_0 [unfolded dir_5ccf6f5f6f8f5a0c68d52188c0c1e2bd_def spread]

lemma at_0_5_0_0_0_0_1: "all_at [0, 5, 0, 0, 0, 0, 1] 0 dir_e1a715d407a4074a9fa63b2e02ec2b8f"
  by (rule script_places [where v = "js ''dir_e1a715d407a4074a9fa63b2e02ec2b8f''"]) (simp add: places_0_5_0_0_0_0 del: One_nat_def, simp add: script_level)

lemmas places_0_5_0_0_0_0_1 = at_0_5_0_0_0_0_1 [unfolded dir_e1a715d407a4074a9fa63b2e02ec2b8f_def spread]

lemma at_0_5_0_0_0_1_0: "all_at [0, 5, 0, 0, 0, 1, 0] 0 dir_6dd59ef4c64b46cf9e81380f0a3a6757"
  by (rule script_places [where v = "js ''dir_6dd59ef4c64b46cf9e81380f0a3a6757''"]) (simp add: places_0_5_0_0_0_1 del: One_nat_def, simp add: script_level)

lemmas places_0_5_0_0_0_1_0 = at_0_5_0_0_0_1_0 [unfolded dir_6dd59ef4c64b46cf9e81380f0a3a6757_def spread]

lemma at_0_5_0_0_0_2_0: "all_at [0, 5, 0, 0, 0, 2, 0] 0 dir_40a07be7a32b2e45b448972e4bdb8ed5"
  by (rule script_places [where v = "js ''dir_40a07be7a32b2e45b448972e4bdb8ed5''"]) (simp add: places_0_5_0_0_0_2 del: One_nat_def, simp add: script_level)

lemmas places_0_5_0_0_0_2_0 = at_0_5_0_0_0_2_0 [unfolded dir_40a07be7a32b2e45b448972e4bdb8ed5_def spread]

lemma at_0_5_0_0_1_0_0: "all_at [0, 5, 0, 0, 1, 0, 0] 0 dir_4166fd07804cc527cdfc167b21a5330f"
  by (rule script_places [where v = "js ''dir_4166fd07804cc527cdfc167b21a5330f''"]) (simp add: places_0_5_0_0_1_0 del: One_nat_def, simp add: script_level)

lemmas places_0_5_0_0_1_0_0 = at_0_5_0_0_1_0_0 [unfolded dir_4166fd07804cc527cdfc167b21a5330f_def spread]

lemma at_0_5_0_2_0_0_0: "all_at [0, 5, 0, 2, 0, 0, 0] 0 str_a_n_s_iseq_8hpp"
  by (rule script_places [where v = "js ''df/df2/str_a_n_s_iseq_8hpp''"]) (simp add: places_0_5_0_2_0_0 del: One_nat_def, simp add: script_level)

lemmas places_0_5_0_2_0_0_0 = at_0_5_0_2_0_0_0 [unfolded str_a_n_s_iseq_8hpp_def spread]

lemma at_0_5_0_2_0_1_0: "all_at [0, 5, 0, 2, 0, 1, 0] 0 lib_2str_a_n_s_iseq_2src_2main_8cpp"
  by (rule script_places [where v = "js ''d0/d3f/lib_2str_a_n_s_iseq_2src_2main_8cpp''"]) (simp add: places_0_5_0_2_0_1 del: One_nat_def, simp add: script_level)

lemmas places_0_5_0_2_0_1_0 = at_0_5_0_2_0_1_0 [unfolded lib_2str_a_n_s_iseq_2src_2main_8cpp_def spread]

lemma at_0_5_0_2_0_1_1: "all_at [0, 5, 0, 2, 0, 1, 1] 0 str_a_n_s_iseq_8cpp"
  by (rule script_places [where v = "js ''dd/d40/str_a_n_s_iseq_8cpp''"]) (simp add: places_0_5_0_2_0_1 del: One_nat_def, simp add: script_level)

lemmas places_0_5_0_2_0_1_1 = at_0_5_0_2_0_1_1 [unfolded str_a_n_s_iseq_8cpp_def spread]

lemma at_0_5_0_4_0_0_0: "all_at [0, 5, 0, 4, 0, 0, 0] 0 lsl__c_8h"
  by (rule script_places [where v = "js ''db/df3/lsl__c_8h''"]) (simp add: places_0_5_0_4_0_0 del: One_nat_def, simp add: script_level)

lemmas places_0_5_0_4_0_0_0 = at_0_5_0_4_0_0_0 [unfolded lsl__c_8h_def all_at_append piece_length count,
    unfolded lsl__c_8h_1_def lsl__c_8h_2_def spread]

lemma at_0_5_0_4_0_0_1: "all_at [0, 5, 0, 4, 0, 0, 1] 0 lsl__cpp_8h"
  by (rule script_places [where v = "js ''d1/d7c/lsl__cpp_8h''"]) (simp add: places_0_5_0_4_0_0 del: One_nat_def, simp add: script_level)

lemmas places_0_5_0_4_0_0_1 = at_0_5_0_4_0_0_1 [unfolded lsl__cpp_8h_def spread]

lemma at_0_5_0_0_0_0_0_0: "all_at [0, 5, 0, 0, 0, 0, 0, 0] 0 c_make_c_compiler_id_8c"
  by (rule script_places [where v = "js ''d1/d3a/_c_make_c_compiler_id_8c''"]) (simp add: places_0_5_0_0_0_0_0 del: One_nat_def, simp add: script_level)

lemmas places_0_5_0_0_0_0_0_0 = at_0_5_0_0_0_0_0_0 [unfolded c_make_c_compiler_id_8c_def spread]

lemma at_0_5_0_0_0_0_1_0: "all_at [0, 5, 0, 0, 0, 0, 1, 0] 0 c_make_c_x_x_compiler_id_8cpp"
  by (rule script_places [where v = "js ''d3/d66/_c_make_c_x_x_compiler_id_8cpp''"]) (simp add: places_0_5_0_0_0_0_1 del: One_nat_def, simp add: script_level)

lemmas places_0_5_0_0_0_0_1_0 = at_0_5_0_0_0_0_1_0 [unfolded c_make_c_x_x_compiler_id_8cpp_def spread]

lemma at_0_5_0_0_1_0_0_0: "all_at [0, 5, 0, 0, 1, 0, 0, 0] 0 dir_a0aabf0f9c68f10a87f9043c02514b41"
  by (rule script_places [where v = "js ''dir_a0aabf0f9c68f10a87f9043c02514b41''"]) (simp add: places_0_5_0_0_1_0_0 del: One_nat_def, simp add: script_level)

lemmas places_0_5_0_0_1_0_0_0 = at_0_5_0_0_1_0_0_0 [unfolded dir_a0aabf0f9c68f10a87f9043c02514b41_def spread]

lemma at_0_5_0_0_1_0_0_1: "all_at [0, 5, 0, 0, 1, 0, 0, 1] 0 dir_a95d52f81f463f3290acb9e3d34dacea"
  by (rule script_places [where v = "js ''dir_a95d52f81f463f3290acb9e3d34dacea''"]) (simp add: places_0_5_0_0_1_0_0 del: One_nat_def, simp add: script_level)

lemmas places_0_5_0_0_1_0_0_1 = at_0_5_0_0_1_0_0_1 [unfolded dir_a95d52f81f463f3290acb9e3d34dacea_def spread]

lemma at_0_5_0_0_1_0_0_0_0: "all_at [0, 5, 0, 0, 1, 0, 0, 0, 0] 0 dir_3280642a839541a29e29961741ef8ced"
  by (rule script_places [where v = "js ''dir_3280642a839541a29e29961741ef8ced''"]) (simp add: places_0_5_0_0_1_0_0_0 del: One_nat_def, simp add: script_level)

lemmas places_0_5_0_0_1_0_0_0_0 = at_0_5_0_0_1_0_0_0_0 [unfolded dir_3280642a839541a29e29961741ef8ced_def spread]

lemma at_0_5_0_0_1_0_0_1_0: "all_at [0, 5, 0, 0, 1, 0, 0, 1, 0] 0 dir_798295ff5de2e5beb17f203298baaa7f"
  by (rule script_places [where v = "js ''dir_798295ff5de2e5beb17f203298baaa7f''"]) (simp add: places_0_5_0_0_1_0_0_1 del: One_nat_def, simp add: script_level)

lemmas places_0_5_0_0_1_0_0_1_0 = at_0_5_0_0_1_0_0_1_0 [unfolded dir_798295ff5de2e5beb17f203298baaa7f_def spread]

lemmas all_places =
    places places_0_3_0 places_0_4_0 places_0_5_0
    places_0_3_0_1 places_0_3_0_2 places_0_5_0_0 places_0_5_0_1
    places_0_5_0_2 places_0_5_0_3 places_0_5_0_4 places_0_5_1_0
    places_0_4_0_0_0 places_0_4_0_0_1 places_0_4_0_0_2 places_0_4_0_1_0
    places_0_4_0_2_0 places_0_4_0_2_1 places_0_4_0_2_2 places_0_4_0_2_3
    places_0_4_0_2_4 places_0_4_0_2_5 places_0_4_0_2_6 places_0_5_0_0_0
    places_0_5_0_0_1 places_0_5_0_1_0 places_0_5_0_2_0 places_0_5_0_3_2
    places_0_5_0_4_0 places_0_5_0_0_0_0 places_0_5_0_0_0_1 places_0_5_0_0_0_2
    places_0_5_0_0_1_0 places_0_5_0_2_0_0 places_0_5_0_2_0_1 places_0_5_0_4_0_0
    places_0_5_0_0_0_0_0 places_0_5_0_0_0_0_1 places_0_5_0_0_0_1_0 places_0_5_0_0_0_2_0
    places_0_5_0_0_1_0_0 places_0_5_0_2_0_0_0 places_0_5_0_2_0_1_0 places_0_5_0_2_0_1_1
    places_0_5_0_4_0_0_0 places_0_5_0_4_0_0_1 places_0_5_0_0_0_0_0_0 places_0_5_0_0_0_0_1_0
    places_0_5_0_0_1_0_0_0 places_0_5_0_0_1_0_0_1 places_0_5_0_0_1_0_0_0_0 places_0_5_0_0_1_0_0_1_0

declare all_places [simp] script_level [simp]

section \<open>The positions of the index\<close>

text \<open>
  The keys of the index that lead to the entry of another page: the source of a file to the
  page of the file, and the list of pages to the start page.
\<close>

definition moved_entries :: "(string \<times> string) list" where
  "moved_entries =
     [(''pages.html'', ''index.html''),
      (''d1/d7c/lsl__cpp_8h_source.html'', ''d1/d7c/lsl__cpp_8h.html''),
      (''d9/dcd/http__client_8hpp_source.html'', ''d9/dcd/http__client_8hpp.html''),
      (''db/df3/lsl__c_8h_source.html'', ''db/df3/lsl__c_8h.html''),
      (''dc/d13/com__client_8hpp_source.html'', ''dc/d13/com__client_8hpp.html''),
      (''df/df2/str_a_n_s_iseq_8hpp_source.html'', ''df/df2/str_a_n_s_iseq_8hpp.html'')]"

text \<open>The entry at a position of the index: it has the link of the key, and its script loads.\<close>

definition well_placed :: "string \<Rightarrow> nat list \<Rightarrow> bool" where
  "well_placed k b \<longleftrightarrow>
     (\<exists>t l d. tree_at (0 # b) = Some (Item t (Some (js l)) d) \<and> (l = k \<or> (k, l) \<in> set moved_entries) \<and>
       (case d of Lazy v \<Rightarrow> level shipped_scripts (Lazy v) \<noteq> None | _ \<Rightarrow> True))"

lemma placed_0a: "list_all (\<lambda>(k, b). well_placed k b) NAVTREEINDEX0a"
  by (simp add: NAVTREEINDEX0a_def well_placed_def del: One_nat_def, (simp add: moved_entries_def)?)

lemma placed_0b: "list_all (\<lambda>(k, b). well_placed k b) NAVTREEINDEX0b"
  by (simp add: NAVTREEINDEX0b_def well_placed_def del: One_nat_def, (simp add: moved_entries_def)?)

lemma placed_1a: "list_all (\<lambda>(k, b). well_placed k b) NAVTREEINDEX1a"
  by (simp add: NAVTREEINDEX1a_def well_placed_def del: One_nat_def, (simp add: moved_entries_def)?)

lemma placed_1b: "list_all (\<lambda>(k, b). well_placed k b) NAVTREEINDEX1b"
  by (simp add: NAVTREEINDEX1b_def well_placed_def del: One_nat_def, (simp add: moved_entries_def)?)

lemma placed_2a: "list_all (\<lambda>(k, b). well_placed k b) NAVTREEINDEX2a"
  by (simp add: NAVTREEINDEX2a_def well_placed_def del: One_nat_def, (simp add: moved_entries_def)?)

lemma placed_2b: "list_all (\<lambda>(k, b). well_placed k b) NAVTREEINDEX2b"
  by (simp add: NAVTREEINDEX2b_def well_placed_def del: One_nat_def, (simp add: moved_entries_def)?)

declare all_places [simp del] script_level [simp del]

lemma index_placed: "\<forall>es \<in> set NAVTREEINDEX_scripts. list_all (\<lambda>(k, b). well_placed k b) es"
  by (simp add: NAVTREEINDEX_scripts_def placed_0a placed_0b placed_1a placed_1b placed_2a placed_2b)

end
