(* ===== verification/NavReach.thy ===== *)
theory NavReach
  imports NavPlaces NavShipped
begin

text \<open>
  From a page of the site to its entry in the navigation tree (\<open>navTo\<close> of \<open>navtree.js\<close> on the
  shipped arrays): the choice of the index script, the position in it and the entry at that
  position, put together.
\<close>

section \<open>Choosing the script\<close>

lemma choose_index_joined:
  assumes "first_keys site = k # ks" "k \<le> root @ hash" "choose_index site (root @ hash) [] = (i, u)"
  shows "choose_index site root hash = (i, root)"
  using assms by (auto simp: choose_index_eq Let_def)

lemma key_not_below:
  assumes "i < 3" "k \<in> set (map fst (NAVTREEINDEX_scripts ! i))"
  shows "js (NAVTREEINDEX ! i) \<le> js k"
proof -
  note b = within_bounds(1) [OF within_0a, of k] within_bounds(1) [OF within_0b, of k]
    within_bounds(1) [OF within_1a, of k] within_bounds(1) [OF within_1b, of k]
    within_bounds(1) [OF within_2a, of k] within_bounds(1) [OF within_2b, of k]
  have scripts: "NAVTREEINDEX_scripts ! 0 = NAVTREEINDEX0a @ NAVTREEINDEX0b"
    "NAVTREEINDEX_scripts ! 1 = NAVTREEINDEX1a @ NAVTREEINDEX1b" "NAVTREEINDEX_scripts ! 2 = NAVTREEINDEX2a @ NAVTREEINDEX2b"
    by (simp_all add: NAVTREEINDEX_scripts_def)
  have part: "k \<in> set (map fst (xs @ ys)) \<longleftrightarrow> k \<in> set (map fst xs) \<or> k \<in> set (map fst ys)"
    for xs ys :: "(string \<times> nat list) list" by auto
  have "i = 0 \<or> i = 1 \<or> i = 2" using assms(1) by arith
  then show ?thesis
  proof (elim disjE)
    assume "i = 0"
    then show ?thesis using assms(2) scripts(1) part b(1,2) by metis
  next
    assume "i = 1"
    then show ?thesis using assms(2) scripts(2) part b(3,4) by metis
  next
    assume "i = 2"
    then show ?thesis using assms(2) scripts(3) part b(5,6) by metis
  qed
qed

lemma key_not_below_first:
  assumes "es \<in> set NAVTREEINDEX_scripts" "k \<in> set (map fst es)"
  shows "js (NAVTREEINDEX ! 0) \<le> js k"
proof -
  have three: "length NAVTREEINDEX_scripts = 3" by (simp add: NAVTREEINDEX_scripts_def)
  obtain i where i: "i < 3" "es = NAVTREEINDEX_scripts ! i" using assms(1) three by (metis in_set_conv_nth)
  then have "i = 0 \<or> i = 1 \<or> i = 2" by arith
  then have "js (NAVTREEINDEX ! 0) \<le> js (NAVTREEINDEX ! i)" using first_keys_less by auto
  then show ?thesis using key_not_below [OF i(1), of k] assms(2) i(2) by (metis order.trans)
qed

lemma chosen_script:
  assumes "i < length NAVTREEINDEX_scripts" "k \<in> set (map fst (NAVTREEINDEX_scripts ! i))"
  shows "choose_index shipped_site (js k) [] = (i, js k)"
proof -
  have "i = 0 \<or> i = 1 \<or> i = 2" using assms(1) by (auto simp: NAVTREEINDEX_scripts_def)
  moreover have "chosen_for 0 (NAVTREEINDEX_scripts ! 0)" "chosen_for 1 (NAVTREEINDEX_scripts ! 1)"
    "chosen_for 2 (NAVTREEINDEX_scripts ! 2)"
    using chosen_scripts by (simp_all add: NAVTREEINDEX_scripts_def chosen_for_append)
  ultimately have "chosen_for i (NAVTREEINDEX_scripts ! i)" by auto
  with assms(2) show ?thesis by (auto simp: chosen_for_def list_all_iff)
qed

section \<open>What the index lists\<close>

text \<open>The position that a shipped index script gives for a URL.\<close>

definition listed_at :: "nat \<Rightarrow> jstr \<Rightarrow> nat list \<Rightarrow> bool" where
  "listed_at i url b \<longleftrightarrow>
     (case index_script shipped_site i of None \<Rightarrow> False | Some es \<Rightarrow> obj_get es url = Some b)"

text \<open>The index scripts that the page has loaded so far are the shipped ones.\<close>

definition cache_ok :: "nav_state \<Rightarrow> bool" where
  "cache_ok st \<longleftrightarrow>
     (\<forall>i. navTreeSubIndices st i = None \<or> navTreeSubIndices st i = index_script shipped_site i)"

lemma listed_entry:
  assumes "listed_at i url b"
  obtains k es where "url = js k" "i < length NAVTREEINDEX_scripts" "(k, b) \<in> set (NAVTREEINDEX_scripts ! i)"
    "index_script shipped_site i = Some es" "obj_get es url = Some b"
proof -
  obtain es where es: "index_script shipped_site i = Some es" "obj_get es url = Some b"
    using assms by (auto simp: listed_at_def split: option.splits)
  then have i: "i < length NAVTREEINDEX_scripts" "es = map (\<lambda>(k, b). (js k, b)) (NAVTREEINDEX_scripts ! i)"
    by (auto simp: shipped_site_def split: if_splits)
  have "(url, b) \<in> set es" using es(2) map_of_SomeD by (fastforce simp: obj_get_def)
  then obtain k where "url = js k" "(k, b) \<in> set (NAVTREEINDEX_scripts ! i)" by (auto simp: i(2))
  with that es i(1) show thesis by blast
qed

lemma placed_entry:
  assumes "(k, b) \<in> set (NAVTREEINDEX_scripts ! i)" "i < length NAVTREEINDEX_scripts"
  obtains t l d where "item_at shipped_scripts (Items NAVTREE) (0 # b) = Some (Item t (Some (js l)) d)"
    "l = k \<or> (k, l) \<in> set moved_entries" "loads shipped_scripts d"
proof -
  have "well_placed k b" using index_placed assms by (fastforce simp: list_all_iff)
  then obtain t l d where t: "tree_at (0 # b) = Some (Item t (Some (js l)) d)" "l = k \<or> (k, l) \<in> set moved_entries"
    "case d of Lazy v \<Rightarrow> level shipped_scripts (Lazy v) \<noteq> None | _ \<Rightarrow> True"
    by (auto simp: well_placed_def)
  then have "loads shipped_scripts d" by (auto simp: loads_def level_def split: nav_data.splits)
  with that t show thesis by (simp add: tree_at_def)
qed

section \<open>Properties\<close>

text \<open>
  Every page that the site lists is reached: from every state of the tree and of the
  scripts loaded so far, going to a URL of the shipped index returns, opens every level on
  the way and highlights the entry whose link is the URL (for the six listed source and
  overview pages, the entry of the page they belong to).
\<close>

theorem every_listed_page_is_reached:
  assumes "listed_at i (root @ hash) b" "\<not> is_line_hash hash" "\<not> has_cachedLink sync" "cache_ok st"
    and "scripts pg = shipped_scripts" "tree_reachable pg NAVTREE (root_node st)"
  shows "\<exists>st' t k l d. navTo shipped_site pg sync root hash st = Some st' \<and> root @ hash = js k \<and>
    item_at shipped_scripts (Items NAVTREE) (0 # b) = Some (Item t (Some (js l)) d) \<and>
    (l = k \<or> (k, l) \<in> set moved_entries) \<and>
    breadcrumbs st' = Some (0 # b) \<and> way_open (root_node st') (0 # b) \<and>
    label (info (node_at (root_node st') (0 # b))) = t \<and>
    (0 # b \<in> set (selected st') \<or>
     (\<exists>p \<in> set (selected st'). highlighted (location_of pg) hash (anchor_class (anchor (info (node_at (root_node st') p))))))"
proof -
  obtain k es where k: "root @ hash = js k" "i < length NAVTREEINDEX_scripts" "(k, b) \<in> set (NAVTREEINDEX_scripts ! i)"
    "index_script shipped_site i = Some es" "obj_get es (root @ hash) = Some b"
    using listed_entry [OF assms(1)] .
  have in_keys: "k \<in> set (map fst (NAVTREEINDEX_scripts ! i))" using k(3) by force
  have chosen: "choose_index shipped_site root hash = (i, root)"
    using choose_index_joined [OF first_keys_shipped, of root hash i "js k"]
      key_not_below_first [OF nth_mem [OF k(2)] in_keys] chosen_script [OF k(2) in_keys] k(1) by simp
  obtain st' where st': "load_index shipped_site i st = Some (es, st')"
  proof -
    have "navTreeSubIndices st i = None \<or> navTreeSubIndices st i = Some es"
      using assms(4) k(4) unfolding cache_ok_def by metis
    then show thesis using k(4) that by (auto simp: load_index_def)
  qed
  obtain t l d where t: "item_at shipped_scripts (Items NAVTREE) (0 # b) = Some (Item t (Some (js l)) d)"
    "l = k \<or> (k, l) \<in> set moved_entries" "loads shipped_scripts d"
    using placed_entry [OF k(3,2)] .
  have nav: "nav_tree shipped_site = NAVTREE" by (simp add: shipped_site_def)
  obtain n where n: "way_open n (0 # b)" "label (info (node_at n (0 # b))) = t"
    "navTo shipped_site pg sync root hash st =
       Some (selectAndHighlight pg hash (Some (0 # b)) (st'\<lparr>breadcrumbs := Some (0 # b), root_node := n\<rparr>))"
    using navTo_listed [OF assms(3,2) chosen st' k(5), of pg "Item t (Some (js l)) d"] assms(5,6) t nav by auto
  then show ?thesis
    using k(1) t(1,2) select_selects [of "0 # b" pg hash "st'\<lparr>breadcrumbs := Some (0 # b), root_node := n\<rparr>"]
    by (intro exI conjI) auto
qed

text \<open>The page of the HTTP client, on a page that has just been opened.\<close>

definition opened_page :: nav_page where
  "opened_page = \<lparr>location_of = \<lparr>loc_pathname = js ''/html/index.html'', loc_hash = []\<rparr>, relpath = [],
     toroot = js ''index.html'', scripts = shipped_scripts\<rparr>"

definition opened_state :: nav_state where
  "opened_state = \<lparr>navTreeSubIndices = (\<lambda>_. None), root_node = init_root NAVTREE, breadcrumbs = None,
     selected = [], sync_top = 0, thrown_error = None\<rparr>"

lemma obj_get_last: "es \<noteq> [] \<Longrightarrow> last es = (k, b) \<Longrightarrow> obj_get es k = Some b"
  by (cases es rule: rev_cases) (simp_all add: obj_get_def)

theorem every_listed_page_is_reached_witness:
  "\<exists>st. navTo shipped_site opened_page no_sync (js ''pages.html'') [] opened_state = Some st \<and>
     breadcrumbs st = Some [0]"
proof -
  have "NAVTREEINDEX2b \<noteq> []" "last NAVTREEINDEX2b = (''pages.html'', [])"
    by (simp_all add: NAVTREEINDEX2b_def)
  then have "listed_at 2 (js ''pages.html'' @ []) []"
    by (simp add: listed_at_def shipped_site_def NAVTREEINDEX_scripts_def obj_get_last last_map)
  moreover have "\<not> has_cachedLink no_sync" by (rule demo_facts(1))
  moreover have "cache_ok opened_state" by (simp add: cache_ok_def opened_state_def)
  moreover have "scripts opened_page = shipped_scripts" by (simp add: opened_page_def)
  moreover have "tree_reachable opened_page NAVTREE (root_node opened_state)"
    by (simp add: opened_state_def tree_reachable.init)
  moreover have "\<not> is_line_hash []" by (simp add: is_line_hash_def)
  ultimately show ?thesis using every_listed_page_is_reached [of 2 "js ''pages.html''" "[]" "[]"] by blast
qed

end
