(* ===== verification/NavScroll.thy ===== *)
theory NavScroll
  imports NavIndex
begin

text \<open>
  Scrolling to an anchor of the page and the short highlight (\<open>gotoAnchor\<close>, \<open>glowEffect\<close>,
  \<open>highlightAnchor\<close>, \<open>showRoot\<close> and the click on an entry of the tree in \<open>navtree.js\<close>), with the
  queue of animations of jQuery. Positions are whole pixels.
\<close>

section \<open>The content and its animations\<close>

text \<open>
  An animation that was asked for: where it scrolls to, how long it takes, and what its end
  does to the location (\<open>None\<close> for nothing).
\<close>

record animation =
  target_top :: int
  duration :: int
  new_location :: "jstr option"

text \<open>
  The panel, the stored link, the content's box, the animations that are queued for it, the
  first of them running, the script's flag, and the fragment of the location.
\<close>

record page_view =
  panel_state :: nav_state
  sync_state :: nav_sync
  content_top :: int
  content_scrollHeight :: int
  content_height :: int
  content_scrollTop :: int
  animations :: "animation list"
  animationInProgress :: bool
  location_hash :: jstr

text \<open>
  Where an anchor stands: whether its parent is one of those that \<open>gotoAnchor\<close> looks for (a member
  item, a member title, a field, a header), the position of the parent, and the position of the
  anchor, which is undefined when there is no such anchor.
\<close>

record anchor_place =
  in_titled_parent :: bool
  parent_top :: int
  own_top :: "int option"

definition anchor_position :: "anchor_place \<Rightarrow> int option" where
  "anchor_position a = (if in_titled_parent a then Some (parent_top a) else own_top a)"

definition gotoAnchor :: "anchor_place \<Rightarrow> jstr \<Rightarrow> bool \<Rightarrow> page_view \<Rightarrow> page_view" where
  "gotoAnchor a aname updateLocation v =
     (case anchor_position a of
        None \<Rightarrow> v
      | Some pos \<Rightarrow>
          if pos = 0 then v
          else
            let dist = \<bar>min (pos - content_top v)
                  (content_scrollHeight v - content_height v - content_scrollTop v)\<bar>
            in v\<lparr>animationInProgress := True,
                 animations := animations v @
                   [\<lparr>target_top = pos + content_scrollTop v - content_top v,
                     duration = max 50 (min 500 dist),
                     new_location = (if updateLocation then Some aname else None)\<rparr>]\<rparr>)"

text \<open>The browser keeps the scroll position between zero and what the content has to scroll.\<close>

definition scroll_limit :: "page_view \<Rightarrow> int" where
  "scroll_limit v = max 0 (content_scrollHeight v - content_height v)"

definition scroll_to :: "int \<Rightarrow> page_view \<Rightarrow> page_view" where
  "scroll_to t v = v\<lparr>content_scrollTop := max 0 (min (scroll_limit v) t)\<rparr>"

text \<open>The end of the running animation: the content stands at its target, and its callback runs.\<close>

definition animation_done :: "page_view \<Rightarrow> page_view" where
  "animation_done v =
     (case animations v of
        [] \<Rightarrow> v
      | a # as \<Rightarrow> (scroll_to (target_top a) v)\<lparr>animations := as,
          location_hash := (case new_location a of Some n \<Rightarrow> n | None \<Rightarrow> location_hash v),
          animationInProgress := False\<rparr>)"

section \<open>Clicking an entry\<close>

text \<open>The handler that \<open>newNode\<close> puts on the anchor of a node with a link.\<close>

definition click_entry :: "nat list \<Rightarrow> link_attrs \<Rightarrow> anchor_place \<Rightarrow> page_view \<Rightarrow> page_view" where
  "click_entry p l place v =
     (case a_onclick l of
        StoreOnly link \<Rightarrow> v\<lparr>sync_state := storeLink link (sync_state v)\<rparr>
      | StoreAndGoto link aname \<Rightarrow>
          let v = v\<lparr>sync_state := storeLink link (sync_state v)\<rparr>;
              v = (if p \<in> set (selected (panel_state v)) then v
                   else v\<lparr>panel_state := (clear_selection (panel_state v))\<lparr>selected := [p]\<rparr>\<rparr>)
          in gotoAnchor place aname True v)"

text \<open>The page as its location now is.\<close>

definition at_fragment :: "nav_page \<Rightarrow> page_view \<Rightarrow> nav_page" where
  "at_fragment pg v = pg\<lparr>location_of := (location_of pg)\<lparr>loc_hash := location_hash v\<rparr>\<rparr>"

section \<open>The highlight\<close>

text \<open>
  The class \<open>glow\<close> of an element and its queue: each call of \<open>glowEffect\<close> adds the class at once
  and appends a delay that ends with the removal of the class.
\<close>

type_synonym glow = "bool \<times> nat list"

fun glowEffect :: "nat \<Rightarrow> glow \<Rightarrow> glow" where
  "glowEffect ms (g, q) = (True, q @ [ms])"

fun glow_time :: "nat \<Rightarrow> glow \<Rightarrow> glow" where
  "glow_time t (g, []) = (g, [])"
| "glow_time t (g, d # q) = (if t < d then (g, (d - t) # q) else glow_time (t - d) (False, q))"

datatype glow_target = MemberRows jstr | Grandparent | Parent | NextSibling

text \<open>
  \<open>highlightAnchor\<close>: what glows and for how long. The class attribute of the anchor's parent is
  \<open>None\<close> when there is none. jQuery refuses a selector that is a number sign alone, which is
  what \<open>hashUrl\<close> gives for a location without a fragment: then the call throws (\<open>None\<close>).
\<close>

definition highlightAnchor :: "location \<Rightarrow> jstr option \<Rightarrow> bool \<Rightarrow> (glow_target \<times> nat) option" where
  "highlightAnchor loc parent_class parent_is_header =
     (if hashUrl loc = [number_sign] then None
      else Some
        (if parent_class = Some (js ''memItemLeft'') then (MemberRows (hashValue loc), 300)
         else if parent_class = Some (js ''fieldname'') then (Grandparent, 1000)
         else if parent_class = Some (js ''fieldtype'') then (Grandparent, 1000)
         else if parent_is_header then (Parent, 1000)
         else (NextSibling, 1000)))"

text \<open>
  The end of \<open>showRoot\<close>: it tries to scroll the tree to the selected item until the call does not
  throw. \<open>throws n\<close> is the outcome of attempt \<open>n\<close>; the result is the number of failed attempts.
\<close>

partial_function (option) showRoot_retry :: "(nat \<Rightarrow> bool) \<Rightarrow> nat \<Rightarrow> nat option" where
  "showRoot_retry throws n = (if throws n then showRoot_retry throws (Suc n) else Some n)"

section \<open>Bounds of the animations\<close>

datatype scroll_event = Goto anchor_place jstr bool | AnimationDone | Scrolled int

fun scroll_step :: "scroll_event \<Rightarrow> page_view \<Rightarrow> page_view" where
  "scroll_step (Goto a aname u) v = gotoAnchor a aname u v"
| "scroll_step AnimationDone v = animation_done v"
| "scroll_step (Scrolled t) v = scroll_to t v"

definition scroll_ok :: "page_view \<Rightarrow> bool" where
  "scroll_ok v \<longleftrightarrow> list_all (\<lambda>a. 50 \<le> duration a \<and> duration a \<le> 500) (animations v) \<and>
     (animationInProgress v \<longrightarrow> animations v \<noteq> []) \<and>
     0 \<le> content_scrollTop v \<and> content_scrollTop v \<le> scroll_limit v"

lemma scroll_limit_simps [simp]:
  "scroll_limit (v\<lparr>animations := as\<rparr>) = scroll_limit v"
  "scroll_limit (v\<lparr>animationInProgress := b\<rparr>) = scroll_limit v"
  "scroll_limit (v\<lparr>location_hash := h\<rparr>) = scroll_limit v"
  "scroll_limit (v\<lparr>content_scrollTop := t\<rparr>) = scroll_limit v"
  "0 \<le> scroll_limit v"
  by (simp_all add: scroll_limit_def)

lemma scroll_ok_step: "scroll_ok v \<Longrightarrow> scroll_ok (scroll_step e v)"
  by (cases e)
    (auto simp: scroll_ok_def gotoAnchor_def animation_done_def scroll_to_def Let_def split: option.splits list.splits)

text \<open>
  C18: Over every order of calls of \<open>gotoAnchor\<close>, ends of animations and scrolling by the reader, an
  animation takes between 50 and 500 milliseconds, the content stays within its limits, and the
  flag is set only while an animation is queued, so that the handler of \<open>hashchange\<close> is never
  held back for good.
\<close>

theorem animations_are_bounded:
  fixes es v
  assumes "animations v = []" "\<not> animationInProgress v" "0 \<le> content_scrollTop v" "content_scrollTop v \<le> scroll_limit v"
  defines "v' \<equiv> fold scroll_step es v"
  shows "list_all (\<lambda>a. 50 \<le> duration a \<and> duration a \<le> 500) (animations v') \<and>
    0 \<le> content_scrollTop v' \<and> content_scrollTop v' \<le> scroll_limit v' \<and>
    (animationInProgress v' \<longrightarrow> animations v' \<noteq> [])"
proof -
  have "scroll_ok v \<Longrightarrow> scroll_ok (fold scroll_step es v)" for v
    by (induction es arbitrary: v) (simp_all add: scroll_ok_step)
  from this [of v] show ?thesis using assms(1-4) unfolding v'_def by (simp add: scroll_ok_def)
qed

definition demo_view :: page_view where
  "demo_view = \<lparr>panel_state = demo_state, sync_state = no_sync, content_top = 100, content_scrollHeight = 5000,
     content_height = 600, content_scrollTop = 0, animations = [], animationInProgress = False, location_hash = []\<rparr>"

definition demo_place :: anchor_place where
  "demo_place = \<lparr>in_titled_parent = False, parent_top = 0, own_top = Some 3000\<rparr>"

theorem animations_are_bounded_witness:
  "list_all (\<lambda>a. 50 \<le> duration a \<and> duration a \<le> 500) (animations (fold scroll_step [Goto demo_place (js ''#a1'') True] demo_view)) \<and>
   animations (fold scroll_step [Goto demo_place (js ''#a1'') True] demo_view) \<noteq> []"
  using animations_are_bounded [of demo_view "[Goto demo_place (js ''#a1'') True]"]
  by (simp add: demo_view_def scroll_limit_def) (simp add: gotoAnchor_def anchor_position_def demo_place_def Let_def)

text \<open>
  The flag is not set during the whole of a scroll: when a second anchor is gone to before the
  first animation has ended, the end of the first one clears the flag while the second one runs.
\<close>

theorem flag_drops_during_second_scroll:
  assumes "anchor_position a = Some x" "x \<noteq> 0" "anchor_position b = Some y" "y \<noteq> 0" "animations v = []"
  shows "animations (animation_done (gotoAnchor b n u (gotoAnchor a m w v))) \<noteq> [] \<and>
    \<not> animationInProgress (animation_done (gotoAnchor b n u (gotoAnchor a m w v)))"
  using assms by (simp add: gotoAnchor_def animation_done_def scroll_to_def Let_def)

theorem flag_drops_during_second_scroll_witness:
  "\<not> animationInProgress (animation_done (gotoAnchor demo_place (js ''#b'') True (gotoAnchor demo_place (js ''#a'') True demo_view)))"
  using flag_drops_during_second_scroll [of demo_place 3000 demo_place 3000 demo_view]
  by (simp add: demo_place_def anchor_position_def demo_view_def)

section \<open>Following an entry\<close>

text \<open>
  C16: Clicking the entry of an anchor of this page, at a position other than zero: when the content
  has come to rest the location names the anchor, the entry is selected, and the handler of the
  change of the fragment keeps it selected and navigates to the anchor.
\<close>

theorem clicked_entry_stays_selected:
  fixes pg v rel base dir page aname place p
  defines "l \<equiv> link_attributes (location_of pg) rel (dir @ page @ number_sign # aname)"
    and "v' \<equiv> animation_done (click_entry p (link_attributes (location_of pg) rel (dir @ page @ number_sign # aname)) place v)"
  assumes page: "slash \<notin> set page" "number_sign \<notin> set (dir @ page)" "dir = [] \<or> last dir = slash"
    "js_substr (dir @ page) 0 1 \<noteq> js ''^''" "dir @ page \<noteq> []"
    and aname: "list_all (\<lambda>c. is_word c \<or> c = 45) aname" "aname \<noteq> []"
    and loc: "loc_pathname (location_of pg) = base @ dir @ page" "base = [] \<or> last base = slash"
      "list_all path_keeps (base @ dir @ page)"
    and node: "p \<in> set (built_positions (root_node (panel_state v)))"
      "anchor (info (node_at (root_node (panel_state v)) p)) = LinkAnchor l"
    and pos: "anchor_position place = Some y" "y \<noteq> 0" and idle: "animations v = []"
  shows "location_hash v' = number_sign # aname \<and> p \<in> set (selected (panel_state v')) \<and>
    on_hashchange (at_fragment pg v') (animationInProgress v') (panel_state v')
      = Some (panel_state v', stripPath2 (pathName (location_of pg)), number_sign # aname)"
proof -
  let ?link = "dir @ page @ number_sign # aname"
  have "number_sign \<notin> set aname" using aname(1) by (auto simp: list_all_iff is_word_def)
  then have "js_split number_sign ?link = [dir @ page, aname]"
    using js_split_first [of number_sign "dir @ page" aname] page(2) by (simp add: js_split_none)
  moreover have internal: "js_substr ?link 0 1 \<noteq> js ''^''"
    using page(4,5) by (cases "dir @ page") (auto simp: js_substr_def js_def append_eq_Cons_conv)
  ultimately have click: "a_onclick l = StoreAndGoto ?link (number_sign # aname)"
    by (simp add: l_def link_attributes_def Let_def)
  have sel: "p \<in> set (selected (panel_state v'))" "root_node (panel_state v') = root_node (panel_state v)"
    "location_hash v' = number_sign # aname"
    using pos idle click
    by (auto simp: v'_def l_def [symmetric] click_entry_def gotoAnchor_def animation_done_def scroll_to_def
      clear_selection_def Let_def)
  define loc' where "loc' = (location_of pg)\<lparr>loc_hash := number_sign # aname\<rparr>"
  have "highlighted loc' (hashUrl loc') (a_className (link_attributes loc' rel ?link))"
    using node_class_found_by_selector [of page dir aname loc' base rel] page aname loc by (simp add: loc'_def)
  moreover have names: "pathName loc' = pathName (location_of pg)" "hashUrl loc' = number_sign # aname"
    using hashUrl_hash [OF aname(1), of loc'] by (simp_all add: loc'_def pathName_def)
  moreover have "link_attributes loc' rel ?link = l" by (simp add: l_def link_attributes_def Let_def names)
  ultimately have "suffix (stripPath (pathName loc') @ [colon] @ hashValue loc') (a_className l)"
    by (simp add: highlighted_def highlight_suffix_def hashUrl_def js_substring_from_def)
  then have "\<exists>q \<in> set (filter (\<lambda>q. suffix (stripPath (pathName loc') @ [colon] @ hashValue loc')
      (anchor_class (anchor (info (node_at (root_node (panel_state v')) q))))) (built_positions (root_node (panel_state v')))).
      q \<in> set (selected (panel_state v'))"
    using sel node by (intro bexI [of _ p]) (auto simp: anchor_class_def)
  moreover have "location_of (at_fragment pg v') = loc'" by (simp add: at_fragment_def loc'_def sel)
  ultimately have "on_hashchange (at_fragment pg v') (animationInProgress v') (panel_state v')
      = Some (panel_state v', stripPath2 (pathName loc'), hashUrl loc')"
    using aname(2) by (simp add: on_hashchange_def Let_def loc'_def)
  then show ?thesis using sel names by simp
qed

text \<open>
  The entry of an anchor at position zero is not followed: \<open>if (pos)\<close> takes the position for a
  missing one, so the content does not move and the location stays as it is.
\<close>

theorem anchor_at_zero_is_ignored:
  assumes "anchor_position place = Some 0" "a_onclick l = StoreAndGoto link n"
  shows "location_hash (click_entry p l place v) = location_hash v \<and> animations (click_entry p l place v) = animations v"
  using assms by (simp add: click_entry_def gotoAnchor_def Let_def)

theorem anchor_at_zero_is_ignored_witness:
  "animations (click_entry [0] (link_attributes \<lparr>loc_pathname = js ''/p.html'', loc_hash = []\<rparr> [] (js ''p.html#a''))
     (demo_place\<lparr>own_top := Some 0\<rparr>) demo_view) = []"
  using anchor_at_zero_is_ignored [of "demo_place\<lparr>own_top := Some 0\<rparr>"
      "link_attributes \<lparr>loc_pathname = js ''/p.html'', loc_hash = []\<rparr> [] (js ''p.html#a'')" "js ''p.html#a''" "js ''#a''" "[0]" demo_view]
  by (simp add: demo_place_def anchor_position_def demo_view_def link_attributes_def js_def js_substr_def Let_def)

definition entry_page :: nav_page where
  "entry_page = demo_nav_page\<lparr>location_of := \<lparr>loc_pathname = js ''/p.html'', loc_hash = []\<rparr>\<rparr>"

definition entry_view :: page_view where
  "entry_view = demo_view\<lparr>panel_state := demo_state\<lparr>root_node :=
     (let r = init_root [] in Node (info r) [newNode entry_page r (Item (js ''a'') (Some (js ''p.html#a'')) NoData) True])\<rparr>\<rparr>"

lemma entry_view_facts:
  "[0] \<in> set (built_positions (root_node (panel_state entry_view)))"
  "anchor (info (node_at (root_node (panel_state entry_view)) [0]))
    = LinkAnchor (link_attributes (location_of entry_page) (relpath entry_page) (js ''p.html#a''))"
  "animations entry_view = []"
  by (subst built_positions.simps)
    (simp_all add: entry_view_def newNode_def createIndent_def Let_def demo_view_def demo_state_def)

theorem clicked_entry_stays_selected_witness:
  "[0] \<in> set (selected (panel_state (animation_done
     (click_entry [0] (link_attributes (location_of entry_page) (relpath entry_page) (js ''p.html#a'')) demo_place entry_view))))"
proof -
  have link: "js ''p.html#a'' = js [] @ js ''p.html'' @ number_sign # js ''a''" by (simp add: js_def)
  show ?thesis
    unfolding link
    by (rule conjunct1 [OF conjunct2 [OF clicked_entry_stays_selected
          [where base = "js ''/''" and y = 3000, OF _ _ _ _ _ _ _ _ _ _ entry_view_facts(1)
            entry_view_facts(2) [unfolded link] _ _ entry_view_facts(3)]]])
      (simp_all add: js_def is_word_def path_keeps_def js_substr_def entry_page_def demo_place_def anchor_position_def)
qed

section \<open>The highlight ends\<close>

lemma glow_time_all: "sum_list q \<le> t \<Longrightarrow> glow_time t (g, q) = (g \<and> q = [], [])"
proof (induction q arbitrary: t g)
  case (Cons d q)
  then show ?case by auto
qed simp

lemma glow_time_snd: "glow_time t (g, q) = (g', q') \<Longrightarrow> (g \<longrightarrow> q \<noteq> []) \<Longrightarrow> g' \<longrightarrow> q' \<noteq> []"
  by (induction t "(g, q)" arbitrary: g q rule: glow_time.induct) (auto split: if_splits)

datatype glow_event = Highlight nat | Wait nat

fun glow_step :: "glow_event \<Rightarrow> glow \<Rightarrow> glow" where
  "glow_step (Highlight ms) x = glowEffect ms x"
| "glow_step (Wait t) x = glow_time t x"

text \<open>
  However often and whenever an element is highlighted, the class is gone when nothing new
  happens for the time that is queued.
\<close>

theorem highlight_ends:
  "\<not> fst (glow_time (sum_list (snd (fold glow_step es (False, [])))) (fold glow_step es (False, [])))"
proof -
  have "fst x \<longrightarrow> snd x \<noteq> [] \<Longrightarrow> fst (fold glow_step es x) \<longrightarrow> snd (fold glow_step es x) \<noteq> []" for x :: glow
  proof (induction es arbitrary: x)
    case (Cons e es)
    obtain g q where x: "x = (g, q)" by (cases x)
    have "fst (glow_step e x) \<longrightarrow> snd (glow_step e x) \<noteq> []"
    proof (cases e)
      case (Wait t)
      then show ?thesis using glow_time_snd [of t g q] Cons.prems x by (cases "glow_time t (g, q)") auto
    qed (simp add: x)
    then show ?case using Cons.IH by simp
  qed simp
  from this [of "(False, [])"] show ?thesis
    by (cases "fold glow_step es (False, [])") (auto simp: glow_time_all)
qed

text \<open>\<open>showRoot\<close> scrolls at the first attempt that does not throw.\<close>

lemma showRoot_retry_first:
  assumes "\<not> throws m" "\<And>k. n \<le> k \<Longrightarrow> k < m \<Longrightarrow> throws k" "n \<le> m"
  shows "showRoot_retry throws n = Some m"
  using assms(2,3)
proof (induction "m - n" arbitrary: n)
  case 0
  then show ?case using assms(1) by (subst showRoot_retry.simps) simp
next
  case (Suc k n)
  then have "showRoot_retry throws (Suc n) = Some m" by (intro Suc.hyps(1)) auto
  then show ?case using Suc.prems(1) [of n] Suc.hyps(2) by (subst showRoot_retry.simps) simp
qed

section \<open>A stored link and a page without a fragment\<close>

text \<open>
  Synchronisation was switched off on this page at an anchor, and the page is opened again
  without the fragment: the navigation is for the anchor, its entry is one that
  \<open>selectAndHighlight\<close> selects, and then \<open>highlightAnchor\<close> throws, because it takes the fragment
  from the location and not from the stored link.
\<close>

theorem stored_fragment_stops_highlight:
  fixes loc base dir page aname rel
  defines "loc' \<equiv> loc\<lparr>loc_hash := []\<rparr>"
  assumes "localStorageSupported sync" "sync_class sync"
    and page: "slash \<notin> set page" "number_sign \<notin> set (dir @ page)" "dir = [] \<or> last dir = slash"
      "js_substr (dir @ page) 0 1 \<noteq> js ''^''" "dir @ page \<noteq> []"
    and aname: "list_all (\<lambda>c. is_word c \<or> c = 45) aname" "loc_hash loc = number_sign # aname"
    and loc: "loc_pathname loc = base @ dir @ page" "base = [] \<or> last base = slash"
      "list_all path_keeps (base @ dir @ page)" "number_sign \<notin> set (base @ dir @ page)"
  shows "snd (nav_target (toggleSyncButton loc sync) root hash) = number_sign # aname \<and>
    highlighted loc' (number_sign # aname) (a_className (link_attributes loc' rel (dir @ page @ number_sign # aname))) \<and>
    highlightAnchor loc' parent_class parent_is_header = None"
proof -
  have hash: "hashUrl loc = number_sign # aname" using aname by (rule hashUrl_hash)
  have "nav_target (toggleSyncButton loc sync) root hash = (stripPath2 (pathName loc), hashUrl loc)"
    using toggle_stores_page assms(2,3) loc by simp
  moreover have "highlighted loc (hashUrl loc) (a_className (link_attributes loc rel (dir @ page @ number_sign # aname)))"
    using node_class_found_by_selector [of page dir aname loc base rel] page aname loc by simp
  moreover have name: "pathName loc' = pathName loc" by (simp add: loc'_def pathName_def)
  have "link_attributes loc' rel x = link_attributes loc rel x" "highlighted loc' h c = highlighted loc h c" for x h c
    unfolding link_attributes_def highlighted_def highlight_suffix_def name by (rule refl)+
  moreover have "highlightAnchor loc' parent_class parent_is_header = None"
    by (simp add: highlightAnchor_def hashUrl_def hashValue_def loc'_def js_substring_from_def)
  ultimately show ?thesis by (simp only: hash snd_conv simp_thms)
qed

theorem stored_fragment_stops_highlight_witness:
  "highlightAnchor \<lparr>loc_pathname = js ''/p.html'', loc_hash = []\<rparr> None False = None \<and>
   snd (nav_target (toggleSyncButton \<lparr>loc_pathname = js ''/p.html'', loc_hash = js ''#a''\<rparr> no_sync) (js ''p.html'') (js ''#''))
     = js ''#a''"
proof -
  let ?loc = "\<lparr>loc_pathname = js ''/p.html'', loc_hash = js ''#a''\<rparr>"
  have "snd (nav_target (toggleSyncButton ?loc no_sync) (js ''p.html'') (js ''#'')) = number_sign # js ''a'' \<and>
    highlighted (?loc\<lparr>loc_hash := []\<rparr>) (number_sign # js ''a'')
      (a_className (link_attributes (?loc\<lparr>loc_hash := []\<rparr>) [] (js [] @ js ''p.html'' @ number_sign # js ''a''))) \<and>
    highlightAnchor (?loc\<lparr>loc_hash := []\<rparr>) None False = None"
    by (rule stored_fragment_stops_highlight [where base = "js ''/''"])
      (simp_all add: js_def is_word_def path_keeps_def js_substr_def no_sync_def)
  then show ?thesis by (simp add: js_def)
qed

end
