(* ===== verification/Theme.thy ===== *)
theory Theme
  imports Prelude
begin

text \<open>
  The theme toggles of the site (\<open>doxygen-awesome-darkmode-toggle.js\<close> and
  \<open>toggle-alternative-theme.js\<close>): the reader's preference is kept per system mode, as a
  deviation from it, in two items of \<open>localStorage\<close>.
\<close>

section \<open>State\<close>

text \<open>
  The system's mode, whether the two items are set, \<open>darkModeEnabled\<close>, the two classes of
  the document element, the icon of the button, and whether the tab is hidden. The last
  two fields are the alternative theme: its flag and its class.
\<close>

record theme =
  systemPreference :: bool
  prefersLightModeInDarkMode :: bool
  prefersDarkModeInLightMode :: bool
  darkModeEnabled :: bool
  dark_class :: bool
  light_class :: bool
  dark_icon :: bool
  tab_hidden :: bool
  original_theme_active :: bool
  alternative_class :: bool

definition userPreference :: "theme \<Rightarrow> bool" where
  "userPreference t \<longleftrightarrow>
     (\<not> systemPreference t \<and> prefersDarkModeInLightMode t) \<or>
     (systemPreference t \<and> \<not> prefersLightModeInDarkMode t)"

definition enableDarkMode :: "bool \<Rightarrow> theme \<Rightarrow> theme" where
  "enableDarkMode enable t =
     (if enable then t\<lparr>darkModeEnabled := True, dark_class := True, light_class := False\<rparr>
      else t\<lparr>darkModeEnabled := False, dark_class := False, light_class := True\<rparr>)"

definition onSystemPreferenceChanged :: "theme \<Rightarrow> theme" where
  "onSystemPreferenceChanged t =
     (let t = t\<lparr>darkModeEnabled := userPreference t\<rparr> in enableDarkMode (darkModeEnabled t) t)"

definition onUserPreferenceChanged :: "theme \<Rightarrow> theme" where
  "onUserPreferenceChanged t = enableDarkMode (darkModeEnabled t) t"

text \<open>The setter of \<open>userPreference\<close>.\<close>

definition set_userPreference :: "bool \<Rightarrow> theme \<Rightarrow> theme" where
  "set_userPreference pref t =
     (let t = t\<lparr>darkModeEnabled := pref\<rparr>;
          t = (if \<not> pref then
                 if systemPreference t then t\<lparr>prefersLightModeInDarkMode := True\<rparr>
                 else t\<lparr>prefersDarkModeInLightMode := False\<rparr>
               else
                 if \<not> systemPreference t then t\<lparr>prefersDarkModeInLightMode := True\<rparr>
                 else t\<lparr>prefersLightModeInDarkMode := False\<rparr>)
      in onUserPreferenceChanged t)"

definition updateIcon :: "theme \<Rightarrow> theme" where
  "updateIcon t = t\<lparr>dark_icon := darkModeEnabled t\<rparr>"

definition toggleDarkMode :: "theme \<Rightarrow> theme" where
  "toggleDarkMode t = updateIcon (set_userPreference (\<not> userPreference t) t)"

text \<open>
  The class is set up when the script is read, and \<open>init\<close> makes the button when the document is
  ready. Both listen to the same two events, the class first.
\<close>

definition static_constructor :: "theme \<Rightarrow> theme" where
  "static_constructor t = enableDarkMode (userPreference t) t"

definition button_made :: "theme \<Rightarrow> theme" where
  "button_made t = updateIcon t"

definition load_theme :: "theme \<Rightarrow> theme" where
  "load_theme t = button_made (static_constructor t)"

definition class_on_visibility :: "theme \<Rightarrow> theme" where
  "class_on_visibility t = (if \<not> tab_hidden t then onSystemPreferenceChanged t else t)"

definition button_on_visibility :: "theme \<Rightarrow> theme" where
  "button_on_visibility t = (if \<not> tab_hidden t then updateIcon t else t)"

definition system_changed :: "bool \<Rightarrow> theme \<Rightarrow> theme" where
  "system_changed s t = updateIcon (onSystemPreferenceChanged (t\<lparr>systemPreference := s\<rparr>))"

definition tab_hides :: "theme \<Rightarrow> theme" where
  "tab_hides t = button_on_visibility (class_on_visibility (t\<lparr>tab_hidden := True\<rparr>))"

definition tab_shown :: "theme \<Rightarrow> theme" where
  "tab_shown t = button_on_visibility (class_on_visibility (t\<lparr>tab_hidden := False\<rparr>))"

text \<open>
  The elements beside the search box, by their identities: \<open>appendChild\<close> moves the button to their
  end, when the document is ready and at every resize of the window.
\<close>

definition append_button :: "nat \<Rightarrow> nat list \<Rightarrow> nat list" where
  "append_button toggleButton toolbar = removeAll toggleButton toolbar @ [toggleButton]"

definition toolbar_after :: "nat \<Rightarrow> nat \<Rightarrow> nat list \<Rightarrow> nat list" where
  "toolbar_after toggleButton resizes toolbar =
     (append_button toggleButton ^^ resizes) (append_button toggleButton toolbar)"

definition toggle_alternative_theme :: "theme \<Rightarrow> theme" where
  "toggle_alternative_theme t =
     (if original_theme_active t then t\<lparr>alternative_class := True, original_theme_active := False\<rparr>
      else t\<lparr>alternative_class := False, original_theme_active := True\<rparr>)"

text \<open>
  The events: the button is pressed in a visible tab, the system's mode changes, the tab is hidden or
  shown again, and another tab or window changes the two items, which they share, at any time. No
  handler listens to that. The first argument says that no other tab has changed them since this one
  last looked at them.
\<close>

inductive theme_reachable :: "bool \<Rightarrow> theme \<Rightarrow> bool" where
  loaded: "\<not> tab_hidden t \<Longrightarrow> original_theme_active t \<Longrightarrow> \<not> alternative_class t \<Longrightarrow> theme_reachable True (load_theme t)"
| pressed: "theme_reachable fresh t \<Longrightarrow> \<not> tab_hidden t \<Longrightarrow> theme_reachable True (toggleDarkMode t)"
| system: "theme_reachable fresh t \<Longrightarrow> theme_reachable True (system_changed s t)"
| hidden: "theme_reachable fresh t \<Longrightarrow> theme_reachable fresh (tab_hides t)"
| other_tab: "theme_reachable fresh t \<Longrightarrow>
    theme_reachable False (t\<lparr>prefersLightModeInDarkMode := a, prefersDarkModeInLightMode := b\<rparr>)"
| shown: "theme_reachable fresh t \<Longrightarrow> theme_reachable True (tab_shown t)"
| alternative: "theme_reachable fresh t \<Longrightarrow> theme_reachable fresh (toggle_alternative_theme t)"

lemmas theme_defs = userPreference_def enableDarkMode_def onSystemPreferenceChanged_def
  onUserPreferenceChanged_def set_userPreference_def updateIcon_def toggleDarkMode_def
  load_theme_def static_constructor_def button_made_def class_on_visibility_def button_on_visibility_def
  system_changed_def tab_hides_def tab_shown_def toggle_alternative_theme_def Let_def

definition theme_ok :: "bool \<Rightarrow> theme \<Rightarrow> bool" where
  "theme_ok fresh t \<longleftrightarrow>
     dark_class t = darkModeEnabled t \<and> light_class t = (\<not> darkModeEnabled t) \<and>
     dark_icon t = darkModeEnabled t \<and> (fresh \<longrightarrow> darkModeEnabled t = userPreference t) \<and>
     alternative_class t = (\<not> original_theme_active t)"

lemma theme_ok_toggle: "theme_ok fresh t \<Longrightarrow> theme_ok True (toggleDarkMode t)"
  by (cases "systemPreference t"; cases "userPreference t") (auto simp: theme_ok_def theme_defs)

lemma theme_ok_reachable: "theme_reachable fresh t \<Longrightarrow> theme_ok fresh t"
  by (induction rule: theme_reachable.induct) (simp_all add: theme_ok_toggle, auto simp: theme_ok_def theme_defs)

text \<open>
  C36: In every state of a tab exactly one of the two classes is set and the icon agrees with it.
  They are those of the reader's preference as this tab last saw it: at its loading, at a press of
  the button, at a change of the system's mode and when it was last shown; so the tab shows the
  preference unless another tab or window has changed it since, and if so, the next of these events
  makes it show the preference again.
\<close>

theorem page_shows_preference:
  assumes "theme_reachable fresh t"
  shows "light_class t = (\<not> dark_class t) \<and> dark_icon t = dark_class t \<and>
    alternative_class t = (\<not> original_theme_active t) \<and>
    (fresh \<longrightarrow> dark_class t = userPreference t) \<and>
    dark_class (tab_shown t) = userPreference t \<and> dark_icon (tab_shown t) = userPreference t \<and>
    dark_class (system_changed s t) = userPreference (t\<lparr>systemPreference := s\<rparr>) \<and>
    dark_class (toggleDarkMode t) = (\<not> userPreference t)"
proof -
  have "dark_class (tab_shown t) = userPreference t" "dark_icon (tab_shown t) = userPreference t"
    "dark_class (system_changed s t) = userPreference (t\<lparr>systemPreference := s\<rparr>)"
    "dark_class (toggleDarkMode t) = (\<not> userPreference t)"
    by (auto simp: theme_defs)
  then show ?thesis using theme_ok_reachable [OF assms] by (simp add: theme_ok_def)
qed

text \<open>A page that was loaded in light mode, before and after the system's mode changes.\<close>

definition light_page :: theme where
  "light_page = load_theme
     \<lparr>systemPreference = False, prefersLightModeInDarkMode = False, prefersDarkModeInLightMode = False,
      darkModeEnabled = True, dark_class = False, light_class = False, dark_icon = False,
      tab_hidden = False, original_theme_active = True, alternative_class = False\<rparr>"

theorem page_shows_preference_witness:
  "dark_class (system_changed True light_page)"
proof -
  have "theme_reachable True (system_changed True light_page)"
    unfolding light_page_def by (rule theme_reachable.system [OF theme_reachable.loaded]) simp_all
  moreover have "userPreference (system_changed True light_page)" by (simp add: light_page_def theme_defs)
  ultimately show ?thesis using page_shows_preference by blast
qed

text \<open>
  In a second visible window of the site the page goes stale: the other window changes the
  preference, this one still shows what it showed, and the next press of its button, which negates
  the stored preference, changes nothing that the reader sees.
\<close>

theorem second_window_is_stale:
  assumes "theme_reachable True t" "\<not> tab_hidden t"
  shows "\<exists>u. theme_reachable False u \<and> \<not> tab_hidden u \<and> userPreference u = (\<not> userPreference t) \<and>
    dark_class u = (\<not> userPreference u) \<and> dark_class (toggleDarkMode u) = dark_class u"
proof -
  let ?u = "t\<lparr>prefersLightModeInDarkMode := userPreference t, prefersDarkModeInLightMode := \<not> userPreference t\<rparr>"
  have "userPreference ?u = (\<not> userPreference t)" "dark_class ?u = dark_class t" "\<not> tab_hidden ?u"
    using assms(2) by (auto simp: userPreference_def)
  moreover have "dark_class (toggleDarkMode ?u) = (\<not> userPreference ?u)" by (auto simp: theme_defs)
  moreover have "dark_class t = userPreference t"
    using theme_ok_reachable [OF assms(1)] by (simp add: theme_ok_def)
  ultimately show ?thesis using theme_reachable.other_tab [OF assms(1)] by (intro exI [of _ ?u]) simp
qed

theorem second_window_is_stale_witness:
  "\<exists>u. theme_reachable False u \<and> dark_class u = (\<not> userPreference u)"
proof -
  have "theme_reachable True light_page" "\<not> tab_hidden light_page"
    unfolding light_page_def by (rule theme_reachable.loaded; simp) (simp add: theme_defs)
  then show ?thesis using second_window_is_stale by blast
qed

text \<open>
  A press flips the preference for the system's present mode, leaves the one for the
  other mode, and is remembered: whatever mode changes follow, the page comes back to
  the same preference in the same mode.
\<close>

theorem preference_kept_per_system_mode:
  fixes t
  defines "u \<equiv> toggleDarkMode t"
  shows "userPreference u = (\<not> userPreference t) \<and>
    userPreference (system_changed (\<not> systemPreference t) u)
      = userPreference (system_changed (\<not> systemPreference t) t) \<and>
    userPreference (system_changed (systemPreference t) (foldl (\<lambda>t s. system_changed s t) u modes)) = userPreference u"
proof -
  have keys: "prefersLightModeInDarkMode (foldl (\<lambda>t s. system_changed s t) v modes) = prefersLightModeInDarkMode v"
    "prefersDarkModeInLightMode (foldl (\<lambda>t s. system_changed s t) v modes) = prefersDarkModeInLightMode v" for v
    by (induction modes arbitrary: v) (simp_all add: theme_defs)
  have flip: "userPreference u = (\<not> userPreference t)" "systemPreference u = systemPreference t"
    by (cases "systemPreference t"; cases "userPreference t"; auto simp: u_def theme_defs)+
  have other: "userPreference (system_changed (\<not> systemPreference t) u)
      = userPreference (system_changed (\<not> systemPreference t) t)"
    by (cases "systemPreference t"; cases "userPreference t"; simp add: u_def theme_defs)
  have "userPreference (system_changed (systemPreference u) v) = userPreference u"
    if "prefersLightModeInDarkMode v = prefersLightModeInDarkMode u"
      "prefersDarkModeInLightMode v = prefersDarkModeInLightMode u" for v
    using that by (simp add: theme_defs)
  then show ?thesis using flip other keys by simp
qed

text \<open>The button stands once, at the end, among what stood there before, however often the window is resized.\<close>

lemma button_stands_last:
  "b \<notin> set toolbar \<Longrightarrow> toolbar_after b n toolbar = toolbar @ [b]"
  by (induction n) (simp_all add: toolbar_after_def append_button_def)

end
