(* ===== verification/Resize.thy ===== *)
theory Resize
  imports JsString
begin

text \<open>
  The resizable side panel (\<open>resize.js\<close>): the width of the panel, its copy in a cookie,
  folding it, and the folding that follows the width of the window.
\<close>

section \<open>Cookies\<close>

text \<open>The cookies of the page in the order in which \<open>document.cookie\<close> lists them.\<close>

type_synonym cookies = "(jstr \<times> jstr) list"

fun document_cookie :: "cookies \<Rightarrow> jstr" where
  "document_cookie [] = []"
| "document_cookie [(n, v)] = n @ js ''='' @ v"
| "document_cookie ((n, v) # c # cs) = n @ js ''='' @ v @ js ''; '' @ document_cookie (c # cs)"

definition cookie_name :: "string \<Rightarrow> jstr" where
  "cookie_name cookie = js ''doxygen'' @ js ''_'' @ js cookie"

text \<open>\<open>readCookie\<close>; \<open>None\<close> is the number \<open>0\<close> that it returns when nothing is found.\<close>

definition readCookie :: "string \<Rightarrow> cookies \<Rightarrow> jstr option" where
  "readCookie cookie jar =
     (let myCookie = cookie_name cookie @ js ''=''; s = document_cookie jar in
      if s = [] then None
      else case js_indexOf s myCookie of
             None \<Rightarrow> None
           | Some index \<Rightarrow> Some (takeWhile (\<lambda>c. c \<noteq> 59) (drop (index + length myCookie) s)))"

text \<open>Setting a cookie replaces the value of its name or adds it at the end.\<close>

fun set_cookie :: "jstr \<Rightarrow> jstr \<Rightarrow> cookies \<Rightarrow> cookies" where
  "set_cookie n v [] = [(n, v)]"
| "set_cookie n v ((m, w) # cs) = (if m = n then (n, v) # cs else (m, w) # set_cookie n v cs)"

definition writeCookie :: "string \<Rightarrow> jstr \<Rightarrow> cookies \<Rightarrow> cookies" where
  "writeCookie cookie val jar = set_cookie (cookie_name cookie) val jar"

section \<open>The panel\<close>

text \<open>
  The panel's inner width, what its padding adds to the outer width, the margin of the
  content, the window, \<open>collapsed\<close> (undefined counts as false), the window width at the
  last resize, the width of the split bar, and the cookies.
\<close>

record panel =
  sidenav_width :: int
  sidenav_padding :: int
  content_margin :: int
  window_width :: int
  collapsed :: bool
  collapsedWidth :: int
  barWidth :: int
  cookie_jar :: cookies

definition desktop_vp :: int where
  "desktop_vp = 768"

definition resizeWidth :: "panel \<Rightarrow> panel" where
  "resizeWidth p =
     (let sidenavWidth = sidenav_width p + sidenav_padding p in
      p\<lparr>content_margin := sidenavWidth,
        cookie_jar := writeCookie ''width'' (js_int (sidenavWidth - barWidth p)) (cookie_jar p)\<rparr>)"

definition restoreWidth :: "int \<Rightarrow> panel \<Rightarrow> panel" where
  "restoreWidth navWidth p = p\<lparr>content_margin := navWidth + barWidth p, sidenav_width := navWidth\<rparr>"

text \<open>
  The value of the cookie is a string; \<open>num\<close> is the engine's conversion to a number
  (\<open>None\<close> for a string that is not one, with which every comparison is false).
\<close>

definition collapseExpand :: "(jstr \<Rightarrow> int option) \<Rightarrow> panel \<Rightarrow> panel" where
  "collapseExpand num p =
     (if sidenav_width p > 0 then (restoreWidth 0 p)\<lparr>collapsed := True\<rparr>
      else
        let width = (case readCookie ''width'' (cookie_jar p) of None \<Rightarrow> Some 0 | Some v \<Rightarrow> num v);
            p = (case width of
                   Some w \<Rightarrow> if w > 200 \<and> w < window_width p then restoreWidth w p else restoreWidth 200 p
                 | None \<Rightarrow> restoreWidth 200 p)
        in p\<lparr>collapsed := False\<rparr>)"

text \<open>\<open>resizeHeight\<close> after the window got the width \<open>width\<close>, without the heights.\<close>

definition resizeHeight :: "(jstr \<Rightarrow> int option) \<Rightarrow> int \<Rightarrow> panel \<Rightarrow> panel" where
  "resizeHeight num width p =
     (let p = p\<lparr>window_width := width\<rparr> in
      if width \<noteq> collapsedWidth p then
        let q = (if width < desktop_vp \<and> collapsedWidth p \<ge> desktop_vp then
                   (if \<not> collapsed p then collapseExpand num p else p)
                 else if width > desktop_vp \<and> collapsedWidth p < desktop_vp then
                   (if collapsed p then collapseExpand num p else p)
                 else p)
        in q\<lparr>collapsedWidth := width\<rparr>
      else p)"

text \<open>
  The start of \<open>initResizable\<close>, on a device with or without a touch screen: a stored width is
  restored (one that is not a number gives lengths that the browser ignores), otherwise the
  width of the style sheet is stored.
\<close>

definition initResizable :: "(jstr \<Rightarrow> int option) \<Rightarrow> bool \<Rightarrow> panel \<Rightarrow> panel" where
  "initResizable num touch_device p =
     (let p = p\<lparr>collapsed := False, collapsedWidth := 0, barWidth := (if touch_device then 20 else 6),
                sidenav_padding := (if touch_device then 20 else sidenav_padding p)\<rparr>;
          p = (case readCookie ''width'' (cookie_jar p) of
                 None \<Rightarrow> resizeWidth p
               | Some v \<Rightarrow> if v = [] then resizeWidth p
                   else (case num v of None \<Rightarrow> p | Some w \<Rightarrow> restoreWidth w p))
      in resizeHeight num (window_width p) p)"

section \<open>The page around the panel\<close>

text \<open>
  The heights of the window, of the header and of the footer, the heights that the script gives
  to the content, the tree and the panel, the fragment of the location with its number sign, the
  identifiers of the page, and what was last scrolled into view.
\<close>

datatype in_view = NotMoved | AtElement jstr | AtBody

record resized_page =
  side :: panel
  window_height :: int
  header_height :: int
  footer_height :: int
  content_pane :: int
  navtree_pane :: int
  sidenav_pane :: int
  url_hash :: jstr
  page_ids :: "jstr list"
  scrolled_into_view :: in_view

text \<open>jQuery makes a negative height zero.\<close>

definition set_heights :: "resized_page \<Rightarrow> resized_page" where
  "set_heights p =
     (let windowHeight = window_height p - header_height p - footer_height p
      in p\<lparr>content_pane := max 0 windowHeight, navtree_pane := max 0 windowHeight,
           sidenav_pane := max 0 windowHeight\<rparr>)"

definition scroll_to_fragment :: "resized_page \<Rightarrow> resized_page" where
  "scroll_to_fragment p =
     (let i = drop 1 (url_hash p) in
      if i \<noteq> [] then p\<lparr>scrolled_into_view := (if i \<in> set (page_ids p) then AtElement i else AtBody)\<rparr>
      else p)"

text \<open>The whole of \<open>resizeHeight\<close>, for a window of the width \<open>w\<close>.\<close>

definition resize_page :: "(jstr \<Rightarrow> int option) \<Rightarrow> int \<Rightarrow> resized_page \<Rightarrow> resized_page" where
  "resize_page num w p = scroll_to_fragment ((set_heights p)\<lparr>side := resizeHeight num w (side p)\<rparr>)"

text \<open>
  What happens on the page: the window gets a new size, with heights of the header and the
  footer that may depend on it, the window is loaded, the bar is double-clicked, or dragged until the panel has a width.
\<close>

datatype panel_event = WindowResized int int int int | WindowLoaded | DoubleClicked | Dragged int

fun panel_step :: "(jstr \<Rightarrow> int option) \<Rightarrow> panel_event \<Rightarrow> resized_page \<Rightarrow> resized_page" where
  "panel_step num (WindowResized w h hh fh) p =
     resize_page num w (p\<lparr>window_height := h, header_height := hh, footer_height := fh\<rparr>)"
| "panel_step num WindowLoaded p = resize_page num (window_width (side p)) p"
| "panel_step num DoubleClicked p = p\<lparr>side := collapseExpand num (side p)\<rparr>"
| "panel_step num (Dragged w) p = p\<lparr>side := resizeWidth ((side p)\<lparr>sidenav_width := w\<rparr>)\<rparr>"


section \<open>Lemmas\<close>











definition demo_panel :: panel where
  "demo_panel = \<lparr>sidenav_width = 320, sidenav_padding = 6, content_margin = 326, window_width = 1200,
     collapsed = False, collapsedWidth = 1200, barWidth = 6, cookie_jar = []\<rparr>"



text \<open>
  The panel folds when the window becomes narrower than 768 pixels and unfolds when it
  becomes wider again, but not when a resize stops at exactly 768 on the way: then it
  stays folded at every larger width.
\<close>

theorem unfolding_misses_exact_breakpoint:
  assumes "sidenav_width p = 0" "collapsed p" "collapsedWidth p < 768" "768 < w"
  shows "\<not> collapsed (resizeHeight num w p) \<and> 0 < sidenav_width (resizeHeight num w p) \<and>
    collapsed (resizeHeight num w (resizeHeight num 768 p)) \<and>
    sidenav_width (resizeHeight num w (resizeHeight num 768 p)) = 0"
  using assms by (auto simp: resizeHeight_def desktop_vp_def collapseExpand_def restoreWidth_def Let_def
    split: option.split)

theorem unfolding_misses_exact_breakpoint_witness:
  "collapsed (resizeHeight (\<lambda>_. None) 1000 (resizeHeight (\<lambda>_. None) 768
     (demo_panel\<lparr>sidenav_width := 0, collapsed := True, collapsedWidth := 500\<rparr>)))"
  using unfolding_misses_exact_breakpoint [of "demo_panel\<lparr>sidenav_width := 0, collapsed := True, collapsedWidth := 500\<rparr>" 1000 "\<lambda>_. None"]
  by simp

text \<open>
  A page opens with the stored width and unfolded, however narrow the window is: the test
  for a narrow window compares with the width before, which is 0 at the start.
\<close>

lemma page_opens_with_stored_width:
  assumes "readCookie ''width'' (cookie_jar p) = Some v" "v \<noteq> []" "num v = Some w"
  shows "sidenav_width (initResizable num touch_device p) = w \<and>
    content_margin (initResizable num touch_device p) = w + (if touch_device then 20 else 6) \<and>
    \<not> collapsed (initResizable num touch_device p) \<and>
    collapsedWidth (initResizable num touch_device p) = window_width p"
  using assms by (auto simp: initResizable_def resizeHeight_def restoreWidth_def desktop_vp_def Let_def)

section \<open>The layout over every order of events\<close>




lemma page_simps [simp]:
  "side (scroll_to_fragment p) = side p" "side (set_heights p) = side p"
  "window_height (scroll_to_fragment p) = window_height p" "window_height (set_heights p) = window_height p"
  "header_height (scroll_to_fragment p) = header_height p" "header_height (set_heights p) = header_height p"
  "footer_height (scroll_to_fragment p) = footer_height p" "footer_height (set_heights p) = footer_height p"
  "content_pane (scroll_to_fragment p) = content_pane p" "navtree_pane (scroll_to_fragment p) = navtree_pane p"
  "sidenav_pane (scroll_to_fragment p) = sidenav_pane p"
  "content_pane (set_heights p) = max 0 (window_height p - header_height p - footer_height p)"
  "navtree_pane (set_heights p) = max 0 (window_height p - header_height p - footer_height p)"
  "sidenav_pane (set_heights p) = max 0 (window_height p - header_height p - footer_height p)"
  by (simp_all add: scroll_to_fragment_def set_heights_def Let_def)





definition demo_window :: resized_page where
  "demo_window = \<lparr>side = demo_panel, window_height = 800, header_height = 120, footer_height = 30, content_pane = 0,
     navtree_pane = 0, sidenav_pane = 0, url_hash = [], page_ids = [], scrolled_into_view = NotMoved\<rparr>"


text \<open>
  A panel that was folded by a double click and then dragged open again still counts as folded:
  the window can become narrow without folding it, and when it becomes wide again the panel is
  folded instead of unfolded.
\<close>

theorem dragged_open_panel_folds_when_widened:
  fixes p num d n h hh fh
  assumes "0 < sidenav_width (side p)" "768 \<le> collapsedWidth (side p)" "0 < d" "n < 768" "768 < w"
  defines "q \<equiv> fold (panel_step num) [DoubleClicked, Dragged d, WindowResized n h hh fh] p"
  shows "sidenav_width (side q) = d \<and> sidenav_width (side (panel_step num (WindowResized w h hh fh) q)) = 0"
proof -
  have "sidenav_width (side q) = d" "collapsed (side q)" "collapsedWidth (side q) = n"
    using assms(1-4)
    by (simp_all add: q_def resize_page_def collapseExpand_def resizeWidth_def restoreWidth_def resizeHeight_def desktop_vp_def Let_def)
  then show ?thesis
    using assms(3-5)
    by (simp add: resize_page_def resizeHeight_def collapseExpand_def restoreWidth_def desktop_vp_def Let_def)
qed

theorem dragged_open_panel_folds_when_widened_witness:
  "sidenav_width (side (panel_step (\<lambda>_. None) (WindowResized 1200 800 120 30)
     (fold (panel_step (\<lambda>_. None)) [DoubleClicked, Dragged 300, WindowResized 700 800 120 30] demo_window))) = 0"
  using dragged_open_panel_folds_when_widened [of demo_window 300 700 1200 "\<lambda>_. None" 800 120 30]
  by (simp add: demo_window_def demo_panel_def)

end
