(* ===== verification/DirTable.thy ===== *)
theory DirTable
  imports JsString NavPath
begin

text \<open>
  The folding tables and sections of the pages (\<open>dynsections.js\<close>): the rows of the
  directory table with their icons, arrows and stripes, and sections that open and close
  with an image whose file name ends with the state.
\<close>

section \<open>Rows\<close>

text \<open>
  A row of the table: its identifier, whether it is displayed, its stripe, the icon of a
  folder (closed or open) if it has one, and its arrow if it has one (down or right).
\<close>

datatype folder_icon = IconOpen | IconClosed

datatype row_arrow = RowDown | RowRight

record row =
  row_id :: jstr
  visible :: bool
  even_stripe :: bool
  icon :: "folder_icon option"
  row_arrow :: "row_arrow option"

text \<open>\<open>updateStripes\<close>: every second displayed row, counted from the first.\<close>

fun stripe :: "nat \<Rightarrow> row list \<Rightarrow> row list" where
  "stripe k [] = []"
| "stripe k (r # rs) =
     (if visible r then r\<lparr>even_stripe := even k\<rparr> # stripe (Suc k) rs
      else r\<lparr>even_stripe := False\<rparr> # stripe k rs)"

definition updateStripes :: "row list \<Rightarrow> row list" where
  "updateStripes rows = stripe 0 rows"

definition set_icon :: "folder_icon \<Rightarrow> row \<Rightarrow> row" where
  "set_icon i r = r\<lparr>icon := (case icon r of None \<Rightarrow> None | Some _ \<Rightarrow> Some i)\<rparr>"

definition set_arrow :: "row_arrow \<Rightarrow> row \<Rightarrow> row" where
  "set_arrow a r = r\<lparr>row_arrow := (case row_arrow r of None \<Rightarrow> None | Some _ \<Rightarrow> Some a)\<rparr>"

text \<open>\<open>this.id.split('_').length-1\<close>\<close>

definition id_level :: "jstr \<Rightarrow> nat" where
  "id_level i = length (js_split 95 i) - 1"

definition toggleLevel_row :: "nat \<Rightarrow> row \<Rightarrow> row" where
  "toggleLevel_row level r =
     (let l = id_level (row_id r) in
      if l < level + 1 then (set_arrow RowDown (set_icon IconOpen r))\<lparr>visible := True\<rparr>
      else if l = level + 1 then (set_arrow RowRight (set_icon IconClosed r))\<lparr>visible := True\<rparr>
      else r\<lparr>visible := False\<rparr>)"

definition toggleLevel :: "nat \<Rightarrow> row list \<Rightarrow> row list" where
  "toggleLevel level rows = updateStripes (map (toggleLevel_row level) rows)"

text \<open>
  The rows below a row: \<open>id\<close> is what follows \<open>row_\<close> in its identifier; a direct child
  adds digits and an underscore. The identifiers are in lower case, so that the expression
  ignores case makes no difference.
\<close>

definition is_digit16 :: "u16 \<Rightarrow> bool" where
  "is_digit16 c \<longleftrightarrow> 48 \<le> c \<and> c \<le> 57"

definition child_of :: "jstr \<Rightarrow> jstr \<Rightarrow> bool" where
  "child_of i x \<longleftrightarrow> prefix (js ''row_'' @ i) x \<and>
     (let d = drop (length (js ''row_'' @ i)) x in
      2 \<le> length d \<and> list_all is_digit16 (butlast d) \<and> last d = 95)"

definition descendant_of :: "jstr \<Rightarrow> jstr \<Rightarrow> bool" where
  "descendant_of i x \<longleftrightarrow> prefix (js ''row_'' @ i) x"

text \<open>
  \<open>toggleFolder\<close>: only rows after the clicked one are looked at. The row itself and its
  later siblings are unchanged otherwise.
\<close>

definition shows_children :: "jstr \<Rightarrow> row list \<Rightarrow> bool" where
  "shows_children i rows =
     (case filter (\<lambda>r. child_of i (row_id r)) rows of [] \<Rightarrow> False | r # _ \<Rightarrow> visible r)"

definition hide_below :: "jstr \<Rightarrow> row list \<Rightarrow> row list" where
  "hide_below i rows = map (\<lambda>r. if descendant_of i (row_id r) then r\<lparr>visible := False\<rparr> else r) rows"

definition show_below :: "jstr \<Rightarrow> row list \<Rightarrow> row list" where
  "show_below i rows =
     map (\<lambda>r. if child_of i (row_id r)
       then (set_arrow RowRight (if icon r = Some IconOpen then set_icon IconClosed r else r))\<lparr>visible := True\<rparr>
       else r) rows"

fun toggle_in :: "jstr \<Rightarrow> row list \<Rightarrow> row list" where
  "toggle_in i [] = []"
| "toggle_in i (r # rs) =
     (if row_id r = js ''row_'' @ i then
        if shows_children i rs
        then set_arrow RowRight (if icon r = Some IconOpen then set_icon IconClosed r else r) # hide_below i rs
        else set_arrow RowDown (if icon r = Some IconClosed then set_icon IconOpen r else r) # show_below i rs
      else r # toggle_in i rs)"

definition toggleFolder :: "jstr \<Rightarrow> row list \<Rightarrow> row list" where
  "toggleFolder i rows = updateStripes (toggle_in i rows)"

section \<open>Sections\<close>

text \<open>
  A section that \<open>toggleVisibility\<close> opens and closes (link, summary, content, image), and
  the rows of \<open>toggleInherit\<close> with their image.
\<close>

record dyn_section =
  opened_class :: bool
  closed_class :: bool
  content_shown :: bool
  summary_shown :: bool
  trigger_src :: jstr

definition cut_end :: "nat \<Rightarrow> jstr \<Rightarrow> jstr" where
  "cut_end n s = take (length s - n) s"

definition toggleVisibility :: "dyn_section \<Rightarrow> dyn_section" where
  "toggleVisibility s =
     (if content_shown s then
        s\<lparr>content_shown := False, summary_shown := True, closed_class := True, opened_class := False,
          trigger_src := cut_end 8 (trigger_src s) @ js ''closed.png''\<rparr>
      else
        s\<lparr>content_shown := True, summary_shown := False, closed_class := False, opened_class := True,
          trigger_src := cut_end 10 (trigger_src s) @ js ''open.png''\<rparr>)"

record inherit_rows =
  inherit_visible :: "bool list"
  inherit_src :: jstr

definition toggleInherit :: "inherit_rows \<Rightarrow> inherit_rows" where
  "toggleInherit s =
     (if (case inherit_visible s of [] \<Rightarrow> False | v # _ \<Rightarrow> v) then
        s\<lparr>inherit_visible := map (\<lambda>_. False) (inherit_visible s),
          inherit_src := cut_end 8 (inherit_src s) @ js ''closed.png''\<rparr>
      else
        s\<lparr>inherit_visible := map (\<lambda>_. True) (inherit_visible s),
          inherit_src := cut_end 10 (inherit_src s) @ js ''open.png''\<rparr>)"

section \<open>Lemmas\<close>

text \<open>The rows that are displayed, without their stripes.\<close>

definition shown_ids :: "row list \<Rightarrow> jstr list" where
  "shown_ids rows = map row_id (filter visible rows)"

lemma stripe_facts [simp]:
  "map row_id (stripe k rows) = map row_id rows" "map visible (stripe k rows) = map visible rows"
  "length (stripe k rows) = length rows"
  "map icon (stripe k rows) = map icon rows" "map row_arrow (stripe k rows) = map row_arrow rows"
  by (induction rows arbitrary: k) auto

lemma stripe_shown: "shown_ids (stripe k rows) = shown_ids rows"
  by (induction rows arbitrary: k) (auto simp: shown_ids_def)

lemma stripe_alternates:
  "map even_stripe (filter visible (stripe k rows)) = map even [k..<k + length (filter visible rows)]"
  by (induction rows arbitrary: k) (auto simp: upt_rec)

lemma stripe_hidden: "r \<in> set (stripe k rows) \<Longrightarrow> \<not> visible r \<Longrightarrow> \<not> even_stripe r"
  by (induction rows arbitrary: k) (auto split: if_splits)

lemma child_descendant: "child_of i x \<Longrightarrow> descendant_of i x"
  by (simp add: child_of_def descendant_of_def)

lemma set_rows [simp]:
  "row_id (set_icon a r) = row_id r" "visible (set_icon a r) = visible r"
  "row_id (set_arrow b r) = row_id r" "visible (set_arrow b r) = visible r"
  by (simp_all add: set_icon_def set_arrow_def)

lemma shown_ids_simps [simp]:
  "shown_ids [] = []" "shown_ids (r # rs) = (if visible r then row_id r # shown_ids rs else shown_ids rs)"
  "shown_ids (xs @ ys) = shown_ids xs @ shown_ids ys"
  by (simp_all add: shown_ids_def)

lemma shown_hide: "shown_ids (hide_below i rs) = map row_id (filter (\<lambda>x. visible x \<and> \<not> descendant_of i (row_id x)) rs)"
  by (induction rs) (auto simp: hide_below_def)

lemma shown_show: "shown_ids (show_below i rs) = map row_id (filter (\<lambda>x. visible x \<or> child_of i (row_id x)) rs)"
  by (induction rs) (auto simp: show_below_def)

lemma toggle_in_at:
  "js ''row_'' @ i \<notin> row_id ` set pre \<Longrightarrow> toggle_in i (pre @ rs) = pre @ toggle_in i rs"
  by (induction pre) auto

text \<open>What the code reads of the rows, and what it shows, does not depend on the stripes.\<close>

definition row_state :: "row list \<Rightarrow> (jstr \<times> bool) list" where
  "row_state rows = map (\<lambda>r. (row_id r, visible r)) rows"

lemma shown_state: "shown_ids rows = map fst (filter snd (row_state rows))"
  by (induction rows) (simp_all add: row_state_def)

lemma children_state:
  "shows_children i rows =
     (case filter (\<lambda>x. child_of i (fst x)) (row_state rows) of [] \<Rightarrow> False | x # _ \<Rightarrow> snd x)"
  by (induction rows) (simp_all add: row_state_def shows_children_def)

lemma row_state_stripe [simp]: "row_state (stripe k rows) = row_state rows"
  by (induction rows arbitrary: k) (auto simp: row_state_def)

lemma row_state_append [simp]: "row_state (xs @ ys) = row_state xs @ row_state ys"
  by (simp add: row_state_def)

definition toggle_state :: "jstr \<Rightarrow> (jstr \<times> bool) list \<Rightarrow> (jstr \<times> bool) list" where
  "toggle_state i post =
     (if (case filter (\<lambda>x. child_of i (fst x)) post of [] \<Rightarrow> False | x # _ \<Rightarrow> snd x)
      then map (\<lambda>(x, v). (x, v \<and> \<not> descendant_of i x)) post
      else map (\<lambda>(x, v). (x, v \<or> child_of i x)) post)"

lemma row_state_below:
  "row_state (hide_below i rs) = map (\<lambda>(x, v). (x, v \<and> \<not> descendant_of i x)) (row_state rs)"
  "row_state (show_below i rs) = map (\<lambda>(x, v). (x, v \<or> child_of i x)) (row_state rs)"
  by (induction rs) (auto simp: row_state_def hide_below_def show_below_def)

lemma toggleFolder_state:
  assumes "row_state rows = pre @ (js ''row_'' @ i, v) # post" "js ''row_'' @ i \<notin> fst ` set pre"
  shows "row_state (toggleFolder i rows) = pre @ (js ''row_'' @ i, v) # toggle_state i post"
proof -
  obtain us r ws where rows: "rows = us @ r # ws" "row_state us = pre" "row_id r = js ''row_'' @ i"
    "visible r = v" "row_state ws = post"
    using assms(1) by (auto simp: row_state_def map_eq_append_conv map_eq_Cons_conv)
  have "js ''row_'' @ i \<notin> row_id ` set us"
    using assms(2) rows(2) by (auto simp: row_state_def image_iff)
  then have t: "toggle_in i rows = us @ toggle_in i (r # ws)" by (simp add: rows(1) toggle_in_at)
  have "row_state (toggle_in i (r # ws)) = (js ''row_'' @ i, v) # toggle_state i post"
    using rows(3-5) row_state_below [of i ws]
    by (auto simp: toggle_state_def children_state row_state_def)
  then show ?thesis by (simp add: toggleFolder_def updateStripes_def t rows(2))
qed

lemma toggle_state_twice:
  assumes "case filter (\<lambda>x. child_of i (fst x)) post of [] \<Rightarrow> False | x # _ \<Rightarrow> snd x"
  shows "toggle_state i (toggle_state i post)
    = map (\<lambda>(x, v). (x, child_of i x \<or> v \<and> \<not> descendant_of i x)) post"
proof -
  let ?h = "map (\<lambda>(x, v). (x, v \<and> \<not> descendant_of i x)) post"
  have "snd y = False" if "y \<in> set (filter (\<lambda>x. child_of i (fst x)) ?h)" for y
    using that child_descendant by auto
  then have "\<not> (case filter (\<lambda>x. child_of i (fst x)) ?h of [] \<Rightarrow> False | x # _ \<Rightarrow> snd x)"
  proof (cases "filter (\<lambda>x. child_of i (fst x)) ?h")
    case Nil
    then show ?thesis by simp
  next
    case (Cons y ys)
    then have "y \<in> set (filter (\<lambda>x. child_of i (fst x)) ?h)" by (metis list.set_intros(1))
    then have "\<not> snd y" using \<open>\<And>y. y \<in> set (filter (\<lambda>x. child_of i (fst x)) ?h) \<Longrightarrow> snd y = False\<close> by blast
    then show ?thesis unfolding Cons by simp
  qed
  then have "toggle_state i ?h = map (\<lambda>(x, v). (x, v \<or> child_of i x)) ?h"
    by (simp only: toggle_state_def if_False)
  then show ?thesis using assms by (auto simp: toggle_state_def)
qed

section \<open>Properties\<close>

text \<open>
  C37: Choosing a detail level displays exactly the rows down to that level, in their
  order, and gives every second displayed row a stripe and no hidden one.
\<close>

theorem level_shows_rows_to_depth:
  "shown_ids (toggleLevel level rows) = map row_id (filter (\<lambda>r. id_level (row_id r) \<le> level + 1) rows) \<and>
   map even_stripe (filter visible (toggleLevel level rows))
     = map even [0..<length (filter visible (toggleLevel level rows))] \<and>
   filter even_stripe (filter (\<lambda>r. \<not> visible r) (toggleLevel level rows)) = []"
proof -
  have vis: "visible (toggleLevel_row level r) = (id_level (row_id r) \<le> level + 1)"
    "row_id (toggleLevel_row level r) = row_id r" for r
    by (auto simp: toggleLevel_row_def Let_def)
  have "shown_ids (map (toggleLevel_row level) rows) = map row_id (filter (\<lambda>r. id_level (row_id r) \<le> level + 1) rows)"
    by (induction rows) (auto simp: vis)
  moreover have "length (filter visible (stripe 0 rs)) = length (filter visible rs)" for rs
    using arg_cong [OF stripe_shown [of 0 rs], of length] by (simp add: shown_ids_def)
  ultimately show ?thesis
    using stripe_alternates [of 0] stripe_hidden
    by (auto simp: toggleLevel_def updateStripes_def stripe_shown filter_empty_conv)
qed

text \<open>
  A press on a folder whose first child is displayed hides everything below it and
  nothing else, and a second press displays again its direct children only: what was
  unfolded deeper stays hidden.
\<close>

theorem folding_twice_shows_direct_children:
  assumes "rows = us @ r # ws" "row_id r = js ''row_'' @ i" "js ''row_'' @ i \<notin> row_id ` set us"
    and "shows_children i ws"
  shows "shown_ids (toggleFolder i rows) = shown_ids (us @ [r]) @
      map row_id (filter (\<lambda>x. visible x \<and> \<not> descendant_of i (row_id x)) ws) \<and>
    shown_ids (toggleFolder i (toggleFolder i rows)) = shown_ids (us @ [r]) @
      map row_id (filter (\<lambda>x. child_of i (row_id x) \<or> visible x \<and> \<not> descendant_of i (row_id x)) ws)"
proof -
  let ?post = "row_state ws"
  have early: "js ''row_'' @ i \<notin> fst ` set (row_state us)"
    using assms(3) by (auto simp: row_state_def image_iff)
  have state: "row_state rows = row_state us @ (js ''row_'' @ i, visible r) # ?post"
    using assms(1,2) by (simp add: row_state_def)
  have first: "case filter (\<lambda>x. child_of i (fst x)) ?post of [] \<Rightarrow> False | x # _ \<Rightarrow> snd x"
    using assms(4) by (simp add: children_state)
  note once = toggleFolder_state [OF state early]
  note twice = toggleFolder_state [OF once early]
  have hide: "map fst (filter snd (toggle_state i ?post))
      = map row_id (filter (\<lambda>x. visible x \<and> \<not> descendant_of i (row_id x)) ws)"
    using first by (induction ws) (simp_all add: toggle_state_def row_state_def comp_def split_beta filter_map)
  have "map fst (filter snd (map (\<lambda>(x, v). (x, child_of i x \<or> v \<and> \<not> descendant_of i x)) (row_state ws)))
      = map row_id (filter (\<lambda>x. child_of i (row_id x) \<or> visible x \<and> \<not> descendant_of i (row_id x)) ws)" for ws
    by (induction ws) (simp_all add: row_state_def)
  then show ?thesis
    using hide assms(2) by (auto simp: shown_state once twice toggle_state_twice [OF first])
       (simp_all add: row_state_def)
qed

definition demo_rows :: "row list" where
  "demo_rows = map (\<lambda>(i, v). \<lparr>row_id = js i, visible = v, even_stripe = False, icon = Some IconOpen, row_arrow = Some RowDown\<rparr>)
     [(''row_0_'', True), (''row_0_0_'', True), (''row_0_0_0_'', True), (''row_1_'', True)]"

theorem folding_twice_shows_direct_children_witness:
  "shown_ids (toggleFolder (js ''0_'') (toggleFolder (js ''0_'') demo_rows))
     = [js ''row_0_'', js ''row_0_0_'', js ''row_1_'']"
proof -
  have "demo_rows = [] @ hd demo_rows # tl demo_rows" by (simp add: demo_rows_def)
  moreover have "row_id (hd demo_rows) = js ''row_'' @ js ''0_''" by (simp add: demo_rows_def js_def)
  moreover have "js ''row_'' @ js ''0_'' \<notin> row_id ` set []" by simp
  moreover have "shows_children (js ''0_'') (tl demo_rows)"
    by (simp add: demo_rows_def shows_children_def child_of_def js_def is_digit16_def Let_def)
  ultimately have "shown_ids (toggleFolder (js ''0_'') (toggleFolder (js ''0_'') demo_rows))
      = shown_ids ([] @ [hd demo_rows]) @ map row_id (filter (\<lambda>x. child_of (js ''0_'') (row_id x) \<or>
          visible x \<and> \<not> descendant_of (js ''0_'') (row_id x)) (tl demo_rows))"
    using folding_twice_shows_direct_children by blast
  then show ?thesis
    by (simp add: demo_rows_def child_of_def descendant_of_def js_def is_digit16_def Let_def)
qed

definition section_ok :: "dyn_section \<Rightarrow> bool" where
  "section_ok s \<longleftrightarrow>
     suffix (if content_shown s then js ''open.png'' else js ''closed.png'') (trigger_src s) \<and>
     opened_class s = content_shown s \<and> closed_class s = (\<not> content_shown s) \<and>
     summary_shown s = (\<not> content_shown s)"

lemma cut_end_append: "length t = n \<Longrightarrow> cut_end n (s @ t) = s"
  by (simp add: cut_end_def)

text \<open>
  The image, the classes, the summary and the content of a section stay in agreement
  when it is opened and closed, and two presses restore it.
\<close>

theorem section_toggles_and_restores:
  assumes "section_ok s"
  shows "section_ok (toggleVisibility s) \<and> content_shown (toggleVisibility s) = (\<not> content_shown s) \<and>
    toggleVisibility (toggleVisibility s) = s"
proof -
  obtain base where src: "trigger_src s = base @ (if content_shown s then js ''open.png'' else js ''closed.png'')"
    using assms by (auto simp: section_ok_def suffix_def)
  have len: "length (js ''open.png'') = 8" "length (js ''closed.png'') = 10" by (simp_all add: js_def)
  note cut = cut_end_append [OF len(1)] cut_end_append [OF len(2)]
  show ?thesis
    using assms src by (cases s) (auto simp: section_ok_def toggleVisibility_def cut suffix_def)
qed

theorem section_toggles_and_restores_witness:
  "toggleVisibility (toggleVisibility \<lparr>opened_class = False, closed_class = True, content_shown = False,
     summary_shown = True, trigger_src = js ''../closed.png''\<rparr>)
   = \<lparr>opened_class = False, closed_class = True, content_shown = False,
     summary_shown = True, trigger_src = js ''../closed.png''\<rparr>"
  using section_toggles_and_restores [of "\<lparr>opened_class = False, closed_class = True, content_shown = False,
     summary_shown = True, trigger_src = js ''../closed.png''\<rparr>"]
  by (simp add: section_ok_def js_def suffix_def)

end
