(* ===== verification/HttpClient.thy ===== *)
theory HttpClient
  imports Transport
begin

text \<open>
  The HTTP client (\<open>HTTP\<close> of \<open>src/http_client.cpp\<close>): the request it sends over TCP and
  what it makes of the response, with the bounds of its buffers.
\<close>

section \<open>C strings\<close>

definition cstr :: "string \<Rightarrow> u8 list" where
  "cstr s = map of_char s"

text \<open>The bytes of a buffer up to its first NUL.\<close>

definition c_string :: "u8 list \<Rightarrow> u8 list" where
  "c_string buf = takeWhile (\<lambda>b. b \<noteq> 0) buf"

fun strstr :: "u8 list \<Rightarrow> u8 list \<Rightarrow> nat option" where
  "strstr [] t = (if t = [] then Some 0 else None)"
| "strstr (c # s) t = (if prefix t (c # s) then Some 0 else map_option Suc (strstr s t))"

text \<open>\<open>strtol\<close> in base ten: white space, a sign, digits; the value is kept within a \<open>long\<close>.\<close>

definition is_space_byte :: "u8 \<Rightarrow> bool" where
  "is_space_byte b \<longleftrightarrow> b = 32 \<or> (9 \<le> b \<and> b \<le> 13)"

definition is_digit_byte :: "u8 \<Rightarrow> bool" where
  "is_digit_byte b \<longleftrightarrow> 48 \<le> b \<and> b \<le> 57"

definition digits_value :: "u8 list \<Rightarrow> int" where
  "digits_value ds = foldl (\<lambda>v d. 10 * v + (uint d - 48)) 0 ds"

definition to_long :: "int \<Rightarrow> int" where
  "to_long v = max (- (2 ^ 63)) (min (2 ^ 63 - 1) v)"

definition strtol10 :: "u8 list \<Rightarrow> int" where
  "strtol10 s =
     (let s = dropWhile is_space_byte s in
      to_long (if s \<noteq> [] \<and> hd s = 45 then - digits_value (takeWhile is_digit_byte (tl s))
        else if s \<noteq> [] \<and> hd s = 43 then digits_value (takeWhile is_digit_byte (tl s))
        else digits_value (takeWhile is_digit_byte s)))"

fun decimal :: "nat \<Rightarrow> u8 list" where
  "decimal n = (if n < 10 then [of_nat (48 + n)] else decimal (n div 10) @ [of_nat (48 + n mod 10)])"

declare decimal.simps [simp del]

section \<open>Requests\<close>

text \<open>The three templates of the constructor, filled in; lines end with a line feed.\<close>

definition lf :: "u8 list" where
  "lf = [10]"

definition crlf2 :: "u8 list" where
  "crlf2 = [13, 10, 13, 10]"

definition header_get :: "u8 list \<Rightarrow> u8 list \<Rightarrow> u8 list" where
  "header_get page ip = cstr ''GET '' @ page @ cstr '' HTTP/1.1'' @ lf @ cstr ''Host: '' @ ip @ lf @
     cstr ''User-Agent: aightech'' @ lf @ cstr ''Accept: */*'' @ lf @ lf"

definition header_post :: "u8 list \<Rightarrow> u8 list \<Rightarrow> u8 list" where
  "header_post page ip = cstr ''POST '' @ page @ cstr '' HTTP/1.1'' @ lf @ cstr ''Host: '' @ ip @ lf @
     cstr ''User-Agent: aightech'' @ lf @ cstr ''Accept: */*'' @ lf @ lf"

definition header_post_with_data :: "u8 list \<Rightarrow> u8 list \<Rightarrow> nat \<Rightarrow> u8 list" where
  "header_post_with_data page ip len = cstr ''POST '' @ page @ cstr '' HTTP/1.1'' @ lf @ cstr ''Host: '' @ ip @ lf @
     cstr ''User-Agent: aightech'' @ lf @ cstr ''Accept: */*'' @ lf @
     cstr ''Content-Length: '' @ decimal len @ lf @
     cstr ''Content-Type: application/x-www-form-urlencoded'' @ lf @ lf"

text \<open>
  \<open>snprintf(m_header, 2048, ...)\<close> writes up to 2048 bytes, the last one a NUL, into a member
  of 2024 bytes.
\<close>

definition m_header_size :: nat where
  "m_header_size = 2024"

definition snprintf_header :: "u8 list \<Rightarrow> u8 list option" where
  "snprintf_header text =
     (let out = take 2047 text in if length out + 1 \<le> m_header_size then Some out else None)"

section \<open>The two requests\<close>

text \<open>
  How a call ends: with a body, with one of the exceptions, or in undefined behaviour (a
  buffer overrun, or a read of bytes that were never written). The state after it is the
  bytes sent and the rest of the tape.
\<close>

datatype http_error = BadArrayNewLength | Undefined | NoDelimiter | NoStatusLine | HttpCode "u8 list"

type_synonym http_end = "(http_error + u8 list) \<times> u8 list \<times> rx"

text \<open>\<open>new char[n]\<close>: a buffer with whatever the memory held.\<close>

definition new_buffer :: "(nat \<Rightarrow> u8) \<Rightarrow> nat \<Rightarrow> u8 list" where
  "new_buffer garbage n = map garbage [0..<n]"

lemma length_new_buffer [simp]: "length (new_buffer garbage n) = n"
  by (simp add: new_buffer_def)

definition c_result :: "(fault + int \<times> u8 list \<times> u8 list) \<Rightarrow> u8 list" where
  "c_result r = (case r of Inl _ \<Rightarrow> [] | Inr (_, _, out) \<Rightarrow> out)"

text \<open>
  The buffer with the NUL that is put behind the bytes read, or over the last byte when the
  buffer is full. When nothing was read nothing is terminated, and the searches read bytes
  that were never written.
\<close>

definition terminate_response :: "int \<Rightarrow> nat \<Rightarrow> u8 list \<Rightarrow> u8 list option" where
  "terminate_response bytes_read n buf =
     (if 0 < bytes_read \<and> bytes_read < int n then Some (buf[nat bytes_read := 0])
      else if int n \<le> bytes_read \<and> 0 < n then Some (buf[n - 1 := 0])
      else None)"

definition response_body :: "u8 list \<Rightarrow> http_error + u8 list" where
  "response_body buf =
     (case strstr (c_string buf) crlf2 of
        None \<Rightarrow> Inl NoDelimiter | Some k \<Rightarrow> Inr (drop (k + 4) (c_string buf)))"

definition HTTP_get ::
  "endian \<Rightarrow> send_call \<Rightarrow> client \<Rightarrow> u8 list \<Rightarrow> u8 list \<Rightarrow> int \<Rightarrow> (nat \<Rightarrow> u8) \<Rightarrow> rx \<Rightarrow> http_end option" where
  "HTTP_get en send c ip page n garbage t =
     (if n < 0 then Some (Inl BadArrayNewLength, [], t)
      else case snprintf_header (header_get page ip) of
             None \<Rightarrow> Some (Inl Undefined, [], t)
           | Some h \<Rightarrow>
               let sent = c_result (TCP_writeS en send c h (length h) False);
                   (n, read_until) = (if n = -1 then (2048, False) else (n, True))
               in case TCP_readS en c (new_buffer garbage (nat n)) (nat n) False read_until t of
                    None \<Rightarrow> None
                  | Some (Inl _, t) \<Rightarrow> Some (Inl Undefined, sent, t)
                  | Some (Inr (bytes_read, buf), t) \<Rightarrow>
                      (case terminate_response bytes_read (nat n) buf of
                         None \<Rightarrow> Some (Inl Undefined, sent, t)
                       | Some buf \<Rightarrow> Some (response_body buf, sent, t)))"

definition HTTP_post ::
  "endian \<Rightarrow> send_call \<Rightarrow> client \<Rightarrow> u8 list \<Rightarrow> u8 list \<Rightarrow> u8 list option \<Rightarrow> int \<Rightarrow> (nat \<Rightarrow> u8) \<Rightarrow> rx \<Rightarrow> http_end option" where
  "HTTP_post en send c ip page content n garbage t =
     (let data = (case content of None \<Rightarrow> [] | Some d \<Rightarrow> d);
          text = (if data \<noteq> [] then header_post_with_data page ip (length data) else header_post page ip)
      in case snprintf_header text of
           None \<Rightarrow> Some (Inl Undefined, [], t)
         | Some h \<Rightarrow>
             let sent = c_result (TCP_writeS en send c h (length h) False) @
                   (if data \<noteq> [] then c_result (TCP_writeS en send c data (length data) False) else []);
                 (n, read_until) = (if n = -1 then (2048, False) else (n, True))
             in if n < 0 then Some (Inl BadArrayNewLength, sent, t)
                else case TCP_readS en c (new_buffer garbage (nat n)) (nat n) False read_until t of
                       None \<Rightarrow> None
                     | Some (Inl _, t) \<Rightarrow> Some (Inl Undefined, sent, t)
                     | Some (Inr (bytes_read, buf), t) \<Rightarrow>
                         (case terminate_response bytes_read (nat n) buf of
                            None \<Rightarrow> Some (Inl Undefined, sent, t)
                          | Some buf \<Rightarrow>
                              (case strstr (c_string buf) (cstr ''HTTP/1.1 '') of
                                 None \<Rightarrow> Some (Inl NoStatusLine, sent, t)
                               | Some k \<Rightarrow>
                                   if nat n < k + 12 then Some (Inl Undefined, sent, t)
                                   else if to_int (strtol10 (drop (k + 9) (c_string buf))) \<noteq> 200
                                   then Some (Inl (HttpCode (take 3 (drop (k + 9) buf))), sent, t)
                                   else Some (response_body buf, sent, t))))"


section \<open>Finding the parts of a response\<close>

lemma strstr_here: "p \<noteq> [] \<Longrightarrow> strstr (p @ r) p = Some 0"
  by (cases p) simp_all

lemma strstr_first:
  assumes "p \<noteq> []" "strstr (h @ butlast p) p = None"
  shows "strstr (h @ p @ r) p = Some (length h)"
  using assms(2)
proof (induction h)
  case Nil
  then show ?case using strstr_here [OF assms(1)] by simp
next
  case (Cons c h)
  have here: "\<not> prefix p (c # h @ butlast p)" and later: "strstr (h @ butlast p) p = None"
    using Cons.prems by (simp_all split: if_splits)
  have "\<not> prefix p (c # h @ p @ r)"
  proof
    assume "prefix p (c # h @ p @ r)"
    moreover have "c # h @ p @ r = (c # h @ butlast p) @ last p # r"
      using assms(1) by simp
    ultimately have "prefix p ((c # h @ butlast p) @ last p # r)" by simp
    moreover have "length p \<le> length (c # h @ butlast p)" using assms(1) by (cases p) simp_all
    ultimately show False
      using here prefix_length_prefix [of p "(c # h @ butlast p) @ last p # r" "c # h @ butlast p"] by simp
  qed
  then show ?case using Cons.IH [OF later] by simp
qed

lemma c_string_no_nul: "0 \<notin> set s \<Longrightarrow> c_string (s @ 0 # r) = s"
  by (induction s) (simp_all add: c_string_def)

lemma response_body_found:
  assumes "0 \<notin> set (h @ crlf2 @ body)" "strstr (h @ butlast crlf2) crlf2 = None"
  shows "response_body ((h @ crlf2 @ body) @ 0 # r) = Inr body"
proof -
  have "strstr (h @ crlf2 @ body) crlf2 = Some (length h)"
    using assms(2) by (intro strstr_first) (simp_all add: crlf2_def)
  then show ?thesis
    using c_string_no_nul [OF assms(1), of r] by (simp add: response_body_def crlf2_def)
qed

text \<open>A request is sent whole when it fits the member for headers.\<close>

lemma snprintf_header_fits: "length h < m_header_size \<Longrightarrow> snprintf_header h = Some h"
  by (simp add: snprintf_header_def m_header_size_def)

lemma request_sent:
  "m_is_connected c \<Longrightarrow> c_result (TCP_writeS en send c bs (length bs) False) = bs"
  by (simp add: c_result_def TCP_writeS_def stream_writeS_def send_prefix_def)

lemma strstr_bound: "strstr s p = Some k \<Longrightarrow> k + length p \<le> length s"
proof (induction s arbitrary: k)
  case (Cons c s)
  show ?case
  proof (cases "prefix p (c # s)")
    case True
    then show ?thesis using Cons.prems prefix_length_le by fastforce
  next
    case False
    then show ?thesis using Cons by auto
  qed
qed (simp split: if_splits)

lemma strstr_extends: "strstr s p = Some k \<Longrightarrow> strstr (s @ r) p = Some k"
proof (induction s arbitrary: k)
  case Nil
  then show ?case using strstr_here [of p r] by (cases r) (simp_all split: if_splits)
next
  case (Cons c s)
  show ?case
  proof (cases "prefix p (c # s)")
    case True
    then have "prefix p ((c # s) @ r)" by (rule prefix_prefix)
    then show ?thesis using True Cons.prems by simp
  next
    case False
    then obtain j where j: "strstr s p = Some j" "k = Suc j" using Cons.prems by auto
    have "\<not> prefix p (c # s @ r)"
    proof
      assume "prefix p (c # s @ r)"
      moreover have "length p \<le> length (c # s)" using strstr_bound [OF j(1)] by simp
      ultimately show False
        using False prefix_length_prefix [of p "(c # s) @ r" "c # s"] by simp
    qed
    then show ?thesis using Cons.IH [OF j(1)] j(2) by simp
  qed
qed

section \<open>Reading a response\<close>

lemma get_read:
  assumes "m_is_connected c" "no_fail t" "0 < n" "n \<le> length (bytes_of t)" "n < 2 ^ 31"
  obtains t' where "TCP_readS en c (new_buffer garbage n) n False True t
    = Some (Inr (int n, take n (bytes_of t)), t')"
  using read_bytes_fills [OF assms(2,3), of "new_buffer garbage n"] assms(1,4) to_int_small [OF assms(5)]
  by (auto simp: TCP_readS_def finish_read_def)

lemma get_read_nothing:
  assumes "m_is_connected c" "no_fail t"
  obtains t' where "TCP_readS en c [] 0 False True t = Some (Inr (0, []), t')"
proof (cases t)
  case Nil
  then show ?thesis using that assms(1) read_bytes_zero [of "[]"] to_int_small [of 0]
    by (simp add: TCP_readS_def finish_read_def)
next
  case (Cons e t')
  then obtain bs where "e = Chunk bs" using assms(2) by (cases e) simp_all
  then show ?thesis using that Cons assms(1) read_loop_done [of stream_recv 0 "[]"] to_int_small [of 0]
    by (cases bs) (simp_all add: TCP_readS_def finish_read_def read_bytes_def write_at_def)
qed

lemma get_read_hangs:
  assumes "m_is_connected c" "no_fail t" "length (bytes_of t) < n"
  shows "TCP_readS en c (new_buffer garbage n) n False True t = None"
proof -
  have "read_bytes stream_recv n True (new_buffer garbage n) t = None"
    using read_bytes_returns [OF assms(2), of n "new_buffer garbage n"] assms(3)
    by (simp del: not_None_eq)
  then show ?thesis using assms(1) by (simp add: TCP_readS_def)
qed

section \<open>Properties\<close>

lemma HTTP_get_read:
  assumes "m_is_connected c" "no_fail t" "0 < n" "n \<le> length (bytes_of t)" "n < 2 ^ 31"
    "length (header_get page ip) < m_header_size"
  obtains t' where "HTTP_get en send c ip page (int n) garbage t
    = Some (response_body ((take n (bytes_of t))[n - 1 := 0]), header_get page ip, t')"
proof -
  obtain t' where "TCP_readS en c (new_buffer garbage n) n False True t
      = Some (Inr (int n, take n (bytes_of t)), t')"
    using get_read [OF assms(1-5)] .
  then show ?thesis
    using that [of t'] assms snprintf_header_fits [OF assms(6)] request_sent [OF assms(1)]
    by (simp add: HTTP_get_def terminate_response_def)
qed

lemma get_of_part:
  assumes "0 < n" "n \<le> length s" "0 \<notin> set s"
  shows "c_string ((take n s)[n - 1 := 0]) = take (n - 1) s"
proof -
  have "(take n s)[n - 1 := 0] = take (n - 1) s @ [0]"
    using assms(1,2) by (intro nth_equalityI) (auto simp: nth_append nth_list_update less_Suc_eq)
  moreover have "0 \<notin> set (take (n - 1) s)" using assms(3) by (meson in_set_takeD)
  ultimately show ?thesis using c_string_no_nul [of "take (n - 1) s" "[]"] by simp
qed

lemma truncated_body:
  assumes "0 < k" "k \<le> length r" "r = h @ crlf2 @ body" "body \<noteq> []" "0 \<notin> set (h @ crlf2 @ body)"
    and "strstr (h @ butlast crlf2) crlf2 = None"
  shows "response_body ((take k r)[k - 1 := 0]) \<noteq> Inr body"
    "k = length r \<Longrightarrow> response_body ((take k r)[k - 1 := 0]) = Inr (butlast body)"
proof -
  have part: "c_string ((take k r)[k - 1 := 0]) = take (k - 1) r"
    using get_of_part [OF assms(1,2)] assms(5) assms(3) by simp
  have whole: "strstr r crlf2 = Some (length h)"
    using assms(6) unfolding assms(3) by (intro strstr_first) (simp_all add: crlf2_def)
  have short: "response_body ((take k r)[k - 1 := 0]) \<noteq> Inr body"
  proof
    assume "response_body ((take k r)[k - 1 := 0]) = Inr body"
    then obtain j where j: "strstr (take (k - 1) r) crlf2 = Some j" "drop (j + 4) (take (k - 1) r) = body"
      unfolding response_body_def part by (auto split: option.splits)
    have "j = length h" using strstr_extends [OF j(1), of "drop (k - 1) r"] whole by simp
    then have "length body = k - 1 - (length h + 4)" using j(2) assms(2) by auto
    then show False using assms(1,2) assms(4) by (simp add: assms(3) crlf2_def)
  qed
  have exact: "response_body ((take k r)[k - 1 := 0]) = Inr (butlast body)" if "k = length r"
  proof -
    have r: "r = (h @ crlf2 @ butlast body) @ [last body]" using assms(4) by (simp add: assms(3))
    then have "k - 1 = length (h @ crlf2 @ butlast body)" using that by simp
    then have "take (k - 1) r = h @ crlf2 @ butlast body" using r by simp
    moreover have "strstr (h @ crlf2 @ butlast body) crlf2 = Some (length h)"
      using assms(6) by (intro strstr_first) (simp_all add: crlf2_def)
    ultimately show ?thesis unfolding response_body_def part by (simp add: crlf2_def)
  qed
  show "response_body ((take k r)[k - 1 := 0]) \<noteq> Inr body"
    "k = length r \<Longrightarrow> response_body ((take k r)[k - 1 := 0]) = Inr (butlast body)"
    using short exact by simp_all
qed

text \<open>
  C25: No call of \<open>get\<close> returns the body of a response, whatever the number of bytes asked
  for: the default number throws before anything is sent, a number beyond the response
  never returns, and any other loses at least the last byte, which the terminating NUL
  overwrites; asked for the exact length of the response, it returns the body without its
  last byte.
\<close>

theorem HTTP_get_loses_last_byte:
  assumes "m_is_connected c" "no_fail t" "length (header_get page ip) < m_header_size" "n < 2 ^ 31"
    and "bytes_of t = h @ crlf2 @ body" "body \<noteq> []" "0 \<notin> set (h @ crlf2 @ body)"
    and "strstr (h @ butlast crlf2) crlf2 = None"
  shows "HTTP_get en send c ip page n garbage t \<noteq> Some (Inr body, sent, t') \<and>
    (n = int (length (h @ crlf2 @ body)) \<longrightarrow>
      (\<exists>t'. HTTP_get en send c ip page n garbage t = Some (Inr (butlast body), header_get page ip, t')))"
proof (cases "0 < n")
  case False
  then consider "n < 0" | "n = 0" by linarith
  then show ?thesis
  proof cases
    case 1
    then show ?thesis by (auto simp: HTTP_get_def)
  next
    case 2
    obtain t'' where "TCP_readS en c [] 0 False True t = Some (Inr (0, []), t'')"
      using get_read_nothing [OF assms(1,2)] .
    then show ?thesis using 2 assms(6) snprintf_header_fits [OF assms(3)]
      by (auto simp: HTTP_get_def new_buffer_def terminate_response_def crlf2_def)
  qed
next
  case True
  define k where "k = nat n"
  have k: "n = int k" "0 < k" "k < 2 ^ 31" using True assms(4) by (simp_all add: k_def nat_less_iff)
  define r where "r = h @ crlf2 @ body"
  show ?thesis
  proof (cases "k \<le> length r")
    case False
    then show ?thesis
      using k get_read_hangs [OF assms(1,2), of k] assms(5) r_def snprintf_header_fits [OF assms(3)]
      by (simp add: HTTP_get_def)
  next
    case le: True
    obtain t'' where get: "HTTP_get en send c ip page n garbage t
        = Some (response_body ((take k r)[k - 1 := 0]), header_get page ip, t'')"
      using HTTP_get_read [OF assms(1,2) k(2) _ k(3) assms(3)] le assms(5) r_def k(1) by metis
    show ?thesis using get k(1) truncated_body [OF k(2) le r_def assms(6-8)] by (auto simp flip: r_def)
  qed
qed

theorem HTTP_get_loses_last_byte_witness:
  "\<exists>t'. HTTP_get Little send_all connected (cstr ''h'') (cstr ''/'') 7 (\<lambda>_. 1) [Chunk [65, 13, 10], Chunk [13, 10, 66, 67]]
    = Some (Inr [66], header_get (cstr ''/'') (cstr ''h''), t')"
proof -
  have "m_is_connected connected" by (simp add: connected_def)
  moreover have "no_fail [Chunk [65, 13, 10], Chunk [13, 10, 66, 67]]" by simp
  moreover have "length (header_get (cstr ''/'') (cstr ''h'')) < m_header_size"
    by (simp add: header_get_def m_header_size_def cstr_def lf_def)
  moreover have "(7 :: int) < 2 ^ 31" by simp
  moreover have "bytes_of [Chunk [65, 13, 10], Chunk [13, 10, 66, 67]] = [65] @ crlf2 @ [66, 67]"
    by (simp add: crlf2_def)
  moreover have "[66, 67 :: u8] \<noteq> []" "0 \<notin> set ([65] @ crlf2 @ [66, 67])" by (simp_all add: crlf2_def)
  moreover have "strstr ([65] @ butlast crlf2) crlf2 = None" by (simp add: crlf2_def)
  ultimately have "7 = int (length ([65] @ crlf2 @ [66, 67 :: u8])) \<longrightarrow>
      (\<exists>t'. HTTP_get Little send_all connected (cstr ''h'') (cstr ''/'') 7 (\<lambda>_. 1) [Chunk [65, 13, 10], Chunk [13, 10, 66, 67]]
        = Some (Inr (butlast [66, 67]), header_get (cstr ''/'') (cstr ''h''), t'))"
    using HTTP_get_loses_last_byte by blast
  then show ?thesis by (simp add: crlf2_def)
qed

section \<open>Posting\<close>

text \<open>The bytes of a request.\<close>

definition post_request :: "u8 list \<Rightarrow> u8 list \<Rightarrow> u8 list \<Rightarrow> u8 list" where
  "post_request page ip data =
     (if data \<noteq> [] then header_post_with_data page ip (length data) @ data else header_post page ip)"

lemma post_read:
  assumes "m_is_connected c" "length bs < 2048" "bs \<noteq> []"
  shows "TCP_readS en c (new_buffer garbage 2048) 2048 False False (Chunk bs # t)
    = Some (Inr (int (length bs), bs @ drop (length bs) (new_buffer garbage 2048)), t)"
proof -
  have "write_at (new_buffer garbage 2048) 0 bs = Inr (bs @ drop (length bs) (new_buffer garbage 2048))"
    using write_at_fits [of 0 bs "new_buffer garbage 2048"] assms(2) by simp
  then show ?thesis using assms to_int_small [of "length bs"]
    by (simp add: TCP_readS_def finish_read_def read_bytes_def)
qed

lemma terminate_short:
  assumes "bs \<noteq> []" "length bs < length (bs @ r)"
  shows "terminate_response (int (length bs)) (length (bs @ r)) (bs @ r) = Some (bs @ 0 # tl r)"
  using assms by (cases r) (simp_all add: terminate_response_def)

lemma digit_bounds: "is_digit_byte d \<Longrightarrow> 48 \<le> uint d \<and> uint d \<le> 57"
  by (simp add: is_digit_byte_def word_le_def)

lemma three_digits:
  fixes x y z :: int
  assumes "48 \<le> x" "x \<le> 57" "48 \<le> y" "y \<le> 57" "48 \<le> z" "z \<le> 57"
  shows "100 * (x - 48) + 10 * (y - 48) + (z - 48) = 200 \<longleftrightarrow> x = 50 \<and> y = 48 \<and> z = 48"
proof
  assume sum: "100 * (x - 48) + 10 * (y - 48) + (z - 48) = 200"
  then have sum: "100 * x + 10 * y + z = 5528" by simp
  have "\<not> x \<le> 49" using sum assms by linarith
  moreover have "\<not> 51 \<le> x" using sum assms by linarith
  ultimately have x: "x = 50" by simp
  have "\<not> 49 \<le> y" using sum x assms by linarith
  then have "y = 48" using assms by simp
  with x sum show "x = 50 \<and> y = 48 \<and> z = 48" by simp
qed simp

lemma digit_no_sign: "is_digit_byte d \<Longrightarrow> \<not> is_space_byte d \<and> d \<noteq> 45 \<and> d \<noteq> 43"
  by (auto simp: is_digit_byte_def is_space_byte_def word_le_def)

lemma status_value:
  assumes "length code = 3" "list_all is_digit_byte code"
  shows "to_int (strtol10 (code @ 32 # r)) = 200 \<longleftrightarrow> code = cstr ''200''"
proof -
  obtain a b d where code: "code = [a, b, d]"
    using assms(1) by (auto simp: numeral_3_eq_3 length_Suc_conv)
  have dig: "is_digit_byte a" "is_digit_byte b" "is_digit_byte d" using assms(2) code by simp_all
  define v where "v = 100 * (uint a - 48) + 10 * (uint b - 48) + (uint d - 48)"
  have v: "0 \<le> v" "v \<le> 999"
    using digit_bounds [OF dig(1)] digit_bounds [OF dig(2)] digit_bounds [OF dig(3)] by (simp_all add: v_def)
  have "\<not> is_digit_byte 32" by (simp add: is_digit_byte_def)
  then have "strtol10 (code @ 32 # r) = to_long v"
    using dig digit_no_sign [OF dig(1)] by (simp add: code strtol10_def digits_value_def v_def)
  also have "\<dots> = int (nat v)" using v by (simp add: to_long_def)
  finally have "to_int (strtol10 (code @ 32 # r)) = v"
    using v to_int_small [of "nat v"] by simp
  moreover have "v = 200 \<longleftrightarrow> uint a = 50 \<and> uint b = 48 \<and> uint d = 48"
    unfolding v_def by (rule three_digits) (use dig in \<open>simp_all add: digit_bounds\<close>)
  moreover have "uint a = 50 \<longleftrightarrow> a = 50" "uint b = 48 \<longleftrightarrow> b = 48" "uint d = 48 \<longleftrightarrow> d = 48"
    by (simp_all add: word_uint_eq_iff)
  moreover have "cstr ''200'' = [50, 48, 48]" by (simp add: cstr_def)
  ultimately show ?thesis by (simp add: code)
qed

text \<open>What \<open>post\<close> makes of the bytes of its one \<open>recv\<close>.\<close>

lemma post_first_piece:
  assumes "m_is_connected c" "s \<noteq> []" "length s < 2048" "0 \<notin> set s"
    and "length (if d = [] then header_post page ip else header_post_with_data page ip (length d)) < m_header_size"
  obtains g where "HTTP_post en send c ip page (Some d) (-1) garbage (Chunk s # rest) =
    Some (case strstr s (cstr ''HTTP/1.1 '') of
        None \<Rightarrow> Inl NoStatusLine
      | Some k \<Rightarrow>
          if 2048 < k + 12 then Inl Undefined
          else if to_int (strtol10 (drop (k + 9) s)) \<noteq> 200 then Inl (HttpCode (take 3 (drop (k + 9) (s @ 0 # g))))
          else response_body (s @ 0 # g),
      post_request page ip d, rest)"
proof -
  define g where "g = drop (length s) (new_buffer garbage 2048)"
  have len: "length (s @ g) = 2048" using assms(3) by (simp add: g_def)
  have sent: "c_result (TCP_writeS en send c bs (length bs) False) = bs" for bs
    using request_sent [OF assms(1)] .
  have cs: "c_string (s @ 0 # tl g) = s" using c_string_no_nul [OF assms(4)] .
  define req where "req = (if d \<noteq> [] then header_post_with_data page ip (length d) else header_post page ip)"
  have "TCP_readS en c (new_buffer garbage 2048) 2048 False False (Chunk s # rest)
      = Some (Inr (int (length s), s @ g), rest)"
    using post_read [OF assms(1,3,2)] by (simp add: g_def)
  moreover have "terminate_response (int (length s)) 2048 (s @ g) = Some (s @ 0 # tl g)"
    using terminate_short [of s g] assms(2,3) len by (cases "g = []") simp_all
  moreover have "snprintf_header req = Some req"
    using assms(5) by (intro snprintf_header_fits) (cases "d = []"; simp add: req_def)
  ultimately have "HTTP_post en send c ip page (Some d) (-1) garbage (Chunk s # rest) =
    Some (case strstr s (cstr ''HTTP/1.1 '') of
        None \<Rightarrow> Inl NoStatusLine
      | Some k \<Rightarrow>
          if 2048 < k + 12 then Inl Undefined
          else if to_int (strtol10 (drop (k + 9) s)) \<noteq> 200 then Inl (HttpCode (take 3 (drop (k + 9) (s @ 0 # tl g))))
          else response_body (s @ 0 # tl g),
      req @ (if d \<noteq> [] then d else []), rest)"
    unfolding HTTP_post_def Let_def option.case req_def [symmetric]
    using cs sent by (cases "d = []"; simp split: option.split)
  then show ?thesis by (intro that [of "tl g"]) (simp add: req_def post_request_def)
qed

lemma post_single_piece:
  fixes code reason body d rest page ip garbage
  defines "h \<equiv> cstr ''HTTP/1.1 '' @ code @ 32 # reason"
  assumes "m_is_connected c"
    and "length (if d = [] then header_post page ip else header_post_with_data page ip (length d)) < m_header_size"
    and "length code = 3" "list_all is_digit_byte code" "0 \<notin> set (h @ crlf2 @ body)"
    and "strstr (h @ butlast crlf2) crlf2 = None" "length (h @ crlf2 @ body) < 2048"
  shows "HTTP_post en send c ip page (Some d) (-1) garbage (Chunk (h @ crlf2 @ body) # rest)
    = Some (if code = cstr ''200'' then Inr body else Inl (HttpCode code), post_request page ip d, rest)"
proof -
  define s where "s = h @ crlf2 @ body"
  have s: "s \<noteq> []" "length s < 2048" "0 \<notin> set s" using assms(6,8) by (simp_all add: s_def h_def cstr_def)
  obtain g where g: "HTTP_post en send c ip page (Some d) (-1) garbage (Chunk s # rest) =
    Some (case strstr s (cstr ''HTTP/1.1 '') of
        None \<Rightarrow> Inl NoStatusLine
      | Some k \<Rightarrow>
          if 2048 < k + 12 then Inl Undefined
          else if to_int (strtol10 (drop (k + 9) s)) \<noteq> 200 then Inl (HttpCode (take 3 (drop (k + 9) (s @ 0 # g))))
          else response_body (s @ 0 # g),
      post_request page ip d, rest)"
    using post_first_piece [OF assms(2) s assms(3)] .
  have nine: "length (cstr ''HTTP/1.1 '') = 9" by (simp add: cstr_def)
  have line: "strstr s (cstr ''HTTP/1.1 '') = Some 0"
    unfolding s_def h_def append_assoc by (intro strstr_here) (simp add: cstr_def)
  have rest: "drop 9 s = code @ 32 # reason @ crlf2 @ body" using nine by (simp add: s_def h_def)
  have "(to_int (strtol10 (drop 9 s)) = 200) = (code = cstr ''200'')"
    unfolding rest using status_value [OF assms(4,5)] .
  moreover have "take 3 (drop 9 (s @ 0 # g)) = code"
    using rest assms(4) nine by (simp add: s_def h_def)
  moreover have "response_body (s @ 0 # g) = Inr body"
    unfolding s_def using response_body_found [OF assms(6,7)] .
  ultimately show ?thesis using g line by (simp flip: s_def)
qed

lemma delimiter_in_part:
  assumes "p @ q = h @ crlf2 @ body" "strstr (h @ butlast crlf2) crlf2 = None" "0 \<notin> set p"
    "response_body (p @ 0 # g) = Inr b"
  shows "p = h @ crlf2 @ b"
proof -
  obtain j where j: "strstr p crlf2 = Some j" "drop (j + 4) p = b"
    using assms(4) unfolding response_body_def c_string_no_nul [OF assms(3)] by (auto split: option.splits)
  have "strstr (h @ crlf2 @ body) crlf2 = Some (length h)"
    using assms(2) by (intro strstr_first) (simp_all add: crlf2_def)
  then have len: "j = length h" using strstr_extends [OF j(1), of q] assms(1) by simp
  have "length h + 4 \<le> length p" using strstr_bound [OF j(1)] len by (simp add: crlf2_def)
  moreover have "take (length h + 4) (p @ q) = h @ crlf2" unfolding assms(1) by (simp add: crlf2_def)
  ultimately have "take (length h + 4) p = h @ crlf2" by simp
  with j(2) len show ?thesis by (metis append.assoc append_take_drop_id)
qed

text \<open>
  C26: A post sends the header, with the length of the content when there is one, and the content,
  and reads once. When the first piece of the response, of fewer than 2048 bytes, is the whole, it
  gives the body if the status is 200 and the error with the three digits of the status otherwise.
  When it is only a part, the call does not wait for the rest: it gives a body exactly if the
  status is 200 and the part goes beyond the empty line, and then the start of the body that the
  part holds. What arrives later is left on the connection for the next call.
\<close>

theorem HTTP_post_single_piece:
  fixes code reason body d rest page ip garbage
  defines "h \<equiv> cstr ''HTTP/1.1 '' @ code @ 32 # reason"
  assumes "m_is_connected c"
    and "length (if d = [] then header_post page ip else header_post_with_data page ip (length d)) < m_header_size"
    and "length code = 3" "list_all is_digit_byte code" "0 \<notin> set (h @ crlf2 @ body)"
    and "strstr (h @ butlast crlf2) crlf2 = None"
    and "p @ q = h @ crlf2 @ body" "p \<noteq> []" "length p < 2048"
  shows "\<exists>r. HTTP_post en send c ip page (Some d) (-1) garbage (Chunk p # rest) = Some (r, post_request page ip d, rest) \<and>
    (q = [] \<longrightarrow> r = (if code = cstr ''200'' then Inr body else Inl (HttpCode code))) \<and>
    (\<forall>b. r = Inr b \<longleftrightarrow> code = cstr ''200'' \<and> p = h @ crlf2 @ b)"
proof -
  note whole = post_single_piece [OF assms(2-5), of reason, folded h_def]
  have p: "0 \<notin> set p" using arg_cong [OF assms(8), of set] assms(6) by auto
  obtain g where g: "HTTP_post en send c ip page (Some d) (-1) garbage (Chunk p # rest) =
    Some (case strstr p (cstr ''HTTP/1.1 '') of
        None \<Rightarrow> Inl NoStatusLine
      | Some k \<Rightarrow>
          if 2048 < k + 12 then Inl Undefined
          else if to_int (strtol10 (drop (k + 9) p)) \<noteq> 200 then Inl (HttpCode (take 3 (drop (k + 9) (p @ 0 # g))))
          else response_body (p @ 0 # g),
      post_request page ip d, rest)" (is "_ = Some (?r, _)")
    using post_first_piece [OF assms(2,9,10) p assms(3)] .
  have part: "?r = (if code = cstr ''200'' then Inr b else Inl (HttpCode code))" if "p = h @ crlf2 @ b" for b
    using whole [where body = b and rest = rest and en = en and send = send and garbage = garbage] g p assms(7,10) that
    by simp
  have "p = h @ crlf2 @ b" if "?r = Inr b" for b
    using that delimiter_in_part [OF assms(8,7) p, of g b] by (auto split: option.splits if_splits)
  then have "?r = Inr b \<longleftrightarrow> code = cstr ''200'' \<and> p = h @ crlf2 @ b" for b
    using part [of b] by (auto split: if_splits)
  moreover have "p = h @ crlf2 @ body" if "q = []" using that assms(8) by simp
  ultimately show ?thesis using g part [of body] by blast
qed

text \<open>A response with status 200 in two pieces: half of its body is given.\<close>

theorem HTTP_post_single_piece_witness:
  "HTTP_post Little send_all connected (cstr ''h'') (cstr ''/'') (Some []) (-1) (\<lambda>_. 1)
      [Chunk (cstr ''HTTP/1.1 200 OK'' @ crlf2 @ [65]), Chunk [66]]
    = Some (Inr [65], header_post (cstr ''/'') (cstr ''h''), [Chunk [66]])"
proof -
  let ?h = "cstr ''HTTP/1.1 '' @ cstr ''200'' @ 32 # cstr ''OK''"
  have "m_is_connected connected" by (simp add: connected_def)
  moreover have "length (if [] = ([] :: u8 list) then header_post (cstr ''/'') (cstr ''h'')
      else header_post_with_data (cstr ''/'') (cstr ''h'') (length ([] :: u8 list))) < m_header_size"
    by (simp add: header_post_def m_header_size_def cstr_def lf_def)
  moreover have "length (cstr ''200'') = 3" "list_all is_digit_byte (cstr ''200'')"
    by (simp_all add: cstr_def is_digit_byte_def)
  moreover have "0 \<notin> set (?h @ crlf2 @ [65, 66])" by (simp add: cstr_def crlf2_def)
  moreover have "strstr (?h @ butlast crlf2) crlf2 = None" by (simp add: cstr_def crlf2_def)
  moreover have "(?h @ crlf2 @ [65]) @ [66] = ?h @ crlf2 @ [65, 66]" "?h @ crlf2 @ [65] \<noteq> []" by simp_all
  moreover have "length (?h @ crlf2 @ [65]) < 2048" by (simp add: cstr_def crlf2_def)
  ultimately obtain r where "HTTP_post Little send_all connected (cstr ''h'') (cstr ''/'') (Some []) (-1) (\<lambda>_. 1)
      [Chunk (?h @ crlf2 @ [65]), Chunk [66]] = Some (r, post_request (cstr ''/'') (cstr ''h'') [], [Chunk [66]])"
    "\<forall>b. r = Inr b \<longleftrightarrow> cstr ''200'' = cstr ''200'' \<and> ?h @ crlf2 @ [65] = ?h @ crlf2 @ b"
    using HTTP_post_single_piece [of connected "[]" "cstr ''/''" "cstr ''h''" "cstr ''200''" "cstr ''OK''" "[65, 66]"
        "?h @ crlf2 @ [65]" "[66]" Little send_all "\<lambda>_. 1" "[Chunk [66]]"]
    by blast
  then show ?thesis by (simp add: post_request_def cstr_def)
qed

text \<open>
  A request whose path and address together pass the size of the member for headers writes
  beyond it: the bound given to \<open>snprintf\<close> is larger than the member.
\<close>

lemma long_page_overruns:
  assumes "m_header_size \<le> length (header_get page ip)" "length (header_get page ip) < 2048" "0 \<le> n"
  shows "HTTP_get en send c ip page n garbage t = Some (Inl Undefined, [], t)"
  using assms by (simp add: HTTP_get_def snprintf_header_def m_header_size_def)

end
