(* ===== verification/Connection.thy ===== *)
theory Connection
  imports HttpClient
begin

text \<open>
  Opening and closing a connection: \<open>open_connection\<close> of \<open>src/tcp_client.cpp\<close>,
  \<open>src/serial_client.cpp\<close> and \<open>src/udp_client.cpp\<close> (Linux branches), with
  \<open>from_socket\<close>, \<open>close_connection\<close> and \<open>SetSocketBlockingEnabled\<close> of
  \<open>src/com_client.cpp\<close>, over the descriptor table of the process.
\<close>

section \<open>The descriptor table\<close>

text \<open>
  What a descriptor refers to. The table is indexed by the descriptors; a new one gets the
  lowest free number.
\<close>

datatype target = Socket | Device "u8 list"

record descriptor =
  target :: target
  nonblocking :: bool

type_synonym fd_table = "descriptor option list"

fun allocate :: "descriptor \<Rightarrow> fd_table \<Rightarrow> nat \<times> fd_table" where
  "allocate d [] = (0, [Some d])"
| "allocate d (None # t) = (0, Some d # t)"
| "allocate d (Some e # t) = (let (n, t) = allocate d t in (Suc n, Some e # t))"

definition lookup_fd :: "fd_table \<Rightarrow> int \<Rightarrow> descriptor option" where
  "lookup_fd t fd = (if 0 \<le> fd \<and> fd < int (length t) then t ! nat fd else None)"

definition update_fd :: "fd_table \<Rightarrow> int \<Rightarrow> descriptor option \<Rightarrow> fd_table" where
  "update_fd t fd d = (if 0 \<le> fd then t[nat fd := d] else t)"

definition sys_close :: "int \<Rightarrow> fd_table \<Rightarrow> int \<times> fd_table" where
  "sys_close fd t = (if lookup_fd t fd = None then (-1, t) else (0, update_fd t fd None))"

definition open_count :: "fd_table \<Rightarrow> nat" where
  "open_count t = length (filter (\<lambda>d. d \<noteq> None) t)"

section \<open>The operations of the base class\<close>

definition from_socket :: "int \<Rightarrow> 'a client_scheme \<Rightarrow> 'a client_scheme" where
  "from_socket s c = c\<lparr>m_fd := s\<rparr>"

definition close_connection :: "'a client_scheme \<times> fd_table \<Rightarrow> int \<times> 'a client_scheme \<times> fd_table" where
  "close_connection s =
     (let (c, t) = s; (n, t) = sys_close (m_fd c) t in (n, c\<lparr>m_is_connected := False\<rparr>, t))"

text \<open>\<open>fcntl\<close> fails on a number that is not open.\<close>

definition SetSocketBlockingEnabled :: "bool \<Rightarrow> int \<Rightarrow> fd_table \<Rightarrow> bool \<times> fd_table" where
  "SetSocketBlockingEnabled blocking fd t =
     (if fd < 0 then (False, t)
      else case lookup_fd t fd of
             None \<Rightarrow> (False, t)
           | Some d \<Rightarrow> (True, update_fd t fd (Some (d\<lparr>nonblocking := \<not> blocking\<rparr>))))"

section \<open>Opening a TCP connection\<close>

text \<open>
  What the network answers: the address of a host, the outcome of a \<open>connect\<close> (none, or the
  value of \<open>errno\<close>), of the \<open>select\<close> with its time-out, and of \<open>getsockopt\<close>.
\<close>

record net =
  socket_ok :: bool
  gethostbyname :: "u8 list \<Rightarrow> 32 word option"
  connect_errno :: "32 word \<Rightarrow> u16 \<Rightarrow> int option"
  select_result :: "int \<Rightarrow> int"
  getsockopt_ok :: bool
  so_error :: int

datatype open_error = NoSocket | UnknownHost | SelectFailed | TimedOut | NoSocketOptions | SocketError int
  | ConnectionError | CannotOpen | NoSettings | UnsupportedBaud | CannotSet

definition EINPROGRESS :: int where
  "EINPROGRESS = 115"

definition sys_socket :: "bool \<Rightarrow> fd_table \<Rightarrow> int \<times> fd_table" where
  "sys_socket ok t =
     (if ok then let (n, t) = allocate \<lparr>target = Socket, nonblocking = False\<rparr> t in (int n, t) else (-1, t))"

text \<open>The wait for a connection that is in progress, and the check of the socket.\<close>

definition await_connection :: "net \<Rightarrow> int \<Rightarrow> int option \<Rightarrow> open_error option" where
  "await_connection net timeout res =
     (if res = Some EINPROGRESS then
        (if select_result net timeout = -1 then Some SelectFailed
         else if select_result net timeout = 0 then Some TimedOut
         else None)
      else if res = None then None
      else Some ConnectionError)"

definition check_socket :: "net \<Rightarrow> open_error option" where
  "check_socket net =
     (if \<not> getsockopt_ok net then Some NoSocketOptions
      else if so_error net \<noteq> 0 then Some (SocketError (so_error net))
      else None)"

record tcp = client +
  m_ip :: "u8 list"

definition TCP_open_connection ::
  "net \<Rightarrow> u8 list \<Rightarrow> int \<Rightarrow> int \<Rightarrow> tcp \<times> fd_table \<Rightarrow> (open_error + int) \<times> tcp \<times> fd_table" where
  "TCP_open_connection net address port timeout s =
     (let (c, t) = s;
          c = c\<lparr>m_ip := address\<rparr>;
          (fd, t) = sys_socket (socket_ok net) t;
          c = c\<lparr>m_fd := fd\<rparr>
      in if fd = -1 then (Inl NoSocket, c, t)
         else case gethostbyname net address of
                None \<Rightarrow> (Inl UnknownHost, c, t)
              | Some a \<Rightarrow>
                  let t = (if timeout \<noteq> -1 then snd (SetSocketBlockingEnabled False fd t) else t);
                      res = connect_errno net a (word_of_int port);
                      t = (if timeout \<noteq> -1 then snd (SetSocketBlockingEnabled True fd t) else t)
                  in case await_connection net timeout res of
                       Some e \<Rightarrow> (Inl e, c, t)
                     | None \<Rightarrow>
                         (case check_socket net of
                            Some e \<Rightarrow> (Inl e, c, t)
                          | None \<Rightarrow> (Inr 1, c\<lparr>m_is_connected := True\<rparr>, t)))"

section \<open>Opening a datagram socket\<close>

record udp = client +
  m_addr_to :: "32 word \<times> u16"

definition UDP_open_connection ::
  "net \<Rightarrow> u8 list \<Rightarrow> int \<Rightarrow> int \<Rightarrow> udp \<times> fd_table \<Rightarrow> (open_error + int) \<times> udp \<times> fd_table" where
  "UDP_open_connection net address port timeout s =
     (let (c, t) = s; (fd, t) = sys_socket (socket_ok net) t; c = c\<lparr>m_fd := fd\<rparr>
      in if fd = -1 then (Inl NoSocket, c, t)
         else case gethostbyname net address of
                None \<Rightarrow> (Inl UnknownHost, c, t)
              | Some a \<Rightarrow> (Inr 1, c\<lparr>m_addr_to := (a, word_of_int port)\<rparr>, t))"

section \<open>The settings of a serial line\<close>

text \<open>
  The terminal settings, with the flags as they are in the Linux headers; the speeds and
  the two control characters that the code sets are fields of their own.
\<close>

type_synonym u32 = "32 word"

record termios =
  c_iflag :: u32
  c_oflag :: u32
  c_cflag :: u32
  c_lflag :: u32
  c_vtime :: u8
  c_vmin :: u8
  c_ispeed :: nat
  c_ospeed :: nat

definition raw_settings :: "termios \<Rightarrow> termios" where
  "raw_settings tty =
     (let tty = tty\<lparr>c_cflag := c_cflag tty AND NOT 0x100\<rparr>;
          tty = tty\<lparr>c_cflag := c_cflag tty AND NOT 0x40\<rparr>;
          tty = tty\<lparr>c_cflag := c_cflag tty AND NOT 0x30\<rparr>;
          tty = tty\<lparr>c_cflag := c_cflag tty OR 0x30\<rparr>;
          tty = tty\<lparr>c_cflag := c_cflag tty AND NOT 0x80000000\<rparr>;
          tty = tty\<lparr>c_cflag := c_cflag tty OR (0x80 OR 0x800)\<rparr>;
          tty = tty\<lparr>c_lflag := c_lflag tty AND NOT 2\<rparr>;
          tty = tty\<lparr>c_lflag := c_lflag tty AND NOT 8\<rparr>;
          tty = tty\<lparr>c_lflag := c_lflag tty AND NOT 0x10\<rparr>;
          tty = tty\<lparr>c_lflag := c_lflag tty AND NOT 0x40\<rparr>;
          tty = tty\<lparr>c_lflag := c_lflag tty AND NOT 1\<rparr>;
          tty = tty\<lparr>c_iflag := c_iflag tty AND NOT (0x400 OR 0x1000 OR 0x800)\<rparr>;
          tty = tty\<lparr>c_iflag := c_iflag tty AND NOT (1 OR 2 OR 8 OR 0x20 OR 0x40 OR 0x80 OR 0x100)\<rparr>;
          tty = tty\<lparr>c_oflag := c_oflag tty AND NOT 1\<rparr>;
          tty = tty\<lparr>c_oflag := c_oflag tty AND NOT 4\<rparr>
      in tty\<lparr>c_vtime := 40, c_vmin := 0\<rparr>)"

definition baud_speed :: "int \<Rightarrow> nat option" where
  "baud_speed baud =
     (if baud = 9600 then Some 9600
      else if baud = 19200 then Some 19200
      else if baud = 38400 then Some 38400
      else if baud = 57600 then Some 57600
      else if baud = 115200 then Some 115200
      else if baud = 230400 then Some 230400
      else if baud = 460800 then Some 460800
      else if baud = 500000 then Some 500000
      else if baud = 921600 then Some 921600
      else if baud = 1000000 then Some 1000000
      else None)"

section \<open>Opening a serial line\<close>

text \<open>What the devices answer; \<open>ttys\<close> are the settings, which \<open>tcsetattr\<close> replaces.\<close>

record devices =
  openable :: "u8 list \<Rightarrow> u32 \<Rightarrow> bool"
  event_name :: "u8 list \<Rightarrow> u8 list"
  tcgetattr_ok :: "u8 list \<Rightarrow> bool"
  tcsetattr_ok :: "u8 list \<Rightarrow> bool"

record system =
  table :: fd_table
  ttys :: "u8 list \<Rightarrow> termios"

definition sys_open :: "devices \<Rightarrow> u8 list \<Rightarrow> u32 \<Rightarrow> fd_table \<Rightarrow> int \<times> fd_table" where
  "sys_open dev path flags t =
     (if openable dev path flags
      then let (n, t) = allocate \<lparr>target = Device path, nonblocking = False\<rparr> t in (int n, t)
      else (-1, t))"

definition event_path :: "nat \<Rightarrow> u8 list" where
  "event_path i = cstr ''/dev/input/event'' @ decimal i"

text \<open>The loop over the input devices, from device \<open>i\<close> on: the last path that was tried.\<close>

fun scan_inputs :: "devices \<Rightarrow> u8 list \<Rightarrow> nat list \<Rightarrow> u8 list \<Rightarrow> fd_table \<Rightarrow> u8 list \<times> fd_table" where
  "scan_inputs dev name [] dev_path t = (dev_path, t)"
| "scan_inputs dev name (i # is) dev_path t =
     (let (fd, t) = sys_open dev (event_path i) 2 t in
      if 0 < fd then
        if event_name dev (event_path i) = name then (event_path i, t)
        else scan_inputs dev name is (event_path i) (snd (sys_close fd t))
      else scan_inputs dev name is (event_path i) t)"

text \<open>The mode that is shown with the path, from the flags of \<open>open\<close>.\<close>

datatype mode = RW | RO | WO | Other

definition serial_mode :: "u32 \<Rightarrow> mode" where
  "serial_mode flags =
     (if flags AND 2 = 2 then RW else if flags AND 0 = 0 then RO else if flags AND 1 = 1 then WO else Other)"

definition Serial_open_connection ::
  "devices \<Rightarrow> u8 list \<Rightarrow> int \<Rightarrow> u32 \<Rightarrow> client \<times> system \<Rightarrow> (open_error + int) \<times> client \<times> system" where
  "Serial_open_connection dev path baud flags s =
     (let (c, sys) = s;
          (fd, t) = sys_open dev path flags (table sys);
          (opened, fd, t) =
            (if fd = -1 then
               let (dev_path, t) = scan_inputs dev path [0..<40] [] t; (fd, t) = sys_open dev dev_path 2 t
               in (dev_path, fd, t)
             else (path, fd, t));
          c = c\<lparr>m_fd := fd\<rparr>; sys = sys\<lparr>table := t\<rparr>
      in if fd < 0 then (Inl CannotOpen, c, sys)
         else if \<not> tcgetattr_ok dev opened then (Inl NoSettings, c, sys)
         else case baud_speed baud of
                None \<Rightarrow> (Inl UnsupportedBaud, c, sys)
              | Some speed \<Rightarrow>
                  let tty = (raw_settings (ttys sys opened))\<lparr>c_ispeed := speed, c_ospeed := speed\<rparr> in
                  if \<not> tcsetattr_ok dev opened then (Inl CannotSet, c, sys)
                  else (Inr fd, c\<lparr>m_is_connected := True\<rparr>, sys\<lparr>ttys := (ttys sys)(opened := tty)\<rparr>))"


section \<open>Lemmas on the descriptor table\<close>

lemma lookup_fd_Cons: "lookup_fd (x # t) fd = (if fd = 0 then x else lookup_fd t (fd - 1))"
  by (auto simp: lookup_fd_def nth_Cons' nat_diff_distrib')

lemma allocate_props:
  assumes "allocate d t = (n, t')"
  shows "lookup_fd t (int n) = None" "lookup_fd t' (int n) = Some d"
    "open_count t' = Suc (open_count t)" "fd \<noteq> int n \<Longrightarrow> lookup_fd t' fd = lookup_fd t fd"
proof -
  have "lookup_fd t (int n) = None \<and> lookup_fd t' (int n) = Some d \<and> open_count t' = Suc (open_count t) \<and>
    (fd \<noteq> int n \<longrightarrow> lookup_fd t' fd = lookup_fd t fd)"
    using assms
  proof (induction d t arbitrary: n t' fd rule: allocate.induct)
    case (3 d e t)
    obtain m u where u: "allocate d t = (m, u)" by (cases "allocate d t")
    then have n: "n = Suc m" "t' = Some e # u" using "3.prems" by simp_all
    have "int (Suc m) - 1 = int m" by simp
    then show ?case using "3.IH" [OF u, of "fd - 1"] n by (auto simp: lookup_fd_Cons open_count_def)
  qed (auto simp: lookup_fd_def open_count_def nth_Cons' split: if_splits)
  then show "lookup_fd t (int n) = None" "lookup_fd t' (int n) = Some d"
    "open_count t' = Suc (open_count t)" "fd \<noteq> int n \<Longrightarrow> lookup_fd t' fd = lookup_fd t fd"
    by simp_all
qed

lemma lookup_fd_SomeD: "lookup_fd t fd = Some d \<Longrightarrow> 0 \<le> fd \<and> nat fd < length t \<and> t ! nat fd = Some d"
  by (simp add: lookup_fd_def split: if_splits)

lemma lookup_update_fd:
  "lookup_fd t fd \<noteq> None \<Longrightarrow> lookup_fd (update_fd t fd d) fd' = (if fd' = fd then d else lookup_fd t fd')"
  by (auto simp: lookup_fd_def update_fd_def nat_eq_iff split: if_splits)

lemma count_update:
  "n < length t \<Longrightarrow> t ! n = Some d \<Longrightarrow>
   open_count (t[n := e]) = (if e = None then open_count t - 1 else open_count t)"
proof (induction t arbitrary: n)
  case (Cons x t)
  then show ?case
  proof (cases n)
    case (Suc m)
    have "0 < open_count t" if "t ! m = Some d" "m < length t"
      using that by (auto simp: open_count_def filter_empty_conv) (metis nth_mem option.distinct(1))
    then show ?thesis using Cons Suc by (auto simp: open_count_def)
  qed (auto simp: open_count_def)
qed simp

lemma open_count_update_fd:
  "lookup_fd t fd \<noteq> None \<Longrightarrow>
   open_count (update_fd t fd e) = (if e = None then open_count t - 1 else open_count t)"
  by (auto simp: update_fd_def count_update dest!: lookup_fd_SomeD)

lemma sys_close_open:
  assumes "lookup_fd t fd \<noteq> None"
  shows "sys_close fd t = (0, update_fd t fd None)" "open_count (snd (sys_close fd t)) = open_count t - 1"
  using assms open_count_update_fd [OF assms] by (auto simp: sys_close_def)

lemma set_blocking_open:
  assumes "lookup_fd t fd = Some d"
  shows "SetSocketBlockingEnabled b fd t = (True, update_fd t fd (Some (d\<lparr>nonblocking := \<not> b\<rparr>)))"
  using assms by (auto simp: SetSocketBlockingEnabled_def lookup_fd_def split: if_splits)

text \<open>A socket that is switched to non-blocking for \<open>connect\<close> is blocking again afterwards.\<close>

lemma blocking_restored:
  assumes "lookup_fd t fd = Some d" "\<not> nonblocking d"
  defines "u \<equiv> snd (SetSocketBlockingEnabled True fd (snd (SetSocketBlockingEnabled False fd t)))"
  shows "lookup_fd u fd' = lookup_fd t fd'" "open_count u = open_count t"
proof -
  let ?v = "update_fd t fd (Some (d\<lparr>nonblocking := True\<rparr>))"
  have v: "lookup_fd ?v fd = Some (d\<lparr>nonblocking := True\<rparr>)" "open_count ?v = open_count t"
    using assms(1) by (simp_all add: lookup_update_fd open_count_update_fd)
  have u: "u = update_fd ?v fd (Some (d\<lparr>nonblocking := False\<rparr>))"
    using assms(1) v(1) by (simp add: u_def set_blocking_open)
  have "d\<lparr>nonblocking := False\<rparr> = d" using assms(2) by (cases d) simp
  then show "lookup_fd u fd' = lookup_fd t fd'" "open_count u = open_count t"
    using assms(1) v by (auto simp: u lookup_update_fd open_count_update_fd)
qed

section \<open>Properties of TCP and UDP connections\<close>

lemma sys_socket_props:
  assumes "sys_socket ok t = (fd, t')"
  shows "\<not> ok \<Longrightarrow> fd = -1 \<and> t' = t"
    and "ok \<Longrightarrow> 0 \<le> fd \<and> lookup_fd t fd = None \<and> lookup_fd t' fd = Some \<lparr>target = Socket, nonblocking = False\<rparr> \<and>
      open_count t' = Suc (open_count t) \<and> (\<forall>fd'. fd' \<noteq> fd \<longrightarrow> lookup_fd t' fd' = lookup_fd t fd')"
proof -
  obtain n u where a: "allocate \<lparr>target = Socket, nonblocking = False\<rparr> t = (n, u)"
    by (cases "allocate \<lparr>target = Socket, nonblocking = False\<rparr> t")
  show "\<not> ok \<Longrightarrow> fd = -1 \<and> t' = t" using assms by (simp add: sys_socket_def)
  assume ok
  then have "fd = int n" "t' = u" using assms a by (simp_all add: sys_socket_def)
  then show "0 \<le> fd \<and> lookup_fd t fd = None \<and> lookup_fd t' fd = Some \<lparr>target = Socket, nonblocking = False\<rparr> \<and>
      open_count t' = Suc (open_count t) \<and> (\<forall>fd'. fd' \<noteq> fd \<longrightarrow> lookup_fd t' fd' = lookup_fd t fd')"
    using allocate_props [OF a] by auto
qed

lemma TCP_open_socket:
  assumes "TCP_open_connection net address port timeout (c, t) = (r, c', t')" "socket_ok net"
  shows "lookup_fd t (m_fd c') = None"
    "lookup_fd t' (m_fd c') = Some \<lparr>target = Socket, nonblocking = False\<rparr>"
    "open_count t' = Suc (open_count t)" "fd' \<noteq> m_fd c' \<Longrightarrow> lookup_fd t' fd' = lookup_fd t fd'"
proof -
  obtain fd u where sock: "sys_socket (socket_ok net) t = (fd, u)" by (cases "sys_socket (socket_ok net) t")
  let ?d = "\<lparr>target = Socket, nonblocking = False\<rparr>"
  let ?v = "snd (SetSocketBlockingEnabled True fd (snd (SetSocketBlockingEnabled False fd u)))"
  from sys_socket_props(2) [OF sock assms(2)] have fd: "0 \<le> fd" "lookup_fd t fd = None" "lookup_fd u fd = Some ?d"
    "open_count u = Suc (open_count t)" "\<forall>fd'. fd' \<noteq> fd \<longrightarrow> lookup_fd u fd' = lookup_fd t fd'" by simp_all
  have v: "lookup_fd ?v fd' = lookup_fd u fd'" "open_count ?v = open_count u" for fd'
    using blocking_restored [OF fd(3)] by simp_all
  have table: "(t' = u \<or> t' = ?v) \<and> m_fd c' = fd"
    using assms(1) sock fd(1) by (auto simp: TCP_open_connection_def Let_def split: option.splits if_splits)
  then show "lookup_fd t (m_fd c') = None" "lookup_fd t' (m_fd c') = Some ?d"
    "open_count t' = Suc (open_count t)" "fd' \<noteq> m_fd c' \<Longrightarrow> lookup_fd t' fd' = lookup_fd t fd'"
    using fd v by auto
qed

lemma TCP_open_flag:
  assumes "TCP_open_connection net address port timeout (c, t) = (r, c', t')"
  shows "r = Inr 1 \<and> m_is_connected c' \<or> (\<exists>e. r = Inl e) \<and> m_is_connected c' = m_is_connected c"
    "m_ip c' = address"
  using assms by (auto simp: TCP_open_connection_def Let_def split: option.splits if_splits prod.splits)

lemma TCP_open_no_socket:
  assumes "TCP_open_connection net address port timeout (c, t) = (r, c', t')" "\<not> socket_ok net"
  shows "r = Inl NoSocket" "t' = t"
  using assms by (auto simp: TCP_open_connection_def sys_socket_def Let_def)

text \<open>
  C24: Opening a TCP connection either returns 1 and sets the connected flag, or throws and
  leaves the flag as it was. In both cases, as soon as the system gave a socket, the object
  holds that new socket, which is in blocking mode again, whatever the time-out, and is
  not closed; no other descriptor of the process changes.
\<close>

theorem TCP_open_connection_outcome:
  assumes "TCP_open_connection net address port timeout (c, t) = (r, c', t')"
  shows "(r = Inr 1 \<and> m_is_connected c' \<or> (\<exists>e. r = Inl e) \<and> m_is_connected c' = m_is_connected c) \<and>
    m_ip c' = address \<and>
    (if socket_ok net
     then lookup_fd t (m_fd c') = None \<and>
       lookup_fd t' (m_fd c') = Some \<lparr>target = Socket, nonblocking = False\<rparr> \<and>
       open_count t' = Suc (open_count t) \<and> (\<forall>fd. fd \<noteq> m_fd c' \<longrightarrow> lookup_fd t' fd = lookup_fd t fd)
     else r = Inl NoSocket \<and> t' = t)"
proof (cases "socket_ok net")
  case True
  then show ?thesis using TCP_open_socket [OF assms True] TCP_open_flag [OF assms] by auto
next
  case False
  then show ?thesis using TCP_open_no_socket [OF assms False] TCP_open_flag [OF assms] by auto
qed

definition refusing :: net where
  "refusing = \<lparr>socket_ok = True, gethostbyname = (\<lambda>_. Some 0x7F000001), connect_errno = (\<lambda>_ _. Some 111),
     select_result = (\<lambda>_. 1), getsockopt_ok = True, so_error = 0\<rparr>"

definition new_tcp :: tcp where
  "new_tcp = \<lparr>m_fd = 0, m_is_connected = False, m_ip = []\<rparr>"

theorem TCP_open_connection_outcome_witness:
  "lookup_fd (snd (snd (TCP_open_connection refusing [] 80 2 (new_tcp, [])))) 0
    = Some \<lparr>target = Socket, nonblocking = False\<rparr>"
proof -
  obtain r c' t' where run: "TCP_open_connection refusing [] 80 2 (new_tcp, []) = (r, c', t')"
    by (cases "TCP_open_connection refusing [] 80 2 (new_tcp, [])")
  moreover have "m_fd c' = 0"
    using run by (auto simp: TCP_open_connection_def sys_socket_def refusing_def await_connection_def Let_def
      EINPROGRESS_def split: if_splits)
  ultimately show ?thesis
    using TCP_open_connection_outcome [OF run] by (simp add: refusing_def)
qed

text \<open>A program that tries again after each failure.\<close>

definition retry :: "net list \<Rightarrow> u8 list \<Rightarrow> int \<Rightarrow> int \<Rightarrow> tcp \<times> fd_table \<Rightarrow> tcp \<times> fd_table" where
  "retry nets address port timeout s =
     fold (\<lambda>net s. snd (TCP_open_connection net address port timeout s)) nets s"

lemma open_adds_one:
  assumes "socket_ok net"
  shows "open_count (snd (snd (TCP_open_connection net address port timeout s))) = Suc (open_count (snd s))"
    and "lookup_fd (snd (snd (TCP_open_connection net address port timeout s)))
      (m_fd (fst (snd (TCP_open_connection net address port timeout s)))) \<noteq> None"
proof -
  obtain c t r c' t' where st: "s = (c, t)" "TCP_open_connection net address port timeout (c, t) = (r, c', t')"
    by (metis prod_cases3 surj_pair)
  then show "open_count (snd (snd (TCP_open_connection net address port timeout s))) = Suc (open_count (snd s))"
    "lookup_fd (snd (snd (TCP_open_connection net address port timeout s)))
      (m_fd (fst (snd (TCP_open_connection net address port timeout s)))) \<noteq> None"
    using TCP_open_socket [OF st(2) assms] by simp_all
qed

lemma retry_opens:
  assumes "\<forall>net \<in> set nets. socket_ok net"
  shows "open_count (snd (retry nets address port timeout s)) = open_count (snd s) + length nets"
    "nets \<noteq> [] \<Longrightarrow> lookup_fd (snd (retry nets address port timeout s)) (m_fd (fst (retry nets address port timeout s))) \<noteq> None"
proof -
  have "open_count (snd (retry nets address port timeout s)) = open_count (snd s) + length nets \<and>
    (nets \<noteq> [] \<longrightarrow>
      lookup_fd (snd (retry nets address port timeout s)) (m_fd (fst (retry nets address port timeout s))) \<noteq> None)"
    using assms
    by (induction nets rule: rev_induct) (simp_all add: retry_def open_adds_one)
  then show "open_count (snd (retry nets address port timeout s)) = open_count (snd s) + length nets"
    "nets \<noteq> [] \<Longrightarrow> lookup_fd (snd (retry nets address port timeout s)) (m_fd (fst (retry nets address port timeout s))) \<noteq> None"
    by simp_all
qed

text \<open>
  Every attempt to connect, successful or not, takes a descriptor of the process, and
  closing the connection gives back one of them only: after some attempts and a close, all
  sockets but the last are still open.
\<close>

theorem retries_leak_sockets:
  fixes s :: "tcp \<times> fd_table"
  assumes "\<forall>net \<in> set nets. socket_ok net" "nets \<noteq> []"
    and "retry nets address port timeout s = (c, t)"
    and "close_connection (c, t) = (n, c', t')"
  shows "n = 0 \<and> open_count t' = open_count (snd s) + (length nets - 1)"
proof -
  have "lookup_fd t (m_fd c) \<noteq> None" "open_count t = open_count (snd s) + length nets"
    using retry_opens [OF assms(1), of address port timeout s] assms(2,3) by simp_all
  then show ?thesis
    using sys_close_open [of t "m_fd c"] assms(2,4)
    by (cases nets) (auto simp: close_connection_def split: prod.splits)
qed

theorem retries_leak_sockets_witness:
  "fst (close_connection (retry [refusing, refusing] [] 80 2 (new_tcp, []))) = 0"
proof -
  obtain c t where run: "retry [refusing, refusing] [] 80 2 (new_tcp, []) = (c, t)"
    by (cases "retry [refusing, refusing] [] 80 2 (new_tcp, [])")
  obtain n c' t' where close: "close_connection (c, t) = (n, c', t')"
    by (cases "close_connection (c, t)")
  have "\<forall>net \<in> set [refusing, refusing]. socket_ok net" by (simp add: refusing_def)
  then show ?thesis using retries_leak_sockets [OF _ _ run close] run close by simp
qed

text \<open>
  When a connected object is opened again and the attempt fails, it still says that it is
  connected, although it now holds a new socket that is not connected to anything; the
  socket of the old connection stays open and can no longer be reached through the object.
\<close>

theorem failed_reopen_stays_connected:
  assumes "m_is_connected c" "lookup_fd t (m_fd c) = Some d" "socket_ok net"
    and "TCP_open_connection net address port timeout (c, t) = (Inl e, c', t')"
  shows "m_is_connected c' \<and> m_fd c' \<noteq> m_fd c \<and> lookup_fd t' (m_fd c) = Some d"
proof -
  have other: "m_fd c' \<noteq> m_fd c" using TCP_open_socket(1) [OF assms(4,3)] assms(2) by auto
  then have "lookup_fd t' (m_fd c) = Some d" using TCP_open_socket(4) [OF assms(4,3)] assms(2) by simp
  then show ?thesis using other TCP_open_flag(1) [OF assms(4)] assms(1) by simp
qed

theorem failed_reopen_stays_connected_witness:
  "m_is_connected (fst (snd (TCP_open_connection refusing [] 80 (-1)
     (new_tcp\<lparr>m_is_connected := True\<rparr>, [Some \<lparr>target = Socket, nonblocking = False\<rparr>]))))"
proof -
  let ?s = "(new_tcp\<lparr>m_is_connected := True\<rparr>, [Some \<lparr>target = Socket, nonblocking = False\<rparr>])"
  obtain c' t' where run: "TCP_open_connection refusing [] 80 (-1) ?s = (Inl ConnectionError, c', t')"
    by (simp add: TCP_open_connection_def sys_socket_def refusing_def await_connection_def EINPROGRESS_def)
  have "lookup_fd (snd ?s) (m_fd (fst ?s)) = Some \<lparr>target = Socket, nonblocking = False\<rparr>"
    by (simp add: lookup_fd_def new_tcp_def)
  then show ?thesis
    using failed_reopen_stays_connected [OF _ _ _ run] run by (simp add: refusing_def)
qed

text \<open>
  Closing a connection twice closes what another part of the program opened in between:
  the number of the closed descriptor is the lowest free one, so it is given out again, and
  the object still holds it.
\<close>

lemma allocate_lowest:
  assumes "allocate d t = (n, t')" "lookup_fd t (int m) = None"
  shows "n \<le> m"
  using assms
proof (induction d t arbitrary: n t' m rule: allocate.induct)
  case (3 d e t)
  obtain k u where u: "allocate d t = (k, u)" by (cases "allocate d t")
  have "m \<noteq> 0" using "3.prems"(2) by (cases m) (auto simp: lookup_fd_def)
  then obtain l where l: "m = Suc l" by (cases m) auto
  then have "lookup_fd t (int l) = None" using "3.prems"(2) by (simp add: lookup_fd_Cons)
  then show ?case using "3.IH" [OF u] "3.prems"(1) u l by auto
qed auto

theorem second_close_hits_other_owner:
  fixes c :: "'a client_scheme"
  assumes "lookup_fd t (m_fd c) \<noteq> None" "\<forall>fd. 0 \<le> fd \<and> fd < m_fd c \<longrightarrow> lookup_fd t fd \<noteq> None"
    and "close_connection (c, t) = (n, c1, t1)"
    and "openable dev path flags" "sys_open dev path flags t1 = (fd, t2)"
    and "close_connection (c1, t2) = (n', c2, t3)"
  shows "lookup_fd t2 fd = Some \<lparr>target = Device path, nonblocking = False\<rparr> \<and> n' = 0 \<and> lookup_fd t3 fd = None"
proof -
  obtain f where f: "m_fd c = int f" using assms(1) lookup_fd_SomeD [of t "m_fd c"] by (metis nonneg_eq_int option.exhaust)
  have t1: "t1 = update_fd t (m_fd c) None" "m_fd c1 = m_fd c"
    using assms(1,3) sys_close_open [OF assms(1)] by (auto simp: close_connection_def)
  let ?d = "\<lparr>target = Device path, nonblocking = False\<rparr>"
  obtain k where k: "allocate ?d t1 = (k, t2)" "fd = int k"
    using assms(4,5) by (auto simp: sys_open_def split: prod.splits)
  have free: "lookup_fd t1 (m_fd c) = None" "\<forall>i < f. lookup_fd t1 (int i) \<noteq> None"
    using assms(1,2) t1 f by (auto simp: lookup_update_fd)
  have "k = f"
    using allocate_lowest [OF k(1), of f] allocate_props(1) [OF k(1)] free f by (metis le_neq_implies_less)
  then have new: "lookup_fd t2 fd = Some ?d" "fd = m_fd c"
    using allocate_props(2) [OF k(1)] k(2) f by simp_all
  then have "lookup_fd t2 fd \<noteq> None" by simp
  from sys_close_open(1) [OF this] lookup_update_fd [OF this, of None fd] show ?thesis
    using assms(6) t1(2) new by (auto simp: close_connection_def)
qed

theorem second_close_hits_other_owner_witness:
  "fst (close_connection (\<lparr>m_fd = 0, m_is_connected = False\<rparr>, [Some \<lparr>target = Device [], nonblocking = False\<rparr>])) = 0"
proof -
  let ?c = "\<lparr>m_fd = 0, m_is_connected = True\<rparr>" and ?t = "[Some \<lparr>target = Socket, nonblocking = False\<rparr>]"
  let ?dev = "\<lparr>openable = (\<lambda>_ _. True), event_name = (\<lambda>_. []), tcgetattr_ok = (\<lambda>_. True), tcsetattr_ok = (\<lambda>_. True)\<rparr>"
  have open0: "lookup_fd ?t (m_fd ?c) \<noteq> None" by (simp add: lookup_fd_def)
  have below: "\<forall>fd. 0 \<le> fd \<and> fd < m_fd ?c \<longrightarrow> lookup_fd ?t fd \<noteq> None" by auto
  have close: "close_connection (?c, ?t) = (0, \<lparr>m_fd = 0, m_is_connected = False\<rparr>, [None])"
    by (simp add: close_connection_def sys_close_def lookup_fd_def update_fd_def)
  have opened: "sys_open ?dev [] 0 [None] = (0, [Some \<lparr>target = Device [], nonblocking = False\<rparr>])"
    by (simp add: sys_open_def)
  obtain n' c2 t3 where second: "close_connection (\<lparr>m_fd = 0, m_is_connected = False\<rparr>,
      [Some \<lparr>target = Device [], nonblocking = False\<rparr>]) = (n', c2, t3)"
    by (metis prod_cases3)
  show ?thesis
    using second_close_hits_other_owner [OF open0 below close _ opened second] second by simp
qed

text \<open>
  An object that takes over an accepted socket reads and writes nothing: the flag that
  the calls ask for is only set by \<open>open_connection\<close>.
\<close>

theorem adopted_socket_is_dead:
  "TCP_readS en (from_socket s \<lparr>m_fd = fd, m_is_connected = False\<rparr>) buf sz has_crc read_until t = Some (Inr (-1, buf), t) \<and>
   TCP_writeS en send (from_socket s \<lparr>m_fd = fd, m_is_connected = False\<rparr>) buf sz add_crc = Inr (-1, buf, [])"
  by (simp add: from_socket_def TCP_readS_def TCP_writeS_def stream_writeS_def)

section \<open>Properties of serial lines\<close>

lemma serial_mode_eq: "serial_mode flags = (if flags AND 2 = 2 then RW else RO)"
  by (simp add: serial_mode_def)

lemma raw_settings_eq:
  "raw_settings tty = tty\<lparr>c_iflag := c_iflag tty AND NOT 0x1DEB, c_oflag := c_oflag tty AND NOT 5,
     c_cflag := (c_cflag tty AND NOT 0x80000170) OR 0x8B0, c_lflag := c_lflag tty AND NOT 0x5B,
     c_vtime := 40, c_vmin := 0\<rparr>"
proof -
  have "(((((a AND NOT 0x100) AND NOT 0x40) AND NOT 0x30) OR 0x30) AND NOT 0x80000000) OR (0x80 OR 0x800)
      = (a AND NOT 0x80000170) OR 0x8B0" for a :: u32
    by (simp add: and.assoc or.assoc bit.conj_disj_distrib2)
  moreover have "((((a AND NOT 2) AND NOT 8) AND NOT 0x10) AND NOT 0x40) AND NOT 1 = a AND NOT 0x5B" for a :: u32
    by (simp add: and.assoc)
  moreover have "(a AND NOT (0x400 OR 0x1000 OR 0x800)) AND NOT (1 OR 2 OR 8 OR 0x20 OR 0x40 OR 0x80 OR 0x100)
      = a AND NOT 0x1DEB" for a :: u32
    by (simp add: and.assoc)
  moreover have "(a AND NOT 1) AND NOT 4 = a AND NOT 5" for a :: u32
    by (simp add: and.assoc)
  ultimately show ?thesis by (simp add: raw_settings_def Let_def)
qed

text \<open>
  A serial line that opens and takes its settings becomes connected, with the descriptor
  as the result, exactly for the ten speeds of the table, in both directions; its settings
  are eight data bits, no parity, one stop bit, no flow control, no translation and a read
  that waits for at most four seconds, and every other flag is as it was. For any other
  speed the call throws and leaves the descriptor open.
\<close>

theorem serial_line_is_raw_8N1:
  assumes "openable dev path flags" "tcgetattr_ok dev path" "tcsetattr_ok dev path"
    and "Serial_open_connection dev path baud flags (c, sys) = (r, c', sys')"
  shows "(if baud \<in> {9600, 19200, 38400, 57600, 115200, 230400, 460800, 500000, 921600, 1000000}
     then r = Inr (m_fd c') \<and> m_is_connected c' \<and>
       ttys sys' = (ttys sys)(path := (ttys sys path)
         \<lparr>c_iflag := c_iflag (ttys sys path) AND NOT 0x1DEB, c_oflag := c_oflag (ttys sys path) AND NOT 5,
          c_cflag := (c_cflag (ttys sys path) AND NOT 0x80000170) OR 0x8B0,
          c_lflag := c_lflag (ttys sys path) AND NOT 0x5B,
          c_vtime := 40, c_vmin := 0, c_ispeed := nat baud, c_ospeed := nat baud\<rparr>)
     else r = Inl UnsupportedBaud \<and> m_is_connected c' = m_is_connected c \<and> ttys sys' = ttys sys) \<and>
    lookup_fd (table sys) (m_fd c') = None \<and>
    lookup_fd (table sys') (m_fd c') = Some \<lparr>target = Device path, nonblocking = False\<rparr>"
proof -
  obtain n u where a: "allocate \<lparr>target = Device path, nonblocking = False\<rparr> (table sys) = (n, u)"
    by (cases "allocate \<lparr>target = Device path, nonblocking = False\<rparr> (table sys)")
  then have o: "sys_open dev path flags (table sys) = (int n, u)" using assms(1) by (simp add: sys_open_def)
  have fd: "m_fd c' = int n" "table sys' = u"
    using assms o by (auto simp: Serial_open_connection_def Let_def split: option.splits)
  have main: "case baud_speed baud of
      None \<Rightarrow> r = Inl UnsupportedBaud \<and> m_is_connected c' = m_is_connected c \<and> ttys sys' = ttys sys
    | Some speed \<Rightarrow> r = Inr (m_fd c') \<and> m_is_connected c' \<and>
        ttys sys' = (ttys sys)(path := (raw_settings (ttys sys path))\<lparr>c_ispeed := speed, c_ospeed := speed\<rparr>)"
    using assms o fd(1) by (auto simp: Serial_open_connection_def Let_def split: option.splits)
  show ?thesis
  proof (cases "baud \<in> {9600, 19200, 38400, 57600, 115200, 230400, 460800, 500000, 921600, 1000000}")
    case True
    then have "baud_speed baud = Some (nat baud)" by (auto simp: baud_speed_def)
    then show ?thesis using True main fd allocate_props(1,2) [OF a] by (simp add: raw_settings_eq)
  next
    case False
    then have "baud_speed baud = None" by (simp add: baud_speed_def)
    then show ?thesis using False main fd allocate_props(1,2) [OF a] by simp
  qed
qed

definition plain_tty :: termios where
  "plain_tty = \<lparr>c_iflag = 0x500, c_oflag = 5, c_cflag = 0xBF, c_lflag = 0x8A3B, c_vtime = 0, c_vmin = 1,
     c_ispeed = 38400, c_ospeed = 38400\<rparr>"

definition one_line :: devices where
  "one_line = \<lparr>openable = (\<lambda>_ _. True), event_name = (\<lambda>_. []), tcgetattr_ok = (\<lambda>_. True), tcsetattr_ok = (\<lambda>_. True)\<rparr>"

theorem serial_line_is_raw_8N1_witness:
  "c_ospeed (ttys (snd (snd (Serial_open_connection one_line [1] 500000 0x102
      (\<lparr>m_fd = 0, m_is_connected = False\<rparr>, \<lparr>table = [], ttys = (\<lambda>_. plain_tty)\<rparr>)))) [1]) = 500000"
proof -
  let ?c = "\<lparr>m_fd = 0, m_is_connected = False\<rparr>" and ?sys = "\<lparr>table = [], ttys = (\<lambda>_. plain_tty)\<rparr>"
  obtain r c' sys' where run: "Serial_open_connection one_line [1] 500000 0x102 (?c, ?sys) = (r, c', sys')"
    by (cases "Serial_open_connection one_line [1] 500000 0x102 (?c, ?sys)")
  have "openable one_line [1] 0x102" "tcgetattr_ok one_line [1]" "tcsetattr_ok one_line [1]"
    by (simp_all add: one_line_def)
  from serial_line_is_raw_8N1 [OF this run] run show ?thesis by simp
qed

text \<open>
  The search through the input devices: the first device that can be opened and bears the
  name stays open; the others are closed again.
\<close>

definition matches :: "devices \<Rightarrow> u8 list \<Rightarrow> nat \<Rightarrow> bool" where
  "matches dev name i \<longleftrightarrow> openable dev (event_path i) 2 \<and> event_name dev (event_path i) = name"

lemma scan_inputs_result:
  assumes "lookup_fd t 0 \<noteq> None" "scan_inputs dev name is p t = (q, t')"
  shows "lookup_fd t' 0 \<noteq> None \<and>
    (case find (matches dev name) is of
       Some i \<Rightarrow> q = event_path i \<and> open_count t' = Suc (open_count t)
     | None \<Rightarrow> q = last (p # map event_path is) \<and> open_count t' = open_count t)"
  using assms
proof (induction "is" arbitrary: p t)
  case (Cons i "is")
  show ?case
  proof (cases "openable dev (event_path i) 2")
    case False
    then have "scan_inputs dev name is (event_path i) t = (q, t')"
      using Cons.prems(2) by (simp add: sys_open_def)
    from Cons.IH [OF Cons.prems(1) this] False show ?thesis by (auto simp: matches_def split: option.splits)
  next
    case True
    obtain n u where a: "allocate \<lparr>target = Device (event_path i), nonblocking = False\<rparr> t = (n, u)"
      by (cases "allocate \<lparr>target = Device (event_path i), nonblocking = False\<rparr> t")
    have n: "0 < int n" using allocate_props(1) [OF a] Cons.prems(1) by (cases n) auto
    have u: "lookup_fd u 0 \<noteq> None" "lookup_fd u (int n) \<noteq> None" "open_count u = Suc (open_count t)"
      using allocate_props(1-3) [OF a] allocate_props(4) [OF a, of 0] n Cons.prems(1) by simp_all
    have o: "sys_open dev (event_path i) 2 t = (int n, u)" using True a by (simp add: sys_open_def)
    show ?thesis
    proof (cases "event_name dev (event_path i) = name")
      case match: True
      then show ?thesis using Cons.prems(2) o n u True by (simp add: matches_def)
    next
      case no: False
      let ?v = "snd (sys_close (int n) u)"
      have v: "lookup_fd ?v 0 \<noteq> None" "open_count ?v = open_count t"
        using sys_close_open [OF u(2)] u n by (simp_all add: lookup_update_fd del: not_None_eq)
      have "scan_inputs dev name is (event_path i) ?v = (q, t')" using Cons.prems(2) o n no by simp
      from Cons.IH [OF v(1) this] v(2) no show ?thesis by (auto simp: matches_def split: option.splits)
    qed
  qed
qed simp

text \<open>
  C22: When the path of a serial line cannot be opened, no input device has terminal settings and
  descriptor 0 is in use, the search through the input devices never gives a connection. When a
  device bears the name, it is opened twice, the call ends because it has no settings, and both
  descriptors stay open. When none does, device 39 is opened whatever its name, with the same
  end and one descriptor left open; when device 39 cannot be opened either, the call ends because
  nothing could be opened, and no descriptor is left.
\<close>

theorem serial_scan_ends_in_error:
  assumes "\<not> openable dev path flags" "\<forall>i < 40. \<not> tcgetattr_ok dev (event_path i)"
    and "lookup_fd (table sys) 0 \<noteq> None"
    and "Serial_open_connection dev path baud flags (c, sys) = (r, c', sys')"
  shows "m_is_connected c' = m_is_connected c \<and>
    (case find (matches dev path) [0..<40] of
       Some i \<Rightarrow> r = Inl NoSettings \<and> open_count (table sys') = open_count (table sys) + 2
     | None \<Rightarrow>
         if openable dev (event_path 39) 2
         then r = Inl NoSettings \<and> open_count (table sys') = open_count (table sys) + 1
         else r = Inl CannotOpen \<and> open_count (table sys') = open_count (table sys))"
proof -
  obtain q t where scan: "scan_inputs dev path [0..<40] [] (table sys) = (q, t)"
    by (cases "scan_inputs dev path [0..<40] [] (table sys)")
  obtain n u where a: "allocate \<lparr>target = Device q, nonblocking = False\<rparr> t = (n, u)"
    by (cases "allocate \<lparr>target = Device q, nonblocking = False\<rparr> t")
  have first: "sys_open dev path flags (table sys) = (-1, table sys)" using assms(1) by (simp add: sys_open_def)
  have last: "last ([] # map event_path [0..<40]) = event_path 39" by (simp add: last_map)
  have result: "case find (matches dev path) [0..<40] of
      Some i \<Rightarrow> q = event_path i \<and> open_count t = Suc (open_count (table sys))
    | None \<Rightarrow> q = event_path 39 \<and> open_count t = open_count (table sys)"
    using scan_inputs_result [OF assms(3) scan] unfolding last by blast
  have closed: "r = Inl CannotOpen \<and> m_is_connected c' = m_is_connected c \<and> table sys' = t"
    if "\<not> openable dev q 2"
    using that assms(4) first scan by (auto simp: Serial_open_connection_def sys_open_def)
  have opened: "r = Inl NoSettings \<and> m_is_connected c' = m_is_connected c \<and> open_count (table sys') = Suc (open_count t)"
    if "openable dev q 2" "\<not> tcgetattr_ok dev q"
    using that assms(4) first scan a allocate_props(3) [OF a] by (auto simp: Serial_open_connection_def sys_open_def)
  show ?thesis
  proof (cases "find (matches dev path) [0..<40]")
    case None
    then have "q = event_path 39" "\<not> tcgetattr_ok dev q" "open_count t = open_count (table sys)"
      using result assms(2) by simp_all
    then show ?thesis using None closed opened by auto
  next
    case (Some i)
    then have i: "i < 40" "matches dev path i" by (auto simp: find_Some_iff)
    then have "q = event_path i" "openable dev q 2" "\<not> tcgetattr_ok dev q" "open_count t = Suc (open_count (table sys))"
      using result Some assms(2) by (simp_all add: matches_def)
    then show ?thesis using Some opened by simp
  qed
qed

text \<open>An input device with the name that was asked for: two descriptors are lost.\<close>

definition a_pen :: devices where
  "a_pen = \<lparr>openable = (\<lambda>p f. p = event_path 2), event_name = (\<lambda>_. [112, 101, 110]), tcgetattr_ok = (\<lambda>_. False),
     tcsetattr_ok = (\<lambda>_. False)\<rparr>"

definition one_open :: system where
  "one_open = \<lparr>table = [Some \<lparr>target = Device [], nonblocking = False\<rparr>], ttys = (\<lambda>_. plain_tty)\<rparr>"

lemma pen_found: "find (matches a_pen [112, 101, 110]) [0..<40] = Some 2"
proof -
  have "matches a_pen [112, 101, 110] i \<longleftrightarrow> event_path i = event_path 2" for i
    by (simp add: matches_def a_pen_def)
  moreover have "event_path 0 \<noteq> event_path 2" "event_path 1 \<noteq> event_path 2"
    by (simp_all add: event_path_def decimal.simps)
  moreover have "[0..<40] = 0 # 1 # 2 # [3..<40]" by (simp add: upt_rec)
  ultimately show ?thesis by (simp del: upt_Suc)
qed

theorem serial_scan_ends_in_error_witness:
  "fst (Serial_open_connection a_pen [112, 101, 110] 9600 2 (\<lparr>m_fd = 0, m_is_connected = False\<rparr>, one_open)) = Inl NoSettings \<and>
   open_count (table (snd (snd (Serial_open_connection a_pen [112, 101, 110] 9600 2
     (\<lparr>m_fd = 0, m_is_connected = False\<rparr>, one_open))))) = open_count (table one_open) + 2"
proof -
  let ?c = "\<lparr>m_fd = 0, m_is_connected = False\<rparr>"
  obtain r c' sys' where run: "Serial_open_connection a_pen [112, 101, 110] 9600 2 (?c, one_open) = (r, c', sys')"
    by (cases "Serial_open_connection a_pen [112, 101, 110] 9600 2 (?c, one_open)")
  have "[112, 101, 110] \<noteq> event_path 2" by (simp add: event_path_def cstr_def)
  then have "\<not> openable a_pen [112, 101, 110] 2" "\<forall>i < 40. \<not> tcgetattr_ok a_pen (event_path i)"
    "lookup_fd (table one_open) 0 \<noteq> None"
    by (simp_all add: a_pen_def one_open_def lookup_fd_def)
  from serial_scan_ends_in_error [OF this run] show ?thesis by (simp add: run pen_found)
qed

section \<open>The peer of a datagram socket\<close>

text \<open>
  \<open>recvfrom\<close> stores the sender of each datagram in \<open>m_addr_to\<close>, which is where \<open>writeS\<close> sends:
  the tape of \<open>UDP_readS\<close> with the senders.
\<close>

type_synonym sender = "32 word \<times> u16"

definition peer_after :: "sender \<Rightarrow> (sender \<times> rx_event) list \<Rightarrow> sender" where
  "peer_after a t = fold (\<lambda>(src, e) a. case e of Chunk _ \<Rightarrow> src | Fail \<Rightarrow> a) t a"

definition UDP_read_from ::
  "endian \<Rightarrow> udp \<Rightarrow> u8 list \<Rightarrow> nat \<Rightarrow> bool \<Rightarrow> bool \<Rightarrow> (sender \<times> rx_event) list \<Rightarrow>
   ((fault + int \<times> u8 list) \<times> udp \<times> (sender \<times> rx_event) list) option" where
  "UDP_read_from en u buf sz has_crc read_until t =
     (case UDP_readS en (client.truncate u) buf sz has_crc read_until (map snd t) of
        None \<Rightarrow> None
      | Some (r, t') \<Rightarrow>
          let n = length t - length t'
          in Some (r, u\<lparr>m_addr_to := peer_after (m_addr_to u) (take n t)\<rparr>, drop n t))"

text \<open>
  After a read of one datagram the client writes to whoever sent it, even when the
  CRC of the datagram was rejected: any host that sends to the port takes the place of
  the host that was given to \<open>open_connection\<close>. Opening never sets the connected flag, so
  \<open>is_connected\<close> stays false.
\<close>

theorem any_datagram_redirects_replies:
  assumes "UDP_open_connection net address port timeout (u0, t0) = (Inr 1, u, t1)" "length bs \<le> length buf" "sz = length buf"
    and "UDP_read_from en u buf sz has_crc False ((src, Chunk bs) # t) = Some (r, u', t')"
  shows "m_addr_to u' = src \<and> t' = t \<and> m_is_connected u = m_is_connected u0 \<and> m_is_connected u' = m_is_connected u0"
proof -
  have flag: "m_is_connected u = m_is_connected u0"
    using assms(1) by (auto simp: UDP_open_connection_def Let_def split: prod.splits if_splits option.splits)
  have "write_at buf 0 bs = Inr (take 0 buf @ bs @ drop (0 + length bs) buf)"
    using write_at_fits [of 0 bs buf] assms(2) by simp
  then have "read_bytes dgram_recv sz False buf (map snd ((src, Chunk bs) # t))
      = Some (Inr (int (length bs), bs @ drop (length bs) buf), map snd t)"
    using assms(2,3) by (simp add: read_bytes_def)
  then have "\<exists>r. UDP_readS en (client.truncate u) buf sz has_crc False (map snd ((src, Chunk bs) # t)) = Some (r, map snd t)"
    by (simp add: UDP_readS_def finish_read_def split: option.splits)
  then show ?thesis using assms(4) flag by (auto simp: UDP_read_from_def peer_after_def Let_def)
qed

theorem any_datagram_redirects_replies_witness:
  "\<exists>u r u'. UDP_open_connection refusing [] 80 0 (\<lparr>m_fd = 0, m_is_connected = False, m_addr_to = (0, 0)\<rparr>, [])
        = (Inr 1, u, [Some \<lparr>target = Socket, nonblocking = False\<rparr>]) \<and> m_addr_to u = (0x7F000001, 80) \<and>
     UDP_read_from Little u [0, 0] 2 True False [((5, 6), Chunk [1, 0])] = Some (r, u', []) \<and> m_addr_to u' = (5, 6)"
proof -
  let ?u = "\<lparr>m_fd = 0, m_is_connected = False, m_addr_to = (0x7F000001, 80)\<rparr>"
  have open1: "UDP_open_connection refusing [] 80 0 (\<lparr>m_fd = 0, m_is_connected = False, m_addr_to = (0, 0)\<rparr>, [])
      = (Inr 1, ?u, [Some \<lparr>target = Socket, nonblocking = False\<rparr>])"
    by (simp add: UDP_open_connection_def sys_socket_def refusing_def)
  have "UDP_readS Little (client.truncate ?u) [0, 0] 2 True False [Chunk [1, 0]] \<noteq> None"
    by (simp add: UDP_readS_def read_bytes_def write_at_def)
  then obtain r u' t' where run: "UDP_read_from Little ?u [0, 0] 2 True False ((((5, 6), Chunk [1, 0]) # [])) = Some (r, u', t')"
    by (auto simp: UDP_read_from_def Let_def)
  have "length [1, 0 :: u8] \<le> length [0, 0 :: u8]" "2 = length [0, 0 :: u8]" by simp_all
  from any_datagram_redirects_replies [OF open1 this run] run open1 show ?thesis by auto
qed

end
