(* ===== verification/UdpServer.thy ===== *)
theory UdpServer
  imports Connection ServerLifecycle
begin

text \<open>
  The UDP server (\<open>UDPServer\<close> of \<open>include/udp_client.hpp\<close> with \<open>Server\<close> of
  \<open>include/com_client.hpp\<close>): starting and stopping, the receive thread with its FIFOs and its
  echo, \<open>send_data\<close> and \<open>broadcast\<close>, over the descriptor table of the process.
\<close>

section \<open>State\<close>

text \<open>
  The FIFOs are keyed by the address of the sender, without its port. \<open>datagrams\<close> records the
  datagrams that the receive thread has taken from the socket, whole as they were sent; \<open>echoes\<close>
  and \<open>callbacks\<close> what it sent back and what it handed to the callback.
\<close>

record udp_server =
  u_fd :: int
  u_is_running :: bool
  receiving :: bool
  u_fifos :: "32 word \<Rightarrow> u8 list option"
  u_callback :: bool
  u_table :: fd_table
  datagrams :: "(sender \<times> u8 list) list"
  echoes :: "(sender \<times> u8 list) list"
  callbacks :: "(sender \<times> u8 list) list"
  u_stopping :: bool

definition new_udp_server :: "fd_table \<Rightarrow> udp_server" where
  "new_udp_server t = \<lparr>u_fd = -1, u_is_running = False, receiving = False, u_fifos = (\<lambda>_. None),
     u_callback = False, u_table = t, datagrams = [], echoes = [], callbacks = [], u_stopping = False\<rparr>"

section \<open>Starting and stopping\<close>

record udp_env =
  u_socket_ok :: bool
  u_bind_ok :: bool

datatype udp_error = UdpAlreadyRunning | UdpSocketFailed | UdpBindFailed

definition close_fd :: "int \<Rightarrow> fd_table \<Rightarrow> fd_table" where
  "close_fd fd t = snd (sys_close fd t)"

definition udp_listen :: "udp_env \<Rightarrow> udp_server \<Rightarrow> udp_error option \<times> udp_server" where
  "udp_listen env st =
     (let (fd, t) = sys_socket (u_socket_ok env) (u_table st); st = st\<lparr>u_fd := fd, u_table := t\<rparr> in
      if fd = -1 then (Some UdpSocketFailed, st)
      else if \<not> u_bind_ok env then (Some UdpBindFailed, st\<lparr>u_table := close_fd fd t\<rparr>)
      else (None, st\<lparr>receiving := True\<rparr>))"

definition udp_start :: "udp_env \<Rightarrow> udp_server \<Rightarrow> udp_error option \<times> udp_server" where
  "udp_start env st =
     (if u_is_running st then (Some UdpAlreadyRunning, st)
      else udp_listen env (st\<lparr>u_is_running := True\<rparr>))"

definition udp_Server_stop :: "udp_server \<Rightarrow> udp_server" where
  "udp_Server_stop st =
     (if \<not> u_is_running st then st
      else st\<lparr>u_is_running := False, u_table := close_fd (u_fd st) (u_table st), u_fd := -1\<rparr>)"

text \<open>
  \<open>UDPServer::stop\<close>: the flag; then, when the receive thread has ended and is joined, the
  function of the base class.
\<close>

definition udp_stop_begin :: "udp_server \<Rightarrow> udp_server" where
  "udp_stop_begin st = (if \<not> u_is_running st then st else st\<lparr>u_is_running := False, u_stopping := True\<rparr>)"

definition udp_stop_end :: "udp_server \<Rightarrow> udp_server" where
  "udp_stop_end st =
     (if u_stopping st \<and> \<not> receiving st then udp_Server_stop (st\<lparr>u_stopping := False\<rparr>) else st)"

section \<open>The receive thread\<close>

text \<open>
  One turn of the loop, entered while the flag is set: a datagram (cut to the 1023 bytes
  that the call asks for), or nothing but an error. An empty datagram changes nothing.
\<close>

datatype datagram = Datagram sender "u8 list" | NoDatagram

definition receive_buffer :: nat where
  "receive_buffer = 1024"

definition u_fifo :: "udp_server \<Rightarrow> 32 word \<Rightarrow> u8 list" where
  "u_fifo st a = (case u_fifos st a of Some q \<Rightarrow> q | None \<Rightarrow> [])"

definition receive_turn :: "datagram \<Rightarrow> udp_server \<Rightarrow> udp_server" where
  "receive_turn d st =
     (case d of
        NoDatagram \<Rightarrow> st
      | Datagram src bs \<Rightarrow>
          let bytes = take (receive_buffer - 1) bs; st = st\<lparr>datagrams := datagrams st @ [(src, bs)]\<rparr> in
          if bytes = [] then st
          else let st = st\<lparr>u_fifos := (u_fifos st)(fst src \<mapsto> u_fifo st (fst src) @ bytes)\<rparr>
            in if u_callback st then st\<lparr>callbacks := callbacks st @ [(src, bytes)]\<rparr>
               else st\<lparr>echoes := echoes st @ [(src, bytes)]\<rparr>)"

text \<open>The thread leaves the loop when it finds the flag cleared.\<close>

definition receive_data :: "datagram \<Rightarrow> udp_server \<Rightarrow> udp_server" where
  "receive_data d st = (if u_is_running st then receive_turn d st else st\<lparr>receiving := False\<rparr>)"

definition set_callback :: "bool \<Rightarrow> udp_server \<Rightarrow> udp_server" where
  "set_callback b st = st\<lparr>u_callback := b\<rparr>"

section \<open>Broadcasting\<close>

datatype broadcast_error = NoBroadcastSocket | BroadcastRefused | BroadcastFailed

record broadcast_env =
  b_socket_ok :: bool
  b_option_ok :: bool
  b_send_ok :: bool

text \<open>What is sent to the broadcast address and the port of the server, and the table after it.\<close>

definition broadcast :: "broadcast_env \<Rightarrow> u8 list \<Rightarrow> fd_table \<Rightarrow> (broadcast_error + u8 list) \<times> fd_table" where
  "broadcast env buffer t =
     (let (fd, t) = sys_socket (b_socket_ok env) t in
      if fd = -1 then (Inl NoBroadcastSocket, t)
      else if \<not> b_option_ok env then (Inl BroadcastRefused, close_fd fd t)
      else if \<not> b_send_ok env then (Inl BroadcastFailed, close_fd fd t)
      else (Inr buffer, close_fd fd t))"

section \<open>The steps\<close>

text \<open>The program does not start the server while another of its threads is in \<open>stop\<close>.\<close>

inductive udp_step :: "udp_server \<Rightarrow> udp_server \<Rightarrow> bool" where
  start: "\<not> u_stopping st \<Longrightarrow> udp_step st (snd (udp_start env st))"
| stop_begin: "\<not> u_stopping st \<Longrightarrow> udp_step st (udp_stop_begin st)"
| stop_end: "u_stopping st \<Longrightarrow> \<not> receiving st \<Longrightarrow> udp_step st (udp_stop_end st)"
| receive: "receiving st \<Longrightarrow> udp_step st (receive_data d st)"
| callback: "udp_step st (set_callback b st)"

inductive udp_reachable :: "fd_table \<Rightarrow> udp_server \<Rightarrow> bool" for t where
  new: "udp_reachable t (new_udp_server t)"
| step: "udp_reachable t st \<Longrightarrow> udp_step st st' \<Longrightarrow> udp_reachable t st'"

inductive_cases udp_stepE: "udp_step st st'"

section \<open>The lifecycle\<close>

interpretation udp_life: server_lifecycle udp_start udp_stop_begin u_is_running UdpAlreadyRunning
  by unfold_locales (auto simp: udp_start_def udp_listen_def udp_stop_begin_def Let_def split: prod.splits)

section \<open>The invariant\<close>

text \<open>What the server keeps of datagrams: the first 1023 bytes of each; an empty one counts for nothing.\<close>

definition bytes_from :: "32 word \<Rightarrow> (sender \<times> u8 list) list \<Rightarrow> u8 list" where
  "bytes_from a ds = concat (map (\<lambda>d. take 1023 (snd d)) (filter (\<lambda>d. fst (fst d) = a) ds))"

definition cut_datagrams :: "(sender \<times> u8 list) list \<Rightarrow> (sender \<times> u8 list) list" where
  "cut_datagrams ds = map (\<lambda>d. (fst d, take 1023 (snd d))) (filter (\<lambda>d. snd d \<noteq> []) ds)"

text \<open>
  The log of datagrams is dealt out between echoes and callbacks; every FIFO holds what is kept of
  everything that came from its address.
\<close>

definition udp_inv :: "udp_server \<Rightarrow> bool" where
  "udp_inv st \<longleftrightarrow>
     (\<forall>a. u_fifo st a = bytes_from a (datagrams st)) \<and>
     cut_datagrams (datagrams st) \<in> shuffles (echoes st) (callbacks st) \<and>
     (u_stopping st \<longrightarrow> \<not> u_is_running st)"


lemma snoc_in_shuffles: "zs @ [z] \<in> shuffles zs [z]" "zs @ [z] \<in> shuffles [z] zs"
  by (induction zs) (simp_all add: Cons_in_shuffles_iff)

lemma shuffles_snoc:
  "zs \<in> shuffles xs ys \<Longrightarrow> zs @ [z] \<in> shuffles (xs @ [z]) ys \<and> zs @ [z] \<in> shuffles xs (ys @ [z])"
proof (induction xs ys arbitrary: zs rule: shuffles.induct)
  case (3 x xs y ys)
  then show ?case by (auto simp: Cons_in_shuffles_iff)
qed (auto simp: snoc_in_shuffles)

lemma bytes_from_snoc:
  "bytes_from a (ds @ [(src, bs)]) = bytes_from a ds @ (if fst src = a then take 1023 bs else [])"
  by (simp add: bytes_from_def)

lemma cut_datagrams_snoc:
  "cut_datagrams (ds @ [(src, bs)]) = cut_datagrams ds @ (if bs = [] then [] else [(src, take 1023 bs)])"
  by (simp add: cut_datagrams_def)

lemma udp_inv_cong:
  assumes "u_fifos st' = u_fifos st" "datagrams st' = datagrams st" "echoes st' = echoes st"
    "callbacks st' = callbacks st" "u_stopping st' \<longrightarrow> \<not> u_is_running st'" "udp_inv st"
  shows "udp_inv st'"
  using assms by (simp add: udp_inv_def u_fifo_def)

lemma udp_start_frame:
  "u_fifos (snd (udp_start env st)) = u_fifos st" "datagrams (snd (udp_start env st)) = datagrams st"
  "echoes (snd (udp_start env st)) = echoes st" "callbacks (snd (udp_start env st)) = callbacks st"
  "u_stopping (snd (udp_start env st)) = u_stopping st"
  by (auto simp: udp_start_def udp_listen_def Let_def split: prod.splits)

lemma receive_turn_inv:
  assumes "udp_inv st"
  shows "udp_inv (receive_turn d st)"
proof (cases d)
  case NoDatagram
  then show ?thesis using assms by (simp add: receive_turn_def)
next
  case (Datagram src bs)
  let ?b = "take 1023 bs"
  show ?thesis
  proof (cases "bs = []")
    case True
    then show ?thesis using assms Datagram
      by (simp add: receive_turn_def udp_inv_def u_fifo_def bytes_from_snoc cut_datagrams_snoc Let_def)
  next
    case False
    then show ?thesis
      using assms Datagram shuffles_snoc [of "cut_datagrams (datagrams st)" "echoes st" "callbacks st" "(src, ?b)"]
      by (auto simp: udp_inv_def receive_turn_def receive_buffer_def Let_def u_fifo_def bytes_from_snoc cut_datagrams_snoc)
  qed
qed

lemma udp_step_inv: "udp_step st st' \<Longrightarrow> udp_inv st \<Longrightarrow> udp_inv st'"
proof (induction rule: udp_step.induct)
  case (start st env)
  then show ?case by (intro udp_inv_cong [OF _ _ _ _ _ start(2)]) (simp_all add: udp_start_frame)
next
  case (stop_begin st)
  then show ?case by (intro udp_inv_cong [OF _ _ _ _ _ stop_begin(2)]) (simp_all add: udp_stop_begin_def)
next
  case (stop_end st)
  then show ?case
    by (intro udp_inv_cong [OF _ _ _ _ _ stop_end(3)]) (simp_all add: udp_stop_end_def udp_Server_stop_def)
next
  case (receive st d)
  then show ?case
    by (auto simp: receive_data_def receive_turn_inv intro: udp_inv_cong)
next
  case (callback st b)
  then show ?case
    by (intro udp_inv_cong [OF _ _ _ _ _ callback]) (simp_all add: set_callback_def udp_inv_def)
qed

lemma udp_reachable_inv: "udp_reachable t st \<Longrightarrow> udp_inv st"
proof (induction rule: udp_reachable.induct)
  case new
  then show ?case by (simp add: new_udp_server_def udp_inv_def u_fifo_def bytes_from_def cut_datagrams_def)
next
  case (step st st')
  then show ?case using udp_step_inv by blast
qed

section \<open>Properties\<close>

text \<open>
  C28: In every reachable state the FIFO of an address holds the first 1023 bytes of every
  datagram that was received from it, on whatever port, in the order of arrival: nothing takes
  bytes out, so no step makes a FIFO shorter. Every datagram that was not empty was, cut to these
  bytes, either sent back to its sender or handed to the callback, exactly once and in the order
  of arrival.
\<close>

theorem udp_fifos_only_grow:
  assumes "udp_reachable t st" "udp_step st st'"
  shows "u_fifo st a = concat [take 1023 bs. (src, bs) \<leftarrow> datagrams st, fst src = a] \<and>
    length (u_fifo st a) \<le> length (u_fifo st' a) \<and>
    [(src, take 1023 bs). (src, bs) \<leftarrow> datagrams st, bs \<noteq> []] \<in> shuffles (echoes st) (callbacks st)"
proof -
  have inv: "udp_inv st" using udp_reachable_inv [OF assms(1)] .
  have "length (u_fifo st a) \<le> length (u_fifo st' a)"
    using assms(2)
  proof cases
    case (start env)
    then show ?thesis by (simp add: u_fifo_def udp_start_frame)
  next
    case (receive d)
    then show ?thesis
      by (auto simp: receive_data_def receive_turn_def u_fifo_def Let_def split: datagram.splits)
  qed (simp_all add: u_fifo_def udp_stop_begin_def udp_stop_end_def udp_Server_stop_def set_callback_def)
  moreover have "bytes_from a ds = concat [take 1023 bs. (src, bs) \<leftarrow> ds, fst src = a]"
    "cut_datagrams ds = [(src, take 1023 bs). (src, bs) \<leftarrow> ds, bs \<noteq> []]" for ds
    by (induction ds) (auto simp: bytes_from_def cut_datagrams_def)
  ultimately show ?thesis using inv by (simp add: udp_inv_def)
qed

text \<open>A datagram of 2000 bytes: the FIFO and the echo hold the first 1023.\<close>

theorem udp_fifos_only_grow_witness:
  "\<exists>st. udp_reachable [] st \<and> u_fifo st 5 = replicate 1023 7 \<and> echoes st = [((5, 80), replicate 1023 7)]"
proof -
  let ?new = "new_udp_server []" and ?env = "\<lparr>u_socket_ok = True, u_bind_ok = True\<rparr>"
  let ?run = "snd (udp_start ?env ?new)"
  let ?st = "receive_data (Datagram (5, 80) (replicate 2000 7)) ?run"
  have run: "receiving ?run" "u_is_running ?run" "u_stopping ?run = False" "datagrams ?run = []" "\<not> u_callback ?run"
    "callbacks ?run = []"
    by (simp_all add: udp_start_def udp_listen_def new_udp_server_def sys_socket_def)
  have "udp_reachable [] ?run"
    using udp_reachable.step [OF udp_reachable.new udp_step.start] by (simp add: new_udp_server_def)
  then have reach: "udp_reachable [] ?st"
    using udp_step.receive [OF run(1)] by (rule udp_reachable.step)
  have step: "udp_step ?st (set_callback True ?st)" by (rule udp_step.callback)
  have log: "datagrams ?st = [((5, 80), replicate 2000 7)]" "callbacks ?st = []"
    using run by (simp_all add: receive_data_def receive_turn_def receive_buffer_def Let_def)
  have "u_fifo ?st 5 = replicate 1023 7 \<and> echoes ?st = [((5, 80), replicate 1023 7)]"
    using udp_fifos_only_grow [OF reach step, of 5] unfolding log by (simp add: take_replicate)
  with reach show ?thesis by blast
qed

text \<open>One start with its stop: the program stops, the receive thread ends and is joined.\<close>

definition start_stop :: "udp_env \<Rightarrow> udp_server \<Rightarrow> udp_server" where
  "start_stop env st = udp_stop_end (receive_data NoDatagram (udp_stop_begin (snd (udp_start env st))))"

lemma start_stop_leaks:
  assumes "u_socket_ok env" "u_bind_ok env" "\<not> u_is_running st"
  shows "\<not> u_is_running (start_stop env st)"
    "open_count (u_table (start_stop env st)) = Suc (open_count (u_table st))"
proof -
  obtain fd t where s: "sys_socket True (u_table st) = (fd, t)" by (cases "sys_socket True (u_table st)")
  have "0 \<le> fd" "open_count t = Suc (open_count (u_table st))" using sys_socket_props(2) [OF s] by simp_all
  moreover from this have "snd (udp_start env st) = st\<lparr>u_is_running := True, u_fd := fd, u_table := t, receiving := True\<rparr>"
    using assms s by (simp add: udp_start_def udp_listen_def)
  ultimately show "\<not> u_is_running (start_stop env st)" "open_count (u_table (start_stop env st)) = Suc (open_count (u_table st))"
    by (simp_all add: start_stop_def udp_stop_begin_def receive_data_def
      udp_stop_end_def udp_Server_stop_def)
qed

text \<open>
  Stopping the server never closes its socket, because the function of the base class
  finds the flag already cleared: after any number of starts and stops as many sockets are
  still open.
\<close>

theorem udp_stops_close_nothing:
  assumes "\<forall>env \<in> set envs. u_socket_ok env \<and> u_bind_ok env" "\<not> u_is_running st"
  shows "open_count (u_table (fold start_stop envs st)) = open_count (u_table st) + length envs \<and>
    \<not> u_is_running (fold start_stop envs st)"
  using assms
proof (induction envs arbitrary: st)
  case (Cons env envs)
  have env: "u_socket_ok env" "u_bind_ok env" using Cons.prems(1) by simp_all
  have "\<forall>env \<in> set envs. u_socket_ok env \<and> u_bind_ok env" using Cons.prems(1) by simp
  from Cons.IH [OF this start_stop_leaks(1) [OF env Cons.prems(2)]] start_stop_leaks(2) [OF env Cons.prems(2)]
  show ?case by (simp only: fold_Cons comp_apply length_Cons) simp
qed simp

theorem udp_stops_close_nothing_witness:
  "open_count (u_table (fold start_stop (replicate 3 \<lparr>u_socket_ok = True, u_bind_ok = True\<rparr>) (new_udp_server []))) = 3"
proof -
  have "\<forall>env \<in> set (replicate 3 \<lparr>u_socket_ok = True, u_bind_ok = True\<rparr>). u_socket_ok env \<and> u_bind_ok env"
    "\<not> u_is_running (new_udp_server [])"
    by (auto simp: new_udp_server_def)
  from udp_stops_close_nothing [OF this] show ?thesis by (simp add: new_udp_server_def open_count_def)
qed

text \<open>
  A broadcast gives back the socket that it takes, however it ends: the descriptors of
  the process are afterwards what they were.
\<close>

theorem broadcast_returns_its_socket:
  "lookup_fd (snd (broadcast env buffer t)) fd = lookup_fd t fd \<and>
   open_count (snd (broadcast env buffer t)) = open_count t"
proof -
  obtain s u where s: "sys_socket (b_socket_ok env) t = (s, u)" by (cases "sys_socket (b_socket_ok env) t")
  show ?thesis
  proof (cases "b_socket_ok env")
    case False
    then show ?thesis using s sys_socket_props(1) [OF s] by (simp add: broadcast_def)
  next
    case True
    note new = sys_socket_props(2) [OF s True]
    then have "lookup_fd u s \<noteq> None" by simp
    from sys_close_open [OF this] lookup_update_fd [OF this]
    have "lookup_fd (close_fd s u) fd = lookup_fd t fd" "open_count (close_fd s u) = open_count t"
      using new by (auto simp: close_fd_def)
    then show ?thesis using s new by (simp add: broadcast_def)
  qed
qed

end
