(* ===== verification/Markup.thy ===== *)
theory Markup
  imports JsString
begin

text \<open>
  Markup as the scripts write it and as the browser reads it: elements with quoted
  attributes, text, and the void elements \<open>img\<close> and \<open>input\<close>. The reader makes the tree that
  \<open>append\<close> of jQuery inserts for a string of markup; the lemmas show that it gives back every
  tree that is written out plainly.
\<close>

section \<open>Trees\<close>

type_synonym attributes = "(jstr \<times> jstr) list"

datatype html = Element jstr attributes "html list" | Text jstr

definition void :: "jstr \<Rightarrow> bool" where
  "void n \<longleftrightarrow> n = js ''img'' \<or> n = js ''input''"

definition write_attributes :: "attributes \<Rightarrow> jstr" where
  "write_attributes as = concat (map (\<lambda>(n, v). 32 # n @ [61, 34] @ v @ [34]) as)"

definition start_tag :: "jstr \<Rightarrow> attributes \<Rightarrow> bool \<Rightarrow> jstr" where
  "start_tag n as slash = 60 # n @ write_attributes as @ (if slash then [47] else []) @ [62]"

definition end_tag :: "jstr \<Rightarrow> jstr" where
  "end_tag n = [60, 47] @ n @ [62]"

fun write_html :: "html \<Rightarrow> jstr" where
  "write_html (Text t) = t"
| "write_html (Element n as ks) =
     start_tag n as False @ (if void n then [] else concat (map write_html ks) @ end_tag n)"

section \<open>Reading\<close>

text \<open>Attributes: a space, a name, an equals sign and a quoted value each.\<close>

function read_attributes :: "jstr \<Rightarrow> (attributes \<times> jstr) option" where
  "read_attributes s =
     (if s = [] \<or> hd s \<noteq> 32 then Some ([], s)
      else let n = takeWhile (\<lambda>c. c \<noteq> 61) (tl s); r = drop (length n) (tl s) in
        if take 2 r \<noteq> [61, 34] then None
        else let v = takeWhile (\<lambda>c. c \<noteq> 34) (drop 2 r); r = drop (length v) (drop 2 r) in
          if r = [] then None
          else map_option (\<lambda>(as, r). ((n, v) # as, r)) (read_attributes (tl r)))"
  by pat_completeness auto
termination by (relation "measure length") (auto simp: Let_def)

declare read_attributes.simps [simp del]

lemma read_attributes_length: "read_attributes s = Some (as, r) \<Longrightarrow> length r \<le> length s"
proof (induction s arbitrary: as r rule: read_attributes.induct)
  case (1 s)
  show ?case
  proof (cases "s = [] \<or> hd s \<noteq> 32")
    case True
    then show ?thesis using "1.prems" by (subst (asm) read_attributes.simps) auto
  next
    case False
    let ?n = "takeWhile (\<lambda>c. c \<noteq> 61) (tl s)"
    let ?r = "drop (length ?n) (tl s)"
    let ?v = "takeWhile (\<lambda>c. c \<noteq> 34) (drop 2 ?r)"
    let ?q = "drop (length ?v) (drop 2 ?r)"
    obtain bs where "take 2 ?r = [61, 34]" "?q \<noteq> []" "read_attributes (tl ?q) = Some (bs, r)"
      using "1.prems" False by (subst (asm) read_attributes.simps) (auto simp: Let_def split: if_splits)
    then have "length r \<le> length (tl ?q)" using "1.IH" [OF _ refl refl _ refl refl] False by blast
    also have "\<dots> \<le> length s" by simp
    finally show ?thesis .
  qed
qed

datatype token = Start jstr attributes | End jstr | Chars jstr

definition name_unit :: "u16 \<Rightarrow> bool" where
  "name_unit c \<longleftrightarrow> c \<noteq> 32 \<and> c \<noteq> 47 \<and> c \<noteq> 62"

text \<open>A slash before the closing bracket of a start tag has no effect.\<close>

definition skip_slash :: "jstr \<Rightarrow> jstr" where
  "skip_slash r = (if r \<noteq> [] \<and> hd r = 47 then tl r else r)"

function tokens :: "jstr \<Rightarrow> token list option" where
  "tokens s =
     (if s = [] then Some []
      else if hd s \<noteq> 60 then
        let t = takeWhile (\<lambda>c. c \<noteq> 60) s in map_option ((#) (Chars t)) (tokens (drop (length t) s))
      else if take 1 (tl s) = [47] then
        let n = takeWhile (\<lambda>c. c \<noteq> 62) (drop 2 s); r = drop (2 + length n) s in
          if r = [] then None else map_option ((#) (End n)) (tokens (tl r))
      else
        let n = takeWhile name_unit (tl s) in
          case read_attributes (drop (length n) (tl s)) of
            None \<Rightarrow> None
          | Some (as, r) \<Rightarrow>
              (if skip_slash r \<noteq> [] \<and> hd (skip_slash r) = 62
               then map_option ((#) (Start n as)) (tokens (tl (skip_slash r))) else None))"
  by pat_completeness auto
termination
proof (relation "measure length", goal_cases)
  case (2 s t)
  then show ?case by (cases s) auto
next
  case (4 s n as q r)
  have "length (tl (skip_slash r)) \<le> length r" by (auto simp: skip_slash_def)
  moreover have "length r \<le> length (drop (length n) (tl s))" using 4 read_attributes_length by blast
  ultimately show ?case using 4 by (cases s) auto
qed (auto simp: Let_def)

declare tokens.simps [simp del]

text \<open>The tree from the tokens: the nodes of the element being read, and the open elements.\<close>

fun build :: "token list \<Rightarrow> html list \<Rightarrow> (jstr \<times> attributes \<times> html list) list \<Rightarrow> html list option" where
  "build [] ks [] = Some ks"
| "build [] ks (e # st) = None"
| "build (Chars t # ts) ks st = build ts (ks @ [Text t]) st"
| "build (Start n as # ts) ks st =
     (if void n then build ts (ks @ [Element n as []]) st else build ts [] ((n, as, ks) # st))"
| "build (End n # ts) ks [] = None"
| "build (End n # ts) ks ((m, as, before) # st) =
     (if n = m then build ts (before @ [Element m as ks]) st else None)"

text \<open>Character references are not read: markup with an ampersand has no tree here.\<close>

definition parse_html :: "jstr \<Rightarrow> html list option" where
  "parse_html s =
     (if 38 \<in> set s then None else case tokens s of None \<Rightarrow> None | Some ts \<Rightarrow> build ts [] [])"

section \<open>Reading what was written\<close>

definition plain_attributes :: "attributes \<Rightarrow> bool" where
  "plain_attributes as \<longleftrightarrow> (\<forall>(n, v) \<in> set as. 61 \<notin> set n \<and> 34 \<notin> set v)"

definition plain_name :: "jstr \<Rightarrow> bool" where
  "plain_name n \<longleftrightarrow> n \<noteq> [] \<and> list_all name_unit n"

fun is_text :: "html \<Rightarrow> bool" where
  "is_text (Text t) = True"
| "is_text (Element n as ks) = False"

fun texts_apart :: "html list \<Rightarrow> bool" where
  "texts_apart (a # b # ks) = (\<not> (is_text a \<and> is_text b) \<and> texts_apart (b # ks))"
| "texts_apart ks = True"

fun plain_html :: "html \<Rightarrow> bool" where
  "plain_html (Text t) = (t \<noteq> [] \<and> 60 \<notin> set t)"
| "plain_html (Element n as ks) =
     (plain_name n \<and> plain_attributes as \<and> (void n \<longrightarrow> ks = []) \<and> list_all plain_html ks \<and> texts_apart ks)"

lemma takeWhile_stop: "\<forall>c \<in> set n. P c \<Longrightarrow> r = [] \<or> \<not> P (hd r) \<Longrightarrow> takeWhile P (n @ r) = n"
  by (induction n) (cases r; auto)+

lemma read_attributes_none: "s = [] \<or> hd s \<noteq> 32 \<Longrightarrow> read_attributes s = Some ([], s)"
  by (subst read_attributes.simps) simp

lemma read_write_attributes:
  assumes "plain_attributes as" "r = [] \<or> hd r \<noteq> 32"
  shows "read_attributes (write_attributes as @ r) = Some (as, r)"
  using assms(1)
proof (induction as)
  case Nil
  then show ?case using read_attributes_none [OF assms(2)] by (simp add: write_attributes_def)
next
  case (Cons a as)
  obtain n v where a: "a = (n, v)" by (cases a)
  let ?s = "write_attributes as @ r"
  have nv: "\<forall>c \<in> set n. c \<noteq> 61" "\<forall>c \<in> set v. c \<noteq> 34" using Cons.prems a by (auto simp: plain_attributes_def)
  have s: "write_attributes (a # as) @ r = 32 # n @ 61 # 34 # v @ 34 # ?s"
    by (simp add: write_attributes_def a)
  have n: "takeWhile (\<lambda>c. c \<noteq> 61) (n @ 61 # 34 # v @ 34 # ?s) = n" by (rule takeWhile_stop [OF nv(1)]) simp
  have v: "takeWhile (\<lambda>c. c \<noteq> 34) (v @ 34 # ?s) = v" by (rule takeWhile_stop [OF nv(2)]) simp
  have "read_attributes ?s = Some (as, r)" using Cons by (auto simp: plain_attributes_def)
  then show ?case
    unfolding s by (subst read_attributes.simps) (simp add: n v a)
qed

lemma tokens_start:
  assumes "plain_name n" "plain_attributes as"
  shows "tokens (start_tag n as slash @ s) = map_option ((#) (Start n as)) (tokens s)"
proof -
  let ?e = "(if slash then [47] else []) @ 62 # s"
  let ?r = "write_attributes as @ ?e"
  have s: "start_tag n as slash @ s = 60 # n @ ?r" by (simp add: start_tag_def)
  have name: "takeWhile name_unit (n @ ?r) = n"
    using assms(1) by (intro takeWhile_stop)
      (cases as; auto simp: plain_name_def list_all_iff write_attributes_def name_unit_def)+
  have "hd n \<noteq> 47" "n \<noteq> []" using assms(1) by (cases n; simp add: plain_name_def name_unit_def)+
  then have no_end: "take 1 (n @ ?r) \<noteq> [47]" by (cases n) simp_all
  have "?e = [] \<or> hd ?e \<noteq> 32" by simp
  from read_write_attributes [OF assms(2) this]
  have attrs: "read_attributes ?r = Some (as, ?e)" .
  have skip: "skip_slash ?e = 62 # s" by (simp add: skip_slash_def)
  show ?thesis
    unfolding s using no_end by (subst tokens.simps) (simp add: name attrs skip del: append_assoc)
qed

lemma tokens_end:
  assumes "62 \<notin> set n"
  shows "tokens (end_tag n @ s) = map_option ((#) (End n)) (tokens s)"
proof -
  have "takeWhile (\<lambda>c. c \<noteq> 62) (n @ 62 # s) = n"
    using assms by (intro takeWhile_stop) auto
  then show ?thesis by (subst tokens.simps) (simp add: end_tag_def)
qed

lemma tokens_text:
  assumes "t \<noteq> []" "60 \<notin> set t" "s = [] \<or> hd s = 60"
  shows "tokens (t @ s) = map_option ((#) (Chars t)) (tokens s)"
proof -
  have "takeWhile (\<lambda>c. c \<noteq> 60) (t @ s) = t" using assms by (intro takeWhile_stop) auto
  moreover have "hd t \<noteq> 60" using assms(1,2) hd_in_set by fastforce
  ultimately show ?thesis using assms(1) by (subst tokens.simps) simp
qed

fun html_tokens :: "html \<Rightarrow> token list" where
  "html_tokens (Text t) = [Chars t]"
| "html_tokens (Element n as ks) =
     Start n as # (if void n then [] else concat (map html_tokens ks) @ [End n])"

lemma write_html_starts: "\<not> is_text h \<Longrightarrow> hd (write_html h @ s) = 60 \<and> write_html h @ s \<noteq> []"
  by (cases h) (auto simp: start_tag_def)

lemma append_fun: "(@) [] = (\<lambda>x. x)" "(@) [a] = (#) a"
  by auto

lemma tokens_write_list:
  assumes "\<And>h s. h \<in> set ks \<Longrightarrow> (is_text h \<longrightarrow> s = [] \<or> hd s = 60) \<Longrightarrow>
      tokens (write_html h @ s) = map_option ((@) (html_tokens h)) (tokens s)"
    and "texts_apart ks" "ks \<noteq> [] \<and> is_text (last ks) \<longrightarrow> s = [] \<or> hd s = 60"
  shows "tokens (concat (map write_html ks) @ s) = map_option ((@) (concat (map html_tokens ks))) (tokens s)"
  using assms
proof (induction ks rule: texts_apart.induct)
  case (1 a b ks)
  let ?t = "concat (map write_html (b # ks)) @ s"
  have "is_text a \<longrightarrow> ?t = [] \<or> hd ?t = 60" using "1.prems"(2) write_html_starts [of b "concat (map write_html ks) @ s"] by auto
  then have "tokens (write_html a @ ?t) = map_option ((@) (html_tokens a)) (tokens ?t)"
    using "1.prems"(1) by simp
  moreover have "tokens ?t = map_option ((@) (concat (map html_tokens (b # ks)))) (tokens s)"
    using "1.prems" by (intro "1.IH") auto
  ultimately show ?case by (simp add: option.map_comp comp_def)
qed (auto simp: append_fun option.map_ident)

lemma tokens_write:
  "plain_html h \<Longrightarrow> is_text h \<longrightarrow> s = [] \<or> hd s = 60 \<Longrightarrow>
   tokens (write_html h @ s) = map_option ((@) (html_tokens h)) (tokens s)"
proof (induction h arbitrary: s)
  case (Element n as ks)
  have plain: "plain_name n" "plain_attributes as" "texts_apart ks" "62 \<notin> set n" "\<forall>k \<in> set ks. plain_html k"
    using Element.prems(1) by (auto simp: plain_name_def name_unit_def list_all_iff)
  show ?case
  proof (cases "void n")
    case True
    then show ?thesis using tokens_start [OF plain(1,2)] by simp
  next
    case False
    let ?e = "end_tag n @ s"
    have "tokens (concat (map write_html ks) @ ?e) = map_option ((@) (concat (map html_tokens ks))) (tokens ?e)"
      using Element.IH plain(3,5) by (intro tokens_write_list) (auto simp: end_tag_def)
    then show ?thesis
      using False tokens_start [OF plain(1,2)] tokens_end [OF plain(4)]
      by (simp add: option.map_comp comp_def)
  qed
qed (simp add: tokens_text append_fun)

lemma build_list:
  assumes "\<And>h ts ks st. h \<in> set hs \<Longrightarrow> build (html_tokens h @ ts) ks st = build ts (ks @ [h]) st"
  shows "build (concat (map html_tokens hs) @ ts) ks st = build ts (ks @ hs) st"
  using assms by (induction hs arbitrary: ks) simp_all

lemma build_tokens: "plain_html h \<Longrightarrow> build (html_tokens h @ ts) ks st = build ts (ks @ [h]) st"
proof (induction h arbitrary: ts ks st)
  case (Element n as hs)
  have "build (concat (map html_tokens hs) @ End n # ts) [] ((n, as, ks) # st) = build (End n # ts) ([] @ hs) ((n, as, ks) # st)"
    using Element by (intro build_list) (auto simp: list_all_iff)
  then show ?case using Element.prems by simp
qed simp

text \<open>A plain list of nodes is read back from its markup.\<close>

lemma parse_write:
  assumes "list_all plain_html hs" "texts_apart hs" "38 \<notin> set (concat (map write_html hs))"
  shows "parse_html (concat (map write_html hs)) = Some hs"
proof -
  have "tokens (concat (map write_html hs) @ []) = map_option ((@) (concat (map html_tokens hs))) (tokens [])"
    using assms(1,2) by (intro tokens_write_list) (auto simp: list_all_iff tokens_write)
  moreover have "tokens [] = Some []" by (subst tokens.simps) simp
  moreover have "build (concat (map html_tokens hs) @ []) [] [] = build [] ([] @ hs) []"
    using assms(1) by (intro build_list) (auto simp: list_all_iff build_tokens)
  ultimately show ?thesis using assms(3) by (simp add: parse_html_def)
qed

end
