(* ===== verification/Menu.thy ===== *)
theory Menu
  imports Markup
begin

text \<open>
  The menu of the site (\<open>menu.js\<close>, \<open>menudata.js\<close>): the markup that \<open>makeTree\<close> writes for the
  menu data, and what \<open>initMenu\<close> makes of the navigation element of a page. The plug-in that
  animates the menu (\<open>smartmenus\<close>) is left out.
\<close>

section \<open>The menu data\<close>

text \<open>The root of the data has children only, so it stands here for its list of children.\<close>

datatype item = Item jstr jstr "item list option"

definition menudata :: "item list" where
  "menudata = [
   Item (js ''Main Page'') (js ''index.html'') None,
   Item (js ''Related Pages'') (js ''pages.html'') None,
   Item (js ''Namespaces'') (js ''namespaces.html'') (Some [
    Item (js ''Namespace List'') (js ''namespaces.html'') None,
    Item (js ''Namespace Members'') (js ''namespacemembers.html'') (Some [
     Item (js ''All'') (js ''namespacemembers.html'') (Some [
      Item (js ''b'') (js ''namespacemembers.html#index_b'') None,
      Item (js ''c'') (js ''namespacemembers.html#index_c'') None,
      Item (js ''d'') (js ''namespacemembers.html#index_d'') None,
      Item (js ''f'') (js ''namespacemembers.html#index_f'') None,
      Item (js ''g'') (js ''namespacemembers.html#index_g'') None,
      Item (js ''h'') (js ''namespacemembers.html#index_h'') None,
      Item (js ''i'') (js ''namespacemembers.html#index_i'') None,
      Item (js ''l'') (js ''namespacemembers.html#index_l'') None,
      Item (js ''m'') (js ''namespacemembers.html#index_m'') None,
      Item (js ''p'') (js ''namespacemembers.html#index_p'') None,
      Item (js ''r'') (js ''namespacemembers.html#index_r'') None,
      Item (js ''s'') (js ''namespacemembers.html#index_s'') None,
      Item (js ''u'') (js ''namespacemembers.html#index_u'') None]),
     Item (js ''Functions'') (js ''namespacemembers_func.html'') None,
     Item (js ''Variables'') (js ''namespacemembers_vars.html'') None,
     Item (js ''Enumerations'') (js ''namespacemembers_enum.html'') None,
     Item (js ''Enumerator'') (js ''namespacemembers_eval.html'') (Some [
      Item (js ''b'') (js ''namespacemembers_eval.html#index_b'') None,
      Item (js ''c'') (js ''namespacemembers_eval.html#index_c'') None,
      Item (js ''d'') (js ''namespacemembers_eval.html#index_d'') None,
      Item (js ''f'') (js ''namespacemembers_eval.html#index_f'') None,
      Item (js ''h'') (js ''namespacemembers_eval.html#index_h'') None,
      Item (js ''i'') (js ''namespacemembers_eval.html#index_i'') None,
      Item (js ''p'') (js ''namespacemembers_eval.html#index_p'') None,
      Item (js ''r'') (js ''namespacemembers_eval.html#index_r'') None,
      Item (js ''s'') (js ''namespacemembers_eval.html#index_s'') None,
      Item (js ''u'') (js ''namespacemembers_eval.html#index_u'') None])])]),
   Item (js ''Classes'') (js ''annotated.html'') (Some [
    Item (js ''Class List'') (js ''annotated.html'') None,
    Item (js ''Class Index'') (js ''classes.html'') None,
    Item (js ''Class Hierarchy'') (js ''inherits.html'') None,
    Item (js ''Class Members'') (js ''functions.html'') (Some [
     Item (js ''All'') (js ''functions.html'') (Some [
      Item (js ''a'') (js ''functions.html#index_a'') None,
      Item (js ''c'') (js ''functions.html#index_c'') None,
      Item (js ''d'') (js ''functions.html#index_d'') None,
      Item (js ''e'') (js ''functions.html#index_e'') None,
      Item (js ''f'') (js ''functions.html#index_f'') None,
      Item (js ''g'') (js ''functions.html#index_g'') None,
      Item (js ''h'') (js ''functions.html#index_h'') None,
      Item (js ''i'') (js ''functions.html#index_i'') None,
      Item (js ''l'') (js ''functions.html#index_l'') None,
      Item (js ''m'') (js ''functions.html#index_m'') None,
      Item (js ''n'') (js ''functions.html#index_n'') None,
      Item (js ''o'') (js ''functions.html#index_o'') None,
      Item (js ''p'') (js ''functions.html#index_p'') None,
      Item (js ''r'') (js ''functions.html#index_r'') None,
      Item (js ''s'') (js ''functions.html#index_s'') None,
      Item (js ''t'') (js ''functions.html#index_t'') None,
      Item (js ''u'') (js ''functions.html#index_u'') None,
      Item (js ''v'') (js ''functions.html#index_v'') None,
      Item (js ''w'') (js ''functions.html#index_w'') None,
      Item (js ''x'') (js ''functions.html#index_x'') None,
      Item (js ''~'') (js ''functions.html#index__7E'') None]),
     Item (js ''Functions'') (js ''functions_func.html'') (Some [
      Item (js ''a'') (js ''functions_func.html#index_a'') None,
      Item (js ''c'') (js ''functions_func.html#index_c'') None,
      Item (js ''d'') (js ''functions_func.html#index_d'') None,
      Item (js ''e'') (js ''functions_func.html#index_e'') None,
      Item (js ''f'') (js ''functions_func.html#index_f'') None,
      Item (js ''g'') (js ''functions_func.html#index_g'') None,
      Item (js ''h'') (js ''functions_func.html#index_h'') None,
      Item (js ''i'') (js ''functions_func.html#index_i'') None,
      Item (js ''l'') (js ''functions_func.html#index_l'') None,
      Item (js ''m'') (js ''functions_func.html#index_m'') None,
      Item (js ''n'') (js ''functions_func.html#index_n'') None,
      Item (js ''o'') (js ''functions_func.html#index_o'') None,
      Item (js ''p'') (js ''functions_func.html#index_p'') None,
      Item (js ''r'') (js ''functions_func.html#index_r'') None,
      Item (js ''s'') (js ''functions_func.html#index_s'') None,
      Item (js ''t'') (js ''functions_func.html#index_t'') None,
      Item (js ''u'') (js ''functions_func.html#index_u'') None,
      Item (js ''v'') (js ''functions_func.html#index_v'') None,
      Item (js ''w'') (js ''functions_func.html#index_w'') None,
      Item (js ''x'') (js ''functions_func.html#index_x'') None,
      Item (js ''~'') (js ''functions_func.html#index__7E'') None]),
     Item (js ''Variables'') (js ''functions_vars.html'') None,
     Item (js ''Enumerations'') (js ''functions_enum.html'') None,
     Item (js ''Enumerator'') (js ''functions_eval.html'') None])]),
   Item (js ''Files'') (js ''files.html'') (Some [
    Item (js ''File List'') (js ''files.html'') None,
    Item (js ''File Members'') (js ''globals.html'') (Some [
     Item (js ''All'') (js ''globals.html'') (Some [
      Item (js ''_'') (js ''globals.html#index__5F'') None,
      Item (js ''a'') (js ''globals_a.html#index_a'') None,
      Item (js ''c'') (js ''globals_c.html#index_c'') None,
      Item (js ''d'') (js ''globals_d.html#index_d'') None,
      Item (js ''h'') (js ''globals_h.html#index_h'') None,
      Item (js ''i'') (js ''globals_i.html#index_i'') None,
      Item (js ''l'') (js ''globals_l.html#index_l'') None,
      Item (js ''m'') (js ''globals_m.html#index_m'') None,
      Item (js ''p'') (js ''globals_p.html#index_p'') None,
      Item (js ''s'') (js ''globals_s.html#index_s'') None]),
     Item (js ''Functions'') (js ''globals_func.html'') (Some [
      Item (js ''l'') (js ''globals_func.html#index_l'') None,
      Item (js ''m'') (js ''globals_func.html#index_m'') None]),
     Item (js ''Variables'') (js ''globals_vars.html'') None,
     Item (js ''Typedefs'') (js ''globals_type.html'') None,
     Item (js ''Enumerations'') (js ''globals_enum.html'') None,
     Item (js ''Enumerator'') (js ''globals_eval.html'') None,
     Item (js ''Macros'') (js ''globals_defs.html'') None])])]"

section \<open>The markup\<close>

fun makeTree :: "item list option \<Rightarrow> jstr \<Rightarrow> jstr" where
  "makeTree None relPath = []"
| "makeTree (Some items) relPath =
     js ''<ul>'' @
     concat (map (\<lambda>i. case i of Item label url children \<Rightarrow>
       js ''<li><a href=\"'' @ relPath @ url @ js ''\">'' @ label @ js ''</a>'' @
       makeTree children relPath @ js ''</li>'') items) @
     js ''</ul>''"

definition server_search_box :: "jstr \<Rightarrow> jstr \<Rightarrow> jstr \<Rightarrow> jstr" where
  "server_search_box relPath searchPage search =
     js ''<li style=\"float:right\"><div id=\"MSearchBox\" class=\"MSearchBoxInactive\"><div class=\"left\"><form id=\"FSearchBox\" action=\"'' @
     relPath @
     searchPage @
     js ''\" method=\"get\"><img id=\"MSearchSelect\" src=\"'' @
     relPath @
     js ''search/mag.svg\" alt=\"\"/><input type=\"text\" id=\"MSearchField\" name=\"query\" value=\"'' @
     search @
     js ''\" size=\"20\" accesskey=\"S\" onfocus=\"searchBox.OnSearchFieldFocus(true)\" onblur=\"searchBox.OnSearchFieldFocus(false)\"></form></div><div class=\"right\"></div></div></li>''"

definition client_search_box :: "jstr \<Rightarrow> jstr \<Rightarrow> jstr" where
  "client_search_box relPath search =
     js ''<li style=\"float:right\"><div id=\"MSearchBox\" class=\"MSearchBoxInactive\"><span class=\"left\"><img id=\"MSearchSelect\" src=\"'' @
     relPath @
     js ''search/mag_sel.svg\" onmouseover=\"return searchBox.OnSearchSelectShow()\" onmouseout=\"return searchBox.OnSearchSelectHide()\" alt=\"\"/><input type=\"text\" id=\"MSearchField\" value=\"'' @
     search @
     js ''\" accesskey=\"S\" onfocus=\"searchBox.OnSearchFieldFocus(true)\" onblur=\"searchBox.OnSearchFieldFocus(false)\" onkeyup=\"searchBox.OnSearchFieldChange(event)\"/></span><span class=\"right\"><a id=\"MSearchClose\" href=\"javascript:searchBox.CloseResultsWindow()\"><img id=\"MSearchCloseImg\" border=\"0\" src=\"'' @
     relPath @
     js ''search/close.svg\" alt=\"\"/></a></span></div></li>''"

section \<open>The navigation element\<close>

text \<open>Class lists: words between spaces.\<close>

definition split_on :: "u16 \<Rightarrow> jstr \<Rightarrow> jstr list" where
  "split_on c s = filter (\<lambda>w. w \<noteq> []) (foldr (\<lambda>x ws. if x = c then [] # ws else (x # hd ws) # tl ws) s [[]])"

fun join_with :: "u16 \<Rightarrow> jstr list \<Rightarrow> jstr" where
  "join_with c [] = []"
| "join_with c [w] = w"
| "join_with c (w # ws) = w @ c # join_with c ws"

text \<open>\<open>children(':first')\<close>: the first element among the nodes, if there is one.\<close>

fun first_element :: "(jstr \<Rightarrow> attributes \<Rightarrow> html list \<Rightarrow> html) \<Rightarrow> html list \<Rightarrow> html list" where
  "first_element f [] = []"
| "first_element f (Text t # ks) = Text t # first_element f ks"
| "first_element f (Element n as cs # ks) = f n as cs # ks"

definition set_attribute :: "jstr \<Rightarrow> jstr \<Rightarrow> attributes \<Rightarrow> attributes" where
  "set_attribute n v as = (if n \<in> fst ` set as then map (\<lambda>(m, w). (m, if m = n then v else w)) as else as @ [(n, v)])"

text \<open>\<open>addClass\<close> on the classes that the element does not have yet.\<close>

definition classes :: "attributes \<Rightarrow> jstr list" where
  "classes as = (case map_of as (js ''class'') of None \<Rightarrow> [] | Some v \<Rightarrow> split_on 32 v)"

definition addClass :: "jstr list \<Rightarrow> attributes \<Rightarrow> attributes" where
  "addClass new as = set_attribute (js ''class'') (join_with 32 (classes as @ filter (\<lambda>c. c \<notin> set (classes as)) new)) as"

text \<open>\<open>append\<close> to the first element of the page with an identifier, in document order.\<close>

fun append_by_id :: "jstr \<Rightarrow> html list \<Rightarrow> html \<Rightarrow> html \<times> bool" and
    append_by_id_list :: "jstr \<Rightarrow> html list \<Rightarrow> html list \<Rightarrow> html list \<times> bool" where
  "append_by_id i new (Text t) = (Text t, False)"
| "append_by_id i new (Element n as ks) =
     (if map_of as (js ''id'') = Some i then (Element n as (ks @ new), True)
      else let (ks, done) = append_by_id_list i new ks in (Element n as ks, done))"
| "append_by_id_list i new [] = ([], False)"
| "append_by_id_list i new (k # ks) =
     (let (k, done) = append_by_id i new k in
      if done then (k # ks, True) else let (ks, done) = append_by_id_list i new ks in (k # ks, done))"

text \<open>
  \<open>initMenu\<close> on the nodes of the navigation element, which is the part of the page that it
  changes.
\<close>

definition initMenu :: "item list \<Rightarrow> jstr \<Rightarrow> bool \<Rightarrow> bool \<Rightarrow> jstr \<Rightarrow> jstr \<Rightarrow> html list \<Rightarrow> html list option" where
  "initMenu data relPath searchEnabled serverSide searchPage search main_nav =
     (case parse_html (makeTree (Some data) relPath) of
        None \<Rightarrow> None
      | Some new \<Rightarrow>
          let nav = first_element (\<lambda>n as ks.
                Element n (set_attribute (js ''id'') (js ''main-menu'') (addClass [js ''sm'', js ''sm-dox''] as)) ks)
                (main_nav @ new) in
          if \<not> searchEnabled then Some nav
          else case parse_html (if serverSide then server_search_box relPath searchPage search
                                else client_search_box relPath search) of
                 None \<Rightarrow> None
               | Some box \<Rightarrow> Some (fst (append_by_id_list (js ''main-menu'') box nav)))"

section \<open>The trees\<close>

fun item_html :: "jstr \<Rightarrow> item \<Rightarrow> html" where
  "item_html relPath (Item label url children) =
     Element (js ''li'') []
       (Element (js ''a'') [(js ''href'', relPath @ url)] [Text label] #
        (case children of None \<Rightarrow> [] | Some items \<Rightarrow> [Element (js ''ul'') [] (map (item_html relPath) items)]))"

definition server_box_html :: "jstr \<Rightarrow> jstr \<Rightarrow> jstr \<Rightarrow> html" where
  "server_box_html relPath searchPage search =
     Element (js ''li'') [(js ''style'', js ''float:right'')] [
       Element (js ''div'') [(js ''id'', js ''MSearchBox''), (js ''class'', js ''MSearchBoxInactive'')] [
        Element (js ''div'') [(js ''class'', js ''left'')] [
         Element (js ''form'') [(js ''id'', js ''FSearchBox''), (js ''action'', relPath @ searchPage), (js ''method'', js ''get'')] [
          Element (js ''img'') [(js ''id'', js ''MSearchSelect''), (js ''src'', relPath @ js ''search/mag.svg''), (js ''alt'', [])] [],
          Element (js ''input'') [(js ''type'', js ''text''), (js ''id'', js ''MSearchField''), (js ''name'', js ''query''), (js ''value'', search), (js ''size'', js ''20''), (js ''accesskey'', js ''S''), (js ''onfocus'', js ''searchBox.OnSearchFieldFocus(true)''), (js ''onblur'', js ''searchBox.OnSearchFieldFocus(false)'')] []]],
        Element (js ''div'') [(js ''class'', js ''right'')] []]]"

definition client_box_html :: "jstr \<Rightarrow> jstr \<Rightarrow> html" where
  "client_box_html relPath search =
     Element (js ''li'') [(js ''style'', js ''float:right'')] [
       Element (js ''div'') [(js ''id'', js ''MSearchBox''), (js ''class'', js ''MSearchBoxInactive'')] [
        Element (js ''span'') [(js ''class'', js ''left'')] [
         Element (js ''img'') [(js ''id'', js ''MSearchSelect''), (js ''src'', relPath @ js ''search/mag_sel.svg''), (js ''onmouseover'', js ''return searchBox.OnSearchSelectShow()''), (js ''onmouseout'', js ''return searchBox.OnSearchSelectHide()''), (js ''alt'', [])] [],
         Element (js ''input'') [(js ''type'', js ''text''), (js ''id'', js ''MSearchField''), (js ''value'', search), (js ''accesskey'', js ''S''), (js ''onfocus'', js ''searchBox.OnSearchFieldFocus(true)''), (js ''onblur'', js ''searchBox.OnSearchFieldFocus(false)''), (js ''onkeyup'', js ''searchBox.OnSearchFieldChange(event)'')] []],
        Element (js ''span'') [(js ''class'', js ''right'')] [
         Element (js ''a'') [(js ''id'', js ''MSearchClose''), (js ''href'', js ''javascript:searchBox.CloseResultsWindow()'')] [
          Element (js ''img'') [(js ''id'', js ''MSearchCloseImg''), (js ''border'', js ''0''), (js ''src'', relPath @ js ''search/close.svg''), (js ''alt'', [])] []]]]]"

text \<open>Texts that the reader takes as they are: no brackets, no quotes, no ampersands.\<close>

definition plain_text :: "jstr \<Rightarrow> bool" where
  "plain_text s \<longleftrightarrow> 60 \<notin> set s \<and> 34 \<notin> set s \<and> 38 \<notin> set s"

fun plain_item :: "item \<Rightarrow> bool" where
  "plain_item (Item label url children) =
     (label \<noteq> [] \<and> plain_text label \<and> plain_text url \<and>
      (case children of None \<Rightarrow> True | Some items \<Rightarrow> list_all plain_item items))"

lemma server_box_tags:
  "server_search_box relPath searchPage search =
     start_tag (js ''li'') [(js ''style'', js ''float:right'')] False @
     start_tag (js ''div'') [(js ''id'', js ''MSearchBox''), (js ''class'', js ''MSearchBoxInactive'')] False @
     start_tag (js ''div'') [(js ''class'', js ''left'')] False @
     start_tag (js ''form'') [(js ''id'', js ''FSearchBox''), (js ''action'', relPath @ searchPage), (js ''method'', js ''get'')] False @
     start_tag (js ''img'') [(js ''id'', js ''MSearchSelect''), (js ''src'', relPath @ js ''search/mag.svg''), (js ''alt'', [])] True @
     start_tag (js ''input'') [(js ''type'', js ''text''), (js ''id'', js ''MSearchField''), (js ''name'', js ''query''), (js ''value'', search), (js ''size'', js ''20''), (js ''accesskey'', js ''S''), (js ''onfocus'', js ''searchBox.OnSearchFieldFocus(true)''), (js ''onblur'', js ''searchBox.OnSearchFieldFocus(false)'')] False @
     end_tag (js ''form'') @
     end_tag (js ''div'') @
     start_tag (js ''div'') [(js ''class'', js ''right'')] False @
     end_tag (js ''div'') @
     end_tag (js ''div'') @
     end_tag (js ''li'')"
  by (simp add: server_search_box_def start_tag_def end_tag_def write_attributes_def js_def)

lemma client_box_tags:
  "client_search_box relPath search =
     start_tag (js ''li'') [(js ''style'', js ''float:right'')] False @
     start_tag (js ''div'') [(js ''id'', js ''MSearchBox''), (js ''class'', js ''MSearchBoxInactive'')] False @
     start_tag (js ''span'') [(js ''class'', js ''left'')] False @
     start_tag (js ''img'') [(js ''id'', js ''MSearchSelect''), (js ''src'', relPath @ js ''search/mag_sel.svg''), (js ''onmouseover'', js ''return searchBox.OnSearchSelectShow()''), (js ''onmouseout'', js ''return searchBox.OnSearchSelectHide()''), (js ''alt'', [])] True @
     start_tag (js ''input'') [(js ''type'', js ''text''), (js ''id'', js ''MSearchField''), (js ''value'', search), (js ''accesskey'', js ''S''), (js ''onfocus'', js ''searchBox.OnSearchFieldFocus(true)''), (js ''onblur'', js ''searchBox.OnSearchFieldFocus(false)''), (js ''onkeyup'', js ''searchBox.OnSearchFieldChange(event)'')] True @
     end_tag (js ''span'') @
     start_tag (js ''span'') [(js ''class'', js ''right'')] False @
     start_tag (js ''a'') [(js ''id'', js ''MSearchClose''), (js ''href'', js ''javascript:searchBox.CloseResultsWindow()'')] False @
     start_tag (js ''img'') [(js ''id'', js ''MSearchCloseImg''), (js ''border'', js ''0''), (js ''src'', relPath @ js ''search/close.svg''), (js ''alt'', [])] True @
     end_tag (js ''a'') @
     end_tag (js ''span'') @
     end_tag (js ''div'') @
     end_tag (js ''li'')"
  by (simp add: client_search_box_def start_tag_def end_tag_def write_attributes_def js_def)


section \<open>Reading the menu back\<close>

declare makeTree.simps(2) [simp del]

lemma plain_tag_names [simp]:
  "plain_name (js ''ul'')" "plain_name (js ''li'')" "plain_name (js ''a'')" "plain_name (js ''div'')"
  "plain_name (js ''span'')" "plain_name (js ''form'')" "plain_name (js ''img'')" "plain_name (js ''input'')"
  by (simp_all add: plain_name_def name_unit_def js_def)

lemma void_tag_names [simp]:
  "\<not> void (js ''ul'')" "\<not> void (js ''li'')" "\<not> void (js ''a'')" "\<not> void (js ''div'')"
  "\<not> void (js ''span'')" "\<not> void (js ''form'')" "void (js ''img'')" "void (js ''input'')"
  by (simp_all add: void_def)

lemma tag_marks:
  "js ''<ul>'' = start_tag (js ''ul'') [] False" "js ''</ul>'' = end_tag (js ''ul'')"
  "js ''<li><a href=\"'' @ u @ js ''\">'' @ r = start_tag (js ''li'') [] False @ start_tag (js ''a'') [(js ''href'', u)] False @ r"
  "js ''</a>'' = end_tag (js ''a'')" "js ''</li>'' = end_tag (js ''li'')"
  by (simp_all add: start_tag_def end_tag_def write_attributes_def js_def)

lemma makeTree_items:
  assumes "\<And>i. i \<in> set items \<Longrightarrow>
    (case i of Item label url children \<Rightarrow> js ''<li><a href=\"'' @ relPath @ url @ js ''\">'' @ label @ js ''</a>'' @
       makeTree children relPath @ js ''</li>'') = write_html (item_html relPath i)"
  shows "makeTree (Some items) relPath = write_html (Element (js ''ul'') [] (map (item_html relPath) items))"
proof -
  have "map (\<lambda>i. case i of Item label url children \<Rightarrow> js ''<li><a href=\"'' @ relPath @ url @ js ''\">'' @ label @ js ''</a>'' @
       makeTree children relPath @ js ''</li>'') items = map write_html (map (item_html relPath) items)"
    using assms by simp
  then show ?thesis by (simp only: makeTree.simps write_html.simps tag_marks(1,2)) simp
qed

lemma makeTree_item:
  "(case i of Item label url children \<Rightarrow> js ''<li><a href=\"'' @ relPath @ url @ js ''\">'' @ label @ js ''</a>'' @
     makeTree children relPath @ js ''</li>'') = write_html (item_html relPath i)"
proof (induction i)
  case (Item label url children)
  have tail: "makeTree children relPath = concat (map write_html
      (case children of None \<Rightarrow> [] | Some items \<Rightarrow> [Element (js ''ul'') [] (map (item_html relPath) items)]))"
  proof (cases children)
    case (Some items)
    then have "makeTree children relPath = write_html (Element (js ''ul'') [] (map (item_html relPath) items))"
      unfolding Some using Item by (intro makeTree_items) (simp add: Some)
    then show ?thesis using Some by simp
  qed simp
  have "js ''<li><a href=\"'' @ relPath @ url @ js ''\">'' @ r
      = start_tag (js ''li'') [] False @ start_tag (js ''a'') [(js ''href'', relPath @ url)] False @ r" for r
    using tag_marks(3) [of "relPath @ url" r] by simp
  then show ?case by (simp add: tail tag_marks(4,5))
qed

lemma makeTree_write:
  "makeTree (Some items) relPath = write_html (Element (js ''ul'') [] (map (item_html relPath) items))"
  using makeTree_item by (rule makeTree_items)

lemma texts_apart_elements: "list_all (\<lambda>h. \<not> is_text h) hs \<Longrightarrow> texts_apart hs"
  by (induction hs rule: texts_apart.induct) simp_all

lemma not_text_item: "\<not> is_text (item_html relPath i)"
  by (cases i) simp

lemma marks_plain [simp]:
  "38 \<notin> set (js ''ul'')" "38 \<notin> set (js ''li'')" "38 \<notin> set (js ''a'')" "38 \<notin> set (js ''href'')"
  "61 \<notin> set (js ''href'')"
  by (simp_all add: js_def)

lemma plain_items:
  assumes "plain_text relPath" "plain_item i"
  shows "plain_html (item_html relPath i)" "38 \<notin> set (write_html (item_html relPath i))"
proof -
  have "plain_html (item_html relPath i) \<and> 38 \<notin> set (write_html (item_html relPath i))"
    using assms(2)
  proof (induction i)
    case (Item label url children)
    have rel: "34 \<notin> set relPath" "38 \<notin> set relPath" using assms(1) by (simp_all add: plain_text_def)
    have kids: "list_all plain_html (map (item_html relPath) items) \<and> texts_apart (map (item_html relPath) items) \<and>
        38 \<notin> set (concat (map write_html (map (item_html relPath) items)))" if "children = Some items" for items
      using Item that by (auto simp: list_all_iff not_text_item intro!: texts_apart_elements)
    show ?case
      using Item.prems rel kids
      by (cases children) (auto simp: plain_text_def plain_attributes_def start_tag_def end_tag_def write_attributes_def)
  qed
  then show "plain_html (item_html relPath i)" "38 \<notin> set (write_html (item_html relPath i))" by simp_all
qed

lemma menu_parsed:
  assumes "plain_text relPath" "list_all plain_item items"
  shows "parse_html (makeTree (Some items) relPath) = Some [Element (js ''ul'') [] (map (item_html relPath) items)]"
proof -
  let ?h = "Element (js ''ul'') [] (map (item_html relPath) items)"
  have "plain_html ?h" using assms plain_items(1)
    by (auto simp: list_all_iff plain_attributes_def not_text_item intro!: texts_apart_elements)
  moreover have "38 \<notin> set (write_html ?h)"
    using assms plain_items(2) by (auto simp: list_all_iff start_tag_def end_tag_def write_attributes_def)
  ultimately show ?thesis using parse_write [of "[?h]"] by (simp add: makeTree_write del: plain_html.simps write_html.simps)
qed

text \<open>
  C19: The markup of a menu is read back as the menu: one list element per level, in the
  order of the data, each entry with its label, its address behind the relative path, and
  its own children, to any depth; nothing of the labels or addresses leaks into the markup
  as long as they have no brackets, quotes or ampersands.
\<close>

theorem makeTree_reads_back:
  assumes "plain_text relPath" "list_all plain_item items"
  shows "parse_html (makeTree (Some items) relPath) = Some [Element (js ''ul'') [] (map (item_html relPath) items)]"
  using assms by (rule menu_parsed)

theorem makeTree_reads_back_witness:
  "parse_html (makeTree (Some [Item (js ''Files'') (js ''files.html'') (Some [Item (js ''a'') (js ''a.html'') None])]) (js ''../''))
    = Some [Element (js ''ul'') [] [item_html (js ''../'') (Item (js ''Files'') (js ''files.html'') (Some [Item (js ''a'') (js ''a.html'') None]))]]"
proof -
  have "plain_text (js ''../'')" by (simp add: plain_text_def js_def)
  moreover have "list_all plain_item [Item (js ''Files'') (js ''files.html'') (Some [Item (js ''a'') (js ''a.html'') None])]"
    by (simp add: plain_text_def js_def)
  ultimately show ?thesis using makeTree_reads_back by fastforce
qed

text \<open>The search box: the void elements have a slash before the bracket.\<close>

lemma tokens_nil: "tokens [] = Some []"
  by (subst tokens.simps) simp

lemma plain_attributes_simps [simp]:
  "plain_attributes []" "plain_attributes ((n, v) # as) \<longleftrightarrow> 61 \<notin> set n \<and> 34 \<notin> set v \<and> plain_attributes as"
  by (auto simp: plain_attributes_def)

lemma end_tag_plain [simp]:
  "62 \<notin> set (js ''ul'')" "62 \<notin> set (js ''li'')" "62 \<notin> set (js ''a'')" "62 \<notin> set (js ''div'')"
  "62 \<notin> set (js ''span'')" "62 \<notin> set (js ''form'')"
  by (simp_all add: js_def)

lemma plain_text_marks: "plain_text s \<Longrightarrow> 34 \<notin> set s" "plain_text s \<Longrightarrow> 38 \<notin> set s"
  by (simp_all add: plain_text_def)

lemma js_mem: "c \<in> set (js s) \<longleftrightarrow> list_ex (\<lambda>d. of_char d = c) s"
  by (auto simp: js_def list_ex_iff)

lemma client_box_reads:
  assumes "plain_text relPath" "plain_text search"
  shows "parse_html (client_search_box relPath search) = Some [client_box_html relPath search]"
proof -
  have quotes: "34 \<notin> set relPath" "34 \<notin> set search" using assms plain_text_marks(1) by blast+
  have "38 \<notin> set (client_search_box relPath search)"
    using plain_text_marks(2) [OF assms(1)] plain_text_marks(2) [OF assms(2)]
    by (simp add: client_search_box_def js_mem)
  moreover have "tokens (client_search_box relPath search @ []) = Some (html_tokens (client_box_html relPath search))"
    unfolding client_box_tags append_assoc
    by (simp add: tokens_start tokens_end tokens_end [of _ "[]", simplified] tokens_nil quotes js_mem client_box_html_def)
  moreover have "build (html_tokens (client_box_html relPath search)) [] [] = Some [client_box_html relPath search]"
    by (simp add: client_box_html_def)
  ultimately show ?thesis by (simp add: parse_html_def)
qed

lemma server_box_reads:
  assumes "plain_text relPath" "plain_text searchPage" "plain_text search"
  shows "parse_html (server_search_box relPath searchPage search) = Some [server_box_html relPath searchPage search]"
proof -
  have quotes: "34 \<notin> set relPath" "34 \<notin> set searchPage" "34 \<notin> set search" using assms plain_text_marks(1) by blast+
  have "38 \<notin> set (server_search_box relPath searchPage search)"
    using plain_text_marks(2) [OF assms(1)] plain_text_marks(2) [OF assms(2)] plain_text_marks(2) [OF assms(3)]
    by (simp add: server_search_box_def js_mem)
  moreover have "tokens (server_search_box relPath searchPage search @ []) = Some (html_tokens (server_box_html relPath searchPage search))"
    unfolding server_box_tags append_assoc
    by (simp add: tokens_start tokens_end tokens_end [of _ "[]", simplified] tokens_nil quotes js_mem server_box_html_def)
  moreover have "build (html_tokens (server_box_html relPath searchPage search)) [] [] = Some [server_box_html relPath searchPage search]"
    by (simp add: server_box_html_def)
  ultimately show ?thesis by (simp add: parse_html_def)
qed

text \<open>The shipped menu is plain.\<close>

lemma plain_text_js: "plain_text (js s) \<longleftrightarrow> list_all (\<lambda>d. d \<noteq> CHR ''<'' \<and> d \<noteq> CHR 0x22 \<and> d \<noteq> CHR ''&'') s"
proof -
  have "(of_char d :: u16) \<in> set (js s) \<longleftrightarrow> d \<in> set s" for d by (auto simp: js_def)
  from this [of "CHR ''<''"] this [of "CHR 0x22"] this [of "CHR ''&''"]
  have "60 \<in> set (js s) \<longleftrightarrow> CHR ''<'' \<in> set s" "34 \<in> set (js s) \<longleftrightarrow> CHR 0x22 \<in> set s"
    "38 \<in> set (js s) \<longleftrightarrow> CHR ''&'' \<in> set s" by simp_all
  then show ?thesis unfolding plain_text_def list_all_iff by metis
qed

lemma menudata_plain: "list_all plain_item menudata"
  by (simp add: menudata_def plain_text_js)

text \<open>
  On a page with an empty navigation element the menu is built as the first list of the
  element, with the identifier and the classes that its style sheet and its plug-in ask for,
  followed by one more entry with the search box of the kind that is enabled, which carries
  the relative path and the text of the box.
\<close>

theorem initMenu_builds_menu:
  assumes "list_all plain_item items" "plain_text relPath" "plain_text searchPage" "plain_text search"
  shows "initMenu items relPath searchEnabled serverSide searchPage search [] =
    Some [Element (js ''ul'') [(js ''class'', js ''sm sm-dox''), (js ''id'', js ''main-menu'')]
      (map (item_html relPath) items @
       (if \<not> searchEnabled then []
        else if serverSide then [server_box_html relPath searchPage search]
        else [client_box_html relPath search]))]"
proof -
  have "join_with 32 [js ''sm'', js ''sm-dox''] = js ''sm sm-dox''" by (simp add: js_def)
  then have "set_attribute (js ''id'') (js ''main-menu'') (addClass [js ''sm'', js ''sm-dox''] [])
      = [(js ''class'', js ''sm sm-dox''), (js ''id'', js ''main-menu'')]"
    by (simp add: set_attribute_def addClass_def classes_def)
  then show ?thesis
    using menu_parsed [OF assms(2,1)] server_box_reads [OF assms(2-4)] client_box_reads [OF assms(2,4)]
    by (simp add: initMenu_def)
qed

theorem initMenu_builds_menu_witness:
  "initMenu menudata [] True False (js ''search.php'') (js ''Search'') [] =
    Some [Element (js ''ul'') [(js ''class'', js ''sm sm-dox''), (js ''id'', js ''main-menu'')]
      (map (item_html []) menudata @ [client_box_html [] (js ''Search'')])]"
proof -
  have "plain_text []" "plain_text (js ''search.php'')" "plain_text (js ''Search'')"
    by (simp_all add: plain_text_def js_mem)
  from initMenu_builds_menu [OF menudata_plain this] show ?thesis by simp
qed

end
