(* ===== verification/CopyButton.thy ===== *)
theory CopyButton
  imports JsString
begin

text \<open>
  The copy buttons on the code of the pages (\<open>doxygen-awesome-fragment-copy-button.js\<close>): the
  loop over the live collection of fragments that wraps each of them with a button, and the
  button's handler with its timers.
\<close>

section \<open>The page\<close>

text \<open>
  Elements with an identity, a tag, their classes, attributes and children; icons, which
  carry no text; and text.
\<close>

datatype icon = copyIcon | successIcon | linkIcon

datatype node =
  El nat jstr "jstr list" "(jstr \<times> jstr) list" "node list"
| Svg icon
| Tx jstr

fun has_key :: "nat \<Rightarrow> node \<Rightarrow> bool" where
  "has_key k (El k' t cs a es) \<longleftrightarrow> k' = k"
| "has_key k _ \<longleftrightarrow> False"

fun node_key :: "node \<Rightarrow> nat" where
  "node_key (El k t cs a es) = k"
| "node_key _ = 0"

fun classes :: "node \<Rightarrow> jstr list" where
  "classes (El k t cs a es) = cs"
| "classes _ = []"

fun child_nodes :: "node \<Rightarrow> node list" where
  "child_nodes (El k t cs a es) = es"
| "child_nodes _ = []"

text \<open>The elements in document order, the node itself included.\<close>

fun elements :: "node \<Rightarrow> node list" where
  "elements (El k t cs a es) = El k t cs a es # concat (map elements es)"
| "elements _ = []"

definition keys :: "node \<Rightarrow> nat list" where
  "keys d = map node_key (elements d)"

definition getElementsByClassName :: "jstr \<Rightarrow> node \<Rightarrow> node list" where
  "getElementsByClassName c d = filter (\<lambda>e. c \<in> set (classes e)) (elements d)"

text \<open>\<open>x.parentNode.replaceChild(n, x)\<close> and \<open>p.appendChild(n)\<close> for elements of the page by their identity.\<close>

fun replaceChild :: "nat \<Rightarrow> node \<Rightarrow> node \<Rightarrow> node" where
  "replaceChild k n (El k' t cs a es) =
     El k' t cs a (map (\<lambda>e. if has_key k e then n else replaceChild k n e) es)"
| "replaceChild k n d = d"

fun appendChild :: "nat \<Rightarrow> node \<Rightarrow> node \<Rightarrow> node" where
  "appendChild p n (El k t cs a es) = El k t cs a (map (appendChild p n) es @ (if k = p then [n] else []))"
| "appendChild p n d = d"

section \<open>Wrapping the fragments\<close>

text \<open>The document, and the identity of the next element that is created.\<close>

record page =
  document :: node
  next_key :: nat

definition copy_button :: "nat \<Rightarrow> node" where
  "copy_button b = El b (js ''doxygen-awesome-fragment-copy-button'') []
     [(js ''title'', js ''Copy to clipboard'')] [Svg copyIcon]"

definition wrapper :: "nat \<Rightarrow> node list \<Rightarrow> node" where
  "wrapper w es = El w (js ''div'') [js ''doxygen-awesome-fragment-wrapper''] [] es"

definition wrap_fragment :: "node \<Rightarrow> page \<Rightarrow> page" where
  "wrap_fragment fragment pg =
     (let fragmentWrapper = next_key pg; fragmentCopyButton = next_key pg + 1;
          d = replaceChild (node_key fragment) (wrapper fragmentWrapper []) (document pg);
          d = appendChild fragmentWrapper fragment d;
          d = appendChild fragmentWrapper (copy_button fragmentCopyButton) d
      in pg\<lparr>document := d, next_key := next_key pg + 2\<rparr>)"

text \<open>
  The iteration over \<open>getElementsByClassName("fragment")\<close>: the collection is live, so each
  step reads it again from the document as the steps before left it.
\<close>

partial_function (option) wrap_fragments :: "nat \<Rightarrow> page \<Rightarrow> page option" where
  "wrap_fragments i pg =
     (let fragments = getElementsByClassName (js ''fragment'') (document pg) in
      if i < length fragments then wrap_fragments (Suc i) (wrap_fragment (fragments ! i) pg) else Some pg)"

definition init_copy_buttons :: "bool \<Rightarrow> page \<Rightarrow> page option" where
  "init_copy_buttons navigator_clipboard pg = (if navigator_clipboard then wrap_fragments 0 pg else Some pg)"

section \<open>The handler of a button\<close>

fun sibling_before :: "nat \<Rightarrow> node list \<Rightarrow> node option" where
  "sibling_before b (x # y # es) = (if has_key b y then Some x else sibling_before b (y # es))"
| "sibling_before b _ = None"

definition previousSibling :: "nat \<Rightarrow> node \<Rightarrow> node option" where
  "previousSibling b d =
     (case filter (\<lambda>e. sibling_before b (child_nodes e) \<noteq> None) (elements d) of
        [] \<Rightarrow> None
      | e # _ \<Rightarrow> sibling_before b (child_nodes e))"

fun textContent :: "node \<Rightarrow> jstr" where
  "textContent (El k t cs a es) = concat (map textContent es)"
| "textContent (Svg i) = []"
| "textContent (Tx s) = s"

text \<open>\<open>node.remove()\<close>, and the elements that \<open>querySelectorAll(".lineno, .ttc")\<close> finds.\<close>

fun remove_node :: "nat \<Rightarrow> node \<Rightarrow> node" where
  "remove_node k (El k' t cs a es) = El k' t cs a (map (remove_node k) (filter (\<lambda>e. \<not> has_key k e) es))"
| "remove_node k d = d"

definition is_margin :: "node \<Rightarrow> bool" where
  "is_margin e \<longleftrightarrow> js ''lineno'' \<in> set (classes e) \<or> js ''ttc'' \<in> set (classes e)"

definition margin_notes :: "node \<Rightarrow> node list" where
  "margin_notes content = filter is_margin (concat (map elements (child_nodes content)))"

text \<open>The loop that counts newlines from the end; \<open>charAt\<close> of a position below zero is empty.\<close>

function numberOfTrailingNewlines :: "jstr \<Rightarrow> nat \<Rightarrow> nat" where
  "numberOfTrailingNewlines s n =
     (if n < length s \<and> s ! (length s - (n + 1)) = 10 then numberOfTrailingNewlines s (n + 1) else n)"
  by pat_completeness auto
termination by (relation "measure (\<lambda>(s, n). length s - n)") auto

declare numberOfTrailingNewlines.simps [simp del]

definition text_to_copy :: "node \<Rightarrow> jstr" where
  "text_to_copy previous =
     (let content = fold (\<lambda>n. remove_node (node_key n)) (margin_notes previous) previous;
          s = textContent content
      in take (length s - numberOfTrailingNewlines s 0) s)"

text \<open>A change of one element: its classes and what it contains.\<close>

fun set_element :: "nat \<Rightarrow> (jstr list \<Rightarrow> jstr list) \<Rightarrow> node list \<Rightarrow> node \<Rightarrow> node" where
  "set_element b f inner (El k t cs a es) =
     (if k = b then El k t (f cs) a inner else El k t cs a (map (set_element b f inner) es))"
| "set_element b f inner d = d"

definition add_class :: "jstr \<Rightarrow> jstr list \<Rightarrow> jstr list" where
  "add_class c cs = (if c \<in> set cs then cs else cs @ [c])"

definition show_success :: "nat \<Rightarrow> node \<Rightarrow> node" where
  "show_success b = set_element b (add_class (js ''success'')) [Svg successIcon]"

definition end_success :: "nat \<Rightarrow> node \<Rightarrow> node" where
  "end_success b = set_element b (removeAll (js ''success'')) [Svg copyIcon]"

text \<open>
  The page with the clipboard, the time in milliseconds, and the timers in the order in
  which they were started, each with the time it is due and its button.
\<close>

record desk =
  desk_page :: node
  clipboard :: "jstr option"
  now :: nat
  timers :: "(nat \<times> nat) list"

definition successDuration :: nat where
  "successDuration = 980"

text \<open>
  \<open>copyContent\<close>: \<open>None\<close> when it throws, for a button with nothing before it. The browser
  may refuse to write the clipboard, which the handler does not notice.
\<close>

definition copyContent :: "bool \<Rightarrow> nat \<Rightarrow> desk \<Rightarrow> desk option" where
  "copyContent allowed b s =
     (case previousSibling b (desk_page s) of
        None \<Rightarrow> None
      | Some previous \<Rightarrow> Some (s\<lparr>
          clipboard := (if allowed then Some (text_to_copy previous) else clipboard s),
          desk_page := show_success b (desk_page s),
          timers := timers s @ [(now s + successDuration, b)]\<rparr>))"

text \<open>Time passes: the timers that are due by then run.\<close>

definition pass_time :: "nat \<Rightarrow> desk \<Rightarrow> desk" where
  "pass_time ms s =
     (let later = now s + ms in s\<lparr>now := later,
        desk_page := fold (\<lambda>(due, b). end_success b) (filter (\<lambda>(due, b). due \<le> later) (timers s)) (desk_page s),
        timers := filter (\<lambda>(due, b). later < due) (timers s)\<rparr>)"

section \<open>Trees by their identities\<close>

lemma keys_simps [simp]:
  "keys (El k t cs a es) = k # concat (map keys es)" "keys (Svg i) = []" "keys (Tx s) = []"
  by (simp_all add: keys_def [abs_def] map_concat o_def)

lemma not_has_key: "k \<notin> set (keys e) \<Longrightarrow> \<not> has_key k e"
  by (cases e) auto

lemma replaceChild_absent: "k \<notin> set (keys d) \<Longrightarrow> replaceChild k n d = d"
  by (induction d rule: elements.induct) (auto intro!: map_idI simp: not_has_key)

lemma appendChild_absent: "p \<notin> set (keys d) \<Longrightarrow> appendChild p n d = d"
  by (induction d rule: elements.induct) (auto intro!: map_idI)

lemma appendChild_wrapper:
  "w \<notin> \<Union> (set ` keys ` set es) \<Longrightarrow> appendChild w n (wrapper w es) = wrapper w (es @ [n])"
  by (auto simp: wrapper_def intro!: map_idI appendChild_absent)

text \<open>Putting a wrapper in place and filling it.\<close>

lemma fill_wrapper:
  assumes "w \<notin> set (keys d)" "w \<notin> set (keys f)" "w \<notin> set (keys b)"
  shows "appendChild w b (appendChild w f (replaceChild k (wrapper w []) d)) = replaceChild k (wrapper w [f, b]) d"
  using assms(1)
proof (induction d)
  case (El k' t cs a es)
  then have "appendChild w b (appendChild w f (if has_key k e then wrapper w [] else replaceChild k (wrapper w []) e))
      = (if has_key k e then wrapper w [f, b] else replaceChild k (wrapper w [f, b]) e)" if "e \<in> set es" for e
    using that assms(2,3) by (auto simp: appendChild_wrapper)
  with El.prems show ?case by auto
qed simp_all

lemma elements_keys: "e \<in> set (elements d) \<Longrightarrow> node_key e \<in> set (keys d)"
  by (simp add: keys_def)

lemma elements_same_key:
  "distinct (keys d) \<Longrightarrow> x \<in> set (elements d) \<Longrightarrow> y \<in> set (elements d) \<Longrightarrow> node_key x = node_key y \<Longrightarrow> x = y"
  unfolding keys_def distinct_map inj_on_def by blast

lemma distinct_kids:
  assumes "distinct (keys (El k t cs a es))" "e \<in> set es"
  shows "distinct (keys e)" "k \<notin> set (keys e)"
  using assms by (auto simp: distinct_concat_iff)

section \<open>The wrapped page\<close>

text \<open>The page with those fragments wrapped that have a wrapper: its identity by that of the fragment.\<close>

fun wrap_with :: "(nat \<Rightarrow> nat option) \<Rightarrow> node \<Rightarrow> node" where
  "wrap_with g (El k t cs a es) =
     (let e = El k t cs a (map (wrap_with g) es) in
      if js ''fragment'' \<in> set cs then
        case g k of None \<Rightarrow> e | Some w \<Rightarrow> wrapper w [e, copy_button (Suc w)]
      else e)"
| "wrap_with g d = d"

text \<open>The element of the wrapped page that an element of the page has become.\<close>

fun kept_in :: "(nat \<Rightarrow> nat option) \<Rightarrow> node \<Rightarrow> node" where
  "kept_in g (El k t cs a es) = El k t cs a (map (wrap_with g) es)"
| "kept_in g d = d"

lemma node_key_kept [simp]: "node_key (kept_in g e) = node_key e"
  by (cases e) auto

lemma fragments_wrap_with:
  "getElementsByClassName (js ''fragment'') (wrap_with g d) = map (kept_in g) (getElementsByClassName (js ''fragment'') d)"
proof (induction d)
  case (El k t cs a es)
  then have "filter (\<lambda>e. js ''fragment'' \<in> set (classes e)) (concat (map (elements \<circ> wrap_with g) es))
      = map (kept_in g) (filter (\<lambda>e. js ''fragment'' \<in> set (classes e)) (concat (map elements es)))"
    by (simp add: filter_concat map_concat getElementsByClassName_def o_def cong: map_cong)
  then show ?case
    by (auto simp: getElementsByClassName_def wrapper_def copy_button_def Let_def split: option.splits)
qed (simp_all add: getElementsByClassName_def)

lemma keys_wrap_with:
  "set (keys (wrap_with g d)) \<subseteq> set (keys d) \<union> (\<Union>w \<in> ran g. {w, Suc w})"
proof (induction d)
  case (El k t cs a es)
  let ?W = "\<Union>w \<in> ran g. {w, Suc w}"
  have kids: "(\<Union>e \<in> set es. set (keys (wrap_with g e))) \<subseteq> (\<Union>e \<in> set es. set (keys e)) \<union> ?W"
    using El.IH by blast
  have own: "g k = Some w \<Longrightarrow> w \<in> ?W \<and> Suc w \<in> ?W" for w by (auto intro: ranI)
  show ?case
  proof (cases "js ''fragment'' \<in> set cs \<and> g k \<noteq> None")
    case True
    then obtain w where "g k = Some w" by blast
    with True kids own [OF this] show ?thesis by (simp add: Let_def wrapper_def copy_button_def) blast
  next
    case False
    then have "wrap_with g (El k t cs a es) = El k t cs a (map (wrap_with g) es)" by (auto simp: Let_def)
    then show ?thesis using kids by simp blast
  qed
qed simp_all

lemma wrap_with_upd_absent: "k \<notin> set (keys d) \<Longrightarrow> wrap_with (g(k := v)) d = wrap_with g d"
  by (induction d) (auto simp: Let_def cong: map_cong)

lemma wrap_with_none: "wrap_with (\<lambda>_. None) d = d"
  by (induction d) (auto simp: Let_def intro!: map_idI)

lemma replaceChild_wrapper:
  "\<not> has_key k e \<Longrightarrow> k \<noteq> v \<Longrightarrow> k \<noteq> Suc v \<Longrightarrow>
    replaceChild k n (wrapper v [e, copy_button (Suc v)]) = wrapper v [replaceChild k n e, copy_button (Suc v)]"
  by (simp add: wrapper_def copy_button_def)

lemma wrap_step:
  assumes "distinct (keys d)" "f \<in> set (elements d)" "\<not> has_key (node_key f) d"
    and "js ''fragment'' \<in> set (classes f)" "g (node_key f) = None"
    and "\<And>v. v \<in> ran g \<Longrightarrow> node_key f < v"
  shows "replaceChild (node_key f) (wrapper w [kept_in g f, copy_button (Suc w)]) (wrap_with g d)
    = wrap_with (g(node_key f \<mapsto> w)) d"
  using assms(1-3)
proof (induction d)
  case (El k t cs a es)
  let ?r = "replaceChild (node_key f) (wrapper w [kept_in g f, copy_button (Suc w)])"
  let ?g = "g(node_key f \<mapsto> w)"
  have kid: "(if has_key (node_key f) (wrap_with g e) then wrapper w [kept_in g f, copy_button (Suc w)]
      else ?r (wrap_with g e)) = wrap_with ?g e" if e: "e \<in> set es" for e
  proof (cases "has_key (node_key f) e")
    case True
    then obtain n t' cs' a' es' where e': "e = El n t' cs' a' es'" and n: "n = node_key f" by (cases e) auto
    have "e \<in> set (elements e)" using e' by simp
    with e have "e \<in> set (elements (El k t cs a es))" by auto
    with El.prems(2) have f: "f = El n t' cs' a' es'"
      unfolding e' [symmetric] by (rule elements_same_key [OF El.prems(1)]) (simp add: e' n)
    have "map (wrap_with (g(n \<mapsto> w))) es' = map (wrap_with g) es'"
      using distinct_kids(2) [OF distinct_kids(1) [OF El.prems(1) e, unfolded e']]
      by (auto intro: wrap_with_upd_absent)
    then show ?thesis using assms(4,5) unfolding f e' by (simp add: Let_def del: map_eq_conv)
  next
    case False
    have nk: "\<not> has_key (node_key f) (wrap_with g e)"
      using False assms(6) by (cases e) (auto simp: Let_def wrapper_def ran_def split: option.splits)
    show ?thesis
    proof (cases "f \<in> set (elements e)")
      case True
      with El.IH [OF e distinct_kids(1) [OF El.prems(1) e]] False nk show ?thesis by (simp del: fun_upd_apply)
    next
      case f: False
      have "node_key f \<notin> set (keys e)"
      proof
        assume "node_key f \<in> set (keys e)"
        then obtain x where "x \<in> set (elements e)" "node_key x = node_key f" by (auto simp: keys_def)
        moreover from this e have "x \<in> set (elements (El k t cs a es))" by auto
        ultimately have "x = f" using El.prems(2) by (intro elements_same_key [OF El.prems(1)])
        with \<open>x \<in> set (elements e)\<close> f show False by simp
      qed
      moreover from this have "node_key f \<notin> set (keys (wrap_with g e))"
        using keys_wrap_with [of g e] assms(6) by fastforce
      ultimately show ?thesis using nk by (simp add: replaceChild_absent wrap_with_upd_absent)
    qed
  qed
  have k: "k \<noteq> node_key f" using El.prems(3) by simp
  have kids: "?r (El k t cs a (map (wrap_with g) es)) = El k t cs a (map (wrap_with ?g) es)"
    using kid by (simp del: fun_upd_apply)
  show ?case
  proof (cases "js ''fragment'' \<in> set cs \<and> g k \<noteq> None")
    case True
    then obtain v where v: "g k = Some v" by blast
    then have "node_key f \<noteq> v" "node_key f \<noteq> Suc v" using assms(6) [OF ranI [of g, OF v]] by simp_all
    moreover have "wrap_with g (El k t cs a es) = wrapper v [El k t cs a (map (wrap_with g) es), copy_button (Suc v)]"
      "wrap_with ?g (El k t cs a es) = wrapper v [El k t cs a (map (wrap_with ?g) es), copy_button (Suc v)]"
      using True v k by (simp_all add: Let_def)
    ultimately show ?thesis using k kids by (simp only: replaceChild_wrapper has_key.simps not_False_eq_True)
  next
    case False
    then have "wrap_with g (El k t cs a es) = El k t cs a (map (wrap_with g) es)"
      "wrap_with ?g (El k t cs a es) = El k t cs a (map (wrap_with ?g) es)"
      using k by (auto simp: Let_def)
    then show ?thesis using kids by (simp only:)
  qed
qed simp_all

section \<open>The loop over the live collection\<close>

text \<open>The page after the first \<open>i\<close> fragments.\<close>

definition wrapped :: "page \<Rightarrow> nat \<Rightarrow> (nat \<Rightarrow> nat option) \<Rightarrow> page \<Rightarrow> bool" where
  "wrapped pg0 i g pg \<longleftrightarrow>
     (let F = getElementsByClassName (js ''fragment'') (document pg0) in
      document pg = wrap_with g (document pg0) \<and> next_key pg = next_key pg0 + 2 * i \<and> i \<le> length F \<and>
      dom g = (\<lambda>j. node_key (F ! j)) ` {..<i} \<and> (\<forall>j<i. g (node_key (F ! j)) = Some (next_key pg0 + 2 * j)))"

definition page_ok :: "page \<Rightarrow> bool" where
  "page_ok pg \<longleftrightarrow> distinct (keys (document pg)) \<and> list_all (\<lambda>k. k < next_key pg) (keys (document pg)) \<and>
     js ''fragment'' \<notin> set (classes (document pg))"

lemma wrapped_ran: "wrapped pg0 i g pg \<Longrightarrow> v \<in> ran g \<Longrightarrow> \<exists>j<i. v = next_key pg0 + 2 * j"
proof -
  let ?F = "getElementsByClassName (js ''fragment'') (document pg0)"
  assume w: "wrapped pg0 i g pg" and "v \<in> ran g"
  then obtain k where k: "g k = Some v" by (auto simp: ran_def)
  then have "k \<in> dom g" by blast
  with w obtain j where "j < i" "k = node_key (?F ! j)" by (auto simp: wrapped_def Let_def)
  with w k show ?thesis by (auto simp: wrapped_def Let_def)
qed

lemma wrap_fragment_step:
  assumes "page_ok pg0" "wrapped pg0 i g pg"
    and "i < length (getElementsByClassName (js ''fragment'') (document pg0))"
  shows "\<exists>g'. wrapped pg0 (Suc i) g' (wrap_fragment (getElementsByClassName (js ''fragment'') (document pg) ! i) pg)"
proof -
  let ?F = "getElementsByClassName (js ''fragment'') (document pg0)"
  let ?w = "next_key pg" and ?f = "?F ! i"
  let ?g = "g(node_key ?f \<mapsto> ?w)"
  have doc: "document pg = wrap_with g (document pg0)" and nk: "?w = next_key pg0 + 2 * i"
    and dg: "dom g = (\<lambda>j. node_key (?F ! j)) ` {..<i}"
    and gj: "\<And>j. j < i \<Longrightarrow> g (node_key (?F ! j)) = Some (next_key pg0 + 2 * j)"
    using assms(2) by (simp_all add: wrapped_def Let_def)
  have f: "?f \<in> set (elements (document pg0))" "js ''fragment'' \<in> set (classes ?f)"
    using nth_mem [OF assms(3)] by (auto simp: getElementsByClassName_def)
  have small: "k < next_key pg0" if "k \<in> set (keys (document pg0))" for k
    using that assms(1) by (simp add: page_ok_def list_all_iff)
  have dist: "distinct (keys (document pg0))" using assms(1) by (simp add: page_ok_def)
  then have distF: "distinct (map node_key ?F)"
    by (simp add: getElementsByClassName_def keys_def distinct_map_filter)
  have other: "node_key (?F ! j) \<noteq> node_key ?f" if "j < i" for j
    using distF that assms(3) by (simp add: distinct_conv_nth)
  have fresh: "?w \<notin> set (keys (wrap_with g d))" if "set (keys d) \<subseteq> set (keys (document pg0))" for d
  proof
    assume "?w \<in> set (keys (wrap_with g d))"
    with keys_wrap_with [of g d] consider "?w \<in> set (keys d)" | v where "v \<in> ran g" "?w = v \<or> ?w = Suc v" by auto
    then show False
    proof cases
      case 1
      with that small [of ?w] show False using nk by auto
    next
      case (2 v)
      with wrapped_ran [OF assms(2)] obtain j where "j < i" "v = next_key pg0 + 2 * j" by blast
      with 2 nk show False by simp
    qed
  qed
  have sub: "set (keys e) \<subseteq> set (keys d)" if "e \<in> set (elements d)" for e d
    using that by (induction d) auto
  have "?w \<notin> set (keys (kept_in g ?f))"
  proof (cases ?f)
    case (El k t cs a es)
    have "set (keys e) \<subseteq> set (keys (document pg0))" if "e \<in> set es" for e
      using sub [OF f(1)] that El by auto
    with fresh have "\<forall>e \<in> set es. ?w \<notin> set (keys (wrap_with g e))" by blast
    moreover have "?w \<noteq> k" using small elements_keys [OF f(1)] El nk by fastforce
    ultimately show ?thesis using El by simp
  qed simp_all
  then have filled: "document (wrap_fragment (kept_in g ?f) pg) =
      replaceChild (node_key ?f) (wrapper ?w [kept_in g ?f, copy_button (Suc ?w)]) (wrap_with g (document pg0))"
    using fresh [OF order.refl] by (simp add: wrap_fragment_def Let_def fill_wrapper doc copy_button_def)
  have root: "\<not> has_key (node_key ?f) (document pg0)"
  proof
    assume h: "has_key (node_key ?f) (document pg0)"
    then have "document pg0 \<in> set (elements (document pg0))" "node_key (document pg0) = node_key ?f"
      by (cases "document pg0"; simp)+
    with f(1) have "?f = document pg0" by (intro elements_same_key [OF dist]) simp_all
    with f(2) assms(1) show False by (simp add: page_ok_def)
  qed
  have below: "node_key ?f < v" if "v \<in> ran g" for v
    using wrapped_ran [OF assms(2) that] small [OF elements_keys [OF f(1)]] by auto
  have "g (node_key ?f) = None"
    using dg other by (metis (no_types, lifting) domIff imageE lessThan_iff)
  from wrap_step [where g = g, OF dist f(1) root f(2) this below] filled
  have "document (wrap_fragment (kept_in g ?f) pg) = wrap_with ?g (document pg0)" by simp
  moreover have "next_key (wrap_fragment (kept_in g ?f) pg) = next_key pg0 + 2 * Suc i"
    by (simp add: wrap_fragment_def Let_def nk)
  moreover have "dom ?g = (\<lambda>j. node_key (?F ! j)) ` {..<Suc i}"
    using dg by (simp add: lessThan_Suc)
  moreover have "\<forall>j<Suc i. ?g (node_key (?F ! j)) = Some (next_key pg0 + 2 * j)"
    using gj other nk by (auto simp: less_Suc_eq)
  ultimately have "wrapped pg0 (Suc i) ?g (wrap_fragment (kept_in g ?f) pg)"
    using assms(3) by (simp add: wrapped_def Let_def Suc_le_eq)
  then show ?thesis using assms(3) by (auto simp: doc fragments_wrap_with)
qed

lemma wrap_fragments_wrapped:
  assumes "page_ok pg0" "wrapped pg0 i g pg"
  defines "n \<equiv> length (getElementsByClassName (js ''fragment'') (document pg0))"
  shows "\<exists>pg' g'. wrap_fragments i pg = Some pg' \<and> wrapped pg0 n g' pg'"
  using assms(2)
proof (induction "n - i" arbitrary: i g pg)
  case (0 i g pg)
  then have "length (getElementsByClassName (js ''fragment'') (document pg)) = n" "i = n"
    by (simp_all add: wrapped_def Let_def fragments_wrap_with n_def)
  then show ?case using 0 by (subst wrap_fragments.simps) auto
next
  case (Suc m i g pg)
  then have len: "length (getElementsByClassName (js ''fragment'') (document pg)) = n" and "i < n"
    by (simp_all add: wrapped_def Let_def fragments_wrap_with n_def)
  then obtain g' where "wrapped pg0 (Suc i) g' (wrap_fragment (getElementsByClassName (js ''fragment'') (document pg) ! i) pg)"
    using wrap_fragment_step [OF assms(1) Suc.prems] by (auto simp: n_def)
  from Suc.hyps(1) [OF _ this] Suc.hyps(2) len \<open>i < n\<close> show ?case
    by (subst wrap_fragments.simps) (simp add: Let_def)
qed

lemma init_wraps:
  assumes "page_ok pg"
  obtains pg' g where "init_copy_buttons True pg = Some pg'"
    "wrapped pg (length (getElementsByClassName (js ''fragment'') (document pg))) g pg'"
proof -
  have "wrapped pg 0 (\<lambda>_. None) pg" by (simp add: wrapped_def Let_def wrap_with_none)
  from wrap_fragments_wrapped [OF assms this] that show thesis by (auto simp: init_copy_buttons_def)
qed

section \<open>Every fragment is wrapped\<close>

text \<open>A page without the identities, and the page in which every fragment stands in a wrapper with a button.\<close>

fun plain :: "node \<Rightarrow> node" where
  "plain (El k t cs a es) = El 0 t cs a (map plain es)"
| "plain d = d"

fun wrap_all :: "node \<Rightarrow> node" where
  "wrap_all (El k t cs a es) =
     (let e = El 0 t cs a (map wrap_all es) in
      if js ''fragment'' \<in> set cs then wrapper 0 [e, copy_button 0] else e)"
| "wrap_all d = d"

lemma plain_wrap_with:
  "(\<And>f. f \<in> set (getElementsByClassName (js ''fragment'') d) \<Longrightarrow> g (node_key f) \<noteq> None) \<Longrightarrow>
    plain (wrap_with g d) = wrap_all d"
proof (induction d)
  case (El k t cs a es)
  have "plain (wrap_with g e) = wrap_all e" if e: "e \<in> set es" for e
  proof (rule El.IH [OF e])
    fix f assume "f \<in> set (getElementsByClassName (js ''fragment'') e)"
    with e have "f \<in> set (getElementsByClassName (js ''fragment'') (El k t cs a es))"
      by (auto simp: getElementsByClassName_def)
    then show "g (node_key f) \<noteq> None" by (rule El.prems)
  qed
  moreover have "js ''fragment'' \<in> set cs \<Longrightarrow> g k \<noteq> None"
    using El.prems [of "El k t cs a es"] by (simp add: getElementsByClassName_def)
  ultimately show ?case by (auto simp: Let_def wrapper_def copy_button_def)
qed simp_all

lemma wrapped_all:
  fixes pg
  defines "F \<equiv> getElementsByClassName (js ''fragment'') (document pg)"
  assumes "wrapped pg (length F) g pg'" "f \<in> set F"
  shows "g (node_key f) \<noteq> None"
proof -
  from assms(3) obtain j where "j < length F" "f = F ! j" by (auto simp: in_set_conv_nth)
  with assms(2) show ?thesis by (auto simp: wrapped_def F_def Let_def)
qed

text \<open>
  C17: On a page whose elements are told apart by their identities and whose root is no fragment, the
  loop over the live collection returns, and the page is then the one in which every fragment,
  also one inside another, stands in a wrapper of its own with a button after it; the fragments
  themselves are kept, in their order.
\<close>

theorem every_fragment_gets_a_button:
  assumes "page_ok pg"
  shows "\<exists>pg'. init_copy_buttons True pg = Some pg' \<and> plain (document pg') = wrap_all (document pg) \<and>
    map node_key (getElementsByClassName (js ''fragment'') (document pg'))
      = map node_key (getElementsByClassName (js ''fragment'') (document pg))"
proof -
  from init_wraps [OF assms] obtain pg' g where r: "init_copy_buttons True pg = Some pg'"
    "wrapped pg (length (getElementsByClassName (js ''fragment'') (document pg))) g pg'" by blast
  then have d: "document pg' = wrap_with g (document pg)" by (simp add: wrapped_def Let_def)
  have "plain (document pg') = wrap_all (document pg)"
    unfolding d by (rule plain_wrap_with) (rule wrapped_all [OF r(2)])
  then show ?thesis using r(1) by (simp add: d fragments_wrap_with)
qed

section \<open>What is copied\<close>

lemma trailing_newlines:
  "n \<le> length s \<Longrightarrow> drop (length s - n) s = replicate n 10 \<Longrightarrow>
    (let m = numberOfTrailingNewlines s n in
     n \<le> m \<and> m \<le> length s \<and> drop (length s - m) s = replicate m 10 \<and>
     (m < length s \<longrightarrow> s ! (length s - (m + 1)) \<noteq> 10))"
proof (induction s n rule: numberOfTrailingNewlines.induct)
  case (1 s n)
  show ?case
  proof (cases "n < length s \<and> s ! (length s - (n + 1)) = 10")
    case True
    then have "drop (length s - (n + 1)) s = s ! (length s - (n + 1)) # drop (Suc (length s - (n + 1))) s"
      by (intro Cons_nth_drop_Suc [symmetric]) linarith
    then have "drop (length s - (n + 1)) s = replicate (n + 1) 10"
      using True "1.prems"(2) by (simp add: Suc_diff_Suc)
    with "1.IH" [OF True] True show ?thesis
      by (subst numberOfTrailingNewlines.simps) (auto simp: Let_def)
  next
    case False
    then show ?thesis using "1.prems" by (subst numberOfTrailingNewlines.simps) (auto simp: Let_def)
  qed
qed

text \<open>The text without the newlines at its end.\<close>

definition strip_newlines :: "jstr \<Rightarrow> jstr" where
  "strip_newlines s = rev (dropWhile (\<lambda>c. c = 10) (rev s))"

lemma strip_newlines_eq:
  "take (length s - numberOfTrailingNewlines s 0) s = strip_newlines s"
proof -
  define m where "m = numberOfTrailingNewlines s 0"
  have m: "m \<le> length s" "drop (length s - m) s = replicate m 10"
    "m < length s \<Longrightarrow> s ! (length s - (m + 1)) \<noteq> 10"
    using trailing_newlines [of 0 s] by (simp_all add: m_def Let_def)
  define r where "r = take (length s - m) s"
  have s: "s = r @ replicate m 10" using m(2) by (metis append_take_drop_id r_def)
  have "r = [] \<or> last r \<noteq> 10"
  proof (cases "m < length s")
    case True
    then show ?thesis using m(3) by (auto simp: r_def last_conv_nth nth_append)
  qed (simp add: r_def)
  then have "dropWhile (\<lambda>c. c = 10) (rev r) = rev r" by (cases r rule: rev_cases) simp_all
  moreover have "rev s = replicate m 10 @ rev r" by (simp add: s)
  moreover have "dropWhile (\<lambda>c. c = 10) (replicate m 10 @ rev r) = dropWhile (\<lambda>c. c = 10) (rev r)"
    by (rule dropWhile_append2) (simp add: in_set_replicate)
  ultimately have "strip_newlines s = r" by (simp add: strip_newlines_def)
  then show ?thesis by (simp add: r_def m_def)
qed

text \<open>The text of an element without line numbers and tooltips.\<close>

fun code_text :: "node \<Rightarrow> jstr" where
  "code_text (El k t cs a es) = concat (map (\<lambda>e. if is_margin e then [] else code_text e) es)"
| "code_text (Svg i) = []"
| "code_text (Tx s) = s"

fun prune :: "nat set \<Rightarrow> node \<Rightarrow> node" where
  "prune K (El k t cs a es) = El k t cs a (map (prune K) (filter (\<lambda>e. \<forall>k \<in> K. \<not> has_key k e) es))"
| "prune K d = d"

lemma has_key_prune [simp]: "has_key k (prune K e) = has_key k e"
  by (cases e) simp_all

lemma remove_prune: "remove_node k (prune K d) = prune (insert k K) d"
proof (induction d)
  case (El k' t cs a es)
  have "filter (\<lambda>e. \<not> has_key k e) (map (prune K) xs) = map (prune K) (filter (\<lambda>e. \<not> has_key k e) xs)" for xs
    by (simp add: filter_map o_def)
  with El.IH show ?case by (auto simp: conj_commute cong: filter_cong)
qed simp_all

lemma prune_none: "prune {} d = d"
  by (induction d) (auto intro!: map_idI)

lemma fold_remove: "fold remove_node ks (prune K d) = prune (K \<union> set ks) d"
  by (induction ks arbitrary: K) (auto simp: remove_prune)

lemma text_prune:
  assumes "\<And>e. e \<in> set (concat (map elements (child_nodes d))) \<Longrightarrow> node_key e \<in> K \<longleftrightarrow> is_margin e"
  shows "textContent (prune K d) = code_text d"
  using assms
proof (induction d)
  case (El k t cs a es)
  have "textContent (prune K e) = code_text e" if "e \<in> set es" for e
  proof (rule El.IH [OF that])
    fix x assume "x \<in> set (concat (map elements (child_nodes e)))"
    then have "x \<in> set (elements e)" by (cases e) auto
    with that show "node_key x \<in> K \<longleftrightarrow> is_margin x" by (intro El.prems) auto
  qed
  moreover have "(\<forall>k \<in> K. \<not> has_key k e) \<longleftrightarrow> \<not> is_margin e" if "e \<in> set es" for e
  proof (cases e)
    case e: (El k' t' cs' a' es')
    have "e \<in> set (elements e)" using e by simp
    with that have "e \<in> set (concat (map elements (child_nodes (El k t cs a es))))" by auto
    then have "node_key e \<in> K \<longleftrightarrow> is_margin e" by (rule El.prems)
    with e show ?thesis by auto
  qed (simp_all add: is_margin_def)
  ultimately have "map (textContent \<circ> prune K) (filter (\<lambda>e. \<forall>k \<in> K. \<not> has_key k e) xs) =
      map code_text (filter (\<lambda>e. \<not> is_margin e) xs)" if "set xs \<subseteq> set es" for xs
    using that by (induction xs) auto
  then have "map (textContent \<circ> prune K) (filter (\<lambda>e. \<forall>k \<in> K. \<not> has_key k e) es) =
      map code_text (filter (\<lambda>e. \<not> is_margin e) es)" by simp
  moreover have "concat (map code_text (filter (\<lambda>e. \<not> is_margin e) xs)) =
      concat (map (\<lambda>e. if is_margin e then [] else code_text e) xs)" for xs
    by (induction xs) auto
  ultimately show ?case by simp
qed simp_all

lemma text_to_copy_eq:
  assumes "\<And>x y. x \<in> set (elements d) \<Longrightarrow> y \<in> set (elements d) \<Longrightarrow> node_key x = node_key y \<Longrightarrow> is_margin x = is_margin y"
  shows "text_to_copy d = strip_newlines (code_text d)"
proof -
  have sub: "x \<in> set (elements d)" if "x \<in> set (concat (map elements (child_nodes d)))" for x
    using that by (cases d) auto
  have "fold (\<lambda>n. remove_node (node_key n)) (margin_notes d) d = fold remove_node (map node_key (margin_notes d)) (prune {} d)"
    by (simp add: fold_map o_def prune_none)
  also have "\<dots> = prune (node_key ` set (margin_notes d)) d" unfolding fold_remove by simp
  also have "textContent \<dots> = code_text d"
  proof (rule text_prune)
    fix e assume e: "e \<in> set (concat (map elements (child_nodes d)))"
    have m: "set (margin_notes d) = {x. x \<in> set (concat (map elements (child_nodes d))) \<and> is_margin x}"
      unfolding margin_notes_def by auto
    show "node_key e \<in> node_key ` set (margin_notes d) \<longleftrightarrow> is_margin e"
    proof
      assume "node_key e \<in> node_key ` set (margin_notes d)"
      then obtain x where "x \<in> set (concat (map elements (child_nodes d)))" "is_margin x" "node_key e = node_key x"
        unfolding m by blast
      then show "is_margin e" using assms [OF sub [OF e] sub] by simp
    next
      assume "is_margin e"
      with e show "node_key e \<in> node_key ` set (margin_notes d)" unfolding m by blast
    qed
  qed
  finally show ?thesis unfolding text_to_copy_def Let_def by (simp only: strip_newlines_eq)
qed

section \<open>A button and its fragment\<close>

lemma elements_wrap_with:
  "x \<in> set (elements (wrap_with g d)) \<Longrightarrow>
    (\<exists>y \<in> set (elements d). x = kept_in g y \<or>
      (\<exists>v. g (node_key y) = Some v \<and> (x = wrapper v [kept_in g y, copy_button (Suc v)] \<or> x = copy_button (Suc v))))"
proof (induction d)
  case (El k t cs a es)
  show ?case
  proof (cases "\<exists>e \<in> set es. x \<in> set (elements (wrap_with g e))")
    case True
    then obtain e where e: "e \<in> set es" "x \<in> set (elements (wrap_with g e))" by blast
    moreover have "set (elements e) \<subseteq> set (elements (El k t cs a es))" using e(1) by auto
    ultimately show ?thesis using El.IH by blast
  next
    case False
    with El.prems have "x = kept_in g (El k t cs a es) \<or>
        (\<exists>v. g k = Some v \<and> (x = wrapper v [kept_in g (El k t cs a es), copy_button (Suc v)] \<or> x = copy_button (Suc v)))"
      by (auto simp: Let_def wrapper_def copy_button_def split: if_splits option.splits)
    moreover have "El k t cs a es \<in> set (elements (El k t cs a es))" "node_key (El k t cs a es) = k" by simp_all
    ultimately show ?thesis by metis
  qed
qed simp_all

lemma wrapper_in_page:
  assumes "f \<in> set (elements d)" "js ''fragment'' \<in> set (classes f)" "g (node_key f) = Some v"
  shows "wrapper v [kept_in g f, copy_button (Suc v)] \<in> set (elements (wrap_with g d))"
  using assms(1)
proof (induction d)
  case (El k t cs a es)
  show ?case
  proof (cases "f = El k t cs a es")
    case True
    then show ?thesis using assms(2,3) by (simp add: Let_def wrapper_def)
  next
    case False
    with El obtain e where "e \<in> set es" "wrapper v [kept_in g f, copy_button (Suc v)] \<in> set (elements (wrap_with g e))"
      by auto
    then have "wrapper v [kept_in g f, copy_button (Suc v)] \<in> set (elements (El k t cs a (map (wrap_with g) es)))" by auto
    then show ?thesis by (auto simp: Let_def wrapper_def split: option.splits)
  qed
qed simp_all

lemma sibling_before_none: "\<forall>e \<in> set es. \<not> has_key b e \<Longrightarrow> sibling_before b es = None"
  by (induction b es rule: sibling_before.induct) auto

lemma child_nodes_wrapper: "child_nodes (wrapper w es) = es"
  by (simp add: wrapper_def)

lemma sibling_before_wrapper:
  "\<not> has_key b e \<Longrightarrow> sibling_before b [e, copy_button c] = (if c = b then Some e else None)"
  by (simp add: copy_button_def)

lemma code_text_wrap_with:
  "(if is_margin (wrap_with g d) then [] else code_text (wrap_with g d)) = (if is_margin d then [] else code_text d)"
proof (induction d)
  case (El k t cs a es)
  then have "map (\<lambda>e. if is_margin e then [] else code_text e) (map (wrap_with g) es) =
      map (\<lambda>e. if is_margin e then [] else code_text e) es"
    by simp
  then have "code_text (El k t cs a (map (wrap_with g) es)) = code_text (El k t cs a es)"
    by (simp only: code_text.simps)
  then show ?case
    by (auto simp: Let_def wrapper_def copy_button_def is_margin_def simp del: code_text.simps split: option.splits)
      (simp_all add: is_margin_def)
qed simp_all

lemma code_text_kept: "code_text (kept_in g d) = code_text d"
  by (cases d) (simp_all add: code_text_wrap_with o_def)

lemma has_key_wrap_with:
  "has_key b (wrap_with g e) \<Longrightarrow> has_key b e \<or> b \<in> ran g"
  by (cases e) (auto simp: Let_def wrapper_def intro: ranI split: if_splits option.splits)

lemma elements_trans: "e \<in> set (elements d) \<Longrightarrow> set (elements e) \<subseteq> set (elements d)"
  by (induction d) auto

lemma button_key_fresh:
  fixes j :: nat
  assumes "page_ok pg" "wrapped pg n g pg'" "y \<in> set (elements (document pg))"
  defines "b \<equiv> next_key pg + 2 * j + 1"
  shows "\<not> has_key b (kept_in g y)" "sibling_before b (child_nodes (kept_in g y)) = None"
proof -
  have no_ran: "b \<notin> ran g"
  proof
    assume "b \<in> ran g"
    with wrapped_ran [OF assms(2)] obtain i where "b = next_key pg + 2 * i" by blast
    then show False unfolding b_def by presburger
  qed
  have nb: "\<not> has_key b e" if "set (elements e) \<subseteq> set (elements (document pg))" for e
  proof
    assume "has_key b e"
    then have "e \<in> set (elements e)" "node_key e = b" by (cases e; simp)+
    with that have "b \<in> set (keys (document pg))" using elements_keys by fastforce
    with assms(1) show False by (auto simp: page_ok_def list_all_iff b_def)
  qed
  show "\<not> has_key b (kept_in g y)"
    using nb [OF elements_trans [OF assms(3)]] by (cases y) auto
  show "sibling_before b (child_nodes (kept_in g y)) = None"
  proof (cases y)
    case (El k t cs a es)
    have "\<not> has_key b (wrap_with g e)" if "e \<in> set es" for e
    proof
      assume "has_key b (wrap_with g e)"
      moreover have "\<not> has_key b e" using elements_trans [OF assms(3)] El that by (intro nb) auto
      ultimately show False using has_key_wrap_with no_ran by blast
    qed
    then show ?thesis using El by (simp add: sibling_before_none)
  qed simp_all
qed

lemma wrapped_inj:
  fixes pg
  defines "F \<equiv> getElementsByClassName (js ''fragment'') (document pg)"
  assumes "page_ok pg" "wrapped pg (length F) g pg'" "j < length F"
    and "y \<in> set (elements (document pg))" "g (node_key y) = Some (next_key pg + 2 * j)"
  shows "y = F ! j"
proof -
  from assms(6) have "node_key y \<in> dom g" by blast
  then obtain i where i: "i < length F" "node_key y = node_key (F ! i)"
    using assms(3) by (auto simp: wrapped_def Let_def F_def)
  with assms(3,6) have "i = j" by (auto simp: wrapped_def Let_def F_def)
  moreover have "F ! j \<in> set (elements (document pg))"
    using nth_mem [OF assms(4)] by (auto simp: F_def getElementsByClassName_def)
  ultimately show ?thesis
    using i assms(2,5) by (intro elements_same_key) (simp_all add: page_ok_def)
qed

lemma only_fragment_before_button:
  fixes pg
  defines "F \<equiv> getElementsByClassName (js ''fragment'') (document pg)"
  assumes "page_ok pg" "wrapped pg (length F) g pg'" "j < length F"
    and "x \<in> set (elements (wrap_with g (document pg)))"
    and "sibling_before (next_key pg + 2 * j + 1) (child_nodes x) = Some z"
  shows "z = kept_in g (F ! j)"
proof -
  from elements_wrap_with [OF assms(5)] obtain y where y: "y \<in> set (elements (document pg))"
    "x = kept_in g y \<or> (\<exists>v. g (node_key y) = Some v \<and> (x = wrapper v [kept_in g y, copy_button (Suc v)] \<or> x = copy_button (Suc v)))"
    by blast
  note fresh = button_key_fresh [OF assms(2,3) y(1)]
  consider "x = kept_in g y" | v where "x = copy_button (Suc v)"
    | v where "g (node_key y) = Some v" "x = wrapper v [kept_in g y, copy_button (Suc v)]" using y(2) by blast
  then show ?thesis
  proof cases
    case 1
    then show ?thesis using assms(6) fresh(2) by simp
  next
    case 2
    then show ?thesis using assms(6) by (simp add: copy_button_def)
  next
    case (3 v)
    with assms(6) have z: "Suc v = next_key pg + 2 * j + 1" "z = kept_in g y"
      by (simp_all only: child_nodes_wrapper sibling_before_wrapper [OF fresh(1)] option.distinct option.inject split: if_splits)
    with 3(1) have "y = F ! j" using wrapped_inj [OF assms(2)] assms(3,4) y(1) by (simp add: F_def)
    with z show ?thesis by simp
  qed
qed

lemma button_follows_fragment:
  fixes pg
  defines "F \<equiv> getElementsByClassName (js ''fragment'') (document pg)"
  assumes "page_ok pg" "wrapped pg (length F) g pg'" "j < length F"
  shows "previousSibling (next_key pg + 2 * j + 1) (document pg') = Some (kept_in g (F ! j))"
proof -
  let ?b = "next_key pg + 2 * j + 1" and ?v = "next_key pg + 2 * j"
  let ?w = "wrapper ?v [kept_in g (F ! j), copy_button (Suc ?v)]"
  let ?L = "filter (\<lambda>e. sibling_before ?b (child_nodes e) \<noteq> None) (elements (document pg'))"
  have doc: "document pg' = wrap_with g (document pg)" and gj: "g (node_key (F ! j)) = Some ?v"
    using assms(3,4) by (simp_all add: wrapped_def Let_def F_def)
  have f: "F ! j \<in> set (elements (document pg))" "js ''fragment'' \<in> set (classes (F ! j))"
    using nth_mem [OF assms(4)] by (auto simp: F_def getElementsByClassName_def)
  have "sibling_before ?b (child_nodes ?w) = Some (kept_in g (F ! j))"
    using sibling_before_wrapper [OF button_key_fresh(1) [OF assms(2,3) f(1)]] by (simp only: child_nodes_wrapper) simp
  then have "?w \<in> set ?L" using wrapper_in_page [where g = g, OF f gj] by (simp add: doc)
  then have "?L \<noteq> []" by (auto simp only: list.set empty_iff)
  then obtain e es where es: "?L = e # es" unfolding neq_Nil_conv by blast
  then have "e \<in> set ?L" by (simp only: list.set insert_iff simp_thms)
  then have e: "e \<in> set (elements (wrap_with g (document pg)))" "sibling_before ?b (child_nodes e) \<noteq> None"
    by (simp_all add: doc)
  then obtain z where z: "sibling_before ?b (child_nodes e) = Some z" by blast
  have "z = kept_in g (F ! j)"
    using only_fragment_before_button [OF assms(2) _ _ e(1) z] assms(3,4) by (simp add: F_def)
  then show ?thesis unfolding previousSibling_def es using z by simp
qed

lemma kept_margins:
  assumes "page_ok pg" "wrapped pg n g pg'" "f \<in> set (elements (document pg))"
    "x \<in> set (elements (kept_in g f))" "y \<in> set (elements (kept_in g f))" "node_key x = node_key y"
  shows "is_margin x = is_margin y"
proof -
  have small: "k \<in> set (keys (document pg)) \<Longrightarrow> k < next_key pg" for k
    using assms(1) by (simp add: page_ok_def list_all_iff)
  have in_page: "\<exists>u \<in> set (elements (document pg)). z = kept_in g u \<or> (\<not> is_margin z \<and> next_key pg \<le> node_key z)"
    if z: "z \<in> set (elements (kept_in g f))" for z
  proof (cases f)
    case (El k t cs a es)
    with z consider "z = kept_in g f" | e where "e \<in> set es" "z \<in> set (elements (wrap_with g e))" by auto
    then show ?thesis
    proof cases
      case 1
      then show ?thesis using assms(3) by blast
    next
      case (2 e)
      have sub: "set (elements e) \<subseteq> set (elements (document pg))"
        using elements_trans [OF assms(3)] El 2(1) by auto
      from elements_wrap_with [OF 2(2)] obtain u where u: "u \<in> set (elements e)"
        "z = kept_in g u \<or> (\<exists>v. g (node_key u) = Some v \<and> (z = wrapper v [kept_in g u, copy_button (Suc v)] \<or> z = copy_button (Suc v)))"
        by blast
      moreover have "next_key pg \<le> v" if "g (node_key u) = Some v" for v
        using wrapped_ran [OF assms(2) ranI [of g, OF that]] by auto
      ultimately have "z = kept_in g u \<or> (\<not> is_margin z \<and> next_key pg \<le> node_key z)"
        by (auto simp: wrapper_def copy_button_def is_margin_def)
      with u(1) sub show ?thesis by blast
    qed
  qed (use z in simp_all)
  obtain u where u: "u \<in> set (elements (document pg))"
    "x = kept_in g u \<or> (\<not> is_margin x \<and> next_key pg \<le> node_key x)" using in_page [OF assms(4)] by blast
  obtain v where v: "v \<in> set (elements (document pg))"
    "y = kept_in g v \<or> (\<not> is_margin y \<and> next_key pg \<le> node_key y)" using in_page [OF assms(5)] by blast
  have su: "node_key u < next_key pg" and sv: "node_key v < next_key pg"
    using small elements_keys u(1) v(1) by blast+
  show ?thesis
  proof (cases "x = kept_in g u \<and> y = kept_in g v")
    case True
    with assms(6) have "node_key u = node_key v" by simp
    then have "u = v" using assms(1) u(1) v(1) by (intro elements_same_key) (simp_all add: page_ok_def)
    with True show ?thesis by simp
  next
    case False
    with u(2) v(2) su sv assms(6) show ?thesis by auto
  qed
qed

text \<open>
  C15: On a page that has just been fitted with buttons, the button made for a fragment writes the
  text of that fragment, without its line numbers, tooltips and last newlines, or leaves the
  clipboard when the browser refuses, and shows its mark in both cases.
\<close>

theorem button_copies_its_fragment:
  fixes pg
  defines "F \<equiv> getElementsByClassName (js ''fragment'') (document pg)"
  assumes "page_ok pg" "j < length F"
  shows "\<exists>pg'. init_copy_buttons True pg = Some pg' \<and>
    copyContent allowed (next_key pg + 2 * j + 1) \<lparr>desk_page = document pg', clipboard = c, now = t, timers = ts\<rparr> =
      Some \<lparr>desk_page = show_success (next_key pg + 2 * j + 1) (document pg'),
        clipboard = (if allowed then Some (strip_newlines (code_text (F ! j))) else c), now = t,
        timers = ts @ [(t + successDuration, next_key pg + 2 * j + 1)]\<rparr>"
proof -
  from init_wraps [OF assms(2)] obtain pg' g where r: "init_copy_buttons True pg = Some pg'"
    "wrapped pg (length F) g pg'" unfolding F_def by blast
  have f: "F ! j \<in> set (elements (document pg))"
    using nth_mem [OF assms(3)] by (auto simp: F_def getElementsByClassName_def)
  have "text_to_copy (kept_in g (F ! j)) = strip_newlines (code_text (F ! j))"
    by (subst text_to_copy_eq, erule (2) kept_margins [OF assms(2) r(2) f]) (simp only: code_text_kept)
  moreover have "previousSibling (next_key pg + 2 * j + 1) (document pg') = Some (kept_in g (F ! j))"
    using button_follows_fragment [OF assms(2)] r(2) assms(3) by (simp add: F_def)
  ultimately show ?thesis using r(1) by (intro exI [of _ pg'] conjI) (simp_all only: copyContent_def option.case desk.simps)
qed

definition demo_page :: page where
  "demo_page = \<lparr>document = El 0 (js ''body'') [] []
     [El 1 (js ''div'') [js ''fragment''] [] [El 2 (js ''span'') [js ''lineno''] [] [Tx (js ''1'')], Tx (js ''int x;'' @ [10])]],
     next_key = 3\<rparr>"

lemma demo_page_facts:
  "page_ok demo_page"
  "getElementsByClassName (js ''fragment'') (document demo_page)
    = [El 1 (js ''div'') [js ''fragment''] [] [El 2 (js ''span'') [js ''lineno''] [] [Tx (js ''1'')], Tx (js ''int x;'' @ [10])]]"
  by (simp_all add: page_ok_def demo_page_def getElementsByClassName_def)

theorem every_fragment_gets_a_button_witness:
  "\<exists>pg'. init_copy_buttons True demo_page = Some pg' \<and> plain (document pg') = wrap_all (document demo_page)"
  using every_fragment_gets_a_button [OF demo_page_facts(1)] by blast

theorem button_copies_its_fragment_witness:
  "\<exists>pg' s. init_copy_buttons True demo_page = Some pg' \<and>
    copyContent True 4 \<lparr>desk_page = document pg', clipboard = None, now = 0, timers = []\<rparr> = Some s \<and>
    clipboard s = Some (js ''int x;'')"
proof -
  have "strip_newlines (js ''int x;'' @ [10]) = js ''int x;''"
    by (simp add: strip_newlines_def js_def)
  then show ?thesis
    using button_copies_its_fragment [OF demo_page_facts(1), of 0 True None 0 "[]"]
    by (auto simp: demo_page_facts is_margin_def) (simp add: demo_page_def)
qed

section \<open>The mark of a button\<close>

datatype desk_event = Click nat bool | Pass nat

text \<open>A click whose handler throws changes nothing.\<close>

fun desk_step :: "desk_event \<Rightarrow> desk \<Rightarrow> desk" where
  "desk_step (Click b allowed) s = (case copyContent allowed b s of None \<Rightarrow> s | Some s' \<Rightarrow> s')"
| "desk_step (Pass ms) s = pass_time ms s"

definition marked :: "node \<Rightarrow> bool" where
  "marked e \<longleftrightarrow> js ''success'' \<in> set (classes e)"

text \<open>What shows the mark shows the icon as well, and a timer that will end it is running.\<close>

definition desk_ok :: "desk \<Rightarrow> bool" where
  "desk_ok s \<longleftrightarrow>
     list_all (\<lambda>e. marked e \<longrightarrow> child_nodes e = [Svg successIcon] \<and> node_key e \<in> snd ` set (timers s)) (elements (desk_page s)) \<and>
     list_all (\<lambda>(due, b). now s < due \<and> due \<le> now s + successDuration) (timers s)"

lemma elements_set_element:
  assumes "x \<in> set (elements (set_element b f [Svg i] d))"
  shows "\<exists>y \<in> set (elements d). node_key x = node_key y \<and>
    (if node_key y = b then classes x = f (classes y) \<and> child_nodes x = [Svg i]
     else classes x = classes y \<and> child_nodes x = map (set_element b f [Svg i]) (child_nodes y))"
  using assms
proof (induction d)
  case (El k t cs a es)
  show ?case
  proof (cases "k \<noteq> b \<and> (\<exists>e \<in> set es. x \<in> set (elements (set_element b f [Svg i] e)))")
    case True
    then obtain e where e: "e \<in> set es" "x \<in> set (elements (set_element b f [Svg i] e))" by blast
    moreover have "set (elements e) \<subseteq> set (elements (El k t cs a es))" using e(1) by auto
    ultimately show ?thesis using El.IH by blast
  next
    case False
    with El.prems show ?thesis by (intro bexI [of _ "El k t cs a es"]) (auto split: if_splits)
  qed
qed simp_all

lemma desk_ok_click:
  assumes "desk_ok s" "copyContent allowed b s = Some s'"
  shows "desk_ok s'"
proof -
  have page: "desk_page s' = show_success b (desk_page s)" "timers s' = timers s @ [(now s + successDuration, b)]" "now s' = now s"
    using assms(2) by (auto simp: copyContent_def split: option.splits)
  have "child_nodes x = [Svg successIcon] \<and> node_key x \<in> insert b (snd ` set (timers s))"
    if "x \<in> set (elements (show_success b (desk_page s)))" "marked x" for x
  proof -
    from elements_set_element [OF that(1) [unfolded show_success_def]] obtain y where y: "y \<in> set (elements (desk_page s))"
      "node_key x = node_key y" "node_key y = b \<longrightarrow> child_nodes x = [Svg successIcon]"
      "node_key y \<noteq> b \<longrightarrow> classes x = classes y \<and>
        child_nodes x = map (set_element b (add_class (js ''success'')) [Svg successIcon]) (child_nodes y)"
      by (auto split: if_splits)
    show ?thesis
    proof (cases "node_key y = b")
      case False
      with y that(2) have "marked y" by (simp add: marked_def)
      with assms(1) y(1) have "child_nodes y = [Svg successIcon]" "node_key y \<in> snd ` set (timers s)"
        by (auto simp: desk_ok_def list_all_iff)
      with y False show ?thesis by simp
    qed (use y in simp)
  qed
  then show ?thesis using assms(1) by (auto simp: desk_ok_def page list_all_iff successDuration_def)
qed

lemma end_success_marked:
  assumes "x \<in> set (elements (end_success b d))" "marked x"
  shows "node_key x \<noteq> b \<and> (\<exists>y \<in> set (elements d). marked y \<and> node_key x = node_key y \<and>
    (child_nodes y = [Svg successIcon] \<longrightarrow> child_nodes x = [Svg successIcon]))"
proof -
  from elements_set_element [OF assms(1) [unfolded end_success_def]] obtain y where y: "y \<in> set (elements d)"
    "node_key x = node_key y" "node_key y = b \<longrightarrow> classes x = removeAll (js ''success'') (classes y)"
    "node_key y \<noteq> b \<longrightarrow> classes x = classes y \<and>
      child_nodes x = map (set_element b (removeAll (js ''success'')) [Svg copyIcon]) (child_nodes y)"
    by (auto split: if_splits)
  with assms(2) have "node_key y \<noteq> b" by (auto simp: marked_def)
  with y assms(2) show ?thesis by (auto simp: marked_def)
qed

lemma fold_end_success_marked:
  assumes "x \<in> set (elements (fold (\<lambda>(due, b). end_success b) ts d))" "marked x"
  shows "node_key x \<notin> snd ` set ts \<and> (\<exists>y \<in> set (elements d). marked y \<and> node_key x = node_key y \<and>
    (child_nodes y = [Svg successIcon] \<longrightarrow> child_nodes x = [Svg successIcon]))"
  using assms
proof (induction ts arbitrary: d)
  case (Cons t ts)
  obtain due b where t: "t = (due, b)" by (cases t)
  from Cons.IH [of "end_success b d"] Cons.prems t obtain y where y: "y \<in> set (elements (end_success b d))" "marked y"
    "node_key x = node_key y" "node_key x \<notin> snd ` set ts"
    "child_nodes y = [Svg successIcon] \<longrightarrow> child_nodes x = [Svg successIcon]" by auto
  with end_success_marked [OF y(1,2)] t show ?case by auto
qed auto

lemma desk_ok_pass:
  assumes "desk_ok s"
  shows "desk_ok (pass_time ms s)"
    and "successDuration \<le> ms \<Longrightarrow> e \<in> set (elements (desk_page (pass_time ms s))) \<Longrightarrow> \<not> marked e"
proof -
  have x: "child_nodes x = [Svg successIcon] \<and> node_key x \<in> snd ` set (timers (pass_time ms s))"
    if "x \<in> set (elements (desk_page (pass_time ms s)))" "marked x" for x
  proof -
    let ?due = "filter (\<lambda>(due, b). due \<le> now s + ms) (timers s)"
    from that(1) have "x \<in> set (elements (fold (\<lambda>(due, b). end_success b) ?due (desk_page s)))"
      by (simp add: pass_time_def Let_def)
    from fold_end_success_marked [OF this that(2)] obtain y where y: "node_key x \<notin> snd ` set ?due" "y \<in> set (elements (desk_page s))"
      "marked y" "node_key x = node_key y" "child_nodes y = [Svg successIcon] \<longrightarrow> child_nodes x = [Svg successIcon]" by blast
    with assms have "child_nodes y = [Svg successIcon]" "node_key y \<in> snd ` set (timers s)"
      by (auto simp: desk_ok_def list_all_iff)
    with y show ?thesis by (force simp: pass_time_def Let_def)
  qed
  then show "desk_ok (pass_time ms s)"
    using assms by (auto simp: desk_ok_def list_all_iff pass_time_def Let_def)
  show "\<not> marked e" if "successDuration \<le> ms" "e \<in> set (elements (desk_page (pass_time ms s)))"
  proof
    assume "marked e"
    with x [OF that(2)] obtain due b where "(due, b) \<in> set (timers s)" "now s + ms < due"
      by (auto simp: pass_time_def Let_def)
    with assms that(1) show False by (auto simp: desk_ok_def list_all_iff)
  qed
qed

lemma desk_ok_run: "desk_ok s \<Longrightarrow> desk_ok (fold desk_step evs s)"
proof (induction evs arbitrary: s)
  case (Cons ev evs)
  have "desk_ok (desk_step ev s)"
    using Cons.prems by (cases ev) (auto simp: desk_ok_pass(1) split: option.split dest: desk_ok_click)
  then show ?case using Cons.IH by simp
qed simp

text \<open>
  Whatever is clicked and whenever, only buttons with the icon of success carry the mark, and
  when nothing is clicked for \<open>successDuration\<close> no mark is left.
\<close>

theorem marks_end:
  assumes "list_all (\<lambda>e. \<not> marked e) (elements (desk_page s))" "timers s = []"
  shows "list_all (\<lambda>e. marked e \<longrightarrow> child_nodes e = [Svg successIcon]) (elements (desk_page (fold desk_step evs s)))"
    and "successDuration \<le> ms \<Longrightarrow>
      list_all (\<lambda>e. \<not> marked e) (elements (desk_page (desk_step (Pass ms) (fold desk_step evs s))))"
proof -
  have "desk_ok s" using assms by (simp add: desk_ok_def list_all_iff)
  from desk_ok_run [OF this, of evs] have ok: "desk_ok (fold desk_step evs s)" .
  then show "list_all (\<lambda>e. marked e \<longrightarrow> child_nodes e = [Svg successIcon]) (elements (desk_page (fold desk_step evs s)))"
    by (auto simp: desk_ok_def list_all_iff)
  show "list_all (\<lambda>e. \<not> marked e) (elements (desk_page (desk_step (Pass ms) (fold desk_step evs s))))"
    if "successDuration \<le> ms"
    using desk_ok_pass(2) [OF ok that] by (simp add: list_all_iff)
qed

lemma marks_end_witness:
  "list_all (\<lambda>e. \<not> marked e) (elements (desk_page (desk_step (Pass 980) (fold desk_step [Click 4 True, Pass 10, Click 4 True]
     \<lparr>desk_page = document demo_page, clipboard = None, now = 0, timers = []\<rparr>))))"
  by (rule marks_end(2)) (simp_all add: demo_page_def marked_def successDuration_def)

text \<open>
  A second copy within \<open>successDuration\<close> of the first does not show its mark for the whole of
  that time: the timer of the first copy ends it.
\<close>

theorem second_mark_cut_short:
  assumes "copyContent a b s = Some s'" "copyContent a' b (pass_time d s') = Some s''" "d < successDuration"
    and "e \<in> set (elements (desk_page (pass_time (successDuration - d) s'')))" "node_key e = b"
  shows "\<not> marked e"
proof
  assume "marked e"
  have t: "timers s' = timers s @ [(now s + successDuration, b)]" "now s' = now s"
    using assms(1) by (auto simp: copyContent_def split: option.splits)
  have "(now s + successDuration, b) \<in> set (timers (pass_time d s'))" "now (pass_time d s') = now s + d"
    using assms(3) t by (simp_all add: pass_time_def Let_def)
  then have t: "(now s + successDuration, b) \<in> set (timers s'')" "now s'' = now s + d"
    using assms(2) by (auto simp: copyContent_def split: option.splits)
  let ?due = "filter (\<lambda>(due, b). due \<le> now s'' + (successDuration - d)) (timers s'')"
  have "(now s + successDuration, b) \<in> set ?due" using t assms(3) by simp
  then have "b \<in> snd ` set ?due" by force
  moreover from assms(4) have "e \<in> set (elements (fold (\<lambda>(due, b). end_success b) ?due (desk_page s'')))"
    by (simp add: pass_time_def Let_def)
  ultimately show False using fold_end_success_marked [OF _ \<open>marked e\<close>] assms(5) by blast
qed

end
