(* ===== verification/ParagraphLink.thy ===== *)
theory ParagraphLink
  imports CopyButton
begin

text \<open>
  The permanent links of the headings (\<open>doxygen-awesome-paragraph-link.js\<close>): one link per
  anchor of the contents, added at the end of the element that holds the anchor.
\<close>

section \<open>The anchors\<close>

text \<open>
  \<open>querySelectorAll(".contents a.anchor[id], .contents .groupheader > a[id]")\<close> in document order:
  the identity of each anchor, its \<open>id\<close> and the identity of its parent. The flag says
  whether an element above has the class \<open>contents\<close>.
\<close>

fun anchor_id :: "bool \<Rightarrow> jstr list \<Rightarrow> node \<Rightarrow> jstr option" where
  "anchor_id in_contents parent_classes (El k t cs a es) =
     (if t = js ''a'' \<and>
         ((in_contents \<or> js ''contents'' \<in> set parent_classes) \<and> js ''anchor'' \<in> set cs \<or>
          in_contents \<and> js ''groupheader'' \<in> set parent_classes)
      then map_of a (js ''id'') else None)"
| "anchor_id in_contents parent_classes d = None"

fun anchors :: "bool \<Rightarrow> node \<Rightarrow> (nat \<times> jstr \<times> nat) list" where
  "anchors c (El k t cs a es) =
     concat (map (\<lambda>e. (case anchor_id c cs e of None \<Rightarrow> [] | Some i \<Rightarrow> [(node_key e, i, k)]) @
       anchors (c \<or> js ''contents'' \<in> set cs) e) es)"
| "anchors c d = []"

section \<open>Adding the links\<close>

definition anchorlink :: "nat \<Rightarrow> jstr \<Rightarrow> node" where
  "anchorlink l i = El l (js ''a'') [js ''anchorlink'']
     [(js ''href'', js ''#'' @ i), (js ''title'', js ''Permanent Link'')] [Svg linkIcon]"

fun add_class_to :: "nat \<Rightarrow> jstr \<Rightarrow> node \<Rightarrow> node" where
  "add_class_to k c (El k' t cs a es) =
     El k' t (if k' = k then add_class c cs else cs) a (map (add_class_to k c) es)"
| "add_class_to k c d = d"

definition add_link :: "nat \<times> jstr \<times> nat \<Rightarrow> page \<Rightarrow> page" where
  "add_link = (\<lambda>(node, i, parent) pg.
     let d = add_class_to node (js ''anchor'') (document pg);
         d = appendChild parent (anchorlink (next_key pg) i) d
     in pg\<lparr>document := d, next_key := next_key pg + 1\<rparr>)"

definition init_paragraph_links :: "page \<Rightarrow> page" where
  "init_paragraph_links pg = fold add_link (anchors False (document pg)) pg"

section \<open>The page with its links\<close>

text \<open>
  The page as it should be: every anchor has its class, and every element ends with the links
  of the anchors directly in it, in their order.
\<close>

fun with_links :: "bool \<Rightarrow> jstr list \<Rightarrow> node \<Rightarrow> node" where
  "with_links c ps (El k t cs a es) =
     El 0 t (if anchor_id c ps (El k t cs a es) = None then cs else add_class (js ''anchor'') cs) a
       (map (with_links (c \<or> js ''contents'' \<in> set ps) cs) es @
        map (anchorlink 0) (List.map_filter (anchor_id (c \<or> js ''contents'' \<in> set ps) cs) es))"
| "with_links c ps d = d"

section \<open>One link at a time\<close>

text \<open>The page with some anchors marked and some links at the end of each element.\<close>

fun link_with :: "nat set \<Rightarrow> (nat \<Rightarrow> node list) \<Rightarrow> node \<Rightarrow> node" where
  "link_with N lk (El k t cs a es) =
     El k t (if k \<in> N then add_class (js ''anchor'') cs else cs) a (map (link_with N lk) es @ lk k)"
| "link_with N lk d = d"

lemma add_class_idem [simp]: "add_class c (add_class c cs) = add_class c cs"
  by (simp add: add_class_def)

lemma link_step:
  assumes "\<And>k e. e \<in> set (lk k) \<Longrightarrow> add_class_to j (js ''anchor'') e = e \<and> appendChild p n e = e"
  shows "appendChild p n (add_class_to j (js ''anchor'') (link_with N lk d))
    = link_with (insert j N) (lk(p := lk p @ [n])) d"
proof (induction d)
  case (El k t cs a es)
  have "map (add_class_to j (js ''anchor'')) (lk k) = lk k" "map (appendChild p n) (lk k) = lk k"
    using assms by (auto intro!: map_idI)
  with El.IH show ?case by auto
qed simp_all

text \<open>The entries, each with the identity of the link made for it.\<close>

definition numbered :: "nat \<Rightarrow> (nat \<times> jstr \<times> nat) list \<Rightarrow> ((nat \<times> jstr \<times> nat) \<times> nat) list" where
  "numbered l A = zip A [l..<l + length A]"

definition links_of :: "nat \<Rightarrow> (nat \<times> jstr \<times> nat) list \<Rightarrow> nat \<Rightarrow> node list" where
  "links_of l A k = map (\<lambda>((j, i, p), l). anchorlink l i) (filter (\<lambda>((j, i, p), l). p = k) (numbered l A))"

lemma links_of_snoc:
  "links_of l (A @ [(j, i, p)]) = (links_of l A)(p := links_of l A p @ [anchorlink (l + length A) i])"
  by (rule ext) (simp add: links_of_def numbered_def)

lemma links_of_member: "e \<in> set (links_of l A k) \<Longrightarrow> \<exists>m i. l \<le> m \<and> e = anchorlink m i"
proof -
  assume "e \<in> set (links_of l A k)"
  then obtain j i p m where "((j, i, p), m) \<in> set (numbered l A)" "e = anchorlink m i"
    by (auto simp: links_of_def)
  moreover from this(1) have "l \<le> m" by (auto simp: numbered_def dest: set_zip_rightD)
  ultimately show ?thesis by blast
qed

lemma fold_add_link:
  assumes "\<forall>(j, i, p) \<in> set (A @ B). j < l \<and> p < l"
  shows "fold add_link B \<lparr>document = link_with (fst ` set A) (links_of l A) d, next_key = l + length A\<rparr>
    = \<lparr>document = link_with (fst ` set (A @ B)) (links_of l (A @ B)) d, next_key = l + length (A @ B)\<rparr>"
  using assms
proof (induction B arbitrary: A)
  case (Cons x B)
  obtain j i p where x: "x = (j, i, p)" by (cases x)
  with Cons.prems have b: "j < l" "p < l" by auto
  have "appendChild p (anchorlink (l + length A) i) (add_class_to j (js ''anchor'') (link_with (fst ` set A) (links_of l A) d))
      = link_with (insert j (fst ` set A)) ((links_of l A)(p := links_of l A p @ [anchorlink (l + length A) i])) d"
  proof (rule link_step)
    fix k e assume "e \<in> set (links_of l A k)"
    then obtain m i' where "l \<le> m" "e = anchorlink m i'" using links_of_member by blast
    with b show "add_class_to j (js ''anchor'') e = e \<and> appendChild p (anchorlink (l + length A) i) e = e"
      by (auto simp: anchorlink_def)
  qed
  then have "add_link x \<lparr>document = link_with (fst ` set A) (links_of l A) d, next_key = l + length A\<rparr>
      = \<lparr>document = link_with (fst ` set (A @ [x])) (links_of l (A @ [x])) d, next_key = l + length (A @ [x])\<rparr>"
    by (simp add: add_link_def x links_of_snoc)
  then show ?case using Cons.IH [of "A @ [x]"] Cons.prems by simp
qed simp

lemma link_with_none: "link_with {} (\<lambda>_. []) d = d"
  by (induction d) (auto intro!: map_idI)

section \<open>The anchors of a page\<close>

lemma anchor_id_el: "anchor_id c cs e = Some i \<Longrightarrow> node_key e \<in> set (keys e)"
  by (cases e) auto

lemma anchors_keys: "(j, i, p) \<in> set (anchors c d) \<Longrightarrow> j \<in> set (keys d) \<and> p \<in> set (keys d)"
proof (induction d arbitrary: c)
  case (El k t cs a es)
  then consider e where "e \<in> set es" "j = node_key e" "anchor_id c cs e = Some i" "p = k"
    | e where "e \<in> set es" "(j, i, p) \<in> set (anchors (c \<or> js ''contents'' \<in> set cs) e)"
    by (auto split: option.splits)
  then show ?case
  proof cases
    case 1
    then show ?thesis using anchor_id_el by fastforce
  next
    case 2
    then show ?thesis using El.IH by fastforce
  qed
qed simp_all

lemma anchors_below: "distinct (keys d) \<Longrightarrow> (j, i, p) \<in> set (anchors c d) \<Longrightarrow> j \<noteq> node_key d"
proof (cases d)
  case (El k t cs a es)
  assume d: "distinct (keys d)" and "(j, i, p) \<in> set (anchors c d)"
  with El consider e where "e \<in> set es" "j = node_key e" "anchor_id c cs e = Some i"
    | e where "e \<in> set es" "(j, i, p) \<in> set (anchors (c \<or> js ''contents'' \<in> set cs) e)"
    by (auto split: option.splits)
  then have "\<exists>e \<in> set es. j \<in> set (keys e)"
    by cases (use anchor_id_el anchors_keys in blast)+
  with d El show ?thesis by auto
qed simp_all

lemma keys_of_one_kid:
  assumes "distinct (concat (map keys es))" "e \<in> set es" "e' \<in> set es" "k \<in> set (keys e)" "k \<in> set (keys e')"
  shows "e = e'"
  using assms by (induction es) auto

text \<open>The entries of one element, and those of one of its children.\<close>

lemma anchors_own:
  assumes "distinct (keys (El k t cs a es))"
  shows "map (\<lambda>(j, i, p). i) (filter (\<lambda>(j, i, p). p = k) (anchors c (El k t cs a es))) = List.map_filter (anchor_id c cs) es"
proof -
  let ?c = "c \<or> js ''contents'' \<in> set cs"
  let ?own = "\<lambda>e. case anchor_id c cs e of None \<Rightarrow> [] | Some i \<Rightarrow> [(node_key e, i, k)]"
  have below: "filter (\<lambda>(j, i, p). p = k) (anchors ?c e) = []" if "e \<in> set es" for e
    using distinct_kids(2) [OF assms that] anchors_keys [of _ _ k ?c e] by (auto simp: filter_empty_conv)
  have own: "filter (\<lambda>(j, i, p). p = k) (?own e) = ?own e" for e by (simp split: option.split)
  have "filter (\<lambda>(j, i, p). p = k) (anchors c (El k t cs a es)) =
      concat (map (\<lambda>e. filter (\<lambda>(j, i, p). p = k) (?own e) @ filter (\<lambda>(j, i, p). p = k) (anchors ?c e)) es)"
    by (simp only: anchors.simps filter_concat map_map o_def filter_append)
  also have "\<dots> = concat (map ?own es)" unfolding own using below by (simp cong: map_cong)
  also have "map (\<lambda>(j, i, p). i) \<dots> = List.map_filter (anchor_id c cs) es"
    by (induction es) (simp_all add: map_filter_simps split: option.split)
  finally show ?thesis .
qed

lemma pick_kid:
  assumes "distinct (concat (map keys es))" "e \<in> set es" "k \<in> set (keys e)"
  shows "concat (map (\<lambda>e'. if e' = e then A else []) es) = A"
  using assms
proof (induction es)
  case (Cons x es)
  have "concat (map (\<lambda>e'. if e' = e then A else []) es) = []" if "e \<notin> set es"
    using that by (induction es) auto
  with Cons show ?case by auto
qed simp

lemma anchors_kid:
  assumes "distinct (keys (El k t cs a es))" "e \<in> set es"
  shows "filter (\<lambda>(j, i, p). p \<in> set (keys e)) (anchors c (El k t cs a es)) = anchors (c \<or> js ''contents'' \<in> set cs) e"
proof -
  let ?c = "c \<or> js ''contents'' \<in> set cs"
  let ?P = "\<lambda>(j, i, p). p \<in> set (keys e)"
  let ?own = "\<lambda>e. case anchor_id c cs e of None \<Rightarrow> [] | Some i \<Rightarrow> [(node_key e, i, k)]"
  have own: "filter ?P (?own e') = []" for e'
    using distinct_kids(2) [OF assms] by (simp split: option.split)
  have kids: "filter ?P (anchors ?c e') = (if e' = e then anchors ?c e else [])" if "e' \<in> set es" for e'
  proof (cases "e' = e")
    case True
    then show ?thesis using anchors_keys [of _ _ _ ?c e] by (auto simp: filter_id_conv)
  next
    case False
    have "p \<notin> set (keys e)" if p: "(j, i, p) \<in> set (anchors ?c e')" for j i p
      using anchors_keys [OF p] keys_of_one_kid [of es e e' p] assms \<open>e' \<in> set es\<close> False by auto
    with False show ?thesis by (auto simp: filter_empty_conv)
  qed
  have "filter ?P (anchors c (El k t cs a es)) = concat (map (\<lambda>e. filter ?P (?own e) @ filter ?P (anchors ?c e)) es)"
    by (simp only: anchors.simps filter_concat map_map o_def filter_append)
  also have "\<dots> = concat (map (\<lambda>e'. if e' = e then anchors ?c e else []) es)"
    unfolding own using kids by (simp cong: map_cong)
  also have "\<dots> = anchors ?c e"
  proof (cases "keys e")
    case Nil
    then have "anchors ?c e = []" by (cases e) simp_all
    then show ?thesis by auto
  next
    case (Cons k' ks)
    then show ?thesis using assms by (intro pick_kid [of es e k']) simp_all
  qed
  finally show ?thesis .
qed

section \<open>Every anchor gets its link\<close>

lemma plain_anchorlink [simp]: "plain (anchorlink l i) = anchorlink 0 i"
  by (simp add: anchorlink_def)

lemma plain_links:
  "map plain (links_of l A k) = map (anchorlink 0) (map (\<lambda>(j, i, p). i) (filter (\<lambda>(j, i, p). p = k) A))"
proof (induction A rule: rev_induct)
  case Nil
  show ?case by (simp add: links_of_def numbered_def)
next
  case (snoc x A)
  obtain j i p where "x = (j, i, p)" by (cases x)
  with snoc show ?case by (auto simp: links_of_snoc)
qed

lemma anchors_consider:
  assumes "(j, i, p) \<in> set (anchors c (El k t cs a es))"
  obtains e where "e \<in> set es" "j = node_key e" "anchor_id c cs e = Some i" "p = k"
    | e where "e \<in> set es" "(j, i, p) \<in> set (anchors (c \<or> js ''contents'' \<in> set cs) e)"
  using assms by (auto split: option.splits)

lemma anchors_in_kid:
  assumes "distinct (keys (El k t cs a es))" "e \<in> set es" "(j, i, p) \<in> set (anchors c (El k t cs a es))" "j \<in> set (keys e)"
  shows "j = node_key e \<and> anchor_id c cs e \<noteq> None \<or> j \<noteq> node_key e \<and> p \<in> set (keys e)"
proof -
  have d: "distinct (concat (map keys es))" using assms(1) by simp
  from assms(3) show ?thesis
  proof (cases rule: anchors_consider)
    case (1 e')
    then have "j \<in> set (keys e')" using anchor_id_el by blast
    then have "e' = e" using keys_of_one_kid [OF d 1(1) assms(2)] assms(4) by blast
    with 1 show ?thesis by simp
  next
    case (2 e')
    then have "e' = e" using keys_of_one_kid [OF d 2(1) assms(2)] anchors_keys [OF 2(2)] assms(4) by blast
    with 2 show ?thesis
      using anchors_keys [OF 2(2)] anchors_below [OF distinct_kids(1) [OF assms(1,2)]] by blast
  qed
qed

text \<open>What a list of entries holds about an element, in its context.\<close>

definition entries_ok :: "bool \<Rightarrow> jstr list \<Rightarrow> (nat \<times> jstr \<times> nat) list \<Rightarrow> node \<Rightarrow> bool" where
  "entries_ok c ps A d \<longleftrightarrow>
     filter (\<lambda>(j, i, p). p \<in> set (keys d)) A = anchors (c \<or> js ''contents'' \<in> set ps) d \<and>
     (\<forall>(j, i, p) \<in> set A. j \<in> set (keys d) \<longrightarrow> j \<noteq> node_key d \<longrightarrow> p \<in> set (keys d)) \<and>
     (keys d \<noteq> [] \<longrightarrow> (node_key d \<in> fst ` set A \<longleftrightarrow> anchor_id c ps d \<noteq> None))"

lemma entries_ok_kid:
  assumes "distinct (keys (El k t cs a es))" "entries_ok c ps A (El k t cs a es)" "e \<in> set es"
  shows "entries_ok (c \<or> js ''contents'' \<in> set ps) cs A e"
proof -
  let ?c = "c \<or> js ''contents'' \<in> set ps" and ?d = "El k t cs a es"
  have eq: "filter (\<lambda>(j, i, p). p \<in> set (keys ?d)) A = anchors ?c ?d"
    using assms(2) unfolding entries_ok_def by blast
  then have own: "x \<in> set (anchors ?c ?d) \<longleftrightarrow> x \<in> set A \<and> snd (snd x) \<in> set (keys ?d)" for x
    by (cases x) (auto simp flip: eq simp del: keys_simps anchors.simps)
  have sub: "set (keys e) \<subseteq> set (keys ?d)" using assms(3) by auto
  have "filter (\<lambda>(j, i, p). p \<in> set (keys e)) (filter (\<lambda>(j, i, p). p \<in> set (keys ?d)) A) = filter (\<lambda>(j, i, p). p \<in> set (keys e)) A"
    unfolding filter_filter using sub by (intro filter_cong) (auto simp del: keys_simps)
  then have "filter (\<lambda>(j, i, p). p \<in> set (keys e)) A = anchors (?c \<or> js ''contents'' \<in> set cs) e"
    unfolding eq anchors_kid [OF assms(1,3)] by (rule sym)
  moreover have in_kid: "j = node_key e \<and> anchor_id ?c cs e \<noteq> None \<or> j \<noteq> node_key e \<and> p \<in> set (keys e)"
    if a: "(j, i, p) \<in> set A" "j \<in> set (keys e)" for j i p
  proof -
    have "j \<noteq> node_key ?d" using a(2) distinct_kids(2) [OF assms(1,3)] by auto
    with a sub assms(2) have "p \<in> set (keys ?d)" unfolding entries_ok_def by blast
    with a(1) have "(j, i, p) \<in> set (anchors ?c ?d)" unfolding own by simp
    then show ?thesis by (rule anchors_in_kid [OF assms(1,3) _ a(2)])
  qed
  moreover have "node_key e \<in> fst ` set A \<longleftrightarrow> anchor_id ?c cs e \<noteq> None" if ne: "keys e \<noteq> []"
  proof
    have "node_key e \<in> set (keys e)" using ne by (cases e) auto
    moreover assume "node_key e \<in> fst ` set A"
    then obtain i p where "(node_key e, i, p) \<in> set A" by auto
    ultimately show "anchor_id ?c cs e \<noteq> None" using in_kid by blast
  next
    assume "anchor_id ?c cs e \<noteq> None"
    then obtain i where "anchor_id ?c cs e = Some i" by blast
    then have "(node_key e, i, k) \<in> set (anchors ?c ?d)" using assms(3) by (force split: option.split)
    then have "(node_key e, i, k) \<in> set A" unfolding own by simp
    then show "node_key e \<in> fst ` set A" by force
  qed
  ultimately show ?thesis unfolding entries_ok_def by blast
qed

lemma entries_own:
  assumes "distinct (keys (El k t cs a es))" "entries_ok c ps A (El k t cs a es)"
  shows "map plain (links_of l A k) = map (anchorlink 0) (List.map_filter (anchor_id (c \<or> js ''contents'' \<in> set ps) cs) es)"
proof -
  let ?c = "c \<or> js ''contents'' \<in> set ps" and ?d = "El k t cs a es"
  have eq: "filter (\<lambda>(j, i, p). p \<in> set (keys ?d)) A = anchors ?c ?d"
    using assms(2) unfolding entries_ok_def by blast
  have "filter (\<lambda>(j, i, p). p = k) (filter (\<lambda>(j, i, p). p \<in> set (keys ?d)) A) = filter (\<lambda>(j, i, p). p = k) A"
    unfolding filter_filter by (intro filter_cong) auto
  then have "map (\<lambda>(j, i, p). i) (filter (\<lambda>(j, i, p). p = k) A) = List.map_filter (anchor_id ?c cs) es"
    unfolding eq using anchors_own [OF assms(1)] by metis
  then show ?thesis by (simp only: plain_links)
qed

lemma plain_link_with:
  assumes "distinct (keys d)" "entries_ok c ps A d"
  shows "plain (link_with (fst ` set A) (links_of l A) d) = with_links c ps d"
  using assms
proof (induction d arbitrary: c ps)
  case (El k t cs a es)
  have "map (plain \<circ> link_with (fst ` set A) (links_of l A)) es = map (with_links (c \<or> js ''contents'' \<in> set ps) cs) es"
    using El.IH [OF _ distinct_kids(1) [OF El.prems(1)] entries_ok_kid [OF El.prems]] by simp
  moreover have "k \<in> fst ` set A \<longleftrightarrow> anchor_id c ps (El k t cs a es) \<noteq> None"
    using El.prems(2) by (simp add: entries_ok_def del: anchor_id.simps)
  ultimately show ?case
    using entries_own [OF El.prems, of l] by (simp del: anchor_id.simps)
qed simp_all

text \<open>
  C40: On every page whose elements are told apart by their identities, the script gives each anchor
  of the contents its class and one link to its own \<open>id\<close> at the end of the element around it, in
  the order of the anchors, and changes nothing else.
\<close>

theorem every_anchor_gets_its_link:
  assumes "distinct (keys (document pg))" "list_all (\<lambda>k. k < next_key pg) (keys (document pg))"
  shows "plain (document (init_paragraph_links pg)) = with_links False [] (document pg)"
proof -
  let ?d = "document pg" and ?A = "anchors False (document pg)"
  have "\<forall>(j, i, p) \<in> set ([] @ ?A). j < next_key pg \<and> p < next_key pg"
    using anchors_keys [of _ _ _ False ?d] assms(2) by (auto simp: list_all_iff)
  note fold_add_link [of "[]" ?A, OF this, where d = ?d]
  moreover have "links_of (next_key pg) [] = (\<lambda>_. [])" by (simp add: links_of_def numbered_def fun_eq_iff)
  moreover have "\<lparr>document = ?d, next_key = next_key pg\<rparr> = pg" by simp
  ultimately have d: "document (init_paragraph_links pg) = link_with (fst ` set ?A) (links_of (next_key pg) ?A) ?d"
    by (simp add: init_paragraph_links_def link_with_none)
  have below: "node_key ?d \<notin> fst ` set ?A" using anchors_below [OF assms(1)] by force
  show ?thesis
    unfolding d
  proof (rule plain_link_with [OF assms(1)])
    have "filter (\<lambda>(j, i, p). p \<in> set (keys ?d)) ?A = ?A"
      using anchors_keys [of _ _ _ False ?d] by (auto simp: filter_id_conv)
    moreover have "anchor_id False [] ?d = None" by (cases ?d) simp_all
    ultimately show "entries_ok False [] ?A ?d"
      using below anchors_keys [of _ _ _ False ?d] by (auto simp: entries_ok_def)
  qed
qed

definition demo_headings :: page where
  "demo_headings = \<lparr>document = El 0 (js ''body'') [] []
     [El 1 (js ''div'') [js ''contents''] []
       [El 2 (js ''h1'') [] [] [El 3 (js ''a'') [js ''anchor''] [(js ''id'', js ''intro'')] [], Tx (js ''Introduction'')]]],
     next_key = 4\<rparr>"

theorem every_anchor_gets_its_link_witness:
  "plain (document (init_paragraph_links demo_headings)) = El 0 (js ''body'') [] []
     [El 0 (js ''div'') [js ''contents''] []
       [El 0 (js ''h1'') [] [] [El 0 (js ''a'') [js ''anchor''] [(js ''id'', js ''intro'')] [], Tx (js ''Introduction''),
         anchorlink 0 (js ''intro'')]]]"
proof -
  have "plain (document (init_paragraph_links demo_headings)) = with_links False [] (document demo_headings)"
    by (rule every_anchor_gets_its_link) (simp_all add: demo_headings_def)
  also have "\<dots> = El 0 (js ''body'') [] []
     [El 0 (js ''div'') [js ''contents''] []
       [El 0 (js ''h1'') [] [] [El 0 (js ''a'') [js ''anchor''] [(js ''id'', js ''intro'')] [], Tx (js ''Introduction''),
         anchorlink 0 (js ''intro'')]]]"
    by (simp add: demo_headings_def map_filter_simps add_class_def)
  finally show ?thesis .
qed

end
