(* ===== verification/ServerCalls.thy ===== *)
theory ServerCalls
  imports TcpServer
begin

text \<open>
  What a TCP server tells its program and sends for it (\<open>set_callback\<close>, \<open>set_callback_newClient\<close> and
  \<open>send_data\<close> of \<open>include/com_client.hpp\<close> and \<open>include/tcp_client.hpp\<close>): the calls of the two
  callbacks beside the state of \<open>TcpServer\<close>.
\<close>

section \<open>Callbacks and sending\<close>

text \<open>Which of the two callbacks the program has set, and the calls that the server makes.\<close>

record callbacks =
  m_callback :: bool
  m_callback_newClient :: bool

datatype callback_call = OnData int "u8 list" | OnNewClient int

definition set_callback :: "bool \<Rightarrow> callbacks \<Rightarrow> callbacks" where
  "set_callback callback c = c\<lparr>m_callback := callback\<rparr>"

definition set_callback_newClient :: "bool \<Rightarrow> callbacks \<Rightarrow> callbacks" where
  "set_callback_newClient callback c = c\<lparr>m_callback_newClient := callback\<rparr>"

text \<open>A turn of a handler calls with the bytes it has just stored, a new connection with its socket.\<close>

definition handler_calls :: "callbacks \<Rightarrow> int \<Rightarrow> recv_outcome \<Rightarrow> callback_call list" where
  "handler_calls c s r =
     (case r of Bytes bs \<Rightarrow> if m_callback c then [OnData s bs] else [] | _ \<Rightarrow> [])"

definition accept_calls :: "callbacks \<Rightarrow> accept_outcome \<Rightarrow> tcp_server \<Rightarrow> callback_call list" where
  "accept_calls c a st =
     (case a of
        Connection s \<Rightarrow> if m_callback_newClient c \<and> \<not> terminated (accept_client s st) then [OnNewClient s] else []
      | _ \<Rightarrow> [])"

text \<open>\<open>send_data\<close>: the value it returns, and what is handed to the system.\<close>

definition send_data :: "u8 list \<Rightarrow> int \<Rightarrow> tcp_server \<Rightarrow> int \<times> (int \<times> u8 list) option" where
  "send_data buffer s st = (0, if s \<in> m_clients st then Some (s, buffer) else None)"

section \<open>The calls of a run\<close>

text \<open>Turns of the threads one after the other, with the calls they make.\<close>

datatype server_turn = Handler int recv_outcome | Accept accept_outcome

fun turn_state :: "server_turn \<Rightarrow> tcp_server \<Rightarrow> tcp_server" where
  "turn_state (Handler s r) st = handle_client s r st"
| "turn_state (Accept a) st = accept_turn a st"

fun turn_calls :: "callbacks \<Rightarrow> server_turn \<Rightarrow> tcp_server \<Rightarrow> callback_call list" where
  "turn_calls c (Handler s r) st = handler_calls c s r"
| "turn_calls c (Accept a) st = accept_calls c a st"

fun run_calls :: "callbacks \<Rightarrow> server_turn list \<Rightarrow> tcp_server \<Rightarrow> callback_call list" where
  "run_calls c [] st = []"
| "run_calls c (u # us) st = turn_calls c u st @ run_calls c us (turn_state u st)"

definition called_bytes :: "int \<Rightarrow> callback_call list \<Rightarrow> u8 list" where
  "called_bytes s cs = concat (map (\<lambda>x. case x of OnData s' bs \<Rightarrow> if s' = s then bs else [] | OnNewClient _ \<Rightarrow> []) cs)"

lemma called_bytes_simps [simp]:
  "called_bytes s [] = []" "called_bytes s (xs @ ys) = called_bytes s xs @ called_bytes s ys"
  "called_bytes s (OnData s' bs # cs) = (if s' = s then bs else []) @ called_bytes s cs"
  "called_bytes s (OnNewClient s' # cs) = called_bytes s cs"
  by (simp_all add: called_bytes_def)

lemma received_turn:
  assumes "m_callback c" "\<And>s'. u \<noteq> Accept (Connection s')"
  shows "received (turn_state u st) s = received st s @ called_bytes s (turn_calls c u st)"
  using assms
  by (cases u) (auto simp: handle_client_def handler_bytes_def handler_close_def closesocket_def handler_calls_def
    accept_turn_def accept_end_def accept_calls_def Let_def split: recv_outcome.splits accept_outcome.splits)

text \<open>
  While no new connection comes, a program that has set the callback is given, for every client, exactly the bytes that
  the server stores for that client, in their order: the callback gets what \<open>read_byte\<close> gets as well.
\<close>

theorem callback_gets_stored_bytes:
  assumes "m_callback c" "\<forall>s'. Accept (Connection s') \<notin> set us"
  shows "received (fold turn_state us st) s = received st s @ called_bytes s (run_calls c us st)"
  using assms(2)
proof (induction us arbitrary: st)
  case (Cons u us)
  then show ?case using received_turn [OF assms(1), of u st s] by auto
qed simp

theorem callback_gets_stored_bytes_witness:
  "received (fold turn_state [Handler 4 (Bytes [1]), Handler 5 (Bytes [2]), Handler 4 (Bytes [3])] new_server) 4 =
     received new_server 4 @ [1, 3]"
  using callback_gets_stored_bytes [of "\<lparr>m_callback = True, m_callback_newClient = False\<rparr>"
      "[Handler 4 (Bytes [1]), Handler 5 (Bytes [2]), Handler 4 (Bytes [3])]" new_server 4]
  by (simp add: handler_calls_def)

end
