(* ===== verification/MainProgram.thy ===== *)
theory MainProgram
  imports HttpClient Connection
begin

text \<open>
  The test program (\<open>src/main.cpp\<close>): the choice of the client from the first argument, its opening, and
  the loop, of which one turn sends a byte, reads into a buffer on the stack and shows samples.
\<close>

section \<open>The program\<close>

datatype main_mode = SerialMode | TcpMode | UdpMode | HttpMode

definition parse_mode :: "u8 list \<Rightarrow> main_mode option" where
  "parse_mode mode =
     (if mode = cstr ''serial'' then Some SerialMode
      else if mode = cstr ''tcp'' then Some TcpMode
      else if mode = cstr ''udp'' then Some UdpMode
      else if mode = cstr ''http'' then Some HttpMode
      else None)"

text \<open>The virtual functions of the client that was made; \<open>HTTP\<close> has those of \<open>TCP\<close>.\<close>

definition device_readS ::
  "endian \<Rightarrow> main_mode \<Rightarrow> client \<Rightarrow> u8 list \<Rightarrow> nat \<Rightarrow> bool \<Rightarrow> rx \<Rightarrow> ((fault + int \<times> u8 list) \<times> rx) option" where
  "device_readS en m c buf sz has_crc t =
     (case m of
        SerialMode \<Rightarrow> Serial_readS en c buf sz has_crc True t
      | TcpMode \<Rightarrow> TCP_readS en c buf sz has_crc True t
      | HttpMode \<Rightarrow> TCP_readS en c buf sz has_crc True t
      | UdpMode \<Rightarrow> UDP_readS en c buf sz has_crc True t)"

definition device_writeS ::
  "endian \<Rightarrow> send_call \<Rightarrow> main_mode \<Rightarrow> client \<Rightarrow> u8 list \<Rightarrow> nat \<Rightarrow> (fault + int \<times> u8 list \<times> u8 list)" where
  "device_writeS en send m c buf sz =
     (case m of
        SerialMode \<Rightarrow> Serial_writeS en send c buf sz False
      | TcpMode \<Rightarrow> TCP_writeS en send c buf sz False
      | HttpMode \<Rightarrow> TCP_writeS en send c buf sz False
      | UdpMode \<Rightarrow> UDP_writeS send buf sz False)"

text \<open>\<open>uint8_t buff[24] = {'1'}\<close>: the rest of the array is zero.\<close>

definition main_buffer :: "u8 list" where
  "main_buffer = 49 # replicate 23 0"

text \<open>\<open>((int32_t *)(buff))[i]\<close> for \<open>i\<close> from \<open>0\<close> to \<open>7\<close>; \<open>None\<close> when that is outside the buffer.\<close>

definition load32 :: "endian \<Rightarrow> u8 list \<Rightarrow> 32 word" where
  "load32 en bs = word_rcat (if en = Little then rev bs else bs)"

definition main_samples :: "endian \<Rightarrow> u8 list \<Rightarrow> 32 word list option" where
  "main_samples en buf =
     (if length buf < 32 then None
      else Some (map (\<lambda>i. load32 en (take 4 (drop (4 * i) buf))) [0..<8]))"

text \<open>One turn of the loop: the two numbers and the samples that it shows.\<close>

definition main_turn ::
  "endian \<Rightarrow> send_call \<Rightarrow> main_mode \<Rightarrow> client \<Rightarrow> rx \<Rightarrow> ((fault + int \<times> int \<times> 32 word list) \<times> rx) option" where
  "main_turn en send m c t =
     (case device_writeS en send m c main_buffer 1 of
        Inl e \<Rightarrow> Some (Inl e, t)
      | Inr (a, buff, _) \<Rightarrow>
          (case device_readS en m c buff 32 False t of
             None \<Rightarrow> None
           | Some (Inl e, t) \<Rightarrow> Some (Inl e, t)
           | Some (Inr (n, buff), t) \<Rightarrow>
               (case main_samples en buff of
                  None \<Rightarrow> Some (Inl OutOfBounds, t)
                | Some sample \<Rightarrow> Some (Inr (a, n, sample), t))))"

text \<open>
  The client is made and opened: \<open>opt\<close> is the port or the baud rate, and the flags are those of the serial
  line, or the number 1, which the other clients take as their time-out.
\<close>

definition main_open ::
  "net \<Rightarrow> devices \<Rightarrow> main_mode \<Rightarrow> u8 list \<Rightarrow> int \<Rightarrow> system \<Rightarrow> (open_error + int) \<times> client \<times> system" where
  "main_open net dev m path opt sys =
     (case m of
        SerialMode \<Rightarrow> Serial_open_connection dev path opt 0x102 (\<lparr>m_fd = 0, m_is_connected = False\<rparr>, sys)
      | UdpMode \<Rightarrow>
          (case UDP_open_connection net path opt 1 (\<lparr>m_fd = 0, m_is_connected = False, m_addr_to = (0, 0)\<rparr>, table sys) of
             (r, c, t) \<Rightarrow> (r, client.truncate c, sys\<lparr>table := t\<rparr>))
      | _ \<Rightarrow>
          (case TCP_open_connection net path opt 1 (new_tcp, table sys) of
             (r, c, t) \<Rightarrow> (r, client.truncate c, sys\<lparr>table := t\<rparr>)))"

text \<open>\<open>for(int t = 0;; t++)\<close>: it ends by a fault only.\<close>

partial_function (option) main_loop ::
  "endian \<Rightarrow> send_call \<Rightarrow> main_mode \<Rightarrow> client \<Rightarrow> rx \<Rightarrow> fault option" where
  "main_loop en send m c t =
     (case main_turn en send m c t of
        None \<Rightarrow> None
      | Some (Inl e, _) \<Rightarrow> Some e
      | Some (Inr _, t) \<Rightarrow> main_loop en send m c t)"

declare main_loop.simps [code]

text \<open>
  \<open>main\<close> with its arguments: it exits with 0 when there are too few, when the mode is not known, and when
  \<open>open_connection\<close> throws; the text of its exceptions is a \<open>std::string\<close>, which is caught.
\<close>

datatype main_end = Exits int | Fault fault

definition main_program ::
  "endian \<Rightarrow> net \<Rightarrow> devices \<Rightarrow> send_call \<Rightarrow> u8 list list \<Rightarrow> system \<Rightarrow> rx \<Rightarrow> main_end option" where
  "main_program en net dev send argv sys t =
     (if length argv < 4 then Some (Exits 0)
      else case parse_mode (argv ! 1) of
             None \<Rightarrow> Some (Exits 0)
           | Some m \<Rightarrow>
               (case main_open net dev m (argv ! 2) (to_int (strtol10 (c_string (argv ! 3)))) sys of
                  (Inl _, _, _) \<Rightarrow> Some (Exits 0)
                | (Inr _, c, _) \<Rightarrow> map_option Fault (main_loop en send m c t)))"

section \<open>A buffer that is too short\<close>

lemma write_at_length: "write_at buf n bs = Inr buf' \<Longrightarrow> length buf' = length buf"
  by (auto simp: write_at_def split: if_splits)

lemma write_at_end:
  "write_at buf n bs = Inr buf' \<Longrightarrow> n \<le> int (length buf) \<Longrightarrow> n + int (length bs) \<le> int (length buf)"
  by (auto simp: write_at_def split: if_splits)

lemma write_at_fault: "write_at buf n bs = Inl e \<Longrightarrow> e = OutOfBounds"
  by (auto simp: write_at_def split: if_splits)

lemma short_buffer_loop:
  assumes "read_loop recv sz n buf t = Some r" "n \<le> int (length buf)" "length buf < sz"
  shows "fst r = Inl OutOfBounds"
proof -
  let ?P = "\<lambda>recv sz n buf t (r :: (fault + int \<times> u8 list) \<times> rx).
    n \<le> int (length buf) \<longrightarrow> length buf < sz \<longrightarrow> fst r = Inl OutOfBounds"
  have "?P recv sz n buf t r"
  proof (rule read_loop.raw_induct [where P = ?P, OF _ assms(1)], intro impI, goal_cases)
    case (1 loop recv sz n buf t r)
    then have ne: "n \<noteq> int sz" by simp
    obtain res t' where call: "recv (nat (int sz - n)) t = (res, t')" by (cases "recv (nat (int sz - n)) t")
    show ?case
    proof (cases res)
      case None
      with 1(2) ne call have "loop recv sz (n - 1) buf t' = Some r" by simp
      from 1(1) [OF this] 1(3,4) show ?thesis by simp
    next
      case (Some bs)
      show ?thesis
      proof (cases "write_at buf n bs")
        case (Inl e)
        with 1(2) ne call Some write_at_fault [OF Inl] show ?thesis by auto
      next
        case (Inr buf')
        with 1(2) ne call Some have "loop recv sz (n + int (length bs)) buf' t' = Some r" by simp
        from 1(1) [OF this] write_at_end [OF Inr] write_at_length [OF Inr] 1(3,4) show ?thesis by simp
      qed
    qed
  qed
  then show ?thesis using assms(2,3) by simp
qed

text \<open>The first call of a read that asks for all bytes is a turn of the loop.\<close>

lemma read_bytes_is_loop: "sz \<noteq> 0 \<Longrightarrow> read_bytes recv sz True buf t = read_loop recv sz 0 buf t"
  by (subst read_loop.simps) (simp add: read_bytes_def split: prod.split option.split sum.split)

text \<open>Enough bytes of a stream end the loop.\<close>

lemma short_buffer_ends:
  assumes "no_fail t" "k \<le> length buf" "length buf < sz" "length buf < k + length (bytes_of t)"
  shows "read_loop stream_recv sz (int k) buf t \<noteq> None"
  using assms
proof (induction "tape_size t" arbitrary: t k buf rule: less_induct)
  case less
  obtain bs t' where call: "stream_recv (sz - k) t = (Some bs, t')" "bytes_of t = bs @ bytes_of t'" "no_fail t'"
    "t \<noteq> [] \<Longrightarrow> tape_size t' < tape_size t"
    using stream_recv_carries [OF less.prems(1), of "sz - k"] less.prems(2,3)
    by (metis order.strict_trans1 zero_less_diff)
  have "t \<noteq> []" using less.prems(2,4) by auto
  have ne: "int k \<noteq> int sz" "nat (int sz - int k) = sz - k" using less.prems(2,3) by simp_all
  show ?case
  proof (cases "write_at buf (int k) bs")
    case (Inl e)
    then show ?thesis using ne call(1) by (subst read_loop.simps) simp
  next
    case (Inr buf')
    have len: "length buf' = length buf" "k + length bs \<le> length buf"
      using write_at_length [OF Inr] write_at_end [OF Inr] less.prems(2) by simp_all
    have "read_loop stream_recv sz (int (k + length bs)) buf' t' \<noteq> None"
      using less.prems(3,4) len call(2,3) by (intro less.hyps call(4) \<open>t \<noteq> []\<close>) simp_all
    then show ?thesis using ne call(1) Inr by (subst read_loop.simps) simp
  qed
qed

section \<open>The read of the program\<close>

lemma main_buffer_length: "length main_buffer = 24"
  by (simp add: main_buffer_def)

text \<open>
  The program reads 32 bytes into a buffer of 24: whatever arrives, and however, the read of a
  client that \<open>open_connection\<close> has connected never returns. It writes outside the buffer, or it does not end; once a
  connection has delivered more than 24 bytes it has written outside the buffer.
\<close>

theorem main_turn_overruns_buffer:
  assumes "m = UdpMode \<or> m_is_connected c"
  shows "(\<forall>r t'. main_turn en send m c t \<noteq> Some (Inr r, t')) \<and>
    (\<forall>r. device_readS en m c main_buffer 32 False t = Some r \<longrightarrow> fst r = Inl OutOfBounds) \<and>
    (m \<noteq> UdpMode \<longrightarrow> no_fail t \<longrightarrow> 24 < length (bytes_of t) \<longrightarrow> (\<exists>t'. main_turn en send m c t = Some (Inl OutOfBounds, t')))"
proof -
  have read: "fst r = Inl OutOfBounds" if "device_readS en m c main_buffer 32 False t = Some r" for r
  proof -
    have "\<exists>recv q. read_bytes recv 32 True main_buffer t = Some q \<and> r = finish_read en 32 False q"
      using that assms by (auto simp: device_readS_def Serial_readS_def TCP_readS_def UDP_readS_def split: main_mode.splits)
    then obtain recv q where q: "read_bytes recv 32 True main_buffer t = Some q" "r = finish_read en 32 False q" by blast
    then have "fst q = Inl OutOfBounds" using short_buffer_loop [of recv 32 0 main_buffer t q] by (simp add: read_bytes_is_loop main_buffer_length)
    then show ?thesis using q(2) by (cases q) (simp add: finish_read_def)
  qed
  have sent: "device_writeS en send m c main_buffer 1 = Inr (to_int (send [49]), main_buffer, [49])"
    using assms by (cases m) (simp_all add: device_writeS_def Serial_writeS_def TCP_writeS_def UDP_writeS_def
      stream_writeS_def send_prefix_def main_buffer_def)
  have turn: "main_turn en send m c t = map_option (\<lambda>r. (Inl OutOfBounds, snd r)) (device_readS en m c main_buffer 32 False t)"
    unfolding main_turn_def sent using read by (auto split: option.splits sum.splits)
  have "device_readS en m c main_buffer 32 False t \<noteq> None" if "m \<noteq> UdpMode" "no_fail t" "24 < length (bytes_of t)"
  proof -
    have "read_bytes stream_recv 32 True main_buffer t \<noteq> None"
      using short_buffer_ends [of t 0 main_buffer 32] that(2,3) by (simp add: read_bytes_is_loop main_buffer_length)
    then show ?thesis using that(1) assms
      by (cases m) (auto simp: device_readS_def Serial_readS_def TCP_readS_def)
  qed
  then show ?thesis
    unfolding turn using read by (cases "device_readS en m c main_buffer 32 False t") auto
qed

theorem main_turn_overruns_buffer_witness:
  "\<exists>t'. main_turn Little (\<lambda>bs. int (length bs)) TcpMode \<lparr>m_fd = 3, m_is_connected = True\<rparr> [Chunk (replicate 32 7)] = Some (Inl OutOfBounds, t')"
  using main_turn_overruns_buffer [of TcpMode "\<lparr>m_fd = 3, m_is_connected = True\<rparr>" Little "\<lambda>bs. int (length bs)" "[Chunk (replicate 32 7)]"]
  by simp

section \<open>The program\<close>

lemma main_opened:
  assumes "main_open net dev m path opt sys = (Inr n, c, sys')"
  shows "m = UdpMode \<or> m_is_connected c"
proof -
  have tcp: "m_is_connected c'" if "TCP_open_connection net path opt 1 s = (Inr n, c', t')" for c' t' s
    using that TCP_open_flag(1) [of net path opt 1 "fst s" "snd s"] by auto
  show ?thesis
  proof (cases m)
    case SerialMode
    then show ?thesis using assms
      by (auto simp: main_open_def Serial_open_connection_def Let_def split: prod.splits if_splits option.splits)
  qed (use assms tcp in \<open>auto simp: main_open_def client.truncate_def split: prod.splits\<close>)
qed

text \<open>
  C13: The program never shows a sample: called with a mode and an address that can be opened, whatever
  arrives, it does not come back from its first turn. It writes outside its buffer, or it waits for ever, and on a
  connection that delivers more than 24 bytes it does write outside. Called otherwise it exits with 0, and that is
  the only way in which it exits.
\<close>

theorem main_program_never_works:
  fixes argv :: "u8 list list"
  defines "opt \<equiv> to_int (strtol10 (c_string (argv ! 3)))"
  shows "(main_program en net dev send argv sys t = Some (Exits k) \<longleftrightarrow>
      k = 0 \<and> (\<forall>m n c sys'. 4 \<le> length argv \<and> parse_mode (argv ! 1) = Some m \<longrightarrow>
        main_open net dev m (argv ! 2) opt sys \<noteq> (Inr n, c, sys'))) \<and>
    (\<forall>m n c sys'. 4 \<le> length argv \<and> parse_mode (argv ! 1) = Some m \<and>
      main_open net dev m (argv ! 2) opt sys = (Inr n, c, sys') \<longrightarrow>
        (\<forall>r t'. main_turn en send m c t \<noteq> Some (Inr r, t')) \<and>
        (m \<noteq> UdpMode \<and> no_fail t \<and> 24 < length (bytes_of t) \<longrightarrow>
           main_program en net dev send argv sys t = Some (Fault OutOfBounds)))"
proof (intro conjI allI impI)
  show "main_program en net dev send argv sys t = Some (Exits k) \<longleftrightarrow>
      k = 0 \<and> (\<forall>m n c sys'. 4 \<le> length argv \<and> parse_mode (argv ! 1) = Some m \<longrightarrow>
        main_open net dev m (argv ! 2) opt sys \<noteq> (Inr n, c, sys'))"
    unfolding opt_def main_program_def by (auto split: option.splits sum.splits prod.splits)
next
  fix m n c sys'
  assume o: "4 \<le> length argv \<and> parse_mode (argv ! 1) = Some m \<and> main_open net dev m (argv ! 2) opt sys = (Inr n, c, sys')"
  note turn = main_turn_overruns_buffer [OF main_opened, of net dev m "argv ! 2" opt sys n c sys' en send t]
  show "main_turn en send m c t \<noteq> Some (Inr r, t')" for r t' using turn o by blast
  assume more: "m \<noteq> UdpMode \<and> no_fail t \<and> 24 < length (bytes_of t)"
  then obtain t' where "main_turn en send m c t = Some (Inl OutOfBounds, t')" using turn o by blast
  then have "main_loop en send m c t = Some OutOfBounds" by (subst main_loop.simps) simp
  then show "main_program en net dev send argv sys t = Some (Fault OutOfBounds)"
    using o by (simp add: main_program_def opt_def)
qed

theorem main_program_never_works_witness:
  "main_program Little (refusing\<lparr>connect_errno := (\<lambda>_ _. None)\<rparr>) one_line (\<lambda>bs. int (length bs))
     [cstr ''com'', cstr ''tcp'', cstr ''h'', cstr ''80''] \<lparr>table = [], ttys = (\<lambda>_. plain_tty)\<rparr> [Chunk (replicate 32 7)]
   = Some (Fault OutOfBounds)"
proof -
  let ?net = "refusing\<lparr>connect_errno := (\<lambda>_ _. None)\<rparr>" and ?argv = "[cstr ''com'', cstr ''tcp'', cstr ''h'', cstr ''80'']"
  let ?sys = "\<lparr>table = [], ttys = (\<lambda>_. plain_tty)\<rparr> :: system"
  have mode: "parse_mode (?argv ! 1) = Some TcpMode" by (simp add: parse_mode_def cstr_def)
  have "fst (main_open ?net one_line TcpMode (?argv ! 2) opt ?sys) = Inr 1" for opt
    by (simp add: main_open_def TCP_open_connection_def sys_socket_def refusing_def await_connection_def check_socket_def
        split: prod.split)
  then obtain c sys' where "main_open ?net one_line TcpMode (?argv ! 2) (to_int (strtol10 (c_string (?argv ! 3)))) ?sys = (Inr 1, c, sys')"
    by (metis prod.collapse)
  moreover have "no_fail [Chunk (replicate 32 7)]" "24 < length (bytes_of [Chunk (replicate 32 7)])" by simp_all
  ultimately show ?thesis
    using main_program_never_works [of Little ?net one_line "\<lambda>bs. int (length bs)" ?argv ?sys "[Chunk (replicate 32 7)]" 0] mode
    by auto
qed

end
