(* ===== verification/BoardCode.thy ===== *)
theory BoardCode
  imports HttpClient
begin

text \<open>
  The programs beside the library: the Arduino program that scans 64 analog inputs
  (\<open>src/arduino/arduino.ino\<close>), the channel-hopping sniffer (\<open>misc/esp32c3_module/esp32c3_module.ino\<close>)
  and the tool that hands out network credentials (\<open>src/main_testESP32.cpp\<close>). What the
  Arduino, ESP32 and Boost libraries give (readings, clocks, outcomes of calls) are arguments.
\<close>

section \<open>The scanning board\<close>

text \<open>
  The board: the level of every pin and whether it is an output, the array \<open>vals\<close>, the
  milliseconds spent in \<open>delay\<close> and the bytes written to the serial line.
\<close>

record board =
  levels :: "nat \<Rightarrow> bool"
  outputs :: "nat \<Rightarrow> bool"
  vals :: "u16 list"
  clock :: nat
  written :: "u8 list"

definition pinMode_OUTPUT :: "nat \<Rightarrow> board \<Rightarrow> board" where
  "pinMode_OUTPUT p b = b\<lparr>outputs := (outputs b)(p := True)\<rparr>"

definition digitalWrite :: "nat \<Rightarrow> bool \<Rightarrow> board \<Rightarrow> board" where
  "digitalWrite p v b = b\<lparr>levels := (levels b)(p := v)\<rparr>"

definition delay :: "nat \<Rightarrow> board \<Rightarrow> board" where
  "delay ms b = b\<lparr>clock := clock b + ms\<rparr>"

definition Serial_write :: "u8 list \<Rightarrow> board \<Rightarrow> board" where
  "Serial_write bs b = b\<lparr>written := written b @ bs\<rparr>"

text \<open>
  \<open>Serial.read()\<close> gives the next byte, or \<open>-1\<close> when none has arrived. A \<open>char\<close> holds eight
  bits; whether it is signed depends on the compiler.
\<close>

definition Serial_read :: "u8 option \<Rightarrow> int" where
  "Serial_read arrived = (case arrived of None \<Rightarrow> -1 | Some b \<Rightarrow> uint b)"

definition char_value :: "bool \<Rightarrow> u8 \<Rightarrow> int" where
  "char_value char_signed c = (if char_signed then sint c else uint c)"

text \<open>\<open>while (c != 0xbb) c = Serial.read()\<close>: the number of reads done when it ends.\<close>

partial_function (option) wait_start :: "bool \<Rightarrow> (nat \<Rightarrow> u8 option) \<Rightarrow> nat \<Rightarrow> u8 \<Rightarrow> nat option" where
  "wait_start char_signed polls k c =
     (if char_value char_signed c \<noteq> 0xbb then wait_start char_signed polls (Suc k) (word_of_int (Serial_read (polls k)))
      else Some k)"

declare wait_start.simps [code]

text \<open>\<open>setup\<close>; \<open>c0\<close> is what the uninitialised \<open>c\<close> holds. \<open>None\<close> when the wait does not end.\<close>

definition setup_pins :: "board \<Rightarrow> board" where
  "setup_pins b =
     (let b = foldl (\<lambda>b i. pinMode_OUTPUT i b) b [50..<55];
          b = foldl (\<lambda>b i. digitalWrite (i + 50) False b) b [0..<4];
          b = digitalWrite 49 True (pinMode_OUTPUT 49 b);
          b = digitalWrite 13 False (pinMode_OUTPUT 13 b)
      in Serial_write [0x40] (delay 10 b))"

definition board_setup :: "bool \<Rightarrow> (nat \<Rightarrow> u8 option) \<Rightarrow> u8 \<Rightarrow> board \<Rightarrow> (board \<times> nat) option" where
  "board_setup char_signed polls c0 b =
     (case wait_start char_signed polls 0 c0 of
        None \<Rightarrow> None
      | Some k \<Rightarrow> Some (digitalWrite 13 True (setup_pins b), k))"

text \<open>
  \<open>analogRead(i)\<close> depends on the levels of the pins, which select the input, and on the time.
\<close>

type_synonym adc = "(nat \<Rightarrow> bool) \<Rightarrow> nat \<Rightarrow> nat \<Rightarrow> int"

definition select_address :: "nat \<Rightarrow> board \<Rightarrow> board" where
  "select_address a b = foldl (\<lambda>b i. digitalWrite (i + 50) (odd (a div 2 ^ i)) b) b [0..<4]"

definition read_inputs :: "adc \<Rightarrow> nat \<Rightarrow> board \<Rightarrow> board" where
  "read_inputs analogRead a b =
     foldl (\<lambda>b i. b\<lparr>vals := (vals b)[i + a * 8 := word_of_int (analogRead (levels b) (clock b) i)]\<rparr>) b [0..<8]"

definition scan_address :: "adc \<Rightarrow> board \<Rightarrow> nat \<Rightarrow> board" where
  "scan_address analogRead b a = read_inputs analogRead a (delay 10 (select_address a b))"

text \<open>The bytes of the array in memory.\<close>

definition bytes16 :: "endian \<Rightarrow> u16 \<Rightarrow> u8 list" where
  "bytes16 en w = (if en = Little then [ucast w, ucast (drop_bit 8 w)] else [ucast (drop_bit 8 w), ucast w])"

text \<open>\<open>loop\<close>: with the bytes that have arrived, and those that are left.\<close>

definition board_loop :: "endian \<Rightarrow> adc \<Rightarrow> u8 list \<Rightarrow> board \<Rightarrow> board \<times> u8 list" where
  "board_loop en analogRead arrived b =
     (case arrived of
        [] \<Rightarrow> (b, [])
      | c # rest \<Rightarrow>
          (let b = foldl (scan_address analogRead) b [0..<8]
           in (delay 100 (Serial_write (take 128 (concat (map (bytes16 en) (vals b)))) b), rest)))"

section \<open>The handshake\<close>

lemma wait_never:
  assumes "\<forall>c. char_value char_signed c \<noteq> 0xbb"
  shows "wait_start char_signed polls k c = None"
proof (rule ccontr)
  assume "wait_start char_signed polls k c \<noteq> None"
  then obtain n where n: "wait_start char_signed polls k c = Some n" by blast
  let ?P = "\<lambda>s (_ :: nat \<Rightarrow> u8 option) (_ :: nat) (_ :: u8) (_ :: nat). s \<noteq> char_signed"
  have "?P char_signed polls k c n"
  proof (rule wait_start.raw_induct [where P = ?P, OF _ n], intro notI, goal_cases)
    case (1 loop s polls k c m)
    with assms have "loop s polls (Suc k) (word_of_int (Serial_read (polls k))) = Some m" by simp
    from 1(1) [OF this] 1(3) show False by simp
  qed
  then show False by simp
qed

lemma char_value_signed: "char_value True c \<noteq> 0xbb"
  using sint_less [of c] by (simp add: char_value_def)

lemma char_value_unsigned: "char_value False c = 0xbb \<longleftrightarrow> c = 0xbb"
  by (simp add: char_value_def word_eq_iff_unsigned [where 'a = int])

lemma read_start_byte: "word_of_int (Serial_read p) = (0xbb :: u8) \<longleftrightarrow> p = Some 0xbb"
  by (cases p) (simp_all add: Serial_read_def)

lemma wait_found:
  assumes "polls (k + n) = Some 0xbb"
  shows "wait_start False polls k c \<noteq> None"
  using assms
proof (induction n arbitrary: k c)
  case 0
  then have "word_of_int (Serial_read (polls k)) = (0xbb :: u8)" by (simp add: read_start_byte)
  then show ?case by (subst wait_start.simps, subst wait_start.simps) (simp add: char_value_unsigned)
next
  case (Suc n)
  then show ?case using Suc.IH [of "Suc k"] by (subst wait_start.simps) simp
qed

lemma wait_only_found:
  assumes "wait_start False polls k c = Some m"
  shows "k \<le> m \<and> (m = k \<longleftrightarrow> c = 0xbb) \<and> (k < m \<longrightarrow> polls (m - 1) = Some 0xbb) \<and>
    (\<forall>j. k \<le> j \<and> Suc j < m \<longrightarrow> polls j \<noteq> Some 0xbb)"
proof -
  let ?Q = "\<lambda>polls k c m. k \<le> m \<and> (m = k \<longleftrightarrow> c = (0xbb :: u8)) \<and> (k < m \<longrightarrow> polls (m - 1) = Some (0xbb :: u8)) \<and>
    (\<forall>j. k \<le> j \<and> Suc j < m \<longrightarrow> polls j \<noteq> Some 0xbb)"
  let ?P = "\<lambda>s polls k c m. \<not> s \<longrightarrow> ?Q polls k c m"
  have "?P False polls k c m"
  proof (rule wait_start.raw_induct [where P = ?P, OF _ assms], intro impI, goal_cases)
    case (1 loop s polls k c m)
    show ?case
    proof (cases "c = 0xbb")
      case True
      with 1(2,3) show ?thesis by (auto simp: char_value_unsigned)
    next
      case False
      with 1(2,3) have "loop s polls (Suc k) (word_of_int (Serial_read (polls k))) = Some m"
        by (simp add: char_value_unsigned)
      from 1(1) [OF this] 1(3) have IH: "Suc k \<le> m" "m = Suc k \<longleftrightarrow> polls k = Some 0xbb"
        "Suc k < m \<longrightarrow> polls (m - 1) = Some 0xbb" "\<And>j. Suc k \<le> j \<Longrightarrow> Suc j < m \<Longrightarrow> polls j \<noteq> Some 0xbb"
        by (simp_all add: read_start_byte)
      have "polls j \<noteq> Some 0xbb" if "k \<le> j" "Suc j < m" for j
        using IH(2) IH(4) [of j] that by (cases "j = k") auto
      moreover have "polls (m - 1) = Some 0xbb" using IH(1-3) by (cases "m = Suc k") auto
      ultimately show ?thesis using IH(1) False by auto
    qed
  qed
  then show ?thesis by simp
qed

text \<open>
  C23: On a board whose compiler has signed characters the program never gets past its set-up,
  whatever is sent. With unsigned characters it gets past it exactly when the start byte
  arrives (unless the variable happens to hold it), right after the first one; the board
  then has told that it waits and its lamp is on.
\<close>

theorem board_waits_for_start:
  "board_setup True polls c0 b = None \<and>
   (board_setup False polls c0 b \<noteq> None \<longleftrightarrow> c0 = 0xbb \<or> (\<exists>j. polls j = Some 0xbb)) \<and>
   (\<forall>b' k. board_setup False polls c0 b = Some (b', k) \<longrightarrow>
      (c0 = 0xbb \<and> k = 0 \<or> 0 < k \<and> polls (k - 1) = Some 0xbb) \<and> (\<forall>j. Suc j < k \<longrightarrow> polls j \<noteq> Some 0xbb) \<and>
      written b' = written b @ [0x40] \<and> levels b' 13 \<and> (\<forall>p \<in> {50..54}. outputs b' p))"
proof (intro conjI allI impI)
  show "board_setup True polls c0 b = None"
    using wait_never char_value_signed by (simp add: board_setup_def)
  have "wait_start False polls 0 0xbb \<noteq> None" by (subst wait_start.simps) (simp add: char_value_unsigned)
  then show "board_setup False polls c0 b \<noteq> None \<longleftrightarrow> c0 = 0xbb \<or> (\<exists>j. polls j = Some 0xbb)"
    using wait_found [of polls 0] wait_only_found [of polls 0 c0] by (fastforce simp: board_setup_def split: option.splits)
next
  fix b' k
  assume "board_setup False polls c0 b = Some (b', k)"
  then have k: "wait_start False polls 0 c0 = Some k" and b': "b' = digitalWrite 13 True (setup_pins b)"
    by (simp_all add: board_setup_def split: option.splits)
  show "c0 = 0xbb \<and> k = 0 \<or> 0 < k \<and> polls (k - 1) = Some 0xbb" "Suc j < k \<Longrightarrow> polls j \<noteq> Some 0xbb" for j
    using wait_only_found [OF k] by auto
  show "written b' = written b @ [0x40]" "levels b' 13" "\<forall>p \<in> {50..54}. outputs b' p"
    by (auto simp: b' setup_pins_def digitalWrite_def pinMode_OUTPUT_def Serial_write_def delay_def upt_rec Let_def)
qed

definition idle_board :: board where
  "idle_board = \<lparr>levels = (\<lambda>_. False), outputs = (\<lambda>_. False), vals = replicate 64 0, clock = 0, written = []\<rparr>"

theorem board_waits_for_start_witness:
  "board_setup True (\<lambda>_. Some 0xbb) 0 idle_board = None \<and>
   (\<exists>b k. board_setup False (\<lambda>j. if j = 2 then Some 0xbb else None) 0 idle_board = Some (b, k) \<and> 0 < k \<and>
      written b = [0x40])"
proof -
  have "(if (2 :: nat) = 2 then Some (0xbb :: u8) else None) = Some 0xbb" by simp
  then have "board_setup False (\<lambda>j. if j = 2 then Some 0xbb else None) 0 idle_board \<noteq> None"
    using board_waits_for_start [of "\<lambda>j. if j = 2 then Some 0xbb else None" 0 idle_board] by metis
  then show ?thesis
    using board_waits_for_start [of "\<lambda>_. Some 0xbb" 0 idle_board]
      board_waits_for_start [of "\<lambda>j. if j = 2 then Some 0xbb else None" 0 idle_board]
    by (auto simp: idle_board_def)
qed

section \<open>One scan\<close>

text \<open>The levels while input \<open>a\<close> of the multiplexers is selected.\<close>

definition address_pins :: "nat \<Rightarrow> (nat \<Rightarrow> bool) \<Rightarrow> nat \<Rightarrow> bool" where
  "address_pins a l = l(50 := odd a, 51 := odd (a div 2), 52 := odd (a div 4), 53 := odd (a div 8))"

text \<open>The number at position \<open>j\<close> of an array of 16-bit integers in memory.\<close>

definition sample16 :: "endian \<Rightarrow> u8 list \<Rightarrow> nat \<Rightarrow> u16" where
  "sample16 en bs j =
     (let x = ucast (bs ! (2 * j)); y = ucast (bs ! (2 * j + 1))
      in if en = Little then x OR push_bit 8 y else push_bit 8 x OR y)"

lemma address_pins_again [simp]: "address_pins a (address_pins a' l) = address_pins a l"
  by (auto simp: address_pins_def)

lemma select_address_eq: "select_address a b = b\<lparr>levels := address_pins a (levels b)\<rparr>"
  by (simp add: select_address_def digitalWrite_def address_pins_def upt_rec)

lemma nth_foldl_update:
  assumes "d + n \<le> length v"
  shows "foldl (\<lambda>v i. v[i + d := f i]) v [0..<n] ! j = (if d \<le> j \<and> j < d + n then f (j - d) else v ! j)"
  using assms
proof (induction n)
  case (Suc n)
  have "length (foldl (\<lambda>v i. v[i + d := f i]) v [0..<n]) = length v"
    by (rule foldl_invariant [where P = "\<lambda>s. length s = length v"]) simp_all
  with Suc show ?case by (auto simp: nth_list_update)
qed auto

lemma read_inputs_eq:
  "read_inputs adc a b = b\<lparr>vals := foldl (\<lambda>v i. v[i + a * 8 := word_of_int (adc (levels b) (clock b) i)]) (vals b) [0..<8]\<rparr>"
  by (simp add: read_inputs_def upt_rec)

text \<open>What holds after the inputs below \<open>n\<close> have been read, from the board \<open>b0\<close>.\<close>

definition scanned :: "adc \<Rightarrow> board \<Rightarrow> nat \<Rightarrow> board \<Rightarrow> bool" where
  "scanned adc b0 n b \<longleftrightarrow>
     (\<forall>a. address_pins a (levels b) = address_pins a (levels b0)) \<and> clock b = clock b0 + 10 * n \<and>
     written b = written b0 \<and> outputs b = outputs b0 \<and> length (vals b) = 64 \<and>
     (\<forall>j < 8 * n. vals b ! j =
        word_of_int (adc (address_pins (j div 8) (levels b0)) (clock b0 + 10 * (j div 8 + 1)) (j mod 8)))"

lemma scan_address_scanned:
  assumes "scanned adc b0 n b" "n < 8"
  shows "scanned adc b0 (Suc n) (scan_address adc b n)"
proof -
  let ?b = "scan_address adc b n"
  have b: "levels ?b = address_pins n (levels b)" "clock ?b = clock b + 10" "written ?b = written b" "outputs ?b = outputs b"
    by (simp_all add: scan_address_def read_inputs_eq select_address_eq delay_def)
  have v: "vals ?b = foldl (\<lambda>v i. v[i + n * 8 := word_of_int (adc (address_pins n (levels b)) (clock b + 10) i)]) (vals b) [0..<8]"
    by (simp add: scan_address_def read_inputs_eq select_address_eq delay_def)
  have "vals ?b ! j = word_of_int (adc (address_pins (j div 8) (levels b0)) (clock b0 + 10 * (j div 8 + 1)) (j mod 8))"
    if "j < 8 * Suc n" for j
  proof (cases "j < 8 * n")
    case True
    then show ?thesis using assms by (simp add: v nth_foldl_update scanned_def)
  next
    case False
    then have j: "j div 8 = n" using that by (intro div_nat_eqI) simp_all
    then have m: "j mod 8 = j - n * 8" using minus_div_mult_eq_mod [of j 8] by simp
    have "vals ?b ! j = word_of_int (adc (address_pins n (levels b)) (clock b + 10) (j - n * 8))"
      using assms False that by (simp add: v nth_foldl_update scanned_def)
    then show ?thesis using assms(1) by (simp only: j m scanned_def) (simp add: algebra_simps)
  qed
  moreover have "length (vals ?b) = 64"
    unfolding v by (rule foldl_invariant [where P = "\<lambda>s. length s = 64"]) (use assms in \<open>simp_all add: scanned_def\<close>)
  ultimately show ?thesis using assms(1) b by (simp add: scanned_def)
qed

lemma scan_scanned:
  assumes "length (vals b) = 64"
  shows "n \<le> 8 \<Longrightarrow> scanned adc b n (foldl (scan_address adc) b [0..<n])"
proof (induction n)
  case 0
  then show ?case using assms by (simp add: scanned_def)
next
  case (Suc n)
  then show ?case using scan_address_scanned by simp
qed

section \<open>The bytes of a scan\<close>

lemma bytes16_length [simp]: "length (bytes16 en w) = 2"
  by (simp add: bytes16_def)

lemma bytes16_all_length [simp]: "length (concat (map (bytes16 en) ws)) = 2 * length ws"
  by (induction ws) simp_all

lemma u16_halves: "ucast (ucast w :: u8) OR push_bit 8 (ucast (ucast (drop_bit 8 w) :: u8)) = (w :: u16)"
proof (rule u16_eqI)
  fix n :: nat
  assume "n < 16"
  then show "bit (ucast (ucast w :: u8) OR push_bit 8 (ucast (ucast (drop_bit 8 w) :: u8)) :: u16) n = bit w n"
    by (cases "n < 8") (auto simp: bit_or_iff bit_push_bit_u16 bit_ucast_u8_u16 bit_ucast_iff bit_drop_bit_eq)
qed

lemma bytes16_all_nth:
  "j < length ws \<Longrightarrow> concat (map (bytes16 en) ws) ! (2 * j + i) = bytes16 en (ws ! j) ! i" if "i < 2"
proof (induction ws arbitrary: j)
  case (Cons w ws)
  then show ?case using that by (cases j) (simp_all add: nth_append)
qed simp

lemma sample16_bytes16:
  assumes "j < length ws"
  shows "sample16 en (concat (map (bytes16 en) ws) @ zs) j = ws ! j"
  using bytes16_all_nth [OF _ assms, of 0 en] bytes16_all_nth [OF _ assms, of 1 en] assms u16_halves [of "ws ! j"]
  by (auto simp: sample16_def Let_def nth_append bytes16_def or.commute)

lemma sint_reading: "0 \<le> x \<Longrightarrow> x < 1024 \<Longrightarrow> sint (word_of_int x :: u16) = x"
  by (simp add: int_word_sint)

lemma board_loop_writes:
  assumes "length (vals b) = 64"
  obtains ws where "length ws = 64" "board_loop en adc (q # qs) b = (b', left) \<Longrightarrow>
      left = qs \<and> written b' = written b @ concat (map (bytes16 en) ws) \<and> vals b' = ws \<and> clock b' = clock b + 180"
    "\<And>a i. a < 8 \<Longrightarrow> i < 8 \<Longrightarrow>
      ws ! (8 * a + i) = word_of_int (adc (address_pins a (levels b)) (clock b + 10 * (a + 1)) i)"
proof -
  let ?b = "foldl (scan_address adc) b [0..<8]"
  have s: "scanned adc b 8 ?b" using scan_scanned [OF assms, of 8] by simp
  show thesis
  proof (rule that [of "vals ?b"])
    show "length (vals ?b) = 64" using s by (simp add: scanned_def)
    then show "board_loop en adc (q # qs) b = (b', left) \<Longrightarrow>
      left = qs \<and> written b' = written b @ concat (map (bytes16 en) (vals ?b)) \<and> vals b' = vals ?b \<and> clock b' = clock b + 180"
      using s by (auto simp: board_loop_def Let_def delay_def Serial_write_def scanned_def)
    fix a i :: nat
    assume "a < 8" "i < 8"
    then have "8 * a + i < 8 * 8" "(8 * a + i) div 8 = a" "(8 * a + i) mod 8 = i" by simp_all
    then show "vals ?b ! (8 * a + i) = word_of_int (adc (address_pins a (levels b)) (clock b + 10 * (a + 1)) i)"
      using s unfolding scanned_def by metis
  qed
qed

text \<open>
  C14: A scan of the board reaches the computer: one turn of the board's loop answers a byte
  with 128 bytes, and a client that is connected to the serial line and reads 128 bytes gets,
  however the line cuts them, at position \<open>8 * a + i\<close> the reading of analog input \<open>i\<close> that was
  taken while the multiplexers were at address \<open>a\<close>, ten milliseconds after they were set.
\<close>

theorem board_samples_reach_client:
  assumes "board_loop en analogRead (q # qs) b = (b', left)" "length (vals b) = 64"
    and "\<forall>l k i. 0 \<le> analogRead l k i \<and> analogRead l k i < 1024"
    and "m_is_connected c" "no_fail t" "bytes_of t = drop (length (written b)) (written b')" "128 \<le> length buf"
  shows "\<exists>data t'. Serial_readS en' c buf 128 False True t = Some (Inr (128, data), t') \<and> left = qs \<and> bytes_of t' = [] \<and>
    (\<forall>a < 8. \<forall>i < 8. sint (sample16 en data (8 * a + i))
       = analogRead (address_pins a (levels b)) (clock b + 10 * (a + 1)) i)"
proof -
  obtain ws where ws: "length ws = 64" "left = qs" "written b' = written b @ concat (map (bytes16 en) ws)"
    "\<And>a i. a < 8 \<Longrightarrow> i < 8 \<Longrightarrow> ws ! (8 * a + i) = word_of_int (analogRead (address_pins a (levels b)) (clock b + 10 * (a + 1)) i)"
    using board_loop_writes [OF assms(2), of en analogRead q qs b' left] assms(1) by metis
  have bytes: "bytes_of t = concat (map (bytes16 en) ws)" using assms(6) ws(3) by simp
  obtain t' where t': "read_bytes stream_recv 128 True buf t
      = Some (Inr (128, concat (map (bytes16 en) ws) @ drop 128 buf), t')" "bytes_of t' = []"
    using read_bytes_fills [OF assms(5) _ assms(7)] bytes ws(1) by auto
  have "sint (sample16 en (concat (map (bytes16 en) ws) @ drop 128 buf) (8 * a + i))
      = analogRead (address_pins a (levels b)) (clock b + 10 * (a + 1)) i" if "a < 8" "i < 8" for a i
  proof -
    have "8 * a + i < length ws" using that ws(1) by simp
    then have "sample16 en (concat (map (bytes16 en) ws) @ drop 128 buf) (8 * a + i)
        = word_of_int (analogRead (address_pins a (levels b)) (clock b + 10 * (a + 1)) i)"
      using sample16_bytes16 ws(4) [OF that] by metis
    then show ?thesis
      using assms(3) by (simp add: sint_reading)
  qed
  then show ?thesis
    using t' assms(4) ws(2) to_int_small [of 128] by (simp add: Serial_readS_def finish_read_def)
qed

text \<open>A reading that tells the selected input and the address apart.\<close>

definition demo_reading :: adc where
  "demo_reading l ms i = int ((100 * i + ms) mod 1024)"

theorem board_samples_reach_client_witness:
  "\<exists>data t'. Serial_readS Little \<lparr>m_fd = 3, m_is_connected = True\<rparr> (replicate 128 0) 128 False True
      [Chunk (take 5 (written (fst (board_loop Little demo_reading [1] idle_board)))),
       Chunk (drop 5 (written (fst (board_loop Little demo_reading [1] idle_board))))]
     = Some (Inr (128, data), t') \<and> sint (sample16 Little data 13) = 520"
proof -
  let ?bs = "written (fst (board_loop Little demo_reading [1] idle_board))"
  have "board_loop Little demo_reading (1 # []) idle_board
      = (fst (board_loop Little demo_reading [1] idle_board), snd (board_loop Little demo_reading [1] idle_board))" by simp
  note reach = board_samples_reach_client [OF this, of "\<lparr>m_fd = 3, m_is_connected = True\<rparr>"
      "[Chunk (take 5 ?bs), Chunk (drop 5 ?bs)]" "replicate 128 0" Little]
  have "length (vals idle_board) = 64" "\<forall>l k i. 0 \<le> demo_reading l k i \<and> demo_reading l k i < 1024"
    "m_is_connected \<lparr>m_fd = 3, m_is_connected = True\<rparr>" "no_fail [Chunk (take 5 ?bs), Chunk (drop 5 ?bs)]"
    "bytes_of [Chunk (take 5 ?bs), Chunk (drop 5 ?bs)] = drop (length (written idle_board)) ?bs"
    "128 \<le> length (replicate 128 (0 :: u8))"
    by (simp_all add: idle_board_def demo_reading_def)
  from reach [OF this] obtain data t' where s: "Serial_readS Little \<lparr>m_fd = 3, m_is_connected = True\<rparr> (replicate 128 0) 128 False True
      [Chunk (take 5 ?bs), Chunk (drop 5 ?bs)] = Some (Inr (128, data), t')"
    and d: "\<forall>a < 8. \<forall>i < 8. sint (sample16 Little data (8 * a + i))
       = demo_reading (address_pins a (levels idle_board)) (clock idle_board + 10 * (a + 1)) i" by blast
  have "sint (sample16 Little data 13) = 520"
    using d [rule_format, of 1 5] by (simp add: demo_reading_def idle_board_def)
  with s show ?thesis by blast
qed

section \<open>The channel-hopping sniffer\<close>

text \<open>
  \<open>unsigned long\<close> and \<open>millis()\<close> have 32 bits on the ESP32. \<open>tuned\<close> are the channels that
  \<open>esp_wifi_set_channel\<close> was called with.
\<close>

record sniffer =
  currentChannel :: u8
  lastHop :: "32 word"
  tuned :: "u8 list"

definition sniffer_start :: sniffer where
  "sniffer_start = \<lparr>currentChannel = 1, lastHop = 0, tuned = []\<rparr>"

definition sniffer_setup :: "sniffer \<Rightarrow> sniffer" where
  "sniffer_setup s = s\<lparr>tuned := tuned s @ [currentChannel s]\<rparr>"

definition hopChannel :: "sniffer \<Rightarrow> sniffer" where
  "hopChannel s =
     (let c = currentChannel s + 1; c = if c > 13 then 1 else c
      in s\<lparr>currentChannel := c, tuned := tuned s @ [c]\<rparr>)"

text \<open>\<open>loop\<close>, with what its two calls of \<open>millis()\<close> give.\<close>

definition sniffer_loop :: "32 word \<Rightarrow> 32 word \<Rightarrow> sniffer \<Rightarrow> sniffer" where
  "sniffer_loop m1 m2 s = (if m1 - lastHop s > 1000 then hopChannel (s\<lparr>lastHop := m2\<rparr>) else s)"

definition sniffer_run :: "(nat \<times> nat) list \<Rightarrow> sniffer" where
  "sniffer_run ts = foldl (\<lambda>s (t1, t2). sniffer_loop (of_nat t1) (of_nat t2) s) (sniffer_setup sniffer_start) ts"

text \<open>The same with a clock that does not wrap: the time of the last hop and the hops so far.\<close>

fun hops :: "nat \<Rightarrow> (nat \<times> nat) list \<Rightarrow> nat" where
  "hops since [] = 0"
| "hops since ((t1, t2) # ts) = (if t1 - since > 1000 then Suc (hops t2 ts) else hops since ts)"

text \<open>The loop is entered again before the clock has gone a quarter round.\<close>

fun polled :: "nat \<Rightarrow> (nat \<times> nat) list \<Rightarrow> bool" where
  "polled now [] = True"
| "polled now ((t1, t2) # ts) \<longleftrightarrow> now \<le> t1 \<and> t1 \<le> t2 \<and> t2 - now < 2 ^ 30 \<and> polled t2 ts"

text \<open>The channel after \<open>n\<close> hops.\<close>

definition channel_of :: "nat \<Rightarrow> u8" where
  "channel_of n = of_nat (n mod 13 + 1)"

definition on_channel :: "nat \<Rightarrow> sniffer \<Rightarrow> bool" where
  "on_channel n s \<longleftrightarrow> currentChannel s = channel_of n \<and> tuned s = map channel_of [0..<Suc n]"

lemma channel_of_Suc:
  "(if channel_of n + 1 > 13 then 1 else channel_of n + 1) = channel_of (Suc n)"
proof -
  let ?m = "n mod 13"
  have wrap: "Suc n mod 13 = (if ?m = 12 then 0 else Suc ?m)" by (simp add: mod_Suc)
  have succ: "channel_of n + 1 = of_nat (?m + 2)" by (simp add: channel_of_def)
  have "?m < 13" by simp
  then have "(?m + 2) mod 2 ^ 8 = ?m + 2" by (intro mod_less) simp
  then have "unat (of_nat (?m + 2) :: u8) = ?m + 2" by (simp only: unat_of_nat len_bit0 len_num1) simp
  then have "(of_nat (?m + 2) :: u8) > 13 \<longleftrightarrow> ?m = 12" using \<open>?m < 13\<close> by (auto simp: word_less_nat_alt)
  then show ?thesis unfolding succ by (cases "?m = 12") (simp_all add: channel_of_def wrap)
qed

lemma hop_on_channel: "on_channel n s \<Longrightarrow> on_channel (Suc n) (hopChannel (s\<lparr>lastHop := m\<rparr>))"
  using channel_of_Suc [of n] by (simp add: on_channel_def hopChannel_def Let_def)

lemma wrapped_elapsed:
  assumes "since \<le> now" "now - since < 2 ^ 32"
  shows "(of_nat now - of_nat since :: 32 word) > 1000 \<longleftrightarrow> now - since > 1000"
proof -
  have "(of_nat now - of_nat since :: 32 word) = of_nat (now - since)" using assms(1) by (simp add: of_nat_diff)
  then show ?thesis using assms(2) by (simp add: word_less_nat_alt unat_of_nat)
qed

lemma sniffer_run_hops:
  assumes "polled now ts" "since \<le> now" "now - since < 2 ^ 30 + 1001" "lastHop s = of_nat since" "on_channel n s"
  shows "on_channel (n + hops since ts) (foldl (\<lambda>s (t1, t2). sniffer_loop (of_nat t1) (of_nat t2) s) s ts)"
  using assms
proof (induction since ts arbitrary: now s n rule: hops.induct)
  case (2 since t1 t2 ts)
  then have t: "now \<le> t1" "t1 \<le> t2" "t2 - now < 2 ^ 30" "polled t2 ts" by simp_all
  have "since \<le> t1" "t1 - since < 2 ^ 32" using t 2(4,5) by simp_all
  then have hop: "(of_nat t1 - lastHop s > 1000) = (t1 - since > 1000)" using wrapped_elapsed 2(6) by simp
  show ?case
  proof (cases "t1 - since > 1000")
    case True
    from 2(1) [OF True t(4) _ _ _ hop_on_channel [OF 2(7)], of "of_nat t2"] True hop show ?thesis
      by (simp add: sniffer_loop_def hopChannel_def Let_def)
  next
    case False
    then have "t2 - since < 2 ^ 30 + 1001" using t by simp
    from 2(2) [OF False t(4) _ this 2(6,7)] False hop t 2(4) show ?thesis by (simp add: sniffer_loop_def)
  qed
qed simp

lemma sniffer_started: "on_channel 0 (sniffer_setup sniffer_start)" "lastHop (sniffer_setup sniffer_start) = of_nat 0"
  by (simp_all add: on_channel_def channel_of_def sniffer_setup_def sniffer_start_def)

text \<open>
  Whenever the loop is entered, the sniffer is on one of the channels 1 to 13, and it has been
  tuned to them in turn, from channel 1 on. The hops are those of a clock that never wraps, more
  than a second after the one before, as long as the loop is entered often enough.
\<close>

theorem sniffer_hops_through_channels:
  assumes "polled 0 ts"
  shows "currentChannel (sniffer_run ts) = of_nat (hops 0 ts mod 13 + 1) \<and>
    tuned (sniffer_run ts) = map (\<lambda>k. of_nat (k mod 13 + 1)) [0..<Suc (hops 0 ts)]"
  using sniffer_run_hops [OF assms, of 0 "sniffer_setup sniffer_start" 0] sniffer_started
  by (simp add: sniffer_run_def on_channel_def channel_of_def [abs_def])

theorem sniffer_hops_through_channels_witness:
  "tuned (sniffer_run [(900, 900), (1001, 1002), (2002, 2002), (2003, 2004)]) = [1, 2, 3]"
  using sniffer_hops_through_channels [of "[(900, 900), (1001, 1002), (2002, 2002), (2003, 2004)]"]
  by (simp add: upt_rec)

section \<open>Handing out credentials\<close>

text \<open>
  The tool: the datagrams that it sent, the lines of its two streams, the bytes given to the
  file (\<open>None\<close> before it is opened) and the milliseconds slept.
\<close>

record tool =
  sent :: "u8 list list"
  shown :: "u8 list list"
  errors :: "u8 list list"
  devices :: "u8 list option"
  slept :: nat

datatype tool_end = Returned int | Waiting

definition credentials :: "u8 list" where
  "credentials = cstr ''MyWiFiNetwork'' @ cstr '','' @ cstr ''MySecretPass''"

definition show_line :: "u8 list \<Rightarrow> tool \<Rightarrow> tool" where
  "show_line l p = p\<lparr>shown := shown p @ [l]\<rparr>"

definition show_error :: "u8 list \<Rightarrow> tool \<Rightarrow> tool" where
  "show_error l p = p\<lparr>errors := errors p @ [l]\<rparr>"

text \<open>
  \<open>for(int i = 0; i < 10; i++) send_to ...\<close>: a \<open>send_to\<close> that throws gives the text of its
  exception.
\<close>

function send_credentials :: "(nat \<Rightarrow> u8 list option) \<Rightarrow> nat \<Rightarrow> tool \<Rightarrow> u8 list option \<times> tool" where
  "send_credentials thrown i p =
     (if i < 10
      then case thrown i of
             Some what \<Rightarrow> (Some what, p)
           | None \<Rightarrow> send_credentials thrown (i + 1)
               (show_line (cstr ''Wi-Fi credentials sent to all devices.'') (p\<lparr>sent := sent p @ [credentials], slept := slept p + 500\<rparr>))
      else (None, p))"
  by pat_completeness auto
termination
  by (relation "measure (\<lambda>(_, i, _). 10 - i)") auto

declare send_credentials.simps [simp del]

text \<open>
  \<open>while(true) receive_from ...\<close>: a datagram and the address of its sender, or the text of an
  exception. The buffer has 256 bytes; after the last event the tool waits.
\<close>

fun receive_devices :: "(u8 list + u8 list \<times> u8 list) list \<Rightarrow> tool \<Rightarrow> u8 list option \<times> tool" where
  "receive_devices [] p = (None, p)"
| "receive_devices (Inl what # es) p = (Some what, p)"
| "receive_devices (Inr (datagram, sender) # es) p =
     (let mac_address = take 256 datagram
      in receive_devices es
           (show_line (cstr ''Received MAC: '' @ mac_address @ cstr '' from '' @ sender)
             (p\<lparr>devices := map_option (\<lambda>f. f @ mac_address @ [10]) (devices p)\<rparr>)))"

text \<open>
  \<open>main\<close>, after the socket has been made: an exception is shown and ends the program with 0.
\<close>

definition provisioning_tool ::
  "(nat \<Rightarrow> u8 list option) \<Rightarrow> bool \<Rightarrow> (u8 list + u8 list \<times> u8 list) list \<Rightarrow> tool \<Rightarrow> tool_end \<times> tool" where
  "provisioning_tool thrown file_opens es p =
     (case send_credentials thrown 0 p of
        (Some what, p) \<Rightarrow> (Returned 0, show_error (cstr ''Error: '' @ what) p)
      | (None, p) \<Rightarrow>
          if \<not> file_opens
          then (Returned (-1), show_error (cstr ''Error opening file for writing.'') p)
          else (case receive_devices es (p\<lparr>devices := Some []\<rparr>) of
                  (Some what, p) \<Rightarrow> (Returned 0, show_error (cstr ''Error: '' @ what) p)
                | (None, p) \<Rightarrow> (Waiting, p)))"

text \<open>What was received before the first exception.\<close>

definition received :: "('e + 'a) list \<Rightarrow> 'a list" where
  "received es = map projr (takeWhile (\<lambda>e. \<not> isl e) es)"

lemma send_credentials_sent:
  assumes "i \<le> 10"
  shows "sent (snd (send_credentials thrown i p))
      = sent p @ replicate (length (takeWhile (\<lambda>i. thrown i = None) [i..<10])) credentials \<and>
    devices (snd (send_credentials thrown i p)) = devices p \<and>
    (fst (send_credentials thrown i p) = None \<longleftrightarrow> (\<forall>j \<in> {i..<10}. thrown j = None))"
  using assms
proof (induction thrown i p rule: send_credentials.induct)
  case (1 thrown i p)
  show ?case
  proof (cases "i < 10")
    case True
    then have up: "[i..<10] = i # [i + 1..<10]" "{i..<10} = insert i {i + 1..<10}" by (auto simp: upt_rec)
    show ?thesis
    proof (cases "thrown i")
      case None
      with 1(1) [OF True None] True show ?thesis
        unfolding up by (subst (1 2 3) send_credentials.simps) (simp add: show_line_def)
    next
      case (Some what)
      with True show ?thesis unfolding up by (simp add: send_credentials.simps)
    qed
  next
    case False
    then show ?thesis by (simp add: send_credentials.simps)
  qed
qed

lemma receive_devices_received:
  assumes "devices p = Some f"
  shows "devices (snd (receive_devices es p)) = Some (f @ concat (map (\<lambda>(d, _). take 256 d @ [10]) (received es))) \<and>
    sent (snd (receive_devices es p)) = sent p \<and> (fst (receive_devices es p) = None \<longleftrightarrow> list_all (\<lambda>e. \<not> isl e) es)"
  using assms
  by (induction es p arbitrary: f rule: receive_devices.induct) (simp_all add: received_def Let_def show_line_def)

text \<open>
  The credentials go out ten times, and only then the file gets a line for every datagram, cut
  off at 256 bytes. The program goes on for ever, unless a call throws: closing the file at
  the end of the loop is never reached.
\<close>

theorem provisioning_tool_writes_devices:
  assumes "\<forall>i < 10. thrown i = None" "provisioning_tool thrown True es p = (e, q)"
  shows "sent q = sent p @ replicate 10 credentials \<and>
    devices q = Some (concat (map (\<lambda>(d, _). take 256 d @ [10]) (received es))) \<and>
    e = (if list_all (\<lambda>e. \<not> isl e) es then Waiting else Returned 0)"
proof -
  obtain p' where p': "send_credentials thrown 0 p = (None, p')" "sent p' = sent p @ replicate 10 credentials"
    using send_credentials_sent [of 0 thrown p] assms(1)
    by (cases "send_credentials thrown 0 p") (auto simp: takeWhile_eq_all_conv [THEN iffD2])
  show ?thesis
    using assms(2) p' receive_devices_received [of "p'\<lparr>devices := Some []\<rparr>" "[]" es]
    by (auto simp: provisioning_tool_def show_error_def split: prod.splits option.splits)
qed

end
