(* ===== verification/PageLoad.thy ===== *)
theory PageLoad
  imports NavReach
begin

text \<open>
  Where a location of the browser leads: \<open>navTo\<close> of \<open>navtree.js\<close> with the page and the fragment that
  \<open>initNavTree\<close> and the handler of \<open>hashchange\<close> give it, on the shipped site, for every page and every fragment.
\<close>

section \<open>Order\<close>

lemma le_append: "u \<le> u @ (h :: jstr)"
  by (induction u) simp_all

lemma append_mono: "r \<le> h \<Longrightarrow> u @ r \<le> u @ (h :: jstr)"
  by (induction u) simp_all

lemma between_prefix: "u \<le> k \<Longrightarrow> k \<le> u @ (h :: jstr) \<Longrightarrow> \<exists>r. k = u @ r \<and> r \<le> h"
proof (induction u arbitrary: k)
  case (Cons c u)
  obtain d k' where k: "k = d # k'" using Cons.prems(1) by (cases k) simp_all
  have "c < d \<or> c = d \<and> u \<le> k'" "d < c \<or> d = c \<and> k' \<le> u @ h"
    using Cons.prems by (simp_all add: k less_le)
  then have "c = d" "u \<le> k'" "k' \<le> u @ h" by auto
  then show ?case using Cons.IH [of k'] k by simp
qed simp

text \<open>The first keys of the second and third script, as page and fragment.\<close>

definition split_pages :: "(string \<times> string) list" where
  "split_pages =
     [(''d6/dbd/classlsl_1_1stream__inlet.html'', ''#a9183e81a122df862eff9ea9797c82b73''),
      (''db/df3/lsl__c_8h.html'', ''#af9e8d161e2cc70ffbf9443083ff5d33d'')]"

lemma first_keys_split:
  "first_keys shipped_site = js ''annotated.html'' # map (\<lambda>(p, f). js p @ js f) split_pages"
  by (simp add: first_keys_shipped NAVTREEINDEX_def split_pages_def flip: js_append)

definition cut_off :: "jstr \<Rightarrow> jstr \<Rightarrow> bool" where
  "cut_off root h \<longleftrightarrow> (\<exists>(p, f) \<in> set split_pages. root = js p \<and> js f \<le> h)"

lemma same_cut: "c \<notin> set a \<Longrightarrow> c \<notin> set b \<Longrightarrow> a @ c # r = b @ c # s \<longleftrightarrow> a = b \<and> r = s"
proof (induction a arbitrary: b)
  case (Cons d a)
  then show ?case by (cases b) auto
qed (auto simp: Cons_eq_append_conv)

lemma key_after_page:
  assumes "k \<in> set (first_keys shipped_site)" "root < k" "k \<le> root @ h" "number_sign \<notin> set root"
    and "h = [] \<or> hd h = number_sign"
  shows "cut_off root h"
proof -
  obtain r where r: "k = root @ r" "r \<le> h" using between_prefix [of root k h] assms(2,3) by (auto simp: less_imp_le)
  then have "r \<noteq> []" using assms(2) by auto
  then obtain c r' where c: "r = c # r'" by (cases r) auto
  obtain h' where h: "h = number_sign # h'" using r(2) c assms(5) by (cases h) auto
  have le: "c \<le> number_sign" using r(2) c h by auto
  have ge: "\<forall>d \<in> set k. number_sign \<le> d"
  proof -
    have "\<forall>k \<in> set (first_keys shipped_site). \<forall>d \<in> set k. number_sign \<le> d"
      by (simp add: first_keys_shipped NAVTREEINDEX_def js_def)
    with assms(1) show ?thesis by blast
  qed
  have "c = number_sign" using le ge r(1) c by (auto intro: antisym)
  then have k: "number_sign \<in> set k" "k = root @ number_sign # r'" using r(1) c by auto
  have "number_sign \<notin> set (js ''annotated.html'')" by (simp add: js_def)
  with k(1) have "k \<noteq> js ''annotated.html''" by blast
  with k(2) obtain p f where pf: "(p, f) \<in> set split_pages" "root @ number_sign # r' = js p @ js f"
    using assms(1) by (auto simp: first_keys_split)
  have "\<forall>(p, f) \<in> set split_pages. number_sign \<notin> set (js p) \<and> (\<exists>t. js f = number_sign # t)"
    by (simp add: split_pages_def js_def)
  with pf(1) obtain t where t: "number_sign \<notin> set (js p)" "js f = number_sign # t" by auto
  then have "root = js p" "r' = t" using same_cut [OF assms(4) t(1)] pf(2) by simp_all
  then show ?thesis using pf(1) t(2) r(2) c \<open>c = number_sign\<close>
    unfolding cut_off_def by (intro bexI [of _ "(p, f)"]) simp_all
qed

section \<open>The place of a page\<close>

lemma choose_index_page:
  assumes "choose_index shipped_site root [] = (i, root)" "\<not> cut_off root h" "number_sign \<notin> set root"
    and "h = [] \<or> hd h = number_sign" "js (NAVTREEINDEX ! 0) \<le> root"
  shows "choose_index shipped_site root h = (i, root)"
proof -
  have "(k \<le> root @ h) = (k \<le> root)" if "k \<in> set (first_keys shipped_site)" for k
  proof
    assume "k \<le> root @ h"
    then show "k \<le> root" using key_after_page [OF that _ _ assms(3,4)] assms(2) by (metis not_le)
  qed (rule order.trans [OF _ le_append])
  then have eq: "takeWhile (\<lambda>k. k \<le> root @ h) (first_keys shipped_site) = takeWhile (\<lambda>k. k \<le> root) (first_keys shipped_site)"
    by (rule takeWhile_cong [OF refl])
  have "length (takeWhile (\<lambda>k. k \<le> root) (first_keys shipped_site)) \<noteq> 0"
    using assms(5) by (simp add: first_keys_shipped)
  then show ?thesis using assms(1) by (auto simp: choose_index_eq eq Let_def)
qed

definition listed :: "jstr \<Rightarrow> nat list \<Rightarrow> bool" where
  "listed url b \<longleftrightarrow> (\<exists>i. listed_at i url b)"

text \<open>The URLs that the index scripts list.\<close>

definition indexed :: "jstr \<Rightarrow> bool" where
  "indexed url \<longleftrightarrow> list_ex (list_ex (\<lambda>(k, _). js k = url)) NAVTREEINDEX_scripts"

text \<open>
  The URL whose entry the panel shows for a page and a fragment: theirs, or else that of the
  page, unless that is not listed or the fragment is on the other side of the first key of a script.
\<close>

definition place_url :: "jstr \<Rightarrow> jstr \<Rightarrow> jstr" where
  "place_url root h =
     (if indexed (root @ h) then root @ h else if indexed root \<and> \<not> cut_off root h then root else home shipped_site)"

definition entry_for :: "jstr \<Rightarrow> nav_item \<Rightarrow> bool" where
  "entry_for url it \<longleftrightarrow>
     i_link it = Some url \<or> list_ex (\<lambda>(k, l). js k = url \<and> i_link it = Some (js l)) moved_entries"

lemma indexed_listed: "indexed url \<longleftrightarrow> (\<exists>b. listed url b)"
proof
  assume "indexed url"
  then obtain es k b where es: "es \<in> set NAVTREEINDEX_scripts" "(k, b) \<in> set es" "url = js k"
    by (auto simp: indexed_def list_ex_iff)
  then obtain i where i: "i < length NAVTREEINDEX_scripts" "es = NAVTREEINDEX_scripts ! i" by (metis in_set_conv_nth)
  have "url \<in> fst ` set (map (\<lambda>(k, b). (js k, b)) es)" using es(2,3) by force
  then obtain b' where "obj_get (map (\<lambda>(k, b). (js k, b)) es) url = Some b'"
    using map_of_eq_None_iff [of "rev (map (\<lambda>(k, b). (js k, b)) es)" url] by (auto simp: obj_get_def)
  then have "listed_at i url b'" using i by (simp add: listed_at_def shipped_site_def)
  then show "\<exists>b. listed url b" by (auto simp: listed_def)
next
  assume "\<exists>b. listed url b"
  then obtain i k b where "i < length NAVTREEINDEX_scripts" "(k, b) \<in> set (NAVTREEINDEX_scripts ! i)" "url = js k"
    unfolding listed_def using listed_entry by metis
  then show "indexed url" unfolding indexed_def list_ex_iff using nth_mem by blast
qed

lemma listed_chosen:
  assumes "listed_at i (js k) b"
  shows "choose_index shipped_site (js k) [] = (i, js k)" "js (NAVTREEINDEX ! 0) \<le> js k"
    "\<exists>es. index_script shipped_site i = Some es \<and> obj_get es (js k) = Some b"
proof -
  obtain k' es where k: "js k = js k'" "i < length NAVTREEINDEX_scripts" "(k', b) \<in> set (NAVTREEINDEX_scripts ! i)"
    "index_script shipped_site i = Some es" "obj_get es (js k) = Some b"
    using listed_entry [OF assms] .
  then have in_keys: "k \<in> set (map fst (NAVTREEINDEX_scripts ! i))" by force
  show "choose_index shipped_site (js k) [] = (i, js k)" using k(2) in_keys by (rule chosen_script)
  show "js (NAVTREEINDEX ! 0) \<le> js k" using key_not_below_first [OF nth_mem [OF k(2)] in_keys] .
  show "\<exists>es. index_script shipped_site i = Some es \<and> obj_get es (js k) = Some b" using k(4,5) by blast
qed

section \<open>Where a location leads\<close>

text \<open>
  The panel shows an entry: it stands at a position, the way to it is open, and it is selected,
  or the entries that carry the anchor of the fragment are.
\<close>

definition shows_entry :: "nav_page \<Rightarrow> jstr \<Rightarrow> nat list \<Rightarrow> nav_item \<Rightarrow> nav_state \<Rightarrow> bool" where
  "shows_entry pg h b it st \<longleftrightarrow>
     item_at shipped_scripts (Items NAVTREE) (0 # b) = Some it \<and>
     breadcrumbs st = Some (0 # b) \<and> way_open (root_node st) (0 # b) \<and>
     label (info (node_at (root_node st) (0 # b))) = i_text it \<and>
     (0 # b \<in> set (selected st) \<or>
      (\<exists>p \<in> set (selected st). highlighted (location_of pg) h (anchor_class (anchor (info (node_at (root_node st) p))))))"

text \<open>The panel of a page of the site: its tree and the scripts loaded so far are those of the site.\<close>

definition panel_ok :: "nav_page \<Rightarrow> nav_state \<Rightarrow> bool" where
  "panel_ok pg st \<longleftrightarrow> scripts pg = shipped_scripts \<and> cache_ok st \<and> tree_reachable pg NAVTREE (root_node st)"

lemma panel_goes:
  fixes hash :: jstr
  defines "h \<equiv> if is_line_hash hash then [] else hash"
  assumes "\<not> has_cachedLink sync" "panel_ok pg st" "choose_index shipped_site root h = (i, root')"
    and "index_script shipped_site i = Some es" "goto_breadcrumbs es root' h = Some b"
    and "item_at shipped_scripts (Items NAVTREE) (0 # b) = Some it" "loads shipped_scripts (i_data it)"
  shows "\<exists>st'. navTo shipped_site pg sync root hash st = Some st' \<and> shows_entry pg h b it st' \<and> panel_ok pg st'"
proof -
  note ok = assms(3) [unfolded panel_ok_def]
  have nav: "nav_tree shipped_site = NAVTREE" by (simp add: shipped_site_def)
  obtain st1 where st1: "load_index shipped_site i st = Some (es, st1)" "cache_ok st1"
  proof -
    have "navTreeSubIndices st i = None \<or> navTreeSubIndices st i = Some es"
      using ok assms(5) unfolding cache_ok_def by metis
    then show thesis using ok assms(5) that by (auto simp: load_index_def cache_ok_def)
  qed
  obtain n where n: "way_open n (0 # b)" "label (info (node_at n (0 # b))) = i_text it" "tree_reachable pg NAVTREE n"
    "navTo shipped_site pg sync root hash st =
       Some (selectAndHighlight pg h (Some (0 # b)) (st1\<lparr>breadcrumbs := Some (0 # b), root_node := n\<rparr>))"
    using navTo_goes [OF h_def [THEN meta_eq_to_obj_eq] assms(2,4) st1(1) assms(6), of pg it] ok nav assms(7,8) by metis
  have "cache_ok (selectAndHighlight pg h (Some (0 # b)) (st1\<lparr>breadcrumbs := Some (0 # b), root_node := n\<rparr>))"
    using st1(2) by (simp add: cache_ok_def selectAndHighlight_def Let_def)
  then show ?thesis
    using n ok assms(7) select_selects [of "0 # b" pg h "st1\<lparr>breadcrumbs := Some (0 # b), root_node := n\<rparr>"]
    by (simp add: shows_entry_def panel_ok_def)
qed

lemma root_entry:
  "\<exists>it. item_at shipped_scripts (Items NAVTREE) [0] = Some it \<and> loads shipped_scripts (i_data it) \<and>
     entry_for (home shipped_site) it"
  by (simp add: shipped_site_def home_def NAVTREE_def level_def loads_def entry_for_def)

lemma listed_item:
  assumes "listed url b"
  shows "\<exists>it. item_at shipped_scripts (Items NAVTREE) (0 # b) = Some it \<and> loads shipped_scripts (i_data it) \<and>
    entry_for url it"
proof -
  obtain i where i: "listed_at i url b" using assms by (auto simp: listed_def)
  obtain k t l d where "url = js k" "item_at shipped_scripts (Items NAVTREE) (0 # b) = Some (Item t (Some (js l)) d)"
    "l = k \<or> (k, l) \<in> set moved_entries" "loads shipped_scripts d"
    using listed_entry [OF i] placed_entry by metis
  then show ?thesis by (auto simp: entry_for_def list_ex_iff)
qed

lemma goto_listed: "obj_get es (root @ h) = Some b \<Longrightarrow> goto_breadcrumbs es root h = Some b"
  by (simp add: goto_breadcrumbs_def jq_extend_def)

lemma goto_unlisted: "obj_get es (root @ h) = None \<Longrightarrow> goto_breadcrumbs es root h = Some (case obj_get es root of None \<Rightarrow> [] | Some b \<Rightarrow> b)"
  by (simp add: goto_breadcrumbs_def jq_extend_def)

lemma unlisted_get:
  assumes "\<forall>b. \<not> listed url b" "index_script shipped_site i = Some es"
  shows "obj_get es url = None"
proof (cases "obj_get es url")
  case (Some b)
  then have "listed_at i url b" using assms(2) by (simp add: listed_at_def)
  then show ?thesis using assms(1) by (auto simp: listed_def)
qed

lemma listed_choice:
  assumes "listed_at i (root @ h) b"
  obtains es where "choose_index shipped_site root h = (i, root)" "index_script shipped_site i = Some es"
    "goto_breadcrumbs es root h = Some b"
proof -
  obtain k where k: "root @ h = js k" using listed_entry [OF assms] by metis
  note c = listed_chosen [OF assms [unfolded k]]
  have "choose_index shipped_site root h = (i, root)"
    using choose_index_joined [OF first_keys_shipped, of root h i "js k"] c(1,2) k by simp
  with c(3) that goto_listed show thesis unfolding k [symmetric] by blast
qed

lemma page_choice:
  assumes "listed root b" "\<forall>b. \<not> listed (root @ h) b" "\<not> cut_off root h" "number_sign \<notin> set root"
    and "h = [] \<or> hd h = number_sign"
  obtains i es where "listed_at i root b" "choose_index shipped_site root h = (i, root)" "index_script shipped_site i = Some es"
    "goto_breadcrumbs es root h = Some b"
proof -
  obtain i where i: "listed_at i root b" using assms(1) by (auto simp: listed_def)
  obtain k where k: "root = js k" using listed_entry [OF i] by metis
  note c = listed_chosen [OF i [unfolded k]]
  obtain es where es: "index_script shipped_site i = Some es" "obj_get es root = Some b" using c(3) k by blast
  have "choose_index shipped_site root h = (i, root)"
    using choose_index_page [OF _ assms(3-5)] c(1,2) k by simp
  moreover have "goto_breadcrumbs es root h = Some b"
    using goto_unlisted unlisted_get [OF assms(2) es(1)] es(2) by simp
  ultimately show thesis using that i es(1) by blast
qed

lemma first_keys_count: "length NAVTREEINDEX = 3"
  by (simp add: NAVTREEINDEX_def)

text \<open>On the other side of the first key of a script, the page is not in the script that is chosen.\<close>

lemma cut_off_choice:
  assumes "\<forall>b. \<not> listed (root @ h) b" "cut_off root h"
  obtains i es where "choose_index shipped_site root h = (i, root)" "index_script shipped_site i = Some es"
    "goto_breadcrumbs es root h = Some []"
proof -
  let ?ks = "first_keys shipped_site" and ?u = "root @ h"
  obtain p f where pf: "(p, f) \<in> set split_pages" "root = js p" "js f \<le> h" using assms(2) by (auto simp: cut_off_def)
  obtain i root' where i: "choose_index shipped_site root h = (i, root')" by fastforce
  have key: "js p @ js f \<in> set ?ks" using pf(1) by (force simp: first_keys_split)
  have url: "js p @ js f \<le> ?u" using append_mono [OF pf(3)] pf(2) by simp
  have sorted: "sorted ?ks" using first_keys_less by (auto simp: first_keys_shipped less_imp_le)
  have chosen: "root' = root" "i < length ?ks" "\<forall>j < length ?ks. i < j \<longrightarrow> ?u < ?ks ! j"
    using chosen_index_holds_url [OF sorted i] key url by (auto simp: not_less [symmetric])
  obtain j where j: "j < length ?ks" "?ks ! j = js p @ js f" using key by (metis in_set_conv_nth)
  then have "j \<le> i" using chosen(3) url by (auto simp: not_less [symmetric])
  then have "js p @ js f \<le> ?ks ! i" using sorted chosen(2) j(2) by (metis sorted_nth_mono)
  moreover have "js p < js p @ js f"
  proof -
    have "js f \<noteq> []" using pf(1) by (auto simp: split_pages_def)
    then show ?thesis using le_append [of "js p" "js f"] by (simp add: less_le)
  qed
  ultimately have above: "root < ?ks ! i" using pf(2) by simp
  have i3: "i < 3" "?ks ! i = js (NAVTREEINDEX ! i)" "length NAVTREEINDEX_scripts = 3"
    using chosen(2) first_keys_count by (simp_all add: shipped_site_def NAVTREEINDEX_scripts_def)
  then obtain es where es: "index_script shipped_site i = Some es" by (simp add: shipped_site_def)
  have "obj_get es root = None"
  proof (rule ccontr)
    assume "obj_get es root \<noteq> None"
    then obtain b where "listed_at i root b" using es by (auto simp: listed_at_def)
    then obtain k where "root = js k" "k \<in> set (map fst (NAVTREEINDEX_scripts ! i))"
      using listed_entry by (metis (no_types, lifting) fst_conv image_eqI list.set_map)
    then show False using key_not_below [OF i3(1), of k] above i3(2) by simp
  qed
  then have "goto_breadcrumbs es root h = Some []" using goto_unlisted unlisted_get [OF assms(1) es] by simp
  then show thesis using that i chosen(1) es by simp
qed

text \<open>A page that is not listed gets the root of the tree.\<close>

lemma below_script_1:
  assumes "k \<in> set (map fst (NAVTREEINDEX_scripts ! 0))"
  shows "js k < js (NAVTREEINDEX ! 1)"
proof -
  have "k \<in> set (map fst NAVTREEINDEX0a) \<or> k \<in> set (map fst NAVTREEINDEX0b)"
    using assms by (auto simp: NAVTREEINDEX_scripts_def)
  then show ?thesis using within_bounds(2) [OF within_0a _ refl] within_bounds(2) [OF within_0b _ refl] by blast
qed

lemma home_not_in_script_0:
  assumes "index_script shipped_site 0 = Some es"
  shows "obj_get es (home shipped_site @ h) = None"
proof (rule ccontr)
  assume "obj_get es (home shipped_site @ h) \<noteq> None"
  then obtain b where "listed_at 0 (home shipped_site @ h) b" using assms by (auto simp: listed_at_def)
  then obtain k where k: "home shipped_site @ h = js k" "k \<in> set (map fst (NAVTREEINDEX_scripts ! 0))"
    using listed_entry by (metis (no_types, lifting) fst_conv image_eqI list.set_map)
  have "js (NAVTREEINDEX ! 1) \<le> home shipped_site"
    by (simp add: shipped_site_def home_def NAVTREE_def NAVTREEINDEX_def js_less_eq)
  then have "js (NAVTREEINDEX ! 1) \<le> js k" using le_append [of "home shipped_site" h] k(1) by (metis order.trans)
  then show False using below_script_1 [OF k(2)] by simp
qed

lemma unlisted_choice:
  assumes "\<not> indexed root" "\<not> indexed (root @ h)"
  obtains i root' es where "choose_index shipped_site root h = (i, root')" "index_script shipped_site i = Some es"
    "goto_breadcrumbs es root' h = Some []"
proof -
  obtain i root' where i: "choose_index shipped_site root h = (i, root')" by fastforce
  have sorted: "sorted (first_keys shipped_site)" using first_keys_less by (auto simp: first_keys_shipped less_imp_le)
  have r: "root' = root \<and> i < 3 \<or> i = 0 \<and> root' = home shipped_site"
    using chosen_index_holds_url [OF sorted i] first_keys_count by (auto simp: shipped_site_def)
  then have "i < length NAVTREEINDEX_scripts" by (auto simp: NAVTREEINDEX_scripts_def)
  then obtain es where es: "index_script shipped_site i = Some es" by (simp add: shipped_site_def)
  have "obj_get es (root' @ h) = None \<and> obj_get es root' = None"
    using r es home_not_in_script_0 [of es h] home_not_in_script_0 [of es "[]"]
      unlisted_get [OF _ es] assms by (auto simp: indexed_listed)
  then have "goto_breadcrumbs es root' h = Some []" using goto_unlisted by simp
  with i es that show thesis by blast
qed

lemma place_choice:
  assumes "number_sign \<notin> set root" "h = [] \<or> hd h = number_sign"
  obtains i root' es b where "choose_index shipped_site root h = (i, root')" "index_script shipped_site i = Some es"
    "goto_breadcrumbs es root' h = Some b"
    "b = [] \<and> place_url root h = home shipped_site \<or> listed (place_url root h) b"
proof -
  consider (url) i b where "listed_at i (root @ h) b" "indexed (root @ h)"
    | (page) b where "listed root b" "\<forall>b. \<not> listed (root @ h) b" "\<not> cut_off root h"
    | (cut) "\<forall>b. \<not> listed (root @ h) b" "cut_off root h"
    | (unlisted) "\<not> indexed root" "\<not> indexed (root @ h)"
    unfolding indexed_listed listed_def by blast
  then show thesis
  proof cases
    case url
    obtain es where "choose_index shipped_site root h = (i, root)" "index_script shipped_site i = Some es"
      "goto_breadcrumbs es root h = Some b" by (rule listed_choice [OF url(1)])
    then show thesis by (rule that) (use url in \<open>auto simp: place_url_def listed_def\<close>)
  next
    case page
    obtain i es where "choose_index shipped_site root h = (i, root)" "index_script shipped_site i = Some es"
      "goto_breadcrumbs es root h = Some b" by (rule page_choice [OF page assms])
    then show thesis by (rule that) (use page in \<open>auto simp: place_url_def indexed_listed\<close>)
  next
    case cut
    obtain i es where "choose_index shipped_site root h = (i, root)" "index_script shipped_site i = Some es"
      "goto_breadcrumbs es root h = Some []" by (rule cut_off_choice [OF cut])
    then show thesis by (rule that) (use cut in \<open>simp add: place_url_def indexed_listed\<close>)
  next
    case unlisted
    obtain i root' es where "choose_index shipped_site root h = (i, root')" "index_script shipped_site i = Some es"
      "goto_breadcrumbs es root' h = Some []" by (rule unlisted_choice [OF unlisted])
    then show thesis by (rule that) (use unlisted in \<open>simp add: place_url_def\<close>)
  qed
qed

text \<open>What the panel does on a page, at the fragment of its location, and the entry it shows then.\<close>

definition panel_shows :: "nav_page \<Rightarrow> nav_sync \<Rightarrow> jstr \<Rightarrow> jstr \<Rightarrow> nav_state \<Rightarrow> bool" where
  "panel_shows pg sync root url st \<longleftrightarrow>
     (\<exists>st' b it. navTo shipped_site pg sync root (hashUrl (location_of pg)) st = Some st' \<and>
        shows_entry pg (if is_line_hash (hashUrl (location_of pg)) then [] else hashUrl (location_of pg)) b it st' \<and>
        entry_for url it \<and> panel_ok pg st')"

lemma place_shown:
  assumes "\<not> has_cachedLink sync" "panel_ok pg st" "number_sign \<notin> set root"
    and h: "h = (if is_line_hash (hashUrl (location_of pg)) then [] else hashUrl (location_of pg))"
  shows "panel_shows pg sync root (place_url root h) st"
proof -
  have hd: "h = [] \<or> hd h = number_sign" by (simp add: h hashUrl_def)
  obtain i root' es b where b: "choose_index shipped_site root h = (i, root')" "index_script shipped_site i = Some es"
    "goto_breadcrumbs es root' h = Some b" "b = [] \<and> place_url root h = home shipped_site \<or> listed (place_url root h) b"
    by (rule place_choice [OF assms(3) hd])
  from b(4) obtain it where "item_at shipped_scripts (Items NAVTREE) (0 # b) = Some it" "loads shipped_scripts (i_data it)"
    "entry_for (place_url root h) it"
    using root_entry listed_item by metis
  then show ?thesis
    using panel_goes [OF assms(1,2) b(1) [unfolded h] b(2) b(3) [unfolded h]] unfolding panel_shows_def h by blast
qed

text \<open>
  C11: Wherever the reader is on the site, and as long as the synchronisation button has stored no
  link, the panel shows the entry of the place: for every page and
  fragment (what follows the number sign of the location, cleaned, unless it names a line) the
  navigation returns, and the panel shows the entry whose link is the page with the fragment if
  that is listed, else the page. A page that is not listed shows the entry of the whole site, and so
  does a fragment that is not listed and lies behind the key at which the index is cut. The panel
  stays in a state in which this holds for the next place.
\<close>

theorem every_place_shows_its_entry:
  fixes root :: jstr and pg :: nav_page
  defines "h \<equiv> if is_line_hash (hashUrl (location_of pg)) then [] else hashUrl (location_of pg)"
  assumes "\<not> has_cachedLink sync" "panel_ok pg st" "number_sign \<notin> set root"
  shows "\<exists>st' b it. navTo shipped_site pg sync root (hashUrl (location_of pg)) st = Some st' \<and>
    shows_entry pg h b it st' \<and> entry_for (place_url root h) it \<and> panel_ok pg st'"
  using place_shown [OF assms(2-4) h_def [THEN meta_eq_to_obj_eq]] unfolding panel_shows_def h_def .

theorem every_place_shows_its_entry_witness:
  "\<exists>st b it. navTo shipped_site (opened_page\<lparr>location_of := \<lparr>loc_pathname = js ''/html/pages.html'', loc_hash = []\<rparr>\<rparr>)
     no_sync (js ''pages.html'') (hashUrl \<lparr>loc_pathname = js ''/html/pages.html'', loc_hash = []\<rparr>) opened_state = Some st \<and>
     item_at shipped_scripts (Items NAVTREE) (0 # b) = Some it \<and> breadcrumbs st = Some (0 # b)"
proof -
  let ?pg = "opened_page\<lparr>location_of := \<lparr>loc_pathname = js ''/html/pages.html'', loc_hash = []\<rparr>\<rparr>"
  have "\<not> has_cachedLink no_sync" by (rule demo_facts(1))
  moreover have "panel_ok ?pg opened_state"
    by (simp add: panel_ok_def cache_ok_def opened_page_def opened_state_def tree_reachable.init)
  moreover have "number_sign \<notin> set (js ''pages.html'')" by (simp add: js_def)
  ultimately show ?thesis
    using every_place_shows_its_entry [of no_sync ?pg opened_state "js ''pages.html''"] by (auto simp: shows_entry_def)
qed

end
