(* ===== verification/SiteLinks.thy ===== *)
theory SiteLinks
  imports PageLoad SearchShipped Menu
begin

text \<open>
  The links of the site against its index (\<open>navtreeindex0.js\<close> to \<open>navtreeindex2.js\<close>): the targets of the search, the
  entries of the tree and those of the menu, and what the panel shows at the place a link leads to.
\<close>

section \<open>The listed URLs\<close>

lemma indexed_scripts:
  "list_all (\<lambda>(k, _). indexed (js k)) NAVTREEINDEX0a" "list_all (\<lambda>(k, _). indexed (js k)) NAVTREEINDEX0b"
  "list_all (\<lambda>(k, _). indexed (js k)) NAVTREEINDEX1a" "list_all (\<lambda>(k, _). indexed (js k)) NAVTREEINDEX1b"
  "list_all (\<lambda>(k, _). indexed (js k)) NAVTREEINDEX2a" "list_all (\<lambda>(k, _). indexed (js k)) NAVTREEINDEX2b"
  by (auto simp: list_all_iff list_ex_iff indexed_def NAVTREEINDEX_scripts_def)

definition key_listed :: "string \<Rightarrow> bool" where
  "key_listed k \<longleftrightarrow> indexed (js k)"

lemma key_listed_scripts:
  "list_all (\<lambda>(k, _). key_listed k) NAVTREEINDEX0a" "list_all (\<lambda>(k, _). key_listed k) NAVTREEINDEX0b"
  "list_all (\<lambda>(k, _). key_listed k) NAVTREEINDEX1a" "list_all (\<lambda>(k, _). key_listed k) NAVTREEINDEX1b"
  "list_all (\<lambda>(k, _). key_listed k) NAVTREEINDEX2a" "list_all (\<lambda>(k, _). key_listed k) NAVTREEINDEX2b"
  using indexed_scripts by (simp_all add: key_listed_def)

lemmas listed_keys =
  key_listed_scripts(1) [unfolded NAVTREEINDEX0a_def list.pred_inject prod.case]
  key_listed_scripts(2) [unfolded NAVTREEINDEX0b_def list.pred_inject prod.case]
  key_listed_scripts(3) [unfolded NAVTREEINDEX1a_def list.pred_inject prod.case]
  key_listed_scripts(4) [unfolded NAVTREEINDEX1b_def list.pred_inject prod.case]
  key_listed_scripts(5) [unfolded NAVTREEINDEX2a_def list.pred_inject prod.case]
  key_listed_scripts(6) [unfolded NAVTREEINDEX2b_def list.pred_inject prod.case]

section \<open>The links of the search\<close>

text \<open>Links of the search that the index does not list.\<close>

definition unlisted_links :: "string list" where
  "unlisted_links =
     [''../d5/df2/tool__lib_2built__lsl_2_r_e_a_d_m_e_8md.html'',
      ''../d1/d6a/classlsl_1_1stream__info.html#abf8fb6ba88d2f6c4069961149f18faec'',
      ''../dc/d44/class_e_s_c_1_1_c_l_i.html#a9100047dfeea902233c4e50c6bd0b63d'',
      ''../d9/dd6/_r_e_a_d_m_e_8md.html'',
      ''../d8/d5d/lib_2str_a_n_s_iseq_2_r_e_a_d_m_e_8md.html'']"

definition leads_up :: "string \<Rightarrow> bool" where
  "leads_up href \<longleftrightarrow> href \<in> set unlisted_links \<or> take 3 href = ''../'' \<and> key_listed (drop 3 href)"

definition link_ok :: "jstr \<Rightarrow> bool" where
  "link_ok href \<longleftrightarrow> list_ex (\<lambda>k. href = js k) unlisted_links \<or> take 3 href = js ''../'' \<and> indexed (drop 3 href)"

lemma link_ok_js: "leads_up href \<Longrightarrow> link_ok (js href)"
  by (auto simp: leads_up_def link_ok_def key_listed_def list_ex_iff js_def take_map drop_map)

definition links_ok :: "entry \<Rightarrow> bool" where
  "links_ok e \<longleftrightarrow> list_all (\<lambda>t. link_ok (t_href t)) (e_targets e)"

lemma links_ok_of: "list_all (\<lambda>(href, _). leads_up href) targets \<Longrightarrow> links_ok (entry_of (i, lab, targets))"
  by (auto simp: links_ok_def list_all_iff link_ok_js)

lemma leads_up_listed: "key_listed k \<Longrightarrow> leads_up (CHR ''.'' # CHR ''.'' # CHR ''/'' # k)"
  by (simp add: leads_up_def)

lemma leads_up_unlisted: "list_all leads_up unlisted_links"
  by (simp add: leads_up_def list_all_iff)

lemmas unlisted_up = leads_up_unlisted [unfolded unlisted_links_def list.pred_inject simp_thms]

lemma page_links: "list_all (\<lambda>(i, lab, targets). list_all (\<lambda>(href, _). leads_up href) targets) raw \<Longrightarrow>
    list_all links_ok (map entry_of raw)"
  by (auto simp: list_all_iff intro!: links_ok_of)

lemmas spread_links = list.pred_inject prod.case simp_thms

lemmas spread_up = leads_up_listed unlisted_up list.pred_inject prod.case simp_thms

declare listed_keys [simp]

lemma links_all_0: "list_all links_ok all_0"
  unfolding all_0_def by (rule page_links) (simp add: spread_up)

lemma links_all_1: "list_all links_ok all_1"
  unfolding all_1_def by (rule page_links) (simp add: spread_up)

lemma links_all_2: "list_all links_ok all_2"
  unfolding all_2_def by (rule page_links) (simp add: spread_up)

lemma links_all_3: "list_all links_ok all_3"
  unfolding all_3_def by (rule page_links) (simp add: spread_up)

lemma links_all_4: "list_all links_ok all_4"
  unfolding all_4_def by (rule page_links) (simp add: spread_up)

lemma links_all_5: "list_all links_ok all_5"
  unfolding all_5_def by (rule page_links) (simp add: spread_up)

lemma links_all_6: "list_all links_ok all_6"
  unfolding all_6_def by (rule page_links) (simp add: spread_up)

lemma links_all_7: "list_all links_ok all_7"
  unfolding all_7_def by (rule page_links) (simp add: spread_up)

lemma links_all_8: "list_all links_ok all_8"
  unfolding all_8_def by (rule page_links) (simp add: spread_up)

lemma links_all_9: "list_all links_ok all_9"
  unfolding all_9_def by (rule page_links) (simp add: spread_up)

lemma links_all_a_1: "list_all links_ok all_a_1"
  unfolding all_a_1_def by (rule page_links) (simp add: spread_up)

lemma links_all_a_2: "list_all links_ok all_a_2"
  unfolding all_a_2_def by (rule page_links) (simp add: spread_up)

lemma links_all_a_3: "list_all links_ok all_a_3"
  unfolding all_a_3_def by (rule page_links) (simp add: spread_up)

lemma links_all_a_4: "list_all links_ok all_a_4"
  unfolding all_a_4_def by (rule page_links) (simp add: spread_up)

lemma links_all_a_5: "list_all links_ok all_a_5"
  unfolding all_a_5_def by (rule page_links) (simp add: spread_up)

lemma links_all_a_6: "list_all links_ok all_a_6"
  unfolding all_a_6_def by (rule page_links) (simp add: spread_up)

lemma links_all_a_7: "list_all links_ok all_a_7"
  unfolding all_a_7_def by (rule page_links) (simp add: spread_up)

lemma links_all_a_8: "list_all links_ok all_a_8"
  unfolding all_a_8_def by (rule page_links) (simp add: spread_up)

lemma links_all_a_9: "list_all links_ok all_a_9"
  unfolding all_a_9_def by (rule page_links) (simp add: spread_up)

lemma links_all_a: "list_all links_ok all_a"
  by (simp only: all_a_def list_all_append links_all_a_1 links_all_a_2 links_all_a_3 links_all_a_4 links_all_a_5 links_all_a_6 links_all_a_7 links_all_a_8 links_all_a_9 simp_thms)

lemma links_all_b: "list_all links_ok all_b"
  unfolding all_b_def by (rule page_links) (simp add: spread_up)

lemma links_all_c: "list_all links_ok all_c"
  unfolding all_c_def by (rule page_links) (simp add: spread_up)

lemma links_all_d: "list_all links_ok all_d"
  unfolding all_d_def by (rule page_links) (simp add: spread_up)

lemma links_all_e: "list_all links_ok all_e"
  unfolding all_e_def by (rule page_links) (simp add: spread_up)

lemma links_all_f: "list_all links_ok all_f"
  unfolding all_f_def by (rule page_links) (simp add: spread_up)

lemma links_all_10: "list_all links_ok all_10"
  unfolding all_10_def by (rule page_links) (simp add: spread_up)

lemma links_all_11: "list_all links_ok all_11"
  unfolding all_11_def by (rule page_links) (simp add: spread_up)

lemma links_all_12: "list_all links_ok all_12"
  unfolding all_12_def by (rule page_links) (simp add: spread_up)

lemma links_all_13: "list_all links_ok all_13"
  unfolding all_13_def by (rule page_links) (simp add: spread_up)

lemma links_all_14: "list_all links_ok all_14"
  unfolding all_14_def by (rule page_links) (simp add: spread_up)

lemma links_all_15: "list_all links_ok all_15"
  unfolding all_15_def by (rule page_links) (simp add: spread_up)

lemma links_all_16: "list_all links_ok all_16"
  unfolding all_16_def by (rule page_links) (simp add: spread_up)

lemma links_classes_0: "list_all links_ok classes_0"
  unfolding classes_0_def by (rule page_links) (simp add: spread_up)

lemma links_classes_1: "list_all links_ok classes_1"
  unfolding classes_1_def by (rule page_links) (simp add: spread_up)

lemma links_classes_2: "list_all links_ok classes_2"
  unfolding classes_2_def by (rule page_links) (simp add: spread_up)

lemma links_classes_3: "list_all links_ok classes_3"
  unfolding classes_3_def by (rule page_links) (simp add: spread_up)

lemma links_classes_4: "list_all links_ok classes_4"
  unfolding classes_4_def by (rule page_links) (simp add: spread_up)

lemma links_classes_5: "list_all links_ok classes_5"
  unfolding classes_5_def by (rule page_links) (simp add: spread_up)

lemma links_namespaces_0: "list_all links_ok namespaces_0"
  unfolding namespaces_0_def by (rule page_links) (simp add: spread_up)

lemma links_namespaces_1: "list_all links_ok namespaces_1"
  unfolding namespaces_1_def by (rule page_links) (simp add: spread_up)

lemma links_namespaces_2: "list_all links_ok namespaces_2"
  unfolding namespaces_2_def by (rule page_links) (simp add: spread_up)

lemma links_files_0: "list_all links_ok files_0"
  unfolding files_0_def by (rule page_links) (simp add: spread_up)

lemma links_files_1: "list_all links_ok files_1"
  unfolding files_1_def by (rule page_links) (simp add: spread_up)

lemma links_files_2: "list_all links_ok files_2"
  unfolding files_2_def by (rule page_links) (simp add: spread_up)

lemma links_files_3: "list_all links_ok files_3"
  unfolding files_3_def by (rule page_links) (simp add: spread_up)

lemma links_files_4: "list_all links_ok files_4"
  unfolding files_4_def by (rule page_links) (simp add: spread_up)

lemma links_files_5: "list_all links_ok files_5"
  unfolding files_5_def by (rule page_links) (simp add: spread_up)

lemma links_functions_0: "list_all links_ok functions_0"
  unfolding functions_0_def by (rule page_links) (simp add: spread_up)

lemma links_functions_1: "list_all links_ok functions_1"
  unfolding functions_1_def by (rule page_links) (simp add: spread_up)

lemma links_functions_2: "list_all links_ok functions_2"
  unfolding functions_2_def by (rule page_links) (simp add: spread_up)

lemma links_functions_3: "list_all links_ok functions_3"
  unfolding functions_3_def by (rule page_links) (simp add: spread_up)

lemma links_functions_4: "list_all links_ok functions_4"
  unfolding functions_4_def by (rule page_links) (simp add: spread_up)

lemma links_functions_5: "list_all links_ok functions_5"
  unfolding functions_5_def by (rule page_links) (simp add: spread_up)

lemma links_functions_6: "list_all links_ok functions_6"
  unfolding functions_6_def by (rule page_links) (simp add: spread_up)

lemma links_functions_7: "list_all links_ok functions_7"
  unfolding functions_7_def by (rule page_links) (simp add: spread_up)

lemma links_functions_8_1: "list_all links_ok functions_8_1"
  unfolding functions_8_1_def by (rule page_links) (simp add: spread_up)

lemma links_functions_8_2: "list_all links_ok functions_8_2"
  unfolding functions_8_2_def by (rule page_links) (simp add: spread_up)

lemma links_functions_8_3: "list_all links_ok functions_8_3"
  unfolding functions_8_3_def by (rule page_links) (simp add: spread_up)

lemma links_functions_8_4: "list_all links_ok functions_8_4"
  unfolding functions_8_4_def by (rule page_links) (simp add: spread_up)

lemma links_functions_8_5: "list_all links_ok functions_8_5"
  unfolding functions_8_5_def by (rule page_links) (simp add: spread_up)

lemma links_functions_8_6: "list_all links_ok functions_8_6"
  unfolding functions_8_6_def by (rule page_links) (simp add: spread_up)

lemma links_functions_8_7: "list_all links_ok functions_8_7"
  unfolding functions_8_7_def by (rule page_links) (simp add: spread_up)

lemma links_functions_8_8: "list_all links_ok functions_8_8"
  unfolding functions_8_8_def by (rule page_links) (simp add: spread_up)

lemma links_functions_8: "list_all links_ok functions_8"
  by (simp only: functions_8_def list_all_append links_functions_8_1 links_functions_8_2 links_functions_8_3 links_functions_8_4 links_functions_8_5 links_functions_8_6 links_functions_8_7 links_functions_8_8 simp_thms)

lemma links_functions_9: "list_all links_ok functions_9"
  unfolding functions_9_def by (rule page_links) (simp add: spread_up)

lemma links_functions_a: "list_all links_ok functions_a"
  unfolding functions_a_def by (rule page_links) (simp add: spread_up)

lemma links_functions_b: "list_all links_ok functions_b"
  unfolding functions_b_def by (rule page_links) (simp add: spread_up)

lemma links_functions_c: "list_all links_ok functions_c"
  unfolding functions_c_def by (rule page_links) (simp add: spread_up)

lemma links_functions_d: "list_all links_ok functions_d"
  unfolding functions_d_def by (rule page_links) (simp add: spread_up)

lemma links_functions_e: "list_all links_ok functions_e"
  unfolding functions_e_def by (rule page_links) (simp add: spread_up)

lemma links_functions_f: "list_all links_ok functions_f"
  unfolding functions_f_def by (rule page_links) (simp add: spread_up)

lemma links_functions_10: "list_all links_ok functions_10"
  unfolding functions_10_def by (rule page_links) (simp add: spread_up)

lemma links_functions_11: "list_all links_ok functions_11"
  unfolding functions_11_def by (rule page_links) (simp add: spread_up)

lemma links_functions_12: "list_all links_ok functions_12"
  unfolding functions_12_def by (rule page_links) (simp add: spread_up)

lemma links_functions_13: "list_all links_ok functions_13"
  unfolding functions_13_def by (rule page_links) (simp add: spread_up)

lemma links_functions_14: "list_all links_ok functions_14"
  unfolding functions_14_def by (rule page_links) (simp add: spread_up)

lemma links_variables_0: "list_all links_ok variables_0"
  unfolding variables_0_def by (rule page_links) (simp add: spread_up)

lemma links_variables_1: "list_all links_ok variables_1"
  unfolding variables_1_def by (rule page_links) (simp add: spread_up)

lemma links_variables_2: "list_all links_ok variables_2"
  unfolding variables_2_def by (rule page_links) (simp add: spread_up)

lemma links_variables_3: "list_all links_ok variables_3"
  unfolding variables_3_def by (rule page_links) (simp add: spread_up)

lemma links_variables_4: "list_all links_ok variables_4"
  unfolding variables_4_def by (rule page_links) (simp add: spread_up)

lemma links_typedefs_0: "list_all links_ok typedefs_0"
  unfolding typedefs_0_def by (rule page_links) (simp add: spread_up)

lemma links_enums_0: "list_all links_ok enums_0"
  unfolding enums_0_def by (rule page_links) (simp add: spread_up)

lemma links_enums_1: "list_all links_ok enums_1"
  unfolding enums_1_def by (rule page_links) (simp add: spread_up)

lemma links_enums_2: "list_all links_ok enums_2"
  unfolding enums_2_def by (rule page_links) (simp add: spread_up)

lemma links_enums_3: "list_all links_ok enums_3"
  unfolding enums_3_def by (rule page_links) (simp add: spread_up)

lemma links_enums_4: "list_all links_ok enums_4"
  unfolding enums_4_def by (rule page_links) (simp add: spread_up)

lemma links_enumvalues_0: "list_all links_ok enumvalues_0"
  unfolding enumvalues_0_def by (rule page_links) (simp add: spread_up)

lemma links_enumvalues_1: "list_all links_ok enumvalues_1"
  unfolding enumvalues_1_def by (rule page_links) (simp add: spread_up)

lemma links_enumvalues_2: "list_all links_ok enumvalues_2"
  unfolding enumvalues_2_def by (rule page_links) (simp add: spread_up)

lemma links_enumvalues_3: "list_all links_ok enumvalues_3"
  unfolding enumvalues_3_def by (rule page_links) (simp add: spread_up)

lemma links_enumvalues_4: "list_all links_ok enumvalues_4"
  unfolding enumvalues_4_def by (rule page_links) (simp add: spread_up)

lemma links_enumvalues_5: "list_all links_ok enumvalues_5"
  unfolding enumvalues_5_def by (rule page_links) (simp add: spread_up)

lemma links_enumvalues_6: "list_all links_ok enumvalues_6"
  unfolding enumvalues_6_def by (rule page_links) (simp add: spread_up)

lemma links_enumvalues_7: "list_all links_ok enumvalues_7"
  unfolding enumvalues_7_def by (rule page_links) (simp add: spread_up)

lemma links_enumvalues_8: "list_all links_ok enumvalues_8"
  unfolding enumvalues_8_def by (rule page_links) (simp add: spread_up)

lemma links_enumvalues_9: "list_all links_ok enumvalues_9"
  unfolding enumvalues_9_def by (rule page_links) (simp add: spread_up)

lemma links_enumvalues_a: "list_all links_ok enumvalues_a"
  unfolding enumvalues_a_def by (rule page_links) (simp add: spread_up)

lemma links_enumvalues_b: "list_all links_ok enumvalues_b"
  unfolding enumvalues_b_def by (rule page_links) (simp add: spread_up)

lemma links_defines_0: "list_all links_ok defines_0"
  unfolding defines_0_def by (rule page_links) (simp add: spread_up)

lemma links_defines_1: "list_all links_ok defines_1"
  unfolding defines_1_def by (rule page_links) (simp add: spread_up)

lemma links_defines_2: "list_all links_ok defines_2"
  unfolding defines_2_def by (rule page_links) (simp add: spread_up)

lemma links_defines_3: "list_all links_ok defines_3"
  unfolding defines_3_def by (rule page_links) (simp add: spread_up)

lemma links_defines_4: "list_all links_ok defines_4"
  unfolding defines_4_def by (rule page_links) (simp add: spread_up)

lemma links_defines_5: "list_all links_ok defines_5"
  unfolding defines_5_def by (rule page_links) (simp add: spread_up)

lemma links_defines_6: "list_all links_ok defines_6"
  unfolding defines_6_def by (rule page_links) (simp add: spread_up)

lemma links_defines_7: "list_all links_ok defines_7"
  unfolding defines_7_def by (rule page_links) (simp add: spread_up)

lemma links_pages_0: "list_all links_ok pages_0"
  unfolding pages_0_def by (rule page_links) (simp add: spread_up)

lemma links_pages_1: "list_all links_ok pages_1"
  unfolding pages_1_def by (rule page_links) (simp add: spread_up)

lemma links_pages_2: "list_all links_ok pages_2"
  unfolding pages_2_def by (rule page_links) (simp add: spread_up)

lemma links_all_pages: "list_all (list_all links_ok) all_pages"
  by (simp only: all_pages_def list.pred_inject links_all_0 links_all_1 links_all_2 links_all_3 links_all_4 links_all_5 links_all_6 links_all_7 links_all_8 links_all_9 links_all_a links_all_b links_all_c links_all_d links_all_e links_all_f links_all_10 links_all_11 links_all_12 links_all_13 links_all_14 links_all_15 links_all_16 simp_thms)

lemma links_classes_pages: "list_all (list_all links_ok) classes_pages"
  by (simp only: classes_pages_def list.pred_inject links_classes_0 links_classes_1 links_classes_2 links_classes_3 links_classes_4 links_classes_5 simp_thms)

lemma links_namespaces_pages: "list_all (list_all links_ok) namespaces_pages"
  by (simp only: namespaces_pages_def list.pred_inject links_namespaces_0 links_namespaces_1 links_namespaces_2 simp_thms)

lemma links_files_pages: "list_all (list_all links_ok) files_pages"
  by (simp only: files_pages_def list.pred_inject links_files_0 links_files_1 links_files_2 links_files_3 links_files_4 links_files_5 simp_thms)

lemma links_functions_pages: "list_all (list_all links_ok) functions_pages"
  by (simp only: functions_pages_def list.pred_inject links_functions_0 links_functions_1 links_functions_2 links_functions_3 links_functions_4 links_functions_5 links_functions_6 links_functions_7 links_functions_8 links_functions_9 links_functions_a links_functions_b links_functions_c links_functions_d links_functions_e links_functions_f links_functions_10 links_functions_11 links_functions_12 links_functions_13 links_functions_14 simp_thms)

lemma links_variables_pages: "list_all (list_all links_ok) variables_pages"
  by (simp only: variables_pages_def list.pred_inject links_variables_0 links_variables_1 links_variables_2 links_variables_3 links_variables_4 simp_thms)

lemma links_typedefs_pages: "list_all (list_all links_ok) typedefs_pages"
  by (simp only: typedefs_pages_def list.pred_inject links_typedefs_0 simp_thms)

lemma links_enums_pages: "list_all (list_all links_ok) enums_pages"
  by (simp only: enums_pages_def list.pred_inject links_enums_0 links_enums_1 links_enums_2 links_enums_3 links_enums_4 simp_thms)

lemma links_enumvalues_pages: "list_all (list_all links_ok) enumvalues_pages"
  by (simp only: enumvalues_pages_def list.pred_inject links_enumvalues_0 links_enumvalues_1 links_enumvalues_2 links_enumvalues_3 links_enumvalues_4 links_enumvalues_5 links_enumvalues_6 links_enumvalues_7 links_enumvalues_8 links_enumvalues_9 links_enumvalues_a links_enumvalues_b simp_thms)

lemma links_defines_pages: "list_all (list_all links_ok) defines_pages"
  by (simp only: defines_pages_def list.pred_inject links_defines_0 links_defines_1 links_defines_2 links_defines_3 links_defines_4 links_defines_5 links_defines_6 links_defines_7 simp_thms)

lemma links_pages_pages: "list_all (list_all links_ok) pages_pages"
  by (simp only: pages_pages_def list.pred_inject links_pages_0 links_pages_1 links_pages_2 simp_thms)

declare listed_keys [simp del]

lemma links_section_pages: "list_all (list_all (list_all links_ok)) section_pages"
  by (simp only: section_pages_def list.pred_inject links_all_pages links_classes_pages links_namespaces_pages links_files_pages
      links_functions_pages links_variables_pages links_typedefs_pages links_enums_pages links_enumvalues_pages
      links_defines_pages links_pages_pages simp_thms)

section \<open>The shape of the listed URLs\<close>

text \<open>
  A listed URL has no fragment, or one that starts with an \<open>a\<close> and has word characters only. The
  tests are on the bits of the characters, so that they evaluate fast.
\<close>

fun hash_char :: "char \<Rightarrow> bool" where
  "hash_char (Char b0 b1 b2 b3 b4 b5 b6 b7) \<longleftrightarrow> \<not> b6 \<and> \<not> b4 \<and> b0 \<and> b1 \<and> \<not> b2 \<and> \<not> b3 \<and> b5 \<and> \<not> b7"

fun plain_char :: "char \<Rightarrow> bool" where
  "plain_char (Char b0 b1 b2 b3 b4 b5 b6 b7) \<longleftrightarrow>
     \<not> b7 \<and> (if b5 then if b6 then (if b4 \<and> b3 then \<not> b2 \<and> \<not> (b0 \<and> b1) else b0 \<or> b1 \<or> b2 \<or> b3 \<or> b4) else b4 \<and> \<not> (b3 \<and> (b1 \<or> b2))
        else b6 \<and> (if b4 \<and> b3 then (b0 \<and> b1) = b2 else b0 \<or> b1 \<or> b2 \<or> b3 \<or> b4))"

lemma hash_char_eq: "hash_char c \<longleftrightarrow> c = CHR ''#''"
  by (cases c) auto

lemma plain_nat:
  "plain_char c \<Longrightarrow> (48 \<le> (of_char c :: nat) \<and> of_char c \<le> (57 :: nat)) \<or>
     (65 \<le> (of_char c :: nat) \<and> of_char c \<le> (90 :: nat)) \<or> of_char c = (95 :: nat) \<or>
     (97 \<le> (of_char c :: nat) \<and> of_char c \<le> (122 :: nat))"
  by (cases c) (auto simp: of_char_def split: if_splits)

lemma plain_word: "plain_char c \<Longrightarrow> is_word (of_char c)"
  using plain_nat [of c] unat_of_char_u16 [of c] by (auto simp: is_word_def word_le_nat_alt word_unat_eq_iff)

fun plain_rest :: "string \<Rightarrow> bool" where
  "plain_rest [] = True"
| "plain_rest (c # cs) = (if plain_char c then plain_rest cs else False)"

fun tidy_key :: "string \<Rightarrow> bool" where
  "tidy_key [] = True"
| "tidy_key (c # cs) =
     (if hash_char c then (case cs of [] \<Rightarrow> False | d # ds \<Rightarrow> d = CHR ''a'' \<and> plain_rest ds)
      else tidy_key cs)"

fun tidy_keys :: "(string \<times> nat list) list \<Rightarrow> bool" where
  "tidy_keys [] = True"
| "tidy_keys ((k, _) # es) = (if tidy_key k then tidy_keys es else False)"

lemma tidy_0a: "tidy_keys NAVTREEINDEX0a"
  by code_simp

lemma tidy_0b: "tidy_keys NAVTREEINDEX0b"
  by code_simp

lemma tidy_1a: "tidy_keys NAVTREEINDEX1a"
  by code_simp

lemma tidy_1b: "tidy_keys NAVTREEINDEX1b"
  by code_simp

lemma tidy_2a: "tidy_keys NAVTREEINDEX2a"
  by code_simp

lemma tidy_2b: "tidy_keys NAVTREEINDEX2b"
  by code_simp

lemmas tidy_scripts = tidy_0a tidy_0b tidy_1a tidy_1b tidy_2a tidy_2b

lemma tidy_keys_member: "tidy_keys es \<Longrightarrow> (k, b) \<in> set es \<Longrightarrow> tidy_key k"
  by (induction es rule: tidy_keys.induct) (auto split: if_splits)

lemma indexed_tidy:
  assumes "indexed u"
  obtains k where "u = js k" "tidy_key k"
proof -
  obtain k b where k: "u = js k" "(k, b) \<in> set (concat NAVTREEINDEX_scripts)"
    using assms by (auto simp: indexed_def list_ex_iff)
  have "tidy_key k"
    using k(2) tidy_scripts [THEN tidy_keys_member] by (auto simp: NAVTREEINDEX_scripts_def)
  with k(1) that show thesis by blast
qed

text \<open>The page of a URL, and its fragment with the number sign.\<close>

definition url_page :: "jstr \<Rightarrow> jstr" where
  "url_page u = takeWhile (\<lambda>c. c \<noteq> number_sign) u"

definition url_hash :: "jstr \<Rightarrow> jstr" where
  "url_hash u = dropWhile (\<lambda>c. c \<noteq> number_sign) u"

lemma url_parts: "url_page u @ url_hash u = u" "number_sign \<notin> set (url_page u)"
  by (auto simp: url_page_def url_hash_def dest: set_takeWhileD)

lemma plain_rest_word: "plain_rest s \<Longrightarrow> list_all is_word (js s)"
  by (induction s) (auto simp: js_def plain_word split: if_splits)

lemma number_sign_char: "of_char c = number_sign \<longleftrightarrow> c = CHR ''#''"
  using js_inject [of "[c]" "[CHR ''#'']"] by (simp add: js_def)

lemma tidy_hash: "tidy_key k \<Longrightarrow> url_hash (js k) = [] \<or> (\<exists>t. url_hash (js k) = number_sign # 97 # t \<and> list_all is_word t)"
proof (induction k)
  case (Cons c k)
  show ?case
  proof (cases "c = CHR ''#''")
    case True
    with Cons.prems obtain ds where "k = CHR ''a'' # ds" "plain_rest ds"
      by (auto simp: hash_char_eq split: list.splits)
    then show ?thesis using True plain_rest_word by (auto simp: url_hash_def js_def)
  next
    case False
    then have "of_char c \<noteq> number_sign" by (simp add: number_sign_char)
    with Cons False show ?thesis by (simp add: url_hash_def js_def hash_char_eq)
  qed
qed (simp add: url_hash_def js_def)

lemma indexed_hash:
  "indexed u \<Longrightarrow> url_hash u = [] \<or> (\<exists>t. url_hash u = number_sign # 97 # t \<and> list_all is_word t)"
  using indexed_tidy tidy_hash by metis

lemma url_split:
  assumes "number_sign \<notin> set r" "h = [] \<or> hd h = number_sign"
  shows "url_page (r @ h) = r" "url_hash (r @ h) = h"
proof -
  have plain: "\<And>c. c \<in> set r \<Longrightarrow> c \<noteq> number_sign" using assms(1) by blast
  have stop: "takeWhile (\<lambda>c. c \<noteq> number_sign) h = [] \<and> dropWhile (\<lambda>c. c \<noteq> number_sign) h = h"
    using assms(2) by (cases h) simp_all
  show "url_page (r @ h) = r"
    unfolding url_page_def using takeWhile_append2 [of r "\<lambda>c. c \<noteq> number_sign" h] plain stop by simp
  show "url_hash (r @ h) = h"
    unfolding url_hash_def using dropWhile_append2 [of r "\<lambda>c. c \<noteq> number_sign" h] plain stop by simp
qed

text \<open>The browser at a listed URL: the navigation uses its fragment, and its entry is shown.\<close>

lemma indexed_place:
  assumes "indexed u" "loc_hash loc = url_hash u"
  shows "\<not> is_line_hash (hashUrl loc)" "place_url (url_page u) (hashUrl loc) = u"
proof -
  have "\<not> is_line_hash (hashUrl loc) \<and> place_url (url_page u) (hashUrl loc) = u"
  proof (cases "url_hash u = []")
    case True
    then have h: "hashUrl loc = [number_sign]" "url_page u = u"
      using assms(2) url_parts(1) [of u] by (simp_all add: hashUrl_def hashValue_def js_substring_from_def)
    have "\<not> indexed (u @ [number_sign])"
      using indexed_hash [of "u @ [number_sign]"] url_split(2) [of u "[number_sign]"] url_parts(2) [of u] h(2) by auto
    moreover have "\<not> cut_off u [number_sign]"
      by (simp add: cut_off_def split_pages_def js_def)
    ultimately show ?thesis using assms(1) h by (simp add: place_url_def is_line_hash_def)
  next
    case False
    then obtain t where t: "url_hash u = number_sign # 97 # t" "list_all is_word t" using indexed_hash [OF assms(1)] by auto
    have "hashUrl loc = url_hash u"
      using hashUrl_hash [of "97 # t" loc] t assms(2) by (auto simp: list_all_iff is_word_def)
    then show ?thesis using t(1) assms(1) url_parts(1) [of u] by (simp add: place_url_def is_line_hash_def)
  qed
  then show "\<not> is_line_hash (hashUrl loc)" "place_url (url_page u) (hashUrl loc) = u" by simp_all
qed

section \<open>The links of the tree\<close>

fun tree_links :: "nav_item list \<Rightarrow> bool" where
  "tree_links [] = True"
| "tree_links (NavTree.nav_item.Item t l d # its) =
     ((case l of None \<Rightarrow> True | Some u \<Rightarrow> indexed u) \<and>
      (case d of Items sub \<Rightarrow> tree_links sub | _ \<Rightarrow> True) \<and> tree_links its)"

lemma tree_links_append: "tree_links (xs @ ys) \<longleftrightarrow> tree_links xs \<and> tree_links ys"
  by (induction xs rule: tree_links.induct) auto

lemma indexed_key: "key_listed k \<Longrightarrow> indexed (js k)"
  by (simp add: key_listed_def)

declare listed_keys [simp] indexed_key [simp]

lemma tree_namespaces_dup: "tree_links namespaces_dup"
  by (simp add: namespaces_dup_def)

lemma tree_namespace_communication: "tree_links namespace_communication"
  by (simp add: namespace_communication_def)

lemma tree_class_communication_1_1_client: "tree_links class_communication_1_1_client"
  by (simp add: class_communication_1_1_client_def)

lemma tree_class_communication_1_1_server: "tree_links class_communication_1_1_server"
  by (simp add: class_communication_1_1_server_def)

lemma tree_class_communication_1_1_h_t_t_p__client: "tree_links class_communication_1_1_h_t_t_p__client"
  by (simp add: class_communication_1_1_h_t_t_p__client_def)

lemma tree_namespace_e_s_c: "tree_links namespace_e_s_c"
  by (simp add: namespace_e_s_c_def)

lemma tree_class_e_s_c_1_1_c_l_i: "tree_links class_e_s_c_1_1_c_l_i"
  by (simp add: class_e_s_c_1_1_c_l_i_def)

lemma tree_namespacelsl: "tree_links namespacelsl"
  by (simp add: namespacelsl_def)

lemma tree_classlsl_1_1stream__info: "tree_links classlsl_1_1stream__info"
  by (simp add: classlsl_1_1stream__info_def)

lemma tree_classlsl_1_1stream__outlet_1: "tree_links classlsl_1_1stream__outlet_1"
  by (simp add: classlsl_1_1stream__outlet_1_def)

lemma tree_classlsl_1_1stream__outlet_2: "tree_links classlsl_1_1stream__outlet_2"
  by (simp add: classlsl_1_1stream__outlet_2_def)

lemma tree_classlsl_1_1stream__outlet_3: "tree_links classlsl_1_1stream__outlet_3"
  by (simp add: classlsl_1_1stream__outlet_3_def)

lemma tree_classlsl_1_1stream__outlet: "tree_links classlsl_1_1stream__outlet"
  by (simp only: classlsl_1_1stream__outlet_def tree_links_append tree_classlsl_1_1stream__outlet_1 tree_classlsl_1_1stream__outlet_2 tree_classlsl_1_1stream__outlet_3 simp_thms)

lemma tree_classlsl_1_1stream__inlet_1: "tree_links classlsl_1_1stream__inlet_1"
  by (simp add: classlsl_1_1stream__inlet_1_def)

lemma tree_classlsl_1_1stream__inlet_2: "tree_links classlsl_1_1stream__inlet_2"
  by (simp add: classlsl_1_1stream__inlet_2_def)

lemma tree_classlsl_1_1stream__inlet_3: "tree_links classlsl_1_1stream__inlet_3"
  by (simp add: classlsl_1_1stream__inlet_3_def)

lemma tree_classlsl_1_1stream__inlet: "tree_links classlsl_1_1stream__inlet"
  by (simp only: classlsl_1_1stream__inlet_def tree_links_append tree_classlsl_1_1stream__inlet_1 tree_classlsl_1_1stream__inlet_2 tree_classlsl_1_1stream__inlet_3 simp_thms)

lemma tree_classlsl_1_1xml__element_1: "tree_links classlsl_1_1xml__element_1"
  by (simp add: classlsl_1_1xml__element_1_def)

lemma tree_classlsl_1_1xml__element_2: "tree_links classlsl_1_1xml__element_2"
  by (simp add: classlsl_1_1xml__element_2_def)

lemma tree_classlsl_1_1xml__element: "tree_links classlsl_1_1xml__element"
  by (simp only: classlsl_1_1xml__element_def tree_links_append tree_classlsl_1_1xml__element_1 tree_classlsl_1_1xml__element_2 simp_thms)

lemma tree_classlsl_1_1continuous__resolver: "tree_links classlsl_1_1continuous__resolver"
  by (simp add: classlsl_1_1continuous__resolver_def)

lemma tree_classlsl_1_1lost__error: "tree_links classlsl_1_1lost__error"
  by (simp add: classlsl_1_1lost__error_def)

lemma tree_classlsl_1_1timeout__error: "tree_links classlsl_1_1timeout__error"
  by (simp add: classlsl_1_1timeout__error_def)

lemma tree_annotated_dup: "tree_links annotated_dup"
  by (simp add: annotated_dup_def)

lemma tree_hierarchy: "tree_links hierarchy"
  by (simp add: hierarchy_def)

lemma tree_files_dup: "tree_links files_dup"
  by (simp add: files_dup_def)

lemma tree_dir_4fef79e7177ba769987a8da36c892c5f: "tree_links dir_4fef79e7177ba769987a8da36c892c5f"
  by (simp add: dir_4fef79e7177ba769987a8da36c892c5f_def)

lemma tree_dir_63772b626f2709090f0bdca0f40827b4: "tree_links dir_63772b626f2709090f0bdca0f40827b4"
  by (simp add: dir_63772b626f2709090f0bdca0f40827b4_def)

lemma tree_dir_ee532ceb613f48f23d20ef02624c3a91: "tree_links dir_ee532ceb613f48f23d20ef02624c3a91"
  by (simp add: dir_ee532ceb613f48f23d20ef02624c3a91_def)

lemma tree_dir_5ccf6f5f6f8f5a0c68d52188c0c1e2bd: "tree_links dir_5ccf6f5f6f8f5a0c68d52188c0c1e2bd"
  by (simp add: dir_5ccf6f5f6f8f5a0c68d52188c0c1e2bd_def)

lemma tree_c_make_c_compiler_id_8c: "tree_links c_make_c_compiler_id_8c"
  by (simp add: c_make_c_compiler_id_8c_def)

lemma tree_dir_e1a715d407a4074a9fa63b2e02ec2b8f: "tree_links dir_e1a715d407a4074a9fa63b2e02ec2b8f"
  by (simp add: dir_e1a715d407a4074a9fa63b2e02ec2b8f_def)

lemma tree_c_make_c_x_x_compiler_id_8cpp: "tree_links c_make_c_x_x_compiler_id_8cpp"
  by (simp add: c_make_c_x_x_compiler_id_8cpp_def)

lemma tree_dir_bebb180f26d6bb41eb2a098db65f44a7: "tree_links dir_bebb180f26d6bb41eb2a098db65f44a7"
  by (simp add: dir_bebb180f26d6bb41eb2a098db65f44a7_def)

lemma tree_dir_6dd59ef4c64b46cf9e81380f0a3a6757: "tree_links dir_6dd59ef4c64b46cf9e81380f0a3a6757"
  by (simp add: dir_6dd59ef4c64b46cf9e81380f0a3a6757_def)

lemma tree_dir_cb540477a80f9d51ad37a936dad104bf: "tree_links dir_cb540477a80f9d51ad37a936dad104bf"
  by (simp add: dir_cb540477a80f9d51ad37a936dad104bf_def)

lemma tree_dir_40a07be7a32b2e45b448972e4bdb8ed5: "tree_links dir_40a07be7a32b2e45b448972e4bdb8ed5"
  by (simp add: dir_40a07be7a32b2e45b448972e4bdb8ed5_def)

lemma tree_dir_7a9c7094c62de71bbec4b12c7c975b93: "tree_links dir_7a9c7094c62de71bbec4b12c7c975b93"
  by (simp add: dir_7a9c7094c62de71bbec4b12c7c975b93_def)

lemma tree_dir_127a0b13c4059b08a7f4d866ec5a21cc: "tree_links dir_127a0b13c4059b08a7f4d866ec5a21cc"
  by (simp add: dir_127a0b13c4059b08a7f4d866ec5a21cc_def)

lemma tree_dir_4166fd07804cc527cdfc167b21a5330f: "tree_links dir_4166fd07804cc527cdfc167b21a5330f"
  by (simp add: dir_4166fd07804cc527cdfc167b21a5330f_def)

lemma tree_dir_a0aabf0f9c68f10a87f9043c02514b41: "tree_links dir_a0aabf0f9c68f10a87f9043c02514b41"
  by (simp add: dir_a0aabf0f9c68f10a87f9043c02514b41_def)

lemma tree_dir_3280642a839541a29e29961741ef8ced: "tree_links dir_3280642a839541a29e29961741ef8ced"
  by (simp add: dir_3280642a839541a29e29961741ef8ced_def)

lemma tree_dir_a95d52f81f463f3290acb9e3d34dacea: "tree_links dir_a95d52f81f463f3290acb9e3d34dacea"
  by (simp add: dir_a95d52f81f463f3290acb9e3d34dacea_def)

lemma tree_dir_798295ff5de2e5beb17f203298baaa7f: "tree_links dir_798295ff5de2e5beb17f203298baaa7f"
  by (simp add: dir_798295ff5de2e5beb17f203298baaa7f_def)

lemma tree_dir_d44c64559bbebec7f509842c48db8b23: "tree_links dir_d44c64559bbebec7f509842c48db8b23"
  by (simp add: dir_d44c64559bbebec7f509842c48db8b23_def)

lemma tree_com__client_8hpp: "tree_links com__client_8hpp"
  by (simp add: com__client_8hpp_def)

lemma tree_dir_97aefd0d527b934f1d99a682da8fe6a9: "tree_links dir_97aefd0d527b934f1d99a682da8fe6a9"
  by (simp add: dir_97aefd0d527b934f1d99a682da8fe6a9_def)

lemma tree_dir_e7c96c2c740204929c097fd23996983c: "tree_links dir_e7c96c2c740204929c097fd23996983c"
  by (simp add: dir_e7c96c2c740204929c097fd23996983c_def)

lemma tree_dir_caab832a2bdf26d7f56e9ddf444490ee: "tree_links dir_caab832a2bdf26d7f56e9ddf444490ee"
  by (simp add: dir_caab832a2bdf26d7f56e9ddf444490ee_def)

lemma tree_str_a_n_s_iseq_8hpp: "tree_links str_a_n_s_iseq_8hpp"
  by (simp add: str_a_n_s_iseq_8hpp_def)

lemma tree_dir_5e9cc357fe3b3313ad16f661a338681c: "tree_links dir_5e9cc357fe3b3313ad16f661a338681c"
  by (simp add: dir_5e9cc357fe3b3313ad16f661a338681c_def)

lemma tree_lib_2str_a_n_s_iseq_2src_2main_8cpp: "tree_links lib_2str_a_n_s_iseq_2src_2main_8cpp"
  by (simp add: lib_2str_a_n_s_iseq_2src_2main_8cpp_def)

lemma tree_str_a_n_s_iseq_8cpp: "tree_links str_a_n_s_iseq_8cpp"
  by (simp add: str_a_n_s_iseq_8cpp_def)

lemma tree_dir_68267d1309a1af8e8297ef4c3efbcdba: "tree_links dir_68267d1309a1af8e8297ef4c3efbcdba"
  by (simp add: dir_68267d1309a1af8e8297ef4c3efbcdba_def)

lemma tree_src_2main_8cpp: "tree_links src_2main_8cpp"
  by (simp add: src_2main_8cpp_def)

lemma tree_dir_e3e6a61ebba8fbca2913381c4bcfbd2b: "tree_links dir_e3e6a61ebba8fbca2913381c4bcfbd2b"
  by (simp add: dir_e3e6a61ebba8fbca2913381c4bcfbd2b_def)

lemma tree_dir_470f4625da3256ec4a5c2be4bd4f8658: "tree_links dir_470f4625da3256ec4a5c2be4bd4f8658"
  by (simp add: dir_470f4625da3256ec4a5c2be4bd4f8658_def)

lemma tree_dir_d623257484d3aadfc7ce1557f2d8c6b6: "tree_links dir_d623257484d3aadfc7ce1557f2d8c6b6"
  by (simp add: dir_d623257484d3aadfc7ce1557f2d8c6b6_def)

lemma tree_lsl__c_8h_1: "tree_links lsl__c_8h_1"
  by (simp add: lsl__c_8h_1_def)

lemma tree_lsl__c_8h_2: "tree_links lsl__c_8h_2"
  by (simp add: lsl__c_8h_2_def)

lemma tree_lsl__c_8h: "tree_links lsl__c_8h"
  by (simp only: lsl__c_8h_def tree_links_append tree_lsl__c_8h_1 tree_lsl__c_8h_2 simp_thms)

lemma tree_lsl__cpp_8h: "tree_links lsl__cpp_8h"
  by (simp add: lsl__cpp_8h_def)

lemma tree_globals_dup: "tree_links globals_dup"
  by (simp add: globals_dup_def)

lemma tree_NAVTREE: "tree_links NAVTREE"
  by (simp add: NAVTREE_def)

declare listed_keys [simp del] indexed_key [simp del]

lemma tree_scripts: "list_all (\<lambda>(p, x, items). tree_links items) nav_scripts"
  by (simp only: nav_scripts_def list.pred_inject prod.case simp_thms
      tree_namespaces_dup tree_namespace_communication tree_class_communication_1_1_client
      tree_class_communication_1_1_server tree_class_communication_1_1_h_t_t_p__client
      tree_namespace_e_s_c tree_class_e_s_c_1_1_c_l_i tree_namespacelsl tree_classlsl_1_1stream__info
      tree_classlsl_1_1stream__outlet tree_classlsl_1_1stream__inlet tree_classlsl_1_1xml__element
      tree_classlsl_1_1continuous__resolver tree_classlsl_1_1lost__error tree_classlsl_1_1timeout__error
      tree_annotated_dup tree_hierarchy tree_files_dup tree_dir_4fef79e7177ba769987a8da36c892c5f
      tree_dir_63772b626f2709090f0bdca0f40827b4 tree_dir_ee532ceb613f48f23d20ef02624c3a91
      tree_dir_5ccf6f5f6f8f5a0c68d52188c0c1e2bd tree_c_make_c_compiler_id_8c
      tree_dir_e1a715d407a4074a9fa63b2e02ec2b8f tree_c_make_c_x_x_compiler_id_8cpp
      tree_dir_bebb180f26d6bb41eb2a098db65f44a7 tree_dir_6dd59ef4c64b46cf9e81380f0a3a6757
      tree_dir_cb540477a80f9d51ad37a936dad104bf tree_dir_40a07be7a32b2e45b448972e4bdb8ed5
      tree_dir_7a9c7094c62de71bbec4b12c7c975b93 tree_dir_127a0b13c4059b08a7f4d866ec5a21cc
      tree_dir_4166fd07804cc527cdfc167b21a5330f tree_dir_a0aabf0f9c68f10a87f9043c02514b41
      tree_dir_3280642a839541a29e29961741ef8ced tree_dir_a95d52f81f463f3290acb9e3d34dacea
      tree_dir_798295ff5de2e5beb17f203298baaa7f tree_dir_d44c64559bbebec7f509842c48db8b23
      tree_com__client_8hpp tree_dir_97aefd0d527b934f1d99a682da8fe6a9
      tree_dir_e7c96c2c740204929c097fd23996983c tree_dir_caab832a2bdf26d7f56e9ddf444490ee
      tree_str_a_n_s_iseq_8hpp tree_dir_5e9cc357fe3b3313ad16f661a338681c
      tree_lib_2str_a_n_s_iseq_2src_2main_8cpp tree_str_a_n_s_iseq_8cpp
      tree_dir_68267d1309a1af8e8297ef4c3efbcdba tree_src_2main_8cpp
      tree_dir_e3e6a61ebba8fbca2913381c4bcfbd2b tree_dir_470f4625da3256ec4a5c2be4bd4f8658
      tree_dir_d623257484d3aadfc7ce1557f2d8c6b6 tree_lsl__c_8h tree_lsl__cpp_8h tree_globals_dup)

lemma level_links:
  assumes "level shipped_scripts d = Some items" "case d of Items sub \<Rightarrow> tree_links sub | _ \<Rightarrow> True"
  shows "tree_links items"
proof (cases d)
  case (Lazy v)
  then obtain vars where vars: "shipped_scripts v = Some vars" "vars (getData_name v) = Some items"
    using assms(1) by (auto simp: level_def getScript_def split: option.splits)
  then obtain p x its where "(p, x, its) \<in> set nav_scripts" "vars = [js x \<mapsto> its]"
    unfolding shipped_scripts_def by (auto dest!: map_of_SomeD)
  with vars(2) have "(p, x, items) \<in> set nav_scripts" by (auto split: if_splits)
  then show ?thesis using tree_scripts by (auto simp: list_all_iff)
qed (use assms in \<open>auto simp: level_def\<close>)

lemma tree_links_nth:
  "tree_links items \<Longrightarrow> b < length items \<Longrightarrow>
   (\<forall>u. i_link (items ! b) = Some u \<longrightarrow> indexed u) \<and> (case i_data (items ! b) of Items sub \<Rightarrow> tree_links sub | _ \<Rightarrow> True)"
proof (induction items arbitrary: b rule: tree_links.induct)
  case (2 t l d its)
  then show ?case by (cases b) auto
qed simp

lemma item_link_indexed:
  "item_at shipped_scripts d bs = Some it \<Longrightarrow> (case d of Items sub \<Rightarrow> tree_links sub | _ \<Rightarrow> True) \<Longrightarrow>
   i_link it = Some u \<Longrightarrow> indexed u"
proof (induction shipped_scripts d bs rule: item_at.induct)
  case (2 d b)
  then obtain items where "level shipped_scripts d = Some items" "b < length items" "it = items ! b"
    by (auto split: option.splits if_splits)
  then show ?case using tree_links_nth [OF level_links [OF _ 2(2)]] 2(3) by blast
next
  case (3 d b b' bs)
  then obtain items where items: "level shipped_scripts d = Some items" "b < length items"
    "item_at shipped_scripts (i_data (items ! b)) (b' # bs) = Some it"
    by (auto split: option.splits if_splits)
  from 3(1) [OF items(1,2,3) _ 3(4)] tree_links_nth [OF level_links [OF items(1) 3(3)] items(2)] show ?case by blast
qed simp

section \<open>The links of the menu\<close>

fun menu_urls :: "Menu.item list \<Rightarrow> jstr list" where
  "menu_urls [] = []"
| "menu_urls (Menu.item.Item l u c # its) = u # (case c of None \<Rightarrow> [] | Some cs \<Rightarrow> menu_urls cs) @ menu_urls its"

text \<open>A letter of an alphabetical list: a fragment of a listed page that starts with an \<open>i\<close>.\<close>

definition letter_of_page :: "jstr \<Rightarrow> bool" where
  "letter_of_page u \<longleftrightarrow> indexed (url_page u) \<and> list_all (\<lambda>(p, _). url_page u \<noteq> js p) split_pages \<and>
     (case url_hash u of _ # c # t \<Rightarrow> c = 105 \<and> list_all is_word t | _ \<Rightarrow> False)"

definition menu_key :: "string \<Rightarrow> bool" where
  "menu_key s \<longleftrightarrow> s = ''inherits.html'' \<or> key_listed s \<or>
     (let p = takeWhile (\<lambda>c. c \<noteq> CHR ''#'') s
      in key_listed p \<and> list_all (\<lambda>(q, _). p \<noteq> q) split_pages \<and>
         (case dropWhile (\<lambda>c. c \<noteq> CHR ''#'') s of _ # c # t \<Rightarrow> c = CHR ''i'' \<and> plain_rest t | _ \<Rightarrow> False))"

definition menu_ok :: "jstr \<Rightarrow> bool" where
  "menu_ok u \<longleftrightarrow> u = js ''inherits.html'' \<or> indexed u \<or> letter_of_page u"

lemma url_page_js: "url_page (js s) = js (takeWhile (\<lambda>c. c \<noteq> CHR ''#'') s)"
  by (induction s) (simp_all add: url_page_def js_def number_sign_char)

lemma url_hash_js: "url_hash (js s) = js (dropWhile (\<lambda>c. c \<noteq> CHR ''#'') s)"
  by (induction s) (simp_all add: url_hash_def js_def number_sign_char)

lemma letter_hash:
  "(case s of _ # c # t \<Rightarrow> c = CHR ''i'' \<and> plain_rest t | _ \<Rightarrow> False) \<Longrightarrow>
   (case js s of _ # c # t \<Rightarrow> c = 105 \<and> list_all is_word t | _ \<Rightarrow> False)"
  using plain_rest_word by (auto simp: js_def split: list.splits)

lemma letter_key:
  assumes "key_listed (takeWhile (\<lambda>c. c \<noteq> CHR ''#'') s)" "list_all (\<lambda>(q, _). takeWhile (\<lambda>c. c \<noteq> CHR ''#'') s \<noteq> q) split_pages"
    and "case dropWhile (\<lambda>c. c \<noteq> CHR ''#'') s of _ # c # t \<Rightarrow> c = CHR ''i'' \<and> plain_rest t | _ \<Rightarrow> False"
  shows "letter_of_page (js s)"
  using assms(1,2) letter_hash [OF assms(3)]
  by (simp add: letter_of_page_def url_page_js url_hash_js key_listed_def)

lemma menu_key_ok: "menu_key s \<Longrightarrow> menu_ok (js s)"
  unfolding menu_key_def Let_def using letter_key [of s] by (auto simp: menu_ok_def key_listed_def)

declare listed_keys [simp]

lemma menu_links: "list_all menu_ok (menu_urls menudata)"
  by (simp add: menudata_def menu_key_ok menu_key_def split_pages_def Let_def)

declare listed_keys [simp del]

end
