(* ===== verification/SitePlaces.thy ===== *)
theory SitePlaces
  imports SiteLinks
begin

text \<open>
  From a link of the site to the panel of the page it leads to: the navigation at the place of the link
  shows the entry of the link, for the targets of the search, the entries of the tree and those of the menu.
\<close>

section \<open>Following a link\<close>

lemma indexed_link_shown:
  assumes "indexed u" "loc_hash (location_of pg) = url_hash u" "\<not> has_cachedLink sync" "panel_ok pg st"
  shows "panel_shows pg sync (url_page u) u st"
  using place_shown [OF assms(3,4) url_parts(2) [of u] refl] indexed_place [OF assms(1,2)]
  by simp

text \<open>A letter of an alphabetical list leads to the page of the list.\<close>

lemma letter_link_shown:
  assumes "letter_of_page u" "loc_hash (location_of pg) = url_hash u" "\<not> has_cachedLink sync" "panel_ok pg st"
  shows "panel_shows pg sync (url_page u) (url_page u) st"
proof -
  let ?r = "url_page u"
  obtain c t where h: "url_hash u = c # 105 # t" "list_all is_word t"
    using assms(1) by (auto simp: letter_of_page_def split: list.splits)
  have "c = number_sign" using h(1) by (auto simp: url_hash_def dropWhile_eq_Cons_conv)
  with h have hash: "hashUrl (location_of pg) = number_sign # 105 # t"
    using hashUrl_hash [of "105 # t" "location_of pg"] assms(2) by (auto simp: list_all_iff is_word_def)
  have page: "number_sign \<notin> set ?r" by (rule url_parts(2))
  have "\<not> indexed (?r @ number_sign # 105 # t)"
    using indexed_hash [of "?r @ number_sign # 105 # t"] url_split(2) [OF page, of "number_sign # 105 # t"] by auto
  moreover have "\<not> cut_off ?r h" for h using assms(1) by (auto simp: letter_of_page_def cut_off_def list_all_iff)
  moreover have "indexed ?r" using assms(1) by (simp add: letter_of_page_def)
  ultimately have "place_url ?r (hashUrl (location_of pg)) = ?r" by (simp add: place_url_def hash)
  moreover have "\<not> is_line_hash (hashUrl (location_of pg))" by (simp add: hash is_line_hash_def)
  ultimately show ?thesis
    using place_shown [OF assms(3,4) page refl] by simp
qed

section \<open>Properties\<close>

text \<open>
  C12: While no link is stored by the synchronisation button, every target of the search leads to its
  entry: for every entry of every section of the shipped
  index, the link of each of its targets starts on the page that the results page lies one level
  below, and on the page it names, at its fragment, the panel shows the entry of the tree
  with that link. Five targets are not in the index of the tree and are left out.
\<close>

theorem search_links_reach_their_entries:
  assumes "e \<in> set (concat (concat section_pages))" "t \<in> set (e_targets e)"
    and "\<forall>k \<in> set unlisted_links. t_href t \<noteq> js k"
    and "loc_hash (location_of pg) = url_hash (drop 3 (t_href t))" "\<not> has_cachedLink sync" "panel_ok pg st"
  shows "take 3 (t_href t) = js ''../'' \<and> panel_shows pg sync (url_page (drop 3 (t_href t))) (drop 3 (t_href t)) st"
proof -
  have "link_ok (t_href t)" using assms(1,2) links_section_pages by (auto simp: list_all_iff links_ok_def)
  with assms(3) have "take 3 (t_href t) = js ''../''" "indexed (drop 3 (t_href t))"
    by (auto simp: link_ok_def list_ex_iff)
  then show ?thesis using indexed_link_shown assms(4-6) by blast
qed

text \<open>
  C20: While no link is stored, the tree and the menu lead to entries too: the link of every entry of the tree leads to a place
  at which the panel shows an entry with that link, and every link of the menu to one that shows the entry of its page,
  except the link to the class hierarchy as a picture, for which the tree has no entry.
\<close>

theorem tree_and_menu_reach_entries:
  assumes "item_at shipped_scripts (Items NAVTREE) p = Some it \<and> i_link it = Some u \<or>
      u \<in> set (menu_urls menudata) \<and> u \<noteq> js ''inherits.html''"
    and "loc_hash (location_of pg) = url_hash u" "\<not> has_cachedLink sync" "panel_ok pg st"
  shows "panel_shows pg sync (url_page u) (if indexed u then u else url_page u) st \<and>
    (item_at shipped_scripts (Items NAVTREE) p = Some it \<longrightarrow> i_link it = Some u \<longrightarrow> indexed u)"
proof -
  have tree: "indexed u" if "item_at shipped_scripts (Items NAVTREE) p = Some it" "i_link it = Some u"
    using item_link_indexed [OF that(1) _ that(2)] tree_NAVTREE by simp
  have "indexed u \<or> letter_of_page u"
    using assms(1) tree menu_links by (auto simp: list_all_iff menu_ok_def)
  then show ?thesis
    using indexed_link_shown [OF _ assms(2-4)] letter_link_shown [OF _ assms(2-4)] tree by auto
qed

text \<open>The links to the lists of members at the top of the two pages at which the index is cut.\<close>

definition members_links :: "(string \<times> string) list" where
  "members_links =
     [(''db/df3/lsl__c_8h.html'', ''#define-members''), (''db/df3/lsl__c_8h.html'', ''#typedef-members''),
      (''db/df3/lsl__c_8h.html'', ''#enum-members''), (''db/df3/lsl__c_8h.html'', ''#func-members''),
      (''d6/dbd/classlsl_1_1stream__inlet.html'', ''#pub-methods'')]"

lemma members_links_tidy:
  "list_all (\<lambda>(p, l). (case l of h # c # t \<Rightarrow> hash_char h \<and> c \<noteq> CHR ''a'' \<and> c \<noteq> CHR ''l'' \<and>
       list_all (\<lambda>d. plain_char d \<or> d = CHR ''-'') (c # t) | _ \<Rightarrow> False) \<and>
     list_all (\<lambda>d. \<not> hash_char d) p \<and> list_ex (\<lambda>(q, f). q = p \<and> str_less f l) split_pages) members_links"
  by code_simp

lemma tidy_words: "list_all (\<lambda>d. plain_char d \<or> d = CHR ''-'') s \<Longrightarrow> list_all (\<lambda>d. is_word d \<or> d = 45) (js s)"
  using plain_word by (induction s) (auto simp: js_def)

lemma no_hash_char: "list_all (\<lambda>d. \<not> hash_char d) s \<Longrightarrow> number_sign \<notin> set (js s)"
  by (induction s) (auto simp: js_def hash_char_eq number_sign_char dest: sym)

lemma members_links_shape:
  assumes "(p, l) \<in> set members_links"
  obtains c t where "js l = number_sign # c # t" "c \<noteq> 97" "c \<noteq> 108" "list_all (\<lambda>d. is_word d \<or> d = 45) (c # t)"
    "number_sign \<notin> set (js p)" "cut_off (js p) (js l)"
proof -
  have all: "\<And>P x xs. list_all P xs \<Longrightarrow> x \<in> set xs \<Longrightarrow> P x" by (simp add: list_all_iff)
  obtain c t where l: "l = CHR ''#'' # c # t" "c \<noteq> CHR ''a''" "c \<noteq> CHR ''l''"
    "list_all (\<lambda>d. plain_char d \<or> d = CHR ''-'') (c # t)"
    and p: "list_all (\<lambda>d. \<not> hash_char d) p" and s: "list_ex (\<lambda>(q, f). q = p \<and> str_less f l) split_pages"
    using all [OF members_links_tidy assms, unfolded prod.case] unfolding hash_char_eq
    by (cases l; cases "tl l") auto
  have "of_char c \<noteq> (97 :: u16)" "of_char c \<noteq> (108 :: u16)"
    using l(2,3) of_char_u16_inject [of c "CHR ''a''"] of_char_u16_inject [of c "CHR ''l''"] by simp_all
  moreover have "js l = number_sign # of_char c # js t" by (simp add: l(1) js_def)
  moreover have "cut_off (js p) (js l)"
  proof -
    obtain f where "(p, f) \<in> set split_pages" "str_less f l" using s unfolding list_ex_iff by fast
    then show ?thesis unfolding cut_off_def using str_less_js [THEN less_imp_le, of f l]
      by (intro bexI [of _ "(p, f)"]) (simp_all only: prod.case simp_thms)
  qed
  moreover have "list_all (\<lambda>d. is_word d \<or> d = 45) (of_char c # js t)" using tidy_words [OF l(4)] by (simp add: js_def)
  ultimately show thesis using that no_hash_char [OF p] by blast
qed

lemma members_links_listed: "(p, l) \<in> set members_links \<Longrightarrow> indexed (js p)"
  by (auto simp: members_links_def listed_keys indexed_key)

text \<open>
  C21: While no link is stored, the links to the lists of members at the top of two pages of the site (the C header of the
  streaming library and its inlet class) make the panel leave the entry of the page: the page is listed,
  but at these fragments the panel shows the entry of the whole site.
\<close>

theorem members_links_leave_the_entry:
  assumes "(p, l) \<in> set members_links" "loc_hash (location_of pg) = js l" "\<not> has_cachedLink sync" "panel_ok pg st"
  shows "indexed (js p) \<and> panel_shows pg sync (js p) (home shipped_site) st"
proof -
  obtain c t where l: "js l = number_sign # c # t" "c \<noteq> 97" "c \<noteq> 108" "list_all (\<lambda>d. is_word d \<or> d = 45) (c # t)"
    and page: "number_sign \<notin> set (js p)" and cut: "cut_off (js p) (js l)"
    using members_links_shape [OF assms(1)] .
  have hash: "hashUrl (location_of pg) = js l"
    using hashUrl_hash [OF l(4)] assms(2) l(1) by simp
  have "\<not> indexed (js p @ js l)"
    using indexed_hash [of "js p @ js l"] url_split(2) [OF page, of "js l"] l(1,2) by auto
  then have "place_url (js p) (js l) = home shipped_site" using cut by (simp add: place_url_def)
  moreover have "\<not> is_line_hash (js l)" using l(1,3) by (simp add: is_line_hash_def)
  ultimately show ?thesis
    using place_shown [OF assms(3,4) page refl] members_links_listed [OF assms(1)] by (simp add: hash)
qed

section \<open>Witnesses\<close>

text \<open>A page that has just been opened at a fragment.\<close>

definition page_at :: "string \<Rightarrow> nav_page" where
  "page_at h = opened_page\<lparr>location_of := \<lparr>loc_pathname = js ''/html/'', loc_hash = js h\<rparr>\<rparr>"

lemma page_at_facts:
  "loc_hash (location_of (page_at h)) = js h" "panel_ok (page_at h) opened_state" "\<not> has_cachedLink no_sync"
  by (simp_all add: page_at_def panel_ok_def cache_ok_def opened_page_def opened_state_def tree_reachable.init demo_facts(1))

theorem members_links_leave_the_entry_witness:
  "panel_shows (page_at ''#func-members'') no_sync (js ''db/df3/lsl__c_8h.html'') (home shipped_site) opened_state"
  using members_links_leave_the_entry [OF _ page_at_facts(1,3,2), of "''db/df3/lsl__c_8h.html''"]
  by (simp add: members_links_def)

theorem tree_and_menu_reach_entries_witness:
  "panel_shows (page_at ''#index_a'') no_sync (js ''functions.html'')
     (if indexed (js ''functions.html#index_a'') then js ''functions.html#index_a'' else js ''functions.html'') opened_state"
proof -
  have "js ''functions.html#index_a'' \<in> set (menu_urls menudata)" by (simp add: menudata_def)
  moreover have "js ''functions.html#index_a'' \<noteq> js ''inherits.html''" by simp
  moreover have "js ''#index_a'' = url_hash (js ''functions.html#index_a'')" "url_page (js ''functions.html#index_a'') = js ''functions.html''"
    by (simp_all add: url_hash_js url_page_js)
  ultimately show ?thesis
    using tree_and_menu_reach_entries [of "[]" undefined "js ''functions.html#index_a''" "page_at ''#index_a''" no_sync opened_state]
      page_at_facts by metis
qed

theorem search_links_reach_their_entries_witness:
  "panel_shows (page_at ''#ab1ccb9c2a1945c7051a0e90edaba8996'') no_sync (js ''d1/d6a/classlsl_1_1stream__info.html'')
     (js ''d1/d6a/classlsl_1_1stream__info.html#ab1ccb9c2a1945c7051a0e90edaba8996'') opened_state"
proof -
  let ?u = "''d1/d6a/classlsl_1_1stream__info.html#ab1ccb9c2a1945c7051a0e90edaba8996''"
  define t where "t = \<lparr>t_href = js (''../'' @ ?u), t_parent = 1, t_scope = js ''lsl::stream_info''\<rparr>"
  have "all_1 ! 4 \<in> set (concat (concat section_pages))"
    by (simp add: section_pages_def all_pages_def all_1_def)
  moreover have "t \<in> set (e_targets (all_1 ! 4))" by (simp add: all_1_def t_def)
  moreover have "\<forall>k \<in> set unlisted_links. t_href t \<noteq> js k" by (simp add: unlisted_links_def t_def)
  moreover have "drop 3 (t_href t) = js ?u" by (simp add: t_def js_def)
  moreover have "url_hash (js ?u) = js ''#ab1ccb9c2a1945c7051a0e90edaba8996''" "url_page (js ?u) = js ''d1/d6a/classlsl_1_1stream__info.html''"
    by (simp_all add: url_hash_js url_page_js)
  ultimately show ?thesis
    using search_links_reach_their_entries [of "all_1 ! 4" t "page_at ''#ab1ccb9c2a1945c7051a0e90edaba8996''" no_sync opened_state]
      page_at_facts by metis
qed

end
