(* ===== verification/Spec2Isabelle.thy ===== *)
theory Spec2Isabelle
  imports Prelude Crc16 Transport TcpServer JsString SearchId Dom SearchResults ResultsRun SearchData SearchBox
    SearchIndex SearchSections SearchEntries AllEntries SectionEntries SearchShipped
    NavPath NavTree NavData NavIndex NavShipped NavScripts NavPlaces NavReach NavScroll Theme Resize DirTable HttpClient
    Connection ServerLifecycle UdpServer Markup Menu CopyButton ParagraphLink ServerCalls MainProgram BoardCode
    PageLoad SiteLinks SitePlaces
begin

text \<open>
  com_client: a verification library.

  The repository is a C++ library of communication clients and servers (\<open>src/\<close>,
  \<open>include/\<close>) with the documentation site that is shipped with it
  (\<open>docs/documentation/html/\<close>), whose scripts make up the JavaScript of the repository: a
  search over generated index pages and a navigation tree over generated index scripts.
  The two parts do not call each other.

  \<^bold>\<open>The C++ part.\<close>

  \<^item> \<open>Prelude\<close>: bytes and 16-bit registers, bit lemmas, loops as folds.

  \<^item> \<open>Crc16\<close> (\<open>src/com_client.cpp\<close>): the table that \<open>Client::mk_crctable\<close> fills, the loop of
  \<open>Client::CRC\<close> and \<open>Client::check_CRC\<close>, with the word arithmetic at its width; a reference
  (\<open>crc_serial\<close>) that divides bit by bit. The lemmas show that the register is linear and
  invertible, from which the detection of burst errors and odd errors follows.

  \<^item> \<open>Transport\<close> (\<open>src/tcp_client.cpp\<close>, \<open>src/serial_client.cpp\<close>, \<open>src/udp_client.cpp\<close>): \<open>readS\<close>
  and \<open>writeS\<close> in their Linux branches. The system is a tape of outcomes (bytes, failures,
  and then the end of the stream); the loop of \<open>readS\<close> is a partial function, so that a
  call that never returns is \<open>None\<close>, and a write outside the buffer is a value. The locale
  \<open>framed_link\<close> states what a link with frames promises and is interpreted for TCP and
  for the serial line.

  \<^item> \<open>HttpClient\<close> (\<open>src/http_client.cpp\<close>): the requests, the size of their buffer, and what \<open>get\<close>
  and \<open>post\<close> make of a response; an exception or undefined behaviour is a value of
  \<open>http_error\<close>.

  \<^item> \<open>Connection\<close> (\<open>open_connection\<close> of the three clients, and \<open>src/com_client.cpp\<close>): opening and
  closing over the descriptor table of the process, in which a new descriptor gets the
  lowest free number; what the network and the devices answer is a parameter (\<open>net\<close>,
  \<open>devices\<close>). The lemmas count the open descriptors.

  \<^item> \<open>ServerLifecycle\<close>: the locale \<open>server_lifecycle\<close>, what \<open>start\<close> and \<open>stop\<close> of \<open>Server\<close> promise
  of the running flag, interpreted for both servers.

  \<^item> \<open>TcpServer\<close> (\<open>include/tcp_client.hpp\<close>, \<open>include/com_client.hpp\<close>): the object, starting and
  stopping, the accept thread, one handler thread per client and the calls of the program
  as the relation \<open>server_step\<close>: \<open>thread_turn\<close> is a turn that a thread takes by itself, \<open>recv_turn\<close> the
  return of a blocking \<open>recv\<close>, \<open>stop_turn\<close> a step of \<open>stop\<close>, which joins thread by thread, and \<open>read_turn\<close>
  one of \<open>read_byte\<close>, from lock to lock; a copy past the end of a FIFO sets \<open>overrun\<close>. \<open>server_inv\<close>
  holds in every reachable state, and \<open>turns_left\<close> bounds the steps once the flag is cleared. The locale
  \<open>byte_queue\<close> is the contract of the FIFO and is interpreted for each client.

  \<^item> \<open>ServerCalls\<close>: the calls of the two callbacks and \<open>send_data\<close>; a callback is given the bytes that
  the FIFO of its client gets.

  \<^item> \<open>UdpServer\<close> (\<open>include/udp_client.hpp\<close>): the same for datagrams, with the receive thread, its
  FIFOs and its echo (\<open>udp_step\<close>, \<open>udp_inv\<close>, against the log of the datagrams as they were sent), and
  \<open>broadcast\<close>.

  \<^item> \<open>MainProgram\<close> (\<open>src/main.cpp\<close>): the program from its arguments on: the choice of the client, its opening and
  the loop, whose read is longer than its buffer.

  \<^item> \<open>BoardCode\<close> (\<open>src/arduino/arduino.ino\<close>, \<open>misc/esp32c3_module/esp32c3_module.ino\<close>,
  \<open>src/main_testESP32.cpp\<close>): the board that scans 64 inputs, its handshake as a partial function and the
  128 bytes that a serial client reads; the sniffer with its 32-bit clock against one that does not wrap; the
  tool that hands out credentials.

  The end of this theory joins the parts: what both servers promise of their flag, and a
  client that is opened and then posts.

  \<^bold>\<open>The search of the site\<close> (\<open>search/search.js\<close>, \<open>search/searchdata.js\<close>).

  \<^item> \<open>JsString\<close>: strings as lists of 16-bit units, number formats, trimming, \<open>indexOf\<close>,
  \<open>escape\<close> and \<open>unescape\<close>; \<open>Dom\<close>: a document as a tree of elements with keys.

  \<^item> \<open>SearchId\<close>: \<open>convertToId\<close> and the comparison that shows a row; \<open>SearchResults\<close>:
  \<open>createResults\<close> and the methods of \<open>SearchResults\<close>; \<open>ResultsRun\<close>: the events of such a page one
  after the other, none of which throws in a page of the site, and what becomes of them in any other
  parent (\<open>parent_page\<close>); \<open>SearchData\<close> and \<open>SearchBox\<close>: the tables and
  every handler of \<open>SearchBox\<close> over a page with its pending timers; \<open>box_step\<close> is one event
  and \<open>box_inv\<close> holds in every reachable page. The two halves meet in the query: the box
  escapes the text, the results page recovers it.

  \<^item> \<open>SearchIndex\<close> (\<open>search/all_0.js\<close> to \<open>search/all_16.js\<close>) and \<open>SearchSections\<close> (the other sections): the
  shipped entries; \<open>SearchEntries\<close>: \<open>entry_ok\<close>, the identifier of an entry is its encoded label with a
  number, and how to check it; \<open>AllEntries\<close> and \<open>SectionEntries\<close>: it holds of every shipped entry;
  \<open>SearchShipped\<close>: so each entry is found by every prefix of its name.

  \<^bold>\<open>The navigation tree\<close> (\<open>navtree.js\<close>, \<open>navtreedata.js\<close>, \<open>navtreeindex0.js\<close> to \<open>2\<close>).

  \<^item> \<open>NavPath\<close>: paths, fragments, the link of a node and the stored link; \<open>NavTree\<close>: the nodes,
  built from the arrays when a level is first shown, opening and closing, and \<open>showNode\<close>;
  \<open>stands_for\<close> relates a node to the data it was built from and is kept by every
  operation, and \<open>item_at\<close> is what the arrays describe.

  \<^item> \<open>NavIndex\<close>: the choice of the index script, \<open>navTo\<close> and \<open>gotoNode\<close>, the selection and the
  events; \<open>NavData\<close>: the shipped arrays; \<open>NavShipped\<close>: the shipped index against the code.

  \<^item> \<open>NavScripts\<close> (\<open>annotated_dup.js\<close>, \<open>files_dup.js\<close>, the scripts of the directories, files and
  classes): the arrays of the levels that \<open>navtreedata.js\<close> leaves out; \<open>NavPlaces\<close>: every position
  that the index scripts give is that of the entry whose link is the page; \<open>NavReach\<close>: so \<open>navTo\<close>
  on a listed page opens the way to that entry and highlights it.

  \<^item> \<open>PageLoad\<close>: what the panel shows for every page and every fragment of a location, listed or not
  (\<open>place_url\<close>); \<open>SiteLinks\<close>: the links of the search, the tree and the menu against the index;
  \<open>SitePlaces\<close>: so following one of them leads to its entry.

  \<^item> \<open>NavScroll\<close>: the click on an entry, \<open>gotoAnchor\<close> with the queue of animations, \<open>highlightAnchor\<close>
  and \<open>glowEffect\<close>, \<open>showRoot\<close>; a clicked entry is the one that stays selected.

  \<^bold>\<open>The other scripts of the pages.\<close>

  \<^item> \<open>Markup\<close> and \<open>Menu\<close> (\<open>menu.js\<close>, \<open>menudata.js\<close>): a reader for the markup that the scripts write,
  which gives back every plain tree; the markup of \<open>makeTree\<close>, what \<open>initMenu\<close> makes of the
  navigation element, and the shipped menu.

  \<^item> \<open>DirTable\<close> (\<open>dynsections.js\<close>): the rows of the folding table and the sections.

  \<^item> \<open>Resize\<close> (\<open>resize.js\<close>): the side panel with its cookies, and the heights of the page.

  \<^item> \<open>CopyButton\<close> (\<open>doxygen-awesome-fragment-copy-button.js\<close>): pages as trees of elements, the loop over
  the live collection of fragments, and the handler of a copy button with its timers;
  \<open>ParagraphLink\<close> (\<open>doxygen-awesome-paragraph-link.js\<close>): the permanent links, on the same pages.

  \<^item> \<open>Theme\<close> (\<open>doxygen-awesome-darkmode-toggle.js\<close>, \<open>toggle-alternative-theme.js\<close>): the reader's
  preference per system mode, over every order of events, with other tabs that change it at any time.

  \<^bold>\<open>Conventions.\<close> A handler that can throw gives the error with the state it leaves; a loop
  that may not end is a \<open>partial_function (option)\<close>, and that it ends is proved; no fuel is
  used. The engine's Unicode tables are a parameter (\<open>jsenv\<close>); jQuery's \<open>$.extend\<close> follows
  its documentation, and \<open>append\<close> of jQuery is the reader of \<open>Markup\<close>.

  \<^bold>\<open>Not modelled.\<close> Races of the servers inside a container or mutex of the library, the Windows and
  macOS branches of the C++ code, the text that \<open>main.cpp\<close>
  and the sniffer print, logging, the switches for Nagle's algorithm and quick acknowledgements, jQuery itself, and
  styles without a state (indentation of images, colours, the course of an animation).
\<close>

section \<open>Properties of both servers\<close>

text \<open>
  Whatever a program calls on a server, the flag is afterwards that of its last call, even
  when a start failed: the next start is then refused, until a stop. This holds for the TCP
  and the UDP server, which inherit it from one base class.
\<close>

theorem server_flag_follows_last_call:
  "(TcpServer.m_is_running (fold tcp_life.request (rs @ [r]) st) \<longleftrightarrow> r \<noteq> Stop) \<and>
   start env' (snd (start env st)) = (Some AlreadyRunning, snd (start env st)) \<and>
   (u_is_running (fold udp_life.request (qs @ [q]) su) \<longleftrightarrow> q \<noteq> Stop) \<and>
   udp_start envu' (snd (udp_start envu su)) = (Some UdpAlreadyRunning, snd (udp_start envu su))"
  by (simp only: tcp_life.running_requests tcp_life.start_start udp_life.running_requests udp_life.start_start simp_thms)

section \<open>Connecting and posting\<close>

text \<open>
  C27: For a client that was not connected before, a request whose header fits its buffer and a
  response that arrives in one piece of fewer than 2048 bytes: a client that was opened on a host
  and then posts names that host in its request, sends the request whole, and gives the body of
  the response if its status is 200, else the error with its status; one whose \<open>open_connection\<close>
  threw sends nothing and does not read the response.
\<close>

theorem opened_client_posts:
  fixes code reason body d rest page garbage
  defines "h \<equiv> cstr ''HTTP/1.1 '' @ code @ 32 # reason"
  assumes "TCP_open_connection net host port timeout (c, t) = (r, c', t')" "\<not> m_is_connected c"
    and "length (if d = [] then header_post page host else header_post_with_data page host (length d)) < m_header_size"
    and "length code = 3" "list_all is_digit_byte code" "0 \<notin> set (h @ crlf2 @ body)"
    and "strstr (h @ butlast crlf2) crlf2 = None" "length (h @ crlf2 @ body) < 2048"
  shows "HTTP_post en send (client.truncate c') (m_ip c') page (Some d) (-1) garbage (Chunk (h @ crlf2 @ body) # rest) =
    (if r = Inr 1
     then Some (if code = cstr ''200'' then Inr body else Inl (HttpCode code), post_request page host d, rest)
     else Some (Inl Undefined, [], Chunk (h @ crlf2 @ body) # rest))"
proof (cases "r = Inr 1")
  case True
  have "m_is_connected (client.truncate c')" "m_ip c' = host"
    using TCP_open_flag [OF assms(2)] True by (auto simp: client.truncate_def)
  then show ?thesis
    using post_single_piece [of "client.truncate c'" d page host code reason body] assms(4-) True by (simp add: h_def)
next
  case False
  have "\<not> m_is_connected (client.truncate c')" "m_ip c' = host"
    using TCP_open_flag [OF assms(2)] False assms(3) by (auto simp: client.truncate_def)
  then show ?thesis
    using False snprintf_header_fits [OF assms(4)]
    by (cases "d = []") (simp_all add: HTTP_post_def TCP_readS_def TCP_writeS_def stream_writeS_def c_result_def
      terminate_response_def)
qed

theorem opened_client_posts_witness:
  "\<exists>c' t'. TCP_open_connection (refusing\<lparr>connect_errno := (\<lambda>_ _. None)\<rparr>) (cstr ''h'') 80 (-1) (new_tcp, []) = (Inr 1, c', t') \<and>
     HTTP_post Little send_all (client.truncate c') (m_ip c') (cstr ''/'') (Some []) (-1) (\<lambda>_. 1)
       [Chunk (cstr ''HTTP/1.1 200 OK'' @ crlf2 @ [65])] = Some (Inr [65], header_post (cstr ''/'') (cstr ''h''), [])"
proof -
  let ?net = "refusing\<lparr>connect_errno := (\<lambda>_ _. None)\<rparr>"
  let ?h = "cstr ''HTTP/1.1 '' @ cstr ''200'' @ 32 # cstr ''OK''"
  obtain c' t' where run: "TCP_open_connection ?net (cstr ''h'') 80 (-1) (new_tcp, []) = (Inr 1, c', t')"
    by (simp add: TCP_open_connection_def sys_socket_def refusing_def await_connection_def check_socket_def)
  have "\<not> m_is_connected new_tcp" by (simp add: new_tcp_def)
  moreover have "length (if [] = ([] :: u8 list) then header_post (cstr ''/'') (cstr ''h'')
      else header_post_with_data (cstr ''/'') (cstr ''h'') (length ([] :: u8 list))) < m_header_size"
    by (simp add: header_post_def m_header_size_def cstr_def lf_def)
  moreover have "length (cstr ''200'') = 3" "list_all is_digit_byte (cstr ''200'')"
    by (simp_all add: cstr_def is_digit_byte_def)
  moreover have "0 \<notin> set (?h @ crlf2 @ [65])" "strstr (?h @ butlast crlf2) crlf2 = None"
    "length (?h @ crlf2 @ [65]) < 2048"
    by (simp_all add: cstr_def crlf2_def)
  ultimately have "HTTP_post Little send_all (client.truncate c') (m_ip c') (cstr ''/'') (Some []) (-1) (\<lambda>_. 1)
      (Chunk (?h @ crlf2 @ [65]) # []) =
    (if Inr 1 = (Inr 1 :: open_error + int)
     then Some (if cstr ''200'' = cstr ''200'' then Inr [65] else Inl (HttpCode (cstr ''200'')),
       post_request (cstr ''/'') (cstr ''h'') [], [])
     else Some (Inl Undefined, [], Chunk (?h @ crlf2 @ [65]) # []))"
    by (rule opened_client_posts [OF run])
  then show ?thesis using run by (auto simp: post_request_def cstr_def)
qed

end
